(* ===== verification/Prelude.thy ===== *)
theory Prelude
  imports Main "HOL-Library.List_Lexorder" "HOL-Library.Char_ord" "HOL-Library.Product_Lexorder"
    "HOL-Library.Multiset"
begin

text \<open>
  Shared vocabulary of the development.

  \<^item> Results: a Python function that may raise is a function into \<open>'e + 'a\<close>, \<open>Inl\<close> the
    exception; \<open>rbind\<close> sequences two such calls and stops at the first exception.
  \<^item> Tables: a relational table is the list of its rows. \<open>update_where\<close>, \<open>delete_where\<close> and
    \<open>rowcount\<close> are the SQL statements the repositories issue, \<open>find\<close> is a select on a unique key.
  \<^item> The Python library functions the components use: \<open>dict.fromkeys\<close> on a sequence (\<open>dedup\<close>),
    \<open>str.lower\<close>, \<open>str.strip\<close>, and \<open>sorted\<close> with a comparison function.
  \<^item> Interfaces that several components implement: a lifecycle policy with terminal states
    (\<open>lifecycle_policy\<close>), a system with an invariant (\<open>invariant_system\<close>) and a comparison
    function fit for \<open>sorted\<close> (\<open>comparison\<close>).
  Strings are byte strings (the UTF-8 encoding of the Python text), ordered bytewise.
\<close>

named_theorems result_simps \<open>equations that take apart results of fallible calls\<close>
named_theorems table_simps \<open>equations for selects after guarded updates and deletes\<close>

section \<open>Results\<close>

fun rbind :: "'e + 'a \<Rightarrow> ('a \<Rightarrow> 'e + 'b) \<Rightarrow> 'e + 'b" where
  "rbind (Inl e) f = Inl e"
| "rbind (Inr x) f = f x"

lemma rbind_Inr_iff [result_simps]: "rbind m f = Inr y \<longleftrightarrow> (\<exists>x. m = Inr x \<and> f x = Inr y)"
  by (cases m) auto

lemma rbind_Inl_iff [result_simps]:
  "rbind m f = Inl e \<longleftrightarrow> m = Inl e \<or> (\<exists>x. m = Inr x \<and> f x = Inl e)"
  by (cases m) auto

definition require :: "bool \<Rightarrow> 'e \<Rightarrow> 'e + unit" where
  "require b e = (if b then Inr () else Inl e)"

lemma require_Inr_iff [result_simps]: "require b e = Inr u \<longleftrightarrow> b"
  by (simp add: require_def)

lemma require_Inl_iff [result_simps]: "require b e = Inl e' \<longleftrightarrow> \<not> b \<and> e' = e"
  by (auto simp: require_def)

definition of_option :: "'e \<Rightarrow> 'a option \<Rightarrow> 'e + 'a" where
  "of_option e v = (case v of None \<Rightarrow> Inl e | Some x \<Rightarrow> Inr x)"

lemma of_option_Inr_iff [result_simps]: "of_option e v = Inr x \<longleftrightarrow> v = Some x"
  by (auto simp: of_option_def split: option.splits)

lemma of_option_Inl_iff [result_simps]: "of_option e v = Inl e' \<longleftrightarrow> v = None \<and> e' = e"
  by (auto simp: of_option_def split: option.splits)

section \<open>Tables\<close>

definition update_where :: "('r \<Rightarrow> bool) \<Rightarrow> ('r \<Rightarrow> 'r) \<Rightarrow> 'r list \<Rightarrow> 'r list" where
  "update_where P f rows = map (\<lambda>r. if P r then f r else r) rows"

definition delete_where :: "('r \<Rightarrow> bool) \<Rightarrow> 'r list \<Rightarrow> 'r list" where
  "delete_where P rows = filter (\<lambda>r. \<not> P r) rows"

definition rowcount :: "('r \<Rightarrow> bool) \<Rightarrow> 'r list \<Rightarrow> nat" where
  "rowcount P rows = length (filter P rows)"

lemma update_where_Nil [simp]: "update_where P f [] = []"
  by (simp add: update_where_def)

lemma update_where_Cons [simp]:
  "update_where P f (r # rows) = (if P r then f r else r) # update_where P f rows"
  by (simp add: update_where_def)

lemma delete_where_Nil [simp]: "delete_where P [] = []"
  by (simp add: delete_where_def)

lemma delete_where_Cons [simp]:
  "delete_where P (r # rows) = (if P r then delete_where P rows else r # delete_where P rows)"
  by (simp add: delete_where_def)

lemma rowcount_Nil [simp]: "rowcount P [] = 0"
  by (simp add: rowcount_def)

lemma rowcount_Cons [simp]:
  "rowcount P (r # rows) = (if P r then Suc (rowcount P rows) else rowcount P rows)"
  by (simp add: rowcount_def)

lemma set_update_where [table_simps]:
  "set (update_where P f rows) = (\<lambda>r. if P r then f r else r) ` set rows"
  by (simp add: update_where_def)

lemma set_delete_where [table_simps]: "set (delete_where P rows) = {r \<in> set rows. \<not> P r}"
  by (auto simp: delete_where_def)

lemma update_whereE:
  assumes "r \<in> set (update_where P f rows)"
  obtains r' where "r' \<in> set rows" "r = (if P r' then f r' else r')"
  using assms by (auto simp: update_where_def)

lemma length_update_where [simp]: "length (update_where P f rows) = length rows"
  by (simp add: update_where_def)

lemma map_update_where [table_simps]:
  assumes "\<And>r. P r \<Longrightarrow> g (f r) = g r"
  shows "map g (update_where P f rows) = map g rows"
  using assms by (induction rows) auto

lemma image_update_where [table_simps]:
  assumes "\<And>r. P r \<Longrightarrow> g (f r) = g r"
  shows "g ` set (update_where P f rows) = g ` set rows"
  using map_update_where [of P g f rows, OF assms] by (metis list.set_map)

lemma map_delete_where_distinct:
  "distinct (map g rows) \<Longrightarrow> distinct (map g (delete_where P rows))"
  by (induction rows) (auto simp: set_delete_where)

lemma update_where_none: "(\<And>r. r \<in> set rows \<Longrightarrow> \<not> P r) \<Longrightarrow> update_where P f rows = rows"
  by (induction rows) auto

lemma find_update_where [table_simps]:
  assumes "\<And>r. P r \<Longrightarrow> key (f r) = key r"
  shows "find (\<lambda>r. key r = k) (update_where P f rows)
    = map_option (\<lambda>r. if P r then f r else r) (find (\<lambda>r. key r = k) rows)"
  using assms by (induction rows) auto

lemma find_key_Some: "find (\<lambda>r. key r = k) rows = Some r \<Longrightarrow> r \<in> set rows \<and> key r = k"
  by (auto simp: find_Some_iff)

lemma find_key_None: "find (\<lambda>r. key r = k) rows = None \<longleftrightarrow> k \<notin> key ` set rows"
  by (auto simp: find_None_iff)

lemma find_key_unique:
  assumes "distinct (map key rows)" and "r \<in> set rows"
  shows "find (\<lambda>x. key x = key r) rows = Some r"
  using assms by (induction rows) (auto simp: rev_image_eqI)

lemma find_key_iff:
  assumes "distinct (map key rows)"
  shows "find (\<lambda>x. key x = k) rows = Some r \<longleftrightarrow> r \<in> set rows \<and> key r = k"
  using assms find_key_unique find_key_Some by fastforce

lemma find_delete_where_key [table_simps]:
  "find (\<lambda>r. key r = k) (delete_where (\<lambda>r. key r = k') rows)
    = (if k = k' then None else find (\<lambda>r. key r = k) rows)"
  by (induction rows) auto

lemma key_unique:
  "distinct (map key rows) \<Longrightarrow> r \<in> set rows \<Longrightarrow> r' \<in> set rows \<Longrightarrow> key r = key r' \<Longrightarrow> r = r'"
  by (metis find_key_unique option.inject)

lemma rowcount_zero: "rowcount P rows = 0 \<longleftrightarrow> (\<forall>r \<in> set rows. \<not> P r)"
  by (induction rows) auto

lemma rowcount_key:
  assumes "distinct (map key rows)"
  shows "rowcount (\<lambda>r. key r = k \<and> Q r) rows
    = (case find (\<lambda>r. key r = k) rows of None \<Rightarrow> 0 | Some r \<Rightarrow> if Q r then 1 else 0)"
  using assms
proof (induction rows)
  case Nil
  then show ?case by simp
next
  case (Cons r rows)
  show ?case
  proof (cases "key r = k")
    case True
    with Cons.prems have "find (\<lambda>x. key x = k) rows = None" by (simp add: find_key_None)
    with Cons True show ?thesis by simp
  next
    case False
    with Cons show ?thesis by simp
  qed
qed

lemma rowcount_key_one:
  assumes "distinct (map key rows)"
  shows "rowcount (\<lambda>r. key r = k \<and> Q r) rows = 1
    \<longleftrightarrow> (\<exists>r. find (\<lambda>r. key r = k) rows = Some r \<and> Q r)"
  by (simp add: rowcount_key [OF assms] split: option.splits)

lemma rowcount_update_where:
  "rowcount Q (update_where P f rows) = rowcount (\<lambda>r. Q (if P r then f r else r)) rows"
  by (induction rows) auto

lemma rowcount_append [simp]: "rowcount P (xs @ ys) = rowcount P xs + rowcount P ys"
  by (simp add: rowcount_def)

lemma rowcount_cong: "(\<And>r. r \<in> set rows \<Longrightarrow> P r = Q r) \<Longrightarrow> rowcount P rows = rowcount Q rows"
  by (induction rows) auto

lemma rowcount_delete_where:
  "rowcount Q (delete_where P rows) = rowcount (\<lambda>r. Q r \<and> \<not> P r) rows"
  by (induction rows) auto

lemma rowcount_delete_key:
  assumes "distinct (map key rows)" and "r \<in> set rows"
  shows "rowcount Q (delete_where (\<lambda>x. key x = key r) rows) + (if Q r then 1 else 0) = rowcount Q rows"
  using assms
proof (induction rows)
  case Nil
  then show ?case by simp
next
  case (Cons x rows)
  show ?case
  proof (cases "x = r")
    case True
    with Cons.prems have "\<And>y. y \<in> set rows \<Longrightarrow> key y \<noteq> key r" by (metis distinct.simps(2) imageI list.map(2) list.set_map)
    then have "delete_where (\<lambda>x. key x = key r) rows = rows"
      by (simp add: delete_where_def)
    with True show ?thesis by simp
  next
    case False
    with Cons.prems have "r \<in> set rows" and "key x \<noteq> key r" by auto
    with Cons show ?thesis by simp
  qed
qed

text \<open>The total of an integer column, and how it changes when one keyed row is rewritten.\<close>

definition total :: "('r \<Rightarrow> int) \<Rightarrow> 'r list \<Rightarrow> int" where
  "total g rows = sum_list (map g rows)"

lemma total_Nil [simp]: "total g [] = 0"
  by (simp add: total_def)

lemma total_Cons [simp]: "total g (r # rows) = g r + total g rows"
  by (simp add: total_def)

lemma total_append [simp]: "total g (xs @ ys) = total g xs + total g ys"
  by (simp add: total_def)

lemma total_update_where:
  "total g (update_where P f rows) = total (\<lambda>r. g (if P r then f r else r)) rows"
  by (induction rows) auto

lemma total_cong: "(\<And>r. r \<in> set rows \<Longrightarrow> g r = h r) \<Longrightarrow> total g rows = total h rows"
  by (induction rows) auto

lemma total_nonneg: "(\<And>r. r \<in> set rows \<Longrightarrow> 0 \<le> g r) \<Longrightarrow> 0 \<le> total g rows"
  by (induction rows) fastforce+

lemma total_member_le:
  "r \<in> set rows \<Longrightarrow> (\<And>x. x \<in> set rows \<Longrightarrow> 0 \<le> g x) \<Longrightarrow> g r \<le> total g rows"
proof (induction rows)
  case (Cons x rows)
  then have "0 \<le> total g rows" and "0 \<le> g x" by (auto intro: total_nonneg)
  with Cons show ?case by fastforce
qed simp

lemma total_update_one:
  assumes "distinct rows" and "r \<in> set rows" and "\<forall>x \<in> set rows. P x \<longleftrightarrow> x = r"
  shows "total g (update_where P f rows) = total g rows - g r + g (f r)"
  using assms
proof (induction rows)
  case Nil
  then show ?case by simp
next
  case (Cons x rows)
  show ?case
  proof (cases "x = r")
    case True
    with Cons.prems(1) have "r \<notin> set rows" by simp
    then have "update_where P f rows = rows"
      using Cons.prems(3) by (intro update_where_none) auto
    then show ?thesis using True Cons.prems(3) by simp
  next
    case False
    with Cons show ?thesis by simp
  qed
qed

lemma total_update_key:
  assumes "distinct (map key rows)" and "r \<in> set rows" and "key r = k" and "Q r"
  shows "total g (update_where (\<lambda>x. key x = k \<and> Q x) f rows) = total g rows - g r + g (f r)"
  using assms by (intro total_update_one) (auto simp: distinct_map dest: inj_onD)

section \<open>Python library functions\<close>

text \<open>\<open>dict.fromkeys(xs)\<close>: the distinct elements in the order of their first occurrence.\<close>

fun dedup :: "'a list \<Rightarrow> 'a list" where
  "dedup [] = []"
| "dedup (x # xs) = x # filter (\<lambda>y. y \<noteq> x) (dedup xs)"

lemma set_dedup [simp]: "set (dedup xs) = set xs"
  by (induction xs) auto

lemma distinct_dedup [simp]: "distinct (dedup xs)"
  by (induction xs) auto

lemma dedup_eq_Nil [simp]: "dedup xs = [] \<longleftrightarrow> xs = []"
  by (cases xs) auto

lemma dedup_distinct: "distinct xs \<Longrightarrow> dedup xs = xs"
  by (induction xs) (auto simp: filter_id_conv)

text \<open>\<open>str.lower\<close> and \<open>str.strip\<close> on ASCII text.\<close>

definition lower_char :: "char \<Rightarrow> char" where
  "lower_char c = (if 65 \<le> (of_char c :: nat) \<and> (of_char c :: nat) \<le> 90
     then char_of ((of_char c :: nat) + 32) else c)"

definition lower :: "string \<Rightarrow> string" where
  "lower s = map lower_char s"

definition is_space :: "char \<Rightarrow> bool" where
  "is_space c = ((of_char c :: nat) \<in> {9, 10, 11, 12, 13, 28, 29, 30, 31, 32})"

text \<open>\<^verbatim>\<open>\s\<close> of a regular expression over code points below 256.\<close>

definition re_space :: "char \<Rightarrow> bool" where
  "re_space c = (is_space c \<or> (of_char c :: nat) \<in> {133, 160})"

text \<open>\<^verbatim>\<open>pat in s\<close> on strings.\<close>

fun contains :: "string \<Rightarrow> string \<Rightarrow> bool" where
  "contains pat [] = (pat = [])"
| "contains pat (c # s) = (take (length pat) (c # s) = pat \<or> contains pat s)"

definition strip :: "string \<Rightarrow> string" where
  "strip s = rev (dropWhile is_space (rev (dropWhile is_space s)))"

lemma lower_char_idem [simp]: "lower_char (lower_char c) = lower_char c"
  by (auto simp: lower_char_def)

lemma lower_idem [simp]: "lower (lower s) = lower s"
  by (simp add: lower_def)

lemma length_lower [simp]: "length (lower s) = length s"
  by (simp add: lower_def)

text \<open>\<open>value or default\<close> for an optional text: the empty text counts as missing.\<close>

definition text_or :: "string option \<Rightarrow> string \<Rightarrow> string" where
  "text_or v d = (case v of None \<Rightarrow> d | Some s \<Rightarrow> if s = [] then d else s)"

definition text_or_none :: "string option \<Rightarrow> string option" where
  "text_or_none v = (case v of None \<Rightarrow> None | Some s \<Rightarrow> if s = [] then None else Some s)"

text \<open>
  \<open>sorted(xs, key=cmp_to_key(cmp))\<close>: a stable sort by a comparison function whose negative
  results mean "first before second".
\<close>

fun insert_cmp :: "('a \<Rightarrow> 'a \<Rightarrow> int) \<Rightarrow> 'a \<Rightarrow> 'a list \<Rightarrow> 'a list" where
  "insert_cmp cmp x [] = [x]"
| "insert_cmp cmp x (y # ys) = (if cmp y x < 0 then y # insert_cmp cmp x ys else x # y # ys)"

fun sort_cmp :: "('a \<Rightarrow> 'a \<Rightarrow> int) \<Rightarrow> 'a list \<Rightarrow> 'a list" where
  "sort_cmp cmp [] = []"
| "sort_cmp cmp (x # xs) = insert_cmp cmp x (sort_cmp cmp xs)"

lemma mset_insert_cmp [simp]: "mset (insert_cmp cmp x xs) = {#x#} + mset xs"
  by (induction xs) auto

lemma mset_sort_cmp [simp]: "mset (sort_cmp cmp xs) = mset xs"
  by (induction xs) auto

lemma set_sort_cmp [simp]: "set (sort_cmp cmp xs) = set xs"
  by (metis mset_sort_cmp set_mset_mset)

lemma set_insert_cmp [simp]: "set (insert_cmp cmp x xs) = insert x (set xs)"
  by (metis insert_is_Un mset_insert_cmp set_mset_add_mset_insert set_mset_mset add_mset_add_single union_commute)

lemma length_sort_cmp [simp]: "length (sort_cmp cmp xs) = length xs"
  by (metis mset_sort_cmp size_mset)

lemma sort_cmp_eq_Nil [simp]: "sort_cmp cmp xs = [] \<longleftrightarrow> xs = []"
  by (metis length_0_conv length_sort_cmp)

section \<open>Interfaces\<close>

text \<open>
  A comparison function on the values satisfying \<open>ok\<close> that is total, antisymmetric up to a
  zero result and transitive: what Python's \<open>sorted\<close> needs to return the same order for every
  input order.
\<close>

locale comparison =
  fixes cmp :: "'a \<Rightarrow> 'a \<Rightarrow> int" and key :: "'a \<Rightarrow> 'k" and ok :: "'a \<Rightarrow> bool"
  assumes cmp_sym: "ok x \<Longrightarrow> ok y \<Longrightarrow> cmp x y < 0 \<longleftrightarrow> cmp y x > 0"
    and cmp_zero: "ok x \<Longrightarrow> ok y \<Longrightarrow> cmp x y = 0 \<Longrightarrow> key x = key y"
    and cmp_refl: "ok x \<Longrightarrow> cmp x x = 0"
    and cmp_le_trans: "ok x \<Longrightarrow> ok y \<Longrightarrow> ok z \<Longrightarrow> cmp x y \<le> 0 \<Longrightarrow> cmp y z \<le> 0 \<Longrightarrow> cmp x z \<le> 0"
begin

lemma not_less_le: "ok x \<Longrightarrow> ok y \<Longrightarrow> \<not> cmp y x < 0 \<Longrightarrow> cmp x y \<le> 0"
  using cmp_sym [of y x] by linarith

lemma le_antisym_key: "ok x \<Longrightarrow> ok y \<Longrightarrow> cmp x y \<le> 0 \<Longrightarrow> cmp y x \<le> 0 \<Longrightarrow> key x = key y"
  using cmp_sym [of x y] cmp_zero [of x y] by linarith

lemma sorted_insert_cmp:
  assumes "\<forall>y \<in> set (x # xs). ok y" and "sorted_wrt (\<lambda>a b. cmp a b \<le> 0) xs"
  shows "sorted_wrt (\<lambda>a b. cmp a b \<le> 0) (insert_cmp cmp x xs)"
  using assms
proof (induction xs)
  case Nil
  then show ?case by simp
next
  case (Cons y ys)
  show ?case
  proof (cases "cmp y x < 0")
    case True
    with Cons show ?thesis by auto
  next
    case False
    with Cons.prems have "cmp x y \<le> 0" by (intro not_less_le) auto
    moreover have "cmp x z \<le> 0" if "z \<in> set ys" for z
      by (rule cmp_le_trans [of x y z]) (use that calculation Cons.prems in auto)
    ultimately show ?thesis using False Cons.prems by simp
  qed
qed

lemma sorted_sort_cmp:
  "\<forall>y \<in> set xs. ok y \<Longrightarrow> sorted_wrt (\<lambda>a b. cmp a b \<le> 0) (sort_cmp cmp xs)"
  by (induction xs) (simp_all add: sorted_insert_cmp)

lemma sorted_cmp_unique:
  assumes "\<forall>y \<in> set xs. ok y" and "inj_on key (set xs)" and "mset xs = mset ys"
    and "sorted_wrt (\<lambda>a b. cmp a b \<le> 0) xs" and "sorted_wrt (\<lambda>a b. cmp a b \<le> 0) ys"
  shows "xs = ys"
  using assms
proof (induction xs arbitrary: ys)
  case Nil
  then show ?case by simp
next
  case (Cons x xs)
  then obtain y ys' where ys: "ys = y # ys'" by (cases ys) auto
  have sets: "set (x # xs) = set (y # ys')" using Cons.prems(3) ys by (metis set_mset_mset)
  then have ok: "ok x" "ok y" and y: "y \<in> set (x # xs)" using Cons.prems(1) by auto
  have "x = y"
  proof (rule ccontr)
    assume "x \<noteq> y"
    with sets have "y \<in> set xs" and "x \<in> set ys'" by auto
    with Cons.prems(4,5) ys have "cmp x y \<le> 0" and "cmp y x \<le> 0" by auto
    with ok have "key x = key y" by (metis le_antisym_key)
    with \<open>x \<noteq> y\<close> y show False using Cons.prems(2) by (auto dest: inj_onD)
  qed
  moreover have "xs = ys'" by (rule Cons.IH) (use Cons.prems ys calculation in \<open>auto simp: inj_on_def\<close>)
  ultimately show ?case using ys by simp
qed

lemma sort_cmp_order_independent:
  assumes "\<forall>y \<in> set xs. ok y" and "inj_on key (set xs)" and "mset xs = mset ys"
  shows "sort_cmp cmp xs = sort_cmp cmp ys"
proof -
  have "\<forall>y \<in> set ys. ok y" using assms(1,3) by (metis set_mset_mset)
  then show ?thesis using assms by (intro sorted_cmp_unique) (simp_all add: sorted_sort_cmp)
qed

lemma hd_sort_cmp_least:
  assumes "\<forall>y \<in> set xs. ok y" and "sort_cmp cmp xs = x # rest" and "y \<in> set xs"
  shows "cmp x y \<le> 0"
proof -
  have "sorted_wrt (\<lambda>a b. cmp a b \<le> 0) (x # rest)" using sorted_sort_cmp [OF assms(1)] assms(2) by simp
  moreover have "y \<in> set (x # rest)" using assms(2,3) by (metis set_sort_cmp)
  moreover have "ok x" using assms(1,2) by (metis list.set_intros(1) set_sort_cmp)
  ultimately show ?thesis using cmp_refl by auto
qed

end

text \<open>A table of legal status changes in which the terminal statuses have no successor.\<close>

locale lifecycle_policy =
  fixes allows :: "'s \<Rightarrow> 's \<Rightarrow> bool" and terminal :: "'s \<Rightarrow> bool"
  assumes terminal_final: "terminal s \<Longrightarrow> \<not> allows s t"
    and nonterminal_progress: "\<not> terminal s \<Longrightarrow> \<exists>t. allows s t"
    and irreflexive: "\<not> allows s s"
begin

lemma terminal_iff_stuck: "terminal s \<longleftrightarrow> (\<forall>t. \<not> allows s t)"
  using terminal_final nonterminal_progress by blast

lemma terminal_absorbing: "allows\<^sup>*\<^sup>* s t \<Longrightarrow> terminal s \<Longrightarrow> t = s"
  by (induction rule: rtranclp_induct) (auto dest: terminal_final)

end

text \<open>
  A system given by its start states and its steps, with a predicate that holds at the start
  and that every step keeps. \<open>reach\<close> is the set of reachable states, \<open>path\<close> a sequence of steps with
  its events.
\<close>

inductive reach :: "('s \<Rightarrow> bool) \<Rightarrow> ('s \<Rightarrow> 'e \<Rightarrow> 's \<Rightarrow> bool) \<Rightarrow> 's \<Rightarrow> bool"
  for start :: "'s \<Rightarrow> bool" and step :: "'s \<Rightarrow> 'e \<Rightarrow> 's \<Rightarrow> bool" where
  reach_start: "start s \<Longrightarrow> reach start step s"
| reach_step: "reach start step s \<Longrightarrow> step s e t \<Longrightarrow> reach start step t"

inductive path :: "('s \<Rightarrow> 'e \<Rightarrow> 's \<Rightarrow> bool) \<Rightarrow> 's \<Rightarrow> 'e list \<Rightarrow> 's \<Rightarrow> bool"
  for step :: "'s \<Rightarrow> 'e \<Rightarrow> 's \<Rightarrow> bool" where
  path_nil: "path step s [] s"
| path_cons: "step s e t \<Longrightarrow> path step t es u \<Longrightarrow> path step s (e # es) u"

inductive_cases path_consE: "path step s (e # es) u"
inductive_simps path_nil_iff [simp]: "path step s [] t"

lemma path_single: "step s e t \<Longrightarrow> path step s [e] t"
  by (auto intro: path.intros)

lemma path_append: "path step s es t \<Longrightarrow> path step t fs u \<Longrightarrow> path step s (es @ fs) u"
  by (induction rule: path.induct) (auto intro: path.intros)

locale invariant_system =
  fixes start :: "'s \<Rightarrow> bool" and step :: "'s \<Rightarrow> 'e \<Rightarrow> 's \<Rightarrow> bool" and inv :: "'s \<Rightarrow> bool"
  assumes inv_start: "start s \<Longrightarrow> inv s"
    and inv_step: "inv s \<Longrightarrow> step s e t \<Longrightarrow> inv t"
begin

lemma inv_reach: "reach start step s \<Longrightarrow> inv s"
  by (induction rule: reach.induct) (auto intro: inv_start inv_step)

lemma inv_path: "path step s es t \<Longrightarrow> inv s \<Longrightarrow> inv t"
  by (induction rule: path.induct) (auto intro: inv_step)

end

end
