(* ===== verification/Task_Domain.thy ===== *)
theory Task_Domain
  imports Prelude
begin

text \<open>
  The domain layer of task coordination (\<^verbatim>\<open>server/domain\<close>): the task statuses and their
  parsing, the entities the repositories return, the outcome values of the service, and the two
  policies that decide who may check a task out, renew it, complete it or give it back.

  A point in time is an integer number of microseconds; \<open>seconds n\<close> is
  \<^verbatim>\<open>timedelta(seconds=n)\<close>.
\<close>

type_synonym time = int

definition seconds :: "int \<Rightarrow> int" where
  "seconds n = n * 1000000"

lemma seconds_mono [simp]: "seconds a \<le> seconds b \<longleftrightarrow> a \<le> b" "seconds a < seconds b \<longleftrightarrow> a < b"
  by (simp_all add: seconds_def)

lemma seconds_zero [simp]: "seconds 0 = 0"
  by (simp add: seconds_def)

lemma seconds_pos [simp]: "0 < seconds n \<longleftrightarrow> 0 < n" "0 \<le> seconds n \<longleftrightarrow> 0 \<le> n"
  by (simp_all add: seconds_def)

section \<open>Task statuses\<close>

datatype task_status = TASK_PENDING | TASK_IN_PROGRESS | TASK_COMPLETED

fun task_status_value :: "task_status \<Rightarrow> string" where
  "task_status_value TASK_PENDING = ''pending''"
| "task_status_value TASK_IN_PROGRESS = ''in_progress''"
| "task_status_value TASK_COMPLETED = ''completed''"

text \<open>\<open>str | TaskStatus | None\<close>, the argument type of the two helpers.\<close>

datatype status_input = NoStatus | StatusText string | StatusMember task_status

definition task_status_values :: "string list" where
  "task_status_values = map task_status_value [TASK_PENDING, TASK_IN_PROGRESS, TASK_COMPLETED]"

fun is_valid_task_status :: "status_input \<Rightarrow> bool" where
  "is_valid_task_status NoStatus = False"
| "is_valid_task_status (StatusMember s) = True"
| "is_valid_task_status (StatusText v) = (v \<in> set task_status_values)"

text \<open>\<open>TaskStatus(value)\<close>, the enumeration lookup by value: \<open>None\<close> is the \<open>ValueError\<close>.\<close>

definition task_status_of_value :: "string \<Rightarrow> task_status option" where
  "task_status_of_value v =
     find (\<lambda>s. task_status_value s = v) [TASK_PENDING, TASK_IN_PROGRESS, TASK_COMPLETED]"

text \<open>\<open>Inl v\<close> is the \<open>ValueError\<close> for an unknown value \<open>v\<close>.\<close>

fun normalize_task_status :: "status_input \<Rightarrow> string + task_status option" where
  "normalize_task_status NoStatus = Inr None"
| "normalize_task_status (StatusMember s) = Inr (Some s)"
| "normalize_task_status (StatusText v) =
     (case task_status_of_value v of None \<Rightarrow> Inl v | Some s \<Rightarrow> Inr (Some s))"

lemma task_status_of_value_roundtrip [simp]: "task_status_of_value (task_status_value s) = Some s"
  by (cases s) (simp_all add: task_status_of_value_def)

lemma task_status_of_value_Some: "task_status_of_value v = Some s \<Longrightarrow> v = task_status_value s"
  by (auto simp: task_status_of_value_def split: if_splits)

lemma task_status_of_value_None: "task_status_of_value v = None \<longleftrightarrow> v \<notin> set task_status_values"
  by (auto simp: task_status_of_value_def task_status_values_def)

section \<open>Entities and outcomes\<close>

record task_record =
  tr_id :: int
  tr_title :: string
  tr_description :: string
  tr_status :: task_status
  tr_priority :: int
  tr_depends_on :: "int list"
  tr_completed_notes :: "string option"

definition with_status :: "task_record \<Rightarrow> task_status \<Rightarrow> string option \<Rightarrow> task_record" where
  "with_status task status notes = task\<lparr>tr_status := status, tr_completed_notes := notes\<rparr>"

record lease_record =
  lr_task_id :: int
  lr_agent_id :: string
  lr_issued_at :: time
  lr_expires_at :: time

definition lease_refresh :: "lease_record \<Rightarrow> time \<Rightarrow> lease_record" where
  "lease_refresh lease expires = lease\<lparr>lr_expires_at := expires\<rparr>"

record plan_version_snapshot =
  pv_value :: int
  pv_updated_at :: time

record system_state =
  ss_maintenance_mode :: bool
  ss_message :: "string option"
  ss_updated_at :: time
  ss_version :: int

text \<open>
  The averages of \<open>TaskAnalytics\<close> are kept as the quotient the code divides:
  \<open>None\<close> for the literal 0.0, \<open>Some (a, b)\<close> for \<^verbatim>\<open>float(a) / float(b)\<close>.
\<close>

record task_analytics =
  total_tasks :: int
  pending_tasks :: int
  in_progress_tasks :: int
  completed_tasks :: int
  ready_tasks :: int
  blocked_tasks :: int
  with_dependencies :: int
  without_dependencies :: int
  dependency_edges :: int
  missing_dependency_tasks :: int
  missing_dependency_edges :: int
  average_dependencies :: "(int \<times> int) option"

record checkout_result =
  cr_task :: "task_record option"
  cr_lease :: "lease_record option"
  cr_reason :: "string option"
  cr_message :: "string option"

record completion_result =
  co_ok :: bool
  co_task :: "task_record option"
  co_notes :: "string option"

record heartbeat_result =
  hb_ok :: bool
  hb_task_id :: int

section \<open>Policies\<close>

definition is_available :: "task_record \<Rightarrow> bool \<Rightarrow> lease_record option \<Rightarrow> time \<Rightarrow> bool" where
  "is_available task dependencies_completed lease now =
     (if tr_status task \<noteq> TASK_PENDING then False
      else if \<not> dependencies_completed then False
      else \<not> (case lease of None \<Rightarrow> False | Some l \<Rightarrow> lr_expires_at l > now))"

definition deadline :: "int \<Rightarrow> time \<Rightarrow> time" where
  "deadline lease_duration_seconds now = now + seconds lease_duration_seconds"

definition can_heartbeat :: "lease_record option \<Rightarrow> string \<Rightarrow> time \<Rightarrow> bool" where
  "can_heartbeat lease agent_id now =
     (case lease of None \<Rightarrow> False | Some l \<Rightarrow> lr_agent_id l = agent_id \<and> lr_expires_at l > now)"

definition can_complete :: "lease_record option \<Rightarrow> string \<Rightarrow> time \<Rightarrow> bool" where
  "can_complete lease agent_id now =
     (case lease of None \<Rightarrow> True
      | Some l \<Rightarrow> if lr_agent_id l = agent_id then True else lr_expires_at l \<le> now)"

definition can_abandon :: "lease_record option \<Rightarrow> string \<Rightarrow> time \<Rightarrow> bool" where
  "can_abandon lease agent_id now =
     (case lease of None \<Rightarrow> True
      | Some l \<Rightarrow> if lr_agent_id l = agent_id then True else lr_expires_at l \<le> now)"

definition policy_refresh :: "int \<Rightarrow> lease_record \<Rightarrow> time \<Rightarrow> lease_record" where
  "policy_refresh duration lease now = lease_refresh lease (deadline duration now)"

definition new_lease :: "int \<Rightarrow> int \<Rightarrow> string \<Rightarrow> time \<Rightarrow> lease_record" where
  "new_lease duration task_id agent_id now =
     \<lparr>lr_task_id = task_id, lr_agent_id = agent_id, lr_issued_at = now,
      lr_expires_at = deadline duration now\<rparr>"

text \<open>A lease that is live for another agent is the only reason to refuse a completion.\<close>

lemma can_complete_iff:
  "can_complete lease agent now \<longleftrightarrow>
     \<not> (\<exists>l. lease = Some l \<and> lr_agent_id l \<noteq> agent \<and> lr_expires_at l > now)"
  by (auto simp: can_complete_def split: option.splits)

lemma can_abandon_eq_can_complete: "can_abandon = can_complete"
  by (intro ext) (simp add: can_abandon_def can_complete_def)

lemma can_heartbeat_new_lease:
  "can_heartbeat (Some (new_lease duration t agent issued)) agent now
     \<longleftrightarrow> now < issued + seconds duration"
  by (simp add: can_heartbeat_def new_lease_def deadline_def)

end
