(* ===== verification/Task_Store.thy ===== *)
theory Task_Store
  imports Task_Domain
begin

text \<open>
  The persistence of task coordination: the tables of \<^verbatim>\<open>server/models.py\<close> that belong to
  it and the SQLAlchemy repositories of \<^verbatim>\<open>server/infrastructure/repositories.py\<close>, one
  definition per method. The primary key of an inserted task is chosen by the database, so it is
  an argument of \<open>task_create\<close>; the audit columns \<open>created_at\<close> and \<open>updated_at\<close> of tasks,
  which no operation reads, are left out. The creation time of a lease row is an argument of
  \<open>lease_save\<close>, as the column default reads the clock.

  \<open>lease_repository\<close> states what the \<open>LeaseRepository\<close> protocol of
  \<^verbatim>\<open>server/domain/repositories.py\<close> promises its client and is interpreted on the SQL
  implementation.
\<close>

section \<open>Tables\<close>

record task_row =
  t_id :: int
  t_title :: string
  t_description :: string
  t_priority :: int
  t_status :: task_status
  t_completed_notes :: "string option"

record dependency_row =
  d_task_id :: int
  d_depends_on_task_id :: int

record lease_row =
  l_task_id :: int
  l_agent_id :: string
  l_expires_at :: time
  l_created_at :: time

record task_db =
  tasks :: "task_row list"
  dependencies :: "dependency_row list"
  leases :: "lease_row list"
  agents :: "string list"
  plan_version_row :: "plan_version_snapshot option"
  system_state_row :: "system_state option"

text \<open>\<open>TaskMissing\<close> is the \<open>RuntimeError\<close> of \<open>save\<close>, \<open>DuplicateKey\<close> a violated unique key.\<close>

datatype task_error =
    MissingDependenciesError "int list"
  | SelfDependencyError
  | TaskNotFoundError
  | TaskMissing int
  | DuplicateKey int

section \<open>Agents\<close>

definition agent_ensure :: "task_db \<Rightarrow> string \<Rightarrow> task_db" where
  "agent_ensure db agent_id =
     (if agent_id \<in> set (agents db) then db else db\<lparr>agents := agents db @ [agent_id]\<rparr>)"

section \<open>Tasks\<close>

definition task_ids :: "task_db \<Rightarrow> int list" where
  "task_ids db = map t_id (tasks db)"

definition find_task :: "task_db \<Rightarrow> int \<Rightarrow> task_row option" where
  "find_task db i = find (\<lambda>t. t_id t = i) (tasks db)"

text \<open>One entry of \<open>_dependency_map\<close>: the sorted set of the targets of a task's edges.\<close>

definition dependencies_of :: "task_db \<Rightarrow> int \<Rightarrow> int list" where
  "dependencies_of db i =
     sort (remdups (map d_depends_on_task_id (filter (\<lambda>d. d_task_id d = i) (dependencies db))))"

definition to_record :: "task_db \<Rightarrow> task_row \<Rightarrow> task_record" where
  "to_record db t =
     \<lparr>tr_id = t_id t, tr_title = t_title t, tr_description = t_description t,
      tr_status = t_status t, tr_priority = t_priority t,
      tr_depends_on = dependencies_of db (t_id t), tr_completed_notes = t_completed_notes t\<rparr>"

definition list_candidates :: "task_db \<Rightarrow> int option \<Rightarrow> task_record list" where
  "list_candidates db task_id =
     (case task_id of
        Some i \<Rightarrow> (case find_task db i of None \<Rightarrow> [] | Some t \<Rightarrow> [to_record db t])
      | None \<Rightarrow> map (to_record db) (sort_key (\<lambda>t. (- t_priority t, t_id t)) (tasks db)))"

definition task_get :: "task_db \<Rightarrow> int \<Rightarrow> task_record option" where
  "task_get db i = map_option (to_record db) (find_task db i)"

definition claim_pending :: "task_db \<Rightarrow> int \<Rightarrow> task_db \<times> task_record option" where
  "claim_pending db i =
     (let P = (\<lambda>t. t_id t = i \<and> t_status t = TASK_PENDING);
          db' = db\<lparr>tasks := update_where P (\<lambda>t. t\<lparr>t_status := TASK_IN_PROGRESS\<rparr>) (tasks db)\<rparr>
      in if rowcount P (tasks db) \<noteq> 1 then (db', None) else (db', task_get db' i))"

definition save_row :: "task_record \<Rightarrow> task_row \<Rightarrow> task_row" where
  "save_row task t =
     t\<lparr>t_title := tr_title task, t_description := tr_description task,
       t_status := tr_status task, t_completed_notes := tr_completed_notes task\<rparr>"

definition task_save :: "task_db \<Rightarrow> task_record \<Rightarrow> task_error + task_db \<times> task_record" where
  "task_save db task =
     (case find_task db (tr_id task) of
        None \<Rightarrow> Inl (TaskMissing (tr_id task))
      | Some t \<Rightarrow>
          let db' = db\<lparr>tasks := update_where (\<lambda>t. t_id t = tr_id task) (save_row task) (tasks db)\<rparr>
          in Inr (db', to_record db' (save_row task t)))"

definition edges :: "int \<Rightarrow> int list \<Rightarrow> dependency_row list" where
  "edges i deps = map (\<lambda>d. \<lparr>d_task_id = i, d_depends_on_task_id = d\<rparr>) (sort (remdups deps))"

definition new_task_row :: "int \<Rightarrow> string \<Rightarrow> string \<Rightarrow> int \<Rightarrow> task_row" where
  "new_task_row new_id title description priority =
     \<lparr>t_id = new_id, t_title = title, t_description = description,
      t_priority = priority, t_status = TASK_PENDING, t_completed_notes = None\<rparr>"

definition task_create ::
  "task_db \<Rightarrow> int \<Rightarrow> string \<Rightarrow> string \<Rightarrow> int list \<Rightarrow> int \<Rightarrow> task_error + task_db \<times> task_record" where
  "task_create db new_id title description depends_on priority =
     (if new_id \<in> set (task_ids db) then Inl (DuplicateKey new_id)
      else
        let t = new_task_row new_id title description priority;
            db' = db\<lparr>tasks := tasks db @ [t],
                    dependencies := dependencies db @ edges new_id depends_on\<rparr>
        in Inr (db', (to_record db t)\<lparr>tr_depends_on := sort (remdups depends_on)\<rparr>))"

record task_patch =
  p_title :: "string option"
  p_description :: "string option"
  p_status :: "task_status option"
  p_depends_on :: "int list option"
  p_completed_notes :: "string option"
  p_priority :: "int option"

definition patch_row :: "task_patch \<Rightarrow> task_row \<Rightarrow> task_row" where
  "patch_row p t =
     t\<lparr>t_title := (case p_title p of None \<Rightarrow> t_title t | Some v \<Rightarrow> v),
       t_description := (case p_description p of None \<Rightarrow> t_description t | Some v \<Rightarrow> v),
       t_status := (case p_status p of None \<Rightarrow> t_status t | Some v \<Rightarrow> v),
       t_completed_notes := (if p_completed_notes p \<noteq> None \<or> p_status p = Some TASK_COMPLETED
                             then p_completed_notes p else t_completed_notes t),
       t_priority := (case p_priority p of None \<Rightarrow> t_priority t | Some v \<Rightarrow> v)\<rparr>"

definition task_update :: "task_db \<Rightarrow> int \<Rightarrow> task_patch \<Rightarrow> task_db \<times> task_record option" where
  "task_update db i p =
     (case find_task db i of
        None \<Rightarrow> (db, None)
      | Some _ \<Rightarrow>
          let db1 = db\<lparr>tasks := update_where (\<lambda>t. t_id t = i) (patch_row p) (tasks db)\<rparr>;
              db2 = (case p_depends_on p of
                       None \<Rightarrow> db1
                     | Some deps \<Rightarrow> db1\<lparr>dependencies :=
                         delete_where (\<lambda>d. d_task_id d = i) (dependencies db1) @ edges i deps\<rparr>)
          in (db2, task_get db2 i))"

definition task_delete :: "task_db \<Rightarrow> int \<Rightarrow> task_db \<times> bool" where
  "task_delete db i =
     (let db1 = db\<lparr>dependencies :=
              delete_where (\<lambda>d. d_task_id d = i \<or> d_depends_on_task_id d = i) (dependencies db)\<rparr>
      in case find_task db1 i of
           None \<Rightarrow> (db1, False)
         | Some _ \<Rightarrow> (db1\<lparr>tasks := delete_where (\<lambda>t. t_id t = i) (tasks db1)\<rparr>, True))"

definition dependencies_completed :: "task_db \<Rightarrow> int \<Rightarrow> bool" where
  "dependencies_completed db i =
     (let deps = dependencies_of db i
      in deps = [] \<or> (\<forall>t \<in> set (filter (\<lambda>t. t_id t \<in> set deps) (tasks db)). t_status t = TASK_COMPLETED))"

definition existing_ids :: "task_db \<Rightarrow> int list \<Rightarrow> int list" where
  "existing_ids db ids = map t_id (filter (\<lambda>t. t_id t \<in> set ids) (tasks db))"

section \<open>Analytics\<close>

definition status_lookup :: "task_row list \<Rightarrow> int \<Rightarrow> task_status option" where
  "status_lookup rows i = map_option t_status (find (\<lambda>t. t_id t = i) rows)"

text \<open>The counters of the scan over the tasks, one step of the loop body per task.\<close>

record analytics_counters =
  ac_with :: int
  ac_edges :: int
  ac_missing_tasks :: int
  ac_missing_edges :: int
  ac_ready :: int
  ac_blocked :: int

definition analytics_step :: "task_db \<Rightarrow> task_row \<Rightarrow> analytics_counters \<Rightarrow> analytics_counters" where
  "analytics_step db t c =
     (let deps = dependencies_of db (t_id t);
          c1 = (if deps = [] then c
                else c\<lparr>ac_with := ac_with c + 1, ac_edges := ac_edges c + int (length deps)\<rparr>);
          missing = filter (\<lambda>d. status_lookup (tasks db) d = None) deps;
          all_completed = (\<forall>d \<in> set deps. status_lookup (tasks db) d = Some TASK_COMPLETED)
      in if t_status t \<noteq> TASK_PENDING then c1
         else if deps = [] then c1\<lparr>ac_ready := ac_ready c1 + 1\<rparr>
         else
           let c2 = c1\<lparr>ac_missing_edges := ac_missing_edges c1 + int (length missing)\<rparr>;
               c3 = (if missing = [] then c2 else c2\<lparr>ac_missing_tasks := ac_missing_tasks c2 + 1\<rparr>)
           in if all_completed then c3\<lparr>ac_ready := ac_ready c3 + 1\<rparr>
              else c3\<lparr>ac_blocked := ac_blocked c3 + 1\<rparr>)"

definition zero_counters :: analytics_counters where
  "zero_counters = \<lparr>ac_with = 0, ac_edges = 0, ac_missing_tasks = 0, ac_missing_edges = 0,
     ac_ready = 0, ac_blocked = 0\<rparr>"

definition status_count :: "task_status \<Rightarrow> task_row list \<Rightarrow> int" where
  "status_count s rows = int (rowcount (\<lambda>t. t_status t = s) rows)"

definition analytics :: "task_db \<Rightarrow> task_analytics" where
  "analytics db =
     (if tasks db = [] then
        \<lparr>total_tasks = 0, pending_tasks = 0, in_progress_tasks = 0, completed_tasks = 0,
         ready_tasks = 0, blocked_tasks = 0, with_dependencies = 0, without_dependencies = 0,
         dependency_edges = 0, missing_dependency_tasks = 0, missing_dependency_edges = 0,
         average_dependencies = None\<rparr>
      else
        let c = fold (analytics_step db) (tasks db) zero_counters;
            n = int (length (tasks db))
        in \<lparr>total_tasks = n,
            pending_tasks = status_count TASK_PENDING (tasks db),
            in_progress_tasks = status_count TASK_IN_PROGRESS (tasks db),
            completed_tasks = status_count TASK_COMPLETED (tasks db),
            ready_tasks = ac_ready c, blocked_tasks = ac_blocked c,
            with_dependencies = ac_with c, without_dependencies = n - ac_with c,
            dependency_edges = ac_edges c, missing_dependency_tasks = ac_missing_tasks c,
            missing_dependency_edges = ac_missing_edges c,
            average_dependencies = (if n = 0 then None else Some (ac_edges c, n))\<rparr>)"

section \<open>Leases\<close>

definition to_lease_record :: "lease_row \<Rightarrow> lease_record" where
  "to_lease_record l =
     \<lparr>lr_task_id = l_task_id l, lr_agent_id = l_agent_id l, lr_issued_at = l_created_at l,
      lr_expires_at = l_expires_at l\<rparr>"

definition expire_stale :: "lease_row list \<Rightarrow> time \<Rightarrow> lease_row list \<times> int list" where
  "expire_stale ls now =
     (let expired = map l_task_id (filter (\<lambda>l. l_expires_at l < now) ls)
      in (if expired = [] then ls else delete_where (\<lambda>l. l_task_id l \<in> set expired) ls, expired))"

definition lease_for_task :: "lease_row list \<Rightarrow> int \<Rightarrow> lease_record option" where
  "lease_for_task ls i = map_option to_lease_record (find (\<lambda>l. l_task_id l = i) ls)"

definition lease_save :: "lease_row list \<Rightarrow> time \<Rightarrow> lease_record \<Rightarrow> lease_row list \<times> lease_record" where
  "lease_save ls created lease =
     (case find (\<lambda>l. l_task_id l = lr_task_id lease) ls of
        None \<Rightarrow>
          let row = \<lparr>l_task_id = lr_task_id lease, l_agent_id = lr_agent_id lease,
                     l_expires_at = lr_expires_at lease, l_created_at = created\<rparr>
          in (ls @ [row], to_lease_record row)
      | Some old \<Rightarrow>
          let f = (\<lambda>l. l\<lparr>l_agent_id := lr_agent_id lease, l_expires_at := lr_expires_at lease\<rparr>)
          in (update_where (\<lambda>l. l_task_id l = lr_task_id lease) f ls, to_lease_record (f old)))"

definition lease_delete :: "lease_row list \<Rightarrow> int \<Rightarrow> lease_row list" where
  "lease_delete ls i = delete_where (\<lambda>l. l_task_id l = i) ls"

section \<open>Plan version and system state\<close>

text \<open>\<open>_ensure_row\<close>: the singleton row, created with value 0 at time \<open>now\<close> when missing.\<close>

definition plan_ensure_row :: "task_db \<Rightarrow> time \<Rightarrow> task_db \<times> plan_version_snapshot" where
  "plan_ensure_row db now =
     (case plan_version_row db of
        Some row \<Rightarrow> (db, row)
      | None \<Rightarrow> let row = \<lparr>pv_value = 0, pv_updated_at = now\<rparr>
                in (db\<lparr>plan_version_row := Some row\<rparr>, row))"

definition plan_current :: "task_db \<Rightarrow> time \<Rightarrow> task_db \<times> int" where
  "plan_current db now = (let (db', row) = plan_ensure_row db now in (db', pv_value row))"

definition plan_increment :: "task_db \<Rightarrow> time \<Rightarrow> task_db \<times> int" where
  "plan_increment db now =
     (let (db1, row) = plan_ensure_row db now;
          row' = row\<lparr>pv_value := pv_value row + 1, pv_updated_at := now\<rparr>
      in (db1\<lparr>plan_version_row := Some row'\<rparr>, pv_value row'))"

definition plan_snapshot :: "task_db \<Rightarrow> time \<Rightarrow> task_db \<times> plan_version_snapshot" where
  "plan_snapshot db now = plan_ensure_row db now"

definition get_state :: "task_db \<Rightarrow> time \<Rightarrow> system_state" where
  "get_state db now =
     (case system_state_row db of
        None \<Rightarrow> \<lparr>ss_maintenance_mode = False, ss_message = None, ss_updated_at = now, ss_version = 0\<rparr>
      | Some row \<Rightarrow> row)"

text \<open>\<open>SystemStateConcurrencyError(expected, actual)\<close>.\<close>

datatype system_state_error = SystemStateConcurrencyError "int option" "int option"

definition state_ensure_row :: "task_db \<Rightarrow> time \<Rightarrow> system_state" where
  "state_ensure_row db now =
     (case system_state_row db of
        None \<Rightarrow> \<lparr>ss_maintenance_mode = False, ss_message = None, ss_updated_at = now, ss_version = 0\<rparr>
      | Some row \<Rightarrow> row)"

definition repo_update_state ::
  "task_db \<Rightarrow> time \<Rightarrow> bool \<Rightarrow> string option \<Rightarrow> int option
    \<Rightarrow> system_state_error + task_db \<times> system_state" where
  "repo_update_state db now mode message expected =
     (let row = state_ensure_row db now
      in if (case expected of None \<Rightarrow> False | Some v \<Rightarrow> ss_version row \<noteq> v)
         then Inl (SystemStateConcurrencyError expected (Some (ss_version row)))
         else
           let row' = \<lparr>ss_maintenance_mode = mode, ss_message = text_or_none message,
                       ss_updated_at = now, ss_version = ss_version row + 1\<rparr>
           in Inr (db\<lparr>system_state_row := Some row'\<rparr>, row'))"

section \<open>What the lease repository promises\<close>

locale lease_repository =
  fixes valid :: "'s \<Rightarrow> bool"
    and for_task :: "'s \<Rightarrow> int \<Rightarrow> lease_record option"
    and save :: "'s \<Rightarrow> time \<Rightarrow> lease_record \<Rightarrow> 's \<times> lease_record"
    and delete :: "'s \<Rightarrow> int \<Rightarrow> 's"
    and expire :: "'s \<Rightarrow> time \<Rightarrow> 's \<times> int list"
  assumes for_save: "valid s \<Longrightarrow> for_task (fst (save s c l)) i
      = (if i = lr_task_id l then Some (snd (save s c l)) else for_task s i)"
    and save_task: "lr_task_id (snd (save s c l)) = lr_task_id l"
    and save_agent: "lr_agent_id (snd (save s c l)) = lr_agent_id l"
    and save_expires: "lr_expires_at (snd (save s c l)) = lr_expires_at l"
    and for_delete: "for_task (delete s j) i = (if i = j then None else for_task s i)"
    and expired_ids: "valid s \<Longrightarrow>
      i \<in> set (snd (expire s now)) \<longleftrightarrow> (\<exists>l. for_task s i = Some l \<and> lr_expires_at l < now)"
    and for_expire: "valid s \<Longrightarrow> for_task (fst (expire s now)) i
      = (if i \<in> set (snd (expire s now)) then None else for_task s i)"
    and valid_save: "valid s \<Longrightarrow> valid (fst (save s c l))"
    and valid_delete: "valid s \<Longrightarrow> valid (delete s i)"
    and valid_expire: "valid s \<Longrightarrow> valid (fst (expire s now))"
begin

lemmas repository_laws = for_save save_task save_agent save_expires for_delete expired_ids
  for_expire valid_save valid_delete valid_expire

text \<open>A live lease survives the expiry sweep, a stale one does not.\<close>

lemma expire_keeps_live:
  "valid s \<Longrightarrow> for_task s i = Some l \<Longrightarrow> now \<le> lr_expires_at l
    \<Longrightarrow> for_task (fst (expire s now)) i = Some l"
  by (auto simp: repository_laws)

lemma expire_leaves_live:
  "valid s \<Longrightarrow> for_task (fst (expire s now)) i = Some l \<Longrightarrow> now \<le> lr_expires_at l"
  by (force simp: repository_laws split: if_splits)

text \<open>Replacing the lease of a task (the checkout path): delete, then save a new one.\<close>

lemma reissue:
  assumes "valid s"
  shows "for_task (fst (save (delete s i) c (new_lease d i a now))) j
    = (if j = i then Some (snd (save (delete s i) c (new_lease d i a now))) else for_task s j)"
  using assms by (auto simp: repository_laws new_lease_def)

text \<open>Renewing the lease of a task (the heartbeat path) keeps its owner and moves its deadline.\<close>

lemma renew:
  assumes "valid s" and "for_task s i = Some l" and "lr_task_id l = i"
  shows "\<exists>l'. for_task (fst (save s c (policy_refresh d l now))) i = Some l'
      \<and> lr_agent_id l' = lr_agent_id l \<and> lr_expires_at l' = deadline d now"
  using assms by (auto simp: repository_laws policy_refresh_def lease_refresh_def)

end

definition valid_leases :: "lease_row list \<Rightarrow> bool" where
  "valid_leases ls = distinct (map l_task_id ls)"

lemma lease_save_task [simp]: "lr_task_id (snd (lease_save ls c l)) = lr_task_id l"
  by (auto simp: lease_save_def to_lease_record_def Let_def split: option.splits dest: find_key_Some)

lemma lease_for_task_task: "lease_for_task ls i = Some l \<Longrightarrow> lr_task_id l = i"
  by (auto simp: lease_for_task_def to_lease_record_def dest!: find_key_Some)

definition lease_row_of :: "time \<Rightarrow> lease_record \<Rightarrow> lease_row" where
  "lease_row_of created lease =
     \<lparr>l_task_id = lr_task_id lease, l_agent_id = lr_agent_id lease,
      l_expires_at = lr_expires_at lease, l_created_at = created\<rparr>"

definition renew_row :: "lease_record \<Rightarrow> lease_row \<Rightarrow> lease_row" where
  "renew_row lease l = l\<lparr>l_agent_id := lr_agent_id lease, l_expires_at := lr_expires_at lease\<rparr>"

lemma renew_row_task [simp]: "l_task_id (renew_row lease l) = l_task_id l"
  by (simp add: renew_row_def)

lemma lease_row_of_task [simp]: "l_task_id (lease_row_of c lease) = lr_task_id lease"
  by (simp add: lease_row_of_def)

lemma lease_save_new:
  "find (\<lambda>x. l_task_id x = lr_task_id l) ls = None \<Longrightarrow>
    lease_save ls c l = (ls @ [lease_row_of c l], to_lease_record (lease_row_of c l))"
  by (simp add: lease_save_def lease_row_of_def Let_def)

lemma lease_save_old:
  "find (\<lambda>x. l_task_id x = lr_task_id l) ls = Some old \<Longrightarrow>
    lease_save ls c l =
      (update_where (\<lambda>x. l_task_id x = lr_task_id l) (renew_row l) ls, to_lease_record (renew_row l old))"
  by (simp add: lease_save_def Let_def renew_row_def [abs_def])

lemma map_task_lease_save:
  "map l_task_id (fst (lease_save ls c l))
    = (if lr_task_id l \<in> l_task_id ` set ls then map l_task_id ls else map l_task_id ls @ [lr_task_id l])"
proof (cases "find (\<lambda>x. l_task_id x = lr_task_id l) ls")
  case None
  moreover from this have "lr_task_id l \<notin> l_task_id ` set ls" by (simp only: find_key_None not_False_eq_True)
  ultimately show ?thesis by (simp add: lease_save_new)
next
  case (Some old)
  moreover from this have "lr_task_id l \<in> l_task_id ` set ls" by (metis find_key_Some image_eqI)
  ultimately show ?thesis by (simp add: lease_save_old map_update_where)
qed

lemma expired_ids_iff:
  assumes "distinct (map l_task_id ls)"
  shows "i \<in> set (snd (expire_stale ls now))
    \<longleftrightarrow> (\<exists>l. find (\<lambda>x. l_task_id x = i) ls = Some l \<and> l_expires_at l < now)"
  by (auto simp: expire_stale_def Let_def find_key_iff [OF assms])

lemma fst_expire_stale:
  "fst (expire_stale ls now) = delete_where (\<lambda>l. l_task_id l \<in> set (snd (expire_stale ls now))) ls"
proof (cases "filter (\<lambda>l. l_expires_at l < now) ls = []")
  case True
  then show ?thesis by (simp add: expire_stale_def delete_where_def)
next
  case False
  then show ?thesis by (simp add: expire_stale_def Let_def)
qed

lemma find_delete_set:
  "find (\<lambda>r. key r = k) (delete_where (\<lambda>r. key r \<in> S) rows)
    = (if k \<in> S then None else find (\<lambda>r. key r = k) rows)"
  by (induction rows) auto

lemma find_append_new:
  "find (\<lambda>r. key r = k) (rows @ [r])
    = (case find (\<lambda>r. key r = k) rows of Some x \<Rightarrow> Some x
       | None \<Rightarrow> if key r = k then Some r else None)"
  by (induction rows) auto

lemma lease_for_save:
  "lease_for_task (fst (lease_save ls c l)) i
    = (if i = lr_task_id l then Some (snd (lease_save ls c l)) else lease_for_task ls i)"
proof (cases "find (\<lambda>x. l_task_id x = lr_task_id l) ls")
  case None
  then show ?thesis
    by (simp add: lease_for_task_def lease_save_new find_append_new split: option.splits)
next
  case (Some old)
  show ?thesis
  proof (cases "i = lr_task_id l")
    case True
    have "l_task_id old = lr_task_id l" using find_key_Some [OF Some] by blast
    with Some True show ?thesis
      by (simp add: lease_for_task_def lease_save_old find_update_where)
  next
    case False
    have "(if l_task_id x = lr_task_id l then renew_row l x else x) = x"
      if "find (\<lambda>x. l_task_id x = i) ls = Some x" for x
      using False find_key_Some [OF that] by simp
    with Some False show ?thesis
      by (cases "find (\<lambda>x. l_task_id x = i) ls")
        (simp_all add: lease_for_task_def lease_save_old find_update_where)
  qed
qed

interpretation sql_leases: lease_repository valid_leases lease_for_task lease_save lease_delete expire_stale
proof unfold_locales
  fix s c l i j now
  show "lr_agent_id (snd (lease_save s c l)) = lr_agent_id l"
    and "lr_expires_at (snd (lease_save s c l)) = lr_expires_at l"
    by (simp_all add: lease_save_def to_lease_record_def Let_def split: option.splits)
  show "lease_for_task (lease_delete s j) i = (if i = j then None else lease_for_task s i)"
    by (simp add: lease_for_task_def lease_delete_def find_delete_where_key)
  assume "valid_leases s"
  then have d: "distinct (map l_task_id s)" by (simp add: valid_leases_def)
  show "lease_for_task (fst (lease_save s c l)) i
      = (if i = lr_task_id l then Some (snd (lease_save s c l)) else lease_for_task s i)"
    by (rule lease_for_save)
  show "i \<in> set (snd (expire_stale s now))
      \<longleftrightarrow> (\<exists>l. lease_for_task s i = Some l \<and> lr_expires_at l < now)"
    by (auto simp: expired_ids_iff [OF d] lease_for_task_def to_lease_record_def)
  show "lease_for_task (fst (expire_stale s now)) i
      = (if i \<in> set (snd (expire_stale s now)) then None else lease_for_task s i)"
    by (simp add: lease_for_task_def fst_expire_stale find_delete_set)
  show "valid_leases (fst (lease_save s c l))"
    using d by (auto simp: valid_leases_def map_task_lease_save)
  show "valid_leases (lease_delete s i)" and "valid_leases (fst (expire_stale s now))"
    using d by (simp_all add: valid_leases_def lease_delete_def fst_expire_stale map_delete_where_distinct)
qed simp

end
