(* ===== verification/Task_Service.thy ===== *)
theory Task_Service
  imports Task_Store
begin

text \<open>
  \<open>TaskService\<close> of \<^verbatim>\<open>server/application/task_service.py\<close>, the system-state service beside
  it, and the request handlers of \<^verbatim>\<open>server/api/routers/tasks.py\<close> that wrap each service
  call in one database transaction and bump the plan version.

  A handler that raises leaves the database unchanged (the session is closed without a commit).
  Notifications to extensions and the websocket broadcast do not touch the database and are not
  modelled. \<open>duration\<close> is the configured lease duration in seconds, \<open>now\<close> the reading of the
  service clock and \<open>created\<close> the reading of the column default of a new lease row.

  The invariant \<open>task_inv\<close> says that keys are unique, that every lease belongs to a task in
  progress, and that the dependency edges are irreflexive and refer to existing tasks.
\<close>

section \<open>Operations\<close>

text \<open>\<open>all\<close> stops at the first status that is not completed; a missing key met before that is a \<open>KeyError\<close>.\<close>

fun all_completed :: "(int \<Rightarrow> task_status option) \<Rightarrow> int list \<Rightarrow> bool option" where
  "all_completed statuses [] = Some True"
| "all_completed statuses (d # ds) =
     (case statuses d of
        None \<Rightarrow> None
      | Some s \<Rightarrow> if s = TASK_COMPLETED then all_completed statuses ds else Some False)"

definition dependencies_completed_from_records ::
  "task_record \<Rightarrow> (int \<Rightarrow> task_status option) \<Rightarrow> bool option" where
  "dependencies_completed_from_records task statuses =
     (if tr_depends_on task = [] then Some True else all_completed statuses (tr_depends_on task))"

definition record_status_lookup :: "task_record list \<Rightarrow> int \<Rightarrow> task_status option" where
  "record_status_lookup records i = map_option tr_status (find (\<lambda>t. tr_id t = i) (rev records))"

fun requeue_expired :: "task_db \<Rightarrow> int list \<Rightarrow> task_error + task_db" where
  "requeue_expired db [] = Inr db"
| "requeue_expired db (i # rest) =
     (case task_get db i of
        None \<Rightarrow> requeue_expired db rest
      | Some task \<Rightarrow>
          if tr_status task \<noteq> TASK_PENDING
          then rbind (task_save db (with_status task TASK_PENDING None))
                 (\<lambda>(db', _). requeue_expired db' rest)
          else requeue_expired db rest)"

definition deps_completed ::
  "task_db \<Rightarrow> (int \<Rightarrow> task_status option) option \<Rightarrow> task_record \<Rightarrow> bool" where
  "deps_completed db lookup task =
     (case (case lookup of None \<Rightarrow> None | Some m \<Rightarrow> dependencies_completed_from_records task m) of
        None \<Rightarrow> dependencies_completed db (tr_id task)
      | Some b \<Rightarrow> b)"

fun checkout_loop ::
  "int \<Rightarrow> time \<Rightarrow> time \<Rightarrow> string \<Rightarrow> bool \<Rightarrow> (int \<Rightarrow> task_status option) option
    \<Rightarrow> task_record list \<Rightarrow> task_db \<Rightarrow> task_db \<times> (task_record \<times> lease_record) option" where
  "checkout_loop duration now created agent_id pinned lookup [] db = (db, None)"
| "checkout_loop duration now created agent_id pinned lookup (task # rest) db =
     (if is_available task (deps_completed db lookup task)
           (lease_for_task (leases db) (tr_id task)) now
      then (case claim_pending db (tr_id task) of
              (db1, None) \<Rightarrow>
                if pinned then (db1, None)
                else checkout_loop duration now created agent_id pinned lookup rest db1
            | (db1, Some saved) \<Rightarrow>
                (case lease_save (lease_delete (leases db1) (tr_id task)) created
                        (new_lease duration (tr_id task) agent_id now) of
                   (ls, persisted) \<Rightarrow> (db1\<lparr>leases := ls\<rparr>, Some (saved, persisted))))
      else if pinned then (db, None)
      else checkout_loop duration now created agent_id pinned lookup rest db)"

definition prepare_checkout :: "task_db \<Rightarrow> time \<Rightarrow> string \<Rightarrow> task_error + task_db" where
  "prepare_checkout db now agent_id =
     (let db1 = agent_ensure db agent_id;
          (ls, expired) = expire_stale (leases db1) now
      in requeue_expired (db1\<lparr>leases := ls\<rparr>) expired)"

definition checkout ::
  "int \<Rightarrow> time \<Rightarrow> time \<Rightarrow> task_db \<Rightarrow> string \<Rightarrow> int option \<Rightarrow> task_error + task_db \<times> checkout_result" where
  "checkout duration now created db agent_id task_id =
     (let state = get_state db now
      in if ss_maintenance_mode state
         then Inr (db, \<lparr>cr_task = None, cr_lease = None, cr_reason = Some ''maintenance_mode'',
                        cr_message = ss_message state\<rparr>)
         else rbind (prepare_checkout db now agent_id) (\<lambda>db1.
           let candidates = list_candidates db1 task_id;
               lookup = (case task_id of None \<Rightarrow> Some (record_status_lookup candidates) | Some _ \<Rightarrow> None)
           in case checkout_loop duration now created agent_id (task_id \<noteq> None) lookup candidates db1 of
                (db2, Some (task, lease)) \<Rightarrow>
                  Inr (db2, \<lparr>cr_task = Some task, cr_lease = Some lease, cr_reason = None,
                             cr_message = None\<rparr>)
              | (db2, None) \<Rightarrow>
                  Inr (db2, \<lparr>cr_task = None, cr_lease = None,
                             cr_reason = Some (if task_id \<noteq> None then ''task_not_available''
                                               else ''no_available_tasks''),
                             cr_message = None\<rparr>)))"

definition heartbeat :: "int \<Rightarrow> time \<Rightarrow> time \<Rightarrow> task_db \<Rightarrow> string \<Rightarrow> int \<Rightarrow> task_db \<times> heartbeat_result" where
  "heartbeat duration now created db agent_id task_id =
     (let lease = lease_for_task (leases db) task_id
      in if \<not> can_heartbeat lease agent_id now then (db, \<lparr>hb_ok = False, hb_task_id = task_id\<rparr>)
         else case lease of
                None \<Rightarrow> (db, \<lparr>hb_ok = False, hb_task_id = task_id\<rparr>)
              | Some l \<Rightarrow>
                  let refreshed = policy_refresh duration l now
                  in (db\<lparr>leases := fst (lease_save (leases db) created refreshed)\<rparr>,
                      \<lparr>hb_ok = True, hb_task_id = task_id\<rparr>))"

definition complete :: "time \<Rightarrow> task_db \<Rightarrow> string \<Rightarrow> int \<Rightarrow> string option \<Rightarrow> task_error + task_db \<times> completion_result" where
  "complete now db agent_id task_id notes =
     (let lease = lease_for_task (leases db) task_id;
          refused = \<lparr>co_ok = False, co_task = None, co_notes = None\<rparr>
      in if \<not> can_complete lease agent_id now then Inr (db, refused)
         else case task_get db task_id of
                None \<Rightarrow> Inr (db, refused)
              | Some task \<Rightarrow>
                  rbind (task_save db (with_status task TASK_COMPLETED (text_or_none notes)))
                    (\<lambda>(db1, saved).
                      Inr (db1\<lparr>leases := lease_delete (leases db1) task_id\<rparr>,
                           \<lparr>co_ok = True, co_task = Some saved, co_notes = tr_completed_notes saved\<rparr>)))"

definition abandon :: "time \<Rightarrow> task_db \<Rightarrow> string \<Rightarrow> int \<Rightarrow> task_error + task_db \<times> heartbeat_result" where
  "abandon now db agent_id task_id =
     (let lease = lease_for_task (leases db) task_id;
          refused = \<lparr>hb_ok = False, hb_task_id = task_id\<rparr>
      in if \<not> can_abandon lease agent_id now then Inr (db, refused)
         else case task_get db task_id of
                None \<Rightarrow> Inr (db, refused)
              | Some task \<Rightarrow>
                  rbind (task_save db (with_status task TASK_PENDING None))
                    (\<lambda>(db1, _).
                      Inr (db1\<lparr>leases := lease_delete (leases db1) task_id\<rparr>,
                           \<lparr>hb_ok = True, hb_task_id = task_id\<rparr>)))"

definition normalize_dependencies :: "int list \<Rightarrow> int list" where
  "normalize_dependencies depends_on = sort (remdups depends_on)"

definition ensure_dependencies_exist :: "task_db \<Rightarrow> int list \<Rightarrow> task_error + unit" where
  "ensure_dependencies_exist db depends_on =
     (if depends_on = [] then Inr ()
      else
        let existing = existing_ids db depends_on;
            missing = sort (remdups (filter (\<lambda>d. d \<notin> set existing) depends_on))
        in if missing = [] then Inr () else Inl (MissingDependenciesError missing))"

definition create_task ::
  "task_db \<Rightarrow> int \<Rightarrow> string \<Rightarrow> string \<Rightarrow> int list \<Rightarrow> int \<Rightarrow> task_error + task_db \<times> task_record" where
  "create_task db new_id title description depends_on priority =
     (let deps = normalize_dependencies depends_on
      in rbind (ensure_dependencies_exist db deps) (\<lambda>_.
           task_create db new_id title description deps priority))"

definition update_task :: "task_db \<Rightarrow> int \<Rightarrow> task_patch \<Rightarrow> task_error + task_db \<times> task_record" where
  "update_task db task_id p =
     (if (case p_depends_on p of None \<Rightarrow> False | Some deps \<Rightarrow> task_id \<in> set deps)
      then Inl SelfDependencyError
      else case task_get db task_id of
             None \<Rightarrow> Inl TaskNotFoundError
           | Some _ \<Rightarrow>
               let deps = map_option normalize_dependencies (p_depends_on p)
               in rbind (case deps of None \<Rightarrow> Inr () | Some ds \<Rightarrow> ensure_dependencies_exist db ds) (\<lambda>_.
                    case task_update db task_id (p\<lparr>p_depends_on := deps\<rparr>) of
                      (_, None) \<Rightarrow> Inl TaskNotFoundError
                    | (db1, Some updated) \<Rightarrow>
                        Inr (if p_status p \<in> {Some TASK_PENDING, Some TASK_COMPLETED}
                             then db1\<lparr>leases := lease_delete (leases db1) task_id\<rparr> else db1,
                             updated)))"

definition delete_task :: "task_db \<Rightarrow> int \<Rightarrow> task_db \<times> bool" where
  "delete_task db task_id =
     (let (db1, deleted) = task_delete db task_id
      in (db1\<lparr>leases := lease_delete (leases db1) task_id\<rparr>, deleted))"

text \<open>\<open>status\<close> is \<open>None\<close> for no filter and for the literal \<open>"all"\<close>.\<close>

definition list_tasks :: "task_db \<Rightarrow> task_status option \<Rightarrow> task_record list" where
  "list_tasks db status =
     (let records = list_candidates db None
      in case status of None \<Rightarrow> records | Some s \<Rightarrow> filter (\<lambda>t. tr_status t = s) records)"

section \<open>The system-state service\<close>

datatype state_conflict = SystemStateConflictError "int option" "int option"

definition normalize_message :: "string option \<Rightarrow> string option" where
  "normalize_message message = text_or_none (map_option strip message)"

definition update_state ::
  "task_db \<Rightarrow> time \<Rightarrow> bool \<Rightarrow> string option \<Rightarrow> int option \<Rightarrow> state_conflict + task_db \<times> system_state" where
  "update_state db now mode message expected =
     (case repo_update_state db now mode (normalize_message message) expected of
        Inl (SystemStateConcurrencyError _ actual) \<Rightarrow> Inl (SystemStateConflictError expected actual)
      | Inr r \<Rightarrow> Inr r)"

section \<open>Request handlers\<close>

datatype task_request =
    CheckoutRequest string "int option"
  | HeartbeatRequest string int
  | CompleteRequest string int "string option"
  | AbandonRequest string int
  | CreateRequest int string string "int list" int
  | UpdateRequest int bool task_patch
  | DeleteRequest int
  | SystemStateRequest bool "string option" "int option"

definition bump :: "bool \<Rightarrow> time \<Rightarrow> task_db \<Rightarrow> task_db" where
  "bump changed now db = (if changed then fst (plan_increment db now) else db)"

text \<open>
  The committed database after one request: a successful handler flushes, bumps the plan version
  when the plan changed and commits; a handler that raises commits nothing. The update handler
  never passes completion notes and refuses a payload in which no field is set.
\<close>

fun handle :: "int \<Rightarrow> time \<Rightarrow> time \<Rightarrow> task_db \<Rightarrow> task_request \<Rightarrow> task_db" where
  "handle duration now created db (CheckoutRequest agent_id task_id) =
     (case checkout duration now created db agent_id task_id of
        Inl _ \<Rightarrow> db | Inr (db', r) \<Rightarrow> bump (cr_task r \<noteq> None) now db')"
| "handle duration now created db (HeartbeatRequest agent_id task_id) =
     fst (heartbeat duration now created db agent_id task_id)"
| "handle duration now created db (CompleteRequest agent_id task_id notes) =
     (case complete now db agent_id task_id notes of
        Inl _ \<Rightarrow> db | Inr (db', r) \<Rightarrow> bump (co_ok r) now db')"
| "handle duration now created db (AbandonRequest agent_id task_id) =
     (case abandon now db agent_id task_id of
        Inl _ \<Rightarrow> db | Inr (db', r) \<Rightarrow> bump (hb_ok r) now db')"
| "handle duration now created db (CreateRequest new_id title description depends_on priority) =
     (case create_task db new_id title description depends_on priority of
        Inl _ \<Rightarrow> db | Inr (db', _) \<Rightarrow> bump True now db')"
| "handle duration now created db (UpdateRequest task_id payload_empty p) =
     (if payload_empty then db
      else case update_task db task_id (p\<lparr>p_completed_notes := None\<rparr>) of
             Inl _ \<Rightarrow> db | Inr (db', _) \<Rightarrow> bump True now db')"
| "handle duration now created db (DeleteRequest task_id) =
     (let (db', deleted) = delete_task db task_id in bump deleted now db')"
| "handle duration now created db (SystemStateRequest mode message expected) =
     (case update_state db now mode message expected of Inl _ \<Rightarrow> db | Inr (db', _) \<Rightarrow> db')"

section \<open>Invariant\<close>

definition leased_in_progress :: "task_db \<Rightarrow> bool" where
  "leased_in_progress db \<longleftrightarrow>
     (\<forall>l \<in> set (leases db). \<exists>t \<in> set (tasks db). t_id t = l_task_id l \<and> t_status t = TASK_IN_PROGRESS)"

definition edges_ok :: "task_db \<Rightarrow> bool" where
  "edges_ok db \<longleftrightarrow>
     distinct (dependencies db) \<and>
     (\<forall>d \<in> set (dependencies db). d_task_id d \<in> set (task_ids db)
        \<and> d_depends_on_task_id d \<in> set (task_ids db) \<and> d_task_id d \<noteq> d_depends_on_task_id d)"

definition task_inv :: "task_db \<Rightarrow> bool" where
  "task_inv db \<longleftrightarrow> distinct (task_ids db) \<and> valid_leases (leases db) \<and> leased_in_progress db \<and> edges_ok db"

lemma task_invD:
  assumes "task_inv db"
  shows "distinct (map t_id (tasks db))" and "distinct (map l_task_id (leases db))"
    and "valid_leases (leases db)" and "leased_in_progress db" and "edges_ok db"
  using assms by (simp_all add: task_inv_def task_ids_def valid_leases_def)

text \<open>
  The rows of one task rewritten by \<open>f\<close>: every write of the repositories to an existing task has
  this form, and it keeps the invariant when the task has no lease or stays in progress.
\<close>

definition set_task :: "task_db \<Rightarrow> int \<Rightarrow> (task_row \<Rightarrow> task_row) \<Rightarrow> task_db" where
  "set_task db i f = db\<lparr>tasks := update_where (\<lambda>t. t_id t = i) f (tasks db)\<rparr>"

lemma set_task_simps [simp]:
  "dependencies (set_task db i f) = dependencies db" "leases (set_task db i f) = leases db"
  "agents (set_task db i f) = agents db" "plan_version_row (set_task db i f) = plan_version_row db"
  "system_state_row (set_task db i f) = system_state_row db"
  "tasks (set_task db i f) = update_where (\<lambda>t. t_id t = i) f (tasks db)"
  by (simp_all add: set_task_def)

lemma set_task_ids: "(\<And>t. t_id (f t) = t_id t) \<Longrightarrow> task_ids (set_task db i f) = task_ids db"
  by (simp add: task_ids_def map_update_where)

lemma find_set_task:
  assumes "\<And>t. t_id (f t) = t_id t"
  shows "find_task (set_task db i f) j = (if j = i then map_option f (find_task db j) else find_task db j)"
proof (cases "find_task db j")
  case None
  with assms show ?thesis by (auto simp: find_task_def find_update_where)
next
  case (Some t)
  then have "t_id t = j" using find_key_Some by (fastforce simp: find_task_def)
  with assms Some show ?thesis by (cases "j = i") (simp_all add: find_task_def find_update_where)
qed

lemma dependencies_of_cong:
  "dependencies db' = dependencies db \<Longrightarrow> dependencies_of db' i = dependencies_of db i"
  by (simp add: dependencies_of_def)

lemma set_dependencies_of:
  "set (dependencies_of db i) = d_depends_on_task_id ` {d \<in> set (dependencies db). d_task_id d = i}"
  by (simp add: dependencies_of_def)

lemma task_inv_intro:
  assumes "distinct (map t_id (tasks db))" and "distinct (map l_task_id (leases db))"
    and "\<And>l. l \<in> set (leases db) \<Longrightarrow> \<exists>t \<in> set (tasks db). t_id t = l_task_id l \<and> t_status t = TASK_IN_PROGRESS"
    and "edges_ok db"
  shows "task_inv db"
  using assms by (simp add: task_inv_def task_ids_def valid_leases_def leased_in_progress_def)

lemma task_inv_set_task:
  assumes inv: "task_inv db" and id: "\<And>t. t_id (f t) = t_id t"
    and keeps: "\<And>t. t \<in> set (tasks db) \<Longrightarrow> t_id t = i \<Longrightarrow> i \<in> l_task_id ` set (leases db)
      \<Longrightarrow> t_status (f t) = TASK_IN_PROGRESS"
  shows "task_inv (set_task db i f)"
proof (rule task_inv_intro)
  show "distinct (map t_id (tasks (set_task db i f)))" "distinct (map l_task_id (leases (set_task db i f)))"
    using task_invD(1,2) [OF inv] id by (simp_all add: map_update_where)
  show "edges_ok (set_task db i f)"
    using task_invD(5) [OF inv] set_task_ids [of f db i, OF id] by (simp add: edges_ok_def)
  fix l assume "l \<in> set (leases (set_task db i f))"
  then have l: "l \<in> set (leases db)" by simp
  then obtain t where t: "t \<in> set (tasks db)" "t_id t = l_task_id l" "t_status t = TASK_IN_PROGRESS"
    using task_invD(4) [OF inv] by (auto simp: leased_in_progress_def)
  let ?t = "if t_id t = i then f t else t"
  have "?t \<in> set (tasks (set_task db i f))" using t by (auto simp: set_update_where)
  moreover have "t_id ?t = l_task_id l" using t id by simp
  moreover have "t_status ?t = TASK_IN_PROGRESS" using t l keeps by auto
  ultimately show "\<exists>t \<in> set (tasks (set_task db i f)). t_id t = l_task_id l \<and> t_status t = TASK_IN_PROGRESS"
    by blast
qed

lemma edges_ok_leases [simp]: "edges_ok (db\<lparr>leases := ls\<rparr>) = edges_ok db"
  by (simp add: edges_ok_def task_ids_def)

lemma task_inv_fewer_leases:
  assumes "task_inv db" and "set ls \<subseteq> set (leases db)" and "distinct (map l_task_id ls)"
  shows "task_inv (db\<lparr>leases := ls\<rparr>)"
  using assms by (intro task_inv_intro) (auto simp: task_inv_def task_ids_def leased_in_progress_def)

lemma task_inv_delete_lease:
  "task_inv db \<Longrightarrow> task_inv (db\<lparr>leases := lease_delete (leases db) i\<rparr>)"
  by (rule task_inv_fewer_leases)
    (auto simp: lease_delete_def set_delete_where map_delete_where_distinct task_invD)

lemma task_inv_frame:
  "task_inv (db\<lparr>agents := a\<rparr>) = task_inv db"
  "task_inv (db\<lparr>plan_version_row := v\<rparr>) = task_inv db"
  "task_inv (db\<lparr>system_state_row := st\<rparr>) = task_inv db"
  by (simp_all add: task_inv_def task_ids_def leased_in_progress_def edges_ok_def)

text \<open>Saving a record read from the database with a new status rewrites that task only.\<close>

definition status_row :: "task_status \<Rightarrow> string option \<Rightarrow> task_row \<Rightarrow> task_row" where
  "status_row s notes t = t\<lparr>t_status := s, t_completed_notes := notes\<rparr>"

lemma status_row_simps [simp]:
  "t_id (status_row s n t) = t_id t" "t_status (status_row s n t) = s"
  "t_priority (status_row s n t) = t_priority t" "t_completed_notes (status_row s n t) = n"
  by (simp_all add: status_row_def)

lemma update_where_cong:
  "(\<And>t. t \<in> set rows \<Longrightarrow> P t \<Longrightarrow> f t = g t) \<Longrightarrow> update_where P f rows = update_where P g rows"
  by (induction rows) auto

lemma task_save_status:
  assumes "distinct (map t_id (tasks db))" and get: "task_get db i = Some task"
  shows "task_save db (with_status task s notes)
    = Inr (set_task db i (status_row s notes),
           task\<lparr>tr_status := s, tr_completed_notes := notes\<rparr>)"
proof -
  from get obtain t where t: "find_task db i = Some t" "task = to_record db t"
    by (auto simp: task_get_def)
  then have i: "t_id t = i" "t \<in> set (tasks db)" by (auto simp: find_task_def dest: find_key_Some)
  let ?task = "with_status task s notes"
  have row: "save_row ?task t = status_row s notes t"
    using t by (simp add: save_row_def status_row_def with_status_def to_record_def)
  have id: "tr_id ?task = i" using t i by (simp add: with_status_def to_record_def)
  have "update_where (\<lambda>x. t_id x = i) (save_row ?task) (tasks db)
      = update_where (\<lambda>x. t_id x = i) (status_row s notes) (tasks db)"
    by (rule update_where_cong) (metis assms(1) i key_unique row)
  moreover have "to_record (set_task db i (status_row s notes)) (status_row s notes t)
      = task\<lparr>tr_status := s, tr_completed_notes := notes\<rparr>"
    using t by (simp add: to_record_def status_row_def dependencies_of_def)
  ultimately show ?thesis
    using t id row by (simp add: task_save_def set_task_def Let_def)
qed

subsection \<open>The expiry sweep\<close>

lemma task_get_None: "task_get db i = None \<longleftrightarrow> find_task db i = None"
  by (simp add: task_get_def)

lemma task_get_Some:
  "task_get db i = Some task \<longleftrightarrow> (\<exists>t. find_task db i = Some t \<and> task = to_record db t)"
  by (auto simp: task_get_def)

lemma find_task_Some: "find_task db i = Some t \<Longrightarrow> t \<in> set (tasks db) \<and> t_id t = i"
  by (auto simp: find_task_def dest: find_key_Some)

lemma find_task_iff:
  "distinct (map t_id (tasks db)) \<Longrightarrow> find_task db i = Some t \<longleftrightarrow> t \<in> set (tasks db) \<and> t_id t = i"
  by (simp add: find_task_def find_key_iff)

text \<open>What the sweep does to a row: tasks with an expired lease go back to pending, without notes.\<close>

definition requeue_row :: "int list \<Rightarrow> task_row \<Rightarrow> task_row" where
  "requeue_row ids t =
     (if t_id t \<in> set ids \<and> t_status t \<noteq> TASK_PENDING then status_row TASK_PENDING None t else t)"

lemma requeue_row_simps [simp]:
  "t_id (requeue_row ids t) = t_id t" "t_priority (requeue_row ids t) = t_priority t"
  by (simp_all add: requeue_row_def)

lemma requeue_expired_eq:
  assumes "distinct (map t_id (tasks db))"
  shows "requeue_expired db ids = Inr (db\<lparr>tasks := map (requeue_row ids) (tasks db)\<rparr>)"
  using assms
proof (induction ids arbitrary: db)
  case Nil
  have "map (requeue_row []) (tasks db) = tasks db" by (simp add: requeue_row_def map_idI)
  then show ?case by simp
next
  case (Cons i ids)
  show ?case
  proof (cases "find_task db i")
    case None
    have "requeue_row ids t = requeue_row (i # ids) t" if "t \<in> set (tasks db)" for t
      using None that by (auto simp: requeue_row_def find_task_def find_None_iff)
    with None Cons show ?thesis by (simp add: task_get_def)
  next
    case (Some t)
    then have t: "t \<in> set (tasks db)" "t_id t = i" using find_task_Some by auto
    then have only: "x = t" if "x \<in> set (tasks db)" "t_id x = i" for x
      using that Cons.prems by (metis key_unique)
    show ?thesis
    proof (cases "t_status t = TASK_PENDING")
      case True
      have "requeue_row ids x = requeue_row (i # ids) x" if "x \<in> set (tasks db)" for x
        using only [OF that] True by (auto simp: requeue_row_def)
      with Some True Cons show ?thesis by (simp add: task_get_def to_record_def)
    next
      case False
      let ?db = "set_task db i (status_row TASK_PENDING None)"
      have d: "distinct (map t_id (tasks ?db))" using Cons.prems by (simp add: map_update_where)
      have "requeue_row ids (if t_id x = i then status_row TASK_PENDING None x else x)
          = requeue_row (i # ids) x" if "x \<in> set (tasks db)" for x
        using only [OF that] False by (auto simp: requeue_row_def)
      then have "?db\<lparr>tasks := map (requeue_row ids) (tasks ?db)\<rparr>
          = db\<lparr>tasks := map (requeue_row (i # ids)) (tasks db)\<rparr>"
        by (simp add: set_task_def update_where_def)
      with Cons.IH [OF d] show ?thesis
        using Some False task_save_status [OF Cons.prems, of i "to_record db t" TASK_PENDING None]
        by (simp add: task_get_def to_record_def)
    qed
  qed
qed

definition swept :: "task_db \<Rightarrow> time \<Rightarrow> string \<Rightarrow> task_db" where
  "swept db now agent_id =
     (agent_ensure db agent_id)\<lparr>leases := fst (expire_stale (leases db) now),
       tasks := map (requeue_row (snd (expire_stale (leases db) now))) (tasks db)\<rparr>"

lemma agent_ensure_simps [simp]:
  "tasks (agent_ensure db a) = tasks db" "dependencies (agent_ensure db a) = dependencies db"
  "leases (agent_ensure db a) = leases db" "plan_version_row (agent_ensure db a) = plan_version_row db"
  "system_state_row (agent_ensure db a) = system_state_row db"
  by (simp_all add: agent_ensure_def)

lemma prepare_checkout_eq:
  "distinct (map t_id (tasks db)) \<Longrightarrow> prepare_checkout db now agent_id = Inr (swept db now agent_id)"
  by (simp add: prepare_checkout_def swept_def requeue_expired_eq split: prod.splits)

lemma swept_simps [simp]:
  "dependencies (swept db now a) = dependencies db"
  "tasks (swept db now a) = map (requeue_row (snd (expire_stale (leases db) now))) (tasks db)"
  "leases (swept db now a) = fst (expire_stale (leases db) now)"
  "system_state_row (swept db now a) = system_state_row db"
  "plan_version_row (swept db now a) = plan_version_row db"
  by (simp_all add: swept_def)

lemma swept_ids [simp]: "task_ids (swept db now a) = task_ids db"
  by (simp add: task_ids_def comp_def)

lemma swept_lease_live:
  assumes "l \<in> set (fst (expire_stale ls now))"
  shows "l \<in> set ls \<and> now \<le> l_expires_at l"
proof -
  from assms have "l \<in> set ls" and "l_task_id l \<notin> set (snd (expire_stale ls now))"
    by (simp_all add: fst_expire_stale set_delete_where)
  then show ?thesis by (force simp: expire_stale_def Let_def)
qed

lemma swept_lease_unexpired: "l \<in> set (fst (expire_stale ls now)) \<Longrightarrow> l_task_id l \<notin> set (snd (expire_stale ls now))"
  by (auto simp: fst_expire_stale set_delete_where)

lemma task_inv_swept:
  assumes inv: "task_inv db"
  shows "task_inv (swept db now a)"
proof (rule task_inv_intro)
  show "distinct (map t_id (tasks (swept db now a)))" using task_invD(1) [OF inv] by (simp add: comp_def)
  show "distinct (map l_task_id (leases (swept db now a)))"
    using task_invD(2) [OF inv] by (simp add: fst_expire_stale map_delete_where_distinct)
  show "edges_ok (swept db now a)" using task_invD(5) [OF inv] by (simp add: edges_ok_def)
  fix l assume l: "l \<in> set (leases (swept db now a))"
  then have "l \<in> set (leases db)" using swept_lease_live by fastforce
  then obtain t where t: "t \<in> set (tasks db)" "t_id t = l_task_id l" "t_status t = TASK_IN_PROGRESS"
    using task_invD(4) [OF inv] by (auto simp: leased_in_progress_def)
  moreover have "requeue_row (snd (expire_stale (leases db) now)) t = t"
    using l t swept_lease_unexpired by (fastforce simp: requeue_row_def)
  ultimately show "\<exists>t \<in> set (tasks (swept db now a)). t_id t = l_task_id l \<and> t_status t = TASK_IN_PROGRESS"
    by (metis image_eqI list.set_map swept_simps(2))
qed

subsection \<open>The claim\<close>

lemma claim_pending_success:
  assumes "distinct (map t_id (tasks db))" and "find_task db i = Some t" and "t_status t = TASK_PENDING"
  defines "db' \<equiv> set_task db i (\<lambda>t. t\<lparr>t_status := TASK_IN_PROGRESS\<rparr>)"
  shows "claim_pending db i = (db', Some (to_record db' (t\<lparr>t_status := TASK_IN_PROGRESS\<rparr>)))"
proof -
  let ?P = "\<lambda>t. t_id t = i \<and> t_status t = TASK_PENDING"
  have "rowcount ?P (tasks db) = 1"
    using assms(1-3) by (subst rowcount_key_one) (auto simp: find_task_def)
  moreover have "update_where ?P (\<lambda>t. t\<lparr>t_status := TASK_IN_PROGRESS\<rparr>) (tasks db) = tasks db'"
  proof -
    have "x = t" if "x \<in> set (tasks db)" "t_id x = i" for x
      using that assms(1,2) by (metis find_task_iff option.inject)
    then have "t_status x = TASK_PENDING" if "x \<in> set (tasks db)" "t_id x = i" for x
      using that assms(3) by blast
    then show ?thesis by (auto simp: db'_def update_where_def)
  qed
  moreover have "find_task db' i = Some (t\<lparr>t_status := TASK_IN_PROGRESS\<rparr>)"
    using assms(2) by (simp add: db'_def find_set_task)
  moreover have "db\<lparr>tasks := tasks db'\<rparr> = db'" by (simp add: db'_def set_task_def)
  ultimately show ?thesis by (simp add: claim_pending_def task_get_def Let_def)
qed

lemma claim_pending_failure:
  assumes "distinct (map t_id (tasks db))" and "\<not> (\<exists>t. find_task db i = Some t \<and> t_status t = TASK_PENDING)"
  shows "claim_pending db i = (db, None)"
proof -
  let ?P = "\<lambda>t. t_id t = i \<and> t_status t = TASK_PENDING"
  have "\<not> ?P t" if "t \<in> set (tasks db)" for t
    using that assms find_task_iff by blast
  then have "update_where ?P f (tasks db) = tasks db" and "rowcount ?P (tasks db) = 0" for f
    by (auto simp: update_where_none rowcount_zero)
  then show ?thesis by (simp add: claim_pending_def Let_def)
qed

lemma task_inv_add_lease:
  assumes inv: "task_inv db" and "find_task db i = Some t" and "t_status t = TASK_IN_PROGRESS"
    and l: "lr_task_id l = i"
  shows "task_inv (db\<lparr>leases := fst (lease_save (lease_delete (leases db) i) created l)\<rparr>)"
proof (rule task_inv_intro)
  let ?ls = "lease_delete (leases db) i"
  have d: "distinct (map l_task_id ?ls)"
    using task_invD(2) [OF inv] by (simp add: lease_delete_def map_delete_where_distinct)
  have new: "find (\<lambda>x. l_task_id x = lr_task_id l) ?ls = None"
    using l by (simp add: lease_delete_def find_delete_where_key)
  then show "distinct (map l_task_id (leases (db\<lparr>leases := fst (lease_save ?ls created l)\<rparr>)))"
    using d by (auto simp: lease_save_new find_key_None)
  show "distinct (map t_id (tasks (db\<lparr>leases := fst (lease_save ?ls created l)\<rparr>)))"
    and "edges_ok (db\<lparr>leases := fst (lease_save ?ls created l)\<rparr>)"
    using task_invD [OF inv] by simp_all
  fix x assume "x \<in> set (leases (db\<lparr>leases := fst (lease_save ?ls created l)\<rparr>))"
  then have "x \<in> set (leases db) \<or> l_task_id x = i"
    using new l by (auto simp: lease_save_new lease_delete_def set_delete_where)
  then show "\<exists>t \<in> set (tasks (db\<lparr>leases := fst (lease_save ?ls created l)\<rparr>)).
      t_id t = l_task_id x \<and> t_status t = TASK_IN_PROGRESS"
    using assms find_task_Some task_invD(4) [OF inv] by (fastforce simp: leased_in_progress_def)
qed

text \<open>
  The loop claims a task or leaves the database as it was, whatever the list of candidates says:
  the list may be an old snapshot.
\<close>

definition claimed :: "int \<Rightarrow> time \<Rightarrow> time \<Rightarrow> string \<Rightarrow> task_db \<Rightarrow> int \<Rightarrow> task_db" where
  "claimed duration now created agent_id db i =
     (let db1 = set_task db i (\<lambda>t. t\<lparr>t_status := TASK_IN_PROGRESS\<rparr>)
      in db1\<lparr>leases := fst (lease_save (lease_delete (leases db) i) created
              (new_lease duration i agent_id now))\<rparr>)"

lemma checkout_loop_cases:
  assumes "distinct (map t_id (tasks db))"
    and "checkout_loop duration now created agent_id pinned lookup candidates db = (db', r)"
  shows "(r = None \<and> db' = db) \<or>
    (\<exists>task t lease. task \<in> set candidates \<and> find_task db (tr_id task) = Some t
       \<and> t_status t = TASK_PENDING \<and> is_available task (deps_completed db lookup task)
            (lease_for_task (leases db) (tr_id task)) now
       \<and> db' = claimed duration now created agent_id db (tr_id task)
       \<and> r = Some (to_record db (t\<lparr>t_status := TASK_IN_PROGRESS\<rparr>), lease)
       \<and> lease = snd (lease_save (lease_delete (leases db) (tr_id task)) created
              (new_lease duration (tr_id task) agent_id now)))"
  using assms
proof (induction candidates)
  case Nil
  then show ?case by simp
next
  case (Cons task rest)
  let ?i = "tr_id task"
  let ?ok = "is_available task (deps_completed db lookup task) (lease_for_task (leases db) ?i) now"
  show ?case
  proof (cases "?ok \<and> (\<exists>t. find_task db ?i = Some t \<and> t_status t = TASK_PENDING)")
    case True
    then obtain t where t: "find_task db ?i = Some t" "t_status t = TASK_PENDING" by blast
    have rec: "to_record (set_task db ?i f) x = to_record db x" for f x
      by (simp add: to_record_def dependencies_of_def)
    have "(db', r) = (claimed duration now created agent_id db ?i,
        Some (to_record db (t\<lparr>t_status := TASK_IN_PROGRESS\<rparr>),
              snd (lease_save (lease_delete (leases db) ?i) created (new_lease duration ?i agent_id now))))"
      using Cons.prems(2) True claim_pending_success [OF Cons.prems(1) t]
      by (simp add: claimed_def Let_def rec split: prod.splits)
    then show ?thesis using True t by auto
  next
    case False
    then have "(db', r) = (db, None) \<or>
        checkout_loop duration now created agent_id pinned lookup rest db = (db', r)"
      using Cons.prems(2) claim_pending_failure [OF Cons.prems(1), of ?i] by (auto split: if_splits)
    then show ?thesis using Cons.IH [OF Cons.prems(1)] by auto
  qed
qed

lemma task_inv_claimed:
  assumes inv: "task_inv db" and t: "find_task db i = Some t" "t_status t = TASK_PENDING"
  shows "task_inv (claimed duration now created agent_id db i)"
proof -
  let ?db = "set_task db i (\<lambda>t. t\<lparr>t_status := TASK_IN_PROGRESS\<rparr>)"
  have "task_inv ?db" by (rule task_inv_set_task [OF inv]) auto
  moreover have "find_task ?db i = Some (t\<lparr>t_status := TASK_IN_PROGRESS\<rparr>)" using t by (simp add: find_set_task)
  ultimately show ?thesis
    using task_inv_add_lease [of ?db i _ "new_lease duration i agent_id now" created]
    by (simp add: claimed_def new_lease_def Let_def)
qed

text \<open>A pending task has no lease, so a claim never replaces one.\<close>

lemma pending_unleased:
  assumes inv: "task_inv db" and t: "find_task db i = Some t" "t_status t = TASK_PENDING"
  shows "lease_for_task (leases db) i = None"
proof -
  have "l_task_id l \<noteq> i" if "l \<in> set (leases db)" for l
  proof
    assume "l_task_id l = i"
    with that obtain t' where "t' \<in> set (tasks db)" "t_id t' = i" "t_status t' = TASK_IN_PROGRESS"
      using task_invD(4) [OF inv] by (auto simp: leased_in_progress_def)
    with t show False using task_invD(1) [OF inv] by (metis find_task_iff option.inject task_status.distinct(1))
  qed
  then show ?thesis by (auto simp: lease_for_task_def find_None_iff)
qed

subsection \<open>Every request keeps the invariant\<close>

text \<open>The result of \<open>checkout\<close> in closed form, from a database that satisfies the invariant.\<close>

lemma checkout_cases:
  assumes inv: "task_inv db" and run: "checkout duration now created db agent_id task_id = Inr (db', r)"
  defines "db1 \<equiv> swept db now agent_id"
  shows "(ss_maintenance_mode (get_state db now) \<and> db' = db \<and> cr_task r = None)
    \<or> (\<not> ss_maintenance_mode (get_state db now) \<and> db' = db1 \<and> cr_task r = None)
    \<or> (\<not> ss_maintenance_mode (get_state db now) \<and> (\<exists>task t lease.
        task \<in> set (list_candidates db1 task_id) \<and> find_task db1 (tr_id task) = Some t
        \<and> t_status t = TASK_PENDING
        \<and> deps_completed db1 (case task_id of None \<Rightarrow> Some (record_status_lookup (list_candidates db1 None)) | Some _ \<Rightarrow> None) task
        \<and> db' = claimed duration now created agent_id db1 (tr_id task)
        \<and> cr_task r = Some (to_record db1 (t\<lparr>t_status := TASK_IN_PROGRESS\<rparr>))
        \<and> cr_lease r = Some lease
        \<and> lease_for_task (leases db') (tr_id task) = Some lease
        \<and> lr_agent_id lease = agent_id \<and> lr_expires_at lease = now + seconds duration))"
proof (cases "ss_maintenance_mode (get_state db now)")
  case True
  with run show ?thesis by (auto simp: checkout_def Let_def)
next
  case False
  let ?c = "list_candidates db1 task_id"
  let ?lookup = "case task_id of None \<Rightarrow> Some (record_status_lookup ?c) | Some _ \<Rightarrow> None"
  obtain db2 x where loop: "checkout_loop duration now created agent_id (task_id \<noteq> None) ?lookup ?c db1 = (db2, x)"
    by fastforce
  have look: "?lookup = (case task_id of None \<Rightarrow> Some (record_status_lookup (list_candidates db1 None)) | Some _ \<Rightarrow> None)"
    by (simp split: option.splits)
  have inv1: "task_inv db1" unfolding db1_def by (rule task_inv_swept [OF inv])
  have prep: "prepare_checkout db now agent_id = Inr db1"
    unfolding db1_def by (rule prepare_checkout_eq [OF task_invD(1) [OF inv]])
  have out: "db' = db2" "cr_task r = map_option fst x" "cr_lease r = map_option snd x"
    using run False prep loop by (auto simp: checkout_def Let_def split: option.splits)
  from checkout_loop_cases [OF task_invD(1) [OF inv1] loop] show ?thesis
  proof (elim disjE exE conjE)
    assume "x = None" "db2 = db1"
    then show ?thesis using out False by simp
  next
    fix task t lease
    assume a: "task \<in> set ?c" "find_task db1 (tr_id task) = Some t" "t_status t = TASK_PENDING"
      "is_available task (deps_completed db1 ?lookup task) (lease_for_task (leases db1) (tr_id task)) now"
      "db2 = claimed duration now created agent_id db1 (tr_id task)"
      "x = Some (to_record db1 (t\<lparr>t_status := TASK_IN_PROGRESS\<rparr>), lease)"
      "lease = snd (lease_save (lease_delete (leases db1) (tr_id task)) created
          (new_lease duration (tr_id task) agent_id now))"
    have dep: "deps_completed db1 ?lookup task" using a(4) by (simp add: is_available_def split: if_splits)
    have "lease_for_task (leases db2) (tr_id task) = Some lease"
      using a(5,7) sql_leases.reissue [OF task_invD(3) [OF inv1]] by (simp add: claimed_def Let_def)
    moreover have "lr_agent_id lease = agent_id" "lr_expires_at lease = now + seconds duration"
      using a(7) by (simp_all add: sql_leases.save_agent sql_leases.save_expires new_lease_def deadline_def)
    ultimately show ?thesis using a dep out False look by auto
  qed
qed

lemma checkout_no_error:
  assumes "task_inv db"
  shows "\<exists>db' r. checkout duration now created db agent_id task_id = Inr (db', r)"
  using prepare_checkout_eq [OF task_invD(1) [OF assms]]
  by (auto simp: checkout_def Let_def split: prod.splits option.splits)

lemma task_inv_checkout:
  assumes "task_inv db" and "checkout duration now created db agent_id task_id = Inr (db', r)"
  shows "task_inv db'"
  using checkout_cases [OF assms] assms(1) task_inv_swept task_inv_claimed by metis

lemma task_inv_heartbeat:
  assumes inv: "task_inv db"
  shows "task_inv (fst (heartbeat duration now created db agent_id i))"
proof (cases "lease_for_task (leases db) i")
  case None
  then show ?thesis using inv by (simp add: heartbeat_def)
next
  case (Some l)
  then have i: "lr_task_id l = i" by (rule lease_for_task_task)
  from Some obtain old where old: "find (\<lambda>x. l_task_id x = i) (leases db) = Some old"
    by (auto simp: lease_for_task_def)
  let ?l = "policy_refresh duration l now"
  have "lr_task_id ?l = i" using i by (simp add: policy_refresh_def lease_refresh_def)
  then have ls: "fst (lease_save (leases db) created ?l)
      = update_where (\<lambda>x. l_task_id x = i) (renew_row ?l) (leases db)"
    using old by (simp add: lease_save_old)
  have "task_inv (db\<lparr>leases := update_where (\<lambda>x. l_task_id x = i) (renew_row ?l) (leases db)\<rparr>)"
    using inv by (intro task_inv_intro)
      (auto simp: task_inv_def task_ids_def valid_leases_def map_update_where leased_in_progress_def set_update_where)
  with ls inv Some show ?thesis by (simp add: heartbeat_def Let_def)
qed

lemma task_inv_release:
  assumes inv: "task_inv db"
  shows "task_inv ((set_task db i (status_row s n))\<lparr>leases := lease_delete (leases db) i\<rparr>)"
proof -
  let ?db = "db\<lparr>leases := lease_delete (leases db) i\<rparr>"
  have "task_inv (set_task ?db i (status_row s n))"
    by (rule task_inv_set_task [OF task_inv_delete_lease [OF inv]])
      (auto simp: lease_delete_def set_delete_where)
  moreover have "set_task ?db i f = (set_task db i f)\<lparr>leases := lease_delete (leases db) i\<rparr>" for f
    by (simp add: set_task_def)
  ultimately show ?thesis by simp
qed

text \<open>\<open>complete\<close> and \<open>abandon\<close> in closed form.\<close>

lemma complete_eq:
  assumes "task_inv db"
  shows "complete now db agent_id i notes =
    (case task_get db i of
       Some task \<Rightarrow>
         if can_complete (lease_for_task (leases db) i) agent_id now
         then Inr ((set_task db i (status_row TASK_COMPLETED (text_or_none notes)))
                     \<lparr>leases := lease_delete (leases db) i\<rparr>,
                   \<lparr>co_ok = True,
                    co_task = Some (task\<lparr>tr_status := TASK_COMPLETED, tr_completed_notes := text_or_none notes\<rparr>),
                    co_notes = text_or_none notes\<rparr>)
         else Inr (db, \<lparr>co_ok = False, co_task = None, co_notes = None\<rparr>)
     | None \<Rightarrow> Inr (db, \<lparr>co_ok = False, co_task = None, co_notes = None\<rparr>))"
  using task_save_status [OF task_invD(1) [OF assms]]
  by (simp add: complete_def Let_def split: option.splits)

lemma abandon_eq:
  assumes "task_inv db"
  shows "abandon now db agent_id i =
    (case task_get db i of
       Some task \<Rightarrow>
         if can_abandon (lease_for_task (leases db) i) agent_id now
         then Inr ((set_task db i (status_row TASK_PENDING None))
                     \<lparr>leases := lease_delete (leases db) i\<rparr>,
                   \<lparr>hb_ok = True, hb_task_id = i\<rparr>)
         else Inr (db, \<lparr>hb_ok = False, hb_task_id = i\<rparr>)
     | None \<Rightarrow> Inr (db, \<lparr>hb_ok = False, hb_task_id = i\<rparr>))"
  using task_save_status [OF task_invD(1) [OF assms]]
  by (simp add: abandon_def Let_def split: option.splits)

lemma task_inv_complete:
  "task_inv db \<Longrightarrow> complete now db agent_id i notes = Inr (db', r) \<Longrightarrow> task_inv db'"
  by (auto simp: complete_eq task_inv_release split: option.splits if_splits)

lemma task_inv_abandon:
  "task_inv db \<Longrightarrow> abandon now db agent_id i = Inr (db', r) \<Longrightarrow> task_inv db'"
  by (auto simp: abandon_eq task_inv_release split: option.splits if_splits)

definition missing_dependencies :: "task_db \<Rightarrow> int list \<Rightarrow> int list" where
  "missing_dependencies db deps = sort (remdups (filter (\<lambda>d. d \<notin> set (task_ids db)) deps))"

lemma set_missing_dependencies: "set (missing_dependencies db deps) = set deps - set (task_ids db)"
  by (auto simp: missing_dependencies_def)

lemma ensure_dependencies_exist_eq:
  "ensure_dependencies_exist db deps =
    (if missing_dependencies db deps = [] then Inr ()
     else Inl (MissingDependenciesError (missing_dependencies db deps)))"
proof -
  have "filter (\<lambda>d. d \<notin> set (existing_ids db deps)) deps = filter (\<lambda>d. d \<notin> set (task_ids db)) deps"
    by (rule filter_cong) (auto simp: existing_ids_def task_ids_def)
  then show ?thesis
    by (simp add: ensure_dependencies_exist_def missing_dependencies_def Let_def)
qed

lemma ensure_dependencies_exist_ok:
  "ensure_dependencies_exist db deps = Inr u \<longleftrightarrow> set deps \<subseteq> set (task_ids db)"
proof -
  have "missing_dependencies db deps = [] \<longleftrightarrow> set deps \<subseteq> set (task_ids db)"
    by (metis Diff_eq_empty_iff empty_set set_empty set_missing_dependencies)
  then show ?thesis by (simp add: ensure_dependencies_exist_eq)
qed

lemma set_edges: "set (edges i deps) = (\<lambda>d. \<lparr>d_task_id = i, d_depends_on_task_id = d\<rparr>) ` set deps"
  by (simp add: edges_def)

lemma distinct_edges: "distinct (edges i deps)"
  by (auto simp: edges_def distinct_map inj_on_def)

lemma create_task_ok:
  assumes "create_task db new_id title description deps priority = Inr (db', rec)"
  shows "new_id \<notin> set (task_ids db)" and "set deps \<subseteq> set (task_ids db)"
    and "db' = db\<lparr>tasks := tasks db @ [new_task_row new_id title description priority],
      dependencies := dependencies db @ edges new_id (normalize_dependencies deps)\<rparr>"
  using assms by (auto simp: create_task_def task_create_def Let_def result_simps
      ensure_dependencies_exist_ok normalize_dependencies_def split: if_splits)

lemma new_task_row_id [simp]: "t_id (new_task_row i a b p) = i"
  by (simp add: new_task_row_def)

lemma task_inv_create:
  assumes inv: "task_inv db" and ok: "create_task db new_id title description deps priority = Inr (db', rec)"
  shows "task_inv db'"
proof -
  note parts = create_task_ok [OF ok]
  have "edges_ok db'"
    using task_invD(5) [OF inv] parts(1,2)
    by (auto simp: edges_ok_def parts(3) task_ids_def set_edges distinct_edges normalize_dependencies_def)
  moreover have "distinct (map t_id (tasks db'))"
    using task_invD(1) [OF inv] parts(1) by (simp add: parts(3) task_ids_def)
  ultimately show ?thesis
    using inv by (intro task_inv_intro) (auto simp: parts(3) task_inv_def leased_in_progress_def valid_leases_def)
qed

lemma patch_row_id [simp]: "t_id (patch_row p t) = t_id t"
  by (simp add: patch_row_def)

lemma patch_row_status: "t_status (patch_row p t) = (case p_status p of None \<Rightarrow> t_status t | Some v \<Rightarrow> v)"
  by (simp add: patch_row_def)

definition replace_edges :: "task_db \<Rightarrow> int \<Rightarrow> int list option \<Rightarrow> task_db" where
  "replace_edges db i deps =
     (case deps of None \<Rightarrow> db
      | Some ds \<Rightarrow> db\<lparr>dependencies := delete_where (\<lambda>d. d_task_id d = i) (dependencies db) @ edges i ds\<rparr>)"

lemma replace_edges_simps [simp]:
  "tasks (replace_edges db i deps) = tasks db" "leases (replace_edges db i deps) = leases db"
  "task_ids (replace_edges db i deps) = task_ids db"
  by (simp_all add: replace_edges_def task_ids_def split: option.splits)

lemma task_inv_replace_edges:
  assumes inv: "task_inv db" and "i \<in> set (task_ids db)"
    and deps: "\<And>ds. deps = Some ds \<Longrightarrow> set ds \<subseteq> set (task_ids db) \<and> i \<notin> set ds"
  shows "task_inv (replace_edges db i deps)"
proof (cases deps)
  case None
  then show ?thesis using inv by (simp add: replace_edges_def)
next
  case (Some ds)
  have "edges_ok (replace_edges db i deps)"
    using task_invD(5) [OF inv] assms(2) deps [OF Some] Some
    by (auto simp: edges_ok_def replace_edges_def task_ids_def set_edges distinct_edges
        set_delete_where delete_where_def)
  then show ?thesis
    using inv by (simp add: task_inv_def leased_in_progress_def)
qed

text \<open>An update that succeeds, in closed form.\<close>

lemma update_task_ok:
  assumes "update_task db i p = Inr (db', rec)"
  defines "deps \<equiv> map_option normalize_dependencies (p_depends_on p)"
  shows "i \<in> set (task_ids db)"
    and "\<And>ds. deps = Some ds \<Longrightarrow> set ds \<subseteq> set (task_ids db) \<and> i \<notin> set ds"
    and "db' = (let db1 = replace_edges (set_task db i (patch_row p)) i deps
                in if p_status p \<in> {Some TASK_PENDING, Some TASK_COMPLETED}
                   then db1\<lparr>leases := lease_delete (leases db) i\<rparr> else db1)"
proof -
  have row: "patch_row (p\<lparr>p_depends_on := d\<rparr>) = patch_row p" for d
    by (intro ext) (simp add: patch_row_def)
  have upd: "task_update db i (p\<lparr>p_depends_on := deps\<rparr>) =
      (let db2 = replace_edges (set_task db i (patch_row p)) i deps in (db2, task_get db2 i))"
    if "find_task db i = Some t" for t
    using that by (simp add: task_update_def row set_task_def replace_edges_def Let_def split: option.splits)
  from assms(1) obtain t where t: "find_task db i = Some t"
    by (auto simp: update_task_def task_get_def Let_def split: option.splits if_splits)
  then show "i \<in> set (task_ids db)" using find_task_Some by (fastforce simp: task_ids_def)
  show "set ds \<subseteq> set (task_ids db) \<and> i \<notin> set ds" if "deps = Some ds" for ds
    using assms(1) that by (auto simp: update_task_def deps_def result_simps ensure_dependencies_exist_ok
        normalize_dependencies_def Let_def split: option.splits if_splits)
  show "db' = (let db1 = replace_edges (set_task db i (patch_row p)) i deps
                in if p_status p \<in> {Some TASK_PENDING, Some TASK_COMPLETED}
                   then db1\<lparr>leases := lease_delete (leases db) i\<rparr> else db1)"
    using assms(1) upd [OF t]
    by (cases "p_depends_on p")
      (auto simp: update_task_def deps_def result_simps Let_def split: option.splits if_splits)
qed

lemma task_inv_update:
  assumes inv: "task_inv db" and ok: "update_task db i p = Inr (db', rec)"
  shows "task_inv db'"
proof -
  note parts = update_task_ok [OF ok]
  let ?db = "if p_status p \<in> {Some TASK_PENDING, Some TASK_COMPLETED}
    then db\<lparr>leases := lease_delete (leases db) i\<rparr> else db"
  have "task_inv ?db" using inv task_inv_delete_lease by simp
  moreover have "t_status (patch_row p t) = TASK_IN_PROGRESS"
    if "t \<in> set (tasks ?db)" "t_id t = i" "i \<in> l_task_id ` set (leases ?db)" for t
  proof -
    from that(3) obtain l where "l \<in> set (leases ?db)" "l_task_id l = i" by auto
    with \<open>task_inv ?db\<close> obtain t' where "t' \<in> set (tasks ?db)" "t_id t' = i" "t_status t' = TASK_IN_PROGRESS"
      by (auto simp: task_inv_def leased_in_progress_def)
    with that task_invD(1) [OF \<open>task_inv ?db\<close>] have "t_status t = TASK_IN_PROGRESS" by (metis key_unique)
    moreover have "p_status p \<notin> {Some TASK_PENDING, Some TASK_COMPLETED}"
      using that(3) by (auto simp: lease_delete_def set_delete_where split: if_splits)
    ultimately show ?thesis
      by (cases "p_status p") (auto simp: patch_row_status elim: task_status.exhaust,
          metis (full_types) task_status.exhaust)
  qed
  ultimately have "task_inv (set_task ?db i (patch_row p))" by (intro task_inv_set_task) auto
  then have "task_inv (replace_edges (set_task ?db i (patch_row p)) i
      (map_option normalize_dependencies (p_depends_on p)))"
    by (rule task_inv_replace_edges) (use parts(1,2) in \<open>auto simp: task_ids_def map_update_where\<close>)
  moreover have "db' = replace_edges (set_task ?db i (patch_row p)) i
      (map_option normalize_dependencies (p_depends_on p))"
    by (simp add: parts(3) set_task_def replace_edges_def Let_def split: option.splits)
  ultimately show ?thesis by simp
qed

lemma task_inv_delete:
  assumes inv: "task_inv db"
  shows "task_inv (fst (delete_task db i))"
proof -
  let ?db = "fst (delete_task db i)"
  have ts: "tasks ?db = delete_where (\<lambda>t. t_id t = i) (tasks db)"
    by (auto simp: delete_task_def task_delete_def find_task_def find_None_iff delete_where_def Let_def
        filter_id_conv split: option.splits)
  have ls: "leases ?db = lease_delete (leases db) i"
    and ds: "dependencies ?db = delete_where (\<lambda>d. d_task_id d = i \<or> d_depends_on_task_id d = i) (dependencies db)"
    by (simp_all add: delete_task_def task_delete_def Let_def split: option.splits)
  have "distinct (map t_id (tasks ?db))" "distinct (map l_task_id (leases ?db))"
    using task_invD [OF inv] by (simp_all add: ts ls lease_delete_def map_delete_where_distinct)
  moreover have "edges_ok ?db"
    using task_invD(5) [OF inv]
    by (auto simp: edges_ok_def ds ts task_ids_def set_delete_where delete_where_def)
  ultimately show ?thesis
    using task_invD(4) [OF inv]
    by (intro task_inv_intro) (auto simp: ls ts lease_delete_def set_delete_where leased_in_progress_def, metis)
qed

lemma plan_increment_frame:
  "tasks (fst (plan_increment db now)) = tasks db" "leases (fst (plan_increment db now)) = leases db"
  "dependencies (fst (plan_increment db now)) = dependencies db"
  by (simp_all add: plan_increment_def plan_ensure_row_def Let_def split: option.splits)

lemma task_inv_bump [simp]: "task_inv (bump c now db) = task_inv db"
  by (simp add: bump_def plan_increment_def plan_ensure_row_def task_inv_frame Let_def split: option.splits)

lemma task_inv_update_state:
  "task_inv db \<Longrightarrow> update_state db now mode message expected = Inr (db', r) \<Longrightarrow> task_inv db'"
  by (auto simp: update_state_def repo_update_state_def Let_def task_inv_frame
      split: sum.splits system_state_error.splits if_splits)

lemma task_inv_handle: "task_inv db \<Longrightarrow> task_inv (handle duration now created db req)"
  by (cases req)
    (auto simp: task_inv_heartbeat split: sum.splits prod.splits
      intro: task_inv_checkout task_inv_complete task_inv_abandon task_inv_create task_inv_update
        task_inv_update_state, metis fst_conv task_inv_delete)

section \<open>The system of requests\<close>

text \<open>
  The server starts with empty tables and processes one request after the other; each request
  reads the clock for itself, and nothing is assumed about successive readings.
\<close>

definition task_start :: "task_db \<Rightarrow> bool" where
  "task_start db \<longleftrightarrow> tasks db = [] \<and> dependencies db = [] \<and> leases db = [] \<and> agents db = []"

type_synonym task_event = "int \<times> time \<times> time \<times> task_request"

inductive task_step :: "task_db \<Rightarrow> task_event \<Rightarrow> task_db \<Rightarrow> bool" where
  request: "task_step db (duration, now, created, req) (handle duration now created db req)"

inductive_cases task_stepE: "task_step db e db'"

interpretation task_system: invariant_system task_start task_step task_inv
proof unfold_locales
  show "task_inv db" if "task_start db" for db
    using that by (simp add: task_start_def task_inv_def task_ids_def valid_leases_def
        leased_in_progress_def edges_ok_def)
  show "task_inv db'" if "task_inv db" "task_step db e db'" for db e db'
    using that by (auto elim: task_stepE intro: task_inv_handle)
qed

abbreviation task_reachable :: "task_db \<Rightarrow> bool" where
  "task_reachable \<equiv> reach task_start task_step"

end
