(* ===== verification/Task_Properties.thy ===== *)
theory Task_Properties
  imports Task_Service
begin

text \<open>
  What task coordination guarantees: the properties of \<open>TaskService\<close> and its request handlers,
  each with a witness on a concrete database. The lemmas before the properties connect the
  optimised dependency check of the checkout loop with the query of the repository, and describe
  how a lease row survives a request.
\<close>

section \<open>Dependency checks\<close>

definition deps_done :: "task_db \<Rightarrow> int \<Rightarrow> bool" where
  "deps_done db i \<longleftrightarrow>
     (\<forall>d \<in> set (dependencies db). d_task_id d = i \<longrightarrow>
        (\<exists>t \<in> set (tasks db). t_id t = d_depends_on_task_id d \<and> t_status t = TASK_COMPLETED))"

definition task_ready :: "task_db \<Rightarrow> task_row \<Rightarrow> bool" where
  "task_ready db t \<longleftrightarrow> t_status t = TASK_PENDING \<and> deps_done db (t_id t)"

lemma all_completed_iff:
  assumes "\<forall>d \<in> set ds. statuses d \<noteq> None"
  shows "all_completed statuses ds = Some (\<forall>d \<in> set ds. statuses d = Some TASK_COMPLETED)"
  using assms by (induction ds) (auto split: option.splits)

lemma dependency_exists:
  assumes "task_inv db" and "d \<in> set (dependencies db)"
  shows "\<exists>t. find_task db (d_depends_on_task_id d) = Some t"
proof -
  have "d_depends_on_task_id d \<in> t_id ` set (tasks db)"
    using assms by (auto simp: task_inv_def edges_ok_def task_ids_def)
  then have "find_task db (d_depends_on_task_id d) \<noteq> None"
    unfolding find_task_def find_key_None by simp
  then show ?thesis by blast
qed

lemma deps_done_iff:
  assumes inv: "task_inv db"
  shows "deps_done db i \<longleftrightarrow>
    (\<forall>d \<in> set (dependencies_of db i). \<exists>t. find_task db d = Some t \<and> t_status t = TASK_COMPLETED)"
  using find_task_iff [OF task_invD(1) [OF inv]]
  by (fastforce simp: deps_done_def set_dependencies_of)

lemma dependencies_completed_iff:
  assumes inv: "task_inv db"
  shows "dependencies_completed db i \<longleftrightarrow> deps_done db i"
proof -
  have "dependencies_completed db i \<longleftrightarrow>
      (\<forall>d \<in> set (dependencies_of db i). \<forall>t. find_task db d = Some t \<longrightarrow> t_status t = TASK_COMPLETED)"
    using find_task_iff [OF task_invD(1) [OF inv]] by (auto simp: dependencies_completed_def Let_def)
  moreover have "\<exists>t. find_task db d = Some t" if "d \<in> set (dependencies_of db i)" for d
    using that dependency_exists [OF inv] by (auto simp: set_dependencies_of)
  ultimately show ?thesis unfolding deps_done_iff [OF inv] by fastforce
qed

lemma set_list_candidates:
  "set (list_candidates db None) = to_record db ` set (tasks db)"
  by (simp add: list_candidates_def)

lemma record_lookup_candidates:
  assumes inv: "task_inv db"
  shows "record_status_lookup (list_candidates db None) i = map_option t_status (find_task db i)"
proof -
  let ?recs = "rev (list_candidates db None)"
  have "map tr_id (list_candidates db None) = map t_id (sort_key (\<lambda>t. (- t_priority t, t_id t)) (tasks db))"
    by (simp add: list_candidates_def to_record_def comp_def)
  moreover have "distinct (map t_id (sort_key (\<lambda>t. (- t_priority t, t_id t)) (tasks db)))"
    using task_invD(1) [OF inv] by (metis (no_types, lifting) distinct_map distinct_sort set_sort)
  ultimately have d: "distinct (map tr_id ?recs)" by (simp add: rev_map [symmetric])
  show ?thesis
  proof (cases "find_task db i")
    case None
    then have "find (\<lambda>t. tr_id t = i) ?recs = None"
      by (auto simp: find_None_iff set_list_candidates find_task_def to_record_def)
    with None show ?thesis by (simp add: record_status_lookup_def)
  next
    case (Some t)
    then have "to_record db t \<in> set ?recs" "tr_id (to_record db t) = i"
      using find_task_Some by (fastforce simp: set_list_candidates to_record_def)+
    with d have "find (\<lambda>t. tr_id t = i) ?recs = Some (to_record db t)" by (simp add: find_key_iff)
    with Some show ?thesis by (simp add: record_status_lookup_def to_record_def)
  qed
qed

text \<open>Both ways in which the checkout loop learns about dependencies agree with the tables.\<close>

lemma deps_completed_iff:
  assumes inv: "task_inv db" and "t \<in> set (tasks db)"
    and lookup: "lookup = None \<or> lookup = Some (record_status_lookup (list_candidates db None))"
  shows "deps_completed db lookup (to_record db t) \<longleftrightarrow> deps_done db (t_id t)"
  using lookup
proof
  assume "lookup = None"
  then show ?thesis using dependencies_completed_iff [OF inv] by (simp add: deps_completed_def to_record_def)
next
  assume l: "lookup = Some (record_status_lookup (list_candidates db None))"
  let ?m = "record_status_lookup (list_candidates db None)"
  have known: "\<forall>d \<in> set (dependencies_of db (t_id t)). ?m d \<noteq> None"
    using dependency_exists [OF inv] by (fastforce simp: record_lookup_candidates [OF inv] set_dependencies_of)
  have "dependencies_completed_from_records (to_record db t) ?m
      = Some (\<forall>d \<in> set (dependencies_of db (t_id t)). ?m d = Some TASK_COMPLETED)"
    using all_completed_iff [OF known]
    by (auto simp: dependencies_completed_from_records_def to_record_def)
  then show ?thesis
    using l by (simp add: deps_completed_def deps_done_iff [OF inv] record_lookup_candidates [OF inv])
qed


section \<open>Reachable databases\<close>

text \<open>
  The database the witnesses are stated on: three tasks are created, the second depending on the
  first, and one agent checks out work. \<open>empty_db\<close> is the database after the tables are created.
\<close>

definition empty_db :: task_db where
  "empty_db = \<lparr>tasks = [], dependencies = [], leases = [], agents = [],
     plan_version_row = None, system_state_row = None\<rparr>"

definition planned_db :: task_db where
  "planned_db = handle 300 0 0 (handle 300 0 0 (handle 300 0 0 empty_db
       (CreateRequest 1 ''build'' ''compile'' [] 0))
       (CreateRequest 2 ''test'' ''run tests'' [1] 7))
       (CreateRequest 3 ''docs'' ''write'' [] 1)"

definition sample_db :: task_db where
  "sample_db = handle 300 5 5 planned_db (CheckoutRequest ''alice'' None)"

lemma reachable_handle: "task_reachable db \<Longrightarrow> task_reachable (handle duration now created db req)"
  by (rule reach_step) (auto intro: request)

lemma reachable_empty: "task_reachable empty_db"
  by (rule reach_start) (simp add: task_start_def empty_db_def)

lemma reachable_planned: "task_reachable planned_db"
  unfolding planned_db_def by (intro reachable_handle reachable_empty)

lemma reachable_sample: "task_reachable sample_db"
  unfolding sample_db_def by (intro reachable_handle reachable_planned)

lemmas reachable_inv = task_system.inv_reach

section \<open>The loop on a current list of candidates\<close>

text \<open>
  When the candidates are the current rows, a task is available exactly when it is ready, and the
  loop claims the first ready one.
\<close>

lemma available_iff_ready:
  assumes inv: "task_inv db" and t: "t \<in> set (tasks db)"
    and lookup: "lookup = None \<or> lookup = Some (record_status_lookup (list_candidates db None))"
  shows "is_available (to_record db t) (deps_completed db lookup (to_record db t))
      (lease_for_task (leases db) (t_id t)) now \<longleftrightarrow> task_ready db t"
proof -
  have "lease_for_task (leases db) (t_id t) = None" if "t_status t = TASK_PENDING"
    using pending_unleased [OF inv _ that] t find_task_iff [OF task_invD(1) [OF inv]] by blast
  then show ?thesis
    using deps_completed_iff [OF inv t lookup]
    by (auto simp: is_available_def task_ready_def to_record_def)
qed

lemma checkout_loop_first_ready:
  assumes inv: "task_inv db" and "set ts \<subseteq> set (tasks db)"
    and lookup: "lookup = None \<or> lookup = Some (record_status_lookup (list_candidates db None))"
  shows "checkout_loop duration now created agent_id False lookup (map (to_record db) ts) db =
    (case find (task_ready db) ts of
       None \<Rightarrow> (db, None)
     | Some t \<Rightarrow> (claimed duration now created agent_id db (t_id t),
         Some (to_record db (t\<lparr>t_status := TASK_IN_PROGRESS\<rparr>),
               snd (lease_save (lease_delete (leases db) (t_id t)) created
                 (new_lease duration (t_id t) agent_id now)))))"
  using assms(2)
proof (induction ts)
  case Nil
  then show ?case by simp
next
  case (Cons t ts)
  then have t: "find_task db (t_id t) = Some t" "t \<in> set (tasks db)"
    using find_task_iff [OF task_invD(1) [OF inv]] by auto
  have id: "tr_id (to_record db t) = t_id t" by (simp add: to_record_def)
  note avail = available_iff_ready [OF inv t(2) lookup, of now]
  show ?case
  proof (cases "task_ready db t")
    case True
    then have p: "t_status t = TASK_PENDING" by (simp add: task_ready_def)
    have rec: "to_record (set_task db i f) x = to_record db x" for i f x
      by (simp add: to_record_def dependencies_of_def)
    show ?thesis
      using True avail claim_pending_success [OF task_invD(1) [OF inv] t(1) p]
      by (simp add: id rec claimed_def Let_def split: prod.splits)
  next
    case False
    with avail Cons show ?thesis by (simp add: id)
  qed
qed

lemma find_sorted_least:
  assumes "sorted_wrt R xs" and "find P xs = Some x" and "y \<in> set xs" and "P y" and "\<And>a. R a a"
  shows "R x y"
  using assms by (induction xs) (auto split: if_splits)

lemma checkout_unpinned:
  assumes inv: "task_inv db" and off: "\<not> ss_maintenance_mode (get_state db now)"
    and run: "checkout duration now created db agent_id None = Inr (db', r)"
  shows "cr_task r = map_option (\<lambda>t. to_record (swept db now agent_id) (t\<lparr>t_status := TASK_IN_PROGRESS\<rparr>))
    (find (task_ready (swept db now agent_id))
      (sort_key (\<lambda>t. (- t_priority t, t_id t)) (tasks (swept db now agent_id))))"
proof -
  let ?db = "swept db now agent_id"
  let ?ts = "sort_key (\<lambda>t. (- t_priority t, t_id t)) (tasks ?db)"
  let ?l = "Some (record_status_lookup (list_candidates ?db None))"
  have c: "list_candidates ?db None = map (to_record ?db) ?ts" by (simp only: list_candidates_def option.case)
  have "checkout_loop duration now created agent_id False ?l (map (to_record ?db) ?ts) ?db =
    (case find (task_ready ?db) ?ts of
       None \<Rightarrow> (?db, None)
     | Some t \<Rightarrow> (claimed duration now created agent_id ?db (t_id t),
         Some (to_record ?db (t\<lparr>t_status := TASK_IN_PROGRESS\<rparr>),
               snd (lease_save (lease_delete (leases ?db) (t_id t)) created
                 (new_lease duration (t_id t) agent_id now)))))"
    by (rule checkout_loop_first_ready [OF task_inv_swept [OF inv]]) auto
  then show ?thesis
    using run off prepare_checkout_eq [OF task_invD(1) [OF inv]]
    by (auto simp: checkout_def Let_def c [symmetric] simp del: swept_simps split: option.splits)
qed

lemma find_swept: "find_task (swept db now a) i
    = map_option (requeue_row (snd (expire_stale (leases db) now))) (find_task db i)"
proof -
  have "find (\<lambda>t. t_id t = i) (map (requeue_row ids) ts) = map_option (requeue_row ids) (find (\<lambda>t. t_id t = i) ts)"
    for ids ts by (induction ts) auto
  then show ?thesis by (simp add: find_task_def)
qed

lemma expired_in_progress:
  assumes inv: "task_inv db" and "i \<in> set (snd (expire_stale (leases db) now))" and "find_task db i = Some t"
  shows "t_status t = TASK_IN_PROGRESS"
    and "\<exists>l. lease_for_task (leases db) i = Some l \<and> lr_expires_at l < now"
proof -
  show "\<exists>l. lease_for_task (leases db) i = Some l \<and> lr_expires_at l < now"
    using assms(2) sql_leases.expired_ids [OF task_invD(3) [OF inv]] by blast
  then obtain l where "l \<in> set (leases db)" and "l_task_id l = i"
    by (auto simp: lease_for_task_def dest!: find_key_Some)
  then obtain t' where "find_task db i = Some t'" and "t_status t' = TASK_IN_PROGRESS"
    using task_invD(4) [OF inv] find_task_iff [OF task_invD(1) [OF inv]]
    by (auto simp: leased_in_progress_def)
  then show "t_status t = TASK_IN_PROGRESS" using assms(3) by simp
qed

lemma completed_swept:
  assumes inv: "task_inv db"
  shows "(\<exists>t. find_task (swept db now a) d = Some t \<and> t_status t = TASK_COMPLETED)
    \<longleftrightarrow> (\<exists>t. find_task db d = Some t \<and> t_status t = TASK_COMPLETED)"
  using expired_in_progress(1) [OF inv] find_task_Some
  by (fastforce simp: find_swept requeue_row_def split: if_splits)

lemma deps_done_swept:
  assumes inv: "task_inv db"
  shows "deps_done (swept db now a) i \<longleftrightarrow> deps_done db i"
  unfolding deps_done_iff [OF inv] deps_done_iff [OF task_inv_swept [OF inv]] completed_swept [OF inv]
  by (simp add: dependencies_of_def)

lemma pending_swept:
  assumes inv: "task_inv db" and "find_task (swept db now a) i = Some t" and "t_status t = TASK_PENDING"
  shows "\<exists>t0. find_task db i = Some t0 \<and> (t_status t0 = TASK_PENDING
    \<or> (\<exists>l. lease_for_task (leases db) i = Some l \<and> lr_expires_at l < now))"
proof -
  from assms(2) obtain t0 where t0: "find_task db i = Some t0"
      "t = requeue_row (snd (expire_stale (leases db) now)) t0" by (auto simp: find_swept)
  then show ?thesis
    using assms(3) expired_in_progress(2) [OF inv] find_task_Some [OF t0(1)]
    by (auto simp: requeue_row_def split: if_splits)
qed

lemma candidate_row:
  assumes "task_inv db" and "task \<in> set (list_candidates db task_id)"
  shows "\<exists>t. t \<in> set (tasks db) \<and> task = to_record db t \<and> find_task db (tr_id task) = Some t"
proof (cases task_id)
  case None
  with assms show ?thesis
    using find_task_iff [OF task_invD(1) [OF assms(1)]] by (auto simp: list_candidates_def to_record_def)
next
  case (Some i)
  with assms(2) obtain t where t: "find_task db i = Some t" "task = to_record db t"
    by (cases "find_task db i") (auto simp: list_candidates_def)
  with find_task_Some [OF t(1)] show ?thesis by (auto simp: to_record_def)
qed

section \<open>Properties\<close>

text \<open>
  C36. In every database the server can reach, task ids are unique, a task has at most one lease
  and then is in progress, and every dependency edge joins two different existing tasks.
\<close>

theorem task_store_invariant:
  assumes "task_reachable db"
  shows "distinct (task_ids db) \<and> distinct (map l_task_id (leases db))
    \<and> (\<forall>l \<in> set (leases db). \<exists>t. find_task db (l_task_id l) = Some t \<and> t_status t = TASK_IN_PROGRESS)
    \<and> (\<forall>d \<in> set (dependencies db). d_task_id d \<noteq> d_depends_on_task_id d
        \<and> {d_task_id d, d_depends_on_task_id d} \<subseteq> set (task_ids db))"
  using reachable_inv [OF assms] find_task_iff [OF task_invD(1) [OF reachable_inv [OF assms]]]
  by (auto simp: task_inv_def valid_leases_def leased_in_progress_def edges_ok_def)

theorem task_store_invariant_witness:
  "task_reachable sample_db \<and> map l_task_id (leases sample_db) = [3]
    \<and> map t_status (tasks sample_db) = [TASK_PENDING, TASK_PENDING, TASK_IN_PROGRESS]
    \<and> distinct (map l_task_id (leases sample_db))"
proof (intro conjI)
  show "task_reachable sample_db" by (rule reachable_sample)
  show "map l_task_id (leases sample_db) = [3]" by code_simp
  show "map t_status (tasks sample_db) = [TASK_PENDING, TASK_PENDING, TASK_IN_PROGRESS]" by code_simp
  show "distinct (map l_task_id (leases sample_db))"
    using task_store_invariant [OF reachable_sample] by blast
qed

text \<open>
  The requests that may change a lease held by an agent on a task: those of the agent itself on
  that task, and the administrative update and delete of the task.
\<close>

fun may_change_lease :: "string \<Rightarrow> int \<Rightarrow> task_request \<Rightarrow> bool" where
  "may_change_lease a i (HeartbeatRequest b j) = (a = b \<and> i = j)"
| "may_change_lease a i (CompleteRequest b j _) = (a = b \<and> i = j)"
| "may_change_lease a i (AbandonRequest b j) = (a = b \<and> i = j)"
| "may_change_lease a i (UpdateRequest j _ _) = (i = j)"
| "may_change_lease a i (DeleteRequest j) = (i = j)"
| "may_change_lease a i _ = False"

lemma leases_bump [simp]: "leases (bump c now db) = leases db"
  by (simp add: bump_def plan_increment_frame)

lemma lease_for_delete [simp]:
  "lease_for_task (lease_delete ls j) i = (if i = j then None else lease_for_task ls i)"
  by (rule sql_leases.for_delete)

lemma checkout_keeps_live:
  assumes inv: "task_inv db" and l: "lease_for_task (leases db) i = Some l" "now < lr_expires_at l"
    and run: "checkout duration now created db agent_id task_id = Inr (db', r)"
  shows "lease_for_task (leases db') i = Some l"
proof -
  let ?db = "swept db now agent_id"
  have live: "lease_for_task (leases ?db) i = Some l"
    using sql_leases.expire_keeps_live [OF task_invD(3) [OF inv] l(1)] l(2) by simp
  have "lease_for_task (leases (claimed duration now created agent_id ?db (tr_id task))) i = Some l"
    if "find_task ?db (tr_id task) = Some t" "t_status t = TASK_PENDING" for task t
  proof -
    have "i \<noteq> tr_id task" using pending_unleased [OF task_inv_swept [OF inv] that] live by auto
    then show ?thesis
      using live by (simp add: claimed_def Let_def lease_for_save new_lease_def)
  qed
  with checkout_cases [OF inv run] l live show ?thesis by auto
qed

lemma heartbeat_other:
  "i \<noteq> j \<Longrightarrow> lease_for_task (leases (fst (heartbeat duration now created db b j))) i
    = lease_for_task (leases db) i"
  using lease_for_task_task
  by (fastforce simp: heartbeat_def Let_def lease_for_save policy_refresh_def lease_refresh_def split: option.splits)

lemma update_keeps_other_lease:
  assumes "update_task db j p = Inr (db', rec)" and "i \<noteq> j"
  shows "lease_for_task (leases db') i = lease_for_task (leases db) i"
  using update_task_ok(3) [OF assms(1)] assms(2) by (simp add: Let_def)

lemma delete_keeps_other_lease:
  assumes "i \<noteq> j"
  shows "lease_for_task (leases (fst (delete_task db j))) i = lease_for_task (leases db) i"
  using assms by (simp add: delete_task_def task_delete_def Let_def split: option.splits)

text \<open>
  C37. A live lease is protected: whatever request arrives, as long as it is not the holder's own
  request on that task or an administrative update or delete of the task, the lease is still
  there afterwards, with the same holder and the same deadline.
\<close>

theorem live_lease_protected:
  assumes "task_reachable db" and l: "lease_for_task (leases db) i = Some l" and live: "now < lr_expires_at l"
    and other: "\<not> may_change_lease (lr_agent_id l) i req"
  shows "lease_for_task (leases (handle duration now created db req)) i = Some l"
proof -
  have inv: "task_inv db" by (rule reachable_inv [OF assms(1)])
  show ?thesis
  proof (cases req)
    case (CheckoutRequest b j)
    with checkout_keeps_live [OF inv l live] l show ?thesis by (auto split: sum.splits)
  next
    case (HeartbeatRequest b j)
    then show ?thesis
    proof (cases "i = j")
      case True
      then have "\<not> can_heartbeat (lease_for_task (leases db) j) b now"
        using HeartbeatRequest other l by (auto simp: can_heartbeat_def)
      then show ?thesis using HeartbeatRequest l by (simp add: heartbeat_def)
    qed (simp add: heartbeat_other l)
  next
    case (CompleteRequest b j n)
    then have "i = j \<Longrightarrow> \<not> can_complete (lease_for_task (leases db) j) b now"
      using other l live by (auto simp: can_complete_iff)
    then show ?thesis using CompleteRequest l by (auto simp: complete_eq [OF inv] split: option.splits)
  next
    case (AbandonRequest b j)
    then have "i = j \<Longrightarrow> \<not> can_abandon (lease_for_task (leases db) j) b now"
      using other l live by (auto simp: can_abandon_eq_can_complete can_complete_iff)
    then show ?thesis using AbandonRequest l by (auto simp: abandon_eq [OF inv] split: option.splits)
  next
    case (CreateRequest n t d ds pr)
    then show ?thesis using l by (auto split: sum.splits dest: create_task_ok(3))
  next
    case (UpdateRequest j e p)
    then show ?thesis using l other by (auto split: sum.splits dest: update_keeps_other_lease)
  next
    case (DeleteRequest j)
    then show ?thesis using l other delete_keeps_other_lease [of i j db] by (auto split: prod.splits)
  next
    case (SystemStateRequest m msg e)
    then show ?thesis using l by (auto simp: update_state_def repo_update_state_def Let_def
      split: sum.splits system_state_error.splits if_splits)
  qed
qed

theorem live_lease_protected_witness:
  "map_option lr_agent_id (lease_for_task (leases (handle 300 9 9 sample_db (CompleteRequest ''bob'' 3 None))) 3)
    = Some ''alice''"
proof -
  let ?l = "\<lparr>lr_task_id = 3, lr_agent_id = ''alice'', lr_issued_at = 5, lr_expires_at = 300000005\<rparr>"
  have "lease_for_task (leases sample_db) 3 = Some ?l" by code_simp
  from live_lease_protected [OF reachable_sample this, of 9 "CompleteRequest ''bob'' 3 None" 300 9]
  show ?thesis by simp
qed

text \<open>
  C38. The optimised dependency check of the checkout loop, which reads the statuses off the list
  of candidates, gives the same answer as the repository's query for every task of a reachable
  database, and both say that every dependency is a completed task.
\<close>

theorem dependency_check_equivalence:
  assumes "task_reachable db" and "t \<in> set (tasks db)"
  shows "deps_completed db (Some (record_status_lookup (list_candidates db None))) (to_record db t)
      = dependencies_completed db (t_id t)
    \<and> (dependencies_completed db (t_id t) \<longleftrightarrow>
      (\<forall>d \<in> set (dependencies_of db (t_id t)). \<exists>t'. find_task db d = Some t' \<and> t_status t' = TASK_COMPLETED))"
proof -
  have inv: "task_inv db" by (rule task_system.inv_reach [OF assms(1)])
  show ?thesis
    using deps_completed_iff [OF inv assms(2)] dependencies_completed_iff [OF inv] deps_done_iff [OF inv]
    by blast
qed

theorem dependency_check_equivalence_witness:
  "\<exists>t. t \<in> set (tasks sample_db) \<and> t_id t = 2 \<and> dependencies_of sample_db 2 = [1]
    \<and> \<not> deps_completed sample_db (Some (record_status_lookup (list_candidates sample_db None))) (to_record sample_db t)"
proof -
  let ?t = "\<lparr>t_id = 2, t_title = ''test'', t_description = ''run tests'', t_priority = 7,
    t_status = TASK_PENDING, t_completed_notes = None\<rparr>"
  have t: "?t \<in> set (tasks sample_db)" by code_simp
  have "dependencies_of sample_db 2 = [1]" by code_simp
  moreover have "\<not> dependencies_completed sample_db 2" by code_simp
  ultimately show ?thesis using dependency_check_equivalence [OF reachable_sample t] t by force
qed

text \<open>
  C39. A checkout that hands out a task was entitled to it: the server is not in maintenance
  mode, the task was pending or its lease had expired, and all its dependencies are completed.
  Afterwards the task is in progress under a lease of the calling agent that ends one lease
  duration after the reading of the clock, and every other task keeps its lease unless that had
  expired.
\<close>

theorem checkout_grant:
  assumes "task_reachable db"
    and run: "checkout duration now created db agent_id task_id = Inr (db', r)"
    and granted: "cr_task r = Some task"
  shows "\<not> ss_maintenance_mode (get_state db now)
    \<and> (\<exists>t. find_task db (tr_id task) = Some t \<and> (t_status t = TASK_PENDING
        \<or> (\<exists>l. lease_for_task (leases db) (tr_id task) = Some l \<and> lr_expires_at l < now)))
    \<and> (\<forall>d \<in> set (dependencies_of db (tr_id task)). \<exists>t. find_task db d = Some t \<and> t_status t = TASK_COMPLETED)
    \<and> (\<exists>t. find_task db' (tr_id task) = Some t \<and> t_status t = TASK_IN_PROGRESS)
    \<and> (\<exists>l. cr_lease r = Some l \<and> lease_for_task (leases db') (tr_id task) = Some l
        \<and> lr_agent_id l = agent_id \<and> lr_expires_at l = now + seconds duration)
    \<and> (\<forall>j. j \<noteq> tr_id task \<longrightarrow> lease_for_task (leases db') j =
        (case lease_for_task (leases db) j of None \<Rightarrow> None
         | Some l \<Rightarrow> if lr_expires_at l < now then None else Some l))"
proof -
  have inv: "task_inv db" by (rule reachable_inv [OF assms(1)])
  let ?db = "swept db now agent_id"
  have inv1: "task_inv ?db" by (rule task_inv_swept [OF inv])
  from checkout_cases [OF inv run] granted obtain cand t lease where
    off: "\<not> ss_maintenance_mode (get_state db now)"
    and c: "cand \<in> set (list_candidates ?db task_id)" "find_task ?db (tr_id cand) = Some t" "t_status t = TASK_PENDING"
      "deps_completed ?db (case task_id of None \<Rightarrow> Some (record_status_lookup (list_candidates ?db None)) | Some _ \<Rightarrow> None) cand"
    and db': "db' = claimed duration now created agent_id ?db (tr_id cand)"
    and task: "task = to_record ?db (t\<lparr>t_status := TASK_IN_PROGRESS\<rparr>)"
    and lease: "cr_lease r = Some lease" "lease_for_task (leases db') (tr_id cand) = Some lease"
      "lr_agent_id lease = agent_id" "lr_expires_at lease = now + seconds duration"
    by auto
  have id: "tr_id task = tr_id cand" using task find_task_Some [OF c(2)] by (simp add: to_record_def)
  obtain t' where t': "t' \<in> set (tasks ?db)" "cand = to_record ?db t'" using candidate_row [OF inv1 c(1)] by blast
  have "deps_done ?db (t_id t')"
    using deps_completed_iff [OF inv1 t'(1)] c(4) t'(2) by (cases task_id) auto
  then have "deps_done db (tr_id task)"
    using deps_done_swept [OF inv] id t'(2) by (simp add: to_record_def)
  then have deps: "\<forall>d \<in> set (dependencies_of db (tr_id task)). \<exists>t. find_task db d = Some t \<and> t_status t = TASK_COMPLETED"
    by (simp add: deps_done_iff [OF inv])
  have prog: "\<exists>t. find_task db' (tr_id task) = Some t \<and> t_status t = TASK_IN_PROGRESS"
  proof -
    have "find_task db' i = find_task (set_task ?db (tr_id cand) (\<lambda>t. t\<lparr>t_status := TASK_IN_PROGRESS\<rparr>)) i" for i
      by (simp add: db' claimed_def find_task_def Let_def)
    then show ?thesis using c(2) id by (simp add: find_set_task del: swept_simps)
  qed
  have "lease_for_task (leases db') j = lease_for_task (fst (expire_stale (leases db) now)) j"
    if "j \<noteq> tr_id task" for j
    using that by (simp add: db' id claimed_def Let_def lease_for_save new_lease_def)
  then have others: "lease_for_task (leases db') j = (case lease_for_task (leases db) j of None \<Rightarrow> None
      | Some l \<Rightarrow> if lr_expires_at l < now then None else Some l)" if "j \<noteq> tr_id task" for j
    using that by (auto simp: sql_leases.for_expire [OF task_invD(3) [OF inv]]
      sql_leases.expired_ids [OF task_invD(3) [OF inv]] split: option.splits)
  show ?thesis
    using off pending_swept [OF inv c(2,3)] deps prog lease others id by auto
qed

theorem checkout_grant_witness:
  "\<exists>db' r task. checkout 300 5 5 planned_db ''alice'' None = Inr (db', r) \<and> cr_task r = Some task
    \<and> tr_id task = 3 \<and> map_option lr_agent_id (lease_for_task (leases db') 3) = Some ''alice''"
proof -
  obtain db' r where run: "checkout 300 5 5 planned_db ''alice'' None = Inr (db', r)"
    using checkout_no_error [OF reachable_inv [OF reachable_planned]] by blast
  have "(case checkout 300 5 5 planned_db ''alice'' None of Inr (_, r) \<Rightarrow> map_option tr_id (cr_task r) | _ \<Rightarrow> None) = Some 3"
    by code_simp
  with run obtain task where "cr_task r = Some task" "tr_id task = 3" by auto
  with run checkout_grant [OF reachable_planned run] show ?thesis by auto
qed

text \<open>
  C40. A checkout without a task id hands out nothing only when, after the expired leases are
  swept, no pending task has all its dependencies completed; otherwise it hands out the ready
  task of highest priority, the lowest id first among equals.
\<close>

theorem checkout_selects_best:
  assumes "task_reachable db" and off: "\<not> ss_maintenance_mode (get_state db now)"
    and run: "checkout duration now created db agent_id None = Inr (db', r)"
    and prep: "prepare_checkout db now agent_id = Inr db1"
  shows "(cr_task r = None \<longleftrightarrow> (\<forall>t \<in> set (tasks db1). \<not> task_ready db1 t))
    \<and> (\<forall>task. cr_task r = Some task \<longrightarrow>
        (\<exists>t \<in> set (tasks db1). t_id t = tr_id task \<and> task_ready db1 t
          \<and> (\<forall>t' \<in> set (tasks db1). task_ready db1 t' \<longrightarrow>
               t_priority t' < t_priority t \<or> t_priority t' = t_priority t \<and> t_id t \<le> t_id t')))"
proof -
  have inv: "task_inv db" by (rule reachable_inv [OF assms(1)])
  let ?ts = "sort_key (\<lambda>t. (- t_priority t, t_id t)) (tasks db1)"
  have db1: "db1 = swept db now agent_id" using prep prepare_checkout_eq [OF task_invD(1) [OF inv]] by simp
  have r: "cr_task r = map_option (\<lambda>t. to_record db1 (t\<lparr>t_status := TASK_IN_PROGRESS\<rparr>)) (find (task_ready db1) ?ts)"
    unfolding db1 by (rule checkout_unpinned [OF inv off run])
  have sorted: "sorted_wrt (\<lambda>a b. (- t_priority a, t_id a) \<le> (- t_priority b, t_id b)) ?ts"
    using sorted_sort_key [of "\<lambda>t. (- t_priority t, t_id t)" "tasks db1"] by (simp only: sorted_map)
  have none: "cr_task r = None \<longleftrightarrow> (\<forall>t \<in> set (tasks db1). \<not> task_ready db1 t)"
    unfolding r by (auto simp: find_None_iff)
  have best: "\<exists>t \<in> set (tasks db1). t_id t = tr_id task \<and> task_ready db1 t
      \<and> (\<forall>t' \<in> set (tasks db1). task_ready db1 t' \<longrightarrow>
           t_priority t' < t_priority t \<or> t_priority t' = t_priority t \<and> t_id t \<le> t_id t')"
    if "cr_task r = Some task" for task
  proof -
    from that r obtain t where t: "find (task_ready db1) ?ts = Some t" "tr_id task = t_id t"
      by (auto simp: to_record_def)
    then have "t \<in> set (tasks db1)" "task_ready db1 t" by (auto simp: find_Some_iff in_set_conv_nth)
        (metis in_set_conv_nth length_sort set_sort)
    moreover have "t_priority t' < t_priority t \<or> t_priority t' = t_priority t \<and> t_id t \<le> t_id t'"
      if "t' \<in> set (tasks db1)" "task_ready db1 t'" for t'
    proof -
      have "(- t_priority t, t_id t) \<le> (- t_priority t', t_id t')"
        using find_sorted_least [OF sorted t(1)] that by simp
      then show ?thesis by (auto simp: less_eq_prod_def)
    qed
    ultimately show ?thesis using t(2) by (intro bexI [of _ t]) auto
  qed
  show ?thesis using none best by blast
qed

theorem checkout_selects_best_witness:
  "\<exists>db' r. checkout 300 5 5 planned_db ''alice'' None = Inr (db', r) \<and>
    (\<exists>db1 t. prepare_checkout planned_db 5 ''alice'' = Inr db1 \<and> t \<in> set (tasks db1)
      \<and> task_ready db1 t \<and> t_priority t = 1
      \<and> (\<forall>t' \<in> set (tasks db1). task_ready db1 t' \<longrightarrow> t_priority t' \<le> 1))"
proof -
  have inv: "task_inv planned_db" by (rule reachable_inv [OF reachable_planned])
  obtain db' r where run: "checkout 300 5 5 planned_db ''alice'' None = Inr (db', r)"
    using checkout_no_error [OF inv] by blast
  have prep: "prepare_checkout planned_db 5 ''alice'' = Inr (swept planned_db 5 ''alice'')"
    by (rule prepare_checkout_eq [OF task_invD(1) [OF inv]])
  let ?db = "swept planned_db 5 ''alice''"
  have off: "\<not> ss_maintenance_mode (get_state planned_db 5)" by code_simp
  have "(case checkout 300 5 5 planned_db ''alice'' None of Inr (_, r) \<Rightarrow> map_option tr_id (cr_task r) | _ \<Rightarrow> None) = Some 3"
    by code_simp
  with run obtain task where task: "cr_task r = Some task" "tr_id task = 3" by auto
  have "\<forall>t \<in> set (tasks ?db). t_id t = 3 \<longrightarrow> t_priority t = 1" by code_simp
  moreover from checkout_selects_best [OF reachable_planned off run prep] task
  obtain t where t: "t \<in> set (tasks ?db)" "t_id t = 3" "task_ready ?db t"
    "\<forall>t' \<in> set (tasks ?db). task_ready ?db t' \<longrightarrow>
       t_priority t' < t_priority t \<or> t_priority t' = t_priority t \<and> t_id t \<le> t_id t'" by metis
  ultimately have "t_priority t = 1" by blast
  with t have "\<forall>t' \<in> set (tasks ?db). task_ready ?db t' \<longrightarrow> t_priority t' \<le> 1" by fastforce
  with run prep t \<open>t_priority t = 1\<close> show ?thesis by blast
qed

text \<open>
  Two checkouts that read the list of candidates before either of them claims a task never
  hand out the same task: whatever the (stale) lists say, the second claim goes to a different
  task and the lease of the first is untouched.
\<close>

theorem concurrent_claims_exclusive:
  assumes "task_reachable db"
    and first: "checkout_loop duration now created agent1 pinned1 lookup1 candidates1 db = (db1, Some (task1, lease1))"
    and second: "checkout_loop duration now' created' agent2 pinned2 lookup2 candidates2 db1 = (db2, Some (task2, lease2))"
  shows "tr_id task1 \<noteq> tr_id task2
    \<and> lease_for_task (leases db2) (tr_id task1) = Some lease1 \<and> lr_agent_id lease1 = agent1
    \<and> lease_for_task (leases db2) (tr_id task2) = Some lease2 \<and> lr_agent_id lease2 = agent2"
proof -
  have inv: "task_inv db" by (rule reachable_inv [OF assms(1)])
  have claim: "task_inv x' \<and> (\<exists>t. find_task x (tr_id task) = Some t \<and> t_status t = TASK_PENDING)
      \<and> lr_agent_id lease = a
      \<and> (\<exists>t. find_task x' (tr_id task) = Some t \<and> t_status t = TASK_IN_PROGRESS)
      \<and> (\<forall>j. lease_for_task (leases x') j = (if j = tr_id task then Some lease else lease_for_task (leases x) j))"
    if "task_inv x" and "checkout_loop d n c a p lk cs x = (x', Some (task, lease))" for d n c a p lk cs x x' task lease
  proof -
    from checkout_loop_cases [OF task_invD(1) [OF that(1)] that(2)] obtain cand :: task_record and t where
      c: "find_task x (tr_id cand) = Some t" "t_status t = TASK_PENDING" "x' = claimed d n c a x (tr_id cand)"
        "task = to_record x (t\<lparr>t_status := TASK_IN_PROGRESS\<rparr>)"
        "lease = snd (lease_save (lease_delete (leases x) (tr_id cand)) c (new_lease d (tr_id cand) a n))" by (simp, blast)
    have id: "tr_id task = tr_id cand" using c(4) find_task_Some [OF c(1)] by (simp add: to_record_def)
    have "find_task x' i = find_task (set_task x (tr_id cand) (\<lambda>t. t\<lparr>t_status := TASK_IN_PROGRESS\<rparr>)) i" for i
      by (simp add: c(3) claimed_def find_task_def Let_def)
    then have "\<exists>t. find_task x' (tr_id task) = Some t \<and> t_status t = TASK_IN_PROGRESS"
      using c(1) id by (simp add: find_set_task)
    then show ?thesis
      using c id task_inv_claimed [OF that(1) c(1,2)]
      by (auto simp: claimed_def Let_def lease_for_save new_lease_def sql_leases.save_agent)
  qed
  note one = claim [OF inv first]
  then have "task_inv db1" by blast
  note two = claim [OF this second]
  have "tr_id task1 \<noteq> tr_id task2" using one two by force
  with one two show ?thesis by auto
qed

theorem concurrent_claims_exclusive_witness:
  "\<exists>db1 db2 task1 task2 l1 l2. let c = list_candidates planned_db None in
    checkout_loop 300 5 5 ''alice'' False None c planned_db = (db1, Some (task1, l1))
    \<and> checkout_loop 300 6 6 ''bob'' False None c db1 = (db2, Some (task2, l2))
    \<and> tr_id task1 \<noteq> tr_id task2 \<and> lease_for_task (leases db2) (tr_id task1) = Some l1"
proof -
  let ?c = "list_candidates planned_db None"
  obtain db1 x1 where one: "checkout_loop 300 5 5 ''alice'' False None ?c planned_db = (db1, x1)" by fastforce
  obtain db2 x2 where two: "checkout_loop 300 6 6 ''bob'' False None ?c db1 = (db2, x2)" by fastforce
  have "snd (checkout_loop 300 5 5 ''alice'' False None ?c planned_db) \<noteq> None" by code_simp
  with one obtain task1 l1 where x1: "x1 = Some (task1, l1)" by auto
  have "snd (checkout_loop 300 6 6 ''bob'' False None ?c
      (fst (checkout_loop 300 5 5 ''alice'' False None ?c planned_db))) \<noteq> None" by code_simp
  with one two obtain task2 l2 where x2: "x2 = Some (task2, l2)" by auto
  from concurrent_claims_exclusive [OF reachable_planned one [unfolded x1] two [unfolded x2]] one two x1 x2
  show ?thesis by (metis (no_types, lifting))
qed

text \<open>
  A heartbeat succeeds exactly for the holder of a lease that is still live; then the lease
  keeps its holder and issue time and ends one lease duration from now. Other leases and all
  tasks stay as they are, and a refused heartbeat changes nothing.
\<close>

theorem heartbeat_spec:
  "(hb_ok (snd (heartbeat duration now created db agent_id i)) \<longleftrightarrow>
      (\<exists>l. lease_for_task (leases db) i = Some l \<and> lr_agent_id l = agent_id \<and> now < lr_expires_at l))
    \<and> (if hb_ok (snd (heartbeat duration now created db agent_id i))
       then tasks (fst (heartbeat duration now created db agent_id i)) = tasks db
         \<and> lease_for_task (leases (fst (heartbeat duration now created db agent_id i))) i
             = map_option (\<lambda>l. l\<lparr>lr_expires_at := now + seconds duration\<rparr>) (lease_for_task (leases db) i)
         \<and> (\<forall>j. j = i \<or> lease_for_task (leases (fst (heartbeat duration now created db agent_id i))) j
             = lease_for_task (leases db) j)
       else fst (heartbeat duration now created db agent_id i) = db)"
proof (cases "lease_for_task (leases db) i")
  case None
  then show ?thesis by (simp add: heartbeat_def can_heartbeat_def)
next
  case (Some l)
  then have i: "lr_task_id l = i" by (rule lease_for_task_task)
  from Some obtain old where old: "find (\<lambda>x. l_task_id x = i) (leases db) = Some old" "l = to_lease_record old"
    by (auto simp: lease_for_task_def)
  have "snd (lease_save (leases db) created (policy_refresh duration l now)) = l\<lparr>lr_expires_at := now + seconds duration\<rparr>"
    using old i by (simp add: lease_save_def policy_refresh_def lease_refresh_def deadline_def to_lease_record_def Let_def)
  with Some i show ?thesis
    by (auto simp: heartbeat_def can_heartbeat_def Let_def lease_for_save policy_refresh_def lease_refresh_def)
qed

text \<open>
  Completing and abandoning a task in a reachable database never fail with an exception.
  Each is refused, changing nothing, exactly when the task does not exist or another agent holds
  a live lease on it; otherwise the task is completed with the given notes (or goes back to
  pending without notes), its lease is gone, and no other task or lease changes.
\<close>

theorem complete_abandon_spec:
  assumes "task_reachable db"
  shows "\<exists>dbc rc dba ra.
    complete now db agent_id i notes = Inr (dbc, rc) \<and> abandon now db agent_id i = Inr (dba, ra)
    \<and> co_ok rc = hb_ok ra
    \<and> (co_ok rc \<longleftrightarrow> find_task db i \<noteq> None \<and> \<not> (\<exists>l. lease_for_task (leases db) i = Some l
          \<and> lr_agent_id l \<noteq> agent_id \<and> now < lr_expires_at l))
    \<and> (if co_ok rc
       then (\<forall>j. find_task dbc j = (if j = i then map_option (status_row TASK_COMPLETED (text_or_none notes))
                                      (find_task db j) else find_task db j)
             \<and> find_task dba j = (if j = i then map_option (status_row TASK_PENDING None)
                                      (find_task db j) else find_task db j)
             \<and> lease_for_task (leases dbc) j = (if j = i then None else lease_for_task (leases db) j)
             \<and> lease_for_task (leases dba) j = (if j = i then None else lease_for_task (leases db) j))
       else dbc = db \<and> dba = db)"
proof -
  note inv = reachable_inv [OF assms]
  have f: "find_task ((set_task db i g)\<lparr>leases := ls\<rparr>) j = find_task (set_task db i g) j" for g ls j
    by (simp add: find_task_def)
  show ?thesis
    unfolding complete_eq [OF inv] abandon_eq [OF inv] can_abandon_eq_can_complete can_complete_iff
    by (cases "find_task db i") (auto simp: task_get_def f find_set_task)
qed

theorem complete_abandon_spec_witness:
  "\<exists>dbc rc. complete 9 sample_db ''alice'' 3 (Some ''ok'') = Inr (dbc, rc)
    \<and> lease_for_task (leases dbc) 3 = None \<and> map_option t_status (find_task dbc 3) = Some TASK_COMPLETED"
proof -
  have "find_task sample_db 3 \<noteq> None" by code_simp
  moreover have "map_option lr_agent_id (lease_for_task (leases sample_db) 3) = Some ''alice''" by code_simp
  ultimately show ?thesis
    using complete_abandon_spec [OF reachable_sample, of 9 "''alice''" 3 "Some ''ok''"] by fastforce
qed

section \<open>Validation of creates and updates\<close>

lemma missing_normalize: "missing_dependencies db (normalize_dependencies deps) = missing_dependencies db deps"
  unfolding missing_dependencies_def normalize_dependencies_def
  by (rule sorted_distinct_set_unique) auto

lemma missing_empty: "missing_dependencies db deps = [] \<longleftrightarrow> set deps \<subseteq> set (task_ids db)"
  by (metis Diff_eq_empty_iff empty_set set_empty set_missing_dependencies)

lemma find_task_None: "find_task db i = None \<longleftrightarrow> i \<notin> set (task_ids db)"
  by (simp add: find_task_def find_key_None task_ids_def)

lemma create_task_eq:
  assumes "new_id \<notin> set (task_ids db)"
  shows "create_task db new_id title description deps priority =
    (if set deps \<subseteq> set (task_ids db)
     then task_create db new_id title description (normalize_dependencies deps) priority
     else Inl (MissingDependenciesError (missing_dependencies db deps)))"
proof -
  have "set (normalize_dependencies deps) = set deps" by (simp add: normalize_dependencies_def)
  then show ?thesis
    by (simp add: create_task_def Let_def ensure_dependencies_exist_eq missing_normalize missing_empty)
qed

lemma created_get:
  assumes inv: "task_inv db" and fresh: "new_id \<notin> set (task_ids db)"
    and "task_create db new_id title description deps priority = Inr (db', rec)"
  shows "task_get db' new_id = Some rec" and "tr_depends_on rec = sort (remdups deps)"
    and "tr_status rec = TASK_PENDING" and "tr_priority rec = priority"
    and "j \<noteq> new_id \<Longrightarrow> task_get db' j = task_get db j"
proof -
  let ?t = "new_task_row new_id title description priority"
  have db': "db' = db\<lparr>tasks := tasks db @ [?t], dependencies := dependencies db @ edges new_id deps\<rparr>"
    and rec: "rec = (to_record db ?t)\<lparr>tr_depends_on := sort (remdups deps)\<rparr>"
    using assms(3) fresh by (auto simp: task_create_def Let_def)
  have old: "filter (\<lambda>d. d_task_id d = new_id) (dependencies db) = []"
    using task_invD(5) [OF inv] fresh by (auto simp: edges_ok_def filter_empty_conv)
  have "map d_depends_on_task_id (edges new_id deps) = sort (remdups deps)"
    by (simp add: edges_def comp_def)
  moreover have "filter (\<lambda>d. d_task_id d = new_id) (edges new_id deps) = edges new_id deps"
    by (auto simp: edges_def filter_id_conv)
  ultimately have deps': "dependencies_of db' new_id = sort (remdups deps)"
    by (simp add: dependencies_of_def db' old sort_key_id_if_sorted)
  have "find_task db new_id = None" using fresh by (simp add: find_task_None)
  then have "find_task db' new_id = Some ?t"
    by (simp add: db' find_task_def find_append_new)
  then show "task_get db' new_id = Some rec"
    using deps' by (simp add: task_get_def rec to_record_def new_task_row_def)
  show "tr_depends_on rec = sort (remdups deps)" "tr_status rec = TASK_PENDING" "tr_priority rec = priority"
    by (simp_all add: rec to_record_def new_task_row_def)
  show "task_get db' j = task_get db j" if "j \<noteq> new_id"
  proof -
    have "filter (\<lambda>d. d_task_id d = j) (edges new_id deps) = []" using that by (simp add: edges_def filter_empty_conv)
    then have "dependencies_of db' j = dependencies_of db j" by (simp add: dependencies_of_def db')
    moreover have "find_task db' j = find_task db j"
      using that by (simp add: db' find_task_def find_append_new split: option.splits)
    ultimately show ?thesis
      by (cases "find_task db j") (auto simp: task_get_def to_record_def dest: find_task_Some)
  qed
qed

lemma update_task_fails:
  assumes "i \<notin> set (task_ids db) \<or> (\<exists>ds. p_depends_on p = Some ds \<and> (i \<in> set ds \<or> \<not> set ds \<subseteq> set (task_ids db)))"
  shows "update_task db i p = Inl
    (if (\<exists>ds. p_depends_on p = Some ds \<and> i \<in> set ds) then SelfDependencyError
     else if i \<notin> set (task_ids db) then TaskNotFoundError
     else MissingDependenciesError (missing_dependencies db (the (p_depends_on p))))"
proof (cases "find_task db i")
  case None
  moreover from this have "i \<notin> set (task_ids db)" using find_task_None by blast
  ultimately show ?thesis by (auto simp: update_task_def task_get_def split: option.splits)
next
  case (Some t)
  moreover from this have "i \<in> set (task_ids db)" using find_task_None [of db i] by simp
  moreover have "set (normalize_dependencies ds) = set ds" for ds by (simp add: normalize_dependencies_def)
  ultimately show ?thesis using assms
    by (auto simp: update_task_def task_get_def Let_def ensure_dependencies_exist_eq
      missing_normalize missing_empty split: option.splits)
qed

lemma update_task_succeeds:
  assumes "i \<in> set (task_ids db)" and "\<And>ds. p_depends_on p = Some ds \<Longrightarrow> i \<notin> set ds \<and> set ds \<subseteq> set (task_ids db)"
  shows "\<exists>r. update_task db i p = Inr r"
proof -
  obtain t where t: "find_task db i = Some t" using assms(1) find_task_None by blast
  let ?p = "p\<lparr>p_depends_on := map_option normalize_dependencies (p_depends_on p)\<rparr>"
  have "snd (task_update db i ?p) \<noteq> None"
    using t by (auto simp: task_update_def task_get_def find_task_def find_update_where patch_row_def Let_def
      split: option.splits)
  then obtain db1 u where u: "task_update db i ?p = (db1, Some u)" by (metis not_None_eq prod.collapse)
  have "\<exists>tr. task_get db i = Some tr" using t by (simp add: task_get_def)
  then show ?thesis
    using u assms(2) by (cases "p_depends_on p")
      (auto simp: update_task_def Let_def ensure_dependencies_exist_eq missing_normalize missing_empty)
qed

text \<open>
  Creating a task fails with the sorted list of missing dependencies whenever one is missing
  and otherwise (for a fresh primary key) appends a pending task whose dependencies are the
  sorted distinct ids given. Updating reports a self dependency first, then a missing task, then
  missing dependencies, and succeeds in every other case.
\<close>

theorem create_update_validation:
  assumes "task_reachable db" and fresh: "new_id \<notin> set (task_ids db)"
  shows "(case create_task db new_id title description deps priority of
       Inl e \<Rightarrow> e = MissingDependenciesError (missing_dependencies db deps) \<and> \<not> set deps \<subseteq> set (task_ids db)
     | Inr (db', rec) \<Rightarrow> set deps \<subseteq> set (task_ids db)
         \<and> task_get db' new_id = Some rec \<and> tr_depends_on rec = sort (remdups deps)
         \<and> tr_status rec = TASK_PENDING \<and> tr_priority rec = priority
         \<and> (\<forall>j. j = new_id \<or> task_get db' j = task_get db j))
    \<and> (case update_task db i p of
         Inl e \<Rightarrow> (case p_depends_on p of
             None \<Rightarrow> e = TaskNotFoundError \<and> i \<notin> set (task_ids db)
           | Some ds \<Rightarrow> if i \<in> set ds then e = SelfDependencyError
               else if i \<notin> set (task_ids db) then e = TaskNotFoundError
               else e = MissingDependenciesError (missing_dependencies db ds) \<and> \<not> set ds \<subseteq> set (task_ids db))
       | Inr _ \<Rightarrow> i \<in> set (task_ids db)
           \<and> (case p_depends_on p of None \<Rightarrow> True | Some ds \<Rightarrow> i \<notin> set ds \<and> set ds \<subseteq> set (task_ids db)))"
    (is "?create \<and> ?update")
proof
  note inv = reachable_inv [OF assms(1)]
  show ?create
  proof (cases "set deps \<subseteq> set (task_ids db)")
    case True
    obtain db' rec where c: "task_create db new_id title description (normalize_dependencies deps) priority = Inr (db', rec)"
      using fresh by (simp add: task_create_def Let_def)
    have "sort (remdups (normalize_dependencies deps)) = sort (remdups deps)"
      by (simp add: normalize_dependencies_def sort_key_id_if_sorted distinct_remdups_id)
    then show ?thesis
      using True c created_get [OF inv fresh c] by (auto simp: create_task_eq [OF fresh])
  qed (simp add: create_task_eq [OF fresh])
  show ?update
  proof (cases "i \<notin> set (task_ids db) \<or> (\<exists>ds. p_depends_on p = Some ds \<and> (i \<in> set ds \<or> \<not> set ds \<subseteq> set (task_ids db)))")
    case True
    then show ?thesis by (auto simp: update_task_fails [OF True] split: option.splits)
  next
    case False
    with update_task_succeeds [of i db p] obtain x where "update_task db i p = Inr x" by auto
    with False show ?thesis by (auto split: option.splits)
  qed
qed

theorem create_update_validation_witness:
  "create_task planned_db 4 ''x'' ''y'' [9, 1, 8, 9] 0 = Inl (MissingDependenciesError [8, 9])
   \<and> (\<exists>e. create_task planned_db 4 ''x'' ''y'' [9, 1, 8, 9] 0 = Inl e
        \<and> e = MissingDependenciesError (missing_dependencies planned_db [9, 1, 8, 9]))"
proof -
  have fresh: "4 \<notin> set (task_ids planned_db)" by code_simp
  have one: "create_task planned_db 4 ''x'' ''y'' [9, 1, 8, 9] 0 = Inl (MissingDependenciesError [8, 9])" by code_simp
  with create_update_validation [OF reachable_planned fresh, where title = "''x''" and description = "''y''"
      and deps = "[9, 1, 8, 9]" and priority = 0]
  show ?thesis by simp
qed


section \<open>Analytics\<close>

lemma status_lookup_find: "status_lookup (tasks db) i = map_option t_status (find_task db i)"
  by (simp add: status_lookup_def find_task_def)

text \<open>The scan adds, for each task, its contribution to every counter.\<close>

lemma analytics_fold:
  assumes inv: "task_inv db" and "set ts \<subseteq> set (tasks db)"
  shows "fold (analytics_step db) ts c =
    c\<lparr>ac_with := ac_with c + int (rowcount (\<lambda>t. dependencies_of db (t_id t) \<noteq> []) ts),
      ac_edges := ac_edges c + total (\<lambda>t. int (length (dependencies_of db (t_id t)))) ts,
      ac_ready := ac_ready c + int (rowcount (task_ready db) ts),
      ac_blocked := ac_blocked c
        + int (rowcount (\<lambda>t. t_status t = TASK_PENDING \<and> \<not> deps_done db (t_id t)) ts)\<rparr>"
  using assms(2)
proof (induction ts arbitrary: c)
  case Nil
  then show ?case by simp
next
  case (Cons t ts)
  let ?deps = "dependencies_of db (t_id t)"
  have missing: "filter (\<lambda>d. status_lookup (tasks db) d = None) ?deps = []"
    using dependency_exists [OF inv] by (force simp: filter_empty_conv status_lookup_find set_dependencies_of)
  have dn: "(\<forall>d \<in> set ?deps. status_lookup (tasks db) d = Some TASK_COMPLETED) \<longleftrightarrow> deps_done db (t_id t)"
    by (auto simp: deps_done_iff [OF inv] status_lookup_find)
  have none: "deps_done db (t_id t)" if "?deps = []"
    using that by (simp add: deps_done_iff [OF inv])
  have step: "analytics_step db t c =
    c\<lparr>ac_with := ac_with c + (if ?deps \<noteq> [] then 1 else 0),
      ac_edges := ac_edges c + int (length ?deps),
      ac_ready := ac_ready c + (if task_ready db t then 1 else 0),
      ac_blocked := ac_blocked c + (if t_status t = TASK_PENDING \<and> \<not> deps_done db (t_id t) then 1 else 0)\<rparr>"
    unfolding analytics_step_def Let_def missing dn by (auto simp: task_ready_def none)
  from Cons show ?case by (simp add: step algebra_simps)
qed

lemma total_rowcount_keys:
  assumes "distinct ks" and "\<forall>r \<in> set rows. key r \<in> set ks"
  shows "total (\<lambda>k. int (rowcount (\<lambda>r. key r = k) rows)) ks = int (length rows)"
  using assms(2)
proof (induction rows)
  case Nil
  have "total (\<lambda>k. 0) ks = 0" by (induction ks) auto
  then show ?case by simp
next
  case (Cons r rows)
  have "total (\<lambda>k. int (if key r = k then Suc (f k) else f k)) ks
      = total (\<lambda>k. int (f k)) ks + (if key r \<in> set ks then 1 else 0)" for f
    using assms(1) by (induction ks) auto
  with Cons show ?case by simp
qed

lemma length_dependencies_of:
  assumes "edges_ok db"
  shows "length (dependencies_of db i) = rowcount (\<lambda>d. d_task_id d = i) (dependencies db)"
proof -
  have "distinct (map d_depends_on_task_id (filter (\<lambda>d. d_task_id d = i) (dependencies db)))"
    using assms by (auto simp: edges_ok_def distinct_map inj_on_def)
  then show ?thesis by (simp add: dependencies_of_def rowcount_def distinct_remdups_id)
qed

lemma total_dependencies:
  assumes inv: "task_inv db"
  shows "total (\<lambda>t. int (length (dependencies_of db (t_id t)))) (tasks db) = int (length (dependencies db))"
proof -
  have "total (\<lambda>k. int (rowcount (\<lambda>d. d_task_id d = k) (dependencies db))) (task_ids db) = int (length (dependencies db))"
    using task_invD(1,5) [OF inv] by (intro total_rowcount_keys) (auto simp: task_ids_def edges_ok_def)
  then show ?thesis
    by (simp add: length_dependencies_of [OF task_invD(5) [OF inv]] task_ids_def total_def comp_def)
qed

lemma status_partition:
  "int (length ts) = status_count TASK_PENDING ts + status_count TASK_IN_PROGRESS ts + status_count TASK_COMPLETED ts"
  by (induction ts) (auto simp: status_count_def elim: task_status.exhaust, metis task_status.exhaust)

lemma ready_blocked_partition:
  "rowcount (\<lambda>t. t_status t = TASK_PENDING) ts = rowcount (task_ready db) ts
    + rowcount (\<lambda>t. t_status t = TASK_PENDING \<and> \<not> deps_done db (t_id t)) ts"
  by (induction ts) (auto simp: task_ready_def)

lemma analytics_eq:
  assumes inv: "task_inv db"
  shows "analytics db = \<lparr>total_tasks = int (length (tasks db)),
     pending_tasks = status_count TASK_PENDING (tasks db),
     in_progress_tasks = status_count TASK_IN_PROGRESS (tasks db),
     completed_tasks = status_count TASK_COMPLETED (tasks db),
     ready_tasks = int (rowcount (task_ready db) (tasks db)),
     blocked_tasks = int (rowcount (\<lambda>t. t_status t = TASK_PENDING \<and> \<not> deps_done db (t_id t)) (tasks db)),
     with_dependencies = int (rowcount (\<lambda>t. dependencies_of db (t_id t) \<noteq> []) (tasks db)),
     without_dependencies = int (length (tasks db)) - int (rowcount (\<lambda>t. dependencies_of db (t_id t) \<noteq> []) (tasks db)),
     dependency_edges = int (length (dependencies db)),
     missing_dependency_tasks = 0, missing_dependency_edges = 0,
     average_dependencies = (if tasks db = [] then None
       else Some (int (length (dependencies db)), int (length (tasks db))))\<rparr>"
proof (cases "tasks db = []")
  case True
  with total_dependencies [OF inv] show ?thesis by (simp add: analytics_def status_count_def)
next
  case False
  then show ?thesis
    by (simp add: analytics_def analytics_fold [OF inv] total_dependencies [OF inv] zero_counters_def Let_def)
qed

text \<open>
  The analytics of a reachable database are consistent: the three statuses partition the
  tasks, the ready and the blocked tasks partition the pending ones, the ready tasks are exactly
  those a checkout may hand out, the edges counted are the rows of the dependency table, and no
  dependency is reported missing.
\<close>

theorem analytics_consistent:
  assumes "task_reachable db"
  shows "total_tasks (analytics db) = int (length (tasks db))
    \<and> total_tasks (analytics db) = pending_tasks (analytics db) + in_progress_tasks (analytics db) + completed_tasks (analytics db)
    \<and> pending_tasks (analytics db) = ready_tasks (analytics db) + blocked_tasks (analytics db)
    \<and> ready_tasks (analytics db) = int (length (filter (task_ready db) (tasks db)))
    \<and> dependency_edges (analytics db) = int (length (dependencies db))
    \<and> missing_dependency_tasks (analytics db) = 0 \<and> missing_dependency_edges (analytics db) = 0"
  using status_partition [of "tasks db"] ready_blocked_partition [of "tasks db" db]
  by (simp add: analytics_eq [OF reachable_inv [OF assms]]) (simp add: status_count_def rowcount_def)

theorem analytics_consistent_witness:
  "pending_tasks (analytics sample_db) = 2 \<and> ready_tasks (analytics sample_db) + blocked_tasks (analytics sample_db) = 2"
proof -
  have "pending_tasks (analytics sample_db) = 2" by code_simp
  with analytics_consistent [OF reachable_sample] show ?thesis by simp
qed

section \<open>Plan version and system state\<close>

definition plan_value :: "task_db \<Rightarrow> int" where
  "plan_value db = (case plan_version_row db of None \<Rightarrow> 0 | Some row \<Rightarrow> pv_value row)"

lemma plan_value_bump: "plan_value (bump c now db) = plan_value db + (if c then 1 else 0)"
  by (simp add: plan_value_def bump_def plan_increment_def plan_ensure_row_def Let_def split: option.splits)

lemma plan_value_cong: "plan_version_row db' = plan_version_row db \<Longrightarrow> plan_value db' = plan_value db"
  by (simp add: plan_value_def)

lemma plan_value_frame [simp]:
  "plan_value (db\<lparr>leases := ls\<rparr>) = plan_value db" "plan_value (db\<lparr>tasks := ts\<rparr>) = plan_value db"
  "plan_value (db\<lparr>dependencies := ds\<rparr>) = plan_value db" "plan_value (db\<lparr>system_state_row := st\<rparr>) = plan_value db"
  "plan_value (set_task db i f) = plan_value db" "plan_value (replace_edges db i deps) = plan_value db"
  by (simp_all add: plan_value_def replace_edges_def split: option.splits)

lemma tasks_bump [simp]: "tasks (bump c now db) = tasks db" "dependencies (bump c now db) = dependencies db"
  by (simp_all add: bump_def plan_increment_frame)

lemma checkout_plan:
  assumes inv: "task_inv db" and "checkout duration now created db a tid = Inr (db', r)"
  shows "plan_version_row db' = plan_version_row db \<and> dependencies db' = dependencies db
    \<and> (cr_task r = None \<longrightarrow> db' = db \<or> db' = swept db now a)"
  using checkout_cases [OF assms] by (auto simp: claimed_def Let_def)

lemma delete_not_found:
  "delete_task db i = (db', False) \<Longrightarrow> tasks db' = tasks db"
  by (auto simp: delete_task_def task_delete_def Let_def split: option.splits)

text \<open>
  The plan version never decreases and moves by at most one per request; it moves whenever a
  request changes the task table, except for a checkout that only puts tasks with an expired
  lease back to pending without handing one out.
\<close>

theorem plan_version_monotone:
  assumes "task_reachable db"
  shows "plan_value (handle duration now created db req) \<in> {plan_value db, plan_value db + 1}
    \<and> (tasks (handle duration now created db req) \<noteq> tasks db \<longrightarrow>
        plan_value (handle duration now created db req) = plan_value db + 1
        \<or> (\<exists>agent_id task_id. req = CheckoutRequest agent_id task_id
             \<and> Inr (handle duration now created db req) = prepare_checkout db now agent_id))"
proof -
  note inv = reachable_inv [OF assms]
  note prep = prepare_checkout_eq [OF task_invD(1) [OF inv]]
  show ?thesis
  proof (cases req)
    case (CheckoutRequest a tid)
    obtain db' r where run: "checkout duration now created db a tid = Inr (db', r)"
      using checkout_no_error [OF inv] by blast
    note out = checkout_plan [OF inv run]
    then have v: "plan_value db' = plan_value db" by (intro plan_value_cong) simp
    have h: "handle duration now created db req = bump (cr_task r \<noteq> None) now db'"
      using CheckoutRequest run by simp
    show ?thesis
    proof (cases "cr_task r")
      case None
      with out h v have "handle duration now created db req \<in> {db, swept db now a}" by (simp add: bump_def)
      then show ?thesis using None v h prep [of now a] CheckoutRequest by (auto simp: bump_def)
    qed (simp add: h plan_value_bump v)
  next
    case (HeartbeatRequest a i)
    then show ?thesis by (auto simp: heartbeat_def Let_def split: option.splits)
  next
    case (CompleteRequest a i n)
    then show ?thesis by (auto simp: complete_eq [OF inv] plan_value_bump split: option.splits)
  next
    case (AbandonRequest a i)
    then show ?thesis by (auto simp: abandon_eq [OF inv] plan_value_bump split: option.splits)
  next
    case (CreateRequest n t d ds pr)
    then show ?thesis by (auto simp: plan_value_bump split: sum.splits dest!: create_task_ok(3))
  next
    case (UpdateRequest i e p)
    then show ?thesis
      by (auto simp: plan_value_bump Let_def split: sum.splits if_splits
        dest!: update_task_ok(3))
  next
    case (DeleteRequest i)
    obtain db' b where d: "delete_task db i = (db', b)" by fastforce
    have "plan_value (fst (delete_task db i)) = plan_value db"
      by (simp add: delete_task_def task_delete_def Let_def split: option.splits)
    moreover have "tasks db' = tasks db" if "\<not> b" using d that delete_not_found by simp
    ultimately show ?thesis using DeleteRequest d by (cases b) (simp_all add: plan_value_bump)
  next
    case (SystemStateRequest m msg e)
    then show ?thesis by (auto simp: update_state_def repo_update_state_def Let_def
      split: sum.splits system_state_error.splits if_splits)
  qed
qed

theorem plan_version_monotone_witness:
  "tasks (handle 300 9 9 sample_db (CompleteRequest ''alice'' 3 None)) \<noteq> tasks sample_db
    \<and> plan_value (handle 300 9 9 sample_db (CompleteRequest ''alice'' 3 None)) = plan_value sample_db + 1"
proof -
  have "tasks (handle 300 9 9 sample_db (CompleteRequest ''alice'' 3 None)) \<noteq> tasks sample_db" by code_simp
  with plan_version_monotone [OF reachable_sample, of 300 9 9 "CompleteRequest ''alice'' 3 None"]
  show ?thesis by blast
qed

text \<open>
  An update of the system state is refused, with the stored version in the error, exactly
  when the caller expects another version; otherwise the new flag and the stripped message are
  stored, the version moves by one and every later read sees them.
\<close>

theorem system_state_update:
  "update_state db now mode message expected =
    (let current = ss_version (get_state db now)
     in if expected \<noteq> None \<and> expected \<noteq> Some current
        then Inl (SystemStateConflictError expected (Some current))
        else let s = \<lparr>ss_maintenance_mode = mode, ss_message = normalize_message message,
                      ss_updated_at = now, ss_version = current + 1\<rparr>
             in Inr (db\<lparr>system_state_row := Some s\<rparr>, s))
   \<and> get_state (db\<lparr>system_state_row := Some s\<rparr>) later = s"
proof -
  have "text_or_none (normalize_message message) = normalize_message message"
    by (simp add: normalize_message_def text_or_none_def split: option.splits)
  moreover have "state_ensure_row db now = get_state db now"
    by (simp add: state_ensure_row_def get_state_def)
  ultimately show ?thesis
    by (auto simp: update_state_def repo_update_state_def get_state_def Let_def split: option.splits)
qed

end
