(* ===== verification/Json.thy ===== *)
theory Json
  imports Prelude
begin

text \<open>
  The dynamically typed values that cross the interfaces of the execution plane: JSON documents
  as Python holds them after decoding, and datetimes with and without a time zone.

  A dict is the list of its items with distinct keys, in insertion order. A float is kept as its
  text: no code of the model computes with floats. \<open>py_eq\<close> is Python's \<open>==\<close> on such values, which
  ignores the order of dict items and equates \<open>True\<close> with 1 and \<open>False\<close> with 0.
\<close>

datatype json =
    JNull
  | JBool bool
  | JInt int
  | JFloat string
  | JStr string
  | JList "json list"
  | JObj "(string \<times> json) list"

type_synonym json_object = "(string \<times> json) list"

definition int_of_bool :: "bool \<Rightarrow> int" where
  "int_of_bool b = (if b then 1 else 0)"

fun py_eq :: "json \<Rightarrow> json \<Rightarrow> bool" where
  "py_eq JNull JNull = True"
| "py_eq (JBool a) (JBool b) = (a = b)"
| "py_eq (JBool a) (JInt n) = (int_of_bool a = n)"
| "py_eq (JInt n) (JBool b) = (n = int_of_bool b)"
| "py_eq (JInt m) (JInt n) = (m = n)"
| "py_eq (JFloat a) (JFloat b) = (a = b)"
| "py_eq (JStr a) (JStr b) = (a = b)"
| "py_eq (JList xs) (JList ys) = list_all2 py_eq xs ys"
| "py_eq (JObj xs) (JObj ys) =
     (length xs = length ys \<and>
      list_all (\<lambda>(k, v). case map_of ys k of None \<Rightarrow> False | Some w \<Rightarrow> py_eq v w) xs)"
| "py_eq _ _ = False"

definition obj_eq :: "json_object \<Rightarrow> json_object \<Rightarrow> bool" where
  "obj_eq xs ys = py_eq (JObj xs) (JObj ys)"

text \<open>Truth value of a JSON value.\<close>

fun truthy :: "json \<Rightarrow> bool" where
  "truthy JNull = False"
| "truthy (JBool b) = b"
| "truthy (JInt n) = (n \<noteq> 0)"
| "truthy (JFloat s) = (s \<notin> {''0.0'', ''-0.0''})"
| "truthy (JStr s) = (s \<noteq> [])"
| "truthy (JList xs) = (xs \<noteq> [])"
| "truthy (JObj xs) = (xs \<noteq> [])"

fun is_JStr :: "json \<Rightarrow> bool" where
  "is_JStr (JStr _) = True"
| "is_JStr _ = False"

fun str_of :: "json \<Rightarrow> string" where
  "str_of (JStr s) = s"
| "str_of _ = []"

text \<open>JSON objects have distinct keys, at every level.\<close>

fun json_ok :: "json \<Rightarrow> bool" where
  "json_ok (JList xs) = list_all json_ok xs"
| "json_ok (JObj xs) = (distinct (map fst xs) \<and> list_all (\<lambda>(k, v). json_ok v) xs)"
| "json_ok _ = True"

lemma py_eq_refl: "json_ok v \<Longrightarrow> py_eq v v"
proof (induction v)
  case (JList xs)
  then show ?case by (auto simp: list_all_iff list_all2_conv_all_nth)
next
  case (JObj xs)
  have "map_of xs k = Some w \<and> py_eq w w" if "(k, w) \<in> set xs" for k w
    using JObj that by (fastforce simp: list_all_iff)
  then show ?case by (force simp: list_all_iff)
qed simp_all

lemma obj_eq_refl: "json_ok (JObj xs) \<Longrightarrow> obj_eq xs xs"
  unfolding obj_eq_def by (rule py_eq_refl)

section \<open>Datetimes\<close>

text \<open>
  \<open>Naive t\<close> is a datetime without time zone, \<open>Aware t off\<close> one with the given offset from UTC;
  \<open>t\<close> is the local time in microseconds, \<open>off\<close> the offset in microseconds.
\<close>

datatype py_datetime = Naive int | Aware int int

fun is_aware :: "py_datetime \<Rightarrow> bool" where
  "is_aware (Naive _) = False"
| "is_aware (Aware _ _) = True"

fun utc_naive :: "py_datetime \<Rightarrow> int" where
  "utc_naive (Naive t) = t"
| "utc_naive (Aware t off) = t - off"

text \<open>Splitting a text at a separator, as \<^verbatim>\<open>str.split(sep)\<close> does.\<close>

fun split_on :: "char \<Rightarrow> string \<Rightarrow> string list" where
  "split_on c [] = [[]]"
| "split_on c (x # xs) =
     (if x = c then [] # split_on c xs
      else case split_on c xs of [] \<Rightarrow> [[x]] | p # ps \<Rightarrow> (x # p) # ps)"

fun join_with :: "string \<Rightarrow> string list \<Rightarrow> string" where
  "join_with sep [] = []"
| "join_with sep [p] = p"
| "join_with sep (p # q # ps) = p @ sep @ join_with sep (q # ps)"

lemma split_on_nonempty [simp]: "split_on c s \<noteq> []"
  by (induction s) (auto split: list.splits)

lemma split_join:
  assumes "\<forall>p \<in> set ps. c \<notin> set p" and "ps \<noteq> []"
  shows "split_on c (join_with [c] ps) = ps"
proof -
  have one: "c \<notin> set p \<Longrightarrow> split_on c p = [p]" for p by (induction p) auto
  have app: "c \<notin> set p \<Longrightarrow> split_on c (p @ c # s) = p # split_on c s" for p s
    by (induction p) auto
  show ?thesis using assms by (induction ps rule: induct_list012) (auto simp: one app)
qed

lemma join_split: "join_with [c] (split_on c s) = s"
proof (induction s)
  case (Cons x xs)
  obtain p ps where "split_on c xs = p # ps" by (meson list.exhaust split_on_nonempty)
  with Cons show ?case by (cases ps) auto
qed simp

text \<open>Decimal notation of natural numbers.\<close>

definition is_digit :: "char \<Rightarrow> bool" where
  "is_digit c = (48 \<le> (of_char c :: nat) \<and> (of_char c :: nat) \<le> 57)"

text \<open>\<^verbatim>\<open>[0-9a-f]{n}\<close>.\<close>

definition lower_hex :: "nat \<Rightarrow> string \<Rightarrow> bool" where
  "lower_hex n s = (length s = n \<and>
     list_all (\<lambda>c. is_digit c \<or> (97 \<le> (of_char c :: nat) \<and> (of_char c :: nat) \<le> 102)) s)"

definition digit_value :: "char \<Rightarrow> nat" where
  "digit_value c = (of_char c :: nat) - 48"

definition digit_char :: "nat \<Rightarrow> char" where
  "digit_char n = char_of (n + 48)"

definition parse_nat :: "string \<Rightarrow> nat" where
  "parse_nat s = foldl (\<lambda>n c. n * 10 + digit_value c) 0 s"

fun show_nat :: "nat \<Rightarrow> string" where
  "show_nat n = (if n < 10 then [digit_char n] else show_nat (n div 10) @ [digit_char (n mod 10)])"

declare show_nat.simps [simp del]

lemma digit_char_simps [simp]: "n < 10 \<Longrightarrow> is_digit (digit_char n)" "n < 10 \<Longrightarrow> digit_value (digit_char n) = n"
  by (simp_all add: is_digit_def digit_char_def digit_value_def)

lemma parse_nat_snoc: "parse_nat (s @ [c]) = parse_nat s * 10 + digit_value c"
  by (simp add: parse_nat_def)

lemma show_nat_digits: "list_all is_digit (show_nat n)"
proof (induction n rule: show_nat.induct)
  case (1 n)
  then show ?case by (cases "n < 10") (simp_all add: show_nat.simps [of n])
qed

lemma show_nat_nonempty [simp]: "show_nat n \<noteq> []"
  by (subst show_nat.simps) simp

lemma parse_show_nat [simp]: "parse_nat (show_nat n) = n"
proof (induction n rule: show_nat.induct)
  case (1 n)
  show ?case
  proof (cases "n < 10")
    case True
    then show ?thesis by (simp add: show_nat.simps [of n] parse_nat_def)
  next
    case False
    with 1 show ?thesis by (simp add: show_nat.simps [of n] parse_nat_snoc)
  qed
qed

text \<open>\<open>str\<close> of an integer.\<close>

definition show_int :: "int \<Rightarrow> string" where
  "show_int n = (if n < 0 then CHR ''-'' # show_nat (nat (- n)) else show_nat (nat n))"

section \<open>Size\<close>

fun json_nodes :: "json \<Rightarrow> int" where
  "json_nodes (JList vs) = 1 + sum_list (map json_nodes vs)"
| "json_nodes (JObj kvs) = 1 + sum_list (map (\<lambda>(k, v). json_nodes v) kvs)"
| "json_nodes _ = 1"

lemma json_nodes_pos: "1 \<le> json_nodes v"
proof (induction v)
  case (JList vs)
  then have "0 \<le> sum_list (map json_nodes vs)" by (intro sum_list_nonneg) force
  then show ?case by simp
next
  case (JObj kvs)
  then have "0 \<le> sum_list (map (\<lambda>(k, v). json_nodes v) kvs)" by (intro sum_list_nonneg) force
  then show ?case by simp
qed simp_all

lemma json_nodes_sum: "0 \<le> sum_list (map json_nodes vs)"
  by (intro sum_list_nonneg) (auto intro: order_trans [OF zero_le_one json_nodes_pos])

end
