(* ===== verification/Execution_Types.thy ===== *)
theory Execution_Types
  imports Json
begin

text \<open>
  The enumerations of \<^verbatim>\<open>server/execution/enums.py\<close> with their persisted values, and the
  explicit lifecycle tables of \<^verbatim>\<open>server/execution/transitions.py\<close>, which are two
  interpretations of \<open>lifecycle_policy\<close>.
\<close>

section \<open>Enumerations\<close>

datatype work_order_status =
    WO_PENDING_APPROVAL | WO_APPROVED | WO_QUEUED | WO_ASSIGNED | WO_RUNNING
  | WO_SUCCEEDED | WO_FAILED | WO_TIMED_OUT | WO_CANCELLED | WO_REJECTED | WO_EXPIRED

datatype run_status =
    RUN_QUEUED | RUN_ASSIGNED | RUN_RUNNING
  | RUN_SUCCEEDED | RUN_FAILED | RUN_TIMED_OUT | RUN_CANCELLED

datatype worker_status = W_ONLINE | W_BUSY | W_DRAINING | W_OFFLINE

datatype approval_policy = APPROVAL_EXPLICIT

datatype network_policy = NET_DISABLED | NET_WORKER_RESTRICTED

datatype repository_write_policy = READ_ONLY

datatype reuse_policy = REUSE_NEVER | REUSE_ALLOW_EXACT | REUSE_REQUIRE_EXACT

datatype reuse_decision =
    RD_NOT_REQUESTED | RD_PENDING | RD_CANDIDATE_AVAILABLE | RD_FRESH | RD_REUSED | RD_UNAVAILABLE

datatype routing_policy = FIRST_AVAILABLE | CHEAPEST_CAPABLE

datatype quota_state = QUOTA_NOT_REQUIRED | QUOTA_RESERVED | QUOTA_CONSUMED | QUOTA_RELEASED

fun work_order_status_value :: "work_order_status \<Rightarrow> string" where
  "work_order_status_value WO_PENDING_APPROVAL = ''pending_approval''"
| "work_order_status_value WO_APPROVED = ''approved''"
| "work_order_status_value WO_QUEUED = ''queued''"
| "work_order_status_value WO_ASSIGNED = ''assigned''"
| "work_order_status_value WO_RUNNING = ''running''"
| "work_order_status_value WO_SUCCEEDED = ''succeeded''"
| "work_order_status_value WO_FAILED = ''failed''"
| "work_order_status_value WO_TIMED_OUT = ''timed_out''"
| "work_order_status_value WO_CANCELLED = ''cancelled''"
| "work_order_status_value WO_REJECTED = ''rejected''"
| "work_order_status_value WO_EXPIRED = ''expired''"

fun run_status_value :: "run_status \<Rightarrow> string" where
  "run_status_value RUN_QUEUED = ''queued''"
| "run_status_value RUN_ASSIGNED = ''assigned''"
| "run_status_value RUN_RUNNING = ''running''"
| "run_status_value RUN_SUCCEEDED = ''succeeded''"
| "run_status_value RUN_FAILED = ''failed''"
| "run_status_value RUN_TIMED_OUT = ''timed_out''"
| "run_status_value RUN_CANCELLED = ''cancelled''"

fun network_policy_value :: "network_policy \<Rightarrow> string" where
  "network_policy_value NET_DISABLED = ''disabled''"
| "network_policy_value NET_WORKER_RESTRICTED = ''worker_restricted''"

fun reuse_decision_value :: "reuse_decision \<Rightarrow> string" where
  "reuse_decision_value RD_NOT_REQUESTED = ''not_requested''"
| "reuse_decision_value RD_PENDING = ''pending''"
| "reuse_decision_value RD_CANDIDATE_AVAILABLE = ''candidate_available''"
| "reuse_decision_value RD_FRESH = ''fresh''"
| "reuse_decision_value RD_REUSED = ''reused''"
| "reuse_decision_value RD_UNAVAILABLE = ''unavailable''"

fun routing_policy_value :: "routing_policy \<Rightarrow> string" where
  "routing_policy_value FIRST_AVAILABLE = ''first_available''"
| "routing_policy_value CHEAPEST_CAPABLE = ''cheapest_capable''"

definition work_order_statuses :: "work_order_status list" where
  "work_order_statuses =
     [WO_PENDING_APPROVAL, WO_APPROVED, WO_QUEUED, WO_ASSIGNED, WO_RUNNING, WO_SUCCEEDED,
      WO_FAILED, WO_TIMED_OUT, WO_CANCELLED, WO_REJECTED, WO_EXPIRED]"

text \<open>\<open>WorkOrderStatus(value)\<close> and \<open>NetworkPolicy(value)\<close>: \<open>None\<close> is the \<open>ValueError\<close>.\<close>

definition work_order_status_of_value :: "string \<Rightarrow> work_order_status option" where
  "work_order_status_of_value v = find (\<lambda>s. work_order_status_value s = v) work_order_statuses"

fun network_policy_of_value :: "json \<Rightarrow> network_policy option" where
  "network_policy_of_value (JStr v) =
     find (\<lambda>p. network_policy_value p = v) [NET_DISABLED, NET_WORKER_RESTRICTED]"
| "network_policy_of_value _ = None"

lemma work_order_status_roundtrip [simp]:
  "work_order_status_of_value (work_order_status_value s) = Some s"
  by (cases s) (simp_all add: work_order_status_of_value_def work_order_statuses_def)

definition WORK_ORDER_TERMINAL_STATUSES :: "work_order_status set" where
  "WORK_ORDER_TERMINAL_STATUSES =
     {WO_SUCCEEDED, WO_FAILED, WO_TIMED_OUT, WO_CANCELLED, WO_REJECTED, WO_EXPIRED}"

definition RUN_TERMINAL_STATUSES :: "run_status set" where
  "RUN_TERMINAL_STATUSES = {RUN_SUCCEEDED, RUN_FAILED, RUN_TIMED_OUT, RUN_CANCELLED}"

definition is_terminal_work_order :: "work_order_status \<Rightarrow> bool" where
  "is_terminal_work_order s = (s \<in> WORK_ORDER_TERMINAL_STATUSES)"

definition is_terminal_run :: "run_status \<Rightarrow> bool" where
  "is_terminal_run s = (s \<in> RUN_TERMINAL_STATUSES)"

text \<open>\<open>WorkOrderStatus(status.value)\<close> exists for every run status.\<close>

definition work_order_status_of_run :: "run_status \<Rightarrow> work_order_status option" where
  "work_order_status_of_run s = work_order_status_of_value (run_status_value s)"

lemma work_order_status_of_run_eq [simp]:
  "work_order_status_of_run RUN_QUEUED = Some WO_QUEUED"
  "work_order_status_of_run RUN_ASSIGNED = Some WO_ASSIGNED"
  "work_order_status_of_run RUN_RUNNING = Some WO_RUNNING"
  "work_order_status_of_run RUN_SUCCEEDED = Some WO_SUCCEEDED"
  "work_order_status_of_run RUN_FAILED = Some WO_FAILED"
  "work_order_status_of_run RUN_TIMED_OUT = Some WO_TIMED_OUT"
  "work_order_status_of_run RUN_CANCELLED = Some WO_CANCELLED"
  by (simp_all add: work_order_status_of_run_def work_order_status_of_value_def work_order_statuses_def)

section \<open>Transition tables\<close>

fun WORK_ORDER_TRANSITIONS :: "work_order_status \<Rightarrow> work_order_status set" where
  "WORK_ORDER_TRANSITIONS WO_PENDING_APPROVAL = {WO_APPROVED, WO_QUEUED, WO_REJECTED, WO_CANCELLED}"
| "WORK_ORDER_TRANSITIONS WO_APPROVED = {WO_QUEUED, WO_CANCELLED, WO_EXPIRED}"
| "WORK_ORDER_TRANSITIONS WO_QUEUED = {WO_ASSIGNED, WO_CANCELLED, WO_EXPIRED}"
| "WORK_ORDER_TRANSITIONS WO_ASSIGNED =
     {WO_RUNNING, WO_QUEUED, WO_SUCCEEDED, WO_FAILED, WO_TIMED_OUT, WO_CANCELLED}"
| "WORK_ORDER_TRANSITIONS WO_RUNNING =
     {WO_SUCCEEDED, WO_FAILED, WO_TIMED_OUT, WO_CANCELLED, WO_QUEUED}"
| "WORK_ORDER_TRANSITIONS WO_SUCCEEDED = {}"
| "WORK_ORDER_TRANSITIONS WO_FAILED = {}"
| "WORK_ORDER_TRANSITIONS WO_TIMED_OUT = {}"
| "WORK_ORDER_TRANSITIONS WO_CANCELLED = {}"
| "WORK_ORDER_TRANSITIONS WO_REJECTED = {}"
| "WORK_ORDER_TRANSITIONS WO_EXPIRED = {}"

fun RUN_TRANSITIONS :: "run_status \<Rightarrow> run_status set" where
  "RUN_TRANSITIONS RUN_QUEUED = {RUN_ASSIGNED}"
| "RUN_TRANSITIONS RUN_ASSIGNED =
     {RUN_RUNNING, RUN_SUCCEEDED, RUN_FAILED, RUN_TIMED_OUT, RUN_CANCELLED}"
| "RUN_TRANSITIONS RUN_RUNNING = {RUN_SUCCEEDED, RUN_FAILED, RUN_TIMED_OUT, RUN_CANCELLED}"
| "RUN_TRANSITIONS RUN_SUCCEEDED = {}"
| "RUN_TRANSITIONS RUN_FAILED = {}"
| "RUN_TRANSITIONS RUN_TIMED_OUT = {}"
| "RUN_TRANSITIONS RUN_CANCELLED = {}"

definition allows_work_order_transition :: "work_order_status \<Rightarrow> work_order_status \<Rightarrow> bool" where
  "allows_work_order_transition current target = (target \<in> WORK_ORDER_TRANSITIONS current)"

definition allows_run_transition :: "run_status \<Rightarrow> run_status \<Rightarrow> bool" where
  "allows_run_transition current target = (target \<in> RUN_TRANSITIONS current)"

lemmas lifecycle_defs = allows_work_order_transition_def is_terminal_work_order_def
  WORK_ORDER_TERMINAL_STATUSES_def allows_run_transition_def is_terminal_run_def RUN_TERMINAL_STATUSES_def

interpretation work_order_lifecycle: lifecycle_policy allows_work_order_transition is_terminal_work_order
proof unfold_locales
  show "\<not> allows_work_order_transition s t" if "is_terminal_work_order s" for s t
    using that by (cases s) (simp_all add: lifecycle_defs)
  show "\<exists>t. allows_work_order_transition s t" if "\<not> is_terminal_work_order s" for s
    using that by (cases s) (auto simp: lifecycle_defs)
  show "\<not> allows_work_order_transition s s" for s
    by (cases s) (simp_all add: lifecycle_defs)
qed

interpretation run_lifecycle: lifecycle_policy allows_run_transition is_terminal_run
proof unfold_locales
  show "\<not> allows_run_transition s t" if "is_terminal_run s" for s t
    using that by (cases s) (simp_all add: lifecycle_defs)
  show "\<exists>t. allows_run_transition s t" if "\<not> is_terminal_run s" for s
    using that by (cases s) (auto simp: lifecycle_defs)
  show "\<not> allows_run_transition s s" for s
    by (cases s) (simp_all add: lifecycle_defs)
qed

text \<open>The statuses in which an order or a run is held by a worker.\<close>

definition order_active :: "work_order_status \<Rightarrow> bool" where
  "order_active s = (s \<in> {WO_ASSIGNED, WO_RUNNING})"

definition run_active :: "run_status \<Rightarrow> bool" where
  "run_active s = (s \<in> {RUN_ASSIGNED, RUN_RUNNING})"

text \<open>The statuses an order may take when its run ends: legal from both active statuses.\<close>

definition order_exit :: "work_order_status \<Rightarrow> bool" where
  "order_exit s = (\<forall>a. order_active a \<longrightarrow> allows_work_order_transition a s)"

lemma order_exit_iff: "order_exit s \<longleftrightarrow> s \<in> {WO_QUEUED, WO_SUCCEEDED, WO_FAILED, WO_TIMED_OUT, WO_CANCELLED}"
  by (cases s) (auto simp: order_exit_def order_active_def lifecycle_defs)

lemma order_exit_inactive: "order_exit s \<Longrightarrow> \<not> order_active s"
  by (auto simp: order_exit_iff order_active_def)

lemma terminal_not_active: "is_terminal_work_order s \<Longrightarrow> \<not> order_active s" "is_terminal_run r \<Longrightarrow> \<not> run_active r"
  by (auto simp: lifecycle_defs order_active_def run_active_def)

end
