(* ===== verification/Ledger.thy ===== *)
theory Ledger
  imports Execution_Types Task_Domain
begin

text \<open>
  An abstract specification of the execution plane: the ledger of who holds what. It keeps, of
  each table, only the columns that decide ownership, capacity and quota, and describes every
  operation of the service as one step of a small machine. The invariant says that leases, active
  runs and active orders correspond one to one, that the count of a worker is the number of its
  leases, and that the quota of a profile covers what its runs have reserved.

  \<^verbatim>\<open>Execution_Refinement\<close> shows that the detailed service takes exactly such steps.
\<close>

section \<open>State\<close>

record order_entry =
  vo_id :: int
  vo_status :: work_order_status
  vo_attempt :: int
  vo_quota :: "quota_state option"
  vo_units :: int
  vo_write :: bool

record run_entry =
  vr_id :: int
  vr_order :: int
  vr_worker :: string
  vr_attempt :: int
  vr_status :: run_status
  vr_units :: int
  vr_quota :: quota_state

record worker_entry =
  vw_id :: string
  vw_count :: int
  vw_write :: bool

record profile_entry =
  vp_id :: string
  vp_remaining :: int
  vp_capacity :: int

record lease_entry =
  vl_id :: int
  vl_order :: int
  vl_run :: int
  vl_worker :: string

record ledger =
  lg_orders :: "order_entry list"
  lg_runs :: "run_entry list"
  lg_workers :: "worker_entry list"
  lg_profiles :: "profile_entry list"
  lg_leases :: "lease_entry list"

definition reserved_by :: "string \<Rightarrow> run_entry \<Rightarrow> int" where
  "reserved_by i r = (if vr_worker r = i \<and> vr_quota r = QUOTA_RESERVED then vr_units r else 0)"

definition lease_backed :: "ledger \<Rightarrow> lease_entry \<Rightarrow> bool" where
  "lease_backed l x \<longleftrightarrow>
     (\<exists>r \<in> set (lg_runs l). \<exists>w \<in> set (lg_orders l).
        vr_id r = vl_run x \<and> vo_id w = vl_order x \<and> vr_order r = vl_order x \<and> vr_worker r = vl_worker x
        \<and> run_active (vr_status r) \<and> order_active (vo_status w)
        \<and> vr_attempt r = vo_attempt w \<and> vo_quota w = Some (vr_quota r))"

definition ledger_keys :: "ledger \<Rightarrow> bool" where
  "ledger_keys l \<longleftrightarrow>
     distinct (map vo_id (lg_orders l)) \<and> distinct (map vr_id (lg_runs l))
     \<and> distinct (map vw_id (lg_workers l)) \<and> distinct (map vp_id (lg_profiles l))
     \<and> distinct (map vl_id (lg_leases l)) \<and> distinct (map vl_order (lg_leases l))
     \<and> distinct (map vl_run (lg_leases l))"

definition ledger_cover :: "ledger \<Rightarrow> bool" where
  "ledger_cover l \<longleftrightarrow>
     (\<forall>x \<in> set (lg_leases l). lease_backed l x \<and> vl_worker x \<in> vw_id ` set (lg_workers l))
     \<and> (\<forall>r \<in> set (lg_runs l). run_active (vr_status r) \<longrightarrow> vr_id r \<in> vl_run ` set (lg_leases l))
     \<and> (\<forall>w \<in> set (lg_orders l). order_active (vo_status w) \<longrightarrow> vo_id w \<in> vl_order ` set (lg_leases l))"

definition ledger_counts :: "ledger \<Rightarrow> bool" where
  "ledger_counts l \<longleftrightarrow>
     (\<forall>w \<in> set (lg_workers l). vw_count w = int (rowcount (\<lambda>x. vl_worker x = vw_id w) (lg_leases l)))"

definition ledger_quota :: "ledger \<Rightarrow> bool" where
  "ledger_quota l \<longleftrightarrow>
     (\<forall>r \<in> set (lg_runs l). 0 \<le> vr_units r \<and> (vr_quota r = QUOTA_RESERVED \<longrightarrow>
         0 < vr_units r \<and> vr_status r = RUN_ASSIGNED \<and> vr_worker r \<in> vp_id ` set (lg_profiles l)))
     \<and> (\<forall>p \<in> set (lg_profiles l). 0 \<le> vp_remaining p
         \<and> vp_remaining p + total (reserved_by (vp_id p)) (lg_runs l) \<le> vp_capacity p)"

definition ledger_attempts :: "ledger \<Rightarrow> bool" where
  "ledger_attempts l \<longleftrightarrow>
     (\<forall>r \<in> set (lg_runs l). \<exists>w \<in> set (lg_orders l). vo_id w = vr_order r \<and> vr_attempt r \<le> vo_attempt w)
     \<and> distinct (map (\<lambda>r. (vr_order r, vr_attempt r)) (lg_runs l))
     \<and> (\<forall>w \<in> set (lg_orders l). 0 \<le> vo_units w)"

text \<open>No order may write to a repository and no worker can.\<close>

definition ledger_readonly :: "ledger \<Rightarrow> bool" where
  "ledger_readonly l \<longleftrightarrow> (\<forall>w \<in> set (lg_orders l). \<not> vo_write w) \<and> (\<forall>v \<in> set (lg_workers l). \<not> vw_write v)"

text \<open>A run keeps its reservation until it stops: nothing is released under an active run.\<close>

definition ledger_unreleased :: "ledger \<Rightarrow> bool" where
  "ledger_unreleased l \<longleftrightarrow> (\<forall>r \<in> set (lg_runs l). run_active (vr_status r) \<longrightarrow> vr_quota r \<noteq> QUOTA_RELEASED)"

definition ledger_inv :: "ledger \<Rightarrow> bool" where
  "ledger_inv l \<longleftrightarrow> ledger_keys l \<and> ledger_cover l \<and> ledger_counts l \<and> ledger_quota l \<and> ledger_attempts l"

section \<open>Steps\<close>

definition set_vorder :: "int \<Rightarrow> (order_entry \<Rightarrow> order_entry) \<Rightarrow> ledger \<Rightarrow> ledger" where
  "set_vorder i f l = l\<lparr>lg_orders := update_where (\<lambda>w. vo_id w = i) f (lg_orders l)\<rparr>"

definition set_vrun :: "int \<Rightarrow> (run_entry \<Rightarrow> run_entry) \<Rightarrow> ledger \<Rightarrow> ledger" where
  "set_vrun i f l = l\<lparr>lg_runs := update_where (\<lambda>r. vr_id r = i) f (lg_runs l)\<rparr>"

definition add_count :: "string \<Rightarrow> int \<Rightarrow> ledger \<Rightarrow> ledger" where
  "add_count i n l = l\<lparr>lg_workers := update_where (\<lambda>w. vw_id w = i) (\<lambda>w. w\<lparr>vw_count := vw_count w + n\<rparr>) (lg_workers l)\<rparr>"

definition add_remaining :: "string \<Rightarrow> int \<Rightarrow> ledger \<Rightarrow> ledger" where
  "add_remaining i n l =
     l\<lparr>lg_profiles := update_where (\<lambda>p. vp_id p = i) (\<lambda>p. p\<lparr>vp_remaining := vp_remaining p + n\<rparr>) (lg_profiles l)\<rparr>"

definition move_vquota :: "quota_state \<Rightarrow> quota_state \<Rightarrow> quota_state" where
  "move_vquota s q = (if q = QUOTA_RESERVED then s else q)"

text \<open>\<open>units\<close> is the quota the claim takes, 0 when it takes none.\<close>

definition claim_quota_state :: "int \<Rightarrow> quota_state" where
  "claim_quota_state units = (if units = 0 then QUOTA_NOT_REQUIRED else QUOTA_RESERVED)"

definition lg_claim :: "ledger \<Rightarrow> order_entry \<Rightarrow> string \<Rightarrow> int \<Rightarrow> int \<Rightarrow> int \<Rightarrow> ledger" where
  "lg_claim l w worker run_id lease_id units =
     (let q = claim_quota_state units;
          l1 = add_remaining worker (- units) (add_count worker 1 l);
          l2 = set_vorder (vo_id w)
                 (\<lambda>w. w\<lparr>vo_status := WO_ASSIGNED, vo_attempt := vo_attempt w + 1, vo_quota := Some q\<rparr>) l1
      in l2\<lparr>lg_runs := lg_runs l @ [\<lparr>vr_id = run_id, vr_order = vo_id w, vr_worker = worker,
             vr_attempt = vo_attempt w + 1, vr_status = RUN_ASSIGNED, vr_units = units, vr_quota = q\<rparr>],
            lg_leases := lg_leases l @ [\<lparr>vl_id = lease_id, vl_order = vo_id w, vl_run = run_id, vl_worker = worker\<rparr>]\<rparr>)"

definition lg_start :: "ledger \<Rightarrow> lease_entry \<Rightarrow> ledger" where
  "lg_start l x =
     set_vorder (vl_order x)
       (\<lambda>w. w\<lparr>vo_status := WO_RUNNING, vo_quota := map_option (move_vquota QUOTA_CONSUMED) (vo_quota w)\<rparr>)
     (set_vrun (vl_run x)
       (\<lambda>r. r\<lparr>vr_status := RUN_RUNNING, vr_quota := move_vquota QUOTA_CONSUMED (vr_quota r)\<rparr>) l)"

text \<open>\<open>units\<close> is what the run had reserved and gets back, 0 when nothing was reserved.\<close>

definition lg_retire :: "ledger \<Rightarrow> lease_entry \<Rightarrow> int \<Rightarrow> run_status \<Rightarrow> work_order_status \<Rightarrow> ledger" where
  "lg_retire l x units rs os =
     add_count (vl_worker x) (- 1)
     (set_vorder (vl_order x)
       (\<lambda>w. w\<lparr>vo_status := os, vo_quota := map_option (move_vquota QUOTA_RELEASED) (vo_quota w)\<rparr>)
     (set_vrun (vl_run x)
       (\<lambda>r. r\<lparr>vr_status := rs, vr_quota := move_vquota QUOTA_RELEASED (vr_quota r)\<rparr>)
     (add_remaining (vl_worker x) units
     (l\<lparr>lg_leases := delete_where (\<lambda>y. y = x) (lg_leases l)\<rparr>))))"

datatype ledger_event =
    NewOrder int | MoveOrder int work_order_status | ClaimOrder int string
  | StartRun int | RetireRun int run_status work_order_status
  | NewWorker string | NewProfile string | SetProfile string | Stutter

inductive ledger_step :: "ledger \<Rightarrow> ledger_event \<Rightarrow> ledger \<Rightarrow> bool" where
  stutter: "ledger_step l Stutter l"
| new_order: "i \<notin> vo_id ` set (lg_orders l) \<Longrightarrow> 0 \<le> units \<Longrightarrow>
    ledger_step l (NewOrder i)
      (l\<lparr>lg_orders := lg_orders l @ [\<lparr>vo_id = i, vo_status = WO_PENDING_APPROVAL, vo_attempt = 0,
           vo_quota = None, vo_units = units, vo_write = False\<rparr>]\<rparr>)"
| move_order: "w \<in> set (lg_orders l) \<Longrightarrow> vo_id w = i \<Longrightarrow> allows_work_order_transition (vo_status w) s
    \<Longrightarrow> \<not> order_active (vo_status w) \<Longrightarrow> \<not> order_active s \<Longrightarrow>
    ledger_step l (MoveOrder i s) (set_vorder i (\<lambda>w. w\<lparr>vo_status := s\<rparr>) l)"
| claim: "w \<in> set (lg_orders l) \<Longrightarrow> vo_status w = WO_QUEUED \<Longrightarrow> worker \<in> vw_id ` set (lg_workers l)
    \<Longrightarrow> run_id \<notin> vr_id ` set (lg_runs l) \<Longrightarrow> lease_id \<notin> vl_id ` set (lg_leases l)
    \<Longrightarrow> run_id \<notin> vl_run ` set (lg_leases l)
    \<Longrightarrow> 0 \<le> units
    \<Longrightarrow> units = 0 \<or> (\<exists>p \<in> set (lg_profiles l). vp_id p = worker \<and> units \<le> vp_remaining p) \<Longrightarrow>
    ledger_step l (ClaimOrder (vo_id w) worker) (lg_claim l w worker run_id lease_id units)"
| start: "x \<in> set (lg_leases l) \<Longrightarrow> ledger_step l (StartRun (vl_run x)) (lg_start l x)"
| retire: "x \<in> set (lg_leases l) \<Longrightarrow> r \<in> set (lg_runs l) \<Longrightarrow> vr_id r = vl_run x
    \<Longrightarrow> is_terminal_run rs \<Longrightarrow> order_exit os
    \<Longrightarrow> units = (if vr_quota r = QUOTA_RESERVED then vr_units r else 0) \<Longrightarrow>
    ledger_step l (RetireRun (vl_run x) rs os) (lg_retire l x units rs os)"
| new_worker: "i \<notin> vw_id ` set (lg_workers l) \<Longrightarrow>
    ledger_step l (NewWorker i) (l\<lparr>lg_workers := lg_workers l @ [\<lparr>vw_id = i, vw_count = 0, vw_write = False\<rparr>]\<rparr>)"
| new_profile: "i \<notin> vp_id ` set (lg_profiles l) \<Longrightarrow> 0 \<le> rem \<Longrightarrow> rem \<le> cap \<Longrightarrow>
    ledger_step l (NewProfile i)
      (l\<lparr>lg_profiles := lg_profiles l @ [\<lparr>vp_id = i, vp_remaining = rem, vp_capacity = cap\<rparr>]\<rparr>)"
| set_profile: "0 \<le> rem \<Longrightarrow> rem \<le> cap
    \<Longrightarrow> \<not> (\<exists>r \<in> set (lg_runs l). vr_worker r = i \<and> vr_quota r = QUOTA_RESERVED) \<Longrightarrow>
    ledger_step l (SetProfile i)
      (l\<lparr>lg_profiles := update_where (\<lambda>p. vp_id p = i)
           (\<lambda>p. p\<lparr>vp_remaining := rem, vp_capacity := cap\<rparr>) (lg_profiles l)\<rparr>)"

inductive_cases ledger_stepE: "ledger_step l e l'"

definition ledger_start :: "ledger \<Rightarrow> bool" where
  "ledger_start l \<longleftrightarrow> lg_orders l = [] \<and> lg_runs l = [] \<and> lg_workers l = [] \<and> lg_profiles l = [] \<and> lg_leases l = []"

section \<open>The invariant is kept\<close>

lemmas ledger_inv_defs = ledger_inv_def ledger_keys_def ledger_cover_def ledger_counts_def
  ledger_quota_def ledger_attempts_def

lemma set_vorder_simps [simp]:
  "lg_orders (set_vorder i f l) = update_where (\<lambda>w. vo_id w = i) f (lg_orders l)"
  "lg_runs (set_vorder i f l) = lg_runs l" "lg_workers (set_vorder i f l) = lg_workers l"
  "lg_profiles (set_vorder i f l) = lg_profiles l" "lg_leases (set_vorder i f l) = lg_leases l"
  by (simp_all add: set_vorder_def)

lemma set_vrun_simps [simp]:
  "lg_runs (set_vrun i f l) = update_where (\<lambda>r. vr_id r = i) f (lg_runs l)"
  "lg_orders (set_vrun i f l) = lg_orders l" "lg_workers (set_vrun i f l) = lg_workers l"
  "lg_profiles (set_vrun i f l) = lg_profiles l" "lg_leases (set_vrun i f l) = lg_leases l"
  by (simp_all add: set_vrun_def)

lemma add_count_simps [simp]:
  "lg_workers (add_count i n l) = update_where (\<lambda>w. vw_id w = i) (\<lambda>w. w\<lparr>vw_count := vw_count w + n\<rparr>) (lg_workers l)"
  "lg_runs (add_count i n l) = lg_runs l" "lg_orders (add_count i n l) = lg_orders l"
  "lg_profiles (add_count i n l) = lg_profiles l" "lg_leases (add_count i n l) = lg_leases l"
  by (simp_all add: add_count_def)

lemma add_remaining_simps [simp]:
  "lg_profiles (add_remaining i n l) = update_where (\<lambda>p. vp_id p = i) (\<lambda>p. p\<lparr>vp_remaining := vp_remaining p + n\<rparr>) (lg_profiles l)"
  "lg_runs (add_remaining i n l) = lg_runs l" "lg_orders (add_remaining i n l) = lg_orders l"
  "lg_workers (add_remaining i n l) = lg_workers l" "lg_leases (add_remaining i n l) = lg_leases l"
  by (simp_all add: add_remaining_def)

lemma ledger_key_facts:
  assumes "ledger_inv l"
  shows "distinct (map vo_id (lg_orders l))" "distinct (map vr_id (lg_runs l))"
    "distinct (map vw_id (lg_workers l))" "distinct (map vp_id (lg_profiles l))"
    "distinct (map vl_id (lg_leases l))" "distinct (map vl_order (lg_leases l))"
    "distinct (map vl_run (lg_leases l))"
  using assms by (simp_all add: ledger_inv_def ledger_keys_def)

text \<open>The run and the order of a lease, picked by their keys, are the ones that back it.\<close>

lemma lease_facts:
  assumes inv: "ledger_inv l" and x: "x \<in> set (lg_leases l)"
    and r: "r \<in> set (lg_runs l)" "vr_id r = vl_run x" and w: "w \<in> set (lg_orders l)" "vo_id w = vl_order x"
  shows "vr_order r = vl_order x" "vr_worker r = vl_worker x" "run_active (vr_status r)"
    "order_active (vo_status w)" "vr_attempt r = vo_attempt w" "vo_quota w = Some (vr_quota r)"
proof -
  from inv x obtain r' w' where b: "r' \<in> set (lg_runs l)" "w' \<in> set (lg_orders l)"
    "vr_id r' = vl_run x" "vo_id w' = vl_order x" "vr_order r' = vl_order x" "vr_worker r' = vl_worker x"
    "run_active (vr_status r')" "order_active (vo_status w')" "vr_attempt r' = vo_attempt w'"
    "vo_quota w' = Some (vr_quota r')"
    by (auto simp: ledger_inv_def ledger_cover_def lease_backed_def)
  have "r' = r" using b(1,3) r ledger_key_facts(2) [OF inv] by (metis key_unique)
  moreover have "w' = w" using b(2,4) w ledger_key_facts(1) [OF inv] by (metis key_unique)
  ultimately show "vr_order r = vl_order x" "vr_worker r = vl_worker x" "run_active (vr_status r)"
    "order_active (vo_status w)" "vr_attempt r = vo_attempt w" "vo_quota w = Some (vr_quota r)"
    using b by auto
qed

lemma lease_parts:
  assumes "ledger_inv l" and "x \<in> set (lg_leases l)"
  obtains r w where "r \<in> set (lg_runs l)" "vr_id r = vl_run x" "w \<in> set (lg_orders l)" "vo_id w = vl_order x"
  using assms by (auto simp: ledger_inv_def ledger_cover_def lease_backed_def)

lemma inactive_order_unleased:
  assumes inv: "ledger_inv l" and w: "w \<in> set (lg_orders l)" "\<not> order_active (vo_status w)"
  shows "vo_id w \<notin> vl_order ` set (lg_leases l)"
proof
  assume "vo_id w \<in> vl_order ` set (lg_leases l)"
  then obtain x where x: "x \<in> set (lg_leases l)" "vo_id w = vl_order x" by auto
  from lease_parts [OF inv x(1)] obtain r where "r \<in> set (lg_runs l)" "vr_id r = vl_run x" by metis
  from lease_facts(4) [OF inv x(1) this w(1) x(2)] w(2) show False by simp
qed

text \<open>
  Rewriting orders, runs and leases keeps the correspondence when every remaining lease keeps a
  backing pair; the update functions below preserve the keys.
\<close>

lemma total_update_unique:
  assumes "distinct (map key rows)" and "r \<in> set rows" and "key r = k"
  shows "total g (update_where (\<lambda>x. key x = k) f rows) = total g rows - g r + g (f r)"
  using total_update_key [of key rows r k "\<lambda>_. True" g f] assms by simp

lemma total_reserved_le:
  assumes "ledger_quota l" and "r \<in> set (lg_runs l)"
  shows "reserved_by i r \<le> total (reserved_by i) (lg_runs l)"
  using assms by (intro total_member_le) (auto simp: reserved_by_def ledger_quota_def)

subsection \<open>Claiming an order\<close>

lemma keys_claim:
  assumes inv: "ledger_inv l" and w: "w \<in> set (lg_orders l)" "vo_status w = WO_QUEUED"
    and new: "run_id \<notin> vr_id ` set (lg_runs l)" "lease_id \<notin> vl_id ` set (lg_leases l)" "run_id \<notin> vl_run ` set (lg_leases l)"
  shows "ledger_keys (lg_claim l w worker run_id lease_id units)"
proof -
  have "vo_id w \<notin> vl_order ` set (lg_leases l)"
    using inactive_order_unleased [OF inv w(1)] w(2) by (simp add: order_active_def)
  with new ledger_key_facts [OF inv] show ?thesis
    by (simp add: ledger_keys_def lg_claim_def Let_def map_update_where)
qed

lemma cover_claim:
  assumes inv: "ledger_inv l" and w: "w \<in> set (lg_orders l)" "vo_status w = WO_QUEUED"
    and worker: "worker \<in> vw_id ` set (lg_workers l)"
  shows "ledger_cover (lg_claim l w worker run_id lease_id units)"
proof -
  let ?l = "lg_claim l w worker run_id lease_id units"
  let ?f = "\<lambda>w. w\<lparr>vo_status := WO_ASSIGNED, vo_attempt := vo_attempt w + 1, vo_quota := Some (claim_quota_state units)\<rparr>"
  let ?r = "\<lparr>vr_id = run_id, vr_order = vo_id w, vr_worker = worker, vr_attempt = vo_attempt w + 1,
    vr_status = RUN_ASSIGNED, vr_units = units, vr_quota = claim_quota_state units\<rparr>"
  have os: "lg_orders ?l = update_where (\<lambda>v. vo_id v = vo_id w) ?f (lg_orders l)"
    and rs: "lg_runs ?l = lg_runs l @ [?r]"
    and xs: "lg_leases ?l = lg_leases l @ [\<lparr>vl_id = lease_id, vl_order = vo_id w, vl_run = run_id, vl_worker = worker\<rparr>]"
    and ws: "vw_id ` set (lg_workers ?l) = vw_id ` set (lg_workers l)"
    by (simp_all add: lg_claim_def Let_def image_update_where)
  have old: "lease_backed ?l x" if x: "x \<in> set (lg_leases l)" for x
  proof -
    from lease_parts [OF inv x] obtain r v where r: "r \<in> set (lg_runs l)" "vr_id r = vl_run x"
      and v: "v \<in> set (lg_orders l)" "vo_id v = vl_order x" .
    note facts = lease_facts [OF inv x r v]
    have "vo_id v \<noteq> vo_id w"
      using facts(4) w v(1) ledger_key_facts(1) [OF inv] key_unique by (fastforce simp: order_active_def)
    then have "v \<in> set (lg_orders ?l)" using v(1) by (auto simp: os set_update_where image_iff intro!: bexI [of _ v])
    then show ?thesis using facts r v unfolding lease_backed_def by (auto simp: rs)
  qed
  have new: "lease_backed ?l \<lparr>vl_id = lease_id, vl_order = vo_id w, vl_run = run_id, vl_worker = worker\<rparr>"
  proof -
    have "?f w \<in> set (lg_orders ?l)" using w(1) by (auto simp: os set_update_where)
    then show ?thesis
      unfolding lease_backed_def
      by (intro bexI [of _ ?r] bexI [of _ "?f w"]) (simp_all add: rs run_active_def order_active_def)
  qed
  from inv have cov: "ledger_cover l" by (simp add: ledger_inv_def)
  show ?thesis
    using cov old new worker unfolding ledger_cover_def ws by (auto simp: rs xs os set_update_where)
qed

lemma counts_claim:
  assumes inv: "ledger_inv l"
  shows "ledger_counts (lg_claim l w worker run_id lease_id units)"
proof -
  from inv have "\<forall>w \<in> set (lg_workers l). vw_count w = int (rowcount (\<lambda>x. vl_worker x = vw_id w) (lg_leases l))"
    by (simp add: ledger_inv_def ledger_counts_def)
  then show ?thesis by (auto simp: ledger_counts_def lg_claim_def Let_def set_update_where)
qed

lemma quota_claim:
  assumes inv: "ledger_inv l" and "0 \<le> units"
    and pool: "units = 0 \<or> (\<exists>p \<in> set (lg_profiles l). vp_id p = worker \<and> units \<le> vp_remaining p)"
  shows "ledger_quota (lg_claim l w worker run_id lease_id units)"
proof -
  let ?l = "lg_claim l w worker run_id lease_id units"
  let ?r = "\<lparr>vr_id = run_id, vr_order = vo_id w, vr_worker = worker, vr_attempt = vo_attempt w + 1,
    vr_status = RUN_ASSIGNED, vr_units = units, vr_quota = claim_quota_state units\<rparr>"
  have rs: "lg_runs ?l = lg_runs l @ [?r]"
    and ps: "lg_profiles ?l = update_where (\<lambda>p. vp_id p = worker) (\<lambda>p. p\<lparr>vp_remaining := vp_remaining p - units\<rparr>) (lg_profiles l)"
    by (simp_all add: lg_claim_def Let_def)
  have ids: "vp_id ` set (lg_profiles ?l) = vp_id ` set (lg_profiles l)"
    by (simp add: ps image_update_where)
  have res: "reserved_by i ?r = (if i = worker then units else 0)" for i
    by (auto simp: reserved_by_def claim_quota_state_def)
  from inv have q: "ledger_quota l" by (simp add: ledger_inv_def)
  have runs: "\<forall>r \<in> set (lg_runs ?l). 0 \<le> vr_units r \<and> (vr_quota r = QUOTA_RESERVED \<longrightarrow>
      0 < vr_units r \<and> vr_status r = RUN_ASSIGNED \<and> vr_worker r \<in> vp_id ` set (lg_profiles ?l))"
    using q pool assms(2) unfolding ledger_quota_def ids rs by (auto simp: claim_quota_state_def split: if_splits)
  have "0 \<le> vp_remaining p' \<and> vp_remaining p' + total (reserved_by (vp_id p')) (lg_runs ?l) \<le> vp_capacity p'"
    if "p' \<in> set (lg_profiles ?l)" for p'
  proof -
    from that obtain p where p: "p \<in> set (lg_profiles l)"
      "p' = (if vp_id p = worker then p\<lparr>vp_remaining := vp_remaining p - units\<rparr> else p)"
      by (auto simp: ps set_update_where)
    with q have b: "0 \<le> vp_remaining p" "vp_remaining p + total (reserved_by (vp_id p)) (lg_runs l) \<le> vp_capacity p"
      by (auto simp: ledger_quota_def)
    have "units \<le> vp_remaining p" if "vp_id p = worker"
      using pool b(1) p(1) that ledger_key_facts(4) [OF inv] key_unique by fastforce
    then show ?thesis using p(2) b by (cases "vp_id p = worker") (auto simp: rs res)
  qed
  with runs show ?thesis by (simp add: ledger_quota_def)
qed

lemma attempts_claim:
  assumes inv: "ledger_inv l" and w: "w \<in> set (lg_orders l)"
  shows "ledger_attempts (lg_claim l w worker run_id lease_id units)"
proof -
  let ?f = "\<lambda>w. w\<lparr>vo_status := WO_ASSIGNED, vo_attempt := vo_attempt w + 1, vo_quota := Some (claim_quota_state units)\<rparr>"
  let ?l = "lg_claim l w worker run_id lease_id units"
  have os: "lg_orders ?l = update_where (\<lambda>v. vo_id v = vo_id w) ?f (lg_orders l)"
    by (simp add: lg_claim_def Let_def)
  from inv have a: "ledger_attempts l" by (simp add: ledger_inv_def)
  have bound: "vr_attempt r \<le> vo_attempt w" if "r \<in> set (lg_runs l)" "vr_order r = vo_id w" for r
    using a that w ledger_key_facts(1) [OF inv] key_unique unfolding ledger_attempts_def by metis
  have "\<exists>v \<in> set (lg_orders ?l). vo_id v = vr_order r \<and> vr_attempt r \<le> vo_attempt v" if "r \<in> set (lg_runs l)" for r
  proof -
    from a that obtain v where v: "v \<in> set (lg_orders l)" "vo_id v = vr_order r" "vr_attempt r \<le> vo_attempt v"
      by (auto simp: ledger_attempts_def)
    let ?v = "if vo_id v = vo_id w then ?f v else v"
    have "?v \<in> set (lg_orders ?l)" using v(1) by (auto simp: os set_update_where)
    moreover have "vo_id ?v = vr_order r \<and> vr_attempt r \<le> vo_attempt ?v" using v by simp
    ultimately show ?thesis by blast
  qed
  moreover have "\<exists>v \<in> set (lg_orders ?l). vo_id v = vo_id w \<and> vo_attempt w + 1 \<le> vo_attempt v"
    using w by (auto simp: os set_update_where intro!: bexI [of _ "?f w"])
  moreover have "\<forall>v \<in> set (lg_orders ?l). 0 \<le> vo_units v"
    using a by (auto simp: os set_update_where ledger_attempts_def)
  moreover have "distinct (map (\<lambda>r. (vr_order r, vr_attempt r)) (lg_runs ?l))"
    using a bound by (force simp: ledger_attempts_def lg_claim_def Let_def)
  ultimately show ?thesis by (auto simp: ledger_attempts_def lg_claim_def Let_def)
qed

subsection \<open>Starting and retiring a run\<close>

lemma other_lease:
  assumes inv: "ledger_inv l" and "x \<in> set (lg_leases l)" "y \<in> set (lg_leases l)" "y \<noteq> x"
  shows "vl_run y \<noteq> vl_run x" "vl_order y \<noteq> vl_order x"
  using assms ledger_key_facts(6,7) [OF inv] key_unique by metis+

text \<open>Leases other than \<open>x\<close> stay backed when only the run and the order of \<open>x\<close> are rewritten.\<close>

lemma backed_other:
  assumes inv: "ledger_inv l" and x: "x \<in> set (lg_leases l)" and y: "y \<in> set (lg_leases l)" "y \<noteq> x"
    and rs: "lg_runs l' = update_where (\<lambda>r. vr_id r = vl_run x) f (lg_runs l)"
    and os: "lg_orders l' = update_where (\<lambda>w. vo_id w = vl_order x) g (lg_orders l)"
  shows "lease_backed l' y"
proof -
  from lease_parts [OF inv y(1)] obtain r w where r: "r \<in> set (lg_runs l)" "vr_id r = vl_run y"
    and w: "w \<in> set (lg_orders l)" "vo_id w = vl_order y" .
  have "r \<in> set (lg_runs l')" "w \<in> set (lg_orders l')"
    using r w other_lease [OF inv x y] by (auto simp: rs os set_update_where)
  then show ?thesis using lease_facts [OF inv y(1) r w] r w unfolding lease_backed_def by blast
qed

text \<open>
  The quota clause when the run of a lease gives up or uses its reservation: \<open>units\<close> goes back to
  the profile of the worker, at most what was reserved.
\<close>

lemma quota_release:
  assumes inv: "ledger_inv l" and r: "r \<in> set (lg_runs l)" "vr_id r = k" "vr_worker r = worker"
    and f: "\<And>r. vr_id (f r) = vr_id r" "\<And>r. vr_worker (f r) = vr_worker r" "\<And>r. vr_units (f r) = vr_units r"
      "\<And>r. vr_quota (f r) \<noteq> QUOTA_RESERVED"
    and units: "0 \<le> units" "units \<le> (if vr_quota r = QUOTA_RESERVED then vr_units r else 0)"
    and rs: "lg_runs l' = update_where (\<lambda>r. vr_id r = k) f (lg_runs l)"
    and ps: "lg_profiles l' = update_where (\<lambda>p. vp_id p = worker) (\<lambda>p. p\<lparr>vp_remaining := vp_remaining p + units\<rparr>) (lg_profiles l)"
  shows "ledger_quota l'"
proof -
  have ids: "vp_id ` set (lg_profiles l') = vp_id ` set (lg_profiles l)"
    by (simp add: ps image_update_where)
  from inv have q: "ledger_quota l" by (simp add: ledger_inv_def)
  have tot: "total (reserved_by i) (lg_runs l') = total (reserved_by i) (lg_runs l) - reserved_by i r" for i
    using total_update_unique [OF ledger_key_facts(2) [OF inv] r(1,2), of "reserved_by i" f] f(4)
    by (simp add: rs reserved_by_def)
  have "\<forall>r \<in> set (lg_runs l'). 0 \<le> vr_units r \<and> (vr_quota r = QUOTA_RESERVED \<longrightarrow>
      0 < vr_units r \<and> vr_status r = RUN_ASSIGNED \<and> vr_worker r \<in> vp_id ` set (lg_profiles l'))"
    using q f unfolding ledger_quota_def ids rs by (auto simp: set_update_where)
  moreover have "0 \<le> vp_remaining p' \<and> vp_remaining p' + total (reserved_by (vp_id p')) (lg_runs l') \<le> vp_capacity p'"
    if "p' \<in> set (lg_profiles l')" for p'
  proof -
    from that obtain p where p: "p \<in> set (lg_profiles l)"
      "p' = (if vp_id p = worker then p\<lparr>vp_remaining := vp_remaining p + units\<rparr> else p)"
      by (auto simp: ps set_update_where)
    with q have b: "0 \<le> vp_remaining p" "vp_remaining p + total (reserved_by (vp_id p)) (lg_runs l) \<le> vp_capacity p"
      by (auto simp: ledger_quota_def)
    have nn: "0 \<le> reserved_by i r" for i using q r(1) by (auto simp: reserved_by_def ledger_quota_def)
    show ?thesis
    proof (cases "vp_id p = worker")
      case True
      then have "reserved_by (vp_id p) r = (if vr_quota r = QUOTA_RESERVED then vr_units r else 0)"
        using r(3) by (simp add: reserved_by_def)
      then show ?thesis using p(2) b units True by (auto simp: tot)
    next
      case False
      then show ?thesis using p(2) b nn [of "vp_id p"] by (auto simp: tot)
    qed
  qed
  ultimately show ?thesis by (simp add: ledger_quota_def)
qed

lemma attempts_frame:
  assumes a: "ledger_attempts l"
    and os: "lg_orders l' = update_where P g (lg_orders l)" and rs: "lg_runs l' = update_where Q f (lg_runs l)"
    and g: "\<And>w. vo_id (g w) = vo_id w" "\<And>w. vo_attempt (g w) = vo_attempt w" "\<And>w. vo_units (g w) = vo_units w"
    and f: "\<And>r. vr_order (f r) = vr_order r" "\<And>r. vr_attempt (f r) = vr_attempt r"
  shows "ledger_attempts l'"
proof -
  have "\<exists>w \<in> set (lg_orders l'). vo_id w = vr_order r \<and> vr_attempt r \<le> vo_attempt w" if "r \<in> set (lg_runs l)" for r
  proof -
    from a that obtain w where w: "w \<in> set (lg_orders l)" "vo_id w = vr_order r" "vr_attempt r \<le> vo_attempt w"
      by (auto simp: ledger_attempts_def)
    have "(if P w then g w else w) \<in> set (lg_orders l')" using w(1) by (auto simp: os set_update_where)
    moreover have "vo_id (if P w then g w else w) = vr_order r" "vr_attempt r \<le> vo_attempt (if P w then g w else w)"
      using w g by auto
    ultimately show ?thesis by blast
  qed
  moreover have "distinct (map (\<lambda>r. (vr_order r, vr_attempt r)) (lg_runs l'))"
    using a f by (simp add: rs map_update_where ledger_attempts_def)
  moreover have "\<forall>w \<in> set (lg_orders l'). 0 \<le> vo_units w"
    using a g by (auto simp: os set_update_where ledger_attempts_def)
  ultimately show ?thesis using f by (auto simp: ledger_attempts_def rs set_update_where)
qed

lemma inv_start:
  assumes inv: "ledger_inv l" and x: "x \<in> set (lg_leases l)"
  shows "ledger_inv (lg_start l x)"
proof -
  let ?l = "lg_start l x"
  let ?f = "\<lambda>r. r\<lparr>vr_status := RUN_RUNNING, vr_quota := move_vquota QUOTA_CONSUMED (vr_quota r)\<rparr>"
  let ?g = "\<lambda>w. w\<lparr>vo_status := WO_RUNNING, vo_quota := map_option (move_vquota QUOTA_CONSUMED) (vo_quota w)\<rparr>"
  have rs: "lg_runs ?l = update_where (\<lambda>r. vr_id r = vl_run x) ?f (lg_runs l)"
    and os: "lg_orders ?l = update_where (\<lambda>w. vo_id w = vl_order x) ?g (lg_orders l)"
    and same: "lg_leases ?l = lg_leases l" "lg_workers ?l = lg_workers l" "lg_profiles ?l = lg_profiles l"
    by (simp_all add: lg_start_def)
  from lease_parts [OF inv x] obtain r w where r: "r \<in> set (lg_runs l)" "vr_id r = vl_run x"
    and w: "w \<in> set (lg_orders l)" "vo_id w = vl_order x" .
  note facts = lease_facts [OF inv x r w]
  have "?f r \<in> set (lg_runs ?l)" "?g w \<in> set (lg_orders ?l)" using r w by (auto simp: rs os set_update_where)
  then have own: "lease_backed ?l x"
    unfolding lease_backed_def using facts r w
    by (intro bexI [of _ "?f r"] bexI [of _ "?g w"]) (simp_all add: run_active_def order_active_def)
  have "ledger_keys ?l" using ledger_key_facts [OF inv] by (simp add: ledger_keys_def rs os same map_update_where)
  moreover have "ledger_cover ?l"
  proof -
    have "lease_backed ?l y" if "y \<in> set (lg_leases l)" for y
      using own backed_other [OF inv x that _ rs os] by blast
    moreover have "\<forall>r \<in> set (lg_runs ?l). run_active (vr_status r) \<longrightarrow> vr_id r \<in> vl_run ` set (lg_leases l)"
      using inv x by (auto simp: rs set_update_where ledger_inv_def ledger_cover_def)
    moreover have "\<forall>w \<in> set (lg_orders ?l). order_active (vo_status w) \<longrightarrow> vo_id w \<in> vl_order ` set (lg_leases l)"
      using inv x by (auto simp: os set_update_where ledger_inv_def ledger_cover_def)
    ultimately show ?thesis using inv by (auto simp: ledger_cover_def same ledger_inv_def)
  qed
  moreover have "ledger_counts ?l" using inv by (simp add: ledger_inv_def ledger_counts_def same)
  moreover have "ledger_quota ?l"
    by (rule quota_release [OF inv r refl _ _ _ _ _ _ rs, of 0])
      (use inv r in \<open>auto simp: same move_vquota_def update_where_def ledger_inv_def ledger_quota_def\<close>)
  moreover have "ledger_attempts ?l"
    by (rule attempts_frame [OF _ os rs]) (use inv in \<open>simp_all add: ledger_inv_def\<close>)
  ultimately show ?thesis by (simp add: ledger_inv_def)
qed

lemma inv_retire:
  assumes inv: "ledger_inv l" and x: "x \<in> set (lg_leases l)"
    and r: "r \<in> set (lg_runs l)" "vr_id r = vl_run x"
    and st: "is_terminal_run rs" "\<not> order_active os"
    and units: "units = (if vr_quota r = QUOTA_RESERVED then vr_units r else 0)"
  shows "ledger_inv (lg_retire l x units rs os)"
proof -
  let ?l = "lg_retire l x units rs os"
  let ?f = "\<lambda>r. r\<lparr>vr_status := rs, vr_quota := move_vquota QUOTA_RELEASED (vr_quota r)\<rparr>"
  let ?g = "\<lambda>w. w\<lparr>vo_status := os, vo_quota := map_option (move_vquota QUOTA_RELEASED) (vo_quota w)\<rparr>"
  have rs: "lg_runs ?l = update_where (\<lambda>r. vr_id r = vl_run x) ?f (lg_runs l)"
    and os: "lg_orders ?l = update_where (\<lambda>w. vo_id w = vl_order x) ?g (lg_orders l)"
    and xs: "lg_leases ?l = delete_where (\<lambda>y. y = x) (lg_leases l)"
    and ps: "lg_profiles ?l = update_where (\<lambda>p. vp_id p = vl_worker x) (\<lambda>p. p\<lparr>vp_remaining := vp_remaining p + units\<rparr>) (lg_profiles l)"
    and ws: "lg_workers ?l = update_where (\<lambda>w. vw_id w = vl_worker x) (\<lambda>w. w\<lparr>vw_count := vw_count w + - 1\<rparr>) (lg_workers l)"
    by (simp_all add: lg_retire_def)
  from lease_parts [OF inv x] obtain w where w: "w \<in> set (lg_orders l)" "vo_id w = vl_order x" by metis
  note facts = lease_facts [OF inv x r w]
  have inact: "\<not> run_active rs" using st(1) terminal_not_active by blast
  have "ledger_keys ?l"
    using ledger_key_facts [OF inv] by (simp add: ledger_keys_def rs os xs ps ws map_update_where map_delete_where_distinct)
  moreover have "ledger_cover ?l"
  proof -
    have bk: "lease_backed ?l y" if "y \<in> set (lg_leases ?l)" for y
      using backed_other [OF inv x _ _ rs os, of y] that by (simp add: xs set_delete_where)
    have run: "vr_id r' \<in> vl_run ` set (lg_leases ?l)" if "r' \<in> set (lg_runs ?l)" "run_active (vr_status r')" for r'
    proof -
      from that inact have r': "r' \<in> set (lg_runs l)" "vr_id r' \<noteq> vl_run x" by (auto simp: rs set_update_where split: if_splits)
      with inv that(2) have "vr_id r' \<in> vl_run ` set (lg_leases l)" by (auto simp: ledger_inv_def ledger_cover_def)
      with r'(2) show ?thesis by (force simp: xs set_delete_where)
    qed
    have ord: "vo_id w' \<in> vl_order ` set (lg_leases ?l)" if "w' \<in> set (lg_orders ?l)" "order_active (vo_status w')" for w'
    proof -
      from that st(2) have w': "w' \<in> set (lg_orders l)" "vo_id w' \<noteq> vl_order x" by (auto simp: os set_update_where split: if_splits)
      with inv that(2) have "vo_id w' \<in> vl_order ` set (lg_leases l)" by (auto simp: ledger_inv_def ledger_cover_def)
      with w'(2) show ?thesis by (force simp: xs set_delete_where)
    qed
    have "vw_id ` set (lg_workers ?l) = vw_id ` set (lg_workers l)" by (simp add: ws image_update_where)
    then show ?thesis using bk run ord inv by (auto simp: ledger_cover_def ledger_inv_def xs set_delete_where)
  qed
  moreover have "ledger_counts ?l"
  proof -
    have cnt: "rowcount Q (lg_leases ?l) + (if Q x then 1 else 0) = rowcount Q (lg_leases l)" for Q
      using rowcount_delete_key [of id "lg_leases l" x Q] x ledger_key_facts(5) [OF inv]
      by (simp add: xs distinct_map)
    have "vw_count w' = int (rowcount (\<lambda>y. vl_worker y = vw_id w') (lg_leases ?l))" if "w' \<in> set (lg_workers ?l)" for w'
    proof -
      from that obtain v where v: "v \<in> set (lg_workers l)"
        "w' = (if vw_id v = vl_worker x then v\<lparr>vw_count := vw_count v + - 1\<rparr> else v)" by (auto simp: ws set_update_where)
      with inv have "vw_count v = int (rowcount (\<lambda>y. vl_worker y = vw_id v) (lg_leases l))"
        by (auto simp: ledger_inv_def ledger_counts_def)
      then show ?thesis using v(2) cnt [of "\<lambda>y. vl_worker y = vw_id v"] by (auto split: if_splits)
    qed
    then show ?thesis by (simp add: ledger_counts_def)
  qed
  moreover have "ledger_quota ?l"
    by (rule quota_release [OF inv r facts(2) _ _ _ _ _ _ rs ps])
      (use inv r units in \<open>auto simp: move_vquota_def ledger_inv_def ledger_quota_def\<close>)
  moreover have "ledger_attempts ?l"
    by (rule attempts_frame [OF _ os rs]) (use inv in \<open>simp_all add: ledger_inv_def\<close>)
  ultimately show ?thesis by (simp add: ledger_inv_def)
qed

subsection \<open>Every step\<close>

lemma inv_new_order:
  assumes inv: "ledger_inv l" and "i \<notin> vo_id ` set (lg_orders l)" and "0 \<le> vo_units w" and w: "vo_id w = i"
    and "\<not> order_active (vo_status w)"
  shows "ledger_inv (l\<lparr>lg_orders := lg_orders l @ [w]\<rparr>)"
proof -
  let ?l = "l\<lparr>lg_orders := lg_orders l @ [w]\<rparr>"
  have "lease_backed ?l x" if "x \<in> set (lg_leases l)" for x
    using inv that by (fastforce simp: ledger_inv_def ledger_cover_def lease_backed_def)
  then have "ledger_cover ?l" using inv assms(5) by (auto simp: ledger_inv_def ledger_cover_def)
  moreover have "ledger_keys ?l" "ledger_counts ?l" "ledger_quota ?l"
    using inv assms by (auto simp: ledger_inv_def ledger_keys_def ledger_counts_def ledger_quota_def)
  moreover have "ledger_attempts ?l" using inv assms(3) by (fastforce simp: ledger_inv_def ledger_attempts_def)
  ultimately show ?thesis by (simp add: ledger_inv_def)
qed

lemma inv_move_order:
  assumes inv: "ledger_inv l" and w: "w \<in> set (lg_orders l)" "vo_id w = i"
    and "\<not> order_active (vo_status w)" "\<not> order_active s"
  shows "ledger_inv (set_vorder i (\<lambda>w. w\<lparr>vo_status := s\<rparr>) l)"
proof -
  let ?l = "set_vorder i (\<lambda>w. w\<lparr>vo_status := s\<rparr>) l"
  have "i \<notin> vl_order ` set (lg_leases l)" using inactive_order_unleased [OF inv w(1) assms(4)] w(2) by simp
  moreover have "lease_backed ?l x" if x: "x \<in> set (lg_leases l)" "vl_order x \<noteq> i" for x
  proof -
    from lease_parts [OF inv x(1)] obtain r v where r: "r \<in> set (lg_runs l)" "vr_id r = vl_run x"
      and v: "v \<in> set (lg_orders l)" "vo_id v = vl_order x" .
    have "v \<in> set (lg_orders ?l)" using v x(2) by (auto simp: set_update_where)
    with lease_facts [OF inv x(1) r v] r v show ?thesis unfolding lease_backed_def by fastforce
  qed
  ultimately have "ledger_cover ?l"
    using inv assms(5) by (auto simp: ledger_inv_def ledger_cover_def set_update_where split: if_splits)
  moreover have "ledger_keys ?l" "ledger_counts ?l" "ledger_quota ?l"
    using inv by (auto simp: ledger_inv_def ledger_keys_def ledger_counts_def ledger_quota_def map_update_where)
  moreover have "ledger_attempts ?l"
    by (rule attempts_frame [of l _ "\<lambda>w. vo_id w = i" "\<lambda>w. w\<lparr>vo_status := s\<rparr>" "\<lambda>_. False" id])
      (use inv in \<open>simp_all add: ledger_inv_def update_where_none\<close>)
  ultimately show ?thesis by (simp add: ledger_inv_def)
qed

lemma inv_claim:
  assumes "ledger_inv l" and "w \<in> set (lg_orders l)" "vo_status w = WO_QUEUED" and "worker \<in> vw_id ` set (lg_workers l)"
    and "run_id \<notin> vr_id ` set (lg_runs l)" "lease_id \<notin> vl_id ` set (lg_leases l)" "run_id \<notin> vl_run ` set (lg_leases l)"
    and "0 \<le> units" "units = 0 \<or> (\<exists>p \<in> set (lg_profiles l). vp_id p = worker \<and> units \<le> vp_remaining p)"
  shows "ledger_inv (lg_claim l w worker run_id lease_id units)"
  using assms keys_claim cover_claim counts_claim quota_claim attempts_claim by (simp add: ledger_inv_def)

lemma inv_workers:
  assumes inv: "ledger_inv l" and "i \<notin> vw_id ` set (lg_workers l)"
  shows "ledger_inv (l\<lparr>lg_workers := lg_workers l @ [\<lparr>vw_id = i, vw_count = 0, vw_write = False\<rparr>]\<rparr>)"
proof -
  have "i \<notin> vl_worker ` set (lg_leases l)" using inv assms(2) by (auto simp: ledger_inv_def ledger_cover_def)
  then have "rowcount (\<lambda>x. vl_worker x = i) (lg_leases l) = 0" by (auto simp: rowcount_zero)
  then show ?thesis using inv assms(2)
    by (auto simp: ledger_inv_defs lease_backed_def)
qed

lemma no_reservations:
  "\<not> (\<exists>r \<in> set rs. vr_worker r = i \<and> vr_quota r = QUOTA_RESERVED) \<Longrightarrow> total (reserved_by i) rs = 0"
  by (induction rs) (auto simp: reserved_by_def)

lemma inv_new_profile:
  assumes inv: "ledger_inv l" and "i \<notin> vp_id ` set (lg_profiles l)" "0 \<le> rem" "rem \<le> cap"
  shows "ledger_inv (l\<lparr>lg_profiles := lg_profiles l @ [\<lparr>vp_id = i, vp_remaining = rem, vp_capacity = cap\<rparr>]\<rparr>)"
proof -
  have "total (reserved_by i) (lg_runs l) = 0"
    using inv assms(2) by (intro no_reservations) (auto simp: ledger_inv_def ledger_quota_def)
  then show ?thesis using inv assms by (auto simp: ledger_inv_defs lease_backed_def)
qed

lemma inv_set_profile:
  assumes inv: "ledger_inv l" and "0 \<le> rem" "rem \<le> cap"
    and "\<not> (\<exists>r \<in> set (lg_runs l). vr_worker r = i \<and> vr_quota r = QUOTA_RESERVED)"
  shows "ledger_inv (l\<lparr>lg_profiles := update_where (\<lambda>p. vp_id p = i)
     (\<lambda>p. p\<lparr>vp_remaining := rem, vp_capacity := cap\<rparr>) (lg_profiles l)\<rparr>)"
proof -
  let ?l = "l\<lparr>lg_profiles := update_where (\<lambda>p. vp_id p = i) (\<lambda>p. p\<lparr>vp_remaining := rem, vp_capacity := cap\<rparr>) (lg_profiles l)\<rparr>"
  have zero: "total (reserved_by i) (lg_runs l) = 0" by (rule no_reservations [OF assms(4)])
  have ids: "vp_id ` set (lg_profiles ?l) = vp_id ` set (lg_profiles l)" by (simp add: image_update_where)
  from inv have q: "ledger_quota l" by (simp add: ledger_inv_def)
  have "\<forall>p \<in> set (lg_profiles ?l). 0 \<le> vp_remaining p
      \<and> vp_remaining p + total (reserved_by (vp_id p)) (lg_runs ?l) \<le> vp_capacity p"
    using q assms(2,3) zero by (auto simp: ledger_quota_def set_update_where)
  with q have "ledger_quota ?l" unfolding ledger_quota_def ids by simp
  moreover have "ledger_keys ?l" "ledger_cover ?l" "ledger_counts ?l" "ledger_attempts ?l"
    using inv by (auto simp: ledger_inv_defs lease_backed_def map_update_where)
  ultimately show ?thesis by (simp add: ledger_inv_def)
qed

interpretation ledger_system: invariant_system ledger_start ledger_step ledger_inv
proof unfold_locales
  show "ledger_inv l" if "ledger_start l" for l
    using that by (simp add: ledger_start_def ledger_inv_defs)
  show "ledger_inv l'" if "ledger_inv l" "ledger_step l e l'" for l e l'
    using that(2,1)
  proof (cases rule: ledger_step.cases)
    case (new_order i units)
    with that(1) show ?thesis using inv_new_order [of l i] by (simp add: order_active_def)
  next
    case (move_order w i s)
    with that(1) show ?thesis using inv_move_order by simp
  next
    case (claim w worker run_id lease_id units)
    with that(1) show ?thesis using inv_claim by simp
  next
    case (start x)
    with that(1) show ?thesis using inv_start by simp
  next
    case (retire x r rs os units)
    with that(1) show ?thesis using inv_retire order_exit_inactive by simp
  next
    case (new_worker i)
    with that(1) show ?thesis using inv_workers by simp
  next
    case (new_profile i rem cap)
    with that(1) show ?thesis using inv_new_profile by simp
  next
    case (set_profile rem cap i)
    with that(1) show ?thesis using inv_set_profile by simp
  qed (use that in simp)
qed

interpretation ledger_readonly_system: invariant_system ledger_start ledger_step ledger_readonly
proof unfold_locales
  show "ledger_readonly l" if "ledger_start l" for l
    using that by (simp add: ledger_start_def ledger_readonly_def)
  show "ledger_readonly l'" if "ledger_readonly l" "ledger_step l e l'" for l e l'
    using that(2,1)
    by (cases rule: ledger_step.cases)
      (auto simp: ledger_readonly_def lg_claim_def lg_start_def lg_retire_def Let_def set_update_where split: if_splits)
qed

lemma lease_order_active:
  assumes "ledger_inv l" "x \<in> set (lg_leases l)" "w \<in> set (lg_orders l)" "vo_id w = vl_order x"
  shows "order_active (vo_status w)"
  using lease_facts(4) [OF assms(1,2) _ _ assms(3,4)] lease_parts [OF assms(1,2)] by metis

lemma lease_run_active:
  assumes "ledger_inv l" "x \<in> set (lg_leases l)" "r \<in> set (lg_runs l)" "vr_id r = vl_run x"
  shows "run_active (vr_status r)"
  using lease_facts(3) [OF assms] lease_parts [OF assms(1,2)] by metis

lemma unreleased_step:
  assumes "ledger_inv l" and "ledger_unreleased l" and "ledger_step l e l'"
  shows "ledger_unreleased l'"
  using assms(3)
proof (cases rule: ledger_step.cases)
  case (start x)
  have "run_active (vr_status r)" if "r \<in> set (lg_runs l)" "vr_id r = vl_run x" for r
    by (rule lease_run_active [OF assms(1) start(3) that])
  with assms(2) show ?thesis
    by (auto simp: start ledger_unreleased_def lg_start_def set_update_where move_vquota_def split: if_splits)
next
  case (retire x r rs os units)
  then have "\<not> run_active rs" by (auto simp: lifecycle_defs run_active_def)
  with assms(2) show ?thesis
    by (auto simp: retire ledger_unreleased_def lg_retire_def set_update_where split: if_splits)
qed (use assms(2) in \<open>auto simp: ledger_unreleased_def lg_claim_def Let_def claim_quota_state_def\<close>)

interpretation ledger_quota_system: invariant_system ledger_start ledger_step "\<lambda>l. ledger_inv l \<and> ledger_unreleased l"
proof unfold_locales
  show "ledger_inv l \<and> ledger_unreleased l" if "ledger_start l" for l
    using that ledger_system.inv_start by (simp add: ledger_start_def ledger_unreleased_def)
  show "ledger_inv l' \<and> ledger_unreleased l'" if "ledger_inv l \<and> ledger_unreleased l" "ledger_step l e l'" for l e l'
    using that ledger_system.inv_step unreleased_step by blast
qed

section \<open>What a step does to the history\<close>

text \<open>
  Orders and runs are never removed, keep their identity, and change status only along the
  transition tables.
\<close>

definition order_follows :: "order_entry \<Rightarrow> order_entry \<Rightarrow> bool" where
  "order_follows w w' \<longleftrightarrow> vo_id w' = vo_id w \<and> vo_units w' = vo_units w \<and> vo_attempt w \<le> vo_attempt w'
     \<and> allows_work_order_transition\<^sup>*\<^sup>* (vo_status w) (vo_status w')"

definition run_follows :: "run_entry \<Rightarrow> run_entry \<Rightarrow> bool" where
  "run_follows r r' \<longleftrightarrow> vr_id r' = vr_id r \<and> vr_order r' = vr_order r \<and> vr_worker r' = vr_worker r
     \<and> vr_attempt r' = vr_attempt r \<and> vr_units r' = vr_units r
     \<and> allows_run_transition\<^sup>*\<^sup>* (vr_status r) (vr_status r')"

lemma order_follows_refl [simp]: "order_follows w w" and run_follows_refl [simp]: "run_follows r r"
  by (simp_all add: order_follows_def run_follows_def)

lemma follows_trans:
  "order_follows w w' \<Longrightarrow> order_follows w' w'' \<Longrightarrow> order_follows w w''"
  "run_follows r r' \<Longrightarrow> run_follows r' r'' \<Longrightarrow> run_follows r r''"
  by (auto simp: order_follows_def run_follows_def)

lemma update_follows:
  assumes "\<And>w. w \<in> set ws \<Longrightarrow> P w \<Longrightarrow> R w (f w)" and "\<And>w. R w w" and "w \<in> set ws"
  shows "\<exists>w' \<in> set (update_where P f ws). R w w'"
proof
  show "(if P w then f w else w) \<in> set (update_where P f ws)" using assms(3) by (simp add: update_where_def)
  show "R w (if P w then f w else w)" using assms by simp
qed

lemma active_running:
  "order_active s \<Longrightarrow> allows_work_order_transition\<^sup>*\<^sup>* s WO_RUNNING" "run_active t \<Longrightarrow> allows_run_transition\<^sup>*\<^sup>* t RUN_RUNNING"
  by (auto simp: order_active_def run_active_def lifecycle_defs intro: r_into_rtranclp)

lemma active_exit:
  "order_active s \<Longrightarrow> order_exit s' \<Longrightarrow> allows_work_order_transition\<^sup>*\<^sup>* s s'"
  "run_active t \<Longrightarrow> is_terminal_run t' \<Longrightarrow> allows_run_transition\<^sup>*\<^sup>* t t'"
  by (auto simp: order_exit_def run_active_def lifecycle_defs intro!: r_into_rtranclp)

lemma step_orders_follow:
  assumes inv: "ledger_inv l" and st: "ledger_step l e l'" and w: "w \<in> set (lg_orders l)"
  shows "\<exists>w' \<in> set (lg_orders l'). order_follows w w'"
proof -
  have upd: "\<exists>w' \<in> set (update_where (\<lambda>w. vo_id w = i) f (lg_orders l)). order_follows w w'"
    if "\<And>w. w \<in> set (lg_orders l) \<Longrightarrow> vo_id w = i \<Longrightarrow> order_follows w (f w)" for i f
    using that by (rule update_follows) (use w in simp_all)
  have same: "v = w'" if "v \<in> set (lg_orders l)" "w' \<in> set (lg_orders l)" "vo_id w' = vo_id v" for v w'
    using that key_unique [OF ledger_key_facts(1) [OF inv]] by metis
  from st show ?thesis
  proof (cases rule: ledger_step.cases)
    case (move_order v i s)
    have "order_follows u (u\<lparr>vo_status := s\<rparr>)" if "u \<in> set (lg_orders l)" "vo_id u = i" for u
      using same [of v u] that move_order by (auto simp: order_follows_def)
    from upd [OF this] show ?thesis by (simp add: move_order)
  next
    case (claim v worker run_id lease_id units)
    let ?f = "\<lambda>w. w\<lparr>vo_status := WO_ASSIGNED, vo_attempt := vo_attempt w + 1, vo_quota := Some (claim_quota_state units)\<rparr>"
    have "order_follows u (?f u)" if "u \<in> set (lg_orders l)" "vo_id u = vo_id v" for u
      using same [of v u] that claim by (auto simp: order_follows_def lifecycle_defs)
    from upd [OF this] show ?thesis by (simp add: claim lg_claim_def Let_def)
  next
    case (start x)
    let ?f = "\<lambda>w. w\<lparr>vo_status := WO_RUNNING, vo_quota := map_option (move_vquota QUOTA_CONSUMED) (vo_quota w)\<rparr>"
    have "order_follows u (?f u)" if "u \<in> set (lg_orders l)" "vo_id u = vl_order x" for u
      using lease_order_active [OF inv start(3) that] active_running(1) by (simp add: order_follows_def)
    from upd [OF this] show ?thesis by (simp add: start lg_start_def)
  next
    case (retire x r rs os units)
    let ?f = "\<lambda>w. w\<lparr>vo_status := os, vo_quota := map_option (move_vquota QUOTA_RELEASED) (vo_quota w)\<rparr>"
    have "order_follows u (?f u)" if "u \<in> set (lg_orders l)" "vo_id u = vl_order x" for u
      using lease_order_active [OF inv _ that] active_exit(1) retire by (simp add: order_follows_def)
    from upd [OF this] show ?thesis by (simp add: retire lg_retire_def)
  qed (use w in \<open>auto intro!: bexI [of _ w]\<close>)
qed

lemma step_runs_follow:
  assumes inv: "ledger_inv l" and st: "ledger_step l e l'" and r: "r \<in> set (lg_runs l)"
  shows "\<exists>r' \<in> set (lg_runs l'). run_follows r r'"
proof -
  have upd: "\<exists>r' \<in> set (update_where (\<lambda>r. vr_id r = k) f (lg_runs l)). run_follows r r'"
    if "\<And>r. r \<in> set (lg_runs l) \<Longrightarrow> vr_id r = k \<Longrightarrow> run_follows r (f r)" for k f
    using that by (rule update_follows) (use r in simp_all)
  from st show ?thesis
  proof (cases rule: ledger_step.cases)
    case (claim v worker run_id lease_id units)
    then show ?thesis using r by (auto simp: lg_claim_def Let_def intro!: bexI [of _ r])
  next
    case (start x)
    let ?f = "\<lambda>r. r\<lparr>vr_status := RUN_RUNNING, vr_quota := move_vquota QUOTA_CONSUMED (vr_quota r)\<rparr>"
    have "run_follows u (?f u)" if "u \<in> set (lg_runs l)" "vr_id u = vl_run x" for u
      using lease_run_active [OF inv start(3) that] active_running(2) by (simp add: run_follows_def)
    from upd [OF this] show ?thesis by (simp add: start lg_start_def)
  next
    case (retire x r' rs os units)
    let ?f = "\<lambda>r. r\<lparr>vr_status := rs, vr_quota := move_vquota QUOTA_RELEASED (vr_quota r)\<rparr>"
    have "run_follows u (?f u)" if "u \<in> set (lg_runs l)" "vr_id u = vl_run x" for u
      using lease_run_active [OF inv _ that] active_exit(2) retire by (simp add: run_follows_def)
    from upd [OF this] show ?thesis by (simp add: retire lg_retire_def)
  qed (use r in \<open>auto intro!: bexI [of _ r]\<close>)
qed

lemma path_follows:
  assumes "path ledger_step l es l'" and "ledger_inv l"
  shows "(\<forall>w \<in> set (lg_orders l). \<exists>w' \<in> set (lg_orders l'). order_follows w w')
    \<and> (\<forall>r \<in> set (lg_runs l). \<exists>r' \<in> set (lg_runs l'). run_follows r r')"
  using assms
proof (induction rule: path.induct)
  case (path_nil l)
  then show ?case using order_follows_refl run_follows_refl by blast
next
  case (path_cons l e l1 es l2)
  have inv1: "ledger_inv l1" by (rule ledger_system.inv_step [OF path_cons.prems path_cons.hyps(1)])
  show ?case
    using step_orders_follow [OF path_cons.prems path_cons.hyps(1)]
      step_runs_follow [OF path_cons.prems path_cons.hyps(1)] path_cons.IH [OF inv1]
    by (meson follows_trans)
qed

end
