(* ===== verification/Capabilities.thy ===== *)
theory Capabilities
  imports Execution_Types
begin

text \<open>
  Capability matching, \<^verbatim>\<open>server/execution/capabilities.py\<close>: what a worker declares, what
  a manifest and a request require, and the reasons why a worker does not qualify. Versions are
  parsed as the regular expression of the source does, on ASCII digits.
\<close>

section \<open>Versions\<close>

text \<open>The pattern \<^verbatim>\<open>(\d+)(?:\.(\d+))?(?:\.(\d+))?\<close>: one to three dot-separated numbers.\<close>

definition version_match :: "string \<Rightarrow> nat list option" where
  "version_match s =
     (let ps = split_on (CHR ''.'') s
      in if length ps \<le> 3 \<and> list_all (\<lambda>p. p \<noteq> [] \<and> list_all is_digit p) ps
         then Some (map parse_nat ps) else None)"

definition starts_with_v :: "string \<Rightarrow> bool" where
  "starts_with_v s = (lower (take 1 s) = ''v'')"

definition version_parts :: "bool \<Rightarrow> string \<Rightarrow> nat list option" where
  "version_parts normalize_leading_v value =
     (let normalized = strip value
      in version_match (if normalize_leading_v \<and> starts_with_v normalized then drop 1 normalized else normalized))"

definition padded_version :: "nat list \<Rightarrow> nat list" where
  "padded_version v = take 3 (v @ [0, 0])"

datatype version_mode = Exact | Minimum

text \<open>\<open>_version_requirement\<close>: a mapping with the single key \<open>exact\<close> or \<open>minimum\<close>, or a plain text.\<close>

fun version_requirement :: "json \<Rightarrow> (version_mode \<times> string) option" where
  "version_requirement (JObj [(k, JStr v)]) =
     (if k = ''exact'' then Some (Exact, v) else if k = ''minimum'' then Some (Minimum, v) else None)"
| "version_requirement (JStr v) = Some (Minimum, v)"
| "version_requirement _ = None"

definition runtime_version_matches :: "string option \<Rightarrow> json \<Rightarrow> bool \<Rightarrow> bool" where
  "runtime_version_matches actual requirement normalize_leading_v =
     (case (actual, version_requirement requirement) of
        (Some a, Some (mode, expected)) \<Rightarrow>
          (case (version_parts normalize_leading_v a, version_parts normalize_leading_v expected) of
             (Some ap, Some ep) \<Rightarrow>
               (case mode of Exact \<Rightarrow> ap = ep | Minimum \<Rightarrow> padded_version ep \<le> padded_version ap)
           | _ \<Rightarrow> False)
      | _ \<Rightarrow> False)"

definition normalize_runtime_version :: "string option \<Rightarrow> bool \<Rightarrow> string option" where
  "normalize_runtime_version value allow_leading_v =
     (case value of
        None \<Rightarrow> None
      | Some v \<Rightarrow>
          let normalized = strip v
          in if starts_with_v normalized \<and> \<not> allow_leading_v then None
             else
               let text = (if starts_with_v normalized then drop 1 normalized else normalized)
               in case version_parts False text of
                    None \<Rightarrow> None
                  | Some parts \<Rightarrow>
                      if length parts \<notin> {2, 3} then None
                      else Some (join_with ''.'' (map show_nat parts)))"

section \<open>Workers and requirements\<close>

record worker_capabilities =
  wc_operating_system :: string
  wc_architecture :: string
  wc_python_version :: "string option"
  wc_node_version :: "string option"
  wc_pnpm_version :: "string option"
  wc_docker_available :: bool
  wc_browsers :: "string list"
  wc_gpu_available :: bool
  wc_unity_available :: bool
  wc_desktop_available :: bool
  wc_capabilities :: json_object
  wc_network_policy_capability :: network_policy
  wc_repository_write_capability :: bool

record capability_match =
  cm_eligible :: bool
  cm_reasons :: "string list"

text \<open>\<open>_as_string_set\<close>: the set as the list of its lower-cased members.\<close>

fun as_string_set :: "json \<Rightarrow> string list option" where
  "as_string_set (JStr s) = Some [lower s]"
| "as_string_set (JList xs) = (if list_all is_JStr xs then Some (map (\<lambda>x. lower (str_of x)) xs) else None)"
| "as_string_set _ = None"

definition invalid_requirement :: "string \<Rightarrow> string" where
  "invalid_requirement name = ''invalid_capability_requirement:'' @ name"

definition platform_mismatch :: "string \<Rightarrow> json \<Rightarrow> string \<Rightarrow> string option" where
  "platform_mismatch actual required name =
     (case as_string_set required of
        None \<Rightarrow> Some (invalid_requirement name)
      | Some allowed \<Rightarrow>
          if allowed \<noteq> [] \<and> lower actual \<notin> set allowed then Some (name @ ''_not_supported'') else None)"

definition version_mismatch :: "worker_capabilities \<Rightarrow> string \<Rightarrow> json \<Rightarrow> string option" where
  "version_mismatch worker name required =
     (let actual = (if name = ''python'' then wc_python_version worker
                    else if name = ''node'' then wc_node_version worker else wc_pnpm_version worker)
      in if version_requirement required = None then Some (invalid_requirement name)
         else if \<not> runtime_version_matches actual required (name = ''node'')
         then Some (if name = ''pnpm'' then ''pnpm_version_mismatch_or_missing''
                    else name @ ''_version_too_old_or_missing'')
         else None)"

text \<open>\<open>_BOOLEAN_CAPABILITIES\<close>: the attribute and the reason of each boolean capability.\<close>

definition BOOLEAN_CAPABILITIES :: "(string \<times> (worker_capabilities \<Rightarrow> bool) \<times> string) list" where
  "BOOLEAN_CAPABILITIES =
     [(''docker'', wc_docker_available, ''docker_not_available''),
      (''gpu'', wc_gpu_available, ''gpu_not_available''),
      (''unity'', wc_unity_available, ''unity_not_available''),
      (''desktop'', wc_desktop_available, ''desktop_not_available'')]"

definition boolean_capability_mismatch ::
  "worker_capabilities \<Rightarrow> string \<Rightarrow> (worker_capabilities \<Rightarrow> bool) \<times> string \<Rightarrow> json \<Rightarrow> string option" where
  "boolean_capability_mismatch worker name entry required =
     (case required of
        JBool b \<Rightarrow> if b \<and> \<not> fst entry worker then Some (snd entry) else None
      | _ \<Rightarrow> Some (invalid_requirement name))"

definition browser_mismatch :: "worker_capabilities \<Rightarrow> json \<Rightarrow> string option" where
  "browser_mismatch worker required =
     (case as_string_set required of
        None \<Rightarrow> Some (invalid_requirement ''browsers'')
      | Some bs \<Rightarrow> if set bs \<subseteq> set (map lower (wc_browsers worker)) then None
                   else Some ''browser_capability_missing'')"

definition capability_missing :: "string \<Rightarrow> string" where
  "capability_missing name = ''capability_missing:'' @ name"

definition string_set_of :: "json option \<Rightarrow> string list option" where
  "string_set_of v = (case v of None \<Rightarrow> None | Some j \<Rightarrow> as_string_set j)"

definition custom_capability_mismatch :: "worker_capabilities \<Rightarrow> string \<Rightarrow> json \<Rightarrow> string option" where
  "custom_capability_mismatch worker name required =
     (let actual = map_of (wc_capabilities worker) name
      in case required of
           JBool b \<Rightarrow> if actual = Some (JBool b) then None else Some (capability_missing name)
         | JStr s \<Rightarrow>
             (case string_set_of actual of
                None \<Rightarrow> Some (capability_missing name)
              | Some available \<Rightarrow> if lower s \<in> set available then None else Some (capability_missing name))
         | _ \<Rightarrow>
             (case as_string_set required of
                None \<Rightarrow> Some (invalid_requirement name)
              | Some values \<Rightarrow>
                  (case string_set_of actual of
                     None \<Rightarrow> Some (capability_missing name)
                   | Some available \<Rightarrow> if set values \<subseteq> set available then None
                                       else Some (capability_missing name))))"

definition repository_write_mismatch :: "json \<Rightarrow> string option" where
  "repository_write_mismatch required =
     (case required of
        JBool b \<Rightarrow> if b then Some ''repository_write_not_permitted'' else None
      | _ \<Rightarrow> Some (invalid_requirement ''repository_write''))"

definition network_policy_mismatch :: "worker_capabilities \<Rightarrow> json \<Rightarrow> string option" where
  "network_policy_mismatch worker required =
     (case network_policy_of_value required of
        None \<Rightarrow> Some (invalid_requirement ''network_policy'')
      | Some NET_DISABLED \<Rightarrow> None
      | Some NET_WORKER_RESTRICTED \<Rightarrow>
          if wc_network_policy_capability worker \<noteq> NET_WORKER_RESTRICTED
          then Some ''network_policy_not_supported'' else None)"

definition capability_mismatch :: "worker_capabilities \<Rightarrow> string \<Rightarrow> json \<Rightarrow> string option" where
  "capability_mismatch worker name required =
     (if name = ''operating_system'' then platform_mismatch (wc_operating_system worker) required ''operating_system''
      else if name = ''architecture'' then platform_mismatch (wc_architecture worker) required ''architecture''
      else if name \<in> {''python'', ''node'', ''pnpm''} then version_mismatch worker name required
      else case map_of BOOLEAN_CAPABILITIES name of
        Some entry \<Rightarrow> boolean_capability_mismatch worker name entry required
      | None \<Rightarrow>
          if name \<in> {''browser'', ''browsers''} then browser_mismatch worker required
          else if name = ''repository_write'' then repository_write_mismatch required
          else if name = ''network_policy'' then network_policy_mismatch worker required
          else custom_capability_mismatch worker name required)"

text \<open>\<open>_match_capability_mapping\<close>: the mismatches in the order of the requirements.\<close>

definition match_capability_mapping :: "worker_capabilities \<Rightarrow> json_object \<Rightarrow> string list" where
  "match_capability_mapping worker requirements =
     List.map_filter (\<lambda>(name, required). capability_mismatch worker (lower name) required) requirements"

definition match_network_policy :: "worker_capabilities \<Rightarrow> network_policy \<Rightarrow> string list" where
  "match_network_policy worker required =
     (if required = NET_DISABLED then []
      else if wc_network_policy_capability worker \<noteq> NET_WORKER_RESTRICTED
      then [''network_policy_not_supported''] else [])"

definition match_worker_capabilities ::
  "worker_capabilities \<Rightarrow> json_object \<Rightarrow> json_object \<Rightarrow> network_policy \<Rightarrow> capability_match" where
  "match_worker_capabilities worker manifest_requirements requested_requirements net_policy =
     (let reasons = match_capability_mapping worker manifest_requirements
            @ match_capability_mapping worker requested_requirements
            @ match_network_policy worker net_policy
            @ (if wc_repository_write_capability worker
               then [''repository_write_capability_must_be_false''] else [])
      in \<lparr>cm_eligible = (reasons = []), cm_reasons = dedup reasons\<rparr>)"

section \<open>Lemmas\<close>

lemma match_mapping_empty:
  "match_capability_mapping worker reqs = [] \<longleftrightarrow>
     (\<forall>(name, required) \<in> set reqs. capability_mismatch worker (lower name) required = None)"
  by (auto simp: match_capability_mapping_def List.map_filter_def filter_empty_conv)

lemma match_network_empty:
  "match_network_policy worker p = [] \<longleftrightarrow>
     p = NET_DISABLED \<or> wc_network_policy_capability worker = NET_WORKER_RESTRICTED"
  by (simp add: match_network_policy_def)

lemma eligible_iff_no_reasons: "cm_eligible (match_worker_capabilities w m r p)
    \<longleftrightarrow> cm_reasons (match_worker_capabilities w m r p) = []"
  by (simp add: match_worker_capabilities_def Let_def)

lemma version_match_join:
  assumes "parts \<noteq> []" and "length parts \<le> 3"
  shows "version_match (join_with ''.'' (map show_nat parts)) = Some parts"
proof -
  have "CHR ''.'' \<notin> set p" if "list_all is_digit p" for p
    using that by (auto simp: list_all_iff is_digit_def)
  then have "split_on (CHR ''.'') (join_with ''.'' (map show_nat parts)) = map show_nat parts"
    using assms(1) show_nat_digits by (intro split_join) auto
  then show ?thesis
    using assms(2) show_nat_digits by (simp add: version_match_def Let_def list_all_iff comp_def)
qed

lemma digit_not_space: "is_digit c \<Longrightarrow> \<not> is_space c"
  by (auto simp: is_digit_def is_space_def)

lemma strip_id:
  assumes "s \<noteq> []" and "\<not> is_space (hd s)" and "\<not> is_space (last s)"
  shows "strip s = s"
proof -
  have "dropWhile is_space s = s" using assms by (cases s) auto
  moreover have "dropWhile is_space (rev s) = rev s" using assms by (cases s rule: rev_cases) auto
  ultimately show ?thesis by (simp add: strip_def)
qed

lemma join_versions_ends:
  assumes "parts \<noteq> []"
  shows "join_with ''.'' (map show_nat parts) \<noteq> []"
    and "is_digit (hd (join_with ''.'' (map show_nat parts)))"
    and "is_digit (last (join_with ''.'' (map show_nat parts)))"
proof -
  have d: "is_digit (hd (show_nat n))" "is_digit (last (show_nat n))" for n
    using show_nat_digits [of n] by (auto simp: list_all_iff)
  show ne: "join_with ''.'' (map show_nat parts) \<noteq> []"
    and "is_digit (hd (join_with ''.'' (map show_nat parts)))"
    and "is_digit (last (join_with ''.'' (map show_nat parts)))"
    using assms d by (induction parts rule: induct_list012) (auto simp: hd_append)
qed

lemma digit_not_v: "is_digit c \<Longrightarrow> lower [c] \<noteq> ''v''"
  by (auto simp: is_digit_def lower_def lower_char_def)

lemma version_parts_join:
  assumes "parts \<noteq> []" and "length parts \<le> 3"
  shows "version_parts b (join_with ''.'' (map show_nat parts)) = Some parts"
    and "strip (join_with ''.'' (map show_nat parts)) = join_with ''.'' (map show_nat parts)"
    and "\<not> starts_with_v (join_with ''.'' (map show_nat parts))"
proof -
  let ?s = "join_with ''.'' (map show_nat parts)"
  note ends = join_versions_ends [OF assms(1)]
  show strip: "strip ?s = ?s" using ends digit_not_space by (intro strip_id) auto
  show v: "\<not> starts_with_v ?s"
    using ends(1,2) digit_not_v by (cases ?s) (auto simp: starts_with_v_def)
  show "version_parts b ?s = Some parts"
    using version_match_join [OF assms] strip v by (simp add: version_parts_def Let_def)
qed

end
