(* ===== verification/Routing.thy ===== *)
theory Routing
  imports Capabilities Task_Domain
begin

text \<open>
  Deterministic worker selection, \<^verbatim>\<open>server/execution/routing.py\<close>: the eligibility of one
  worker for one request, the order in which eligible workers are ranked, and the reason shown
  when nobody qualifies. The rows of workers and routing profiles are those of
  \<^verbatim>\<open>server/models.py\<close> without the audit columns \<open>created_at\<close> and \<open>updated_at\<close>; the
  capability declaration of a worker is grouped in \<open>w_caps\<close>. Stored timestamps are naive UTC.

  The ranking function is an interpretation of \<open>comparison\<close> on candidates with a profile and a
  positive concurrency limit.
\<close>

definition ROUTING_SCHEMA_VERSION :: int where
  "ROUTING_SCHEMA_VERSION = 1"

definition MAX_ROUTING_INTEGER :: int where
  "MAX_ROUTING_INTEGER = 2147483647"

definition DEFAULT_REPOSITORY :: string where
  "DEFAULT_REPOSITORY = ''Nobodyworld/dev-agent-switchboard''"

record worker_row =
  w_worker_id :: string
  w_display_name :: string
  w_caps :: worker_capabilities
  w_repository_full_names :: "string list"
  w_max_concurrency :: int
  w_active_run_count :: int
  w_status :: worker_status
  w_last_heartbeat_at :: time
  w_last_checkout_poll_at :: "time option"

record profile_row =
  q_worker_id :: string
  q_schema_version :: int
  q_enabled :: bool
  q_cost :: int
  q_capacity :: int
  q_remaining :: int
  q_reset_at :: "time option"
  q_priority :: int
  q_revision :: int

record routing_candidate =
  rc_worker :: worker_row
  rc_profile :: "profile_row option"

definition quota_headroom :: "routing_candidate \<Rightarrow> int" where
  "quota_headroom c = (case rc_profile c of None \<Rightarrow> 0 | Some p \<Rightarrow> q_remaining p)"

record routing_request =
  rq_repository_full_name :: string
  rq_routing_policy :: routing_policy
  rq_preferred_executor :: "string option"
  rq_maximum_cost_units :: "int option"
  rq_required_quota_units :: int
  rq_manifest_requirements :: json_object
  rq_requested_requirements :: json_object
  rq_network_policy :: network_policy

record routing_eligibility =
  re_worker :: worker_row
  re_profile :: "profile_row option"
  re_candidate :: "routing_candidate option"
  re_reasons :: "string list"

definition valid_profile :: "profile_row \<Rightarrow> bool" where
  "valid_profile p \<longleftrightarrow>
     q_schema_version p = ROUTING_SCHEMA_VERSION
     \<and> 0 \<le> q_cost p \<and> q_cost p \<le> MAX_ROUTING_INTEGER
     \<and> 0 \<le> q_capacity p \<and> q_capacity p \<le> MAX_ROUTING_INTEGER
     \<and> 0 \<le> q_remaining p \<and> q_remaining p \<le> q_capacity p
     \<and> 0 \<le> q_priority p \<and> q_priority p \<le> MAX_ROUTING_INTEGER
     \<and> 1 \<le> q_revision p \<and> q_revision p \<le> MAX_ROUTING_INTEGER"

definition fresh :: "time option \<Rightarrow> time \<Rightarrow> int \<Rightarrow> bool" where
  "fresh value now freshness_seconds =
     (case value of
        None \<Rightarrow> False
      | Some v \<Rightarrow> if freshness_seconds \<le> 0 then False else v \<ge> now - seconds freshness_seconds)"

definition advertised_repositories :: "worker_row \<Rightarrow> string list" where
  "advertised_repositories w =
     (if w_repository_full_names w = [] then [DEFAULT_REPOSITORY] else w_repository_full_names w)"

definition reason_if :: "bool \<Rightarrow> string \<Rightarrow> string list" where
  "reason_if b r = (if b then [r] else [])"

definition routing_reasons ::
  "worker_row \<Rightarrow> profile_row option \<Rightarrow> routing_request \<Rightarrow> time \<Rightarrow> int \<Rightarrow> int \<Rightarrow> string list" where
  "routing_reasons worker profile request now heartbeat_freshness poll_freshness =
     reason_if (rq_repository_full_name request \<notin> set (advertised_repositories worker))
       ''worker_repository_unavailable''
     @ reason_if (case rq_preferred_executor request of None \<Rightarrow> False | Some e \<Rightarrow> w_worker_id worker \<noteq> e)
         ''preferred_executor_mismatch''
     @ (if rq_routing_policy request = CHEAPEST_CAPABLE
        then (case profile of
                None \<Rightarrow> [''routing_profile_missing'']
              | Some p \<Rightarrow> if \<not> valid_profile p then [''routing_profile_invalid'']
                          else if \<not> q_enabled p then [''routing_profile_disabled''] else [])
        else [])
     @ reason_if (w_status worker \<noteq> W_ONLINE) ''worker_not_available''
     @ reason_if (w_active_run_count worker \<ge> w_max_concurrency worker) ''worker_concurrency_limit''
     @ reason_if (\<not> fresh (Some (w_last_heartbeat_at worker)) now heartbeat_freshness) ''worker_heartbeat_stale''
     @ reason_if (\<not> fresh (w_last_checkout_poll_at worker) now poll_freshness) ''worker_checkout_poll_stale''
     @ cm_reasons (match_worker_capabilities (w_caps worker) (rq_manifest_requirements request)
         (rq_requested_requirements request) (rq_network_policy request))
     @ (case profile of
          None \<Rightarrow> []
        | Some p \<Rightarrow>
            if rq_routing_policy request = CHEAPEST_CAPABLE \<and> valid_profile p
            then reason_if (case rq_maximum_cost_units request of None \<Rightarrow> False | Some m \<Rightarrow> q_cost p > m)
                   ''routing_cost_ceiling_exceeded''
                 @ reason_if (q_remaining p < rq_required_quota_units request) ''routing_quota_insufficient''
            else [])"

definition evaluate_routing_candidate ::
  "worker_row \<Rightarrow> profile_row option \<Rightarrow> routing_request \<Rightarrow> time \<Rightarrow> int \<Rightarrow> int \<Rightarrow> routing_eligibility" where
  "evaluate_routing_candidate worker profile request now heartbeat_freshness poll_freshness =
     (let unique = dedup (routing_reasons worker profile request now heartbeat_freshness poll_freshness)
      in if unique \<noteq> []
         then \<lparr>re_worker = worker, re_profile = profile, re_candidate = None, re_reasons = unique\<rparr>
         else \<lparr>re_worker = worker, re_profile = profile,
               re_candidate = Some \<lparr>rc_worker = worker, rc_profile = profile\<rparr>, re_reasons = []\<rparr>)"

section \<open>Ranking\<close>

definition order_int :: "int \<Rightarrow> int \<Rightarrow> int" where
  "order_int a b = (if a < b then - 1 else 1)"

definition compare_profiles ::
  "int \<Rightarrow> routing_candidate \<Rightarrow> profile_row \<Rightarrow> routing_candidate \<Rightarrow> profile_row \<Rightarrow> int" where
  "compare_profiles required first p second q =
     (if q_cost p \<noteq> q_cost q then order_int (q_cost p) (q_cost q)
      else
        let first_headroom = q_remaining p - required; second_headroom = q_remaining q - required
        in if first_headroom \<noteq> second_headroom then (if first_headroom > second_headroom then - 1 else 1)
        else
          let first_load = w_active_run_count (rc_worker first) * w_max_concurrency (rc_worker second);
              second_load = w_active_run_count (rc_worker second) * w_max_concurrency (rc_worker first)
          in if first_load \<noteq> second_load then order_int first_load second_load
          else if q_priority p \<noteq> q_priority q then order_int (q_priority p) (q_priority q)
          else if w_worker_id (rc_worker first) = w_worker_id (rc_worker second) then 0
          else if w_worker_id (rc_worker first) < w_worker_id (rc_worker second) then - 1 else 1)"

text \<open>\<open>None\<close> is the \<open>ValueError\<close> for a candidate without a profile.\<close>

definition compare :: "int \<Rightarrow> routing_candidate \<Rightarrow> routing_candidate \<Rightarrow> int option" where
  "compare required first second =
     (case (rc_profile first, rc_profile second) of
        (Some p, Some q) \<Rightarrow> Some (compare_profiles required first p second q)
      | _ \<Rightarrow> None)"

text \<open>
  \<open>sorted\<close> compares only when there are two candidates or more, and then every candidate takes
  part in a comparison: the \<open>ValueError\<close> is raised exactly when one of several lacks a profile.
\<close>

definition rank_routing_candidates :: "routing_candidate list \<Rightarrow> int \<Rightarrow> routing_candidate list option" where
  "rank_routing_candidates candidates required =
     (if length candidates \<ge> 2 \<and> (\<exists>c \<in> set candidates. rc_profile c = None) then None
      else Some (sort_cmp (\<lambda>a b. case compare required a b of Some n \<Rightarrow> n | None \<Rightarrow> 0) candidates))"

definition ROUTE_REASON_PRECEDENCE :: "string list" where
  "ROUTE_REASON_PRECEDENCE =
     [''worker_repository_unavailable'', ''routing_profile_missing'', ''routing_profile_invalid'',
      ''routing_profile_disabled'', ''worker_heartbeat_stale'', ''worker_checkout_poll_stale'',
      ''worker_not_available'', ''worker_concurrency_limit'', ''routing_cost_ceiling_exceeded'',
      ''routing_quota_insufficient'']"

definition unavailable_route_reason :: "string list \<Rightarrow> bool \<Rightarrow> string" where
  "unavailable_route_reason mismatch_reasons explicit_pin =
     (if explicit_pin then ''preferred_executor_unavailable''
      else case find (\<lambda>r. r \<in> set mismatch_reasons) ROUTE_REASON_PRECEDENCE of
             Some r \<Rightarrow> r | None \<Rightarrow> ''no_capable_workers'')"

section \<open>Lemmas\<close>

text \<open>What a candidate must satisfy, written out: the reasons are empty exactly then.\<close>

definition routable ::
  "worker_row \<Rightarrow> profile_row option \<Rightarrow> routing_request \<Rightarrow> time \<Rightarrow> int \<Rightarrow> int \<Rightarrow> bool" where
  "routable w profile rq now hf pf \<longleftrightarrow>
     rq_repository_full_name rq \<in> set (advertised_repositories w)
     \<and> (rq_preferred_executor rq = None \<or> rq_preferred_executor rq = Some (w_worker_id w))
     \<and> w_status w = W_ONLINE \<and> w_active_run_count w < w_max_concurrency w
     \<and> fresh (Some (w_last_heartbeat_at w)) now hf \<and> fresh (w_last_checkout_poll_at w) now pf
     \<and> cm_eligible (match_worker_capabilities (w_caps w) (rq_manifest_requirements rq)
          (rq_requested_requirements rq) (rq_network_policy rq))
     \<and> (rq_routing_policy rq = CHEAPEST_CAPABLE \<longrightarrow>
          (\<exists>p. profile = Some p \<and> valid_profile p \<and> q_enabled p
             \<and> (\<forall>m. rq_maximum_cost_units rq = Some m \<longrightarrow> q_cost p \<le> m)
             \<and> rq_required_quota_units rq \<le> q_remaining p))"

lemma reason_if_Nil [simp]: "reason_if b r = [] \<longleftrightarrow> \<not> b"
  by (simp add: reason_if_def)

lemma routing_reasons_empty:
  "routing_reasons w profile rq now hf pf = [] \<longleftrightarrow> routable w profile rq now hf pf"
  by (auto simp: routing_reasons_def routable_def eligible_iff_no_reasons not_le not_less
      split: option.splits if_splits)

lemma evaluate_candidate_iff:
  "re_candidate (evaluate_routing_candidate w profile rq now hf pf) =
     (if routable w profile rq now hf pf then Some \<lparr>rc_worker = w, rc_profile = profile\<rparr> else None)"
  by (simp add: evaluate_routing_candidate_def routing_reasons_empty Let_def)

lemma evaluate_simps [simp]:
  "re_worker (evaluate_routing_candidate w profile rq now hf pf) = w"
  "re_profile (evaluate_routing_candidate w profile rq now hf pf) = profile"
  by (simp_all add: evaluate_routing_candidate_def Let_def)

definition rankable :: "routing_candidate \<Rightarrow> bool" where
  "rankable c \<longleftrightarrow> rc_profile c \<noteq> None \<and> 1 \<le> w_max_concurrency (rc_worker c)"

definition rank_cmp :: "int \<Rightarrow> routing_candidate \<Rightarrow> routing_candidate \<Rightarrow> int" where
  "rank_cmp required a b = (case compare required a b of Some n \<Rightarrow> n | None \<Rightarrow> 0)"

text \<open>
  The comparison is the lexicographic order of cost, negated remaining quota, load ratio,
  priority and worker id; the load ratio is compared by cross-multiplication.
\<close>

lemma rank_cmp_le_iff:
  assumes "rc_profile a = Some p" and "rc_profile b = Some q"
  shows "rank_cmp required a b \<le> 0 \<longleftrightarrow>
    q_cost p < q_cost q \<or> q_cost p = q_cost q \<and>
     (q_remaining p > q_remaining q \<or> q_remaining p = q_remaining q \<and>
      (let la = w_active_run_count (rc_worker a) * w_max_concurrency (rc_worker b);
           lb = w_active_run_count (rc_worker b) * w_max_concurrency (rc_worker a)
       in la < lb \<or> la = lb \<and>
       (q_priority p < q_priority q \<or> q_priority p = q_priority q \<and>
        w_worker_id (rc_worker a) \<le> w_worker_id (rc_worker b))))"
  using assms by (auto simp: rank_cmp_def compare_def compare_profiles_def order_int_def Let_def)

lemma cross_trans:
  fixes a b c x y z :: int
  assumes "0 < x" "0 < y" "0 < z"
  shows "a * y < b * x \<Longrightarrow> b * z \<le> c * y \<Longrightarrow> a * z < c * x"
    and "a * y \<le> b * x \<Longrightarrow> b * z < c * y \<Longrightarrow> a * z < c * x"
    and "a * y = b * x \<Longrightarrow> b * z = c * y \<Longrightarrow> a * z = c * x"
proof -
  have swap: "a * z * y = a * y * z" "b * x * z = b * z * x" "c * y * x = c * x * y" by (simp_all add: algebra_simps)
  show "a * z < c * x" if "a * y < b * x" "b * z \<le> c * y"
  proof -
    have "a * y * z < b * x * z" using that(1) assms(3) by simp
    moreover have "b * z * x \<le> c * y * x" using that(2) assms(1) by simp
    ultimately have "a * z * y < c * x * y" using swap by linarith
    then show ?thesis using assms(2) by simp
  qed
  show "a * z < c * x" if "a * y \<le> b * x" "b * z < c * y"
  proof -
    have "a * y * z \<le> b * x * z" using that(1) assms(3) by simp
    moreover have "b * z * x < c * y * x" using that(2) assms(1) by simp
    ultimately have "a * z * y < c * x * y" using swap by linarith
    then show ?thesis using assms(2) by simp
  qed
  show "a * z = c * x" if "a * y = b * x" "b * z = c * y"
  proof -
    have "a * z * y = c * x * y" using that swap by (metis mult.commute mult.left_commute)
    then show ?thesis using assms(2) by simp
  qed
qed

lemma rank_cmp_trans:
  assumes "rankable a" "rankable b" "rankable c" "rank_cmp r a b \<le> 0" "rank_cmp r b c \<le> 0"
  shows "rank_cmp r a c \<le> 0"
proof -
  obtain p q s where ps: "rc_profile a = Some p" "rc_profile b = Some q" "rc_profile c = Some s"
    using assms(1-3) by (auto simp: rankable_def)
  have pos: "0 < w_max_concurrency (rc_worker a)" "0 < w_max_concurrency (rc_worker b)"
    "0 < w_max_concurrency (rc_worker c)" using assms(1-3) by (auto simp: rankable_def)
  note cross = cross_trans [OF pos, of "w_active_run_count (rc_worker a)"
      "w_active_run_count (rc_worker b)" "w_active_run_count (rc_worker c)"]
  show ?thesis
    using assms(4,5) cross
    unfolding rank_cmp_le_iff [OF ps(1,2)] rank_cmp_le_iff [OF ps(2,3)] rank_cmp_le_iff [OF ps(1,3)] Let_def
    by (elim disjE conjE) (auto intro: order.trans)
qed

interpretation ranking: comparison "rank_cmp required" "\<lambda>c. w_worker_id (rc_worker c)" rankable
proof unfold_locales
  fix x y z
  assume x: "rankable x"
  then obtain p where p: "rc_profile x = Some p" by (auto simp: rankable_def)
  show "rank_cmp required x x = 0"
    using p by (simp add: rank_cmp_def compare_def compare_profiles_def)
  assume y: "rankable y"
  then obtain q where q: "rc_profile y = Some q" by (auto simp: rankable_def)
  show "rank_cmp required x y < 0 \<longleftrightarrow> 0 < rank_cmp required y x"
    using p q by (auto simp: rank_cmp_def compare_def compare_profiles_def order_int_def Let_def)
  show "w_worker_id (rc_worker x) = w_worker_id (rc_worker y)" if "rank_cmp required x y = 0"
    using that p q by (auto simp: rank_cmp_def compare_def compare_profiles_def order_int_def Let_def
      split: if_splits)
  assume "rankable z" "rank_cmp required x y \<le> 0" "rank_cmp required y z \<le> 0"
  with x y show "rank_cmp required x z \<le> 0" by (rule rank_cmp_trans)
qed

lemma rank_routing_candidates_eq:
  "\<forall>c \<in> set cs. rc_profile c \<noteq> None \<Longrightarrow>
    rank_routing_candidates cs required = Some (sort_cmp (rank_cmp required) cs)"
  by (auto simp: rank_routing_candidates_def rank_cmp_def [abs_def])

end
