(* ===== verification/Evidence.thy ===== *)
theory Evidence
  imports Execution_Types Task_Domain
begin

text \<open>
  The compact evidence contracts of \<^verbatim>\<open>server/execution/evidence.py\<close>: the documents a
  worker submits and the validators the repository's own code attaches to them. Each validator is
  a function into \<open>string + 'a\<close>, \<open>Inl\<close> the message of the \<open>ValueError\<close>. The bounds and patterns
  declared on single fields are enforced by the Pydantic library and are not repeated here; a
  timestamp that passed \<open>_aware_utc\<close> is an integer (UTC microseconds), a float its text.

  Hashes are computed by functions passed as arguments: the canonical JSON text and SHA-256 are
  not part of this theory.
\<close>

section \<open>Paths\<close>

definition MAX_EVIDENCE_PATH_LENGTH :: nat where
  "MAX_EVIDENCE_PATH_LENGTH = 512"

definition WINDOWS_DEVICES :: "string list" where
  "WINDOWS_DEVICES =
     [''aux'', ''clock$'', ''con'', ''nul'', ''prn'']
     @ map (\<lambda>n. ''com'' @ show_nat n) [1..<10] @ map (\<lambda>n. ''lpt'' @ show_nat n) [1..<10]"

text \<open>\<open>PurePosixPath(value).parts\<close> and \<open>as_posix()\<close> of a relative path.\<close>

definition posix_parts :: "string \<Rightarrow> string list" where
  "posix_parts value = filter (\<lambda>p. p \<noteq> [] \<and> p \<noteq> ''.'') (split_on (CHR ''/'') value)"

definition as_posix :: "string \<Rightarrow> string" where
  "as_posix value = (if posix_parts value = [] then ''.'' else join_with ''/'' (posix_parts value))"

definition rstrip_dots :: "string \<Rightarrow> string" where
  "rstrip_dots s = rev (dropWhile (\<lambda>c. c = CHR ''.'' \<or> c = CHR '' '') (rev s))"

definition validate_relative_path :: "string \<Rightarrow> string + string" where
  "validate_relative_path value =
     (if value = [] \<or> length value > MAX_EVIDENCE_PATH_LENGTH \<or> CHR 0x00 \<in> set value
         \<or> CHR 0x5C \<in> set value
      then Inl ''evidence path must be a bounded relative POSIX path''
      else if CHR '':'' \<in> set value \<or> take 1 value = ''/''
      then Inl ''evidence path must not be absolute or device-shaped''
      else if as_posix value \<noteq> value then Inl ''evidence path must be normalized''
      else if \<exists>p \<in> set (posix_parts value). p \<in> {[], ''.'', ''..''} then Inl ''evidence path must not traverse''
      else if \<exists>p \<in> set (posix_parts value). lower (rstrip_dots p) \<in> set WINDOWS_DEVICES
      then Inl ''evidence path must not name a device''
      else Inr value)"

definition aware_utc :: "py_datetime \<Rightarrow> string + time" where
  "aware_utc value =
     (if \<not> is_aware value then Inl ''evidence timestamps must be timezone-aware'' else Inr (utc_naive value))"

section \<open>Documents\<close>

record tool_identity =
  ti_name :: string
  ti_version :: string

record environment_identity =
  ei_operating_system :: string
  ei_architecture :: string
  ei_python_version :: string
  ei_tools :: "tool_identity list"
  ei_fingerprint :: string

record parsed_test_counts =
  pt_passed :: int
  pt_failed :: int
  pt_skipped :: int
  pt_errors :: int
  pt_xfailed :: int
  pt_xpassed :: int
  pt_total :: int

definition validate_total :: "parsed_test_counts \<Rightarrow> bool" where
  "validate_total c \<longleftrightarrow>
     pt_total c = pt_passed c + pt_failed c + pt_skipped c + pt_errors c + pt_xfailed c + pt_xpassed c"

record parsed_coverage =
  pc_measured_percent :: string
  pc_covered_lines :: "int option"
  pc_total_lines :: "int option"

definition validate_line_pair :: "parsed_coverage \<Rightarrow> bool" where
  "validate_line_pair c =
     (case (pc_covered_lines c, pc_total_lines c) of
        (None, None) \<Rightarrow> True
      | (Some a, Some b) \<Rightarrow> a \<le> b
      | _ \<Rightarrow> False)"

record audit_summary =
  au_kind :: string
  au_status :: string
  au_tool :: string
  au_findings :: int

record parsed_result =
  pr_parser :: string
  pr_status :: string
  pr_tests :: "parsed_test_counts option"
  pr_coverage :: "parsed_coverage option"
  pr_audit :: "audit_summary option"
  pr_failure_reason :: "string option"

definition AUDIT_PARSERS :: "string list" where
  "AUDIT_PARSERS =
     [''security-audit'', ''dependency-audit'', ''dependency-health'', ''critical-coverage'', ''secret-scan'']"

definition validate_shape :: "parsed_result \<Rightarrow> string + unit" where
  "validate_shape r =
     (let tests = pr_tests r \<noteq> None; coverage = pr_coverage r \<noteq> None; audit = pr_audit r \<noteq> None
      in if pr_status r = ''parser_failed''
         then (if tests \<or> coverage \<or> audit \<or> text_or_none (pr_failure_reason r) = None
               then Inl ''parser failure must not fabricate parsed results'' else Inr ())
         else if pr_failure_reason r \<noteq> None \<or> \<not> (tests \<or> coverage \<or> audit)
         then Inl ''parsed result must contain declared structured data''
         else if pr_parser r = ''pytest'' \<and> (\<not> tests \<or> coverage \<or> audit)
         then Inl ''pytest parser result shape is invalid''
         else if pr_parser r = ''coverage'' \<and> (\<not> coverage \<or> tests \<or> audit)
         then Inl ''coverage parser result shape is invalid''
         else if pr_parser r = ''pytest-coverage'' \<and> (\<not> tests \<or> \<not> coverage \<or> audit)
         then Inl ''pytest-coverage parser result shape is invalid''
         else if pr_parser r \<in> set AUDIT_PARSERS \<and> (\<not> audit \<or> tests \<or> coverage)
         then Inl ''audit parser result shape is invalid''
         else if pr_parser r = ''quality-summary-v1'' \<and>
           (tests \<or> \<not> coverage \<or>
            (case pr_audit r of None \<Rightarrow> True | Some a \<Rightarrow> au_kind a \<noteq> ''quality'' \<or> au_tool a \<noteq> ''quality-gate''))
         then Inl ''quality summary parser result shape is invalid''
         else Inr ())"

record artifact_record =
  ar_kind :: string
  ar_relative_path :: string
  ar_size_bytes :: int
  ar_sha256 :: string
  ar_media_type :: string
  ar_retention_expires_at :: time
  ar_redaction_state :: string
  ar_produced_by_step :: "string option"

record dependency_lock_hash =
  dl_relative_path :: string
  dl_sha256 :: string

record reuse_identity =
  ri_repository_full_name :: string
  ri_tested_sha :: string
  ri_manifest_name :: string
  ri_manifest_version :: string
  ri_manifest_digest :: string
  ri_worker_environment_fingerprint :: string
  ri_dependency_lock_hashes :: "dependency_lock_hash list"
  ri_execution_policy_hash :: string
  ri_result_contract_hash :: string

text \<open>\<open>validate_repository_full_name\<close> of \<^verbatim>\<open>server/execution/catalog.py\<close>.\<close>

definition repository_char :: "char \<Rightarrow> bool" where
  "repository_char c =
     (let n = (of_char c :: nat)
      in (65 \<le> n \<and> n \<le> 90) \<or> (97 \<le> n \<and> n \<le> 122) \<or> is_digit c \<or> c \<in> {CHR ''_'', CHR ''.'', CHR ''-''})"

definition repository_segment :: "string \<Rightarrow> bool" where
  "repository_segment s = (1 \<le> length s \<and> length s \<le> 100 \<and> list_all repository_char s)"

definition validate_repository_full_name :: "string \<Rightarrow> string + string" where
  "validate_repository_full_name value =
     (case split_on (CHR ''/'') value of
        [owner, repository] \<Rightarrow>
          if \<not> (repository_segment owner \<and> repository_segment repository)
          then Inl ''repository full_name is invalid''
          else if owner \<in> {''.'', ''..''} \<or> repository \<in> {''.'', ''..''}
          then Inl ''repository full_name contains a dot segment''
          else Inr value
      | _ \<Rightarrow> Inl ''repository full_name is invalid'')"

definition validate_canonical_identity :: "reuse_identity \<Rightarrow> string + unit" where
  "validate_canonical_identity i =
     (let paths = map dl_relative_path (ri_dependency_lock_hashes i)
      in if paths \<noteq> sort paths \<or> length paths \<noteq> length (remdups paths)
         then Inl ''dependency-lock identities must be unique and canonically sorted''
         else rbind (validate_repository_full_name (ri_repository_full_name i)) (\<lambda>_. Inr ()))"

record reuse_provenance =
  rp_decision :: string
  rp_reason :: string
  rp_reuse_identity_hash :: string
  rp_source_run_id :: "int option"
  rp_source_evidence_fingerprint :: "string option"

definition validate_source_pair :: "reuse_provenance \<Rightarrow> string + unit" where
  "validate_source_pair p =
     (let has_source = (rp_source_run_id p \<noteq> None)
      in if has_source \<noteq> (rp_source_evidence_fingerprint p \<noteq> None)
         then Inl ''reuse source identity must be complete''
         else if (rp_decision p = ''reused'') \<noteq> has_source
         then Inl ''only reused evidence may contain source provenance''
         else Inr ())"

record reuse_candidate =
  cand_source_run_id :: int
  cand_expected_source_worker_id :: string
  cand_expected_source_evidence_fingerprint :: string
  cand_reuse_identity :: reuse_identity
  cand_reuse_identity_hash :: string
  cand_source_created_at :: time
  cand_retention_expires_at :: time
  cand_artifacts :: "artifact_record list"

definition validate_candidate :: "(reuse_identity \<Rightarrow> string) \<Rightarrow> reuse_candidate \<Rightarrow> string + unit" where
  "validate_candidate identity_hash c =
     (if cand_retention_expires_at c \<le> cand_source_created_at c
      then Inl ''reuse candidate retention must follow creation''
      else if cand_reuse_identity_hash c \<noteq> identity_hash (cand_reuse_identity c)
      then Inl ''reuse candidate identity hash mismatch''
      else if length (remdups (map ar_relative_path (cand_artifacts c))) \<noteq> length (cand_artifacts c)
      then Inl ''reuse candidate artifact paths must be unique''
      else if \<exists>a \<in> set (cand_artifacts c). ar_retention_expires_at a \<noteq> cand_retention_expires_at c
      then Inl ''reuse candidate artifact retention is inconsistent''
      else Inr ())"

record step_evidence =
  se_step_id :: string
  se_title :: string
  se_status :: string
  se_started_at :: time
  se_finished_at :: time
  se_duration_seconds :: string
  se_exit_code :: "int option"
  se_terminal_reason :: "string option"
  se_summary :: string
  se_summary_truncated :: bool
  se_log_artifact_paths :: "string list"
  se_parsed_result :: "parsed_result option"

definition validate_timing :: "step_evidence \<Rightarrow> bool" where
  "validate_timing s \<longleftrightarrow> se_started_at s \<le> se_finished_at s"

text \<open>The document is grouped: what it identifies, and what it reports.\<close>

record evidence_subject =
  ev_work_order_id :: int
  ev_run_id :: int
  ev_repository_full_name :: string
  ev_tested_sha :: string
  ev_manifest_name :: string
  ev_manifest_version :: string
  ev_manifest_digest :: string
  ev_worker_id :: string
  ev_environment :: environment_identity
  ev_dependency_lock_hashes :: "dependency_lock_hash list"

record execution_evidence_draft =
  ev_subject :: evidence_subject
  ev_started_at :: time
  ev_finished_at :: time
  ev_duration_seconds :: string
  ev_terminal_status :: string
  ev_terminal_reason :: "string option"
  ev_failing_step :: "string option"
  ev_steps :: "step_evidence list"
  ev_artifacts :: "artifact_record list"
  ev_dependency_lock_status :: string
  ev_artifact_finalization_status :: string
  ev_source_cleanup_status :: string
  ev_local_record_status :: string
  ev_reuse_provenance :: "reuse_provenance option"

record execution_evidence =
  ev_draft :: execution_evidence_draft
  ev_fingerprint :: string

definition validate_document :: "execution_evidence_draft \<Rightarrow> string + unit" where
  "validate_document d =
     (let paths = map ar_relative_path (ev_artifacts d)
      in if ev_finished_at d < ev_started_at d then Inl ''execution finish must not precede start''
         else if length (remdups (map se_step_id (ev_steps d))) \<noteq> length (ev_steps d)
         then Inl ''step evidence identities must be unique''
         else if length (remdups paths) \<noteq> length (ev_artifacts d) then Inl ''artifact paths must be unique''
         else if \<exists>s \<in> set (ev_steps d). \<exists>p \<in> set (se_log_artifact_paths s). p \<notin> set paths
         then Inl ''step log references must resolve to artifact records''
         else if (case ev_failing_step d of None \<Rightarrow> False | Some f \<Rightarrow> f \<notin> set (map se_step_id (ev_steps d)))
         then Inl ''failing step must name recorded step evidence''
         else Inr ())"

definition validate_fingerprint :: "(execution_evidence_draft \<Rightarrow> string) \<Rightarrow> execution_evidence \<Rightarrow> bool" where
  "validate_fingerprint fingerprint e \<longleftrightarrow> ev_fingerprint e = fingerprint (ev_draft e)"

definition finalize_evidence ::
  "(execution_evidence_draft \<Rightarrow> string) \<Rightarrow> execution_evidence_draft \<Rightarrow> string + execution_evidence" where
  "finalize_evidence fingerprint d =
     rbind (validate_document d) (\<lambda>_.
       let e = \<lparr>ev_draft = d, ev_fingerprint = fingerprint d\<rparr>
       in if validate_fingerprint fingerprint e then Inr e
          else Inl ''evidence fingerprint does not match canonical inputs'')"

section \<open>Paths that pass\<close>

lemma set_posix_parts: "set (posix_parts v) = {p \<in> set (split_on (CHR ''/'') v). p \<noteq> [] \<and> p \<noteq> ''.''}"
  by (auto simp: posix_parts_def)

lemma normalized_parts:
  assumes "as_posix v = v" and "v \<noteq> ''.''"
  shows "split_on (CHR ''/'') v = posix_parts v"
proof -
  have ne: "posix_parts v \<noteq> []" using assms by (auto simp: as_posix_def split: if_splits)
  have "CHR ''/'' \<notin> set p" if "p \<in> set (split_on (CHR ''/'') s)" for p s
    using that by (induction s arbitrary: p) (auto split: if_splits list.splits)
  then have "split_on (CHR ''/'') (join_with ''/'' (posix_parts v)) = posix_parts v"
    using ne by (intro split_join) (auto simp: set_posix_parts)
  moreover have "join_with ''/'' (posix_parts v) = v" using assms ne by (simp add: as_posix_def)
  ultimately show ?thesis by simp
qed

lemma relative_path_accepted:
  assumes "validate_relative_path v = Inr w"
  shows "w = v" and "v \<noteq> []" and "length v \<le> MAX_EVIDENCE_PATH_LENGTH"
    and "CHR 0x00 \<notin> set v" and "CHR 0x5C \<notin> set v" and "CHR '':'' \<notin> set v" and "as_posix v = v"
    and "v = ''.'' \<or> list_all (\<lambda>p. p \<notin> {[], ''.'', ''..''} \<and> lower (rstrip_dots p) \<notin> set WINDOWS_DEVICES)
           (split_on (CHR ''/'') v)"
proof -
  show "w = v" "v \<noteq> []" "length v \<le> MAX_EVIDENCE_PATH_LENGTH" "CHR 0x00 \<notin> set v" "CHR 0x5C \<notin> set v"
    "CHR '':'' \<notin> set v" and n: "as_posix v = v"
    using assms by (auto simp: validate_relative_path_def split: if_splits)
  have parts: "\<forall>p \<in> set (posix_parts v). p \<notin> {[], ''.'', ''..''} \<and> lower (rstrip_dots p) \<notin> set WINDOWS_DEVICES"
    using assms by (simp add: validate_relative_path_def split: if_splits)
  show "v = ''.'' \<or> list_all (\<lambda>p. p \<notin> {[], ''.'', ''..''} \<and> lower (rstrip_dots p) \<notin> set WINDOWS_DEVICES)
      (split_on (CHR ''/'') v)"
  proof (rule disjCI)
    assume "\<not> list_all (\<lambda>p. p \<notin> {[], ''.'', ''..''} \<and> lower (rstrip_dots p) \<notin> set WINDOWS_DEVICES)
      (split_on (CHR ''/'') v)"
    with parts normalized_parts [OF n] show "v = ''.''" unfolding list_all_iff by metis
  qed
qed

end
