(* ===== verification/Execution_Store.thy ===== *)
theory Execution_Store
  imports Routing Evidence
begin

text \<open>
  Persistence of the execution plane: the tables of \<^verbatim>\<open>server/models.py\<close> that belong to it
  and the methods of \<open>ExecutionRepository\<close> in \<^verbatim>\<open>server/execution/repository.py\<close>.

  Every guarded \<open>UPDATE\<close> or \<open>DELETE\<close> of the repository is a function that returns the new tables
  together with \<open>_affected_one\<close>, whether exactly one row matched. Columns are grouped: what an
  order requests (\<open>o_request\<close>, never written after the insert), how it was routed (\<open>o_route\<close>,
  \<open>r_route\<close>), what a run reports (\<open>r_report\<close>) and its reuse provenance (\<open>r_reuse\<close>). A JSON column
  that holds the dump of a typed document is that document. The audit columns \<open>created_at\<close> and
  \<open>updated_at\<close> are left out, and so are foreign keys, which the code never relies on for an error.
  Primary keys of inserted rows are arguments; a key that is taken, or a violated unique
  constraint, is the \<open>IntegrityError\<close> of the source.
\<close>

section \<open>Tables\<close>

record trusted_manifest =
  tm_name :: string
  tm_version :: string
  tm_schema_version :: int
  tm_digest :: string
  tm_description :: string
  tm_registry_source :: string
  tm_required_capabilities :: json_object
  tm_fixed_step_metadata :: json
  tm_environment_policy :: json_object
  tm_network_policy :: network_policy
  tm_repository_write_policy :: repository_write_policy
  tm_timeout_seconds :: int
  tm_artifact_declarations :: json
  tm_allowed_parameters :: "string list"
  tm_dependency_lock_paths :: "string list"

record manifest_row =
  m_id :: int
  m_name :: string
  m_version :: string
  m_schema_version :: int
  m_digest :: string
  m_description :: string
  m_trusted_registry_source :: string
  m_required_capabilities :: json_object
  m_fixed_step_metadata :: json
  m_environment_policy :: json_object
  m_network_policy :: network_policy
  m_repository_write_policy :: repository_write_policy
  m_timeout_seconds :: int
  m_artifact_declarations :: json

record order_request =
  oq_schema_version :: int
  oq_repository_full_name :: string
  oq_commit_sha :: string
  oq_manifest_id :: int
  oq_manifest_name :: string
  oq_manifest_version :: string
  oq_manifest_digest :: string
  oq_manifest_parameters :: json_object
  oq_required_capabilities :: json_object
  oq_permitted_paths :: "string list"
  oq_forbidden_scope_notes :: string
  oq_expected_artifact_kinds :: "string list"
  oq_approval_policy :: approval_policy
  oq_timeout_seconds :: int
  oq_resource_metadata :: json_object
  oq_network_policy :: network_policy
  oq_repository_write_allowed :: bool
  oq_preferred_executor :: "string option"
  oq_cost_ceiling :: "string option"
  oq_routing_policy :: routing_policy
  oq_maximum_cost_units :: "int option"
  oq_required_quota_units :: int
  oq_reuse_policy :: reuse_policy
  oq_execution_policy_hash :: string

record order_route =
  or_schema_version :: "int option"
  or_selected_worker_id :: "string option"
  or_profile_revision :: "int option"
  or_estimated_cost_units :: "int option"
  or_reserved_quota_units :: int
  or_quota_state :: "quota_state option"
  or_eligible_candidate_count :: "int option"
  or_explicit_pin_applied :: bool
  or_reason :: "string option"
  or_decided_at :: "time option"

record order_row =
  o_id :: int
  o_request :: order_request
  o_status :: work_order_status
  o_attempt_count :: int
  o_approved_at :: "time option"
  o_queued_at :: "time option"
  o_assigned_at :: "time option"
  o_started_at :: "time option"
  o_finished_at :: "time option"
  o_terminal_reason :: "string option"
  o_route :: order_route

record run_route =
  rr_schema_version :: int
  rr_routing_policy :: routing_policy
  rr_profile_revision :: "int option"
  rr_estimated_cost_units :: "int option"
  rr_required_quota_units :: int
  rr_reserved_quota_units :: int
  rr_quota_state :: quota_state
  rr_eligible_candidate_count :: int
  rr_explicit_pin_applied :: bool
  rr_reason :: string
  rr_decided_at :: time

record run_report =
  rp_result_summary :: "string option"
  rp_terminal_reason :: "string option"
  rp_cleanup_status :: "string option"
  rp_artifact_metadata :: "artifact_record list"
  rp_evidence_metadata :: "execution_evidence option"

record run_reuse =
  ru_identity :: "reuse_identity option"
  ru_identity_hash :: "string option"
  ru_reused_from_run_id :: "int option"
  ru_source_evidence_fingerprint :: "string option"
  ru_decision :: reuse_decision
  ru_reason :: "string option"
  ru_candidate :: "reuse_candidate option"
  ru_retention_expires_at :: "py_datetime option"

record run_row =
  r_id :: int
  r_work_order_id :: int
  r_worker_id :: string
  r_attempt_number :: int
  r_status :: run_status
  r_queued_at :: time
  r_assigned_at :: time
  r_started_at :: "time option"
  r_finished_at :: "time option"
  r_lease_expires_at :: time
  r_last_heartbeat_at :: time
  r_report :: run_report
  r_reuse :: run_reuse
  r_route :: run_route

record exec_lease_row =
  x_id :: int
  x_work_order_id :: int
  x_run_id :: int
  x_worker_id :: string
  x_expires_at :: time
  x_last_heartbeat_at :: time

record exec_db =
  manifests :: "manifest_row list"
  orders :: "order_row list"
  workers :: "worker_row list"
  profiles :: "profile_row list"
  runs :: "run_row list"
  xleases :: "exec_lease_row list"

datatype exec_error =
    ExecutionNotFoundError string
  | LifecycleConflictError string
  | ApprovalDeniedError string
  | UnknownManifestError string
  | ManifestIntegrityError string
  | CatalogReadinessLimitError string
  | ManifestParameterError string
  | RepositoryWritePolicyError string
  | OwnershipConflictError string
  | MalformedEvidenceError string
  | IntegrityError
  | ValueError string

record lease_snapshot =
  ls_id :: int
  ls_work_order_id :: int
  ls_run_id :: int
  ls_worker_id :: string

text \<open>A guarded \<open>UPDATE\<close> and its \<open>_affected_one\<close>, on each table.\<close>

definition affected_one :: "('r \<Rightarrow> bool) \<Rightarrow> 'r list \<Rightarrow> bool" where
  "affected_one P rows = (rowcount P rows = 1)"

definition update_orders :: "exec_db \<Rightarrow> (order_row \<Rightarrow> bool) \<Rightarrow> (order_row \<Rightarrow> order_row) \<Rightarrow> exec_db \<times> bool" where
  "update_orders db P f = (db\<lparr>orders := update_where P f (orders db)\<rparr>, affected_one P (orders db))"

definition update_runs :: "exec_db \<Rightarrow> (run_row \<Rightarrow> bool) \<Rightarrow> (run_row \<Rightarrow> run_row) \<Rightarrow> exec_db \<times> bool" where
  "update_runs db P f = (db\<lparr>runs := update_where P f (runs db)\<rparr>, affected_one P (runs db))"

definition update_workers :: "exec_db \<Rightarrow> (worker_row \<Rightarrow> bool) \<Rightarrow> (worker_row \<Rightarrow> worker_row) \<Rightarrow> exec_db \<times> bool" where
  "update_workers db P f = (db\<lparr>workers := update_where P f (workers db)\<rparr>, affected_one P (workers db))"

definition update_profiles :: "exec_db \<Rightarrow> (profile_row \<Rightarrow> bool) \<Rightarrow> (profile_row \<Rightarrow> profile_row) \<Rightarrow> exec_db \<times> bool" where
  "update_profiles db P f = (db\<lparr>profiles := update_where P f (profiles db)\<rparr>, affected_one P (profiles db))"

section \<open>Manifests\<close>

definition matches_trusted_manifest :: "manifest_row \<Rightarrow> trusted_manifest \<Rightarrow> bool" where
  "matches_trusted_manifest m d \<longleftrightarrow>
     m_schema_version m = tm_schema_version d \<and> m_digest m = tm_digest d
     \<and> m_description m = tm_description d \<and> m_trusted_registry_source m = tm_registry_source d
     \<and> obj_eq (m_required_capabilities m) (tm_required_capabilities d)
     \<and> py_eq (m_fixed_step_metadata m) (tm_fixed_step_metadata d)
     \<and> obj_eq (m_environment_policy m) (tm_environment_policy d)
     \<and> m_network_policy m = tm_network_policy d
     \<and> m_repository_write_policy m = tm_repository_write_policy d
     \<and> m_timeout_seconds m = tm_timeout_seconds d
     \<and> py_eq (m_artifact_declarations m) (tm_artifact_declarations d)"

definition get_manifest_row :: "exec_db \<Rightarrow> string \<Rightarrow> string \<Rightarrow> manifest_row option" where
  "get_manifest_row db name version = find (\<lambda>m. (m_name m, m_version m) = (name, version)) (manifests db)"

definition manifest_of :: "int \<Rightarrow> trusted_manifest \<Rightarrow> manifest_row" where
  "manifest_of new_id d =
     \<lparr>m_id = new_id, m_name = tm_name d, m_version = tm_version d, m_schema_version = tm_schema_version d,
      m_digest = tm_digest d, m_description = tm_description d,
      m_trusted_registry_source = tm_registry_source d,
      m_required_capabilities = tm_required_capabilities d,
      m_fixed_step_metadata = tm_fixed_step_metadata d, m_environment_policy = tm_environment_policy d,
      m_network_policy = tm_network_policy d, m_repository_write_policy = tm_repository_write_policy d,
      m_timeout_seconds = tm_timeout_seconds d, m_artifact_declarations = tm_artifact_declarations d\<rparr>"

definition ensure_manifest :: "exec_db \<Rightarrow> int \<Rightarrow> trusted_manifest \<Rightarrow> exec_error + exec_db \<times> manifest_row" where
  "ensure_manifest db new_id d =
     (case get_manifest_row db (tm_name d) (tm_version d) of
        Some m \<Rightarrow> if matches_trusted_manifest m d then Inr (db, m)
                  else Inl (ManifestIntegrityError ''trusted_manifest_digest_conflict'')
      | None \<Rightarrow>
          if new_id \<in> m_id ` set (manifests db) \<or> tm_digest d \<in> m_digest ` set (manifests db)
          then Inl (ManifestIntegrityError ''trusted_manifest_digest_conflict'')
          else Inr (db\<lparr>manifests := manifests db @ [manifest_of new_id d]\<rparr>, manifest_of new_id d))"

fun ensure_manifests ::
  "exec_db \<Rightarrow> (trusted_manifest \<Rightarrow> int) \<Rightarrow> trusted_manifest list \<Rightarrow> exec_error + exec_db \<times> manifest_row list" where
  "ensure_manifests db new_id [] = Inr (db, [])"
| "ensure_manifests db new_id (d # ds) =
     rbind (ensure_manifest db (new_id d) d) (\<lambda>(db1, m).
       rbind (ensure_manifests db1 new_id ds) (\<lambda>(db2, ms). Inr (db2, m # ms)))"

definition list_manifests :: "exec_db \<Rightarrow> manifest_row list" where
  "list_manifests db = sort_key (\<lambda>m. (m_name m, m_version m)) (manifests db)"

section \<open>Work orders\<close>

definition empty_order_route :: order_route where
  "empty_order_route =
     \<lparr>or_schema_version = None, or_selected_worker_id = None, or_profile_revision = None,
      or_estimated_cost_units = None, or_reserved_quota_units = 0, or_quota_state = None,
      or_eligible_candidate_count = None, or_explicit_pin_applied = False, or_reason = None,
      or_decided_at = None\<rparr>"

definition new_order_row :: "int \<Rightarrow> order_request \<Rightarrow> order_row" where
  "new_order_row new_id request =
     \<lparr>o_id = new_id, o_request = request, o_status = WO_PENDING_APPROVAL, o_attempt_count = 0,
      o_approved_at = None, o_queued_at = None, o_assigned_at = None, o_started_at = None,
      o_finished_at = None, o_terminal_reason = None, o_route = empty_order_route\<rparr>"

definition repo_create_work_order :: "exec_db \<Rightarrow> int \<Rightarrow> order_request \<Rightarrow> exec_error + exec_db \<times> order_row" where
  "repo_create_work_order db new_id request =
     (if new_id \<in> o_id ` set (orders db) then Inl IntegrityError
      else Inr (db\<lparr>orders := orders db @ [new_order_row new_id request]\<rparr>, new_order_row new_id request))"

definition find_order :: "exec_db \<Rightarrow> int \<Rightarrow> order_row option" where
  "find_order db i = find (\<lambda>w. o_id w = i) (orders db)"

definition repo_list_work_orders :: "exec_db \<Rightarrow> order_row list" where
  "repo_list_work_orders db = sort_key o_id (orders db)"

definition list_queued_work_orders :: "exec_db \<Rightarrow> (order_row \<times> manifest_row) list" where
  "list_queued_work_orders db =
     concat (map (\<lambda>w. map (\<lambda>m. (w, m)) (filter (\<lambda>m. m_id m = oq_manifest_id (o_request w)) (manifests db)))
       (filter (\<lambda>w. o_status w = WO_QUEUED) (sort_key o_id (orders db))))"

definition assign_order :: "time \<Rightarrow> order_route option \<Rightarrow> order_row \<Rightarrow> order_row" where
  "assign_order now route w =
     w\<lparr>o_status := WO_ASSIGNED, o_assigned_at := Some now, o_attempt_count := o_attempt_count w + 1,
       o_route := (case route of None \<Rightarrow> o_route w | Some r \<Rightarrow> r)\<rparr>"

definition claim_queued_work_order :: "exec_db \<Rightarrow> int \<Rightarrow> time \<Rightarrow> order_route option \<Rightarrow> exec_db \<times> bool" where
  "claim_queued_work_order db i now route =
     update_orders db (\<lambda>w. o_id w = i \<and> o_status w = WO_QUEUED) (assign_order now route)"

definition run_order :: "time \<Rightarrow> order_row \<Rightarrow> order_row" where
  "run_order now w =
     w\<lparr>o_status := (if o_status w = WO_ASSIGNED then WO_RUNNING else o_status w),
       o_started_at := (if o_status w = WO_ASSIGNED then Some now else o_started_at w)\<rparr>"

definition mark_active_work_order_running :: "exec_db \<Rightarrow> int \<Rightarrow> time \<Rightarrow> exec_db \<times> bool" where
  "mark_active_work_order_running db i now =
     update_orders db (\<lambda>w. o_id w = i \<and> order_active (o_status w)) (run_order now)"

definition finish_order :: "work_order_status \<Rightarrow> time \<Rightarrow> string \<Rightarrow> order_row \<Rightarrow> order_row" where
  "finish_order status now reason w =
     w\<lparr>o_status := status, o_finished_at := Some now, o_terminal_reason := Some reason\<rparr>"

definition finish_active_work_order ::
  "exec_db \<Rightarrow> int \<Rightarrow> work_order_status \<Rightarrow> time \<Rightarrow> string \<Rightarrow> exec_db \<times> bool" where
  "finish_active_work_order db i status now reason =
     update_orders db (\<lambda>w. o_id w = i \<and> order_active (o_status w)) (finish_order status now reason)"

definition requeue_order :: "time \<Rightarrow> order_row \<Rightarrow> order_row" where
  "requeue_order now w = w\<lparr>o_status := WO_QUEUED, o_queued_at := Some now, o_terminal_reason := None\<rparr>"

definition requeue_stale_active_work_order :: "exec_db \<Rightarrow> int \<Rightarrow> time \<Rightarrow> exec_db \<times> bool" where
  "requeue_stale_active_work_order db i now =
     update_orders db (\<lambda>w. o_id w = i \<and> order_active (o_status w)) (requeue_order now)"

definition transition_unleased_work_order ::
  "exec_db \<Rightarrow> int \<Rightarrow> work_order_status list \<Rightarrow> (order_row \<Rightarrow> order_row) \<Rightarrow> exec_db \<times> bool" where
  "transition_unleased_work_order db i current_statuses values =
     update_orders db (\<lambda>w. o_id w = i \<and> o_status w \<in> set current_statuses) values"

section \<open>Workers\<close>

definition find_worker :: "exec_db \<Rightarrow> string \<Rightarrow> worker_row option" where
  "find_worker db i = find (\<lambda>w. w_worker_id w = i) (workers db)"

definition find_profile :: "exec_db \<Rightarrow> string \<Rightarrow> profile_row option" where
  "find_profile db i = find (\<lambda>p. q_worker_id p = i) (profiles db)"

definition list_workers_with_profiles :: "exec_db \<Rightarrow> (worker_row \<times> profile_row option) list" where
  "list_workers_with_profiles db =
     map (\<lambda>w. (w, find_profile db (w_worker_id w))) (sort_key w_worker_id (workers db))"

definition MAX_CATALOG_READINESS_WORKERS :: nat where
  "MAX_CATALOG_READINESS_WORKERS = 100"

text \<open>The workers and whether there are more than the limit.\<close>

definition list_catalog_readiness_workers :: "exec_db \<Rightarrow> (worker_row \<times> profile_row option) list \<times> bool" where
  "list_catalog_readiness_workers db =
     (let rows = take (MAX_CATALOG_READINESS_WORKERS + 1) (list_workers_with_profiles db)
      in (take MAX_CATALOG_READINESS_WORKERS rows, length rows > MAX_CATALOG_READINESS_WORKERS))"

text \<open>The availability a worker gets when it asks for one: busy workers are not brought online.\<close>

definition declared_status :: "worker_status \<Rightarrow> worker_row \<Rightarrow> worker_status" where
  "declared_status requested w =
     (if requested \<in> {W_BUSY, W_DRAINING, W_OFFLINE} then requested
      else if w_active_run_count w \<ge> w_max_concurrency w then W_BUSY else W_ONLINE)"

record worker_registration =
  wr_worker_id :: string
  wr_display_name :: string
  wr_caps :: worker_capabilities
  wr_repository_full_names :: "string list"
  wr_max_concurrency :: int
  wr_status :: worker_status

definition refresh_worker :: "worker_registration \<Rightarrow> time \<Rightarrow> worker_row \<Rightarrow> worker_row" where
  "refresh_worker v now w =
     (let w' = w\<lparr>w_display_name := wr_display_name v, w_caps := wr_caps v,
                 w_repository_full_names := wr_repository_full_names v,
                 w_max_concurrency := wr_max_concurrency v\<rparr>
      in w'\<lparr>w_status := declared_status (wr_status v) w', w_last_heartbeat_at := now\<rparr>)"

definition new_worker_row :: "worker_registration \<Rightarrow> time \<Rightarrow> worker_row" where
  "new_worker_row v now =
     \<lparr>w_worker_id = wr_worker_id v, w_display_name = wr_display_name v, w_caps = wr_caps v,
      w_repository_full_names = wr_repository_full_names v,
      w_max_concurrency = wr_max_concurrency v, w_active_run_count = 0, w_status = wr_status v,
      w_last_heartbeat_at = now, w_last_checkout_poll_at = None\<rparr>"

text \<open>The check constraint \<open>max_concurrency >= 1\<close> is the only one a caller can violate here.\<close>

definition upsert_worker :: "exec_db \<Rightarrow> worker_registration \<Rightarrow> time \<Rightarrow> exec_error + exec_db" where
  "upsert_worker db v now =
     (if wr_max_concurrency v < 1 then Inl IntegrityError
      else case find_worker db (wr_worker_id v) of
             None \<Rightarrow> Inr (db\<lparr>workers := workers db @ [new_worker_row v now]\<rparr>)
           | Some _ \<Rightarrow> Inr (fst (update_workers db (\<lambda>w. w_worker_id w = wr_worker_id v) (refresh_worker v now))))"

definition record_checkout_poll :: "exec_db \<Rightarrow> string \<Rightarrow> time \<Rightarrow> exec_db \<times> bool" where
  "record_checkout_poll db i now =
     update_workers db (\<lambda>w. w_worker_id w = i) (\<lambda>w. w\<lparr>w_last_checkout_poll_at := Some now\<rparr>)"

definition beat_worker :: "time \<Rightarrow> worker_status option \<Rightarrow> worker_row \<Rightarrow> worker_row" where
  "beat_worker now status w =
     w\<lparr>w_last_heartbeat_at := now,
       w_status := (case status of None \<Rightarrow> w_status w | Some s \<Rightarrow> declared_status s w)\<rparr>"

definition update_worker_heartbeat :: "exec_db \<Rightarrow> string \<Rightarrow> time \<Rightarrow> worker_status option \<Rightarrow> exec_db" where
  "update_worker_heartbeat db i now status =
     fst (update_workers db (\<lambda>w. w_worker_id w = i) (beat_worker now status))"

definition take_slot :: "worker_row \<Rightarrow> worker_row" where
  "take_slot w =
     w\<lparr>w_active_run_count := w_active_run_count w + 1,
       w_status := (if w_active_run_count w + 1 \<ge> w_max_concurrency w then W_BUSY else W_ONLINE)\<rparr>"

definition reserve_worker_capacity :: "exec_db \<Rightarrow> string \<Rightarrow> exec_db \<times> bool" where
  "reserve_worker_capacity db i =
     update_workers db
       (\<lambda>w. w_worker_id w = i \<and> w_status w = W_ONLINE \<and> w_active_run_count w < w_max_concurrency w) take_slot"

definition free_slot :: "worker_row \<Rightarrow> worker_row" where
  "free_slot w =
     w\<lparr>w_active_run_count := w_active_run_count w - 1,
       w_status := (if w_status w \<in> {W_DRAINING, W_OFFLINE} then w_status w
                    else if w_active_run_count w - 1 \<ge> w_max_concurrency w then W_BUSY else W_ONLINE)\<rparr>"

definition release_worker_capacity :: "exec_db \<Rightarrow> string \<Rightarrow> exec_db \<times> bool" where
  "release_worker_capacity db i =
     update_workers db (\<lambda>w. w_worker_id w = i \<and> w_active_run_count w > 0) free_slot"

section \<open>Routing profiles\<close>

definition MAX_ROUTING_REVISION :: int where
  "MAX_ROUTING_REVISION = 2147483647"

definition repo_list_routing_profiles :: "exec_db \<Rightarrow> profile_row list" where
  "repo_list_routing_profiles db = sort_key q_worker_id (profiles db)"

definition repo_create_routing_profile :: "exec_db \<Rightarrow> profile_row \<Rightarrow> exec_error + exec_db" where
  "repo_create_routing_profile db p =
     (if q_worker_id p \<in> q_worker_id ` set (profiles db) then Inl IntegrityError
      else Inr (db\<lparr>profiles := profiles db @ [p]\<rparr>))"

record profile_values =
  pv_enabled :: bool
  pv_cost :: int
  pv_capacity :: int
  pv_remaining :: int
  pv_reset_at :: "time option"
  pv_priority :: int

definition replace_profile :: "profile_values \<Rightarrow> int \<Rightarrow> profile_row \<Rightarrow> profile_row" where
  "replace_profile v revision p =
     p\<lparr>q_enabled := pv_enabled v, q_cost := pv_cost v, q_capacity := pv_capacity v,
       q_remaining := pv_remaining v, q_reset_at := pv_reset_at v, q_priority := pv_priority v,
       q_revision := revision\<rparr>"

definition repo_replace_routing_profile :: "exec_db \<Rightarrow> string \<Rightarrow> int \<Rightarrow> profile_values \<Rightarrow> exec_db \<times> bool" where
  "repo_replace_routing_profile db i expected_revision values =
     update_profiles db
       (\<lambda>p. q_worker_id p = i \<and> q_revision p = expected_revision \<and> q_revision p < MAX_ROUTING_REVISION)
       (replace_profile values (expected_revision + 1))"

definition repo_reset_routing_quota ::
  "exec_db \<Rightarrow> string \<Rightarrow> int \<Rightarrow> int \<Rightarrow> time \<Rightarrow> exec_db \<times> bool" where
  "repo_reset_routing_quota db i expected_revision remaining reset_at =
     update_profiles db
       (\<lambda>p. q_worker_id p = i \<and> q_revision p = expected_revision \<and> q_revision p < MAX_ROUTING_REVISION
            \<and> q_capacity p \<ge> remaining)
       (\<lambda>p. p\<lparr>q_remaining := remaining, q_reset_at := Some reset_at, q_revision := expected_revision + 1\<rparr>)"

definition count_reserved_quota_runs :: "exec_db \<Rightarrow> string \<Rightarrow> nat" where
  "count_reserved_quota_runs db i =
     rowcount (\<lambda>r. r_worker_id r = i \<and> rr_quota_state (r_route r) = QUOTA_RESERVED) (runs db)"

definition reserve_routing_quota :: "exec_db \<Rightarrow> string \<Rightarrow> int \<Rightarrow> int \<Rightarrow> exec_db \<times> int option" where
  "reserve_routing_quota db i expected_revision units =
     (let maximum = MAX_ROUTING_REVISION - (if units \<noteq> 0 then 2 else 1);
          (db', ok) = update_profiles db
            (\<lambda>p. q_worker_id p = i \<and> q_enabled p \<and> q_revision p = expected_revision
                 \<and> q_revision p \<le> maximum \<and> q_remaining p \<ge> units \<and> q_remaining p \<le> q_capacity p)
            (\<lambda>p. p\<lparr>q_remaining := q_remaining p - units, q_revision := expected_revision + 1\<rparr>)
      in (db', if ok then Some (expected_revision + 1) else None))"

section \<open>Runs and their quota\<close>

definition find_run :: "exec_db \<Rightarrow> int \<Rightarrow> run_row option" where
  "find_run db i = find (\<lambda>r. r_id r = i) (runs db)"

definition repo_list_runs :: "exec_db \<Rightarrow> int option \<Rightarrow> run_row list" where
  "repo_list_runs db work_order_id =
     filter (\<lambda>r. case work_order_id of None \<Rightarrow> True | Some i \<Rightarrow> r_work_order_id r = i) (sort_key r_id (runs db))"

definition default_run_route :: "time \<Rightarrow> run_route" where
  "default_run_route now =
     \<lparr>rr_schema_version = 1, rr_routing_policy = FIRST_AVAILABLE, rr_profile_revision = None,
      rr_estimated_cost_units = None, rr_required_quota_units = 0, rr_reserved_quota_units = 0,
      rr_quota_state = QUOTA_NOT_REQUIRED, rr_eligible_candidate_count = 1,
      rr_explicit_pin_applied = False, rr_reason = ''routing_selected'', rr_decided_at = now\<rparr>"

definition new_run_reuse :: "reuse_policy \<Rightarrow> run_reuse" where
  "new_run_reuse policy =
     \<lparr>ru_identity = None, ru_identity_hash = None, ru_reused_from_run_id = None,
      ru_source_evidence_fingerprint = None,
      ru_decision = (if policy = REUSE_NEVER then RD_NOT_REQUESTED else RD_PENDING),
      ru_reason = Some (if policy = REUSE_NEVER then ''reuse_policy_never'' else ''exact_candidate_pending''),
      ru_candidate = None, ru_retention_expires_at = None\<rparr>"

definition empty_report :: run_report where
  "empty_report = \<lparr>rp_result_summary = None, rp_terminal_reason = None, rp_cleanup_status = None,
     rp_artifact_metadata = [], rp_evidence_metadata = None\<rparr>"

definition new_run_row :: "int \<Rightarrow> order_row \<Rightarrow> string \<Rightarrow> time \<Rightarrow> time \<Rightarrow> run_route \<Rightarrow> run_row" where
  "new_run_row run_id w worker_id now expires_at route =
     \<lparr>r_id = run_id, r_work_order_id = o_id w, r_worker_id = worker_id,
      r_attempt_number = o_attempt_count w, r_status = RUN_ASSIGNED,
      r_queued_at = (case o_queued_at w of None \<Rightarrow> now | Some t \<Rightarrow> t), r_assigned_at = now,
      r_started_at = None, r_finished_at = None, r_lease_expires_at = expires_at,
      r_last_heartbeat_at = now, r_report = empty_report,
      r_reuse = new_run_reuse (oq_reuse_policy (o_request w)), r_route = route\<rparr>"

definition new_lease_row :: "int \<Rightarrow> int \<Rightarrow> int \<Rightarrow> string \<Rightarrow> time \<Rightarrow> time \<Rightarrow> exec_lease_row" where
  "new_lease_row lease_id order_id run_id worker_id now expires_at =
     \<lparr>x_id = lease_id, x_work_order_id = order_id, x_run_id = run_id, x_worker_id = worker_id,
      x_expires_at = expires_at, x_last_heartbeat_at = now\<rparr>"

definition create_active_run ::
  "exec_db \<Rightarrow> int \<Rightarrow> int \<Rightarrow> order_row \<Rightarrow> string \<Rightarrow> time \<Rightarrow> time \<Rightarrow> run_route option
    \<Rightarrow> exec_error + exec_db \<times> run_row" where
  "create_active_run db run_id lease_id w worker_id now expires_at route =
     (let run = new_run_row run_id w worker_id now expires_at
                  (case route of None \<Rightarrow> default_run_route now | Some r \<Rightarrow> r);
          lease = new_lease_row lease_id (o_id w) run_id worker_id now expires_at
      in if run_id \<in> r_id ` set (runs db)
            \<or> (\<exists>r \<in> set (runs db). r_work_order_id r = o_id w \<and> r_attempt_number r = o_attempt_count w)
         then Inl IntegrityError
         else if lease_id \<in> x_id ` set (xleases db) \<or> o_id w \<in> x_work_order_id ` set (xleases db)
            \<or> run_id \<in> x_run_id ` set (xleases db)
         then Inl IntegrityError
         else Inr (db\<lparr>runs := runs db @ [run], xleases := xleases db @ [lease]\<rparr>, run))"

definition set_run_quota :: "quota_state \<Rightarrow> run_row \<Rightarrow> run_row" where
  "set_run_quota s r = r\<lparr>r_route := (r_route r)\<lparr>rr_quota_state := s\<rparr>\<rparr>"

definition set_order_quota :: "quota_state \<Rightarrow> order_row \<Rightarrow> order_row" where
  "set_order_quota s w = w\<lparr>o_route := (o_route w)\<lparr>or_quota_state := Some s\<rparr>\<rparr>"

text \<open>Moving a reservation on the run and on its order; the last two statements of both methods below.\<close>

definition move_reservation :: "exec_db \<Rightarrow> int \<Rightarrow> int \<Rightarrow> quota_state \<Rightarrow> exec_db \<times> bool" where
  "move_reservation db run_id order_id s =
     (let (db1, run_ok) = update_runs db
            (\<lambda>r. r_id r = run_id \<and> rr_quota_state (r_route r) = QUOTA_RESERVED) (set_run_quota s);
          (db2, order_ok) = update_orders db1
            (\<lambda>w. o_id w = order_id \<and> or_quota_state (o_route w) = Some QUOTA_RESERVED) (set_order_quota s)
      in (db2, run_ok \<and> order_ok))"

definition consume_run_quota_reservation :: "exec_db \<Rightarrow> int \<Rightarrow> int \<Rightarrow> exec_db \<times> bool" where
  "consume_run_quota_reservation db run_id order_id =
     (case find_run db run_id of
        None \<Rightarrow> (db, False)
      | Some r \<Rightarrow>
          if rr_quota_state (r_route r) \<in> {QUOTA_NOT_REQUIRED, QUOTA_CONSUMED} then (db, True)
          else if rr_quota_state (r_route r) \<noteq> QUOTA_RESERVED then (db, False)
          else move_reservation db run_id order_id QUOTA_CONSUMED)"

definition return_quota :: "int \<Rightarrow> profile_row \<Rightarrow> profile_row" where
  "return_quota units p = p\<lparr>q_remaining := q_remaining p + units, q_revision := q_revision p + 1\<rparr>"

definition release_run_quota_reservation :: "exec_db \<Rightarrow> int \<Rightarrow> int \<Rightarrow> string \<Rightarrow> exec_db \<times> bool" where
  "release_run_quota_reservation db run_id order_id worker_id =
     (case find_run db run_id of
        None \<Rightarrow> (db, False)
      | Some r \<Rightarrow>
          if rr_quota_state (r_route r) \<in> {QUOTA_NOT_REQUIRED, QUOTA_CONSUMED, QUOTA_RELEASED} then (db, True)
          else if rr_quota_state (r_route r) \<noteq> QUOTA_RESERVED then (db, False)
          else
            let units = rr_reserved_quota_units (r_route r)
            in if units > 0
               then (case update_profiles db
                       (\<lambda>p. q_worker_id p = worker_id \<and> q_revision p < MAX_ROUTING_REVISION
                            \<and> q_remaining p \<le> q_capacity p - units) (return_quota units) of
                       (db1, ok) \<Rightarrow> if \<not> ok then (db1, False)
                                    else move_reservation db1 run_id order_id QUOTA_RELEASED)
               else move_reservation db run_id order_id QUOTA_RELEASED)"

definition MAX_EXACT_REUSE_CANDIDATES :: nat where
  "MAX_EXACT_REUSE_CANDIDATES = 32"

definition same_target :: "order_request \<Rightarrow> order_request \<Rightarrow> bool" where
  "same_target a b \<longleftrightarrow>
     oq_repository_full_name a = oq_repository_full_name b \<and> oq_commit_sha a = oq_commit_sha b
     \<and> oq_manifest_name a = oq_manifest_name b \<and> oq_manifest_version a = oq_manifest_version b
     \<and> oq_manifest_digest a = oq_manifest_digest b
     \<and> oq_execution_policy_hash a = oq_execution_policy_hash b"

definition list_exact_reuse_candidates ::
  "exec_db \<Rightarrow> order_row \<Rightarrow> string \<Rightarrow> string \<Rightarrow> int \<Rightarrow> (run_row \<times> order_row) list" where
  "list_exact_reuse_candidates db w worker_id identity_hash exclude_run_id =
     take MAX_EXACT_REUSE_CANDIDATES
       (filter
          (\<lambda>(r, source).
             r_id r \<noteq> exclude_run_id \<and> r_worker_id r = worker_id \<and> r_status r = RUN_SUCCEEDED
             \<and> ru_decision (r_reuse r) = RD_FRESH \<and> ru_identity_hash (r_reuse r) = Some identity_hash
             \<and> same_target (o_request source) (o_request w))
          (concat (map (\<lambda>r. map (\<lambda>v. (r, v)) (filter (\<lambda>v. o_id v = r_work_order_id r) (orders db)))
             (rev (sort_key r_id (runs db))))))"

definition update_active_run_reuse :: "exec_db \<Rightarrow> int \<Rightarrow> (run_reuse \<Rightarrow> run_reuse) \<Rightarrow> exec_db \<times> bool" where
  "update_active_run_reuse db run_id values =
     update_runs db (\<lambda>r. r_id r = run_id \<and> run_active (r_status r)) (\<lambda>r. r\<lparr>r_reuse := values (r_reuse r)\<rparr>)"

definition start_run :: "time \<Rightarrow> time \<Rightarrow> run_row \<Rightarrow> run_row" where
  "start_run now expires_at r =
     r\<lparr>r_status := (if r_status r = RUN_ASSIGNED then RUN_RUNNING else r_status r),
       r_started_at := (if r_status r = RUN_ASSIGNED then Some now else r_started_at r),
       r_last_heartbeat_at := now, r_lease_expires_at := expires_at\<rparr>"

definition mark_active_run_running :: "exec_db \<Rightarrow> int \<Rightarrow> time \<Rightarrow> time \<Rightarrow> exec_db \<times> bool" where
  "mark_active_run_running db run_id now expires_at =
     update_runs db (\<lambda>r. r_id r = run_id \<and> run_active (r_status r)) (start_run now expires_at)"

definition finish_active_run :: "exec_db \<Rightarrow> int \<Rightarrow> (run_row \<Rightarrow> run_row) \<Rightarrow> exec_db \<times> bool" where
  "finish_active_run db run_id values =
     update_runs db (\<lambda>r. r_id r = run_id \<and> run_active (r_status r)) values"

definition time_out_run :: "time \<Rightarrow> run_row \<Rightarrow> run_row" where
  "time_out_run now r =
     r\<lparr>r_status := RUN_TIMED_OUT, r_finished_at := Some now, r_last_heartbeat_at := now,
       r_report := \<lparr>rp_result_summary = None, rp_terminal_reason = Some ''execution_lease_expired'',
                    rp_cleanup_status = Some ''lease_expired'', rp_artifact_metadata = [],
                    rp_evidence_metadata = None\<rparr>\<rparr>"

definition requeue_stale_active_run :: "exec_db \<Rightarrow> int \<Rightarrow> time \<Rightarrow> exec_db \<times> bool" where
  "requeue_stale_active_run db run_id now = finish_active_run db run_id (time_out_run now)"

section \<open>Leases\<close>

definition snapshot_of :: "exec_lease_row \<Rightarrow> lease_snapshot" where
  "snapshot_of x = \<lparr>ls_id = x_id x, ls_work_order_id = x_work_order_id x, ls_run_id = x_run_id x,
     ls_worker_id = x_worker_id x\<rparr>"

definition get_lease_for_run :: "exec_db \<Rightarrow> int \<Rightarrow> exec_lease_row option" where
  "get_lease_for_run db run_id = find (\<lambda>x. x_run_id x = run_id) (xleases db)"

definition get_lease_for_work_order :: "exec_db \<Rightarrow> int \<Rightarrow> exec_lease_row option" where
  "get_lease_for_work_order db order_id = find (\<lambda>x. x_work_order_id x = order_id) (xleases db)"

definition get_lease_snapshot_for_run :: "exec_db \<Rightarrow> int \<Rightarrow> lease_snapshot option" where
  "get_lease_snapshot_for_run db run_id = map_option snapshot_of (get_lease_for_run db run_id)"

definition get_lease_snapshot_for_work_order :: "exec_db \<Rightarrow> int \<Rightarrow> lease_snapshot option" where
  "get_lease_snapshot_for_work_order db order_id = map_option snapshot_of (get_lease_for_work_order db order_id)"

definition list_stale_lease_snapshots :: "exec_db \<Rightarrow> time \<Rightarrow> lease_snapshot list" where
  "list_stale_lease_snapshots db now =
     map snapshot_of (filter (\<lambda>x. x_expires_at x < now) (sort_key x_id (xleases db)))"

definition renew_owned_live_lease :: "exec_db \<Rightarrow> int \<Rightarrow> string \<Rightarrow> time \<Rightarrow> time \<Rightarrow> exec_db \<times> bool" where
  "renew_owned_live_lease db run_id worker_id now expires_at =
     (let P = (\<lambda>x. x_run_id x = run_id \<and> x_worker_id x = worker_id \<and> x_expires_at x \<ge> now)
      in (db\<lparr>xleases := update_where P (\<lambda>x. x\<lparr>x_last_heartbeat_at := now, x_expires_at := expires_at\<rparr>) (xleases db)\<rparr>,
          affected_one P (xleases db)))"

text \<open>The guard of \<open>consume_lease\<close>: no condition, \<open>require_live\<close> or \<open>require_stale\<close>.\<close>

datatype lease_guard = AnyLease | RequireLive | RequireStale

fun lease_guard_holds :: "lease_guard \<Rightarrow> time \<Rightarrow> exec_lease_row \<Rightarrow> bool" where
  "lease_guard_holds AnyLease now x = True"
| "lease_guard_holds RequireLive now x = (x_expires_at x \<ge> now)"
| "lease_guard_holds RequireStale now x = (x_expires_at x < now)"

definition consume_lease :: "exec_db \<Rightarrow> lease_snapshot \<Rightarrow> time \<Rightarrow> lease_guard \<Rightarrow> exec_db \<times> bool" where
  "consume_lease db s now g =
     (let P = (\<lambda>x. snapshot_of x = s \<and> lease_guard_holds g now x)
      in (db\<lparr>xleases := delete_where P (xleases db)\<rparr>, affected_one P (xleases db)))"

end
