(* ===== verification/Execution_Service.thy ===== *)
theory Execution_Service
  imports Execution_Store
begin

text \<open>
  \<open>ExecutionService\<close> of \<^verbatim>\<open>server/execution/service.py\<close>: the lifecycle of work orders,
  workers, routing profiles, runs and leases. Each operation takes the tables and the reading of
  the service clock for every call of \<^verbatim>\<open>self._clock()\<close> and returns the exception or the new
  tables with the result. A nested transaction that raises leaves the tables as they were when it
  began; an operation that raises is rolled back as a whole by the request handlers.

  \<open>service_env\<close> collects what the service is configured with: the trusted manifests and
  repositories of the source-controlled registry, the lease duration and freshness limits, the
  hash functions over canonical JSON (\<open>None\<close> where the payload is refused with a \<open>ValueError\<close>), the
  field constraints Pydantic checks when a stored evidence document is read back, the reviewed
  exclusions of the workload profiles, and what the database driver returns for a stored datetime.
\<close>

section \<open>Configuration and commands\<close>

record trusted_repository =
  tp_full_name :: string
  tp_display_name :: string
  tp_manifests :: "(string \<times> string) list"
  tp_default_manifest :: "string \<times> string"

record work_order_draft =
  wd_schema_version :: int
  wd_repository_full_name :: string
  wd_commit_sha :: string
  wd_manifest_name :: string
  wd_manifest_version :: string
  wd_manifest_parameters :: json_object
  wd_required_capabilities :: json_object
  wd_permitted_paths :: "string list"
  wd_forbidden_scope_notes :: string
  wd_expected_artifact_kinds :: "string list"
  wd_approval_policy :: approval_policy
  wd_timeout_seconds :: int
  wd_resource_metadata :: json_object
  wd_network_policy :: network_policy
  wd_repository_write_allowed :: bool
  wd_preferred_executor :: "string option"
  wd_cost_ceiling :: "string option"
  wd_reuse_policy :: reuse_policy
  wd_routing_policy :: routing_policy
  wd_maximum_cost_units :: "int option"
  wd_required_quota_units :: int

record service_env =
  env_manifests :: "trusted_manifest list"
  env_repositories :: "trusted_repository list"
  env_lease_seconds :: int
  env_heartbeat_freshness :: int
  env_poll_freshness :: int
  env_policy_hash :: "work_order_draft \<Rightarrow> string option"
  env_contract_hash :: "trusted_manifest \<Rightarrow> string option"
  env_identity_hash :: "reuse_identity \<Rightarrow> string"
  env_fingerprint :: "execution_evidence_draft \<Rightarrow> string"
  env_fields_ok :: "execution_evidence \<Rightarrow> bool"
  env_exclusions :: "(string \<times> string list) list"
  env_db_datetime :: "py_datetime \<Rightarrow> py_datetime"

record execution_completion =
  xc_status :: run_status
  xc_result_summary :: "string option"
  xc_terminal_reason :: "string option"
  xc_cleanup_status :: "string option"
  xc_artifact_metadata :: "artifact_record list"
  xc_evidence :: "execution_evidence option"
  xc_reuse_decision :: "reuse_decision option"
  xc_reuse_reason :: "string option"
  xc_reuse_identity :: "reuse_identity option"
  xc_reuse_identity_hash :: "string option"
  xc_retention_expires_at :: "py_datetime option"

record checkout_out =
  ck_run_id :: "int option"
  ck_work_order_id :: "int option"
  ck_reason :: "string option"
  ck_mismatch_reasons :: "string list"

record profile_input =
  pi_enabled :: bool
  pi_cost :: int
  pi_capacity :: int
  pi_remaining :: int
  pi_reset_at :: "py_datetime option"
  pi_priority :: int

record route_assessment =
  ra_work_order_id :: int
  ra_routing_policy :: routing_policy
  ra_selected_worker_id :: "string option"
  ra_profile_revision :: "int option"
  ra_estimated_cost_units :: "int option"
  ra_required_quota_units :: int
  ra_eligible_candidate_count :: int
  ra_explicit_pin_applied :: bool
  ra_reason :: string
  ra_decided_at :: time

definition get_trusted_manifest :: "service_env \<Rightarrow> string \<Rightarrow> string \<Rightarrow> trusted_manifest option" where
  "get_trusted_manifest env name version =
     find (\<lambda>d. (tm_name d, tm_version d) = (name, version)) (env_manifests env)"

definition get_trusted_repository :: "service_env \<Rightarrow> string \<Rightarrow> trusted_repository option" where
  "get_trusted_repository env full_name = find (\<lambda>p. tp_full_name p = full_name) (env_repositories env)"

definition repository_allows_manifest :: "service_env \<Rightarrow> string \<Rightarrow> string \<Rightarrow> string \<Rightarrow> bool" where
  "repository_allows_manifest env full_name name version =
     (case get_trusted_repository env full_name of
        None \<Rightarrow> False | Some p \<Rightarrow> (name, version) \<in> set (tp_manifests p))"

definition sync_trusted_manifests ::
  "service_env \<Rightarrow> (trusted_manifest \<Rightarrow> int) \<Rightarrow> exec_db \<Rightarrow> exec_error + exec_db \<times> manifest_row list" where
  "sync_trusted_manifests env ids db = ensure_manifests db ids (env_manifests env)"

section \<open>Creating and approving work orders\<close>

definition is_hex :: "char \<Rightarrow> bool" where
  "is_hex c = (is_digit c \<or> (97 \<le> (of_char c :: nat) \<and> (of_char c :: nat) \<le> 102)
     \<or> (65 \<le> (of_char c :: nat) \<and> (of_char c :: nat) \<le> 70))"

definition routing_int_ok :: "int \<Rightarrow> bool" where
  "routing_int_ok n = (0 \<le> n \<and> n \<le> MAX_ROUTING_INTEGER)"

definition validate_work_order_draft :: "work_order_draft \<Rightarrow> exec_error + unit" where
  "validate_work_order_draft d =
     (if wd_schema_version d \<noteq> 1
      then Inl (LifecycleConflictError ''unsupported_work_order_schema_version'')
      else if \<not> (length (wd_commit_sha d) = 40 \<and> list_all is_hex (wd_commit_sha d))
      then Inl (LifecycleConflictError ''commit_sha_must_be_exact_40_character_hex'')
      else if wd_repository_write_allowed d
      then Inl (RepositoryWritePolicyError ''repository_write_must_be_false'')
      else if (case map_of (wd_required_capabilities d) ''repository_write'' of
                 None \<Rightarrow> False | Some v \<Rightarrow> v \<noteq> JBool False)
      then Inl (RepositoryWritePolicyError ''repository_write_capability_not_permitted'')
      else if \<not> routing_int_ok (wd_required_quota_units d)
           \<or> (case wd_maximum_cost_units d of None \<Rightarrow> False | Some m \<Rightarrow> \<not> routing_int_ok m)
      then Inl (LifecycleConflictError ''routing_integer_out_of_bounds'')
      else Inr ())"

definition order_request_of :: "work_order_draft \<Rightarrow> manifest_row \<Rightarrow> string \<Rightarrow> order_request" where
  "order_request_of d m policy_hash =
     \<lparr>oq_schema_version = wd_schema_version d, oq_repository_full_name = wd_repository_full_name d,
      oq_commit_sha = lower (wd_commit_sha d), oq_manifest_id = m_id m, oq_manifest_name = m_name m,
      oq_manifest_version = m_version m, oq_manifest_digest = m_digest m,
      oq_manifest_parameters = wd_manifest_parameters d,
      oq_required_capabilities = wd_required_capabilities d, oq_permitted_paths = wd_permitted_paths d,
      oq_forbidden_scope_notes = wd_forbidden_scope_notes d,
      oq_expected_artifact_kinds = wd_expected_artifact_kinds d,
      oq_approval_policy = wd_approval_policy d, oq_timeout_seconds = wd_timeout_seconds d,
      oq_resource_metadata = wd_resource_metadata d, oq_network_policy = wd_network_policy d,
      oq_repository_write_allowed = False, oq_preferred_executor = wd_preferred_executor d,
      oq_cost_ceiling = wd_cost_ceiling d, oq_routing_policy = wd_routing_policy d,
      oq_maximum_cost_units = wd_maximum_cost_units d,
      oq_required_quota_units = wd_required_quota_units d, oq_reuse_policy = wd_reuse_policy d,
      oq_execution_policy_hash = policy_hash\<rparr>"

definition create_work_order ::
  "service_env \<Rightarrow> exec_db \<Rightarrow> int \<Rightarrow> int \<Rightarrow> work_order_draft \<Rightarrow> exec_error + exec_db \<times> order_row" where
  "create_work_order env db manifest_id order_id d =
     rbind (validate_work_order_draft d) (\<lambda>_.
     if wd_repository_full_name d \<notin> tp_full_name ` set (env_repositories env)
     then Inl (UnknownManifestError ''trusted_repository_not_found'')
     else case get_trusted_manifest env (wd_manifest_name d) (wd_manifest_version d) of
       None \<Rightarrow> Inl (UnknownManifestError ''trusted_manifest_not_found'')
     | Some definition \<Rightarrow>
         if \<not> repository_allows_manifest env (wd_repository_full_name d) (wd_manifest_name d) (wd_manifest_version d)
         then Inl (UnknownManifestError ''repository_manifest_not_allowed'')
         else
           let unsupported = sort (remdups (filter (\<lambda>k. k \<notin> set (tm_allowed_parameters definition))
                               (map fst (wd_manifest_parameters d))))
           in if unsupported \<noteq> []
              then Inl (ManifestParameterError (''unsupported_manifest_parameters:'' @ join_with '','' unsupported))
              else if (case wd_preferred_executor d of None \<Rightarrow> False | Some e \<Rightarrow> find_worker db e = None)
              then Inl (ExecutionNotFoundError ''preferred_executor_not_found'')
              else rbind (ensure_manifest db manifest_id definition) (\<lambda>(db1, m).
                case env_policy_hash env d of
                  None \<Rightarrow> Inl (ValueError ''execution_policy_payload'')
                | Some h \<Rightarrow> repo_create_work_order db1 order_id (order_request_of d m h)))"

definition get_work_order :: "exec_db \<Rightarrow> int \<Rightarrow> exec_error + order_row" where
  "get_work_order db i = of_option (ExecutionNotFoundError ''work_order_not_found'') (find_order db i)"

text \<open>The shared tail of the unleased transitions: guarded update, conflict, re-read.\<close>

definition apply_transition ::
  "exec_db \<Rightarrow> int \<Rightarrow> work_order_status list \<Rightarrow> (order_row \<Rightarrow> order_row) \<Rightarrow> string \<Rightarrow> exec_error + exec_db \<times> order_row" where
  "apply_transition db i statuses values conflict =
     (case transition_unleased_work_order db i statuses values of
        (db1, updated) \<Rightarrow>
          if \<not> updated then Inl (LifecycleConflictError conflict)
          else rbind (get_work_order db1 i) (\<lambda>w. Inr (db1, w)))"

definition ensure_approvable :: "service_env \<Rightarrow> order_row \<Rightarrow> exec_error + unit" where
  "ensure_approvable env w =
     (let q = o_request w
      in if oq_approval_policy q \<noteq> APPROVAL_EXPLICIT
         then Inl (ApprovalDeniedError ''unsupported_approval_policy'')
         else if oq_repository_full_name q \<notin> tp_full_name ` set (env_repositories env)
         then Inl (ApprovalDeniedError ''repository_not_allowlisted'')
         else if oq_repository_write_allowed q
         then Inl (ApprovalDeniedError ''repository_write_not_permitted'')
         else case get_trusted_manifest env (oq_manifest_name q) (oq_manifest_version q) of
           None \<Rightarrow> Inl (ApprovalDeniedError ''trusted_manifest_not_found'')
         | Some definition \<Rightarrow>
             if \<not> repository_allows_manifest env (oq_repository_full_name q) (oq_manifest_name q) (oq_manifest_version q)
             then Inl (ApprovalDeniedError ''repository_manifest_not_allowed'')
             else if tm_digest definition \<noteq> oq_manifest_digest q
             then Inl (ManifestIntegrityError ''trusted_manifest_digest_conflict'')
             else Inr ())"

definition approve_values :: "work_order_status \<Rightarrow> time \<Rightarrow> order_row \<Rightarrow> order_row" where
  "approve_values target now w =
     w\<lparr>o_status := target, o_approved_at := Some now,
       o_queued_at := (if target = WO_QUEUED then Some now else None)\<rparr>"

definition approve_work_order ::
  "service_env \<Rightarrow> exec_db \<Rightarrow> time \<Rightarrow> int \<Rightarrow> bool \<Rightarrow> exec_error + exec_db \<times> order_row" where
  "approve_work_order env db now i queue =
     rbind (get_work_order db i) (\<lambda>w.
     if o_status w \<noteq> WO_PENDING_APPROVAL
     then Inl (LifecycleConflictError ''work_order_not_pending_approval'')
     else rbind (ensure_approvable env w) (\<lambda>_.
       apply_transition db i [WO_PENDING_APPROVAL]
         (approve_values (if queue then WO_QUEUED else WO_APPROVED) now) ''work_order_not_pending_approval''))"

definition queue_work_order :: "exec_db \<Rightarrow> time \<Rightarrow> int \<Rightarrow> exec_error + exec_db \<times> order_row" where
  "queue_work_order db now i =
     rbind (get_work_order db i) (\<lambda>_.
       apply_transition db i [WO_APPROVED] (\<lambda>w. w\<lparr>o_status := WO_QUEUED, o_queued_at := Some now\<rparr>)
         ''invalid_work_order_transition'')"

definition reject_work_order :: "exec_db \<Rightarrow> time \<Rightarrow> int \<Rightarrow> string option \<Rightarrow> exec_error + exec_db \<times> order_row" where
  "reject_work_order db now i reason =
     rbind (get_work_order db i) (\<lambda>_.
       apply_transition db i [WO_PENDING_APPROVAL]
         (finish_order WO_REJECTED now (text_or reason ''rejected_by_operator'')) ''invalid_work_order_transition'')"

definition expire_work_order :: "exec_db \<Rightarrow> time \<Rightarrow> int \<Rightarrow> string option \<Rightarrow> exec_error + exec_db \<times> order_row" where
  "expire_work_order db now i reason =
     rbind (get_work_order db i) (\<lambda>_.
       apply_transition db i [WO_APPROVED, WO_QUEUED]
         (finish_order WO_EXPIRED now (text_or reason ''expired_by_operator'')) ''invalid_work_order_transition'')"

section \<open>Workers and routing profiles\<close>

definition register_worker :: "exec_db \<Rightarrow> time \<Rightarrow> worker_registration \<Rightarrow> exec_error + exec_db" where
  "register_worker db now v =
     (if wc_repository_write_capability (wr_caps v)
      then Inl (RepositoryWritePolicyError ''repository_write_capability_must_be_false'')
      else upsert_worker db
        (v\<lparr>wr_caps := (wr_caps v)\<lparr>wc_operating_system := lower (wc_operating_system (wr_caps v)),
             wc_architecture := lower (wc_architecture (wr_caps v)),
             wc_repository_write_capability := False\<rparr>\<rparr>) now)"

definition heartbeat_worker :: "exec_db \<Rightarrow> time \<Rightarrow> string \<Rightarrow> worker_status option \<Rightarrow> exec_error + exec_db" where
  "heartbeat_worker db now worker_id status =
     (case find_worker db worker_id of
        None \<Rightarrow> Inl (ExecutionNotFoundError ''worker_not_found'')
      | Some _ \<Rightarrow> Inr (update_worker_heartbeat db worker_id now status))"

definition routing_profile_values :: "profile_input \<Rightarrow> exec_error + profile_values" where
  "routing_profile_values v =
     (if \<exists>n \<in> set [pi_cost v, pi_capacity v, pi_remaining v, pi_priority v]. \<not> routing_int_ok n
      then Inl (LifecycleConflictError ''routing_profile_integer_out_of_bounds'')
      else if pi_remaining v > pi_capacity v
      then Inl (LifecycleConflictError ''routing_quota_exceeds_capacity'')
      else if (case pi_reset_at v of None \<Rightarrow> False | Some t \<Rightarrow> \<not> is_aware t)
      then Inl (LifecycleConflictError ''routing_quota_reset_must_be_aware'')
      else Inr \<lparr>pv_enabled = pi_enabled v, pv_cost = pi_cost v, pv_capacity = pi_capacity v,
                pv_remaining = pi_remaining v, pv_reset_at = map_option utc_naive (pi_reset_at v),
                pv_priority = pi_priority v\<rparr>)"

definition profile_of :: "int \<Rightarrow> string \<Rightarrow> profile_values \<Rightarrow> profile_row" where
  "profile_of schema worker_id v =
     \<lparr>q_worker_id = worker_id, q_schema_version = schema, q_enabled = pv_enabled v, q_cost = pv_cost v,
      q_capacity = pv_capacity v, q_remaining = pv_remaining v, q_reset_at = pv_reset_at v,
      q_priority = pv_priority v, q_revision = 1\<rparr>"

definition create_routing_profile ::
  "exec_db \<Rightarrow> int \<Rightarrow> string \<Rightarrow> profile_input \<Rightarrow> exec_error + exec_db \<times> profile_row" where
  "create_routing_profile db schema worker_id v =
     (if find_worker db worker_id = None then Inl (ExecutionNotFoundError ''worker_not_found'')
      else if find_profile db worker_id \<noteq> None
      then Inl (LifecycleConflictError ''routing_profile_already_exists'')
      else rbind (routing_profile_values v) (\<lambda>values.
        if schema \<noteq> ROUTING_SCHEMA_VERSION
        then Inl (LifecycleConflictError ''unsupported_routing_profile_schema_version'')
        else case repo_create_routing_profile db (profile_of schema worker_id values) of
               Inl _ \<Rightarrow> Inl (LifecycleConflictError ''routing_profile_already_exists'')
             | Inr db' \<Rightarrow> Inr (db', profile_of schema worker_id values)))"

definition get_routing_profile :: "exec_db \<Rightarrow> string \<Rightarrow> exec_error + profile_row" where
  "get_routing_profile db worker_id =
     of_option (ExecutionNotFoundError ''routing_profile_not_found'') (find_profile db worker_id)"

definition valid_routing_revision :: "int \<Rightarrow> bool" where
  "valid_routing_revision n = (1 \<le> n \<and> n \<le> MAX_ROUTING_INTEGER)"

definition replace_routing_profile ::
  "exec_db \<Rightarrow> string \<Rightarrow> int \<Rightarrow> profile_input \<Rightarrow> exec_error + exec_db \<times> profile_row" where
  "replace_routing_profile db worker_id expected_revision v =
     (if \<not> valid_routing_revision expected_revision
      then Inl (LifecycleConflictError ''routing_profile_revision_out_of_bounds'')
      else rbind (get_routing_profile db worker_id) (\<lambda>p.
        if count_reserved_quota_runs db worker_id \<noteq> 0
        then Inl (LifecycleConflictError ''routing_profile_has_active_reservations'')
        else if q_revision p \<noteq> expected_revision
        then Inl (LifecycleConflictError ''routing_profile_revision_conflict'')
        else rbind (routing_profile_values v) (\<lambda>values.
          case repo_replace_routing_profile db worker_id expected_revision values of
            (db', updated) \<Rightarrow>
              if \<not> updated then Inl (LifecycleConflictError ''routing_profile_revision_conflict'')
              else rbind (get_routing_profile db' worker_id) (\<lambda>p'. Inr (db', p')))))"

definition reset_routing_quota ::
  "exec_db \<Rightarrow> string \<Rightarrow> int \<Rightarrow> int \<Rightarrow> py_datetime \<Rightarrow> exec_error + exec_db \<times> profile_row" where
  "reset_routing_quota db worker_id expected_revision remaining reset_at =
     (if \<not> valid_routing_revision expected_revision
      then Inl (LifecycleConflictError ''routing_profile_revision_out_of_bounds'')
      else if \<not> routing_int_ok remaining
      then Inl (LifecycleConflictError ''routing_profile_integer_out_of_bounds'')
      else if \<not> is_aware reset_at
      then Inl (LifecycleConflictError ''routing_quota_reset_must_be_aware'')
      else rbind (get_routing_profile db worker_id) (\<lambda>p.
        let requested = utc_naive reset_at
        in if (case q_reset_at p of None \<Rightarrow> False | Some t \<Rightarrow> requested < t)
           then Inl (LifecycleConflictError ''routing_quota_reset_is_stale'')
           else if q_reset_at p = Some requested
           then (if q_remaining p = remaining \<and> q_revision p = expected_revision + 1 then Inr (db, p)
                 else if q_remaining p = remaining
                 then Inl (LifecycleConflictError ''routing_profile_revision_conflict'')
                 else Inl (LifecycleConflictError ''routing_quota_reset_conflict''))
           else if count_reserved_quota_runs db worker_id \<noteq> 0
           then Inl (LifecycleConflictError ''routing_profile_has_active_reservations'')
           else if q_revision p \<noteq> expected_revision
           then Inl (LifecycleConflictError ''routing_profile_revision_conflict'')
           else if remaining > q_capacity p
           then Inl (LifecycleConflictError ''routing_quota_exceeds_capacity'')
           else case repo_reset_routing_quota db worker_id expected_revision remaining requested of
             (db', updated) \<Rightarrow>
               if \<not> updated then Inl (LifecycleConflictError ''routing_profile_revision_conflict'')
               else rbind (get_routing_profile db' worker_id) (\<lambda>p'. Inr (db', p'))))"

section \<open>Routing a work order\<close>

definition routing_request_of :: "order_row \<Rightarrow> manifest_row \<Rightarrow> routing_request" where
  "routing_request_of w m =
     (let q = o_request w
      in \<lparr>rq_repository_full_name = oq_repository_full_name q, rq_routing_policy = oq_routing_policy q,
          rq_preferred_executor = oq_preferred_executor q,
          rq_maximum_cost_units = oq_maximum_cost_units q,
          rq_required_quota_units = oq_required_quota_units q,
          rq_manifest_requirements = m_required_capabilities m,
          rq_requested_requirements = oq_required_capabilities q,
          rq_network_policy = oq_network_policy q\<rparr>)"

definition routing_eligibilities ::
  "service_env \<Rightarrow> exec_db \<Rightarrow> routing_request \<Rightarrow> time \<Rightarrow> routing_eligibility list" where
  "routing_eligibilities env db rq now =
     map (\<lambda>(w, p). evaluate_routing_candidate w p rq now (env_heartbeat_freshness env) (env_poll_freshness env))
       (list_workers_with_profiles db)"

definition candidates_of :: "routing_eligibility list \<Rightarrow> routing_candidate list" where
  "candidates_of es = List.map_filter re_candidate es"

definition ranked_or_error :: "routing_candidate list \<Rightarrow> int \<Rightarrow> exec_error + routing_candidate list" where
  "ranked_or_error cs required =
     of_option (ValueError ''ranked routing candidates require profiles'') (rank_routing_candidates cs required)"

definition assess_route ::
  "service_env \<Rightarrow> (trusted_manifest \<Rightarrow> int) \<Rightarrow> exec_db \<Rightarrow> time \<Rightarrow> int \<Rightarrow> exec_error + exec_db \<times> route_assessment" where
  "assess_route env ids db now i =
     rbind (sync_trusted_manifests env ids db) (\<lambda>(db1, _).
     rbind (get_work_order db1 i) (\<lambda>w.
     if o_status w \<noteq> WO_QUEUED
     then Inl (LifecycleConflictError ''route_assessment_requires_queued_work'')
     else case get_manifest_row db1 (oq_manifest_name (o_request w)) (oq_manifest_version (o_request w)) of
       None \<Rightarrow> Inl (ManifestIntegrityError ''trusted_manifest_not_found'')
     | Some m \<Rightarrow>
         let q = o_request w;
             explicit_pin = (oq_preferred_executor q \<noteq> None);
             evaluations = routing_eligibilities env db1 (routing_request_of w m) now;
             candidates = candidates_of evaluations;
             mismatches = dedup (concat (map re_reasons evaluations));
             base = \<lparr>ra_work_order_id = o_id w, ra_routing_policy = oq_routing_policy q,
               ra_selected_worker_id = None, ra_profile_revision = None, ra_estimated_cost_units = None,
               ra_required_quota_units = oq_required_quota_units q,
               ra_eligible_candidate_count = int (length candidates), ra_explicit_pin_applied = explicit_pin,
               ra_reason = unavailable_route_reason mismatches explicit_pin, ra_decided_at = now\<rparr>
         in if oq_routing_policy q = FIRST_AVAILABLE
            then
              let selected = (case oq_preferred_executor q of
                    None \<Rightarrow> None
                  | Some e \<Rightarrow> find (\<lambda>c. w_worker_id (rc_worker c) = e) candidates)
              in Inr (db1, base\<lparr>ra_selected_worker_id := map_option (\<lambda>c. w_worker_id (rc_worker c)) selected,
                   ra_reason := (if candidates \<noteq> [] then ''first_available''
                                 else unavailable_route_reason mismatches explicit_pin)\<rparr>)
            else rbind (ranked_or_error candidates (oq_required_quota_units q)) (\<lambda>ranked.
              case ranked of
                [] \<Rightarrow> Inr (db1, base)
              | c # _ \<Rightarrow>
                  (case rc_profile c of
                     None \<Rightarrow> Inl (ManifestIntegrityError ''ranked_routing_profile_missing'')
                   | Some p \<Rightarrow> Inr (db1, base\<lparr>ra_selected_worker_id := Some (w_worker_id (rc_worker c)),
                       ra_profile_revision := Some (q_revision p),
                       ra_estimated_cost_units := Some (q_cost p), ra_reason := ''routing_selected''\<rparr>)))))"

section \<open>Checkout\<close>

definition unassigned :: "string \<Rightarrow> string list \<Rightarrow> checkout_out" where
  "unassigned reason mismatches =
     \<lparr>ck_run_id = None, ck_work_order_id = None, ck_reason = Some reason, ck_mismatch_reasons = mismatches\<rparr>"

definition unavailable_worker_result :: "worker_row \<Rightarrow> checkout_out option" where
  "unavailable_worker_result w =
     (if w_status w \<in> {W_DRAINING, W_OFFLINE} then Some (unassigned ''worker_not_available'' [])
      else if w_status w = W_BUSY then Some (unassigned ''worker_concurrency_limit'' [])
      else None)"

text \<open>The outcome of reserving quota: revision, cost, units and state recorded on order and run.\<close>

record quota_claim =
  qc_revision :: "int option"
  qc_cost :: "int option"
  qc_units :: int
  qc_state :: quota_state

definition claim_quota :: "exec_db \<Rightarrow> string \<Rightarrow> profile_row option \<Rightarrow> int \<Rightarrow> (exec_db \<times> quota_claim) option" where
  "claim_quota db worker_id profile units =
     (case profile of
        None \<Rightarrow> Some (db, \<lparr>qc_revision = None, qc_cost = None, qc_units = 0, qc_state = QUOTA_NOT_REQUIRED\<rparr>)
      | Some p \<Rightarrow>
          (case reserve_routing_quota db worker_id (q_revision p) units of
             (_, None) \<Rightarrow> None
           | (db', Some revision) \<Rightarrow>
               Some (db', \<lparr>qc_revision = Some revision, qc_cost = Some (q_cost p), qc_units = units,
                           qc_state = (if units \<noteq> 0 then QUOTA_RESERVED else QUOTA_NOT_REQUIRED)\<rparr>)))"

definition order_route_of :: "string \<Rightarrow> quota_claim \<Rightarrow> nat \<Rightarrow> bool \<Rightarrow> time \<Rightarrow> order_route" where
  "order_route_of worker_id c candidate_count pin now =
     \<lparr>or_schema_version = Some ROUTING_SCHEMA_VERSION, or_selected_worker_id = Some worker_id,
      or_profile_revision = qc_revision c, or_estimated_cost_units = qc_cost c,
      or_reserved_quota_units = qc_units c, or_quota_state = Some (qc_state c),
      or_eligible_candidate_count = Some (int candidate_count), or_explicit_pin_applied = pin,
      or_reason = Some ''routing_selected'', or_decided_at = Some now\<rparr>"

definition run_route_of :: "order_request \<Rightarrow> quota_claim \<Rightarrow> nat \<Rightarrow> bool \<Rightarrow> time \<Rightarrow> run_route" where
  "run_route_of q c candidate_count pin now =
     \<lparr>rr_schema_version = ROUTING_SCHEMA_VERSION, rr_routing_policy = oq_routing_policy q,
      rr_profile_revision = qc_revision c, rr_estimated_cost_units = qc_cost c,
      rr_required_quota_units = oq_required_quota_units q, rr_reserved_quota_units = qc_units c,
      rr_quota_state = qc_state c, rr_eligible_candidate_count = int candidate_count,
      rr_explicit_pin_applied = pin, rr_reason = ''routing_selected'', rr_decided_at = now\<rparr>"

text \<open>
  \<open>_claim_routed_work\<close>: one nested transaction. \<open>worker_id\<close>, \<open>w\<close> and \<open>profile\<close> are what the caller
  read before; a conflict returns the tables as they were.
\<close>

definition claim_routed_work ::
  "service_env \<Rightarrow> int \<Rightarrow> int \<Rightarrow> exec_db \<Rightarrow> string \<Rightarrow> order_row \<Rightarrow> profile_row option \<Rightarrow> nat \<Rightarrow> bool \<Rightarrow> time
    \<Rightarrow> exec_error + exec_db \<times> checkout_out" where
  "claim_routed_work env run_id lease_id db worker_id w profile candidate_count pin now =
     (case reserve_worker_capacity db worker_id of
        (db1, reserved) \<Rightarrow>
          if \<not> reserved then Inr (db, unassigned ''worker_concurrency_limit'' [])
          else case claim_quota db1 worker_id profile (oq_required_quota_units (o_request w)) of
            None \<Rightarrow> Inr (db, unassigned ''routing_reservation_conflict'' [])
          | Some (db2, c) \<Rightarrow>
              (case claim_queued_work_order db2 (o_id w) now (Some (order_route_of worker_id c candidate_count pin now)) of
                 (db3, claimed) \<Rightarrow>
                   if \<not> claimed then Inr (db, unassigned ''checkout_conflict'' [])
                   else case find_order db3 (o_id w) of
                     None \<Rightarrow> Inl (ExecutionNotFoundError ''work_order_not_found'')
                   | Some claimed_order \<Rightarrow>
                       (case create_active_run db3 run_id lease_id claimed_order worker_id now
                               (now + seconds (env_lease_seconds env))
                               (Some (run_route_of (o_request w) c candidate_count pin now)) of
                          Inl _ \<Rightarrow> Inr (db, unassigned ''checkout_conflict'' [])
                        | Inr (db4, run) \<Rightarrow>
                            Inr (db4, \<lparr>ck_run_id = Some (r_id run), ck_work_order_id = Some (o_id claimed_order),
                                       ck_reason = None, ck_mismatch_reasons = []\<rparr>))))"

definition checkout_exhausted :: "string list \<Rightarrow> string list \<Rightarrow> checkout_out" where
  "checkout_exhausted mismatch_reasons route_reasons =
     (let unique = dedup mismatch_reasons
      in if route_reasons \<noteq> [] then unassigned (hd route_reasons) unique
         else if mismatch_reasons \<noteq> []
         then unassigned (if ''worker_repository_unavailable'' \<in> set unique
                          then ''worker_repository_unavailable'' else ''capability_mismatch'') unique
         else unassigned ''no_queued_work_orders'' [])"

text \<open>
  What one iteration decides before it claims: \<open>Skip reason\<close> moves to the next order (recording a
  route reason or none), \<open>Claim profile candidate_count\<close> goes on to the claim.
\<close>

datatype route_choice = Skip "string option" | Claim "profile_row option" nat

definition choose_route ::
  "string \<Rightarrow> order_row \<Rightarrow> routing_eligibility list \<Rightarrow> routing_eligibility \<Rightarrow> exec_error + route_choice" where
  "choose_route worker_id w evaluations eligibility =
     (let q = o_request w; pin = (oq_preferred_executor q \<noteq> None); eligible = candidates_of evaluations
      in if oq_routing_policy q = FIRST_AVAILABLE
         then (if re_candidate eligibility = None
               then let reason = unavailable_route_reason (re_reasons eligibility) pin
                    in Inr (Skip (if reason \<noteq> ''no_capable_workers'' then Some reason else None))
               else Inr (Claim None (length eligible)))
         else rbind (ranked_or_error eligible (oq_required_quota_units q)) (\<lambda>ranked.
           case ranked of
             [] \<Rightarrow> Inr (Skip (Some (unavailable_route_reason (re_reasons eligibility) pin)))
           | c # _ \<Rightarrow>
               if w_worker_id (rc_worker c) \<noteq> worker_id then Inr (Skip (Some ''better_candidate_active''))
               else Inr (Claim (rc_profile c) (length ranked))))"

fun checkout_orders ::
  "service_env \<Rightarrow> int \<Rightarrow> int \<Rightarrow> (nat \<Rightarrow> time) \<Rightarrow> nat \<Rightarrow> string \<Rightarrow> (order_row \<times> manifest_row) list
    \<Rightarrow> string list \<Rightarrow> string list \<Rightarrow> exec_db \<Rightarrow> exec_error + exec_db \<times> checkout_out" where
  "checkout_orders env run_id lease_id clk n worker_id [] mismatches routes db =
     Inr (db, checkout_exhausted mismatches routes)"
| "checkout_orders env run_id lease_id clk n worker_id ((w, m) # rest) mismatches routes db =
     (let now = clk n;
          evaluations = routing_eligibilities env db (routing_request_of w m) now
      in case find (\<lambda>e. w_worker_id (re_worker e) = worker_id) evaluations of
           None \<Rightarrow> Inl (ValueError ''StopIteration'')
         | Some eligibility \<Rightarrow>
             let mismatches' = mismatches @ re_reasons eligibility
             in rbind (choose_route worker_id w evaluations eligibility) (\<lambda>choice.
               case choice of
                 Skip reason \<Rightarrow>
                   checkout_orders env run_id lease_id clk (Suc n) worker_id rest mismatches'
                     (routes @ (case reason of None \<Rightarrow> [] | Some r \<Rightarrow> [r])) db
               | Claim profile candidate_count \<Rightarrow>
                   rbind (claim_routed_work env run_id lease_id db worker_id w profile candidate_count
                            (oq_preferred_executor (o_request w) \<noteq> None) now) (\<lambda>(db', result).
                     if ck_reason result = Some ''checkout_conflict''
                     then checkout_orders env run_id lease_id clk (Suc n) worker_id rest mismatches'
                            (routes @ [''checkout_conflict'']) db'
                     else Inr (db', result))))"

definition checkout_eligible_work ::
  "service_env \<Rightarrow> int \<Rightarrow> int \<Rightarrow> (nat \<Rightarrow> time) \<Rightarrow> string \<Rightarrow> exec_db \<Rightarrow> exec_error + exec_db \<times> checkout_out" where
  "checkout_eligible_work env run_id lease_id clk worker_id db =
     checkout_orders env run_id lease_id clk 0 worker_id (list_queued_work_orders db) [] [] db"

section \<open>Leases\<close>

record expiry_result =
  ex_requeued :: "int list"
  ex_timed_out :: "int list"

text \<open>One pass of the loop over the stale leases: \<open>Inr None\<close> when the lease was gone.\<close>

definition expire_one :: "exec_db \<Rightarrow> time \<Rightarrow> lease_snapshot \<Rightarrow> exec_error + exec_db option" where
  "expire_one db now s =
     (case consume_lease db s now RequireStale of
        (db1, consumed) \<Rightarrow>
          if \<not> consumed then Inr None
          else
            let (db2, quota_released) = release_run_quota_reservation db1 (ls_run_id s) (ls_work_order_id s) (ls_worker_id s);
                (db3, run_updated) = requeue_stale_active_run db2 (ls_run_id s) now;
                (db4, work_order_updated) = requeue_stale_active_work_order db3 (ls_work_order_id s) now;
                (db5, released) = release_worker_capacity db4 (ls_worker_id s)
            in if \<not> quota_released \<or> \<not> run_updated \<or> \<not> work_order_updated \<or> \<not> released
               then Inl (LifecycleConflictError ''stale_lease_state_conflict'')
               else Inr (Some db5))"

fun expire_snapshots ::
  "exec_db \<Rightarrow> time \<Rightarrow> lease_snapshot list \<Rightarrow> int list \<Rightarrow> int list \<Rightarrow> exec_error + exec_db \<times> expiry_result" where
  "expire_snapshots db now [] requeued timed_out =
     Inr (db, \<lparr>ex_requeued = requeued, ex_timed_out = timed_out\<rparr>)"
| "expire_snapshots db now (s # rest) requeued timed_out =
     rbind (expire_one db now s) (\<lambda>r.
       case r of
         None \<Rightarrow> expire_snapshots db now rest requeued timed_out
       | Some db' \<Rightarrow> expire_snapshots db' now rest (requeued @ [ls_work_order_id s]) (timed_out @ [ls_run_id s]))"

definition expire_stale_leases :: "exec_db \<Rightarrow> time \<Rightarrow> exec_error + exec_db \<times> expiry_result" where
  "expire_stale_leases db now = expire_snapshots db now (list_stale_lease_snapshots db now) [] []"

definition requeue_stale_work_order :: "exec_db \<Rightarrow> time \<Rightarrow> int \<Rightarrow> exec_error + exec_db \<times> order_row" where
  "requeue_stale_work_order db now i =
     rbind (expire_stale_leases db now) (\<lambda>(db', result).
       if i \<notin> set (ex_requeued result)
       then Inl (LifecycleConflictError ''work_order_could_not_be_requeued'')
       else rbind (get_work_order db' i) (\<lambda>w. Inr (db', w)))"

text \<open>
  The readings of the clock during a checkout: \<open>now0\<close> for the expiry sweep, \<open>now1\<close> for the poll and
  \<open>clk n\<close> for the n-th order considered.
\<close>

definition exec_checkout ::
  "service_env \<Rightarrow> (trusted_manifest \<Rightarrow> int) \<Rightarrow> int \<Rightarrow> int \<Rightarrow> time \<Rightarrow> time \<Rightarrow> (nat \<Rightarrow> time) \<Rightarrow> exec_db \<Rightarrow> string
    \<Rightarrow> exec_error + exec_db \<times> checkout_out" where
  "exec_checkout env ids run_id lease_id now0 now1 clk db worker_id =
     rbind (sync_trusted_manifests env ids db) (\<lambda>(db1, _).
     rbind (expire_stale_leases db1 now0) (\<lambda>(db2, _).
     if find_worker db2 worker_id = None then Inl (ExecutionNotFoundError ''worker_not_found'')
     else case record_checkout_poll db2 worker_id now1 of
       (db3, polled) \<Rightarrow>
         if \<not> polled then Inl (ExecutionNotFoundError ''worker_not_found'')
         else case find_worker db3 worker_id of
           None \<Rightarrow> Inl (ExecutionNotFoundError ''worker_not_found'')
         | Some worker \<Rightarrow>
             (case unavailable_worker_result worker of
                Some result \<Rightarrow> Inr (db3, result)
              | None \<Rightarrow> checkout_eligible_work env run_id lease_id clk worker_id db3)))"

definition get_run :: "exec_db \<Rightarrow> int \<Rightarrow> exec_error + run_row" where
  "get_run db i = of_option (ExecutionNotFoundError ''execution_run_not_found'') (find_run db i)"

definition heartbeat_run :: "service_env \<Rightarrow> exec_db \<Rightarrow> time \<Rightarrow> int \<Rightarrow> string \<Rightarrow> exec_error + exec_db \<times> run_row" where
  "heartbeat_run env db now run_id worker_id =
     rbind (get_run db run_id) (\<lambda>_.
     case get_lease_snapshot_for_run db run_id of
       None \<Rightarrow> Inl (OwnershipConflictError ''execution_lease_not_owned'')
     | Some s \<Rightarrow>
         if ls_worker_id s \<noteq> worker_id then Inl (OwnershipConflictError ''execution_lease_not_owned'')
         else
           let expires_at = now + seconds (env_lease_seconds env)
           in case renew_owned_live_lease db run_id worker_id now expires_at of
             (db1, renewed) \<Rightarrow>
               if \<not> renewed then Inl (OwnershipConflictError ''execution_lease_expired'')
               else
                 let (db2, quota_consumed) = consume_run_quota_reservation db1 run_id (ls_work_order_id s);
                     (db3, run_updated) = mark_active_run_running db2 run_id now expires_at;
                     (db4, work_order_updated) = mark_active_work_order_running db3 (ls_work_order_id s) now
                 in if \<not> quota_consumed \<or> \<not> run_updated \<or> \<not> work_order_updated
                    then Inl (LifecycleConflictError ''execution_run_is_not_active'')
                    else rbind (get_run db4 run_id) (\<lambda>r. Inr (db4, r)))"

section \<open>Completion and reuse\<close>

definition validate_reuse_identity :: "service_env \<Rightarrow> order_row \<Rightarrow> reuse_identity \<Rightarrow> exec_error + unit" where
  "validate_reuse_identity env w identity =
     (let q = o_request w
      in case get_trusted_manifest env (oq_manifest_name q) (oq_manifest_version q) of
           None \<Rightarrow> Inl (ManifestIntegrityError ''trusted_manifest_not_found'')
         | Some definition \<Rightarrow>
             (case env_contract_hash env definition of
                None \<Rightarrow> Inl (ValueError ''result_contract_payload'')
              | Some contract_hash \<Rightarrow>
                  if ri_repository_full_name identity \<noteq> oq_repository_full_name q
                     \<or> ri_tested_sha identity \<noteq> oq_commit_sha q
                     \<or> ri_manifest_name identity \<noteq> oq_manifest_name q
                     \<or> ri_manifest_version identity \<noteq> oq_manifest_version q
                     \<or> ri_manifest_digest identity \<noteq> oq_manifest_digest q
                     \<or> ri_execution_policy_hash identity \<noteq> oq_execution_policy_hash q
                     \<or> ri_result_contract_hash identity \<noteq> contract_hash
                     \<or> map dl_relative_path (ri_dependency_lock_hashes identity)
                         \<noteq> sort (tm_dependency_lock_paths definition)
                  then Inl (LifecycleConflictError ''reuse_identity_work_order_mismatch'')
                  else Inr ()))"

definition validate_completion_evidence ::
  "exec_db \<Rightarrow> lease_snapshot \<Rightarrow> execution_completion \<Rightarrow> exec_error + unit" where
  "validate_completion_evidence db s c =
     (case xc_evidence c of
        None \<Rightarrow> if xc_artifact_metadata c \<noteq> []
                then Inl (LifecycleConflictError ''artifacts_require_execution_evidence'') else Inr ()
      | Some evidence \<Rightarrow>
          rbind (get_work_order db (ls_work_order_id s)) (\<lambda>w.
            let d = ev_draft evidence; e = ev_subject d; q = o_request w
            in if ev_run_id e \<noteq> ls_run_id s \<or> ev_work_order_id e \<noteq> ls_work_order_id s
                  \<or> ev_worker_id e \<noteq> ls_worker_id s
                  \<or> ev_repository_full_name e \<noteq> oq_repository_full_name q
                  \<or> ev_tested_sha e \<noteq> oq_commit_sha q
                  \<or> ev_manifest_name e \<noteq> oq_manifest_name q
                  \<or> ev_manifest_version e \<noteq> oq_manifest_version q
                  \<or> ev_manifest_digest e \<noteq> oq_manifest_digest q
                  \<or> ev_terminal_status d \<noteq> run_status_value (xc_status c)
                  \<or> ev_artifacts d \<noteq> xc_artifact_metadata c
               then Inl (LifecycleConflictError ''execution_evidence_identity_mismatch'')
               else Inr ()))"

text \<open>The decision a completion ends with, from the policy of the order and what was submitted.\<close>

definition final_reuse_decision :: "reuse_policy \<Rightarrow> execution_completion \<Rightarrow> exec_error + reuse_decision" where
  "final_reuse_decision policy c =
     (let decision =
        (case xc_reuse_decision c of
           Some d \<Rightarrow> Some d
         | None \<Rightarrow> if policy = REUSE_NEVER then Some RD_FRESH
                   else if xc_status c \<noteq> RUN_SUCCEEDED \<and> xc_evidence c = None then Some RD_UNAVAILABLE
                   else None)
      in case decision of
           None \<Rightarrow> Inl (LifecycleConflictError ''invalid_reuse_completion_decision'')
         | Some d \<Rightarrow>
             if d \<notin> {RD_FRESH, RD_REUSED, RD_UNAVAILABLE}
             then Inl (LifecycleConflictError ''invalid_reuse_completion_decision'')
             else if policy = REUSE_REQUIRE_EXACT \<and> d = RD_FRESH
             then Inl (LifecycleConflictError ''require_exact_forbids_fresh_execution'')
             else if d = RD_UNAVAILABLE \<and> policy = REUSE_NEVER
             then Inl (LifecycleConflictError ''reuse_unavailable_requires_opt_in_policy'')
             else if d = RD_UNAVAILABLE \<and> xc_status c = RUN_SUCCEEDED
             then Inl (LifecycleConflictError ''unavailable_reuse_must_not_succeed'')
             else Inr d)"

definition reuse_source ::
  "run_row \<Rightarrow> reuse_decision \<Rightarrow> reuse_identity option \<Rightarrow> string option \<Rightarrow> exec_error + int option \<times> string option" where
  "reuse_source run decision identity identity_hash =
     (if decision \<noteq> RD_REUSED then Inr (None, None)
      else case (ru_candidate (r_reuse run), identity) of
        (Some candidate, Some i) \<Rightarrow>
          if cand_reuse_identity candidate \<noteq> i \<or> Some (cand_reuse_identity_hash candidate) \<noteq> identity_hash
          then Inl (LifecycleConflictError ''verified_reuse_candidate_mismatch'')
          else Inr (Some (cand_source_run_id candidate),
                    Some (cand_expected_source_evidence_fingerprint candidate))
      | _ \<Rightarrow> Inl (LifecycleConflictError ''verified_reuse_candidate_missing''))"

definition check_provenance ::
  "execution_completion \<Rightarrow> bool \<Rightarrow> reuse_decision \<Rightarrow> string option \<Rightarrow> int option \<times> string option \<Rightarrow> exec_error + unit" where
  "check_provenance c legacy decision identity_hash source =
     (case xc_evidence c of
        Some evidence \<Rightarrow>
          if legacy
          then (if xc_retention_expires_at c \<noteq> None
                then Inl (LifecycleConflictError ''legacy_evidence_retention_is_unsupported'') else Inr ())
          else (case ev_reuse_provenance (ev_draft evidence) of
            None \<Rightarrow> Inl (LifecycleConflictError ''execution_reuse_provenance_mismatch'')
          | Some p \<Rightarrow>
              if rp_decision p \<noteq> reuse_decision_value decision
              then Inl (LifecycleConflictError ''execution_reuse_provenance_mismatch'')
              else if Some (rp_reuse_identity_hash p) \<noteq> identity_hash
              then Inl (LifecycleConflictError ''execution_reuse_identity_mismatch'')
              else if (rp_source_run_id p, rp_source_evidence_fingerprint p) \<noteq> source
              then Inl (LifecycleConflictError ''execution_reuse_source_mismatch'')
              else (case xc_retention_expires_at c of
                None \<Rightarrow> Inl (LifecycleConflictError ''execution_evidence_retention_missing'')
              | Some retention \<Rightarrow>
                  if \<not> is_aware retention
                  then Inl (LifecycleConflictError ''execution_evidence_retention_missing'')
                  else if \<exists>a \<in> set (ev_artifacts (ev_draft evidence)). ar_retention_expires_at a \<noteq> utc_naive retention
                  then Inl (LifecycleConflictError ''execution_evidence_retention_mismatch'')
                  else Inr ()))
      | None \<Rightarrow>
          if xc_retention_expires_at c \<noteq> None
          then Inl (LifecycleConflictError ''retention_requires_execution_evidence'') else Inr ())"

definition check_identity ::
  "service_env \<Rightarrow> order_row \<Rightarrow> reuse_identity option \<Rightarrow> string option \<Rightarrow> exec_error + unit" where
  "check_identity env w identity identity_hash =
     (case identity of
        None \<Rightarrow> Inr ()
      | Some i \<Rightarrow> rbind (validate_reuse_identity env w i) (\<lambda>_.
          if identity_hash \<noteq> Some (env_identity_hash env i)
          then Inl (LifecycleConflictError ''reuse_identity_hash_mismatch'') else Inr ()))"

definition reuse_completion_values ::
  "service_env \<Rightarrow> exec_db \<Rightarrow> lease_snapshot \<Rightarrow> execution_completion \<Rightarrow> exec_error + run_reuse" where
  "reuse_completion_values env db s c =
     rbind (get_run db (ls_run_id s)) (\<lambda>run.
     rbind (get_work_order db (ls_work_order_id s)) (\<lambda>w.
     let policy = oq_reuse_policy (o_request w)
     in rbind (final_reuse_decision policy c) (\<lambda>decision.
     let identity = (case xc_reuse_identity c of Some i \<Rightarrow> Some i | None \<Rightarrow> ru_identity (r_reuse run));
         identity_hash = (case text_or_none (xc_reuse_identity_hash c) of
                            Some h \<Rightarrow> Some h | None \<Rightarrow> ru_identity_hash (r_reuse run));
         legacy = (policy = REUSE_NEVER
           \<and> (case xc_evidence c of None \<Rightarrow> False | Some e \<Rightarrow> ev_reuse_provenance (ev_draft e) = None)
           \<and> identity = None \<and> identity_hash = None)
     in rbind (check_identity env w identity identity_hash) (\<lambda>_.
     if xc_evidence c \<noteq> None \<and> identity = None \<and> \<not> legacy
     then Inl (LifecycleConflictError ''execution_evidence_requires_reuse_identity'')
     else rbind (reuse_source run decision identity identity_hash) (\<lambda>source.
     rbind (check_provenance c legacy decision identity_hash source) (\<lambda>_.
     Inr \<lparr>ru_identity = identity, ru_identity_hash = identity_hash,
          ru_reused_from_run_id = fst source, ru_source_evidence_fingerprint = snd source,
          ru_decision = decision,
          ru_reason = Some (text_or (xc_reuse_reason c) (reuse_decision_value decision)),
          ru_candidate = None,
          ru_retention_expires_at = map_option (env_db_datetime env) (xc_retention_expires_at c)\<rparr>))))))"

definition finish_run :: "execution_completion \<Rightarrow> time \<Rightarrow> string \<Rightarrow> run_reuse \<Rightarrow> run_row \<Rightarrow> run_row" where
  "finish_run c now terminal_reason reuse r =
     r\<lparr>r_status := xc_status c, r_finished_at := Some now, r_last_heartbeat_at := now,
       r_report := \<lparr>rp_result_summary = xc_result_summary c, rp_terminal_reason = Some terminal_reason,
                    rp_cleanup_status = xc_cleanup_status c,
                    rp_artifact_metadata = xc_artifact_metadata c,
                    rp_evidence_metadata = xc_evidence c\<rparr>,
       r_reuse := reuse\<rparr>"

definition finish_active_lease ::
  "service_env \<Rightarrow> exec_db \<Rightarrow> time \<Rightarrow> lease_snapshot \<Rightarrow> execution_completion \<Rightarrow> bool \<Rightarrow> bool
    \<Rightarrow> exec_error + exec_db \<times> run_row" where
  "finish_active_lease env db now s c require_live ownership_error =
     rbind (validate_completion_evidence db s c) (\<lambda>_.
     rbind (reuse_completion_values env db s c) (\<lambda>reuse.
     case work_order_status_of_run (xc_status c) of
       None \<Rightarrow> Inl (ValueError ''WorkOrderStatus'')
     | Some target \<Rightarrow>
         let reason = text_or (xc_terminal_reason c) (run_status_value (xc_status c))
         in case consume_lease db s now (if require_live then RequireLive else AnyLease) of
           (db1, consumed) \<Rightarrow>
             if \<not> consumed
             then Inl (if ownership_error then OwnershipConflictError ''execution_lease_not_owned''
                       else LifecycleConflictError ''execution_lease_transition_in_progress'')
             else
               let (db2, quota_released) = release_run_quota_reservation db1 (ls_run_id s) (ls_work_order_id s) (ls_worker_id s);
                   (db3, run_updated) = finish_active_run db2 (ls_run_id s) (finish_run c now reason reuse);
                   (db4, work_order_updated) = finish_active_work_order db3 (ls_work_order_id s) target now reason;
                   (db5, released) = release_worker_capacity db4 (ls_worker_id s)
               in if \<not> quota_released \<or> \<not> run_updated \<or> \<not> work_order_updated \<or> \<not> released
                  then Inl (LifecycleConflictError ''execution_record_transition_in_progress'')
                  else rbind (get_run db5 (ls_run_id s)) (\<lambda>r. Inr (db5, r))))"

definition complete_run ::
  "service_env \<Rightarrow> exec_db \<Rightarrow> time \<Rightarrow> int \<Rightarrow> string \<Rightarrow> execution_completion \<Rightarrow> exec_error + exec_db \<times> run_row" where
  "complete_run env db now run_id worker_id c =
     (if \<not> is_terminal_run (xc_status c)
      then Inl (LifecycleConflictError ''execution_completion_must_be_terminal'')
      else rbind (get_run db run_id) (\<lambda>_.
        case get_lease_snapshot_for_run db run_id of
          None \<Rightarrow> Inl (OwnershipConflictError ''execution_lease_not_owned'')
        | Some s \<Rightarrow>
            if ls_worker_id s \<noteq> worker_id then Inl (OwnershipConflictError ''execution_lease_not_owned'')
            else finish_active_lease env db now s c True True))"

definition cancellation :: "string \<Rightarrow> execution_completion" where
  "cancellation reason =
     \<lparr>xc_status = RUN_CANCELLED, xc_result_summary = None, xc_terminal_reason = Some reason,
      xc_cleanup_status = Some ''cancelled_by_control_plane'', xc_artifact_metadata = [],
      xc_evidence = None, xc_reuse_decision = None, xc_reuse_reason = None, xc_reuse_identity = None,
      xc_reuse_identity_hash = None, xc_retention_expires_at = None\<rparr>"

definition cancel_work_order ::
  "service_env \<Rightarrow> exec_db \<Rightarrow> time \<Rightarrow> time \<Rightarrow> int \<Rightarrow> string option \<Rightarrow> exec_error + exec_db \<times> order_row" where
  "cancel_work_order env db now now_finish i reason =
     rbind (get_work_order db i) (\<lambda>w.
     let terminal_reason = text_or reason ''cancelled_by_operator''
     in if o_status w \<in> {WO_PENDING_APPROVAL, WO_APPROVED, WO_QUEUED}
        then apply_transition db i [WO_PENDING_APPROVAL, WO_APPROVED, WO_QUEUED]
               (finish_order WO_CANCELLED now terminal_reason) ''work_order_transition_in_progress''
        else if is_terminal_work_order (o_status w)
        then Inl (LifecycleConflictError ''work_order_is_terminal'')
        else case get_lease_snapshot_for_work_order db i of
               None \<Rightarrow> Inl (LifecycleConflictError ''execution_lease_transition_in_progress'')
             | Some s \<Rightarrow>
                 rbind (finish_active_lease env db now_finish s (cancellation terminal_reason) False False)
                   (\<lambda>(db', _). rbind (get_work_order db' i) (\<lambda>w'. Inr (db', w'))))"

end
