(* ===== verification/Execution_Refinement.thy ===== *)
theory Execution_Refinement
  imports Ledger Execution_Service
begin

text \<open>
  The execution service refines the ledger: \<open>ledger_of\<close> forgets the columns the ledger does not
  keep, and every successful operation of the service is a step of the ledger. The invariant of
  the ledger, read through \<open>ledger_of\<close>, is then an invariant of the tables.
\<close>

section \<open>Abstraction\<close>

definition order_entry_of :: "order_row \<Rightarrow> order_entry" where
  "order_entry_of w = \<lparr>vo_id = o_id w, vo_status = o_status w, vo_attempt = o_attempt_count w,
     vo_quota = or_quota_state (o_route w), vo_units = oq_required_quota_units (o_request w),
     vo_write = oq_repository_write_allowed (o_request w)\<rparr>"

definition run_entry_of :: "run_row \<Rightarrow> run_entry" where
  "run_entry_of r = \<lparr>vr_id = r_id r, vr_order = r_work_order_id r, vr_worker = r_worker_id r,
     vr_attempt = r_attempt_number r, vr_status = r_status r,
     vr_units = rr_reserved_quota_units (r_route r), vr_quota = rr_quota_state (r_route r)\<rparr>"

definition worker_entry_of :: "worker_row \<Rightarrow> worker_entry" where
  "worker_entry_of w = \<lparr>vw_id = w_worker_id w, vw_count = w_active_run_count w,
     vw_write = wc_repository_write_capability (w_caps w)\<rparr>"

definition profile_entry_of :: "profile_row \<Rightarrow> profile_entry" where
  "profile_entry_of p = \<lparr>vp_id = q_worker_id p, vp_remaining = q_remaining p, vp_capacity = q_capacity p\<rparr>"

definition lease_entry_of :: "exec_lease_row \<Rightarrow> lease_entry" where
  "lease_entry_of x = \<lparr>vl_id = x_id x, vl_order = x_work_order_id x, vl_run = x_run_id x, vl_worker = x_worker_id x\<rparr>"

definition snapshot_entry :: "lease_snapshot \<Rightarrow> lease_entry" where
  "snapshot_entry s = \<lparr>vl_id = ls_id s, vl_order = ls_work_order_id s, vl_run = ls_run_id s, vl_worker = ls_worker_id s\<rparr>"

definition ledger_of :: "exec_db \<Rightarrow> ledger" where
  "ledger_of db = \<lparr>lg_orders = map order_entry_of (orders db), lg_runs = map run_entry_of (runs db),
     lg_workers = map worker_entry_of (workers db), lg_profiles = map profile_entry_of (profiles db),
     lg_leases = map lease_entry_of (xleases db)\<rparr>"

definition exec_inv :: "exec_db \<Rightarrow> bool" where
  "exec_inv db \<longleftrightarrow> ledger_inv (ledger_of db) \<and> ledger_readonly (ledger_of db) \<and> ledger_unreleased (ledger_of db)"

definition keys_ok :: "exec_db \<Rightarrow> bool" where
  "keys_ok db \<longleftrightarrow> ledger_keys (ledger_of db)"

lemma entry_simps [simp]:
  "vo_id (order_entry_of w) = o_id w" "vo_status (order_entry_of w) = o_status w"
  "vo_attempt (order_entry_of w) = o_attempt_count w" "vo_quota (order_entry_of w) = or_quota_state (o_route w)"
  "vo_units (order_entry_of w) = oq_required_quota_units (o_request w)"
  "vo_write (order_entry_of w) = oq_repository_write_allowed (o_request w)"
  "vw_write (worker_entry_of v) = wc_repository_write_capability (w_caps v)"
  "vr_id (run_entry_of r) = r_id r" "vr_order (run_entry_of r) = r_work_order_id r"
  "vr_worker (run_entry_of r) = r_worker_id r" "vr_attempt (run_entry_of r) = r_attempt_number r"
  "vr_status (run_entry_of r) = r_status r" "vr_units (run_entry_of r) = rr_reserved_quota_units (r_route r)"
  "vr_quota (run_entry_of r) = rr_quota_state (r_route r)"
  "vw_id (worker_entry_of v) = w_worker_id v" "vw_count (worker_entry_of v) = w_active_run_count v"
  "vp_id (profile_entry_of p) = q_worker_id p" "vp_remaining (profile_entry_of p) = q_remaining p"
  "vp_capacity (profile_entry_of p) = q_capacity p"
  "vl_id (lease_entry_of x) = x_id x" "vl_order (lease_entry_of x) = x_work_order_id x"
  "vl_run (lease_entry_of x) = x_run_id x" "vl_worker (lease_entry_of x) = x_worker_id x"
  "vl_id (snapshot_entry s) = ls_id s" "vl_order (snapshot_entry s) = ls_work_order_id s"
  "vl_run (snapshot_entry s) = ls_run_id s" "vl_worker (snapshot_entry s) = ls_worker_id s"
  "snapshot_entry (snapshot_of x) = lease_entry_of x"
  by (simp_all add: order_entry_of_def run_entry_of_def worker_entry_of_def profile_entry_of_def
      lease_entry_of_def snapshot_entry_def snapshot_of_def)

lemma ledger_of_simps [simp]:
  "lg_orders (ledger_of db) = map order_entry_of (orders db)" "lg_runs (ledger_of db) = map run_entry_of (runs db)"
  "lg_workers (ledger_of db) = map worker_entry_of (workers db)"
  "lg_profiles (ledger_of db) = map profile_entry_of (profiles db)"
  "lg_leases (ledger_of db) = map lease_entry_of (xleases db)"
  by (simp_all add: ledger_of_def)

lemma keys_iff:
  "keys_ok db \<longleftrightarrow> distinct (map o_id (orders db)) \<and> distinct (map r_id (runs db))
     \<and> distinct (map w_worker_id (workers db)) \<and> distinct (map q_worker_id (profiles db))
     \<and> distinct (map x_id (xleases db)) \<and> distinct (map x_work_order_id (xleases db))
     \<and> distinct (map x_run_id (xleases db))"
  by (simp add: keys_ok_def ledger_keys_def comp_def)

lemma exec_inv_keys: "exec_inv db \<Longrightarrow> keys_ok db"
  by (simp add: exec_inv_def keys_ok_def ledger_inv_def)

lemma ledger_eqI:
  "lg_orders l = lg_orders l' \<Longrightarrow> lg_runs l = lg_runs l' \<Longrightarrow> lg_workers l = lg_workers l'
    \<Longrightarrow> lg_profiles l = lg_profiles l' \<Longrightarrow> lg_leases l = lg_leases l' \<Longrightarrow> l = (l' :: ledger)"
  by simp

section \<open>Guarded updates seen through the abstraction\<close>

lemma map_view_update:
  assumes "\<And>r. r \<in> set rows \<Longrightarrow> P r = Q (v r)" and "\<And>r. r \<in> set rows \<Longrightarrow> P r \<Longrightarrow> v (f r) = g (v r)"
  shows "map v (update_where P f rows) = update_where Q g (map v rows)"
  using assms by (induction rows) auto

lemma guarded_by_key:
  assumes "distinct (map key rows)" and "affected_one (\<lambda>r. key r = k \<and> Q r) rows"
  shows "\<exists>r \<in> set rows. key r = k \<and> Q r" and "r \<in> set rows \<Longrightarrow> key r = k \<Longrightarrow> Q r"
proof -
  have "\<exists>r. find (\<lambda>r. key r = k) rows = Some r \<and> Q r"
    using assms(2) unfolding affected_one_def rowcount_key_one [OF assms(1)] .
  then show ex: "\<exists>r \<in> set rows. key r = k \<and> Q r" using find_key_Some by metis
  then show "Q r" if "r \<in> set rows" "key r = k" using that assms(1) key_unique by metis
qed

lemma affected_one_key:
  assumes "distinct (map key rows)"
  shows "affected_one (\<lambda>r. key r = k \<and> Q r) rows \<longleftrightarrow> (\<exists>r \<in> set rows. key r = k \<and> Q r)"
proof
  assume "affected_one (\<lambda>r. key r = k \<and> Q r) rows"
  then show "\<exists>r \<in> set rows. key r = k \<and> Q r" by (rule guarded_by_key [OF assms])
next
  assume "\<exists>r \<in> set rows. key r = k \<and> Q r"
  then show "affected_one (\<lambda>r. key r = k \<and> Q r) rows"
    unfolding affected_one_def rowcount_key_one [OF assms] find_key_iff [OF assms] by blast
qed

lemma view_guarded:
  assumes "distinct (map key rows)" and "affected_one (\<lambda>r. key r = k \<and> Q r) rows"
    and "\<And>r. key' (v r) = key r" and "\<And>r. r \<in> set rows \<Longrightarrow> key r = k \<Longrightarrow> Q r \<Longrightarrow> v (f r) = g (v r)"
  shows "map v (update_where (\<lambda>r. key r = k \<and> Q r) f rows) = update_where (\<lambda>r. key' r = k) g (map v rows)"
  by (rule map_view_update) (use assms guarded_by_key(2) [OF assms(1,2)] in auto)

lemma update_where_same: "(\<And>r. r \<in> set rows \<Longrightarrow> P r \<Longrightarrow> f r = r) \<Longrightarrow> update_where P f rows = rows"
  by (induction rows) auto

lemma view_unchanged:
  assumes "\<And>r. r \<in> set rows \<Longrightarrow> P r \<Longrightarrow> v (f r) = v r"
  shows "map v (update_where P f rows) = map v rows"
  using assms by (induction rows) auto

lemma update_where_twice:
  assumes "\<And>r. P (f r) = P r"
  shows "update_where P g (update_where P f rows) = update_where P (\<lambda>r. g (f r)) rows"
  using assms by (induction rows) auto

lemma set_v_fuse:
  "(\<And>w. vo_id (f w) = vo_id w) \<Longrightarrow> set_vorder i g (set_vorder i f l) = set_vorder i (\<lambda>w. g (f w)) l"
  "(\<And>r. vr_id (f' r) = vr_id r) \<Longrightarrow> set_vrun k g' (set_vrun k f' l) = set_vrun k (\<lambda>r. g' (f' r)) l"
  "set_vrun k f' (set_vorder i g l) = set_vorder i g (set_vrun k f' l)"
  by (simp_all add: set_vorder_def set_vrun_def update_where_twice)

text \<open>Each guarded statement, when it affects one row, rewrites the entry with that key.\<close>

lemma orders_step:
  assumes "keys_ok db" and "update_orders db (\<lambda>w. o_id w = i \<and> Q w) f = (db', True)"
    and "\<And>w. w \<in> set (orders db) \<Longrightarrow> o_id w = i \<Longrightarrow> Q w \<Longrightarrow> order_entry_of (f w) = g (order_entry_of w)"
  shows "ledger_of db' = set_vorder i g (ledger_of db)"
  using assms view_guarded [of o_id "orders db" i Q vo_id order_entry_of f g]
  by (auto simp: update_orders_def keys_iff intro!: ledger_eqI)

lemma runs_step:
  assumes "keys_ok db" and "update_runs db (\<lambda>r. r_id r = k \<and> Q r) f = (db', True)"
    and "\<And>r. r \<in> set (runs db) \<Longrightarrow> r_id r = k \<Longrightarrow> Q r \<Longrightarrow> run_entry_of (f r) = g (run_entry_of r)"
  shows "ledger_of db' = set_vrun k g (ledger_of db)"
  using assms view_guarded [of r_id "runs db" k Q vr_id run_entry_of f g]
  by (auto simp: update_runs_def keys_iff intro!: ledger_eqI)

lemma workers_step:
  assumes "keys_ok db" and "update_workers db (\<lambda>w. w_worker_id w = i \<and> Q w) f = (db', True)"
    and "\<And>w. worker_entry_of (f w) = (worker_entry_of w)\<lparr>vw_count := w_active_run_count w + n\<rparr>"
  shows "ledger_of db' = add_count i n (ledger_of db)"
  using assms view_guarded [of w_worker_id "workers db" i Q vw_id worker_entry_of f "\<lambda>w. w\<lparr>vw_count := vw_count w + n\<rparr>"]
  by (auto simp: update_workers_def keys_iff intro!: ledger_eqI)

lemma profiles_step:
  assumes "keys_ok db" and "update_profiles db (\<lambda>p. q_worker_id p = i \<and> Q p) f = (db', True)"
    and "\<And>p. p \<in> set (profiles db) \<Longrightarrow> q_worker_id p = i \<Longrightarrow> Q p
      \<Longrightarrow> profile_entry_of (f p) = g (profile_entry_of p)"
  shows "ledger_of db' = (ledger_of db)\<lparr>lg_profiles := update_where (\<lambda>p. vp_id p = i) g (lg_profiles (ledger_of db))\<rparr>"
  using assms view_guarded [of q_worker_id "profiles db" i Q vp_id profile_entry_of f g]
  by (auto simp: update_profiles_def keys_iff intro!: ledger_eqI)

lemma keys_preserved:
  "(\<And>w. vo_id (g w) = vo_id w) \<Longrightarrow> ledger_keys (set_vorder i g l) = ledger_keys l"
  "(\<And>r. vr_id (h r) = vr_id r) \<Longrightarrow> ledger_keys (set_vrun i h l) = ledger_keys l"
  "ledger_keys (add_count j n l) = ledger_keys l" "ledger_keys (add_remaining j n l) = ledger_keys l"
  by (simp_all add: ledger_keys_def map_update_where)

section \<open>Consuming a lease\<close>

lemma snapshot_entry_inject: "lease_entry_of x = snapshot_entry s \<longleftrightarrow> snapshot_of x = s"
  by (cases s) (auto simp: lease_entry_of_def snapshot_entry_def snapshot_of_def)

lemma distinct_snapshots: "keys_ok db \<Longrightarrow> distinct (map snapshot_of (xleases db))"
  by (auto simp: keys_iff distinct_map snapshot_of_def intro!: inj_onI dest: inj_onD)

lemma consume_lease_step:
  assumes "keys_ok db" and "consume_lease db s now g = (db', True)"
  shows "snapshot_entry s \<in> set (lg_leases (ledger_of db))"
    and "ledger_of db' = (ledger_of db)\<lparr>lg_leases := delete_where (\<lambda>y. y = snapshot_entry s) (lg_leases (ledger_of db))\<rparr>"
proof -
  let ?P = "\<lambda>x. snapshot_of x = s \<and> lease_guard_holds g now x"
  from assms(2) have one: "affected_one ?P (xleases db)" and db': "db' = db\<lparr>xleases := delete_where ?P (xleases db)\<rparr>"
    by (auto simp: consume_lease_def Let_def)
  note held = guarded_by_key [OF distinct_snapshots [OF assms(1)] one]
  from held(1) show "snapshot_entry s \<in> set (lg_leases (ledger_of db))"
    by (auto simp: image_iff snapshot_entry_inject [symmetric] intro: bexI [rotated])
  have "?P x \<longleftrightarrow> lease_entry_of x = snapshot_entry s" if "x \<in> set (xleases db)" for x
    using held(2) that by (auto simp: snapshot_entry_inject)
  then have "map lease_entry_of (delete_where ?P (xleases db))
      = delete_where (\<lambda>y. y = snapshot_entry s) (map lease_entry_of (xleases db))"
    by (simp add: delete_where_def filter_map comp_def cong: filter_cong)
  then show "ledger_of db' = (ledger_of db)\<lparr>lg_leases := delete_where (\<lambda>y. y = snapshot_entry s) (lg_leases (ledger_of db))\<rparr>"
    by (simp add: db' ledger_of_def)
qed

section \<open>Quota reservations\<close>

definition quota_moved :: "quota_state \<Rightarrow> int \<Rightarrow> int \<Rightarrow> ledger \<Rightarrow> ledger" where
  "quota_moved s k i l =
     set_vorder i (\<lambda>w. w\<lparr>vo_quota := map_option (move_vquota s) (vo_quota w)\<rparr>)
       (set_vrun k (\<lambda>r. r\<lparr>vr_quota := move_vquota s (vr_quota r)\<rparr>) l)"

lemma move_reservation_step:
  assumes "keys_ok db" and "move_reservation db k i s = (db', True)"
  shows "ledger_of db' = quota_moved s k i (ledger_of db)"
proof -
  from assms(2) obtain db1 where
    1: "update_runs db (\<lambda>r. r_id r = k \<and> rr_quota_state (r_route r) = QUOTA_RESERVED) (set_run_quota s) = (db1, True)"
    and 2: "update_orders db1 (\<lambda>w. o_id w = i \<and> or_quota_state (o_route w) = Some QUOTA_RESERVED) (set_order_quota s) = (db', True)"
    by (auto simp: move_reservation_def Let_def split: prod.splits)
  have l1: "ledger_of db1 = set_vrun k (\<lambda>r. r\<lparr>vr_quota := move_vquota s (vr_quota r)\<rparr>) (ledger_of db)"
    by (rule runs_step [OF assms(1) 1]) (simp add: run_entry_of_def set_run_quota_def move_vquota_def)
  then have "keys_ok db1" using assms(1) by (simp add: keys_ok_def keys_preserved)
  then show ?thesis
    unfolding quota_moved_def l1 [symmetric]
    by (rule orders_step [OF _ 2]) (simp add: order_entry_of_def set_order_quota_def move_vquota_def)
qed

lemma quota_moved_idle:
  assumes "\<And>r. r \<in> set (lg_runs l) \<Longrightarrow> vr_id r = k \<Longrightarrow> vr_quota r \<noteq> QUOTA_RESERVED"
    and "\<And>w. w \<in> set (lg_orders l) \<Longrightarrow> vo_id w = i \<Longrightarrow> vo_quota w \<noteq> Some QUOTA_RESERVED"
  shows "quota_moved s k i l = l"
proof -
  have "update_where (\<lambda>r. vr_id r = k) (\<lambda>r. r\<lparr>vr_quota := move_vquota s (vr_quota r)\<rparr>) (lg_runs l) = lg_runs l"
    by (rule update_where_same) (use assms(1) in \<open>auto simp: move_vquota_def\<close>)
  moreover have "update_where (\<lambda>w. vo_id w = i) (\<lambda>w. w\<lparr>vo_quota := map_option (move_vquota s) (vo_quota w)\<rparr>) (lg_orders l) = lg_orders l"
  proof (rule update_where_same)
    fix w assume "w \<in> set (lg_orders l)" "vo_id w = i"
    then have "vo_quota w \<noteq> Some QUOTA_RESERVED" by (rule assms(2))
    then have "map_option (move_vquota s) (vo_quota w) = vo_quota w" by (cases "vo_quota w") (auto simp: move_vquota_def)
    then show "w\<lparr>vo_quota := map_option (move_vquota s) (vo_quota w)\<rparr> = w" by simp
  qed
  ultimately show ?thesis by (simp add: quota_moved_def set_vorder_def set_vrun_def)
qed

text \<open>The quota columns of a run and of its order agree: what the invariant gives for a leased run.\<close>

definition quota_agrees :: "ledger \<Rightarrow> int \<Rightarrow> int \<Rightarrow> bool" where
  "quota_agrees l k i \<longleftrightarrow>
     (\<forall>r \<in> set (lg_runs l). vr_id r = k \<longrightarrow> (vr_quota r = QUOTA_RESERVED \<longrightarrow> 0 < vr_units r)
        \<and> (\<forall>w \<in> set (lg_orders l). vo_id w = i \<longrightarrow> vo_quota w = Some (vr_quota r)))"

lemma lease_quota_agrees:
  assumes "ledger_inv l" and "x \<in> set (lg_leases l)"
  shows "quota_agrees l (vl_run x) (vl_order x)"
  using assms lease_facts(6) [OF assms]
  by (auto simp: quota_agrees_def ledger_inv_def ledger_quota_def)

lemma quota_idle:
  assumes "quota_agrees l k i" and "r \<in> set (lg_runs l)" "vr_id r = k" "vr_quota r \<noteq> QUOTA_RESERVED"
    and "distinct (map vr_id (lg_runs l))"
  shows "quota_moved s k i l = l"
proof (rule quota_moved_idle)
  show "vr_quota r' \<noteq> QUOTA_RESERVED" if "r' \<in> set (lg_runs l)" "vr_id r' = k" for r'
    using that assms key_unique by metis
  show "vo_quota w \<noteq> Some QUOTA_RESERVED" if "w \<in> set (lg_orders l)" "vo_id w = i" for w
    using that assms by (auto simp: quota_agrees_def)
qed

lemma add_remaining_zero [simp]: "add_remaining j 0 l = l"
proof -
  have "update_where (\<lambda>p. vp_id p = j) (\<lambda>p. p\<lparr>vp_remaining := vp_remaining p + 0\<rparr>) (lg_profiles l) = lg_profiles l"
    by (rule update_where_same) simp
  then show ?thesis by (simp add: add_remaining_def)
qed

lemma find_run_entry:
  assumes "find_run db k = Some r"
  shows "run_entry_of r \<in> set (lg_runs (ledger_of db))" "r_id r = k" "r \<in> set (runs db)"
  using assms find_key_Some [of r_id k "runs db" r] by (auto simp: find_run_def)

lemma release_quota_step:
  assumes keys: "keys_ok db" and rel: "release_run_quota_reservation db k i j = (db', True)"
    and agree: "quota_agrees (ledger_of db) k i"
  obtains r where "find_run db k = Some r"
    "ledger_of db' = quota_moved QUOTA_RELEASED k i (add_remaining j
       (if rr_quota_state (r_route r) = QUOTA_RESERVED then rr_reserved_quota_units (r_route r) else 0) (ledger_of db))"
proof -
  from rel obtain r where r: "find_run db k = Some r"
    by (auto simp: release_run_quota_reservation_def split: option.splits)
  note e = find_run_entry [OF r]
  have dist: "distinct (map vr_id (lg_runs (ledger_of db)))" using keys by (simp add: keys_ok_def ledger_keys_def)
  show thesis
  proof (cases "rr_quota_state (r_route r) = QUOTA_RESERVED")
    case False
    then have "db' = db" using rel r by (cases "rr_quota_state (r_route r)") (auto simp: release_run_quota_reservation_def)
    then show ?thesis
      using that [OF r] False quota_idle [OF agree e(1) _ _ dist] e(2) by simp
  next
    case True
    let ?u = "rr_reserved_quota_units (r_route r)"
    have pos: "0 < ?u" using agree e True by (auto simp: quota_agrees_def)
    from rel r True pos obtain db1 where
      1: "update_profiles db (\<lambda>p. q_worker_id p = j \<and> q_revision p < MAX_ROUTING_REVISION \<and> q_remaining p \<le> q_capacity p - ?u)
            (return_quota ?u) = (db1, True)"
      and 2: "move_reservation db1 k i QUOTA_RELEASED = (db', True)"
      by (auto simp: release_run_quota_reservation_def Let_def split: prod.splits if_splits)
    have l1: "ledger_of db1 = add_remaining j ?u (ledger_of db)"
      unfolding add_remaining_def
      by (rule profiles_step [OF keys 1]) (simp add: profile_entry_of_def return_quota_def)
    then have "keys_ok db1" using keys by (simp add: keys_ok_def keys_preserved)
    from move_reservation_step [OF this 2] l1 that [OF r] True show ?thesis by simp
  qed
qed

lemma consume_quota_step:
  assumes keys: "keys_ok db" and con: "consume_run_quota_reservation db k i = (db', True)"
    and agree: "quota_agrees (ledger_of db) k i"
  shows "ledger_of db' = quota_moved QUOTA_CONSUMED k i (ledger_of db)"
proof -
  from con obtain r where r: "find_run db k = Some r"
    by (auto simp: consume_run_quota_reservation_def split: option.splits)
  note e = find_run_entry [OF r]
  have dist: "distinct (map vr_id (lg_runs (ledger_of db)))" using keys by (simp add: keys_ok_def ledger_keys_def)
  show ?thesis
  proof (cases "rr_quota_state (r_route r) = QUOTA_RESERVED")
    case False
    then have "db' = db" using con r
      by (cases "rr_quota_state (r_route r)") (auto simp: consume_run_quota_reservation_def)
    then show ?thesis using False quota_idle [OF agree e(1) _ _ dist] e(2) by simp
  next
    case True
    with con r have "move_reservation db k i QUOTA_CONSUMED = (db', True)" by (simp add: consume_run_quota_reservation_def)
    then show ?thesis by (rule move_reservation_step [OF keys])
  qed
qed

section \<open>Retiring and starting a leased run\<close>

lemma update_swap:
  "w\<lparr>vo_quota := q, vo_status := a\<rparr> = (w :: order_entry)\<lparr>vo_status := a, vo_quota := q\<rparr>"
  "r\<lparr>vr_quota := p, vr_status := b\<rparr> = (r :: run_entry)\<lparr>vr_status := b, vr_quota := p\<rparr>"
  by simp_all

lemma retire_fused:
  "add_count (vl_worker x) (- 1)
     (set_vorder (vl_order x) (\<lambda>w. w\<lparr>vo_status := os\<rparr>)
       (set_vrun (vl_run x) (\<lambda>r. r\<lparr>vr_status := rs\<rparr>)
         (quota_moved QUOTA_RELEASED (vl_run x) (vl_order x)
           (add_remaining (vl_worker x) units (l\<lparr>lg_leases := delete_where (\<lambda>y. y = x) (lg_leases l)\<rparr>)))))
   = lg_retire l x units rs os"
  by (simp add: quota_moved_def lg_retire_def set_v_fuse update_swap)

lemma start_fused:
  "set_vorder (vl_order x) (\<lambda>w. w\<lparr>vo_status := WO_RUNNING\<rparr>)
     (set_vrun (vl_run x) (\<lambda>r. r\<lparr>vr_status := RUN_RUNNING\<rparr>) (quota_moved QUOTA_CONSUMED (vl_run x) (vl_order x) l))
   = lg_start l x"
  by (simp add: quota_moved_def lg_start_def set_v_fuse update_swap)

lemma quota_agrees_frame:
  "lg_runs l' = lg_runs l \<Longrightarrow> lg_orders l' = lg_orders l \<Longrightarrow> quota_agrees l' k i = quota_agrees l k i"
  by (simp add: quota_agrees_def)

lemma keys_delete: "ledger_keys l \<Longrightarrow> ledger_keys (l\<lparr>lg_leases := delete_where P (lg_leases l)\<rparr>)"
  by (simp add: ledger_keys_def map_delete_where_distinct)

lemma keys_quota_moved: "ledger_keys (quota_moved s k i l) = ledger_keys l"
  by (simp add: quota_moved_def keys_preserved)

lemma retire_refines:
  assumes inv: "exec_inv db"
    and 1: "consume_lease db s now g = (db1, True)"
    and 2: "release_run_quota_reservation db1 (ls_run_id s) (ls_work_order_id s) (ls_worker_id s) = (db2, True)"
    and 3: "finish_active_run db2 (ls_run_id s) f = (db3, True)"
    and 4: "update_orders db3 (\<lambda>w. o_id w = ls_work_order_id s \<and> order_active (o_status w)) h = (db4, True)"
    and 5: "release_worker_capacity db4 (ls_worker_id s) = (db5, True)"
    and f: "\<And>r. run_entry_of (f r) = (run_entry_of r)\<lparr>vr_status := rs\<rparr>"
    and h: "\<And>w. order_entry_of (h w) = (order_entry_of w)\<lparr>vo_status := os\<rparr>"
    and st: "is_terminal_run rs" "order_exit os"
  shows "ledger_step (ledger_of db) (RetireRun (ls_run_id s) rs os) (ledger_of db5)"
proof -
  let ?l = "ledger_of db" and ?x = "snapshot_entry s"
  have l: "ledger_inv ?l" using inv by (simp add: exec_inv_def)
  note keys = exec_inv_keys [OF inv]
  note c = consume_lease_step [OF keys 1]
  have k1: "keys_ok db1" using keys keys_delete [of ?l] unfolding keys_ok_def c(2) by blast
  have "quota_agrees ?l (ls_run_id s) (ls_work_order_id s)" using lease_quota_agrees [OF l c(1)] by simp
  then have "quota_agrees (ledger_of db1) (ls_run_id s) (ls_work_order_id s)"
    using quota_agrees_frame [of "ledger_of db1" ?l] by (simp add: c(2))
  from release_quota_step [OF k1 2 this] obtain r where r: "find_run db1 (ls_run_id s) = Some r"
    and l2: "ledger_of db2 = quota_moved QUOTA_RELEASED (ls_run_id s) (ls_work_order_id s) (add_remaining (ls_worker_id s)
       (if rr_quota_state (r_route r) = QUOTA_RESERVED then rr_reserved_quota_units (r_route r) else 0) (ledger_of db1))"
    by metis
  have k2: "keys_ok db2" using k1 by (simp add: keys_ok_def l2 keys_quota_moved keys_preserved)
  have l3: "ledger_of db3 = set_vrun (ls_run_id s) (\<lambda>r. r\<lparr>vr_status := rs\<rparr>) (ledger_of db2)"
    by (rule runs_step [OF k2 3 [unfolded finish_active_run_def]]) (rule f)
  then have k3: "keys_ok db3" using k2 by (simp add: keys_ok_def keys_preserved)
  have l4: "ledger_of db4 = set_vorder (ls_work_order_id s) (\<lambda>w. w\<lparr>vo_status := os\<rparr>) (ledger_of db3)"
    by (rule orders_step [OF k3 4]) (rule h)
  then have k4: "keys_ok db4" using k3 by (simp add: keys_ok_def keys_preserved)
  have l5: "ledger_of db5 = add_count (ls_worker_id s) (- 1) (ledger_of db4)"
    by (rule workers_step [OF k4 5 [unfolded release_worker_capacity_def]]) (simp add: worker_entry_of_def free_slot_def)
  have "ledger_of db5 = lg_retire ?l ?x
      (if rr_quota_state (r_route r) = QUOTA_RESERVED then rr_reserved_quota_units (r_route r) else 0) rs os"
    by (simp only: l5 l4 l3 l2 c(2) retire_fused [symmetric] entry_simps)
  moreover have "run_entry_of r \<in> set (lg_runs ?l)" "r_id r = ls_run_id s"
    using find_run_entry [OF r] by (simp_all add: c(2))
  ultimately show ?thesis
    using ledger_step.retire [OF c(1), of "run_entry_of r" rs os] st by (simp cong: if_cong)
qed

lemma renew_lease_entries:
  assumes "renew_owned_live_lease db k j now e = (db', ok)"
  shows "ledger_of db' = ledger_of db"
  using assms by (auto simp: renew_owned_live_lease_def Let_def ledger_of_def lease_entry_of_def intro!: view_unchanged)

lemma snapshot_for_run:
  assumes "get_lease_snapshot_for_run db k = Some s"
  shows "snapshot_entry s \<in> set (lg_leases (ledger_of db))" "ls_run_id s = k"
  using assms find_key_Some [of x_run_id k "xleases db"]
  by (auto simp: get_lease_snapshot_for_run_def get_lease_for_run_def snapshot_of_def image_iff lease_entry_of_def snapshot_entry_def)

lemma heartbeat_run_refines:
  assumes inv: "exec_inv db" and hb: "heartbeat_run env db now k j = Inr (db', r)"
  shows "ledger_step (ledger_of db) (StartRun k) (ledger_of db')"
proof -
  let ?l = "ledger_of db"
  have l: "ledger_inv ?l" using inv by (simp add: exec_inv_def)
  let ?e = "now + seconds (env_lease_seconds env)"
  from hb obtain s db1 db2 db3 where s: "get_lease_snapshot_for_run db k = Some s"
    and 1: "renew_owned_live_lease db k j now ?e = (db1, True)"
    and 2: "consume_run_quota_reservation db1 k (ls_work_order_id s) = (db2, True)"
    and 3: "mark_active_run_running db2 k now ?e = (db3, True)"
    and 4: "mark_active_work_order_running db3 (ls_work_order_id s) now = (db', True)"
    by (auto simp: heartbeat_run_def result_simps Let_def split: option.splits if_splits prod.splits)
  note x = snapshot_for_run [OF s]
  note l1 = renew_lease_entries [OF 1]
  have k1: "keys_ok db1" using exec_inv_keys [OF inv] by (simp add: keys_ok_def l1)
  have "quota_agrees (ledger_of db1) k (ls_work_order_id s)" using lease_quota_agrees [OF l x(1)] x(2) by (simp add: l1)
  note l2 = consume_quota_step [OF k1 2 this]
  have k2: "keys_ok db2" using k1 by (simp add: keys_ok_def l2 keys_quota_moved)
  have l3: "ledger_of db3 = set_vrun k (\<lambda>r. r\<lparr>vr_status := RUN_RUNNING\<rparr>) (ledger_of db2)"
    by (rule runs_step [OF k2 3 [unfolded mark_active_run_running_def]])
      (auto simp: run_entry_of_def start_run_def run_active_def)
  then have k3: "keys_ok db3" using k2 by (simp add: keys_ok_def keys_preserved)
  have l4: "ledger_of db' = set_vorder (ls_work_order_id s) (\<lambda>w. w\<lparr>vo_status := WO_RUNNING\<rparr>) (ledger_of db3)"
    by (rule orders_step [OF k3 4 [unfolded mark_active_work_order_running_def]])
      (auto simp: order_entry_of_def run_order_def order_active_def)
  have "ledger_of db' = lg_start ?l (snapshot_entry s)"
    by (simp only: l4 l3 l2 l1 start_fused [symmetric] entry_simps x(2))
  then show ?thesis using ledger_step.start [OF x(1)] x(2) by simp
qed

section \<open>Claiming a queued order\<close>

lemma reserve_capacity_step:
  assumes "keys_ok db" and "reserve_worker_capacity db j = (db', True)"
  shows "ledger_of db' = add_count j 1 (ledger_of db)"
    and "\<exists>v \<in> set (workers db). w_worker_id v = j \<and> w_status v = W_ONLINE \<and> w_active_run_count v < w_max_concurrency v"
proof -
  show "ledger_of db' = add_count j 1 (ledger_of db)"
    by (rule workers_step [OF assms(1) assms(2) [unfolded reserve_worker_capacity_def]])
      (simp add: worker_entry_of_def take_slot_def)
  show "\<exists>v \<in> set (workers db). w_worker_id v = j \<and> w_status v = W_ONLINE \<and> w_active_run_count v < w_max_concurrency v"
    by (rule guarded_by_key(1)) (use assms in \<open>auto simp: keys_iff reserve_worker_capacity_def update_workers_def\<close>)
qed

lemma claim_quota_step:
  assumes keys: "keys_ok db" and cq: "claim_quota db j profile units = Some (db', c)" and pos: "0 \<le> units"
  shows "ledger_of db' = add_remaining j (- qc_units c) (ledger_of db)"
    and "qc_state c = claim_quota_state (qc_units c)" and "0 \<le> qc_units c"
    and "qc_units c = 0 \<or> (\<exists>p \<in> set (lg_profiles (ledger_of db)). vp_id p = j \<and> qc_units c \<le> vp_remaining p)"
    and "qc_units c = (if profile = None then 0 else units)"
proof -
  have "ledger_of db' = add_remaining j (- qc_units c) (ledger_of db)
      \<and> (qc_units c = 0 \<or> (\<exists>p \<in> set (lg_profiles (ledger_of db)). vp_id p = j \<and> qc_units c \<le> vp_remaining p))"
  proof (cases profile)
    case None
    then show ?thesis using cq by (auto simp: claim_quota_def)
  next
    case (Some p)
    let ?m = "MAX_ROUTING_REVISION - (if units \<noteq> 0 then 2 else 1)"
    from cq Some have 1: "update_profiles db (\<lambda>q. q_worker_id q = j \<and> q_enabled q \<and> q_revision q = q_revision p
          \<and> q_revision q \<le> ?m \<and> q_remaining q \<ge> units \<and> q_remaining q \<le> q_capacity q)
          (\<lambda>q. q\<lparr>q_remaining := q_remaining q - units, q_revision := q_revision p + 1\<rparr>) = (db', True)"
      and c: "qc_units c = units"
      by (auto simp: claim_quota_def reserve_routing_quota_def Let_def split: prod.splits if_splits option.splits)
    have "ledger_of db' = add_remaining j (- units) (ledger_of db)"
      unfolding add_remaining_def by (rule profiles_step [OF keys 1]) (simp add: profile_entry_of_def)
    moreover have "\<exists>q \<in> set (profiles db). q_worker_id q = j \<and> q_enabled q \<and> q_revision q = q_revision p
          \<and> q_revision q \<le> ?m \<and> q_remaining q \<ge> units \<and> q_remaining q \<le> q_capacity q"
      by (rule guarded_by_key(1)) (use keys 1 in \<open>auto simp: keys_iff update_profiles_def\<close>)
    ultimately show ?thesis by (auto simp: c)
  qed
  then show "ledger_of db' = add_remaining j (- qc_units c) (ledger_of db)"
    "qc_units c = 0 \<or> (\<exists>p \<in> set (lg_profiles (ledger_of db)). vp_id p = j \<and> qc_units c \<le> vp_remaining p)" by auto
  show "qc_state c = claim_quota_state (qc_units c)" "0 \<le> qc_units c" "qc_units c = (if profile = None then 0 else units)"
    using cq pos by (auto simp: claim_quota_def claim_quota_state_def split: option.splits prod.splits)
qed

lemma claim_order_step:
  assumes keys: "keys_ok db" and cl: "claim_queued_work_order db i now (Some route) = (db', True)"
  shows "ledger_of db' = set_vorder i (\<lambda>w. w\<lparr>vo_status := WO_ASSIGNED, vo_attempt := vo_attempt w + 1,
           vo_quota := or_quota_state route\<rparr>) (ledger_of db)"
    and "\<exists>w \<in> set (orders db). o_id w = i \<and> o_status w = WO_QUEUED \<and> find_order db' i = Some (assign_order now (Some route) w)"
proof -
  show "ledger_of db' = set_vorder i (\<lambda>w. w\<lparr>vo_status := WO_ASSIGNED, vo_attempt := vo_attempt w + 1,
           vo_quota := or_quota_state route\<rparr>) (ledger_of db)"
    by (rule orders_step [OF keys cl [unfolded claim_queued_work_order_def]])
      (simp add: order_entry_of_def assign_order_def)
  let ?Q = "\<lambda>w. o_status w = WO_QUEUED"
  have dist: "distinct (map o_id (orders db))" using keys by (simp add: keys_iff)
  have one: "affected_one (\<lambda>w. o_id w = i \<and> ?Q w) (orders db)"
    and db': "db' = db\<lparr>orders := update_where (\<lambda>w. o_id w = i \<and> ?Q w) (assign_order now (Some route)) (orders db)\<rparr>"
    using cl by (auto simp: claim_queued_work_order_def update_orders_def)
  from guarded_by_key(1) [OF dist one] obtain w where w: "w \<in> set (orders db)" "o_id w = i" "?Q w" by auto
  have "find_order db' i = Some (assign_order now (Some route) w)"
    using w find_key_iff [OF dist, of i w] by (simp add: db' find_order_def find_update_where assign_order_def)
  with w show "\<exists>w \<in> set (orders db). o_id w = i \<and> ?Q w \<and> find_order db' i = Some (assign_order now (Some route) w)" by blast
qed

text \<open>The two outcomes of a claim: the tables are untouched and nothing is assigned, or it went through.\<close>

lemma claim_routed_work_cases:
  assumes "claim_routed_work env run_id lease_id db j w profile n pin now = Inr (db', out)"
  obtains (conflict) "db' = db" "ck_run_id out = None" "ck_reason out \<noteq> None"
  | (claimed) db1 db2 c db3 w' run where
      "reserve_worker_capacity db j = (db1, True)"
      "claim_quota db1 j profile (oq_required_quota_units (o_request w)) = Some (db2, c)"
      "claim_queued_work_order db2 (o_id w) now (Some (order_route_of j c n pin now)) = (db3, True)"
      "find_order db3 (o_id w) = Some w'"
      "create_active_run db3 run_id lease_id w' j now (now + seconds (env_lease_seconds env))
         (Some (run_route_of (o_request w) c n pin now)) = Inr (db', run)"
      "out = \<lparr>ck_run_id = Some (r_id run), ck_work_order_id = Some (o_id w'), ck_reason = None, ck_mismatch_reasons = []\<rparr>"
proof -
  obtain db1 ok1 where 1: "reserve_worker_capacity db j = (db1, ok1)" by force
  obtain q where 2: "claim_quota db1 j profile (oq_required_quota_units (o_request w)) = q" by simp
  show thesis
  proof (cases "ok1 \<and> q \<noteq> None")
    case False
    then show ?thesis using assms 1 2 conflict by (cases q) (auto simp: claim_routed_work_def unassigned_def split: if_splits)
  next
    case True
    then obtain db2 c where q: "q = Some (db2, c)" by auto
    obtain db3 ok3 where 3: "claim_queued_work_order db2 (o_id w) now (Some (order_route_of j c n pin now)) = (db3, ok3)" by force
    show ?thesis
    proof (cases "ok3")
      case False
      then show ?thesis using assms True 1 2 3 q conflict by (auto simp: claim_routed_work_def unassigned_def)
    next
      case ok: True
      from assms True 1 2 3 q ok obtain w' where w': "find_order db3 (o_id w) = Some w'"
        by (auto simp: claim_routed_work_def split: option.splits)
      show ?thesis
      proof (cases "create_active_run db3 run_id lease_id w' j now (now + seconds (env_lease_seconds env))
          (Some (run_route_of (o_request w) c n pin now))")
        case (Inl e)
        then show ?thesis using assms True 1 2 3 q ok w' conflict by (auto simp: claim_routed_work_def unassigned_def)
      next
        case (Inr p)
        then obtain db4 run where p: "p = (db4, run)" by force
        show ?thesis using assms True 1 2 3 q ok w' Inr p claimed by (auto simp: claim_routed_work_def)
      qed
    qed
  qed
qed

lemma create_active_run_step:
  assumes "create_active_run db k x w j now e (Some route) = Inr (db', run)"
  shows "ledger_of db' = (ledger_of db)\<lparr>
      lg_runs := lg_runs (ledger_of db) @ [\<lparr>vr_id = k, vr_order = o_id w, vr_worker = j, vr_attempt = o_attempt_count w,
        vr_status = RUN_ASSIGNED, vr_units = rr_reserved_quota_units route, vr_quota = rr_quota_state route\<rparr>],
      lg_leases := lg_leases (ledger_of db) @ [\<lparr>vl_id = x, vl_order = o_id w, vl_run = k, vl_worker = j\<rparr>]\<rparr>"
    and "k \<notin> r_id ` set (runs db)" "x \<notin> x_id ` set (xleases db)" "k \<notin> x_run_id ` set (xleases db)"
    and "run = new_run_row k w j now e route"
  using assms
  by (auto simp: create_active_run_def Let_def ledger_of_def run_entry_of_def lease_entry_of_def new_run_row_def
      new_lease_row_def split: if_splits)

lemma claim_refines:
  assumes inv: "exec_inv db" and w: "w \<in> set (orders db)"
    and cl: "claim_routed_work env k x db j w profile n pin now = Inr (db', out)"
  shows "ck_run_id out = None \<and> db' = db
    \<or> ck_run_id out = Some k \<and> ck_work_order_id out = Some (o_id w)
      \<and> ledger_step (ledger_of db) (ClaimOrder (o_id w) j) (ledger_of db')"
  using cl
proof (cases rule: claim_routed_work_cases)
  case conflict
  then show ?thesis by simp
next
  case (claimed db1 db2 c db3 w' run)
  let ?l = "ledger_of db"
  have k0: "keys_ok db" by (rule exec_inv_keys [OF inv])
  note l1 = reserve_capacity_step [OF k0 claimed(1)]
  have k1: "keys_ok db1" using k0 by (simp add: keys_ok_def l1 keys_preserved)
  have pos: "0 \<le> oq_required_quota_units (o_request w)"
    using inv w by (auto simp: exec_inv_def ledger_inv_def ledger_attempts_def)
  note l2 = claim_quota_step [OF k1 claimed(2) pos]
  have k2: "keys_ok db2" using k1 by (simp add: keys_ok_def l2(1) keys_preserved)
  note l3 = claim_order_step [OF k2 claimed(3)]
  from l3(2) claimed(4) obtain v where v: "v \<in> set (orders db2)" "o_id v = o_id w" "o_status v = WO_QUEUED"
    and w': "w' = assign_order now (Some (order_route_of j c n pin now)) v" by auto
  note l4 = create_active_run_step [OF claimed(5)]
  have "map order_entry_of (orders db2) = map order_entry_of (orders db)"
    using arg_cong [OF l2(1), of lg_orders] arg_cong [OF l1(1), of lg_orders] by simp
  then have v_in: "order_entry_of v \<in> set (lg_orders ?l)" using v(1) by (metis image_eqI ledger_of_simps(1) list.set_map)
  have rs: "map run_entry_of (runs db3) = map run_entry_of (runs db)" "map lease_entry_of (xleases db3) = map lease_entry_of (xleases db)"
    using arg_cong [OF l3(1), of lg_runs] arg_cong [OF l2(1), of lg_runs] arg_cong [OF l1(1), of lg_runs]
      arg_cong [OF l3(1), of lg_leases] arg_cong [OF l2(1), of lg_leases] arg_cong [OF l1(1), of lg_leases] by simp_all
  have fresh: "k \<notin> vr_id ` set (lg_runs ?l)" "x \<notin> vl_id ` set (lg_leases ?l)" "k \<notin> vl_run ` set (lg_leases ?l)"
    unfolding ledger_of_simps rs [symmetric] using l4(2-4) by (simp_all add: image_image)
  have quota: "qc_units c = 0 \<or> (\<exists>p \<in> set (lg_profiles ?l). vp_id p = j \<and> qc_units c \<le> vp_remaining p)"
    using l2(4) by (simp add: l1(1))
  have worker: "j \<in> vw_id ` set (lg_workers ?l)" using l1(2) by (auto simp: image_image)
  have "ledger_of db' = lg_claim ?l (order_entry_of v) j k x (qc_units c)"
    unfolding l4(1) l3(1) l2(1) l1(1) lg_claim_def Let_def
    by (simp add: v(2) w' assign_order_def order_route_of_def run_route_of_def l2(2) [symmetric])
  then have "ledger_step ?l (ClaimOrder (o_id w) j) (ledger_of db')"
    using ledger_step.claim [OF v_in _ worker fresh l2(3) quota] v by simp
  moreover have "o_id w' = o_id w" by (simp add: w' assign_order_def v(2))
  ultimately show ?thesis using claimed(6) l4(5) by (simp add: new_run_row_def)
qed

end
