(* ===== verification/Execution_Reuse.thy ===== *)
theory Execution_Reuse
  imports Execution_Service
begin

text \<open>
  Exact result reuse and the evidence of a run: \<open>resolve_reuse_candidate\<close>,
  \<open>_validated_reuse_candidate\<close> and \<open>get_run_evidence\<close> of \<^verbatim>\<open>server/execution/service.py\<close>, and
  the reads of manifests.

  A stored document is read back through its Pydantic model: the validators of the repository are
  those of \<^verbatim>\<open>Evidence\<close>, the declared field constraints are \<open>env_fields_ok\<close>. A candidate that
  fails to validate is skipped, evidence that fails to validate is reported as malformed.
\<close>

section \<open>Reading documents back\<close>

definition valid_parsed_result :: "parsed_result \<Rightarrow> bool" where
  "valid_parsed_result r \<longleftrightarrow>
     validate_shape r = Inr ()
     \<and> (case pr_tests r of None \<Rightarrow> True | Some t \<Rightarrow> validate_total t)
     \<and> (case pr_coverage r of None \<Rightarrow> True | Some c \<Rightarrow> validate_line_pair c)"

definition valid_step :: "step_evidence \<Rightarrow> bool" where
  "valid_step s \<longleftrightarrow>
     validate_timing s \<and> list_all (\<lambda>p. validate_relative_path p = Inr p) (se_log_artifact_paths s)
     \<and> (case se_parsed_result s of None \<Rightarrow> True | Some r \<Rightarrow> valid_parsed_result r)"

definition valid_artifact :: "artifact_record \<Rightarrow> bool" where
  "valid_artifact a \<longleftrightarrow> validate_relative_path (ar_relative_path a) = Inr (ar_relative_path a)"

definition valid_lock_hash :: "dependency_lock_hash \<Rightarrow> bool" where
  "valid_lock_hash h \<longleftrightarrow> validate_relative_path (dl_relative_path h) = Inr (dl_relative_path h)"

definition valid_evidence :: "service_env \<Rightarrow> execution_evidence \<Rightarrow> bool" where
  "valid_evidence env e \<longleftrightarrow>
     (let d = ev_draft e
      in env_fields_ok env e \<and> list_all valid_step (ev_steps d) \<and> list_all valid_artifact (ev_artifacts d)
         \<and> list_all valid_lock_hash (ev_dependency_lock_hashes (ev_subject d))
         \<and> validate_repository_full_name (ev_repository_full_name (ev_subject d))
             = Inr (ev_repository_full_name (ev_subject d))
         \<and> (case ev_reuse_provenance d of None \<Rightarrow> True | Some p \<Rightarrow> validate_source_pair p = Inr ())
         \<and> validate_document d = Inr () \<and> validate_fingerprint (env_fingerprint env) e)"

definition valid_identity :: "reuse_identity \<Rightarrow> bool" where
  "valid_identity i \<longleftrightarrow> list_all valid_lock_hash (ri_dependency_lock_hashes i) \<and> validate_canonical_identity i = Inr ()"

definition get_run_evidence :: "service_env \<Rightarrow> exec_db \<Rightarrow> int \<Rightarrow> exec_error + execution_evidence" where
  "get_run_evidence env db run_id =
     rbind (get_run db run_id) (\<lambda>run.
       case rp_evidence_metadata (r_report run) of
         None \<Rightarrow> Inl (ExecutionNotFoundError ''execution_evidence_not_found'')
       | Some e \<Rightarrow> if valid_evidence env e then Inr e
                   else Inl (MalformedEvidenceError ''malformed_execution_evidence''))"

section \<open>Reuse candidates\<close>

text \<open>The source run and order must have succeeded fresh, and must still be within retention.\<close>

definition source_eligible ::
  "exec_db \<Rightarrow> time \<Rightarrow> time \<Rightarrow> run_row \<Rightarrow> order_row \<Rightarrow> bool" where
  "source_eligible db now retention run source \<longleftrightarrow>
     (case find_worker db (r_worker_id run) of
        None \<Rightarrow> False
      | Some v \<Rightarrow> oq_repository_full_name (o_request source) \<in> set (advertised_repositories v))
     \<and> o_status source = WO_SUCCEEDED \<and> o_finished_at source \<noteq> None
     \<and> r_status run = RUN_SUCCEEDED \<and> ru_decision (r_reuse run) = RD_FRESH
     \<and> ru_reused_from_run_id (r_reuse run) = None
     \<and> ru_source_evidence_fingerprint (r_reuse run) = None
     \<and> ru_candidate (r_reuse run) = None \<and> retention > now"

text \<open>The stored evidence must describe that run, and the identity must describe the evidence.\<close>

definition evidence_describes ::
  "service_env \<Rightarrow> run_row \<Rightarrow> order_row \<Rightarrow> time \<Rightarrow> reuse_identity \<Rightarrow> reuse_identity \<Rightarrow> execution_evidence \<Rightarrow> bool" where
  "evidence_describes env run source retention stored expected e \<longleftrightarrow>
     (let d = ev_draft e; subject = ev_subject d
      in stored = expected \<and> ru_identity_hash (r_reuse run) = Some (env_identity_hash env stored)
         \<and> ev_fingerprint e \<noteq> [] \<and> ev_run_id subject = r_id run \<and> ev_work_order_id subject = o_id source
         \<and> ev_worker_id subject = r_worker_id run \<and> ev_terminal_status d = ''succeeded''
         \<and> ev_artifacts d = rp_artifact_metadata (r_report run)
         \<and> list_all (\<lambda>a. ar_retention_expires_at a = retention) (rp_artifact_metadata (r_report run))
         \<and> (case ev_reuse_provenance d of
              None \<Rightarrow> False
            | Some p \<Rightarrow> rp_decision p = ''fresh'' \<and> rp_source_run_id p = None
                \<and> rp_source_evidence_fingerprint p = None
                \<and> Some (rp_reuse_identity_hash p) = ru_identity_hash (r_reuse run))
         \<and> ri_repository_full_name stored = ev_repository_full_name subject
         \<and> ri_tested_sha stored = ev_tested_sha subject
         \<and> ri_manifest_name stored = ev_manifest_name subject
         \<and> ri_manifest_version stored = ev_manifest_version subject
         \<and> ri_manifest_digest stored = ev_manifest_digest subject
         \<and> ri_worker_environment_fingerprint stored = ei_fingerprint (ev_environment subject)
         \<and> ri_dependency_lock_hashes stored = ev_dependency_lock_hashes subject)"

definition candidate_of :: "run_row \<Rightarrow> time \<Rightarrow> reuse_identity \<Rightarrow> string \<Rightarrow> execution_evidence \<Rightarrow> reuse_candidate" where
  "candidate_of run retention stored identity_hash e =
     \<lparr>cand_source_run_id = r_id run, cand_expected_source_worker_id = r_worker_id run,
      cand_expected_source_evidence_fingerprint = ev_fingerprint e, cand_reuse_identity = stored,
      cand_reuse_identity_hash = identity_hash, cand_source_created_at = ev_started_at (ev_draft e),
      cand_retention_expires_at = retention, cand_artifacts = rp_artifact_metadata (r_report run)\<rparr>"

definition validated_reuse_candidate ::
  "service_env \<Rightarrow> exec_db \<Rightarrow> run_row \<Rightarrow> order_row \<Rightarrow> reuse_identity \<Rightarrow> time \<Rightarrow> reuse_candidate option" where
  "validated_reuse_candidate env db run source expected now =
     (case (rp_evidence_metadata (r_report run), ru_identity (r_reuse run),
            ru_retention_expires_at (r_reuse run), r_finished_at run) of
        (Some e, Some stored, Some expiry, Some _) \<Rightarrow>
          let retention = utc_naive expiry
          in if \<not> valid_evidence env e \<or> \<not> valid_identity stored
                \<or> \<not> list_all valid_artifact (rp_artifact_metadata (r_report run)) then None
             else if \<not> source_eligible db now retention run source
                \<or> \<not> evidence_describes env run source retention stored expected e then None
             else (case ru_identity_hash (r_reuse run) of
                None \<Rightarrow> None
              | Some h \<Rightarrow>
                  let c = candidate_of run retention stored h e
                  in if validate_candidate (env_identity_hash env) c = Inr () then Some c else None)
      | _ \<Rightarrow> None)"

fun first_candidate ::
  "service_env \<Rightarrow> exec_db \<Rightarrow> reuse_identity \<Rightarrow> time \<Rightarrow> (run_row \<times> order_row) list \<Rightarrow> reuse_candidate option" where
  "first_candidate env db expected now [] = None"
| "first_candidate env db expected now ((run, source) # rest) =
     (case validated_reuse_candidate env db run source expected now of
        Some c \<Rightarrow> Some c | None \<Rightarrow> first_candidate env db expected now rest)"

record reuse_candidate_result =
  rs_decision :: reuse_decision
  rs_reason :: string
  rs_candidate :: "reuse_candidate option"

definition live_owned_lease :: "exec_db \<Rightarrow> time \<Rightarrow> int \<Rightarrow> string \<Rightarrow> lease_snapshot option" where
  "live_owned_lease db now run_id worker_id =
     (case (get_lease_snapshot_for_run db run_id, get_lease_for_run db run_id) of
        (Some s, Some x) \<Rightarrow>
          if ls_worker_id s \<noteq> worker_id \<or> x_worker_id x \<noteq> worker_id \<or> x_expires_at x < now then None else Some s
      | _ \<Rightarrow> None)"

definition record_candidate :: "reuse_identity \<Rightarrow> string \<Rightarrow> reuse_candidate_result \<Rightarrow> run_reuse \<Rightarrow> run_reuse" where
  "record_candidate identity identity_hash result u =
     u\<lparr>ru_identity := Some identity, ru_identity_hash := Some identity_hash,
       ru_decision := rs_decision result, ru_reason := Some (rs_reason result),
       ru_candidate := rs_candidate result\<rparr>"

definition resolve_reuse_candidate ::
  "service_env \<Rightarrow> exec_db \<Rightarrow> time \<Rightarrow> int \<Rightarrow> string \<Rightarrow> reuse_identity \<Rightarrow> string
    \<Rightarrow> exec_error + exec_db \<times> reuse_candidate_result" where
  "resolve_reuse_candidate env db now run_id worker_id identity identity_hash =
     (if env_identity_hash env identity \<noteq> identity_hash
      then Inl (LifecycleConflictError ''reuse_identity_hash_mismatch'')
      else case live_owned_lease db now run_id worker_id of
        None \<Rightarrow> Inl (OwnershipConflictError ''execution_lease_not_owned'')
      | Some s \<Rightarrow>
          rbind (get_work_order db (ls_work_order_id s)) (\<lambda>w.
          if oq_reuse_policy (o_request w) = REUSE_NEVER
          then Inl (LifecycleConflictError ''reuse_policy_never'')
          else rbind (validate_reuse_identity env w identity) (\<lambda>_.
            let selected = first_candidate env db identity now
                  (list_exact_reuse_candidates db w worker_id identity_hash run_id);
                result =
                  \<lparr>rs_decision = (if selected \<noteq> None then RD_CANDIDATE_AVAILABLE else RD_UNAVAILABLE),
                   rs_reason = (if selected \<noteq> None then ''exact_candidate_available'' else ''exact_candidate_not_found''),
                   rs_candidate = selected\<rparr>
            in case update_active_run_reuse db run_id (record_candidate identity identity_hash result) of
                 (db', updated) \<Rightarrow>
                   if \<not> updated then Inl (OwnershipConflictError ''execution_lease_not_owned'')
                   else Inr (db', result))))"

section \<open>Manifests\<close>

definition list_manifests_service ::
  "service_env \<Rightarrow> (trusted_manifest \<Rightarrow> int) \<Rightarrow> exec_db \<Rightarrow> exec_error + exec_db \<times> manifest_row list" where
  "list_manifests_service env ids db =
     rbind (sync_trusted_manifests env ids db) (\<lambda>(db', _). Inr (db', list_manifests db'))"

definition get_manifest ::
  "service_env \<Rightarrow> (trusted_manifest \<Rightarrow> int) \<Rightarrow> exec_db \<Rightarrow> string \<Rightarrow> string \<Rightarrow> exec_error + exec_db \<times> manifest_row" where
  "get_manifest env ids db name version =
     rbind (sync_trusted_manifests env ids db) (\<lambda>(db', _).
       case get_manifest_row db' name version of
         None \<Rightarrow> Inl (ExecutionNotFoundError ''command_manifest_not_found'')
       | Some m \<Rightarrow> Inr (db', m))"

section \<open>What a selected candidate guarantees\<close>

lemma validated_candidate_facts:
  assumes "validated_reuse_candidate env db run source expected now = Some c"
  shows "cand_source_run_id c = r_id run" "cand_expected_source_worker_id c = r_worker_id run"
    "cand_reuse_identity c = expected" "cand_reuse_identity_hash c = env_identity_hash env expected"
    "now < cand_retention_expires_at c" "r_status run = RUN_SUCCEEDED" "ru_decision (r_reuse run) = RD_FRESH"
    "o_status source = WO_SUCCEEDED" "ru_reused_from_run_id (r_reuse run) = None"
    "list_all (\<lambda>a. ar_retention_expires_at a = cand_retention_expires_at c) (cand_artifacts c)"
    "\<exists>e. rp_evidence_metadata (r_report run) = Some e \<and> valid_evidence env e
       \<and> ev_fingerprint e = cand_expected_source_evidence_fingerprint c
       \<and> ev_run_id (ev_subject (ev_draft e)) = r_id run \<and> ev_artifacts (ev_draft e) = cand_artifacts c"
  using assms
  by (auto simp: validated_reuse_candidate_def source_eligible_def evidence_describes_def candidate_of_def
      Let_def split: option.splits if_splits)

lemma first_candidate_Some:
  assumes "first_candidate env db expected now sources = Some c"
  shows "\<exists>(run, source) \<in> set sources. validated_reuse_candidate env db run source expected now = Some c"
  using assms by (induction sources) (auto split: option.splits)

lemma first_candidate_None:
  "first_candidate env db expected now sources = None
    \<longleftrightarrow> (\<forall>(run, source) \<in> set sources. validated_reuse_candidate env db run source expected now = None)"
  by (induction sources) (auto split: option.splits)

lemma exact_candidate_members:
  assumes "(run, source) \<in> set (list_exact_reuse_candidates db w worker_id h run_id)"
  shows "run \<in> set (runs db)" "source \<in> set (orders db)" "o_id source = r_work_order_id run"
    "r_id run \<noteq> run_id" "r_worker_id run = worker_id" "same_target (o_request source) (o_request w)"
  using assms by (auto simp: list_exact_reuse_candidates_def dest!: in_set_takeD)

end
