(* ===== verification/Execution_Api.thy ===== *)
theory Execution_Api
  imports Execution_Reuse
begin

text \<open>
  The request handlers of the execution plane: the administrator routes of
  \<^verbatim>\<open>server/api/routers/execution.py\<close> and the worker routes of
  \<^verbatim>\<open>server/api/routers/worker_execution.py\<close>.

  A handler calls the service inside the transaction of its request. A domain error rolls the
  transaction back and becomes an HTTP error; a success commits. \<open>respond\<close> is that frame. The
  authenticated principal of a worker route is the argument \<open>caller\<close>; authentication itself is
  done before the handler runs. \<open>tick\<close> holds what a request draws from outside: the readings of
  the clock and the primary keys the database assigns.
\<close>

record tick =
  tk_now :: time
  tk_now2 :: time
  tk_clock :: "nat \<Rightarrow> time"
  tk_manifest_ids :: "trusted_manifest \<Rightarrow> int"
  tk_manifest_id :: int
  tk_order_id :: int
  tk_run_id :: int
  tk_lease_id :: int

datatype 'a http = Reply 'a | HttpError int string

fun http_error :: "exec_error \<Rightarrow> 'a http" where
  "http_error (ExecutionNotFoundError m) = HttpError 404 m"
| "http_error (MalformedEvidenceError m) = HttpError 500 m"
| "http_error (UnknownManifestError m) = HttpError 422 m"
| "http_error (ManifestParameterError m) = HttpError 422 m"
| "http_error (RepositoryWritePolicyError m) = HttpError 422 m"
| "http_error (ApprovalDeniedError m) = HttpError 409 m"
| "http_error (LifecycleConflictError m) = HttpError 409 m"
| "http_error (ManifestIntegrityError m) = HttpError 409 m"
| "http_error (OwnershipConflictError m) = HttpError 409 m"
| "http_error (CatalogReadinessLimitError m) = HttpError 409 ''execution_lifecycle_conflict''"
| "http_error IntegrityError = HttpError 500 ''internal_error''"
| "http_error (ValueError m) = HttpError 500 ''internal_error''"

definition respond :: "exec_db \<Rightarrow> exec_error + exec_db \<times> 'a \<Rightarrow> exec_db \<times> 'a http" where
  "respond db r = (case r of Inl e \<Rightarrow> (db, http_error e) | Inr (db', v) \<Rightarrow> (db', Reply v))"

definition reply_read :: "exec_db \<Rightarrow> exec_error + 'a \<Rightarrow> exec_db \<times> 'a http" where
  "reply_read db r = (case r of Inl e \<Rightarrow> (db, http_error e) | Inr v \<Rightarrow> (db, Reply v))"

definition keep_unit :: "exec_error + exec_db \<Rightarrow> exec_error + exec_db \<times> unit" where
  "keep_unit r = rbind r (\<lambda>db. Inr (db, ()))"

section \<open>Manifests and work orders\<close>

definition http_list_manifests :: "service_env \<Rightarrow> tick \<Rightarrow> exec_db \<Rightarrow> exec_db \<times> manifest_row list http" where
  "http_list_manifests env t db = respond db (list_manifests_service env (tk_manifest_ids t) db)"

definition http_get_manifest ::
  "service_env \<Rightarrow> tick \<Rightarrow> exec_db \<Rightarrow> string \<Rightarrow> string \<Rightarrow> exec_db \<times> manifest_row http" where
  "http_get_manifest env t db name version = respond db (get_manifest env (tk_manifest_ids t) db name version)"

definition http_create_work_order ::
  "service_env \<Rightarrow> tick \<Rightarrow> exec_db \<Rightarrow> work_order_draft \<Rightarrow> exec_db \<times> order_row http" where
  "http_create_work_order env t db d = respond db (create_work_order env db (tk_manifest_id t) (tk_order_id t) d)"

definition http_list_work_orders :: "exec_db \<Rightarrow> exec_db \<times> order_row list http" where
  "http_list_work_orders db = (db, Reply (repo_list_work_orders db))"

definition http_get_work_order :: "exec_db \<Rightarrow> int \<Rightarrow> exec_db \<times> order_row http" where
  "http_get_work_order db i = reply_read db (get_work_order db i)"

definition http_approve_work_order ::
  "service_env \<Rightarrow> tick \<Rightarrow> exec_db \<Rightarrow> int \<Rightarrow> bool \<Rightarrow> exec_db \<times> order_row http" where
  "http_approve_work_order env t db i queue = respond db (approve_work_order env db (tk_now t) i queue)"

definition http_queue_work_order :: "tick \<Rightarrow> exec_db \<Rightarrow> int \<Rightarrow> exec_db \<times> order_row http" where
  "http_queue_work_order t db i = respond db (queue_work_order db (tk_now t) i)"

definition http_reject_work_order :: "tick \<Rightarrow> exec_db \<Rightarrow> int \<Rightarrow> string option \<Rightarrow> exec_db \<times> order_row http" where
  "http_reject_work_order t db i reason = respond db (reject_work_order db (tk_now t) i reason)"

definition http_cancel_work_order ::
  "service_env \<Rightarrow> tick \<Rightarrow> exec_db \<Rightarrow> int \<Rightarrow> string option \<Rightarrow> exec_db \<times> order_row http" where
  "http_cancel_work_order env t db i reason = respond db (cancel_work_order env db (tk_now t) (tk_now2 t) i reason)"

definition http_expire_work_order :: "tick \<Rightarrow> exec_db \<Rightarrow> int \<Rightarrow> string option \<Rightarrow> exec_db \<times> order_row http" where
  "http_expire_work_order t db i reason = respond db (expire_work_order db (tk_now t) i reason)"

definition http_requeue_stale_work_order :: "tick \<Rightarrow> exec_db \<Rightarrow> int \<Rightarrow> exec_db \<times> order_row http" where
  "http_requeue_stale_work_order t db i = respond db (requeue_stale_work_order db (tk_now t) i)"

definition http_assess_work_order_route :: "service_env \<Rightarrow> tick \<Rightarrow> exec_db \<Rightarrow> int \<Rightarrow> exec_db \<times> route_assessment http" where
  "http_assess_work_order_route env t db i = respond db (assess_route env (tk_manifest_ids t) db (tk_now t) i)"

record route_provenance =
  rv_schema_version :: "int option"
  rv_routing_policy :: routing_policy
  rv_selected_worker_id :: string
  rv_profile_revision :: "int option"
  rv_estimated_cost_units :: "int option"
  rv_required_quota_units :: int
  rv_reserved_quota_units :: int
  rv_quota_state :: "quota_state option"
  rv_eligible_candidate_count :: "int option"
  rv_explicit_pin_applied :: bool
  rv_reason :: "string option"
  rv_decision_timestamp :: "time option"

definition order_route_provenance :: "order_row \<Rightarrow> route_provenance option" where
  "order_route_provenance w =
     (let o' = o_route w
      in case (or_decided_at o', or_selected_worker_id o') of
           (Some _, Some worker) \<Rightarrow>
             Some \<lparr>rv_schema_version = or_schema_version o', rv_routing_policy = oq_routing_policy (o_request w),
                   rv_selected_worker_id = worker, rv_profile_revision = or_profile_revision o',
                   rv_estimated_cost_units = or_estimated_cost_units o',
                   rv_required_quota_units = oq_required_quota_units (o_request w),
                   rv_reserved_quota_units = or_reserved_quota_units o', rv_quota_state = or_quota_state o',
                   rv_eligible_candidate_count = or_eligible_candidate_count o',
                   rv_explicit_pin_applied = or_explicit_pin_applied o', rv_reason = or_reason o',
                   rv_decision_timestamp = or_decided_at o'\<rparr>
         | _ \<Rightarrow> None)"

definition run_route_provenance :: "run_row \<Rightarrow> route_provenance" where
  "run_route_provenance r =
     (let q = r_route r
      in \<lparr>rv_schema_version = Some (rr_schema_version q), rv_routing_policy = rr_routing_policy q,
          rv_selected_worker_id = r_worker_id r, rv_profile_revision = rr_profile_revision q,
          rv_estimated_cost_units = rr_estimated_cost_units q,
          rv_required_quota_units = rr_required_quota_units q,
          rv_reserved_quota_units = rr_reserved_quota_units q, rv_quota_state = Some (rr_quota_state q),
          rv_eligible_candidate_count = Some (rr_eligible_candidate_count q),
          rv_explicit_pin_applied = rr_explicit_pin_applied q, rv_reason = Some (rr_reason q),
          rv_decision_timestamp = Some (rr_decided_at q)\<rparr>)"

definition http_get_work_order_route :: "exec_db \<Rightarrow> int \<Rightarrow> exec_db \<times> route_provenance http" where
  "http_get_work_order_route db i =
     reply_read db (rbind (get_work_order db i) (\<lambda>w.
       of_option (ExecutionNotFoundError ''route_provenance_not_found'') (order_route_provenance w)))"

section \<open>Routing profiles\<close>

definition http_create_routing_profile ::
  "exec_db \<Rightarrow> int \<Rightarrow> string \<Rightarrow> profile_input \<Rightarrow> exec_db \<times> profile_row http" where
  "http_create_routing_profile db schema worker_id v = respond db (create_routing_profile db schema worker_id v)"

definition http_list_routing_profiles :: "exec_db \<Rightarrow> exec_db \<times> profile_row list http" where
  "http_list_routing_profiles db = (db, Reply (repo_list_routing_profiles db))"

definition http_get_routing_profile :: "exec_db \<Rightarrow> string \<Rightarrow> exec_db \<times> profile_row http" where
  "http_get_routing_profile db worker_id = reply_read db (get_routing_profile db worker_id)"

definition http_replace_routing_profile ::
  "exec_db \<Rightarrow> string \<Rightarrow> int \<Rightarrow> profile_input \<Rightarrow> exec_db \<times> profile_row http" where
  "http_replace_routing_profile db worker_id revision v = respond db (replace_routing_profile db worker_id revision v)"

definition http_reset_routing_quota ::
  "exec_db \<Rightarrow> string \<Rightarrow> int \<Rightarrow> int \<Rightarrow> py_datetime \<Rightarrow> exec_db \<times> profile_row http" where
  "http_reset_routing_quota db worker_id revision remaining reset_at =
     respond db (reset_routing_quota db worker_id revision remaining reset_at)"

section \<open>Workers, checkout and runs\<close>

definition http_register_worker :: "tick \<Rightarrow> exec_db \<Rightarrow> worker_registration \<Rightarrow> exec_db \<times> unit http" where
  "http_register_worker t db v = respond db (keep_unit (register_worker db (tk_now t) v))"

definition http_heartbeat_worker ::
  "tick \<Rightarrow> exec_db \<Rightarrow> string \<Rightarrow> worker_status option \<Rightarrow> exec_db \<times> unit http" where
  "http_heartbeat_worker t db worker_id status =
     respond db (keep_unit (heartbeat_worker db (tk_now t) worker_id status))"

definition http_checkout :: "service_env \<Rightarrow> tick \<Rightarrow> exec_db \<Rightarrow> string \<Rightarrow> exec_db \<times> checkout_out http" where
  "http_checkout env t db worker_id =
     respond db (exec_checkout env (tk_manifest_ids t) (tk_run_id t) (tk_lease_id t) (tk_now t) (tk_now2 t)
       (tk_clock t) db worker_id)"

definition http_list_runs :: "exec_db \<Rightarrow> int option \<Rightarrow> exec_db \<times> run_row list http" where
  "http_list_runs db work_order_id = (db, Reply (repo_list_runs db work_order_id))"

definition http_get_run :: "exec_db \<Rightarrow> int \<Rightarrow> exec_db \<times> run_row http" where
  "http_get_run db run_id = reply_read db (get_run db run_id)"

definition http_get_run_route :: "exec_db \<Rightarrow> int \<Rightarrow> exec_db \<times> route_provenance http" where
  "http_get_run_route db run_id = reply_read db (rbind (get_run db run_id) (\<lambda>r. Inr (run_route_provenance r)))"

definition http_get_run_evidence :: "service_env \<Rightarrow> exec_db \<Rightarrow> int \<Rightarrow> exec_db \<times> execution_evidence http" where
  "http_get_run_evidence env db run_id = reply_read db (get_run_evidence env db run_id)"

definition http_resolve_reuse_candidate ::
  "service_env \<Rightarrow> tick \<Rightarrow> exec_db \<Rightarrow> int \<Rightarrow> string \<Rightarrow> reuse_identity \<Rightarrow> string \<Rightarrow> exec_db \<times> reuse_candidate_result http" where
  "http_resolve_reuse_candidate env t db run_id worker_id identity identity_hash =
     respond db (resolve_reuse_candidate env db (tk_now t) run_id worker_id identity identity_hash)"

definition http_heartbeat_run :: "service_env \<Rightarrow> tick \<Rightarrow> exec_db \<Rightarrow> int \<Rightarrow> string \<Rightarrow> exec_db \<times> run_row http" where
  "http_heartbeat_run env t db run_id worker_id = respond db (heartbeat_run env db (tk_now t) run_id worker_id)"

definition http_complete_run ::
  "service_env \<Rightarrow> tick \<Rightarrow> exec_db \<Rightarrow> int \<Rightarrow> string \<Rightarrow> execution_completion \<Rightarrow> exec_db \<times> run_row http" where
  "http_complete_run env t db run_id worker_id c = respond db (complete_run env db (tk_now t) run_id worker_id c)"

definition http_expire_leases :: "tick \<Rightarrow> exec_db \<Rightarrow> exec_db \<times> expiry_result http" where
  "http_expire_leases t db = respond db (expire_stale_leases db (tk_now t))"

section \<open>Worker routes\<close>

definition scope_denied :: "'a http" where
  "scope_denied = HttpError 403 ''worker_scope_denied''"

definition owned_run :: "exec_db \<Rightarrow> string \<Rightarrow> int \<Rightarrow> run_row option" where
  "owned_run db worker_id run_id =
     (case find_run db run_id of
        None \<Rightarrow> None | Some r \<Rightarrow> if r_worker_id r \<noteq> worker_id then None else Some r)"

definition worker_register :: "string \<Rightarrow> tick \<Rightarrow> exec_db \<Rightarrow> worker_registration \<Rightarrow> exec_db \<times> unit http" where
  "worker_register caller t db v =
     (if caller \<noteq> wr_worker_id v then (db, scope_denied) else http_register_worker t db v)"

definition worker_heartbeat ::
  "string \<Rightarrow> tick \<Rightarrow> exec_db \<Rightarrow> string \<Rightarrow> worker_status option \<Rightarrow> exec_db \<times> unit http" where
  "worker_heartbeat caller t db worker_id status =
     (if caller \<noteq> worker_id then (db, scope_denied) else http_heartbeat_worker t db worker_id status)"

definition worker_checkout :: "string \<Rightarrow> service_env \<Rightarrow> tick \<Rightarrow> exec_db \<Rightarrow> string \<Rightarrow> exec_db \<times> checkout_out http" where
  "worker_checkout caller env t db worker_id =
     (if caller \<noteq> worker_id then (db, scope_denied) else http_checkout env t db worker_id)"

text \<open>The latest run of an order decides whether a worker may read the order.\<close>

definition latest_run_of_order :: "exec_db \<Rightarrow> int \<Rightarrow> run_row option" where
  "latest_run_of_order db i =
     (case rev (sort_key r_id (filter (\<lambda>r. r_work_order_id r = i) (runs db))) of [] \<Rightarrow> None | r # _ \<Rightarrow> Some r)"

definition worker_get_work_order :: "string \<Rightarrow> exec_db \<Rightarrow> int \<Rightarrow> exec_db \<times> order_row http" where
  "worker_get_work_order caller db i =
     (case latest_run_of_order db i of
        None \<Rightarrow> (db, scope_denied)
      | Some r \<Rightarrow> if r_worker_id r \<noteq> caller then (db, scope_denied) else http_get_work_order db i)"

definition worker_get_run :: "string \<Rightarrow> exec_db \<Rightarrow> int \<Rightarrow> exec_db \<times> run_row http" where
  "worker_get_run caller db run_id =
     (if owned_run db caller run_id = None then (db, scope_denied) else http_get_run db run_id)"

definition worker_get_manifest ::
  "string \<Rightarrow> service_env \<Rightarrow> tick \<Rightarrow> exec_db \<Rightarrow> string \<Rightarrow> string \<Rightarrow> int \<Rightarrow> exec_db \<times> manifest_row http" where
  "worker_get_manifest caller env t db name version run_id =
     (case owned_run db caller run_id of
        None \<Rightarrow> (db, scope_denied)
      | Some r \<Rightarrow>
          (case find_order db (r_work_order_id r) of
             None \<Rightarrow> (db, scope_denied)
           | Some w \<Rightarrow>
               if oq_manifest_name (o_request w) \<noteq> name \<or> oq_manifest_version (o_request w) \<noteq> version
               then (db, scope_denied) else http_get_manifest env t db name version))"

definition worker_heartbeat_run ::
  "string \<Rightarrow> service_env \<Rightarrow> tick \<Rightarrow> exec_db \<Rightarrow> int \<Rightarrow> string \<Rightarrow> exec_db \<times> run_row http" where
  "worker_heartbeat_run caller env t db run_id worker_id =
     (if caller \<noteq> worker_id \<or> owned_run db caller run_id = None then (db, scope_denied)
      else http_heartbeat_run env t db run_id worker_id)"

definition worker_resolve_reuse_candidate ::
  "string \<Rightarrow> service_env \<Rightarrow> tick \<Rightarrow> exec_db \<Rightarrow> int \<Rightarrow> string \<Rightarrow> reuse_identity \<Rightarrow> string
    \<Rightarrow> exec_db \<times> reuse_candidate_result http" where
  "worker_resolve_reuse_candidate caller env t db run_id worker_id identity identity_hash =
     (if caller \<noteq> worker_id \<or> owned_run db caller run_id = None then (db, scope_denied)
      else http_resolve_reuse_candidate env t db run_id worker_id identity identity_hash)"

definition worker_complete_run ::
  "string \<Rightarrow> service_env \<Rightarrow> tick \<Rightarrow> exec_db \<Rightarrow> int \<Rightarrow> string \<Rightarrow> execution_completion \<Rightarrow> exec_db \<times> run_row http" where
  "worker_complete_run caller env t db run_id worker_id c =
     (if caller \<noteq> worker_id \<or> owned_run db caller run_id = None then (db, scope_denied)
      else http_complete_run env t db run_id worker_id c)"

section \<open>Requests\<close>

text \<open>Every request that may write, and the tables after it.\<close>

datatype exec_request =
    ListManifests
  | GetManifest string string
  | CreateWorkOrder work_order_draft
  | ApproveWorkOrder int bool
  | QueueWorkOrder int
  | RejectWorkOrder int "string option"
  | CancelWorkOrder int "string option"
  | ExpireWorkOrder int "string option"
  | RequeueStaleWorkOrder int
  | AssessRoute int
  | CreateRoutingProfile int string profile_input
  | ReplaceRoutingProfile string int profile_input
  | ResetRoutingQuota string int int py_datetime
  | RegisterWorker worker_registration
  | HeartbeatWorker string "worker_status option"
  | CheckoutWork string
  | ResolveReuse int string reuse_identity string
  | HeartbeatRun int string
  | CompleteRun int string execution_completion
  | ExpireLeases
  | ScopedManifest string string string int
  | Scoped string exec_request

fun exec_handle :: "service_env \<Rightarrow> tick \<Rightarrow> exec_request \<Rightarrow> exec_db \<Rightarrow> exec_db" where
  "exec_handle env t ListManifests db = fst (http_list_manifests env t db)"
| "exec_handle env t (GetManifest n v) db = fst (http_get_manifest env t db n v)"
| "exec_handle env t (CreateWorkOrder d) db = fst (http_create_work_order env t db d)"
| "exec_handle env t (ApproveWorkOrder i q) db = fst (http_approve_work_order env t db i q)"
| "exec_handle env t (QueueWorkOrder i) db = fst (http_queue_work_order t db i)"
| "exec_handle env t (RejectWorkOrder i r) db = fst (http_reject_work_order t db i r)"
| "exec_handle env t (CancelWorkOrder i r) db = fst (http_cancel_work_order env t db i r)"
| "exec_handle env t (ExpireWorkOrder i r) db = fst (http_expire_work_order t db i r)"
| "exec_handle env t (RequeueStaleWorkOrder i) db = fst (http_requeue_stale_work_order t db i)"
| "exec_handle env t (AssessRoute i) db = fst (http_assess_work_order_route env t db i)"
| "exec_handle env t (CreateRoutingProfile n j v) db = fst (http_create_routing_profile db n j v)"
| "exec_handle env t (ReplaceRoutingProfile j n v) db = fst (http_replace_routing_profile db j n v)"
| "exec_handle env t (ResetRoutingQuota j n q d) db = fst (http_reset_routing_quota db j n q d)"
| "exec_handle env t (RegisterWorker v) db = fst (http_register_worker t db v)"
| "exec_handle env t (HeartbeatWorker j s) db = fst (http_heartbeat_worker t db j s)"
| "exec_handle env t (CheckoutWork j) db = fst (http_checkout env t db j)"
| "exec_handle env t (ResolveReuse k j i h) db = fst (http_resolve_reuse_candidate env t db k j i h)"
| "exec_handle env t (HeartbeatRun k j) db = fst (http_heartbeat_run env t db k j)"
| "exec_handle env t (CompleteRun k j c) db = fst (http_complete_run env t db k j c)"
| "exec_handle env t ExpireLeases db = fst (http_expire_leases t db)"
| "exec_handle env t (ScopedManifest p n v k) db = fst (worker_get_manifest p env t db n v k)"
| "exec_handle env t (Scoped p (RegisterWorker v)) db = fst (worker_register p t db v)"
| "exec_handle env t (Scoped p (HeartbeatWorker j s)) db = fst (worker_heartbeat p t db j s)"
| "exec_handle env t (Scoped p (CheckoutWork j)) db = fst (worker_checkout p env t db j)"
| "exec_handle env t (Scoped p (ResolveReuse k j i h)) db = fst (worker_resolve_reuse_candidate p env t db k j i h)"
| "exec_handle env t (Scoped p (HeartbeatRun k j)) db = fst (worker_heartbeat_run p env t db k j)"
| "exec_handle env t (Scoped p (CompleteRun k j c)) db = fst (worker_complete_run p env t db k j c)"
| "exec_handle env t (Scoped p _) db = db"

end
