(* ===== verification/Execution_System.thy ===== *)
theory Execution_System
  imports Execution_Refinement Execution_Api
begin

text \<open>
  Every request of the execution plane is a sequence of steps of the ledger. \<open>refines\<close> names that
  relation between the tables before and after; each service operation has a lemma that says which
  ledger steps it takes.
\<close>

section \<open>Refinement\<close>

definition refines :: "exec_db \<Rightarrow> ledger_event list \<Rightarrow> exec_db \<Rightarrow> bool" where
  "refines db es db' \<longleftrightarrow> path ledger_step (ledger_of db) es (ledger_of db')"

lemma refines_same [simp]: "ledger_of db' = ledger_of db \<Longrightarrow> refines db [] db'"
  by (simp add: refines_def)

lemma refines_step: "ledger_step (ledger_of db) e (ledger_of db') \<Longrightarrow> refines db [e] db'"
  by (simp add: refines_def path_single)

lemma refines_append: "refines db es db' \<Longrightarrow> refines db' fs db'' \<Longrightarrow> refines db (es @ fs) db''"
  by (auto simp: refines_def intro: path_append)

lemma refines_cons: "ledger_step (ledger_of db) e (ledger_of db') \<Longrightarrow> refines db' es db'' \<Longrightarrow> refines db (e # es) db''"
  by (auto simp: refines_def intro: path_cons)

lemma refines_inv: "refines db es db' \<Longrightarrow> exec_inv db \<Longrightarrow> exec_inv db'"
  by (auto simp: refines_def exec_inv_def dest: ledger_quota_system.inv_path ledger_readonly_system.inv_path)

lemma refines_from_same: "ledger_of db = ledger_of db0 \<Longrightarrow> refines db es db' = refines db0 es db'"
  by (simp add: refines_def)

subsection \<open>Manifests, workers, profiles and reuse\<close>

lemma ensure_manifest_tables:
  "ensure_manifest db k d = Inr (db', m) \<Longrightarrow> \<exists>ms. db' = db\<lparr>manifests := ms\<rparr>"
  by (auto simp: ensure_manifest_def split: option.splits if_splits intro: exI [of _ "manifests db"])

lemma ensure_manifests_tables:
  "ensure_manifests db ids ds = Inr (db', ms) \<Longrightarrow> \<exists>rows. db' = db\<lparr>manifests := rows\<rparr>"
proof (induction ds arbitrary: db db' ms)
  case Nil
  then show ?case by (auto intro: exI [of _ "manifests db"])
next
  case (Cons d ds)
  then show ?case by (fastforce simp: result_simps dest: ensure_manifest_tables)
qed

lemma sync_tables: "sync_trusted_manifests env ids db = Inr (db', ms) \<Longrightarrow> \<exists>rows. db' = db\<lparr>manifests := rows\<rparr>"
  by (simp add: sync_trusted_manifests_def ensure_manifests_tables)

lemma ledger_of_manifests [simp]: "ledger_of (db\<lparr>manifests := rows\<rparr>) = ledger_of db"
  by (simp add: ledger_of_def)

lemma sync_ledger: "sync_trusted_manifests env ids db = Inr (db', ms) \<Longrightarrow> ledger_of db' = ledger_of db"
  by (auto dest: sync_tables)

lemma worker_update_same:
  assumes "update_workers db P f = (db', ok)"
    and "\<And>w. w \<in> set (workers db) \<Longrightarrow> worker_entry_of (f w) = worker_entry_of w"
  shows "ledger_of db' = ledger_of db"
proof -
  have "map worker_entry_of (update_where P f (workers db)) = map worker_entry_of (workers db)"
    by (rule view_unchanged) (use assms(2) in simp)
  then show ?thesis using assms(1) by (auto simp: update_workers_def intro!: ledger_eqI)
qed

lemma register_worker_refines:
  assumes inv: "exec_inv db" and "register_worker db now v = Inr db'"
  shows "refines db (if find_worker db (wr_worker_id v) = None then [NewWorker (wr_worker_id v)] else []) db'"
proof (cases "find_worker db (wr_worker_id v)")
  case None
  then have "wr_worker_id v \<notin> vw_id ` set (lg_workers (ledger_of db))"
    by (auto simp: find_worker_def find_None_iff)
  moreover have "ledger_of db' = (ledger_of db)\<lparr>lg_workers := lg_workers (ledger_of db) @ [\<lparr>vw_id = wr_worker_id v, vw_count = 0, vw_write = False\<rparr>]\<rparr>"
    using assms None
    by (auto simp: register_worker_def upsert_worker_def ledger_of_def worker_entry_of_def new_worker_row_def split: if_splits)
  ultimately show ?thesis
    using None ledger_step.new_worker [of "wr_worker_id v" "ledger_of db"] by (simp add: refines_step)
next
  case (Some w)
  have "\<not> wc_repository_write_capability (w_caps u)" if "u \<in> set (workers db)" for u
    using inv that by (auto simp: exec_inv_def ledger_readonly_def)
  with assms Some have "ledger_of db' = ledger_of db"
    by (auto simp: register_worker_def upsert_worker_def split: if_splits
        intro!: worker_update_same [OF surjective_pairing] simp: worker_entry_of_def refresh_worker_def Let_def)
  then show ?thesis using Some by simp
qed

lemma heartbeat_worker_same: "heartbeat_worker db now j st = Inr db' \<Longrightarrow> ledger_of db' = ledger_of db"
  by (auto simp: heartbeat_worker_def update_worker_heartbeat_def worker_entry_of_def beat_worker_def
      split: option.splits intro!: worker_update_same [OF surjective_pairing])

lemma poll_same: "record_checkout_poll db j now = (db', ok) \<Longrightarrow> ledger_of db' = ledger_of db"
  by (auto simp: record_checkout_poll_def worker_entry_of_def intro!: worker_update_same)

lemma resolve_reuse_same:
  assumes "resolve_reuse_candidate env db now k j i h = Inr (db', r)"
  shows "ledger_of db' = ledger_of db"
proof -
  from assms obtain f ok where u: "update_active_run_reuse db k f = (db', ok)"
    by (auto simp: resolve_reuse_candidate_def result_simps Let_def split: if_splits option.splits prod.splits)
  have "map run_entry_of (update_where P (\<lambda>r. r\<lparr>r_reuse := f (r_reuse r)\<rparr>) (runs db)) = map run_entry_of (runs db)" for P
    by (rule view_unchanged) (simp add: run_entry_of_def)
  then show ?thesis using u by (auto simp: update_active_run_reuse_def update_runs_def intro!: ledger_eqI)
qed

lemma profile_values_ok:
  assumes "routing_profile_values v = Inr p"
  shows "0 \<le> pv_remaining p" "pv_remaining p \<le> pv_capacity p"
  using assms by (auto simp: routing_profile_values_def routing_int_ok_def split: if_splits)

lemma create_routing_profile_refines:
  assumes "create_routing_profile db n j v = Inr (db', p)"
  shows "refines db [NewProfile j] db'"
proof -
  from assms obtain pv where pv: "routing_profile_values v = Inr pv" and fresh: "find_profile db j = None"
    and db': "db' = db\<lparr>profiles := profiles db @ [profile_of n j pv]\<rparr>"
    by (auto simp: create_routing_profile_def repo_create_routing_profile_def result_simps split: if_splits)
  have "j \<notin> vp_id ` set (lg_profiles (ledger_of db))" using fresh by (auto simp: find_profile_def find_None_iff)
  from ledger_step.new_profile [OF this profile_values_ok [OF pv]] show ?thesis
    by (intro refines_step) (simp add: db' ledger_of_def profile_entry_of_def profile_of_def)
qed

lemma no_reserved_runs:
  "count_reserved_quota_runs db j = 0
    \<Longrightarrow> \<not> (\<exists>r \<in> set (lg_runs (ledger_of db)). vr_worker r = j \<and> vr_quota r = QUOTA_RESERVED)"
  by (auto simp: count_reserved_quota_runs_def rowcount_zero)

lemma replace_routing_profile_refines:
  assumes keys: "keys_ok db" and "replace_routing_profile db j n v = Inr (db', p)"
  shows "refines db [SetProfile j] db'"
proof -
  from assms(2) obtain pv where pv: "routing_profile_values v = Inr pv" and none: "count_reserved_quota_runs db j = 0"
    and u: "repo_replace_routing_profile db j n pv = (db', True)"
    by (auto simp: replace_routing_profile_def result_simps case_prod_unfold prod_eq_iff split: if_split_asm)
  have "ledger_of db' = (ledger_of db)\<lparr>lg_profiles := update_where (\<lambda>p. vp_id p = j)
      (\<lambda>p. p\<lparr>vp_remaining := pv_remaining pv, vp_capacity := pv_capacity pv\<rparr>) (lg_profiles (ledger_of db))\<rparr>"
    by (rule profiles_step [OF keys u [unfolded repo_replace_routing_profile_def]])
      (simp add: profile_entry_of_def replace_profile_def)
  then show ?thesis
    using ledger_step.set_profile [OF profile_values_ok [OF pv] no_reserved_runs [OF none]] by (simp add: refines_step)
qed

lemma reset_routing_quota_refines:
  assumes keys: "keys_ok db" and "reset_routing_quota db j n q d = Inr (db', p)"
  shows "refines db [] db' \<or> refines db [SetProfile j] db'"
proof (cases "ledger_of db' = ledger_of db")
  case True
  then show ?thesis by simp
next
  case False
  with assms(2) obtain p0 where p0: "find_profile db j = Some p0" and none: "count_reserved_quota_runs db j = 0"
    and q: "routing_int_ok q" and cap: "q \<le> q_capacity p0" and u: "repo_reset_routing_quota db j n q (utc_naive d) = (db', True)"
    by (auto simp: reset_routing_quota_def get_routing_profile_def result_simps Let_def split: if_splits prod.splits)
  have dist: "distinct (map q_worker_id (profiles db))" using keys by (simp add: keys_iff)
  have "p = p0" if "p \<in> set (profiles db)" "q_worker_id p = j" for p
    by (rule key_unique [OF dist]) (use that p0 find_key_Some [of q_worker_id j "profiles db" p0] in \<open>simp_all add: find_profile_def\<close>)
  then have "ledger_of db' = (ledger_of db)\<lparr>lg_profiles := update_where (\<lambda>p. vp_id p = j)
      (\<lambda>p. p\<lparr>vp_remaining := q, vp_capacity := q_capacity p0\<rparr>) (lg_profiles (ledger_of db))\<rparr>"
    by (intro profiles_step [OF keys u [unfolded repo_reset_routing_quota_def]]) (simp add: profile_entry_of_def)
  then show ?thesis
    using ledger_step.set_profile [of q "q_capacity p0" "ledger_of db" j] no_reserved_runs [OF none] q cap
    by (auto simp: routing_int_ok_def refines_step)
qed

subsection \<open>Work orders\<close>

lemma create_work_order_refines:
  assumes "create_work_order env db m i d = Inr (db', w)"
  shows "refines db [NewOrder i] db'"
proof -
  from assms obtain db1 mr h where v: "validate_work_order_draft d = Inr ()"
    and e: "\<exists>definition. ensure_manifest db m definition = Inr (db1, mr)"
    and c: "repo_create_work_order db1 i (order_request_of d mr h) = Inr (db', w)"
    by (auto simp: create_work_order_def result_simps Let_def split: if_splits option.splits)
  have l1: "ledger_of db1 = ledger_of db" using e by (auto dest: ensure_manifest_tables)
  have units: "0 \<le> wd_required_quota_units d"
    using v by (auto simp: validate_work_order_draft_def routing_int_ok_def split: if_splits)
  from c have "i \<notin> o_id ` set (orders db1)"
    and db': "db' = db1\<lparr>orders := orders db1 @ [new_order_row i (order_request_of d mr h)]\<rparr>"
    by (auto simp: repo_create_work_order_def split: if_splits)
  then have "i \<notin> vo_id ` set (lg_orders (ledger_of db1))" by (auto simp: image_image)
  note step = ledger_step.new_order [OF this units]
  have "ledger_of db' = (ledger_of db1)\<lparr>lg_orders := lg_orders (ledger_of db1) @ [\<lparr>vo_id = i, vo_status = WO_PENDING_APPROVAL,
      vo_attempt = 0, vo_quota = None, vo_units = wd_required_quota_units d, vo_write = False\<rparr>]\<rparr>"
    by (simp add: db' ledger_of_def order_entry_of_def new_order_row_def empty_order_route_def order_request_of_def)
  with step show ?thesis by (intro refines_step) (simp add: l1)
qed

lemma apply_transition_refines:
  assumes keys: "keys_ok db" and t: "apply_transition db i sts f msg = Inr (db', w)"
    and f: "\<And>w. order_entry_of (f w) = (order_entry_of w)\<lparr>vo_status := s\<rparr>"
    and ok: "\<And>a. a \<in> set sts \<Longrightarrow> allows_work_order_transition a s \<and> \<not> order_active a" "\<not> order_active s"
  shows "refines db [MoveOrder i s] db'"
proof -
  from t have u: "update_orders db (\<lambda>w. o_id w = i \<and> o_status w \<in> set sts) f = (db', True)"
    by (auto simp: apply_transition_def transition_unleased_work_order_def result_simps split: prod.splits if_splits)
  have "ledger_of db' = set_vorder i (\<lambda>w. w\<lparr>vo_status := s\<rparr>) (ledger_of db)"
    by (rule orders_step [OF keys u]) (rule f)
  moreover have "\<exists>w \<in> set (orders db). o_id w = i \<and> o_status w \<in> set sts"
    by (rule guarded_by_key(1)) (use keys u in \<open>auto simp: keys_iff update_orders_def\<close>)
  ultimately show ?thesis
    using ledger_step.move_order [of _ "ledger_of db" i s] ok by (fastforce intro!: refines_step)
qed

lemma approve_refines:
  assumes "keys_ok db" and "approve_work_order env db now i queue = Inr (db', w)"
  shows "refines db [MoveOrder i (if queue then WO_QUEUED else WO_APPROVED)] db'"
proof -
  from assms(2) have "apply_transition db i [WO_PENDING_APPROVAL]
      (approve_values (if queue then WO_QUEUED else WO_APPROVED) now) ''work_order_not_pending_approval'' = Inr (db', w)"
    by (auto simp: approve_work_order_def result_simps split: if_splits)
  then show ?thesis
    by (rule apply_transition_refines [OF assms(1)])
      (auto simp: order_entry_of_def approve_values_def lifecycle_defs order_active_def)
qed

lemma unleased_refines:
  assumes "keys_ok db"
  shows "queue_work_order db now i = Inr (db', w) \<Longrightarrow> refines db [MoveOrder i WO_QUEUED] db'"
    and "reject_work_order db now i reason = Inr (db', w) \<Longrightarrow> refines db [MoveOrder i WO_REJECTED] db'"
    and "expire_work_order db now i reason = Inr (db', w) \<Longrightarrow> refines db [MoveOrder i WO_EXPIRED] db'"
  by (auto simp: queue_work_order_def reject_work_order_def expire_work_order_def result_simps
      order_entry_of_def finish_order_def lifecycle_defs order_active_def
      elim!: apply_transition_refines [OF assms])

subsection \<open>Leases\<close>

lemma expire_one_refines:
  assumes inv: "exec_inv db" and e: "expire_one db now s = Inr (Some db')"
  shows "ledger_step (ledger_of db) (RetireRun (ls_run_id s) RUN_TIMED_OUT WO_QUEUED) (ledger_of db')"
proof -
  from e obtain db1 db2 db3 db4 where 1: "consume_lease db s now RequireStale = (db1, True)"
    and 2: "release_run_quota_reservation db1 (ls_run_id s) (ls_work_order_id s) (ls_worker_id s) = (db2, True)"
    and 3: "finish_active_run db2 (ls_run_id s) (time_out_run now) = (db3, True)"
    and 4: "update_orders db3 (\<lambda>w. o_id w = ls_work_order_id s \<and> order_active (o_status w)) (requeue_order now) = (db4, True)"
    and 5: "release_worker_capacity db4 (ls_worker_id s) = (db', True)"
    by (auto simp: expire_one_def requeue_stale_active_run_def requeue_stale_active_work_order_def Let_def
        split: prod.splits if_splits)
  show ?thesis
    by (rule retire_refines [OF inv 1 2 3 4 5])
      (simp_all add: run_entry_of_def time_out_run_def order_entry_of_def requeue_order_def
        is_terminal_run_def RUN_TERMINAL_STATUSES_def order_exit_iff)
qed

lemma expire_snapshots_refines:
  assumes "exec_inv db" and "expire_snapshots db now ss qs ts = Inr (db', res)"
  shows "\<exists>runs. refines db (map (\<lambda>k. RetireRun k RUN_TIMED_OUT WO_QUEUED) runs) db' \<and> ex_timed_out res = ts @ runs"
  using assms
proof (induction ss arbitrary: db qs ts)
  case Nil
  then show ?case by (auto intro: exI [of _ "[]"])
next
  case (Cons s ss)
  from Cons.prems(2) obtain r where r: "expire_one db now s = Inr r"
    and rest: "(case r of None \<Rightarrow> expire_snapshots db now ss qs ts
      | Some db1 \<Rightarrow> expire_snapshots db1 now ss (qs @ [ls_work_order_id s]) (ts @ [ls_run_id s])) = Inr (db', res)"
    by (auto simp: result_simps)
  show ?case
  proof (cases r)
    case None
    with Cons.IH [OF Cons.prems(1)] rest show ?thesis by simp
  next
    case (Some db1)
    note step = expire_one_refines [OF Cons.prems(1) r [unfolded Some]]
    have "exec_inv db1" using refines_inv [OF refines_step [OF step] Cons.prems(1)] .
    from Cons.IH [OF this, of "qs @ [ls_work_order_id s]" "ts @ [ls_run_id s]"] rest Some obtain ks where
      "refines db1 (map (\<lambda>k. RetireRun k RUN_TIMED_OUT WO_QUEUED) ks) db'" "ex_timed_out res = (ts @ [ls_run_id s]) @ ks"
      by auto
    with step show ?thesis by (intro exI [of _ "ls_run_id s # ks"]) (auto intro: refines_cons)
  qed
qed

lemma expire_stale_leases_refines:
  assumes "exec_inv db" and "expire_stale_leases db now = Inr (db', res)"
  shows "refines db (map (\<lambda>k. RetireRun k RUN_TIMED_OUT WO_QUEUED) (ex_timed_out res)) db'"
  using expire_snapshots_refines [OF assms(1) assms(2) [unfolded expire_stale_leases_def]] by auto

lemma finish_active_lease_refines:
  assumes inv: "exec_inv db" and fin: "finish_active_lease env db now s c live own = Inr (db', r)"
    and fnl: "is_terminal_run (xc_status c)"
  shows "\<exists>os. work_order_status_of_run (xc_status c) = Some os
    \<and> ledger_step (ledger_of db) (RetireRun (ls_run_id s) (xc_status c) os) (ledger_of db')"
proof -
  from fin obtain reuse os db1 db2 db3 db4 where os: "work_order_status_of_run (xc_status c) = Some os"
    and 1: "consume_lease db s now (if live then RequireLive else AnyLease) = (db1, True)"
    and 2: "release_run_quota_reservation db1 (ls_run_id s) (ls_work_order_id s) (ls_worker_id s) = (db2, True)"
    and 3: "finish_active_run db2 (ls_run_id s)
        (finish_run c now (text_or (xc_terminal_reason c) (run_status_value (xc_status c))) reuse) = (db3, True)"
    and 4: "update_orders db3 (\<lambda>w. o_id w = ls_work_order_id s \<and> order_active (o_status w))
        (finish_order os now (text_or (xc_terminal_reason c) (run_status_value (xc_status c)))) = (db4, True)"
    and 5: "release_worker_capacity db4 (ls_worker_id s) = (db', True)"
    by (auto simp: finish_active_lease_def finish_active_work_order_def result_simps Let_def case_prod_unfold
        prod_eq_iff split: option.split_asm if_split_asm)
  have "order_exit os" using os fnl by (cases "xc_status c")
      (auto simp: is_terminal_run_def RUN_TERMINAL_STATUSES_def order_exit_iff)
  with fnl have "ledger_step (ledger_of db) (RetireRun (ls_run_id s) (xc_status c) os) (ledger_of db')"
    by (intro retire_refines [OF inv 1 2 3 4 5])
      (simp_all add: run_entry_of_def finish_run_def order_entry_of_def finish_order_def)
  with os show ?thesis by blast
qed

lemma complete_run_refines:
  assumes "exec_inv db" and c: "complete_run env db now k j c = Inr (db', r)"
  shows "\<exists>os. work_order_status_of_run (xc_status c) = Some os \<and> refines db [RetireRun k (xc_status c) os] db'"
proof -
  from c obtain s where t: "is_terminal_run (xc_status c)" and s: "get_lease_snapshot_for_run db k = Some s"
    and f: "finish_active_lease env db now s c True True = Inr (db', r)"
    by (auto simp: complete_run_def result_simps split: if_splits option.splits)
  from finish_active_lease_refines [OF assms(1) f t] snapshot_for_run(2) [OF s] show ?thesis
    by (auto intro: refines_step)
qed

lemma cancel_refines:
  assumes inv: "exec_inv db" and c: "cancel_work_order env db now now2 i reason = Inr (db', w)"
  shows "refines db [MoveOrder i WO_CANCELLED] db' \<or> (\<exists>k. refines db [RetireRun k RUN_CANCELLED WO_CANCELLED] db')"
proof -
  from c consider (early) "apply_transition db i [WO_PENDING_APPROVAL, WO_APPROVED, WO_QUEUED]
        (finish_order WO_CANCELLED now (text_or reason ''cancelled_by_operator'')) ''work_order_transition_in_progress'' = Inr (db', w)"
    | (leased) s r where "finish_active_lease env db now2 s (cancellation (text_or reason ''cancelled_by_operator'')) False False = Inr (db', r)"
    by (auto simp: cancel_work_order_def result_simps Let_def split: if_splits option.splits)
  then show ?thesis
  proof cases
    case early
    then have "refines db [MoveOrder i WO_CANCELLED] db'"
      by (rule apply_transition_refines [OF exec_inv_keys [OF inv]])
        (auto simp: order_entry_of_def finish_order_def lifecycle_defs order_active_def)
    then show ?thesis ..
  next
    case leased
    from finish_active_lease_refines [OF inv this] show ?thesis
      by (auto simp: cancellation_def is_terminal_run_def RUN_TERMINAL_STATUSES_def intro: refines_step)
  qed
qed

subsection \<open>Checkout\<close>

definition claim_event :: "string \<Rightarrow> checkout_out \<Rightarrow> ledger_event list" where
  "claim_event j out = (case ck_work_order_id out of None \<Rightarrow> [] | Some i \<Rightarrow> [ClaimOrder i j])"

lemma checkout_exhausted_none [simp]:
  "ck_run_id (checkout_exhausted m r) = None" "ck_work_order_id (checkout_exhausted m r) = None"
  by (simp_all add: checkout_exhausted_def unassigned_def Let_def)

lemma claim_unassigned:
  assumes "claim_routed_work env k x db j w p n pin now = Inr (db', out)"
  shows "ck_run_id out = None \<Longrightarrow> db' = db \<and> ck_work_order_id out = None"
    and "ck_reason out \<noteq> None \<Longrightarrow> ck_run_id out = None"
  using assms
  by (auto simp: claim_routed_work_def unassigned_def split: prod.splits if_splits option.splits sum.splits)

lemma claim_routed_work_refines:
  assumes "exec_inv db" and "w \<in> set (orders db)"
    and "claim_routed_work env k x db j w p n pin now = Inr (db', out)"
  shows "refines db (claim_event j out) db'"
  using claim_refines [OF assms] claim_unassigned(1) [OF assms(3)] by (auto simp: claim_event_def refines_step)

text \<open>The loop of the checkout ends without an assignment and without a change, or in one claim.\<close>

definition claims_order ::
  "service_env \<Rightarrow> int \<Rightarrow> int \<Rightarrow> string \<Rightarrow> exec_db \<Rightarrow> time \<Rightarrow> order_row \<Rightarrow> manifest_row \<Rightarrow> exec_db \<Rightarrow> checkout_out \<Rightarrow> bool" where
  "claims_order env k x j db now w m db' out \<longleftrightarrow>
     (\<exists>e profile n. find (\<lambda>e. w_worker_id (re_worker e) = j) (routing_eligibilities env db (routing_request_of w m) now) = Some e
        \<and> choose_route j w (routing_eligibilities env db (routing_request_of w m) now) e = Inr (Claim profile n)
        \<and> claim_routed_work env k x db j w profile n (oq_preferred_executor (o_request w) \<noteq> None) now = Inr (db', out))"

lemma checkout_orders_outcome:
  assumes "checkout_orders env k x clk n j ws ms rs db = Inr (db', out)"
  shows "db' = db \<and> ck_run_id out = None \<and> ck_work_order_id out = None
    \<or> ck_run_id out \<noteq> None \<and> (\<exists>(w, m) \<in> set ws. \<exists>t. claims_order env k x j db (clk t) w m db' out)"
  using assms
proof (induction ws arbitrary: n ms rs)
  case Nil
  then show ?case by auto
next
  case (Cons p ws)
  obtain w m where p: "p = (w, m)" by force
  let ?es = "routing_eligibilities env db (routing_request_of w m) (clk n)"
  let ?goal = "db' = db \<and> ck_run_id out = None \<and> ck_work_order_id out = None
    \<or> ck_run_id out \<noteq> None \<and> (\<exists>(w, m) \<in> set (p # ws). \<exists>t. claims_order env k x j db (clk t) w m db' out)"
  have rest: ?goal if "checkout_orders env k x clk n' j ws ms' rs' db = Inr (db', out)" for n' ms' rs'
    using Cons.IH [OF that] by auto
  from Cons.prems p obtain e where e: "find (\<lambda>e. w_worker_id (re_worker e) = j) ?es = Some e"
    by (auto simp: Let_def split: option.splits)
  with Cons.prems p obtain choice where ch: "choose_route j w ?es e = Inr choice" by (auto simp: Let_def result_simps)
  show ?goal
  proof (cases choice)
    case (Skip reason)
    with Cons.prems p e ch show ?thesis by (intro rest) (simp add: Let_def)
  next
    case (Claim profile cnt)
    with Cons.prems p e ch obtain db1 result where cl: "claim_routed_work env k x db j w profile cnt
        (oq_preferred_executor (o_request w) \<noteq> None) (clk n) = Inr (db1, result)"
      and cont: "(if ck_reason result = Some ''checkout_conflict''
               then checkout_orders env k x clk (Suc n) j ws (ms @ re_reasons e) (rs @ [''checkout_conflict'']) db1
               else Inr (db1, result)) = Inr (db', out)"
      by (auto simp: Let_def result_simps simp del: not_None_eq)
    show ?thesis
    proof (cases "ck_reason result = Some ''checkout_conflict''")
      case True
      with claim_unassigned [OF cl] have "db1 = db" by simp
      with cont True rest show ?thesis by simp
    next
      case False
      with cont have out: "db1 = db'" "result = out" by simp_all
      with cl e ch Claim have "claims_order env k x j db (clk n) w m db' out" unfolding claims_order_def by blast
      with claim_unassigned(1) [OF cl] out p show ?thesis by auto
    qed
  qed
qed

lemma checkout_orders_refines:
  assumes "exec_inv db" and "\<And>w m. (w, m) \<in> set ws \<Longrightarrow> w \<in> set (orders db)"
    and "checkout_orders env k x clk n j ws ms rs db = Inr (db', out)"
  shows "refines db (claim_event j out) db'"
  using checkout_orders_outcome [OF assms(3)] assms(1,2) claim_routed_work_refines
  by (fastforce simp: claims_order_def claim_event_def)

lemma queued_orders_members: "(w, m) \<in> set (list_queued_work_orders db) \<Longrightarrow> w \<in> set (orders db) \<and> o_status w = WO_QUEUED"
  by (auto simp: list_queued_work_orders_def)

lemma unavailable_unassigned: "unavailable_worker_result v = Some out \<Longrightarrow> ck_run_id out = None \<and> ck_work_order_id out = None"
  by (auto simp: unavailable_worker_result_def unassigned_def split: if_splits)

lemma exec_checkout_refines:
  assumes inv: "exec_inv db" and c: "exec_checkout env ids k x now0 now1 clk db j = Inr (db', out)"
  shows "\<exists>ks. refines db (map (\<lambda>k. RetireRun k RUN_TIMED_OUT WO_QUEUED) ks @ claim_event j out) db'"
proof -
  from c obtain db1 ms db2 res db3 v where 1: "sync_trusted_manifests env ids db = Inr (db1, ms)"
    and 2: "expire_stale_leases db1 now0 = Inr (db2, res)"
    and 3: "record_checkout_poll db2 j now1 = (db3, True)" and v: "find_worker db3 j = Some v"
    and 4: "(case unavailable_worker_result v of Some result \<Rightarrow> Inr (db3, result)
        | None \<Rightarrow> checkout_eligible_work env k x clk j db3) = Inr (db', out)"
    by (auto simp: exec_checkout_def result_simps case_prod_unfold prod_eq_iff split: if_split_asm option.split_asm)
  have l1: "ledger_of db1 = ledger_of db" by (rule sync_ledger [OF 1])
  then have inv1: "exec_inv db1" using inv by (simp add: exec_inv_def)
  note r2 = expire_stale_leases_refines [OF inv1 2]
  have l3: "ledger_of db3 = ledger_of db2" by (rule poll_same [OF 3])
  have inv3: "exec_inv db3" using refines_inv [OF r2 inv1] by (simp add: exec_inv_def l3)
  have "refines db3 (claim_event j out) db'"
  proof (cases "unavailable_worker_result v")
    case None
    then have "checkout_orders env k x clk 0 j (list_queued_work_orders db3) [] [] db3 = Inr (db', out)"
      using 4 by (simp add: checkout_eligible_work_def)
    from checkout_orders_refines [OF inv3 _ this] queued_orders_members show ?thesis by blast
  next
    case (Some result)
    then show ?thesis using 4 unavailable_unassigned [OF Some] by (simp add: claim_event_def)
  qed
  then have "refines db (map (\<lambda>k. RetireRun k RUN_TIMED_OUT WO_QUEUED) (ex_timed_out res) @ claim_event j out) db'"
    using r2 by (simp add: refines_from_same [OF l3] refines_from_same [OF l1] refines_append)
  then show ?thesis by blast
qed

section \<open>Requests\<close>

lemma refines_respond:
  assumes "\<And>db' v. r = Inr (db', v) \<Longrightarrow> \<exists>es. refines db es db'"
  shows "\<exists>es. refines db es (fst (respond db r))"
proof (cases r)
  case (Inl e)
  then have "refines db [] (fst (respond db r))" by (simp add: respond_def)
  then show ?thesis ..
next
  case (Inr p)
  then show ?thesis using assms by (cases p) (simp add: respond_def)
qed

lemma exec_handle_order_refines:
  assumes "exec_inv db"
  shows "\<exists>es. refines db es (fst (http_create_work_order env t db d))"
    "\<exists>es. refines db es (fst (http_approve_work_order env t db i q))"
    "\<exists>es. refines db es (fst (http_queue_work_order t db i))"
    "\<exists>es. refines db es (fst (http_reject_work_order t db i reason))"
    "\<exists>es. refines db es (fst (http_expire_work_order t db i reason))"
    "\<exists>es. refines db es (fst (http_cancel_work_order env t db i reason))"
proof -
  note keys = exec_inv_keys [OF assms]
  show "\<exists>es. refines db es (fst (http_create_work_order env t db d))"
    unfolding http_create_work_order_def by (rule refines_respond, rule exI, rule create_work_order_refines)
  show "\<exists>es. refines db es (fst (http_approve_work_order env t db i q))"
    unfolding http_approve_work_order_def by (rule refines_respond, rule exI, rule approve_refines [OF keys])
  show "\<exists>es. refines db es (fst (http_queue_work_order t db i))"
    unfolding http_queue_work_order_def by (rule refines_respond, rule exI, rule unleased_refines(1) [OF keys])
  show "\<exists>es. refines db es (fst (http_reject_work_order t db i reason))"
    unfolding http_reject_work_order_def by (rule refines_respond, rule exI, rule unleased_refines(2) [OF keys])
  show "\<exists>es. refines db es (fst (http_expire_work_order t db i reason))"
    unfolding http_expire_work_order_def by (rule refines_respond, rule exI, rule unleased_refines(3) [OF keys])
  show "\<exists>es. refines db es (fst (http_cancel_work_order env t db i reason))"
    unfolding http_cancel_work_order_def by (rule refines_respond, drule cancel_refines [OF assms], blast)
qed

lemma exec_handle_profile_refines:
  assumes "exec_inv db"
  shows "\<exists>es. refines db es (fst (http_create_routing_profile db n j v))"
    "\<exists>es. refines db es (fst (http_replace_routing_profile db j n v))"
    "\<exists>es. refines db es (fst (http_reset_routing_quota db j n q d))"
proof -
  note keys = exec_inv_keys [OF assms]
  show "\<exists>es. refines db es (fst (http_create_routing_profile db n j v))"
    unfolding http_create_routing_profile_def by (rule refines_respond, rule exI, rule create_routing_profile_refines)
  show "\<exists>es. refines db es (fst (http_replace_routing_profile db j n v))"
    unfolding http_replace_routing_profile_def
    by (rule refines_respond, rule exI, rule replace_routing_profile_refines [OF keys])
  show "\<exists>es. refines db es (fst (http_reset_routing_quota db j n q d))"
    unfolding http_reset_routing_quota_def by (rule refines_respond, drule reset_routing_quota_refines [OF keys], blast)
qed

lemma exec_handle_run_refines:
  assumes "exec_inv db"
  shows "\<exists>es. refines db es (fst (http_checkout env t db j))"
    "\<exists>es. refines db es (fst (http_heartbeat_run env t db k j))"
    "\<exists>es. refines db es (fst (http_complete_run env t db k j c))"
    "\<exists>es. refines db es (fst (http_expire_leases t db))"
    "\<exists>es. refines db es (fst (http_requeue_stale_work_order t db i))"
proof -
  have "\<exists>es. refines db es db'" if "requeue_stale_work_order db now i = Inr (db', w)" for now db' w
    using that expire_stale_leases_refines [OF assms]
    by (auto simp: requeue_stale_work_order_def result_simps split: if_splits)
  then show "\<exists>es. refines db es (fst (http_requeue_stale_work_order t db i))"
    unfolding http_requeue_stale_work_order_def by (rule refines_respond)
  show "\<exists>es. refines db es (fst (http_checkout env t db j))"
    unfolding http_checkout_def by (rule refines_respond) (use exec_checkout_refines [OF assms] in blast)
  show "\<exists>es. refines db es (fst (http_heartbeat_run env t db k j))"
    unfolding http_heartbeat_run_def
    by (rule refines_respond) (use heartbeat_run_refines [OF assms] refines_step in blast)
  show "\<exists>es. refines db es (fst (http_complete_run env t db k j c))"
    unfolding http_complete_run_def by (rule refines_respond) (use complete_run_refines [OF assms] in blast)
  show "\<exists>es. refines db es (fst (http_expire_leases t db))"
    unfolding http_expire_leases_def by (rule refines_respond) (use expire_stale_leases_refines [OF assms] in blast)
qed

lemma assess_route_tables:
  assumes "assess_route env ids db now i = Inr (db', v)"
  shows "\<exists>ms. sync_trusted_manifests env ids db = Inr (db', ms)"
proof -
  from assms obtain db1 ms w where s: "sync_trusted_manifests env ids db = Inr (db1, ms)"
    and w: "get_work_order db1 i = Inr w"
    by (auto simp: assess_route_def result_simps)
  from assms s w obtain m where q: "o_status w = WO_QUEUED"
    and m: "get_manifest_row db1 (oq_manifest_name (o_request w)) (oq_manifest_version (o_request w)) = Some m"
    by (auto simp: assess_route_def split: if_split_asm option.split_asm)
  show ?thesis
  proof (cases "oq_routing_policy (o_request w) = FIRST_AVAILABLE")
    case True
    with assms s w q m show ?thesis by (simp add: assess_route_def Let_def)
  next
    case False
    let ?cs = "candidates_of (routing_eligibilities env db1 (routing_request_of w m) now)"
    from assms s w q m False obtain ranked where r: "ranked_or_error ?cs (oq_required_quota_units (o_request w)) = Inr ranked"
      by (auto simp: assess_route_def Let_def result_simps)
    show ?thesis
    proof (cases ranked)
      case Nil
      with assms s w q m False r show ?thesis by (simp add: assess_route_def Let_def)
    next
      case (Cons c cs)
      with assms s w q m False r show ?thesis by (cases "rc_profile c") (simp_all add: assess_route_def Let_def)
    qed
  qed
qed

lemma assess_route_same: "assess_route env ids db now i = Inr (db', v) \<Longrightarrow> ledger_of db' = ledger_of db"
  by (blast dest: assess_route_tables sync_ledger)

lemma exec_handle_same:
  "ledger_of (fst (http_list_manifests env t db)) = ledger_of db"
  "ledger_of (fst (http_get_manifest env t db n v)) = ledger_of db"
  "ledger_of (fst (http_assess_work_order_route env t db i)) = ledger_of db"
  "ledger_of (fst (http_heartbeat_worker t db j st)) = ledger_of db"
  "ledger_of (fst (http_resolve_reuse_candidate env t db k j ident h)) = ledger_of db"
proof -
  have same: "ledger_of (fst (respond db r)) = ledger_of db"
    if "\<And>db' v. r = Inr (db', v) \<Longrightarrow> ledger_of db' = ledger_of db" for r :: "exec_error + exec_db \<times> 'b"
    using that by (auto simp: respond_def split: sum.splits)
  show "ledger_of (fst (http_list_manifests env t db)) = ledger_of db"
    unfolding http_list_manifests_def
    by (rule same) (auto simp: list_manifests_service_def result_simps dest: sync_ledger)
  show "ledger_of (fst (http_get_manifest env t db n v)) = ledger_of db"
    unfolding http_get_manifest_def
    by (rule same) (auto simp: get_manifest_def result_simps split: option.splits dest: sync_ledger)
  show "ledger_of (fst (http_assess_work_order_route env t db i)) = ledger_of db"
    unfolding http_assess_work_order_route_def
    by (rule same) (rule assess_route_same)
  show "ledger_of (fst (http_heartbeat_worker t db j st)) = ledger_of db"
    unfolding http_heartbeat_worker_def
    by (rule same) (auto simp: keep_unit_def result_simps dest: heartbeat_worker_same)
  show "ledger_of (fst (http_resolve_reuse_candidate env t db k j ident h)) = ledger_of db"
    unfolding http_resolve_reuse_candidate_def by (rule same) (rule resolve_reuse_same)
qed

lemma exec_handle_register_refines:
  assumes "exec_inv db"
  shows "\<exists>es. refines db es (fst (http_register_worker t db v))"
  unfolding http_register_worker_def
  by (rule refines_respond) (auto simp: keep_unit_def result_simps dest: register_worker_refines [OF assms])

lemma same_refines: "ledger_of db' = ledger_of db \<Longrightarrow> \<exists>es. refines db es db'"
  by (blast intro: refines_same)

lemmas handle_refines = exec_handle_same [THEN same_refines]
lemmas handle_inv_refines = exec_handle_order_refines exec_handle_profile_refines exec_handle_run_refines
  exec_handle_register_refines

lemma scoped_refines:
  assumes "exec_inv db"
  shows "\<exists>es. refines db es (fst (worker_register p t db v))"
    "\<exists>es. refines db es (fst (worker_heartbeat p t db j st))"
    "\<exists>es. refines db es (fst (worker_checkout p env t db j))"
    "\<exists>es. refines db es (fst (worker_resolve_reuse_candidate p env t db k j ident h))"
    "\<exists>es. refines db es (fst (worker_heartbeat_run p env t db k j))"
    "\<exists>es. refines db es (fst (worker_complete_run p env t db k j c))"
  unfolding worker_register_def worker_heartbeat_def worker_checkout_def worker_resolve_reuse_candidate_def
    worker_heartbeat_run_def worker_complete_run_def
  by (auto simp: handle_refines handle_inv_refines [OF assms] same_refines)

lemma scoped_manifest_refines: "\<exists>es. refines db es (fst (worker_get_manifest p env t db n v k))"
proof -
  have "ledger_of (fst (worker_get_manifest p env t db n v k)) = ledger_of db"
    by (auto simp: worker_get_manifest_def exec_handle_same split: option.splits)
  then show ?thesis by (rule same_refines)
qed

lemma exec_handle_refines:
  assumes "exec_inv db"
  shows "\<exists>es. refines db es (exec_handle env t req db)"
proof (cases "(env, t, req, db)" rule: exec_handle.cases)
qed (simp_all add: handle_refines handle_inv_refines [OF assms] scoped_refines [OF assms] scoped_manifest_refines
    same_refines)

section \<open>Reachable tables\<close>

definition empty_exec_db :: exec_db where
  "empty_exec_db = \<lparr>manifests = [], orders = [], workers = [], profiles = [], runs = [], xleases = []\<rparr>"

definition exec_start :: "exec_db \<Rightarrow> bool" where
  "exec_start db \<longleftrightarrow> db = empty_exec_db"

definition exec_step :: "service_env \<Rightarrow> exec_db \<Rightarrow> tick \<times> exec_request \<Rightarrow> exec_db \<Rightarrow> bool" where
  "exec_step env db e db' \<longleftrightarrow> db' = exec_handle env (fst e) (snd e) db"

text \<open>The tables reachable by requests.\<close>

abbreviation exec_reachable :: "service_env \<Rightarrow> exec_db \<Rightarrow> bool" where
  "exec_reachable env db \<equiv> reach exec_start (exec_step env) db"

interpretation exec_system: invariant_system exec_start "exec_step env" exec_inv for env
proof unfold_locales
  show "exec_inv db" if "exec_start db" for db
    using that by (simp add: exec_start_def empty_exec_db_def exec_inv_def ledger_of_def ledger_inv_defs ledger_readonly_def ledger_unreleased_def)
  show "exec_inv db'" if "exec_inv db" "exec_step env db e db'" for db e db'
    using that exec_handle_refines [of db env "fst e" "snd e"] refines_inv by (auto simp: exec_step_def)
qed

end
