(* ===== verification/Readiness.thy ===== *)
theory Readiness
  imports Execution_Service
begin

text \<open>
  Read-only readiness of the trusted catalog: \<open>assess_repository_readiness\<close> and
  \<open>assess_catalog_readiness\<close> of \<^verbatim>\<open>server/execution/service.py\<close> with their helpers, the
  projection of latest results in \<^verbatim>\<open>server/execution/repository.py\<close>, and the public
  vocabulary of \<^verbatim>\<open>server/api/routers/execution.py\<close>. Everything here reads the same
  evaluator as the checkout and changes no table.
\<close>

section \<open>Latest results\<close>

record latest_run_projection =
  lp_reuse_decision :: reuse_decision
  lp_started_at :: "time option"
  lp_finished_at :: "time option"
  lp_evidence :: "execution_evidence option"

record latest_result =
  cl_reuse_decision :: string
  cl_duration_seconds :: "int option"
  cl_step_count :: nat
  cl_avoided_work_count :: nat

definition MAX_CATALOG_LATEST_PROJECTIONS :: nat where
  "MAX_CATALOG_LATEST_PROJECTIONS = 32"

definition MAX_CATALOG_RESULT_DURATION_SECONDS :: int where
  "MAX_CATALOG_RESULT_DURATION_SECONDS = 86400"

definition MAX_CATALOG_RESULT_STEPS :: nat where
  "MAX_CATALOG_RESULT_STEPS = 128"

definition catalog_run_key :: "run_row \<Rightarrow> time \<times> int" where
  "catalog_run_key r = (case r_finished_at r of None \<Rightarrow> 0 | Some t \<Rightarrow> t, r_id r)"

definition catalog_runs :: "exec_db \<Rightarrow> string \<times> string \<times> string \<Rightarrow> run_row list" where
  "catalog_runs db identity =
     filter
       (\<lambda>r. r_status r = RUN_SUCCEEDED \<and> r_finished_at r \<noteq> None
            \<and> ru_decision (r_reuse r) \<in> {RD_FRESH, RD_REUSED}
            \<and> (\<exists>w \<in> set (orders db). o_id w = r_work_order_id r
                 \<and> (oq_repository_full_name (o_request w), oq_manifest_name (o_request w),
                     oq_manifest_version (o_request w)) = identity))
       (runs db)"

text \<open>Row number 1 of the window ordered by \<open>finished_at DESC, id DESC\<close>.\<close>

definition latest_catalog_run :: "exec_db \<Rightarrow> string \<times> string \<times> string \<Rightarrow> run_row option" where
  "latest_catalog_run db identity =
     (case rev (sort_key catalog_run_key (catalog_runs db identity)) of [] \<Rightarrow> None | r # _ \<Rightarrow> Some r)"

definition projection_of :: "run_row \<Rightarrow> latest_run_projection" where
  "projection_of r =
     \<lparr>lp_reuse_decision = ru_decision (r_reuse r), lp_started_at = r_started_at r,
      lp_finished_at = r_finished_at r, lp_evidence = rp_evidence_metadata (r_report r)\<rparr>"

definition list_latest_successful_catalog_runs ::
  "exec_db \<Rightarrow> (string \<times> string \<times> string) list
    \<Rightarrow> exec_error + (string \<times> string \<times> string \<Rightarrow> latest_run_projection option)" where
  "list_latest_successful_catalog_runs db identities =
     (let normalized = sort (remdups identities)
      in if length normalized > MAX_CATALOG_LATEST_PROJECTIONS
            \<or> (\<exists>(a, b, c) \<in> set normalized. a = [] \<or> b = [] \<or> c = [])
         then Inl (ValueError ''catalog latest-result identities are invalid'')
         else Inr (\<lambda>identity. if identity \<in> set normalized
                              then map_option projection_of (latest_catalog_run db identity) else None))"

text \<open>\<open>int(delta.total_seconds())\<close>: truncation toward zero.\<close>

definition whole_seconds :: "int \<Rightarrow> int" where
  "whole_seconds d = (if d \<ge> 0 then d div 1000000 else - ((- d) div 1000000))"

definition catalog_latest_result :: "latest_run_projection option \<Rightarrow> latest_result option" where
  "catalog_latest_result projection =
     (case projection of
        None \<Rightarrow> None
      | Some p \<Rightarrow>
          let duration = (case (lp_started_at p, lp_finished_at p) of
                (Some s, Some f) \<Rightarrow>
                  let d = whole_seconds (f - s)
                  in if 0 \<le> d \<and> d \<le> MAX_CATALOG_RESULT_DURATION_SECONDS then Some d else None
              | _ \<Rightarrow> None);
              step_count = (case lp_evidence p of
                None \<Rightarrow> 0
              | Some e \<Rightarrow>
                  let n = length (ev_steps (ev_draft e)) in if n \<le> MAX_CATALOG_RESULT_STEPS then n else 0)
          in Some \<lparr>cl_reuse_decision = reuse_decision_value (lp_reuse_decision p),
                   cl_duration_seconds = duration, cl_step_count = step_count,
                   cl_avoided_work_count = (if lp_reuse_decision p = RD_REUSED then step_count else 0)\<rparr>)"

section \<open>Catalog entries\<close>

definition runtime_version_text :: "string \<Rightarrow> bool" where
  "runtime_version_text v =
     (let ps = split_on (CHR ''.'') v
      in length ps \<in> {2, 3} \<and> list_all (\<lambda>p. p \<noteq> [] \<and> list_all is_digit p) ps)"

definition safe_runtime_requirement :: "json option \<Rightarrow> string option" where
  "safe_runtime_requirement requirement =
     (case requirement of
        Some (JObj [(k, JStr v)]) \<Rightarrow>
          if k = ''exact'' \<and> runtime_version_text v then Some (''='' @ v)
          else if k = ''minimum'' \<and> runtime_version_text v then Some (''>='' @ v) else None
      | Some (JStr v) \<Rightarrow> if runtime_version_text v then Some (''>='' @ v) else None
      | _ \<Rightarrow> None)"

definition safe_runtime_requirements :: "json_object \<Rightarrow> (string \<times> string) list" where
  "safe_runtime_requirements requirements =
     List.map_filter
       (\<lambda>runtime. map_option (\<lambda>v. (runtime, v)) (safe_runtime_requirement (map_of requirements runtime)))
       [''python'', ''node'', ''pnpm'']"

definition PUBLIC_REASONS :: "(string \<times> string) list" where
  "PUBLIC_REASONS =
     [(''worker_repository_unavailable'', ''repository_unavailable''),
      (''routing_profile_missing'', ''profile_missing''), (''routing_profile_invalid'', ''profile_invalid''),
      (''routing_profile_disabled'', ''profile_disabled''), (''worker_heartbeat_stale'', ''stale_worker''),
      (''worker_checkout_poll_stale'', ''stale_worker''), (''worker_not_available'', ''worker_unavailable''),
      (''worker_concurrency_limit'', ''capacity_constrained''),
      (''routing_cost_ceiling_exceeded'', ''maximum_cost_exceeded''),
      (''routing_quota_insufficient'', ''insufficient_quota''),
      (''preferred_executor_unavailable'', ''preferred_executor_unavailable'')]"

definition catalog_primary_blocker :: "string \<Rightarrow> routing_eligibility list \<Rightarrow> string" where
  "catalog_primary_blocker repository_full_name evaluations =
     (if \<exists>e \<in> set evaluations. re_candidate e \<noteq> None then ''ready''
      else if evaluations = [] then ''no_registered_workers''
      else
        let advertised = filter (\<lambda>e. repository_full_name \<in> set (advertised_repositories (re_worker e))) evaluations
        in if advertised = [] then ''repository_unavailable''
           else case map_of PUBLIC_REASONS (unavailable_route_reason (concat (map re_reasons advertised)) False) of
                  Some r \<Rightarrow> r | None \<Rightarrow> ''manifest_capability_mismatch'')"

definition LEGACY_CATALOG_EXCLUSIONS :: "(string \<times> string list) list" where
  "LEGACY_CATALOG_EXCLUSIONS =
     [(''Nobodyworld/app-accounting-modular'', [''manual-semantic-review'', ''publication'']),
      (''Nobodyworld/dev-agent-switchboard'', [''manual-semantic-review'', ''publication''])]"

definition catalog_exclusions :: "service_env \<Rightarrow> string \<Rightarrow> string list" where
  "catalog_exclusions env repository_full_name =
     (case find (\<lambda>p. fst p = repository_full_name) (env_exclusions env) of
        Some p \<Rightarrow> take 16 (snd p)
      | None \<Rightarrow>
          (case map_of LEGACY_CATALOG_EXCLUSIONS repository_full_name of
             Some xs \<Rightarrow> xs | None \<Rightarrow> [''manual-semantic-review'', ''publication'']))"

record catalog_readiness =
  cr_repository_full_name :: string
  cr_display_name :: string
  cr_manifest_name :: string
  cr_manifest_version :: string
  cr_manifest_digest :: string
  cr_runtime_requirements :: "(string \<times> string) list"
  cr_ready_count :: nat
  cr_primary_blocker_code :: string
  cr_latest_result :: "latest_result option"
  cr_exclusions :: "string list"

definition readiness_request ::
  "string \<Rightarrow> trusted_manifest \<Rightarrow> routing_policy \<Rightarrow> int option \<Rightarrow> int \<Rightarrow> string option \<Rightarrow> routing_request" where
  "readiness_request repository_full_name m policy maximum_cost required_quota preferred =
     \<lparr>rq_repository_full_name = repository_full_name, rq_routing_policy = policy,
      rq_preferred_executor = preferred, rq_maximum_cost_units = maximum_cost,
      rq_required_quota_units = required_quota, rq_manifest_requirements = tm_required_capabilities m,
      rq_requested_requirements = [], rq_network_policy = tm_network_policy m\<rparr>"

definition evaluate_workers ::
  "service_env \<Rightarrow> (worker_row \<times> profile_row option) list \<Rightarrow> routing_request \<Rightarrow> time \<Rightarrow> routing_eligibility list" where
  "evaluate_workers env snapshot rq now =
     map (\<lambda>(w, p). evaluate_routing_candidate w p rq now (env_heartbeat_freshness env) (env_poll_freshness env)) snapshot"

definition ready_count :: "routing_eligibility list \<Rightarrow> nat" where
  "ready_count evaluations = length (filter (\<lambda>e. re_candidate e \<noteq> None) evaluations)"

fun resolve_defaults ::
  "service_env \<Rightarrow> trusted_repository list \<Rightarrow> exec_error + (trusted_repository \<times> trusted_manifest) list" where
  "resolve_defaults env [] = Inr []"
| "resolve_defaults env (p # ps) =
     (case get_trusted_manifest env (fst (tp_default_manifest p)) (snd (tp_default_manifest p)) of
        None \<Rightarrow> Inl (ManifestIntegrityError ''trusted_manifest_not_found'')
      | Some m \<Rightarrow> rbind (resolve_defaults env ps) (\<lambda>rest. Inr ((p, m) # rest)))"

definition catalog_entry ::
  "service_env \<Rightarrow> (worker_row \<times> profile_row option) list
    \<Rightarrow> (string \<times> string \<times> string \<Rightarrow> latest_run_projection option) \<Rightarrow> time
    \<Rightarrow> trusted_repository \<times> trusted_manifest \<Rightarrow> catalog_readiness" where
  "catalog_entry env snapshot latest now = (\<lambda>(p, m).
     let evaluations = evaluate_workers env snapshot (readiness_request (tp_full_name p) m FIRST_AVAILABLE None 0 None) now
     in \<lparr>cr_repository_full_name = tp_full_name p, cr_display_name = tp_display_name p,
         cr_manifest_name = tm_name m, cr_manifest_version = tm_version m, cr_manifest_digest = tm_digest m,
         cr_runtime_requirements = safe_runtime_requirements (tm_required_capabilities m),
         cr_ready_count = ready_count evaluations,
         cr_primary_blocker_code = catalog_primary_blocker (tp_full_name p) evaluations,
         cr_latest_result = catalog_latest_result (latest (tp_full_name p, tm_name m, tm_version m)),
         cr_exclusions = catalog_exclusions env (tp_full_name p)\<rparr>)"

definition assess_catalog_readiness :: "service_env \<Rightarrow> exec_db \<Rightarrow> time \<Rightarrow> exec_error + catalog_readiness list" where
  "assess_catalog_readiness env db now =
     rbind (resolve_defaults env (env_repositories env)) (\<lambda>resolved.
     case list_catalog_readiness_workers db of
       (snapshot, limit_exceeded) \<Rightarrow>
         if limit_exceeded then Inl (CatalogReadinessLimitError ''catalog_readiness_worker_limit_exceeded'')
         else rbind (list_latest_successful_catalog_runs db
                       (map (\<lambda>(p, m). (tp_full_name p, tm_name m, tm_version m)) resolved)) (\<lambda>latest.
           Inr (map (catalog_entry env snapshot latest now) resolved)))"

section \<open>One repository\<close>

definition assess_repository_readiness ::
  "service_env \<Rightarrow> exec_db \<Rightarrow> time \<Rightarrow> string \<Rightarrow> string \<Rightarrow> string \<Rightarrow> routing_policy \<Rightarrow> int option \<Rightarrow> int \<Rightarrow> string option
    \<Rightarrow> exec_error + routing_eligibility list \<times> routing_candidate option" where
  "assess_repository_readiness env db now repository_full_name name version policy maximum_cost required_quota preferred =
     (if \<not> repository_allows_manifest env repository_full_name name version
      then Inl (UnknownManifestError ''repository_manifest_not_allowed'')
      else case get_trusted_manifest env name version of
        None \<Rightarrow> Inl (UnknownManifestError ''trusted_manifest_not_found'')
      | Some m \<Rightarrow>
          let rq = readiness_request repository_full_name m policy maximum_cost required_quota preferred;
              evaluations = routing_eligibilities env db rq now;
              candidates = candidates_of evaluations
          in if policy = CHEAPEST_CAPABLE
             then rbind (ranked_or_error candidates required_quota) (\<lambda>ranked.
               Inr (evaluations, case ranked of [] \<Rightarrow> None | c # _ \<Rightarrow> Some c))
             else Inr (evaluations,
               case preferred of
                 None \<Rightarrow> None
               | Some e \<Rightarrow> find (\<lambda>c. w_worker_id (rc_worker c) = e) candidates))"

definition READINESS_PRECEDENCE :: "(string \<times> string) list" where
  "READINESS_PRECEDENCE =
     [(''preferred_executor_mismatch'', ''preferred_executor_mismatch''),
      (''worker_repository_unavailable'', ''repository_unavailable''),
      (''routing_profile_missing'', ''profile_missing''), (''routing_profile_invalid'', ''profile_invalid''),
      (''routing_profile_disabled'', ''profile_disabled''), (''worker_heartbeat_stale'', ''stale''),
      (''worker_checkout_poll_stale'', ''stale''), (''worker_not_available'', ''worker_unavailable''),
      (''worker_concurrency_limit'', ''capacity_constrained''),
      (''routing_cost_ceiling_exceeded'', ''maximum_cost_exceeded''),
      (''routing_quota_insufficient'', ''insufficient_quota'')]"

definition repository_readiness_reason :: "routing_eligibility \<Rightarrow> string" where
  "repository_readiness_reason e =
     (if re_candidate e \<noteq> None then ''ready''
      else case find (\<lambda>p. fst p \<in> set (re_reasons e)) READINESS_PRECEDENCE of
             Some p \<Rightarrow> snd p | None \<Rightarrow> ''manifest_capability_mismatch'')"

definition repository_activity_state :: "routing_eligibility \<Rightarrow> string" where
  "repository_activity_state e =
     (let reasons = set (re_reasons e)
      in if ''worker_not_available'' \<in> reasons then ''unavailable''
         else if ''worker_heartbeat_stale'' \<in> reasons \<or> ''worker_checkout_poll_stale'' \<in> reasons then ''stale''
         else if ''worker_concurrency_limit'' \<in> reasons then ''capacity_constrained''
         else ''active'')"

record worker_readiness =
  wk_worker_id :: string
  wk_display_name :: string
  wk_advertises_repository :: bool
  wk_activity_state :: string
  wk_profile_enabled :: bool
  wk_cost :: "int option"
  wk_quota_remaining :: "int option"
  wk_quota_capacity :: "int option"
  wk_active_run_count :: int
  wk_max_concurrency :: int
  wk_reason :: string
  wk_ready :: bool
  wk_selected :: bool

record repository_readiness =
  rd_manifest_name :: string
  rd_manifest_version :: string
  rd_selected_worker_id :: "string option"
  rd_eligible_worker_count :: nat
  rd_workers :: "worker_readiness list"

definition MAX_READINESS_WORKERS :: nat where
  "MAX_READINESS_WORKERS = 100"

definition worker_readiness_of :: "string \<Rightarrow> routing_candidate option \<Rightarrow> routing_eligibility \<Rightarrow> worker_readiness" where
  "worker_readiness_of repository_full_name selected e =
     (let w = re_worker e
      in \<lparr>wk_worker_id = w_worker_id w, wk_display_name = w_display_name w,
          wk_advertises_repository = (repository_full_name \<in> set (w_repository_full_names w)),
          wk_activity_state = repository_activity_state e,
          wk_profile_enabled = (case re_profile e of None \<Rightarrow> False | Some p \<Rightarrow> q_enabled p),
          wk_cost = map_option q_cost (re_profile e), wk_quota_remaining = map_option q_remaining (re_profile e),
          wk_quota_capacity = map_option q_capacity (re_profile e),
          wk_active_run_count = w_active_run_count w, wk_max_concurrency = w_max_concurrency w,
          wk_reason = repository_readiness_reason e, wk_ready = (re_candidate e \<noteq> None),
          wk_selected = (case selected of None \<Rightarrow> False | Some c \<Rightarrow> w_worker_id (rc_worker c) = w_worker_id w)\<rparr>)"

text \<open>The HTTP errors of \<open>_build_repository_readiness\<close> are pairs of status and detail.\<close>

definition build_repository_readiness ::
  "service_env \<Rightarrow> exec_db \<Rightarrow> time \<Rightarrow> string \<Rightarrow> string option \<Rightarrow> string option \<Rightarrow> routing_policy \<Rightarrow> int option \<Rightarrow> int
    \<Rightarrow> string option \<Rightarrow> (int \<times> string) + repository_readiness" where
  "build_repository_readiness env db now repository_full_name name version policy maximum_cost required_quota preferred =
     (case get_trusted_repository env repository_full_name of
        None \<Rightarrow> Inl (404, ''trusted_repository_not_found'')
      | Some p \<Rightarrow>
          if (name = None) \<noteq> (version = None) then Inl (422, ''manifest_identity_must_be_complete'')
          else
            let (n, v) = (case (name, version) of (Some n, Some v) \<Rightarrow> (n, v) | _ \<Rightarrow> tp_default_manifest p)
            in if \<not> repository_allows_manifest env repository_full_name n v
               then Inl (422, ''repository_manifest_not_allowed'')
               else case assess_repository_readiness env db now repository_full_name n v policy maximum_cost required_quota preferred of
                 Inl _ \<Rightarrow> Inl (500, ''internal_error'')
               | Inr (evaluations, selected) \<Rightarrow>
                   Inr \<lparr>rd_manifest_name = n, rd_manifest_version = v,
                        rd_selected_worker_id = map_option (\<lambda>c. w_worker_id (rc_worker c)) selected,
                        rd_eligible_worker_count = ready_count evaluations,
                        rd_workers = map (worker_readiness_of repository_full_name selected)
                          (take MAX_READINESS_WORKERS evaluations)\<rparr>)"

definition CATALOG_BLOCKER_LABELS :: "(string \<times> string) list" where
  "CATALOG_BLOCKER_LABELS =
     [(''ready'', ''No current blocker''), (''no_registered_workers'', ''No registered workers''),
      (''repository_unavailable'', ''No registered worker advertises this repository''),
      (''manifest_capability_mismatch'', ''No worker satisfies the reviewed runtime requirements''),
      (''profile_missing'', ''Routing profile is missing''), (''profile_invalid'', ''Routing profile is invalid''),
      (''profile_disabled'', ''Routing profile is disabled''), (''stale_worker'', ''Registered workers are stale''),
      (''capacity_constrained'', ''Compatible workers are at capacity''),
      (''worker_unavailable'', ''Compatible workers are unavailable''),
      (''maximum_cost_exceeded'', ''Routing cost ceiling excludes compatible workers''),
      (''insufficient_quota'', ''Routing quota is insufficient''),
      (''preferred_executor_unavailable'', ''Preferred worker is unavailable'')]"

section \<open>Lemmas\<close>

lemma ready_count_zero: "ready_count es = 0 \<longleftrightarrow> (\<forall>e \<in> set es. re_candidate e = None)"
  by (auto simp: ready_count_def filter_empty_conv)

lemma blocker_ready_iff: "catalog_primary_blocker name es = ''ready'' \<longleftrightarrow> 0 < ready_count es"
proof -
  have "v \<noteq> ''ready''" if "map_of PUBLIC_REASONS r = Some v" for r v
    using that by (auto simp: PUBLIC_REASONS_def split: if_splits)
  then have "catalog_primary_blocker name es = ''ready'' \<longleftrightarrow> (\<exists>e \<in> set es. re_candidate e \<noteq> None)"
    by (auto simp: catalog_primary_blocker_def Let_def split: option.splits)
  then show ?thesis using ready_count_zero [of es] by auto
qed

lemma blocker_labelled: "catalog_primary_blocker name es \<in> fst ` set CATALOG_BLOCKER_LABELS"
proof -
  have "v \<in> fst ` set CATALOG_BLOCKER_LABELS" if "map_of PUBLIC_REASONS r = Some v" for r v
    using that by (auto simp: PUBLIC_REASONS_def CATALOG_BLOCKER_LABELS_def split: if_splits)
  moreover have "{''ready'', ''no_registered_workers'', ''repository_unavailable'', ''manifest_capability_mismatch''}
      \<subseteq> fst ` set CATALOG_BLOCKER_LABELS"
    by (simp add: CATALOG_BLOCKER_LABELS_def)
  ultimately show ?thesis
    by (auto simp: catalog_primary_blocker_def Let_def split: option.splits)
qed

lemma latest_catalog_run_max:
  assumes "latest_catalog_run db identity = Some r"
  shows "r \<in> set (catalog_runs db identity)"
    and "r' \<in> set (catalog_runs db identity) \<Longrightarrow> catalog_run_key r' \<le> catalog_run_key r"
proof -
  let ?s = "sort_key catalog_run_key (catalog_runs db identity)"
  from assms obtain rest where s: "rev ?s = r # rest" by (auto simp: latest_catalog_run_def split: list.splits)
  then have s': "?s = rev rest @ [r]" by (metis rev.simps(2) rev_rev_ident)
  then have "r \<in> set ?s" by simp
  then show "r \<in> set (catalog_runs db identity)" by simp
  have "sorted (map catalog_run_key ?s)" by (rule sorted_sort_key)
  then show "catalog_run_key r' \<le> catalog_run_key r" if "r' \<in> set (catalog_runs db identity)"
  proof -
    from that have "r' \<in> set (rev rest @ [r])" using s' by (metis set_sort)
    with \<open>sorted (map catalog_run_key ?s)\<close> s' show ?thesis by (auto simp: sorted_append)
  qed
qed

end
