(* ===== verification/Execution_Samples.thy ===== *)
theory Execution_Samples
  imports Execution_System Readiness
begin

text \<open>
  Sample tables for the execution plane. \<open>run_requests\<close> performs a list of requests, and the two
  samples are what the server holds after a worker registered, orders were approved and the first
  of them was checked out: they are reachable tables written out.
\<close>

section \<open>Performing requests\<close>

fun run_requests :: "service_env \<Rightarrow> (tick \<times> exec_request) list \<Rightarrow> exec_db \<Rightarrow> exec_db" where
  "run_requests env [] db = db"
| "run_requests env ((t, req) # rest) db = run_requests env rest (exec_handle env t req db)"

lemma run_requests_reach:
  "exec_reachable env db \<Longrightarrow> exec_reachable env (run_requests env reqs db)"
proof (induction env reqs db rule: run_requests.induct)
  case (2 env t req rest db)
  from 2(2) have "exec_reachable env (exec_handle env t req db)"
    by (rule reach_step [where e = "(t, req)"]) (simp add: exec_step_def)
  with 2(1) show ?case by simp
qed simp

lemma exec_reachable_empty: "exec_reachable env empty_exec_db"
  by (rule reach_start) (simp add: exec_start_def)

section \<open>A sample run\<close>

definition sample_manifest :: trusted_manifest where
  "sample_manifest =
     \<lparr>tm_name = ''smoke'', tm_version = ''1'', tm_schema_version = 1, tm_digest = ''d1'', tm_description = ''d'',
      tm_registry_source = ''registry'', tm_required_capabilities = [(''python'', JStr ''3.12'')],
      tm_fixed_step_metadata = JNull, tm_environment_policy = [], tm_network_policy = NET_DISABLED,
      tm_repository_write_policy = READ_ONLY, tm_timeout_seconds = 60, tm_artifact_declarations = JNull,
      tm_allowed_parameters = [], tm_dependency_lock_paths = []\<rparr>"

definition sample_env :: service_env where
  "sample_env =
     \<lparr>env_manifests = [sample_manifest],
      env_repositories = [\<lparr>tp_full_name = ''o/r'', tp_display_name = ''R'', tp_manifests = [(''smoke'', ''1'')],
        tp_default_manifest = (''smoke'', ''1'')\<rparr>],
      env_lease_seconds = 60, env_heartbeat_freshness = 60, env_poll_freshness = 60,
      env_policy_hash = (\<lambda>_. Some ''p''), env_contract_hash = (\<lambda>_. Some ''c''), env_identity_hash = (\<lambda>_. ''i''),
      env_fingerprint = (\<lambda>_. ''f''), env_fields_ok = (\<lambda>_. True), env_exclusions = [],
      env_db_datetime = (\<lambda>d. Naive (utc_naive d))\<rparr>"

definition sample_tick :: "int \<Rightarrow> int \<Rightarrow> tick" where
  "sample_tick s k =
     \<lparr>tk_now = seconds s, tk_now2 = seconds s, tk_clock = (\<lambda>_. seconds s), tk_manifest_ids = (\<lambda>_. 1),
      tk_manifest_id = 1, tk_order_id = k, tk_run_id = k, tk_lease_id = k\<rparr>"

definition sample_worker :: "string \<Rightarrow> worker_registration" where
  "sample_worker i =
     \<lparr>wr_worker_id = i, wr_display_name = i,
      wr_caps = \<lparr>wc_operating_system = ''linux'', wc_architecture = ''x86'', wc_python_version = Some ''3.12'',
        wc_node_version = None, wc_pnpm_version = None, wc_docker_available = False, wc_browsers = [],
        wc_gpu_available = False, wc_unity_available = False, wc_desktop_available = False,
        wc_capabilities = [], wc_network_policy_capability = NET_DISABLED,
        wc_repository_write_capability = False\<rparr>,
      wr_repository_full_names = [''o/r''], wr_max_concurrency = 2, wr_status = W_ONLINE\<rparr>"

definition sample_profile :: profile_input where
  "sample_profile = \<lparr>pi_enabled = True, pi_cost = 5, pi_capacity = 10, pi_remaining = 10, pi_reset_at = None, pi_priority = 0\<rparr>"

definition sample_draft :: "routing_policy \<Rightarrow> int \<Rightarrow> work_order_draft" where
  "sample_draft policy units =
     \<lparr>wd_schema_version = 1, wd_repository_full_name = ''o/r'', wd_commit_sha = replicate 40 (CHR ''A''),
      wd_manifest_name = ''smoke'', wd_manifest_version = ''1'', wd_manifest_parameters = [],
      wd_required_capabilities = [], wd_permitted_paths = [], wd_forbidden_scope_notes = [],
      wd_expected_artifact_kinds = [], wd_approval_policy = APPROVAL_EXPLICIT, wd_timeout_seconds = 60,
      wd_resource_metadata = [], wd_network_policy = NET_DISABLED, wd_repository_write_allowed = False,
      wd_preferred_executor = None, wd_cost_ceiling = None, wd_reuse_policy = REUSE_NEVER,
      wd_routing_policy = policy, wd_maximum_cost_units = None, wd_required_quota_units = units\<rparr>"

text \<open>A worker with a profile, a queued order that needs quota, a queued order and a pending one.\<close>

definition sample_requests :: "(tick \<times> exec_request) list" where
  "sample_requests =
     [(sample_tick 0 0, RegisterWorker (sample_worker ''alpha'')),
      (sample_tick 0 0, CreateRoutingProfile 1 ''alpha'' sample_profile),
      (sample_tick 1 1, CreateWorkOrder (sample_draft CHEAPEST_CAPABLE 3)),
      (sample_tick 1 2, CreateWorkOrder (sample_draft FIRST_AVAILABLE 0)),
      (sample_tick 1 3, CreateWorkOrder (sample_draft FIRST_AVAILABLE 0)),
      (sample_tick 2 0, ApproveWorkOrder 1 True),
      (sample_tick 2 0, ApproveWorkOrder 2 True)]"

definition ready_db :: exec_db where
  "ready_db =
    \<lparr>manifests = [\<lparr>m_id = 1, m_name = ''smoke'', m_version = ''1'', m_schema_version = 1,
     m_digest = ''d1'', m_description = ''d'', m_trusted_registry_source = ''registry'',
     m_required_capabilities = [(''python'', JStr ''3.12'')], m_fixed_step_metadata = JNull,
     m_environment_policy = [], m_network_policy = NET_DISABLED, m_repository_write_policy = READ_ONLY,
     m_timeout_seconds = 60, m_artifact_declarations = JNull\<rparr>], orders = [\<lparr>o_id = 1,
     o_request = \<lparr>oq_schema_version = 1, oq_repository_full_name = ''o/r'', oq_commit_sha =
     ''aaaaaaaaaaaaaaaaaaaaaaaaaaaaaaaaaaaaaaaa'', oq_manifest_id = 1, oq_manifest_name = ''smoke'',
     oq_manifest_version = ''1'', oq_manifest_digest = ''d1'', oq_manifest_parameters = [],
     oq_required_capabilities = [], oq_permitted_paths = [], oq_forbidden_scope_notes = [],
     oq_expected_artifact_kinds = [], oq_approval_policy = APPROVAL_EXPLICIT, oq_timeout_seconds = 60,
     oq_resource_metadata = [], oq_network_policy = NET_DISABLED, oq_repository_write_allowed = False,
     oq_preferred_executor = None, oq_cost_ceiling = None, oq_routing_policy = CHEAPEST_CAPABLE,
     oq_maximum_cost_units = None, oq_required_quota_units = 3, oq_reuse_policy = REUSE_NEVER,
     oq_execution_policy_hash = ''p''\<rparr>, o_status = WO_QUEUED, o_attempt_count = 0, o_approved_at
     = Some 2000000, o_queued_at = Some 2000000, o_assigned_at = None, o_started_at = None,
     o_finished_at = None, o_terminal_reason = None, o_route = \<lparr>or_schema_version = None,
     or_selected_worker_id = None, or_profile_revision = None, or_estimated_cost_units = None,
     or_reserved_quota_units = 0, or_quota_state = None, or_eligible_candidate_count = None,
     or_explicit_pin_applied = False, or_reason = None, or_decided_at = None\<rparr>\<rparr>,
     \<lparr>o_id = 2, o_request = \<lparr>oq_schema_version = 1, oq_repository_full_name = ''o/r'',
     oq_commit_sha = ''aaaaaaaaaaaaaaaaaaaaaaaaaaaaaaaaaaaaaaaa'', oq_manifest_id = 1, oq_manifest_name
     = ''smoke'', oq_manifest_version = ''1'', oq_manifest_digest = ''d1'', oq_manifest_parameters =
     [], oq_required_capabilities = [], oq_permitted_paths = [], oq_forbidden_scope_notes = [],
     oq_expected_artifact_kinds = [], oq_approval_policy = APPROVAL_EXPLICIT, oq_timeout_seconds = 60,
     oq_resource_metadata = [], oq_network_policy = NET_DISABLED, oq_repository_write_allowed = False,
     oq_preferred_executor = None, oq_cost_ceiling = None, oq_routing_policy = FIRST_AVAILABLE,
     oq_maximum_cost_units = None, oq_required_quota_units = 0, oq_reuse_policy = REUSE_NEVER,
     oq_execution_policy_hash = ''p''\<rparr>, o_status = WO_QUEUED, o_attempt_count = 0, o_approved_at
     = Some 2000000, o_queued_at = Some 2000000, o_assigned_at = None, o_started_at = None,
     o_finished_at = None, o_terminal_reason = None, o_route = \<lparr>or_schema_version = None,
     or_selected_worker_id = None, or_profile_revision = None, or_estimated_cost_units = None,
     or_reserved_quota_units = 0, or_quota_state = None, or_eligible_candidate_count = None,
     or_explicit_pin_applied = False, or_reason = None, or_decided_at = None\<rparr>\<rparr>,
     \<lparr>o_id = 3, o_request = \<lparr>oq_schema_version = 1, oq_repository_full_name = ''o/r'',
     oq_commit_sha = ''aaaaaaaaaaaaaaaaaaaaaaaaaaaaaaaaaaaaaaaa'', oq_manifest_id = 1, oq_manifest_name
     = ''smoke'', oq_manifest_version = ''1'', oq_manifest_digest = ''d1'', oq_manifest_parameters =
     [], oq_required_capabilities = [], oq_permitted_paths = [], oq_forbidden_scope_notes = [],
     oq_expected_artifact_kinds = [], oq_approval_policy = APPROVAL_EXPLICIT, oq_timeout_seconds = 60,
     oq_resource_metadata = [], oq_network_policy = NET_DISABLED, oq_repository_write_allowed = False,
     oq_preferred_executor = None, oq_cost_ceiling = None, oq_routing_policy = FIRST_AVAILABLE,
     oq_maximum_cost_units = None, oq_required_quota_units = 0, oq_reuse_policy = REUSE_NEVER,
     oq_execution_policy_hash = ''p''\<rparr>, o_status = WO_PENDING_APPROVAL, o_attempt_count = 0,
     o_approved_at = None, o_queued_at = None, o_assigned_at = None, o_started_at = None, o_finished_at
     = None, o_terminal_reason = None, o_route = \<lparr>or_schema_version = None,
     or_selected_worker_id = None, or_profile_revision = None, or_estimated_cost_units = None,
     or_reserved_quota_units = 0, or_quota_state = None, or_eligible_candidate_count = None,
     or_explicit_pin_applied = False, or_reason = None, or_decided_at = None\<rparr>\<rparr>], workers
     = [\<lparr>w_worker_id = ''alpha'', w_display_name = ''alpha'', w_caps =
     \<lparr>wc_operating_system = ''linux'', wc_architecture = ''x86'', wc_python_version = Some
     ''3.12'', wc_node_version = None, wc_pnpm_version = None, wc_docker_available = False, wc_browsers
     = [], wc_gpu_available = False, wc_unity_available = False, wc_desktop_available = False,
     wc_capabilities = [], wc_network_policy_capability = NET_DISABLED, wc_repository_write_capability
     = False\<rparr>, w_repository_full_names = [''o/r''], w_max_concurrency = 2, w_active_run_count =
     0, w_status = W_ONLINE, w_last_heartbeat_at = 0, w_last_checkout_poll_at = None\<rparr>], profiles
     = [\<lparr>q_worker_id = ''alpha'', q_schema_version = 1, q_enabled = True, q_cost = 5, q_capacity
     = 10, q_remaining = 10, q_reset_at = None, q_priority = 0, q_revision = 1\<rparr>], runs = [],
     xleases = []\<rparr>"

text \<open>The worker has checked out the first order: run 1 under lease 1, three units reserved.\<close>

definition busy_db :: exec_db where
  "busy_db =
    \<lparr>manifests = [\<lparr>m_id = 1, m_name = ''smoke'', m_version = ''1'', m_schema_version = 1,
     m_digest = ''d1'', m_description = ''d'', m_trusted_registry_source = ''registry'',
     m_required_capabilities = [(''python'', JStr ''3.12'')], m_fixed_step_metadata = JNull,
     m_environment_policy = [], m_network_policy = NET_DISABLED, m_repository_write_policy = READ_ONLY,
     m_timeout_seconds = 60, m_artifact_declarations = JNull\<rparr>], orders = [\<lparr>o_id = 1,
     o_request = \<lparr>oq_schema_version = 1, oq_repository_full_name = ''o/r'', oq_commit_sha =
     ''aaaaaaaaaaaaaaaaaaaaaaaaaaaaaaaaaaaaaaaa'', oq_manifest_id = 1, oq_manifest_name = ''smoke'',
     oq_manifest_version = ''1'', oq_manifest_digest = ''d1'', oq_manifest_parameters = [],
     oq_required_capabilities = [], oq_permitted_paths = [], oq_forbidden_scope_notes = [],
     oq_expected_artifact_kinds = [], oq_approval_policy = APPROVAL_EXPLICIT, oq_timeout_seconds = 60,
     oq_resource_metadata = [], oq_network_policy = NET_DISABLED, oq_repository_write_allowed = False,
     oq_preferred_executor = None, oq_cost_ceiling = None, oq_routing_policy = CHEAPEST_CAPABLE,
     oq_maximum_cost_units = None, oq_required_quota_units = 3, oq_reuse_policy = REUSE_NEVER,
     oq_execution_policy_hash = ''p''\<rparr>, o_status = WO_ASSIGNED, o_attempt_count = 1,
     o_approved_at = Some 2000000, o_queued_at = Some 2000000, o_assigned_at = Some 3000000,
     o_started_at = None, o_finished_at = None, o_terminal_reason = None, o_route =
     \<lparr>or_schema_version = Some 1, or_selected_worker_id = Some ''alpha'', or_profile_revision =
     Some 2, or_estimated_cost_units = Some 5, or_reserved_quota_units = 3, or_quota_state = Some
     QUOTA_RESERVED, or_eligible_candidate_count = Some 1, or_explicit_pin_applied = False, or_reason =
     Some ''routing_selected'', or_decided_at = Some 3000000\<rparr>\<rparr>, \<lparr>o_id = 2,
     o_request = \<lparr>oq_schema_version = 1, oq_repository_full_name = ''o/r'', oq_commit_sha =
     ''aaaaaaaaaaaaaaaaaaaaaaaaaaaaaaaaaaaaaaaa'', oq_manifest_id = 1, oq_manifest_name = ''smoke'',
     oq_manifest_version = ''1'', oq_manifest_digest = ''d1'', oq_manifest_parameters = [],
     oq_required_capabilities = [], oq_permitted_paths = [], oq_forbidden_scope_notes = [],
     oq_expected_artifact_kinds = [], oq_approval_policy = APPROVAL_EXPLICIT, oq_timeout_seconds = 60,
     oq_resource_metadata = [], oq_network_policy = NET_DISABLED, oq_repository_write_allowed = False,
     oq_preferred_executor = None, oq_cost_ceiling = None, oq_routing_policy = FIRST_AVAILABLE,
     oq_maximum_cost_units = None, oq_required_quota_units = 0, oq_reuse_policy = REUSE_NEVER,
     oq_execution_policy_hash = ''p''\<rparr>, o_status = WO_QUEUED, o_attempt_count = 0, o_approved_at
     = Some 2000000, o_queued_at = Some 2000000, o_assigned_at = None, o_started_at = None,
     o_finished_at = None, o_terminal_reason = None, o_route = \<lparr>or_schema_version = None,
     or_selected_worker_id = None, or_profile_revision = None, or_estimated_cost_units = None,
     or_reserved_quota_units = 0, or_quota_state = None, or_eligible_candidate_count = None,
     or_explicit_pin_applied = False, or_reason = None, or_decided_at = None\<rparr>\<rparr>,
     \<lparr>o_id = 3, o_request = \<lparr>oq_schema_version = 1, oq_repository_full_name = ''o/r'',
     oq_commit_sha = ''aaaaaaaaaaaaaaaaaaaaaaaaaaaaaaaaaaaaaaaa'', oq_manifest_id = 1, oq_manifest_name
     = ''smoke'', oq_manifest_version = ''1'', oq_manifest_digest = ''d1'', oq_manifest_parameters =
     [], oq_required_capabilities = [], oq_permitted_paths = [], oq_forbidden_scope_notes = [],
     oq_expected_artifact_kinds = [], oq_approval_policy = APPROVAL_EXPLICIT, oq_timeout_seconds = 60,
     oq_resource_metadata = [], oq_network_policy = NET_DISABLED, oq_repository_write_allowed = False,
     oq_preferred_executor = None, oq_cost_ceiling = None, oq_routing_policy = FIRST_AVAILABLE,
     oq_maximum_cost_units = None, oq_required_quota_units = 0, oq_reuse_policy = REUSE_NEVER,
     oq_execution_policy_hash = ''p''\<rparr>, o_status = WO_PENDING_APPROVAL, o_attempt_count = 0,
     o_approved_at = None, o_queued_at = None, o_assigned_at = None, o_started_at = None, o_finished_at
     = None, o_terminal_reason = None, o_route = \<lparr>or_schema_version = None,
     or_selected_worker_id = None, or_profile_revision = None, or_estimated_cost_units = None,
     or_reserved_quota_units = 0, or_quota_state = None, or_eligible_candidate_count = None,
     or_explicit_pin_applied = False, or_reason = None, or_decided_at = None\<rparr>\<rparr>], workers
     = [\<lparr>w_worker_id = ''alpha'', w_display_name = ''alpha'', w_caps =
     \<lparr>wc_operating_system = ''linux'', wc_architecture = ''x86'', wc_python_version = Some
     ''3.12'', wc_node_version = None, wc_pnpm_version = None, wc_docker_available = False, wc_browsers
     = [], wc_gpu_available = False, wc_unity_available = False, wc_desktop_available = False,
     wc_capabilities = [], wc_network_policy_capability = NET_DISABLED, wc_repository_write_capability
     = False\<rparr>, w_repository_full_names = [''o/r''], w_max_concurrency = 2, w_active_run_count =
     1, w_status = W_ONLINE, w_last_heartbeat_at = 0, w_last_checkout_poll_at = Some 3000000\<rparr>],
     profiles = [\<lparr>q_worker_id = ''alpha'', q_schema_version = 1, q_enabled = True, q_cost = 5,
     q_capacity = 10, q_remaining = 7, q_reset_at = None, q_priority = 0, q_revision = 2\<rparr>], runs
     = [\<lparr>r_id = 1, r_work_order_id = 1, r_worker_id = ''alpha'', r_attempt_number = 1, r_status
     = RUN_ASSIGNED, r_queued_at = 2000000, r_assigned_at = 3000000, r_started_at = None, r_finished_at
     = None, r_lease_expires_at = 63000000, r_last_heartbeat_at = 3000000, r_report =
     \<lparr>rp_result_summary = None, rp_terminal_reason = None, rp_cleanup_status = None,
     rp_artifact_metadata = [], rp_evidence_metadata = None\<rparr>, r_reuse = \<lparr>ru_identity =
     None, ru_identity_hash = None, ru_reused_from_run_id = None, ru_source_evidence_fingerprint =
     None, ru_decision = RD_NOT_REQUESTED, ru_reason = Some ''reuse_policy_never'', ru_candidate =
     None, ru_retention_expires_at = None\<rparr>, r_route = \<lparr>rr_schema_version = 1,
     rr_routing_policy = CHEAPEST_CAPABLE, rr_profile_revision = Some 2, rr_estimated_cost_units = Some
     5, rr_required_quota_units = 3, rr_reserved_quota_units = 3, rr_quota_state = QUOTA_RESERVED,
     rr_eligible_candidate_count = 1, rr_explicit_pin_applied = False, rr_reason =
     ''routing_selected'', rr_decided_at = 3000000\<rparr>\<rparr>], xleases = [\<lparr>x_id = 1,
     x_work_order_id = 1, x_run_id = 1, x_worker_id = ''alpha'', x_expires_at = 63000000,
     x_last_heartbeat_at = 3000000\<rparr>]\<rparr>"

definition sample_identity :: reuse_identity where
  "sample_identity =
     \<lparr>ri_repository_full_name = ''o/r'', ri_tested_sha = replicate 40 (CHR ''a''), ri_manifest_name = ''smoke'',
      ri_manifest_version = ''1'', ri_manifest_digest = ''d1'', ri_worker_environment_fingerprint = ''fp'',
      ri_dependency_lock_hashes = [], ri_execution_policy_hash = ''p'', ri_result_contract_hash = ''c''\<rparr>"

definition sample_evidence :: "int \<Rightarrow> int \<Rightarrow> execution_evidence" where
  "sample_evidence order_id run_id =
     \<lparr>ev_draft = \<lparr>ev_subject = \<lparr>ev_work_order_id = order_id, ev_run_id = run_id, ev_repository_full_name = ''o/r'',
        ev_tested_sha = replicate 40 (CHR ''a''), ev_manifest_name = ''smoke'', ev_manifest_version = ''1'',
        ev_manifest_digest = ''d1'', ev_worker_id = ''alpha'',
        ev_environment = \<lparr>ei_operating_system = ''linux'', ei_architecture = ''x86'', ei_python_version = ''3.12'',
          ei_tools = [], ei_fingerprint = ''fp''\<rparr>, ev_dependency_lock_hashes = []\<rparr>,
        ev_started_at = 1, ev_finished_at = 2, ev_duration_seconds = ''1'', ev_terminal_status = ''succeeded'',
        ev_terminal_reason = None, ev_failing_step = None, ev_steps = [], ev_artifacts = [],
        ev_dependency_lock_status = ''unchanged'', ev_artifact_finalization_status = ''complete'',
        ev_source_cleanup_status = ''complete'', ev_local_record_status = ''recorded'',
        ev_reuse_provenance = Some \<lparr>rp_decision = ''fresh'', rp_reason = ''fresh'', rp_reuse_identity_hash = ''i'',
          rp_source_run_id = None, rp_source_evidence_fingerprint = None\<rparr>\<rparr>,
      ev_fingerprint = ''f''\<rparr>"

definition sample_completion :: execution_completion where
  "sample_completion =
     (cancellation ''done'')\<lparr>xc_status := RUN_SUCCEEDED,
       xc_evidence := Some ((sample_evidence 1 1)\<lparr>ev_draft := (ev_draft (sample_evidence 1 1))\<lparr>ev_reuse_provenance := None\<rparr>\<rparr>)\<rparr>"

lemma ready_db_reached: "run_requests sample_env sample_requests empty_exec_db = ready_db"
  by code_simp

lemma busy_db_reached: "exec_handle sample_env (sample_tick 3 1) (CheckoutWork ''alpha'') ready_db = busy_db"
  by code_simp

lemma sample_reachable: "exec_reachable sample_env ready_db" "exec_reachable sample_env busy_db"
proof -
  show ready: "exec_reachable sample_env ready_db"
    using run_requests_reach [OF exec_reachable_empty, of sample_env sample_requests]
    by (simp only: ready_db_reached)
  show "exec_reachable sample_env busy_db"
    using run_requests_reach [OF ready, of "[(sample_tick 3 1, CheckoutWork ''alpha'')]"]
    by (simp only: run_requests.simps busy_db_reached)
qed

end
