(* ===== verification/Execution_Facts.thy ===== *)
theory Execution_Facts
  imports Execution_System
begin

text \<open>
  What the invariant of the ledger says about the rows of the tables, and what each successful
  operation of the service has checked and done: the facts the properties rest on.
\<close>

section \<open>Reading the invariant off the tables\<close>

lemma exec_reachable_inv: "exec_reachable env db \<Longrightarrow> exec_inv db"
  by (rule exec_system.inv_reach)

lemma reachable_step: "exec_reachable env db \<Longrightarrow> exec_reachable env (exec_handle env t req db)"
  by (rule reach_step [where e = "(t, req)"]) (simp_all add: exec_step_def)

lemma rowcount_unique_key:
  assumes "distinct (map key rows)"
  shows "rowcount (\<lambda>r. key r = k) rows = (if k \<in> key ` set rows then 1 else 0)"
  using rowcount_key [OF assms, of k "\<lambda>_. True"] find_key_None [of key k rows]
  by (auto split: option.splits)

lemma rowcount_card: "distinct rows \<Longrightarrow> rowcount P rows = card {r \<in> set rows. P r}"
  by (simp add: rowcount_def distinct_card [symmetric])

lemma lease_rows:
  assumes inv: "exec_inv db" and x: "x \<in> set (xleases db)"
  shows "\<exists>r \<in> set (runs db). \<exists>w \<in> set (orders db). r_id r = x_run_id x \<and> o_id w = x_work_order_id x
    \<and> r_work_order_id r = x_work_order_id x \<and> r_worker_id r = x_worker_id x
    \<and> run_active (r_status r) \<and> order_active (o_status w) \<and> r_attempt_number r = o_attempt_count w"
proof -
  have "lease_backed (ledger_of db) (lease_entry_of x)"
    using inv x by (auto simp: exec_inv_def ledger_inv_def ledger_cover_def)
  then show ?thesis by (fastforce simp: lease_backed_def)
qed

lemma active_run_leased:
  assumes inv: "exec_inv db" and r: "r \<in> set (runs db)"
  shows "r_id r \<in> x_run_id ` set (xleases db) \<longleftrightarrow> run_active (r_status r)"
proof
  assume "r_id r \<in> x_run_id ` set (xleases db)"
  then obtain x where x: "x \<in> set (xleases db)" "r_id r = x_run_id x" by auto
  from lease_rows [OF inv x(1)] obtain r' where "r' \<in> set (runs db)" "r_id r' = r_id r" "run_active (r_status r')"
    using x(2) by auto
  moreover have "distinct (map r_id (runs db))" using exec_inv_keys [OF inv] by (simp add: keys_iff)
  ultimately show "run_active (r_status r)" using r key_unique by metis
next
  assume "run_active (r_status r)"
  with inv r show "r_id r \<in> x_run_id ` set (xleases db)"
    by (auto simp: exec_inv_def ledger_inv_def ledger_cover_def image_image)
qed

lemma active_order_leased:
  assumes inv: "exec_inv db" and w: "w \<in> set (orders db)"
  shows "o_id w \<in> x_work_order_id ` set (xleases db) \<longleftrightarrow> order_active (o_status w)"
proof
  assume "o_id w \<in> x_work_order_id ` set (xleases db)"
  then obtain x where x: "x \<in> set (xleases db)" "o_id w = x_work_order_id x" by auto
  from lease_rows [OF inv x(1)] obtain w' where "w' \<in> set (orders db)" "o_id w' = o_id w" "order_active (o_status w')"
    using x(2) by auto
  moreover have "distinct (map o_id (orders db))" using exec_inv_keys [OF inv] by (simp add: keys_iff)
  ultimately show "order_active (o_status w)" using w key_unique by metis
next
  assume "order_active (o_status w)"
  with inv w show "o_id w \<in> x_work_order_id ` set (xleases db)"
    by (auto simp: exec_inv_def ledger_inv_def ledger_cover_def image_image)
qed

lemma distinct_key: "distinct (map key rows) \<Longrightarrow> distinct rows"
  by (simp add: distinct_map)

lemma leases_are_active_runs:
  assumes inv: "exec_inv db"
  shows "rowcount (\<lambda>x. x_worker_id x = j) (xleases db) = rowcount (\<lambda>r. r_worker_id r = j \<and> run_active (r_status r)) (runs db)"
proof -
  let ?X = "{x \<in> set (xleases db). x_worker_id x = j}" and ?R = "{r \<in> set (runs db). r_worker_id r = j \<and> run_active (r_status r)}"
  have keys: "distinct (map x_run_id (xleases db))" "distinct (map r_id (runs db))"
    using exec_inv_keys [OF inv] by (simp_all add: keys_iff)
  have "x_run_id ` ?X = r_id ` ?R"
  proof (intro set_eqI iffI)
    fix k assume "k \<in> x_run_id ` ?X"
    then show "k \<in> r_id ` ?R" using lease_rows [OF inv] by (fastforce simp: image_iff)
  next
    fix k assume "k \<in> r_id ` ?R"
    then obtain r where r: "r \<in> set (runs db)" "r_worker_id r = j" "run_active (r_status r)" "k = r_id r" by auto
    then obtain x where x: "x \<in> set (xleases db)" "x_run_id x = r_id r" using active_run_leased [OF inv r(1)] by auto
    from lease_rows [OF inv x(1)] obtain r' where r': "r' \<in> set (runs db)" "r_id r' = x_run_id x" "r_worker_id r' = x_worker_id x" by auto
    have "r' = r" by (rule key_unique [OF keys(2) r'(1) r(1)]) (use x(2) r'(2) in simp)
    with r' r(2) have "x_worker_id x = j" by simp
    with x(1) have "x \<in> ?X" by simp
    moreover have "k = x_run_id x" using x(2) r(4) by simp
    ultimately show "k \<in> x_run_id ` ?X" by (rule rev_image_eqI)
  qed
  moreover have "inj_on x_run_id ?X" "inj_on r_id ?R" using keys by (auto simp: distinct_map inj_on_def)
  ultimately have "card ?X = card ?R" using card_image [of x_run_id ?X] card_image [of r_id ?R] by simp
  then show ?thesis using keys by (simp add: rowcount_card distinct_key)
qed

lemma worker_count:
  assumes inv: "exec_inv db" and v: "v \<in> set (workers db)"
  shows "w_active_run_count v = int (rowcount (\<lambda>x. x_worker_id x = w_worker_id v) (xleases db))"
proof -
  have "rowcount (\<lambda>x. vl_worker x = w_worker_id v) (map lease_entry_of (xleases db))
      = rowcount (\<lambda>x. x_worker_id x = w_worker_id v) (xleases db)"
    by (simp add: rowcount_def filter_map comp_def)
  then show ?thesis using inv v by (auto simp: exec_inv_def ledger_inv_def ledger_counts_def)
qed

definition reserved_units :: "exec_db \<Rightarrow> string \<Rightarrow> int" where
  "reserved_units db j = total (\<lambda>r. rr_reserved_quota_units (r_route r))
     (filter (\<lambda>r. r_worker_id r = j \<and> rr_quota_state (r_route r) = QUOTA_RESERVED) (runs db))"

lemma reserved_units_ledger: "total (reserved_by j) (lg_runs (ledger_of db)) = reserved_units db j"
proof -
  have "total (reserved_by j) (map run_entry_of rs) = total (\<lambda>r. rr_reserved_quota_units (r_route r))
     (filter (\<lambda>r. r_worker_id r = j \<and> rr_quota_state (r_route r) = QUOTA_RESERVED) rs)" for rs
    by (induction rs) (auto simp: reserved_by_def)
  then show ?thesis by (simp add: reserved_units_def)
qed

lemma handle_follows:
  assumes "exec_inv db"
  shows "\<forall>w \<in> set (orders db). \<exists>w' \<in> set (orders (exec_handle env t req db)). order_follows (order_entry_of w) (order_entry_of w')"
    and "\<forall>r \<in> set (runs db). \<exists>r' \<in> set (runs (exec_handle env t req db)). run_follows (run_entry_of r) (run_entry_of r')"
proof -
  from exec_handle_refines [OF assms] obtain es where
    p: "path ledger_step (ledger_of db) es (ledger_of (exec_handle env t req db))" unfolding refines_def by blast
  have l: "ledger_inv (ledger_of db)" using assms by (simp add: exec_inv_def)
  from path_follows [OF p l]
  show "\<forall>w \<in> set (orders db). \<exists>w' \<in> set (orders (exec_handle env t req db)). order_follows (order_entry_of w) (order_entry_of w')"
    "\<forall>r \<in> set (runs db). \<exists>r' \<in> set (runs (exec_handle env t req db)). run_follows (run_entry_of r) (run_entry_of r')"
    by auto
qed

end
