(* ===== verification/Execution_Properties.thy ===== *)
theory Execution_Properties
  imports Execution_Samples Execution_Facts
begin

text \<open>
  Properties of every reachable state of the execution plane: the tables refine the ledger, and
  what that gives for ownership, capacity, quota, lifecycles and the history of attempts.
\<close>

text \<open>
  C2. Every request, whatever its outcome, is a sequence of steps of the abstract ledger: orders
  are created, moved, claimed, started and retired, workers and profiles are added or reset, and
  nothing else happens to ownership, capacity and quota.
\<close>

theorem exec_requests_refine_ledger:
  assumes "exec_reachable env db"
  shows "\<exists>es. path ledger_step (ledger_of db) es (ledger_of (exec_handle env t req db))"
  using exec_handle_refines [OF exec_reachable_inv [OF assms]] by (simp add: refines_def)

theorem exec_requests_refine_ledger_witness:
  "map o_status (orders ready_db) = [WO_QUEUED, WO_QUEUED, WO_PENDING_APPROVAL] \<and>
   (\<exists>es. path ledger_step (ledger_of ready_db) es (ledger_of busy_db))"
proof
  show "map o_status (orders ready_db) = [WO_QUEUED, WO_QUEUED, WO_PENDING_APPROVAL]" by code_simp
  show "\<exists>es. path ledger_step (ledger_of ready_db) es (ledger_of busy_db)"
    using exec_requests_refine_ledger [OF sample_reachable(1), of "sample_tick 3 1" "CheckoutWork ''alpha''"]
    by (simp only: busy_db_reached)
qed

text \<open>
  C1. Exclusive ownership: a run has a lease exactly while it is assigned or running, an order
  exactly while it is assigned or running, at most one each; and a lease always joins such a run
  with its order, its worker and the current attempt.
\<close>

theorem exclusive_ownership:
  assumes "exec_reachable env db"
  shows "(\<forall>r \<in> set (runs db). rowcount (\<lambda>x. x_run_id x = r_id r) (xleases db) = (if run_active (r_status r) then 1 else 0))
    \<and> (\<forall>w \<in> set (orders db). rowcount (\<lambda>x. x_work_order_id x = o_id w) (xleases db)
          = (if order_active (o_status w) then 1 else 0))
    \<and> (\<forall>x \<in> set (xleases db). \<exists>r \<in> set (runs db). \<exists>w \<in> set (orders db).
          r_id r = x_run_id x \<and> o_id w = x_work_order_id x \<and> r_work_order_id r = x_work_order_id x
          \<and> r_worker_id r = x_worker_id x \<and> run_active (r_status r) \<and> order_active (o_status w)
          \<and> r_attempt_number r = o_attempt_count w)"
proof -
  note inv = exec_reachable_inv [OF assms]
  have "distinct (map x_run_id (xleases db))" "distinct (map x_work_order_id (xleases db))"
    using exec_inv_keys [OF inv] by (simp_all add: keys_iff)
  then show ?thesis
    using active_run_leased [OF inv] active_order_leased [OF inv] lease_rows [OF inv]
    by (simp add: rowcount_unique_key)
qed

theorem exclusive_ownership_witness:
  "rowcount (\<lambda>x. x_run_id x = 1) (xleases busy_db) = 1
   \<and> (list_all (\<lambda>r. rowcount (\<lambda>x. x_run_id x = r_id r) (xleases busy_db) = (if run_active (r_status r) then 1 else 0)) (runs busy_db))"
proof
  show "rowcount (\<lambda>x. x_run_id x = 1) (xleases busy_db) = 1" by code_simp
  show "list_all (\<lambda>r. rowcount (\<lambda>x. x_run_id x = r_id r) (xleases busy_db) = (if run_active (r_status r) then 1 else 0)) (runs busy_db)"
    using exclusive_ownership [OF sample_reachable(2)] unfolding list_all_iff by blast
qed

text \<open>
  C4. Capacity accounting: the stored count of a worker is the number of its assigned and running
  runs, and equally the number of its leases.
\<close>

theorem capacity_accounting:
  assumes "exec_reachable env db" and "v \<in> set (workers db)"
  shows "w_active_run_count v = int (rowcount (\<lambda>r. r_worker_id r = w_worker_id v \<and> run_active (r_status r)) (runs db))
    \<and> w_active_run_count v = int (rowcount (\<lambda>x. x_worker_id x = w_worker_id v) (xleases db))"
  using worker_count [OF exec_reachable_inv [OF assms(1)] assms(2)] leases_are_active_runs [OF exec_reachable_inv [OF assms(1)]]
  by simp

theorem capacity_accounting_witness:
  "w_active_run_count (hd (workers busy_db)) = 1
   \<and> int (rowcount (\<lambda>r. r_worker_id r = w_worker_id (hd (workers busy_db)) \<and> run_active (r_status r)) (runs busy_db)) = 1"
proof -
  have v: "hd (workers busy_db) \<in> set (workers busy_db)" by (simp add: busy_db_def)
  have "w_active_run_count (hd (workers busy_db)) = 1" by code_simp
  with capacity_accounting [OF sample_reachable(2) v] show ?thesis by simp
qed

text \<open>
  C3. Quota conservation: the remaining quota of a routing profile is never negative, and together
  with what its worker's runs hold in reserve it never exceeds the capacity. A reservation is
  positive and belongs to a run that has been assigned and not started.
\<close>

theorem quota_conservation:
  assumes "exec_reachable env db"
  shows "(\<forall>p \<in> set (profiles db). 0 \<le> q_remaining p \<and> q_remaining p + reserved_units db (q_worker_id p) \<le> q_capacity p)
    \<and> (\<forall>r \<in> set (runs db). rr_quota_state (r_route r) = QUOTA_RESERVED \<longrightarrow>
          0 < rr_reserved_quota_units (r_route r) \<and> r_status r = RUN_ASSIGNED)"
proof -
  have "ledger_quota (ledger_of db)" using exec_reachable_inv [OF assms] by (simp add: exec_inv_def ledger_inv_def)
  then show ?thesis
    unfolding ledger_quota_def reserved_units_ledger by auto
qed

theorem quota_conservation_witness:
  "reserved_units busy_db ''alpha'' = 3
   \<and> (list_all (\<lambda>p. 0 \<le> q_remaining p \<and> q_remaining p + reserved_units busy_db (q_worker_id p) \<le> q_capacity p) (profiles busy_db))"
proof
  show "reserved_units busy_db ''alpha'' = 3" by code_simp
  show "list_all (\<lambda>p. 0 \<le> q_remaining p \<and> q_remaining p + reserved_units busy_db (q_worker_id p) \<le> q_capacity p) (profiles busy_db)"
    using quota_conservation [OF sample_reachable(2)] unfolding list_all_iff by blast
qed

text \<open>
  C8. Lifecycles: no request removes an order or a run, changes who a run belongs to or its attempt
  number, or moves a status off the transition tables. The statuses called terminal are final.
\<close>

theorem lifecycles_respected:
  assumes "exec_reachable env db"
  shows "(\<forall>w \<in> set (orders db). \<exists>w' \<in> set (orders (exec_handle env t req db)).
          o_id w' = o_id w \<and> o_attempt_count w \<le> o_attempt_count w'
          \<and> allows_work_order_transition\<^sup>*\<^sup>* (o_status w) (o_status w')
          \<and> (is_terminal_work_order (o_status w) \<longrightarrow> o_status w' = o_status w))
    \<and> (\<forall>r \<in> set (runs db). \<exists>r' \<in> set (runs (exec_handle env t req db)).
          r_id r' = r_id r \<and> r_work_order_id r' = r_work_order_id r \<and> r_worker_id r' = r_worker_id r
          \<and> r_attempt_number r' = r_attempt_number r
          \<and> allows_run_transition\<^sup>*\<^sup>* (r_status r) (r_status r')
          \<and> (is_terminal_run (r_status r) \<longrightarrow> r_status r' = r_status r))"
proof (intro conjI ballI)
  note inv = exec_reachable_inv [OF assms]
  fix w assume "w \<in> set (orders db)"
  with handle_follows(1) [OF inv, of env t req] obtain w' where
    w': "w' \<in> set (orders (exec_handle env t req db))" "order_follows (order_entry_of w) (order_entry_of w')" by blast
  from w'(2) have "o_id w' = o_id w \<and> o_attempt_count w \<le> o_attempt_count w'
      \<and> allows_work_order_transition\<^sup>*\<^sup>* (o_status w) (o_status w')
      \<and> (is_terminal_work_order (o_status w) \<longrightarrow> o_status w' = o_status w)"
    using work_order_lifecycle.terminal_absorbing [of "o_status w" "o_status w'"] by (simp add: order_follows_def)
  with w'(1) show "\<exists>w' \<in> set (orders (exec_handle env t req db)). o_id w' = o_id w \<and> o_attempt_count w \<le> o_attempt_count w'
      \<and> allows_work_order_transition\<^sup>*\<^sup>* (o_status w) (o_status w')
      \<and> (is_terminal_work_order (o_status w) \<longrightarrow> o_status w' = o_status w)" by (rule bexI [rotated])
next
  note inv = exec_reachable_inv [OF assms]
  fix r assume "r \<in> set (runs db)"
  with handle_follows(2) [OF inv, of env t req] obtain r' where
    r': "r' \<in> set (runs (exec_handle env t req db))" "run_follows (run_entry_of r) (run_entry_of r')" by blast
  from r'(2) have "r_id r' = r_id r \<and> r_work_order_id r' = r_work_order_id r \<and> r_worker_id r' = r_worker_id r
      \<and> r_attempt_number r' = r_attempt_number r \<and> allows_run_transition\<^sup>*\<^sup>* (r_status r) (r_status r')
      \<and> (is_terminal_run (r_status r) \<longrightarrow> r_status r' = r_status r)"
    using run_lifecycle.terminal_absorbing [of "r_status r" "r_status r'"] by (simp add: run_follows_def)
  with r'(1) show "\<exists>r' \<in> set (runs (exec_handle env t req db)). r_id r' = r_id r \<and> r_work_order_id r' = r_work_order_id r
      \<and> r_worker_id r' = r_worker_id r \<and> r_attempt_number r' = r_attempt_number r
      \<and> allows_run_transition\<^sup>*\<^sup>* (r_status r) (r_status r')
      \<and> (is_terminal_run (r_status r) \<longrightarrow> r_status r' = r_status r)" by (rule bexI [rotated])
qed

theorem lifecycles_respected_witness:
  "map r_status (runs busy_db) = [RUN_ASSIGNED]
   \<and> (list_all (\<lambda>r. \<exists>r' \<in> set (runs (exec_handle sample_env (sample_tick 4 0) (HeartbeatRun 1 ''alpha'') busy_db)).
        r_id r' = r_id r \<and> allows_run_transition\<^sup>*\<^sup>* (r_status r) (r_status r')) (runs busy_db))"
proof
  show "map r_status (runs busy_db) = [RUN_ASSIGNED]" by code_simp
  show "list_all (\<lambda>r. \<exists>r' \<in> set (runs (exec_handle sample_env (sample_tick 4 0) (HeartbeatRun 1 ''alpha'') busy_db)).
      r_id r' = r_id r \<and> allows_run_transition\<^sup>*\<^sup>* (r_status r) (r_status r')) (runs busy_db)"
    using lifecycles_respected [OF sample_reachable(2), of "sample_tick 4 0" "HeartbeatRun 1 ''alpha''"] unfolding list_all_iff by blast
qed

text \<open>
  The execution plane is read-only: in every reachable state no order allows repository writes
  and no registered worker declares the capability.
\<close>

theorem execution_is_read_only:
  assumes "exec_reachable env db"
  shows "(\<forall>w \<in> set (orders db). \<not> oq_repository_write_allowed (o_request w))
    \<and> (\<forall>v \<in> set (workers db). \<not> wc_repository_write_capability (w_caps v))"
  using exec_reachable_inv [OF assms] by (simp add: exec_inv_def ledger_readonly_def)

theorem execution_is_read_only_witness:
  "length (orders busy_db) = 3 \<and> (list_all (\<lambda>w. \<not> oq_repository_write_allowed (o_request w)) (orders busy_db))"
proof
  show "length (orders busy_db) = 3" by code_simp
  show "list_all (\<lambda>w. \<not> oq_repository_write_allowed (o_request w)) (orders busy_db)"
    using execution_is_read_only [OF sample_reachable(2)] unfolding list_all_iff by blast
qed

text \<open>
  The history of attempts is consistent: an order and an attempt number identify at most one
  run, every run belongs to an existing order, and its attempt is not beyond the order's count.
\<close>

theorem attempt_history:
  assumes "exec_reachable env db"
  shows "distinct (map (\<lambda>r. (r_work_order_id r, r_attempt_number r)) (runs db))
    \<and> (\<forall>r \<in> set (runs db). \<exists>w \<in> set (orders db). o_id w = r_work_order_id r \<and> r_attempt_number r \<le> o_attempt_count w)"
proof -
  have "ledger_attempts (ledger_of db)" using exec_reachable_inv [OF assms] by (simp add: exec_inv_def ledger_inv_def)
  then show ?thesis by (simp add: ledger_attempts_def comp_def)
qed

theorem attempt_history_witness:
  "map (\<lambda>r. (r_work_order_id r, r_attempt_number r)) (runs busy_db) = [(1, 1)]
   \<and> (list_all (\<lambda>r. \<exists>w \<in> set (orders busy_db). o_id w = r_work_order_id r \<and> r_attempt_number r \<le> o_attempt_count w) (runs busy_db))"
proof
  show "map (\<lambda>r. (r_work_order_id r, r_attempt_number r)) (runs busy_db) = [(1, 1)]" by code_simp
  show "list_all (\<lambda>r. \<exists>w \<in> set (orders busy_db). o_id w = r_work_order_id r \<and> r_attempt_number r \<le> o_attempt_count w) (runs busy_db)"
    using attempt_history [OF sample_reachable(2)] unfolding list_all_iff by blast
qed

end
