(* ===== verification/Selection_Properties.thy ===== *)
theory Selection_Properties
  imports Execution_Samples
begin

text \<open>
  Properties of the pure parts of the execution plane: eligibility and ranking of workers, matching
  of versions and capabilities, and the paths accepted in evidence.
\<close>

text \<open>
  C34. Eligibility is exact: a worker becomes a candidate for a request precisely when it advertises
  the repository, is not passed over for a preferred executor, is online, below its limit, heard
  from and polling recently, capable, and, under the cheapest-capable policy, has a valid enabled
  profile within the cost ceiling and with enough quota. Otherwise at least one reason is given.
\<close>

theorem eligibility_exact:
  "re_candidate (evaluate_routing_candidate w profile rq now hf pf) =
     (if rq_repository_full_name rq \<in> set (advertised_repositories w)
         \<and> (rq_preferred_executor rq = None \<or> rq_preferred_executor rq = Some (w_worker_id w))
         \<and> w_status w = W_ONLINE \<and> w_active_run_count w < w_max_concurrency w
         \<and> 0 < hf \<and> now - seconds hf \<le> w_last_heartbeat_at w
         \<and> 0 < pf \<and> (\<exists>t. w_last_checkout_poll_at w = Some t \<and> now - seconds pf \<le> t)
         \<and> cm_eligible (match_worker_capabilities (w_caps w) (rq_manifest_requirements rq)
              (rq_requested_requirements rq) (rq_network_policy rq))
         \<and> (rq_routing_policy rq = FIRST_AVAILABLE
            \<or> (\<exists>p. profile = Some p \<and> valid_profile p \<and> q_enabled p
                 \<and> (\<forall>m. rq_maximum_cost_units rq = Some m \<longrightarrow> q_cost p \<le> m)
                 \<and> rq_required_quota_units rq \<le> q_remaining p))
      then Some \<lparr>rc_worker = w, rc_profile = profile\<rparr> else None)
   \<and> (re_candidate (evaluate_routing_candidate w profile rq now hf pf) = None
      \<longleftrightarrow> re_reasons (evaluate_routing_candidate w profile rq now hf pf) \<noteq> [])"
proof -
  have "routable w profile rq now hf pf \<longleftrightarrow>
      (rq_repository_full_name rq \<in> set (advertised_repositories w)
         \<and> (rq_preferred_executor rq = None \<or> rq_preferred_executor rq = Some (w_worker_id w))
         \<and> w_status w = W_ONLINE \<and> w_active_run_count w < w_max_concurrency w
         \<and> 0 < hf \<and> now - seconds hf \<le> w_last_heartbeat_at w
         \<and> 0 < pf \<and> (\<exists>t. w_last_checkout_poll_at w = Some t \<and> now - seconds pf \<le> t)
         \<and> cm_eligible (match_worker_capabilities (w_caps w) (rq_manifest_requirements rq)
              (rq_requested_requirements rq) (rq_network_policy rq))
         \<and> (rq_routing_policy rq = FIRST_AVAILABLE
            \<or> (\<exists>p. profile = Some p \<and> valid_profile p \<and> q_enabled p
                 \<and> (\<forall>m. rq_maximum_cost_units rq = Some m \<longrightarrow> q_cost p \<le> m)
                 \<and> rq_required_quota_units rq \<le> q_remaining p)))"
    by (cases "rq_routing_policy rq") (auto simp: routable_def fresh_def split: option.splits)
  then show ?thesis
    by (simp only: evaluate_candidate_iff) (simp add: evaluate_routing_candidate_def routing_reasons_empty Let_def)
qed

theorem eligibility_exact_witness:
  "re_candidate (evaluate_routing_candidate (hd (workers busy_db)) (Some (hd (profiles busy_db)))
      (routing_request_of (hd (orders busy_db)) (hd (manifests busy_db))) (seconds 3) 60 60) \<noteq> None
   \<and> re_reasons (evaluate_routing_candidate (hd (workers busy_db)) (Some (hd (profiles busy_db)))
      (routing_request_of (hd (orders busy_db)) (hd (manifests busy_db))) (seconds 3) 60 60) = []"
proof -
  let ?e = "evaluate_routing_candidate (hd (workers busy_db)) (Some (hd (profiles busy_db)))
      (routing_request_of (hd (orders busy_db)) (hd (manifests busy_db))) (seconds 3) 60 60"
  have "re_candidate ?e \<noteq> None" by code_simp
  moreover have "re_candidate ?e = None \<longleftrightarrow> re_reasons ?e \<noteq> []" by (rule conjunct2 [OF eligibility_exact])
  ultimately show ?thesis by metis
qed

text \<open>
  Ranking is a function of the set of candidates: whatever order the workers are read in, the
  same ranking results; it permutes the candidates, and none of them compares before the first.
\<close>

theorem ranking_deterministic:
  assumes "\<forall>c \<in> set cs. rc_profile c \<noteq> None \<and> 1 \<le> w_max_concurrency (rc_worker c)"
    and "distinct (map (\<lambda>c. w_worker_id (rc_worker c)) cs)" and "mset ds = mset cs"
  shows "rank_routing_candidates ds required = rank_routing_candidates cs required
    \<and> (\<exists>ranked. rank_routing_candidates cs required = Some ranked \<and> mset ranked = mset cs
         \<and> sorted_wrt (\<lambda>a b. \<exists>n \<le> 0. compare required a b = Some n) ranked)"
proof -
  have ok: "\<forall>c \<in> set cs. rankable c" using assms(1) by (simp add: rankable_def)
  have sets: "set ds = set cs" using assms(3) by (metis set_mset_mset)
  have inj: "inj_on (\<lambda>c. w_worker_id (rc_worker c)) (set cs)" using assms(2) by (simp add: distinct_map)
  have same: "sort_cmp (rank_cmp required) ds = sort_cmp (rank_cmp required) cs"
    using ranking.sort_cmp_order_independent [OF ok inj assms(3) [symmetric]] by simp
  let ?r = "sort_cmp (rank_cmp required) cs"
  have "sorted_wrt (\<lambda>a b. rank_cmp required a b \<le> 0) ?r" by (rule ranking.sorted_sort_cmp [OF ok])
  then have "sorted_wrt (\<lambda>a b. \<exists>n \<le> 0. compare required a b = Some n) ?r"
    by (rule sorted_wrt_mono_rel [rotated]) (use assms(1) in \<open>auto simp: rank_cmp_def compare_def split: option.splits\<close>)
  moreover have "rank_routing_candidates cs required = Some ?r" "rank_routing_candidates ds required = Some ?r"
    using assms(1) sets same by (simp_all add: rank_routing_candidates_eq)
  ultimately show ?thesis by simp
qed

definition sample_candidates :: "routing_candidate list" where
  "sample_candidates =
     (let w = hd (workers ready_db); p = hd (profiles ready_db)
      in [\<lparr>rc_worker = w, rc_profile = Some p\<rparr>,
          \<lparr>rc_worker = w\<lparr>w_worker_id := ''beta''\<rparr>, rc_profile = Some (p\<lparr>q_cost := 2\<rparr>)\<rparr>])"

theorem ranking_deterministic_witness:
  "map_option (map (\<lambda>c. w_worker_id (rc_worker c))) (rank_routing_candidates sample_candidates 1) = Some [''beta'', ''alpha'']
   \<and> rank_routing_candidates (rev sample_candidates) 1 = rank_routing_candidates sample_candidates 1"
proof
  show "map_option (map (\<lambda>c. w_worker_id (rc_worker c))) (rank_routing_candidates sample_candidates 1) = Some [''beta'', ''alpha'']"
    by code_simp
  have "\<forall>c \<in> set sample_candidates. rc_profile c \<noteq> None \<and> 1 \<le> w_max_concurrency (rc_worker c)"
    "distinct (map (\<lambda>c. w_worker_id (rc_worker c)) sample_candidates)" by code_simp+
  with ranking_deterministic [of sample_candidates "rev sample_candidates" 1]
  show "rank_routing_candidates (rev sample_candidates) 1 = rank_routing_candidates sample_candidates 1" by simp
qed

text \<open>
  A normalised runtime version is canonical: normalising it again, with or without the
  allowance for a leading v, gives the same text, and a worker that declares it meets both an exact
  and a minimum requirement of it.
\<close>

theorem normalize_runtime_version_canonical:
  assumes "normalize_runtime_version (Some v) b = Some s"
  shows "normalize_runtime_version (Some s) b' = Some s
    \<and> runtime_version_matches (Some s) (JObj [(''exact'', JStr s)]) b'
    \<and> runtime_version_matches (Some s) (JObj [(''minimum'', JStr s)]) b'"
proof -
  let ?t = "if starts_with_v (strip v) then drop 1 (strip v) else strip v"
  obtain parts where p: "version_parts False ?t = Some parts" "length parts \<in> {2, 3}"
    and s: "s = join_with ''.'' (map show_nat parts)"
    using assms by (auto simp: normalize_runtime_version_def Let_def split: if_splits option.splits)
  have ne: "parts \<noteq> []" "length parts \<le> 3" using p(2) by auto
  note join = version_parts_join [OF ne]
  have "normalize_runtime_version (Some s) b' = Some s"
    unfolding normalize_runtime_version_def using join p(2) by (simp add: s Let_def)
  then show ?thesis using join(1) [of b'] by (simp add: runtime_version_matches_def s)
qed

theorem normalize_runtime_version_canonical_witness:
  "normalize_runtime_version (Some '' V20.09.1 '') True = Some ''20.9.1''
   \<and> normalize_runtime_version (Some ''20.9.1'') False = Some ''20.9.1''"
proof
  show n: "normalize_runtime_version (Some '' V20.09.1 '') True = Some ''20.9.1''" by code_simp
  show "normalize_runtime_version (Some ''20.9.1'') False = Some ''20.9.1''"
    using normalize_runtime_version_canonical [OF n] by blast
qed

text \<open>
  A minimum version is monotone: what a declared version satisfies, any declared version that
  is at least as new satisfies too, whatever number of components either is written with.
\<close>

theorem minimum_version_monotone:
  assumes "runtime_version_matches (Some a) (JObj [(''minimum'', JStr e)]) b"
    and "runtime_version_matches (Some a') (JObj [(''minimum'', JStr a)]) b"
  shows "runtime_version_matches (Some a') (JObj [(''minimum'', JStr e)]) b
    \<and> runtime_version_matches (Some a') (JStr e) b"
  using assms by (auto simp: runtime_version_matches_def split: option.splits)

theorem minimum_version_monotone_witness:
  "runtime_version_matches (Some ''3.12'') (JObj [(''minimum'', JStr ''3.9'')]) False
   \<and> runtime_version_matches (Some ''4'') (JObj [(''minimum'', JStr ''3.9'')]) False"
proof
  show a: "runtime_version_matches (Some ''3.12'') (JObj [(''minimum'', JStr ''3.9'')]) False" by code_simp
  have "runtime_version_matches (Some ''4'') (JObj [(''minimum'', JStr ''3.12'')]) False" by code_simp
  from minimum_version_monotone [OF a this]
  show "runtime_version_matches (Some ''4'') (JObj [(''minimum'', JStr ''3.9'')]) False" by blast
qed

text \<open>
  No worker qualifies for repository writes: a requirement of the capability, in the manifest or
  in the request and in any capitalisation, makes every worker ineligible, and so does a worker's
  own declaration of it.
\<close>

theorem repository_write_never_eligible:
  assumes "(\<exists>name required. (name, required) \<in> set (manifest @ requested) \<and> lower name = ''repository_write''
      \<and> required \<noteq> JBool False) \<or> wc_repository_write_capability worker"
  shows "\<not> cm_eligible (match_worker_capabilities worker manifest requested net)"
proof -
  have "capability_mismatch worker ''repository_write'' required \<noteq> None" if "required \<noteq> JBool False" for required
    using that by (auto simp: capability_mismatch_def BOOLEAN_CAPABILITIES_def repository_write_mismatch_def split: json.splits)
  then have "match_capability_mapping worker manifest \<noteq> [] \<or> match_capability_mapping worker requested \<noteq> []
      \<or> wc_repository_write_capability worker"
    using assms by (fastforce simp: match_mapping_empty)
  then show ?thesis by (auto simp: match_worker_capabilities_def Let_def)
qed

theorem repository_write_never_eligible_witness:
  "\<not> cm_eligible (match_worker_capabilities (w_caps (hd (workers ready_db))) [] [(''Repository_Write'', JBool True)] NET_DISABLED)
   \<and> cm_eligible (match_worker_capabilities (w_caps (hd (workers ready_db))) [] [(''Repository_Write'', JBool False)] NET_DISABLED)"
proof
  have "lower ''Repository_Write'' = ''repository_write''" by code_simp
  then show "\<not> cm_eligible (match_worker_capabilities (w_caps (hd (workers ready_db))) [] [(''Repository_Write'', JBool True)] NET_DISABLED)"
    by (intro repository_write_never_eligible) auto
  show "cm_eligible (match_worker_capabilities (w_caps (hd (workers ready_db))) [] [(''Repository_Write'', JBool False)] NET_DISABLED)"
    by code_simp
qed

text \<open>
  An accepted evidence path cannot leave the directory it is read under: it is short, has no
  NUL, backslash or colon, is its own normal form, and, split at slashes, has no empty, dot, dot-dot
  or Windows device component. The single exception is the path of one dot, which the check lets
  through because its normal form has no components.
\<close>

theorem evidence_paths_confined:
  assumes "validate_relative_path v = Inr w"
  shows "w = v \<and> v \<noteq> [] \<and> length v \<le> 512 \<and> CHR 0x00 \<notin> set v \<and> CHR 0x5C \<notin> set v \<and> CHR '':'' \<notin> set v
    \<and> hd v \<noteq> CHR ''/'' \<and> as_posix v = v
    \<and> (v = ''.'' \<or> list_all (\<lambda>p. p \<notin> {[], ''.'', ''..''} \<and> lower (rstrip_dots p) \<notin> set WINDOWS_DEVICES)
           (split_on (CHR ''/'') v))"
proof -
  have "hd v \<noteq> CHR ''/''" using assms by (cases v) (auto simp: validate_relative_path_def split: if_splits)
  then show ?thesis using relative_path_accepted [OF assms] by (simp add: MAX_EVIDENCE_PATH_LENGTH_def)
qed

theorem evidence_paths_confined_witness:
  "validate_relative_path ''logs/step-1.txt'' = Inr ''logs/step-1.txt'' \<and> as_posix ''logs/step-1.txt'' = ''logs/step-1.txt''
   \<and> validate_relative_path ''.'' = Inr ''.'' \<and> validate_relative_path ''logs/../x'' = Inl ''evidence path must not traverse''"
proof -
  have a: "validate_relative_path ''logs/step-1.txt'' = Inr ''logs/step-1.txt''" by code_simp
  moreover have "as_posix ''logs/step-1.txt'' = ''logs/step-1.txt''" using evidence_paths_confined [OF a] by blast
  moreover have "validate_relative_path ''.'' = Inr ''.''" by code_simp
  moreover have "validate_relative_path ''logs/../x'' = Inl ''evidence path must not traverse''" by code_simp
  ultimately show ?thesis by blast
qed

end
