(* ===== verification/Execution_Progress.thy ===== *)
theory Execution_Progress
  imports Execution_Facts
begin

text \<open>
  Progress: on tables that satisfy the invariant the guarded statements of the leased operations
  affect exactly one row each. A heartbeat of a live lease succeeds, a lease can be retired, and the
  sweep over stale leases goes through, as long as the revisions of the routing profiles have room.
\<close>

section \<open>Guarded updates that must succeed\<close>

text \<open>The rows a lease names: its run, its order, its worker.\<close>

definition lease_trio :: "exec_db \<Rightarrow> exec_lease_row \<Rightarrow> run_row \<Rightarrow> order_row \<Rightarrow> worker_row \<Rightarrow> bool" where
  "lease_trio db x r w v \<longleftrightarrow> x \<in> set (xleases db) \<and> r \<in> set (runs db) \<and> w \<in> set (orders db) \<and> v \<in> set (workers db)
     \<and> r_id r = x_run_id x \<and> o_id w = x_work_order_id x \<and> w_worker_id v = x_worker_id x
     \<and> r_work_order_id r = x_work_order_id x \<and> r_worker_id r = x_worker_id x
     \<and> run_active (r_status r) \<and> order_active (o_status w) \<and> 0 < w_active_run_count v
     \<and> or_quota_state (o_route w) = Some (rr_quota_state (r_route r)) \<and> rr_quota_state (r_route r) \<noteq> QUOTA_RELEASED"

lemma lease_trio_exists:
  assumes inv: "exec_inv db" and x: "x \<in> set (xleases db)"
  obtains r w v where "lease_trio db x r w v"
proof -
  have l: "ledger_inv (ledger_of db)" "ledger_unreleased (ledger_of db)" using inv by (simp_all add: exec_inv_def)
  have cover: "lease_backed (ledger_of db) (lease_entry_of x)" "x_worker_id x \<in> w_worker_id ` set (workers db)"
    using l(1) x by (auto simp: ledger_inv_def ledger_cover_def image_image)
  from cover(1) obtain r w where rw: "r \<in> set (runs db)" "w \<in> set (orders db)" "r_id r = x_run_id x" "o_id w = x_work_order_id x"
    "r_work_order_id r = x_work_order_id x" "r_worker_id r = x_worker_id x" "run_active (r_status r)" "order_active (o_status w)"
    "or_quota_state (o_route w) = Some (rr_quota_state (r_route r))"
    by (fastforce simp: lease_backed_def)
  from cover(2) obtain v where v: "v \<in> set (workers db)" "w_worker_id v = x_worker_id x" by auto
  have "rowcount (\<lambda>y. x_worker_id y = x_worker_id x) (xleases db) \<noteq> 0" using x by (auto simp: rowcount_zero)
  then have "0 < w_active_run_count v" using worker_count [OF inv v(1)] v(2) by simp
  moreover have "rr_quota_state (r_route r) \<noteq> QUOTA_RELEASED" using l(2) rw(1,7) by (auto simp: ledger_unreleased_def)
  ultimately have "lease_trio db x r w v" using x rw v by (simp add: lease_trio_def)
  then show ?thesis by (rule that)
qed

lemma find_in_table:
  assumes "keys_ok db"
  shows "r \<in> set (runs db) \<Longrightarrow> find_run db (r_id r) = Some r"
    and "w \<in> set (orders db) \<Longrightarrow> find_order db (o_id w) = Some w"
    and "v \<in> set (workers db) \<Longrightarrow> find_worker db (w_worker_id v) = Some v"
    and "p \<in> set (profiles db) \<Longrightarrow> find_profile db (q_worker_id p) = Some p"
    and "x \<in> set (xleases db) \<Longrightarrow> get_lease_for_run db (x_run_id x) = Some x"
    and "x \<in> set (xleases db) \<Longrightarrow> get_lease_for_work_order db (x_work_order_id x) = Some x"
  using assms
  by (auto simp: find_run_def find_order_def find_worker_def find_profile_def get_lease_for_run_def
      get_lease_for_work_order_def keys_iff find_key_unique)

lemma consume_lease_outcome:
  assumes "keys_ok db" and "x \<in> set (xleases db)"
  shows "snd (consume_lease db (snapshot_of x) now g) = lease_guard_holds g now x"
proof -
  have "affected_one (\<lambda>y. snapshot_of y = snapshot_of x \<and> lease_guard_holds g now y) (xleases db)
      \<longleftrightarrow> (\<exists>y \<in> set (xleases db). snapshot_of y = snapshot_of x \<and> lease_guard_holds g now y)"
    by (rule affected_one_key [OF distinct_snapshots [OF assms(1)]])
  also have "\<dots> \<longleftrightarrow> lease_guard_holds g now x"
    using assms(2) key_unique [OF distinct_snapshots [OF assms(1)]] by blast
  finally show ?thesis by (simp add: consume_lease_def Let_def)
qed

text \<open>The one way a release is refused: the revision of the profile is at its maximum.\<close>

definition release_headroom :: "exec_db \<Rightarrow> run_row \<Rightarrow> bool" where
  "release_headroom db r \<longleftrightarrow> (rr_quota_state (r_route r) = QUOTA_RESERVED \<longrightarrow>
     (\<forall>p \<in> set (profiles db). q_worker_id p = r_worker_id r \<longrightarrow> q_revision p < MAX_ROUTING_REVISION))"

lemma move_reservation_outcome:
  assumes "distinct (map r_id (runs db))" "distinct (map o_id (orders db))"
    and "r \<in> set (runs db)" "rr_quota_state (r_route r) = QUOTA_RESERVED"
    and "w \<in> set (orders db)" "or_quota_state (o_route w) = Some QUOTA_RESERVED"
  shows "snd (move_reservation db (r_id r) (o_id w) s)"
  using assms affected_one_key [OF assms(1), of "r_id r"] affected_one_key [OF assms(2), of "o_id w"]
  by (auto simp: move_reservation_def update_runs_def update_orders_def Let_def)

lemma total_member:
  assumes "r \<in> set rs" and "\<forall>y \<in> set rs. 0 \<le> (f y :: int)"
  shows "f r \<le> total f rs"
proof -
  have nonneg: "\<forall>y \<in> set ys. 0 \<le> f y \<Longrightarrow> 0 \<le> total f ys" for ys by (induction ys) auto
  show ?thesis using assms
  proof (induction rs)
    case (Cons y ys)
    then show ?case using nonneg [of ys] by (cases "r = y") force+
  qed simp
qed

lemma reservation_fits:
  assumes inv: "exec_inv db" and r: "r \<in> set (runs db)" "rr_quota_state (r_route r) = QUOTA_RESERVED"
  shows "0 < rr_reserved_quota_units (r_route r)"
    and "\<exists>p \<in> set (profiles db). q_worker_id p = r_worker_id r
           \<and> q_remaining p \<le> q_capacity p - rr_reserved_quota_units (r_route r)"
proof -
  have q: "ledger_quota (ledger_of db)" using inv by (simp add: exec_inv_def ledger_inv_def)
  then show "0 < rr_reserved_quota_units (r_route r)" using r by (auto simp: ledger_quota_def)
  from q r obtain p where p: "p \<in> set (profiles db)" "q_worker_id p = r_worker_id r"
    by (auto simp: ledger_quota_def image_image)
  have "reserved_by (q_worker_id p) (run_entry_of r) \<le> total (reserved_by (q_worker_id p)) (lg_runs (ledger_of db))"
    by (rule total_member) (use q r(1) in \<open>auto simp: ledger_quota_def reserved_by_def\<close>)
  then have "rr_reserved_quota_units (r_route r) \<le> total (reserved_by (q_worker_id p)) (lg_runs (ledger_of db))"
    using r(2) p(2) by (simp add: reserved_by_def)
  moreover have "q_remaining p + total (reserved_by (q_worker_id p)) (lg_runs (ledger_of db)) \<le> q_capacity p"
    using q p(1) by (auto simp: ledger_quota_def)
  ultimately show "\<exists>p \<in> set (profiles db). q_worker_id p = r_worker_id r
           \<and> q_remaining p \<le> q_capacity p - rr_reserved_quota_units (r_route r)" using p by force
qed

text \<open>The columns the statements after the release look at.\<close>

definition same_rows :: "exec_db \<Rightarrow> exec_db \<Rightarrow> bool" where
  "same_rows db db' \<longleftrightarrow> workers db' = workers db
     \<and> map (\<lambda>r. (r_id r, r_status r)) (runs db') = map (\<lambda>r. (r_id r, r_status r)) (runs db)
     \<and> map (\<lambda>w. (o_id w, o_status w)) (orders db') = map (\<lambda>w. (o_id w, o_status w)) (orders db)"

lemma move_reservation_rows: "same_rows db (fst (move_reservation db k i s))"
  by (auto simp: move_reservation_def update_runs_def update_orders_def Let_def same_rows_def
      set_run_quota_def set_order_quota_def intro!: view_unchanged)

lemma release_outcome:
  assumes inv: "exec_inv db" and trio: "lease_trio db x r w v" and room: "release_headroom db r"
    and tables: "runs db1 = runs db" "orders db1 = orders db" "profiles db1 = profiles db" "workers db1 = workers db"
  shows "\<exists>db2. release_run_quota_reservation db1 (x_run_id x) (x_work_order_id x) (x_worker_id x) = (db2, True) \<and> same_rows db db2"
proof -
  have t: "r \<in> set (runs db)" "w \<in> set (orders db)" "x_run_id x = r_id r" "x_work_order_id x = o_id w" "x_worker_id x = r_worker_id r"
    "or_quota_state (o_route w) = Some (rr_quota_state (r_route r))" "rr_quota_state (r_route r) \<noteq> QUOTA_RELEASED"
    using trio by (simp_all add: lease_trio_def)
  have keys: "distinct (map r_id (runs db))" "distinct (map o_id (orders db))" "distinct (map q_worker_id (profiles db))"
    using exec_inv_keys [OF inv] by (simp_all add: keys_iff)
  have r: "find_run db1 (r_id r) = Some r" using find_key_unique [OF keys(1) t(1)] by (simp add: find_run_def tables)
  show ?thesis
  proof (cases "rr_quota_state (r_route r) = QUOTA_RESERVED")
    case False
    with t(7) r have "release_run_quota_reservation db1 (r_id r) (o_id w) (r_worker_id r) = (db1, True)"
      by (cases "rr_quota_state (r_route r)") (auto simp: release_run_quota_reservation_def)
    then show ?thesis using t(3-5) tables by (simp add: same_rows_def)
  next
    case True
    let ?u = "rr_reserved_quota_units (r_route r)"
    let ?P = "\<lambda>p. q_worker_id p = r_worker_id r \<and> q_revision p < MAX_ROUTING_REVISION \<and> q_remaining p \<le> q_capacity p - ?u"
    let ?db2 = "db1\<lparr>profiles := update_where ?P (return_quota ?u) (profiles db1)\<rparr>"
    note fits = reservation_fits [OF inv t(1) True]
    have "affected_one ?P (profiles db1)"
      using affected_one_key [OF keys(3), of "r_worker_id r"] fits(2) room True by (force simp: tables release_headroom_def)
    then have "release_run_quota_reservation db1 (r_id r) (o_id w) (r_worker_id r) = move_reservation ?db2 (r_id r) (o_id w) QUOTA_RELEASED"
      using r True fits(1) by (simp add: release_run_quota_reservation_def update_profiles_def Let_def)
    moreover have "snd (move_reservation ?db2 (r_id r) (o_id w) QUOTA_RELEASED)"
      by (rule move_reservation_outcome) (use keys t True in \<open>simp_all add: tables\<close>)
    moreover have "same_rows db (fst (move_reservation ?db2 (r_id r) (o_id w) QUOTA_RELEASED))"
      using move_reservation_rows [of ?db2] by (simp add: same_rows_def tables)
    ultimately show ?thesis
      using t(3-5) by (intro exI [of _ "fst (move_reservation ?db2 (r_id r) (o_id w) QUOTA_RELEASED)"]) (simp add: prod_eq_iff)
  qed
qed

lemma affected_one_view: "affected_one (\<lambda>y. Q (v y)) ys = affected_one Q (map v ys)"
  by (simp add: affected_one_def rowcount_def filter_map comp_def)

lemma same_rows_guards:
  assumes "same_rows db db'"
  shows "affected_one (\<lambda>r. r_id r = k \<and> run_active (r_status r)) (runs db') = affected_one (\<lambda>r. r_id r = k \<and> run_active (r_status r)) (runs db)"
    and "affected_one (\<lambda>w. o_id w = i \<and> order_active (o_status w)) (orders db') = affected_one (\<lambda>w. o_id w = i \<and> order_active (o_status w)) (orders db)"
proof -
  have r: "affected_one (\<lambda>r. r_id r = k \<and> run_active (r_status r)) ys
      = affected_one (\<lambda>p. fst p = k \<and> run_active (snd p)) (map (\<lambda>r. (r_id r, r_status r)) ys)" for ys
    by (simp add: affected_one_view [symmetric])
  have w: "affected_one (\<lambda>w. o_id w = i \<and> order_active (o_status w)) ys
      = affected_one (\<lambda>p. fst p = i \<and> order_active (snd p)) (map (\<lambda>w. (o_id w, o_status w)) ys)" for ys
    by (simp add: affected_one_view [symmetric])
  show "affected_one (\<lambda>r. r_id r = k \<and> run_active (r_status r)) (runs db') = affected_one (\<lambda>r. r_id r = k \<and> run_active (r_status r)) (runs db)"
    using assms unfolding r same_rows_def by (elim conjE) (simp only:)
  show "affected_one (\<lambda>w. o_id w = i \<and> order_active (o_status w)) (orders db') = affected_one (\<lambda>w. o_id w = i \<and> order_active (o_status w)) (orders db)"
    using assms unfolding w same_rows_def by (elim conjE) (simp only:)
qed

lemma trio_guards:
  assumes inv: "exec_inv db" and trio: "lease_trio db x r w v"
  shows "affected_one (\<lambda>r. r_id r = x_run_id x \<and> run_active (r_status r)) (runs db)"
    and "affected_one (\<lambda>w. o_id w = x_work_order_id x \<and> order_active (o_status w)) (orders db)"
    and "affected_one (\<lambda>v. w_worker_id v = x_worker_id x \<and> w_active_run_count v > 0) (workers db)"
proof -
  have keys: "distinct (map r_id (runs db))" "distinct (map o_id (orders db))" "distinct (map w_worker_id (workers db))"
    using exec_inv_keys [OF inv] by (simp_all add: keys_iff)
  show "affected_one (\<lambda>r. r_id r = x_run_id x \<and> run_active (r_status r)) (runs db)"
    "affected_one (\<lambda>w. o_id w = x_work_order_id x \<and> order_active (o_status w)) (orders db)"
    "affected_one (\<lambda>v. w_worker_id v = x_worker_id x \<and> w_active_run_count v > 0) (workers db)"
    using trio by (auto simp: affected_one_key keys lease_trio_def)
qed

lemma retire_chain:
  assumes inv: "exec_inv db" and trio: "lease_trio db x r w v" and room: "release_headroom db r"
    and guard: "lease_guard_holds g now x"
  obtains db1 db2 db3 db4 db5 where "consume_lease db (snapshot_of x) now g = (db1, True)"
    "release_run_quota_reservation db1 (x_run_id x) (x_work_order_id x) (x_worker_id x) = (db2, True)"
    "finish_active_run db2 (x_run_id x) f = (db3, True)"
    "update_orders db3 (\<lambda>w. o_id w = x_work_order_id x \<and> order_active (o_status w)) h = (db4, True)"
    "release_worker_capacity db4 (x_worker_id x) = (db5, True)"
proof -
  have x: "x \<in> set (xleases db)" using trio by (simp add: lease_trio_def)
  obtain db1 where 1: "consume_lease db (snapshot_of x) now g = (db1, True)"
    using consume_lease_outcome [OF exec_inv_keys [OF inv] x, of now g] guard by (cases "consume_lease db (snapshot_of x) now g") auto
  then have "runs db1 = runs db" "orders db1 = orders db" "profiles db1 = profiles db" "workers db1 = workers db"
    by (auto simp: consume_lease_def Let_def)
  from release_outcome [OF inv trio room this] obtain db2 where
    2: "release_run_quota_reservation db1 (x_run_id x) (x_work_order_id x) (x_worker_id x) = (db2, True)" and same: "same_rows db db2" by blast
  let ?db3 = "fst (finish_active_run db2 (x_run_id x) f)"
  let ?db4 = "fst (update_orders ?db3 (\<lambda>w. o_id w = x_work_order_id x \<and> order_active (o_status w)) h)"
  have frame: "orders ?db3 = orders db2" "workers ?db4 = workers db2" by (simp_all add: finish_active_run_def update_runs_def update_orders_def)
  have 3: "finish_active_run db2 (x_run_id x) f = (?db3, True)"
    using trio_guards(1) [OF inv trio] same_rows_guards(1) [OF same] by (simp add: finish_active_run_def update_runs_def)
  have 4: "update_orders ?db3 (\<lambda>w. o_id w = x_work_order_id x \<and> order_active (o_status w)) h = (?db4, True)"
    using trio_guards(2) [OF inv trio] same_rows_guards(2) [OF same] frame(1) by (simp add: update_orders_def)
  have "workers ?db4 = workers db" using frame(2) same by (simp add: same_rows_def)
  then have 5: "release_worker_capacity ?db4 (x_worker_id x) = (fst (release_worker_capacity ?db4 (x_worker_id x)), True)"
    using trio_guards(3) [OF inv trio] by (simp add: release_worker_capacity_def update_workers_def)
  show ?thesis by (rule that [OF 1 2 3 4 5])
qed

lemma consume_quota_outcome:
  assumes inv: "exec_inv db" and trio: "lease_trio db x r w v"
    and tables: "runs db1 = runs db" "orders db1 = orders db" "workers db1 = workers db"
  shows "\<exists>db2. consume_run_quota_reservation db1 (x_run_id x) (x_work_order_id x) = (db2, True) \<and> same_rows db db2"
proof -
  have t: "r \<in> set (runs db)" "w \<in> set (orders db)" "x_run_id x = r_id r" "x_work_order_id x = o_id w"
    "or_quota_state (o_route w) = Some (rr_quota_state (r_route r))" "rr_quota_state (r_route r) \<noteq> QUOTA_RELEASED"
    using trio by (simp_all add: lease_trio_def)
  have keys: "distinct (map r_id (runs db))" "distinct (map o_id (orders db))"
    using exec_inv_keys [OF inv] by (simp_all add: keys_iff)
  have r: "find_run db1 (r_id r) = Some r" using find_key_unique [OF keys(1) t(1)] by (simp add: find_run_def tables)
  show ?thesis
  proof (cases "rr_quota_state (r_route r) = QUOTA_RESERVED")
    case False
    with t(6) r have "consume_run_quota_reservation db1 (r_id r) (o_id w) = (db1, True)"
      by (cases "rr_quota_state (r_route r)") (auto simp: consume_run_quota_reservation_def)
    then show ?thesis using t(3,4) tables by (simp add: same_rows_def)
  next
    case True
    have "snd (move_reservation db1 (r_id r) (o_id w) QUOTA_CONSUMED)"
      by (rule move_reservation_outcome) (use keys t True in \<open>simp_all add: tables\<close>)
    moreover have "same_rows db (fst (move_reservation db1 (r_id r) (o_id w) QUOTA_CONSUMED))"
      using move_reservation_rows [of db1] by (simp add: same_rows_def tables)
    ultimately show ?thesis using t(3,4) r True
      by (intro exI [of _ "fst (move_reservation db1 (r_id r) (o_id w) QUOTA_CONSUMED)"])
        (simp add: consume_run_quota_reservation_def prod_eq_iff)
  qed
qed

lemma same_rows_distinct:
  assumes "same_rows db db'" and "keys_ok db"
  shows "distinct (map r_id (runs db'))"
proof -
  have "map fst (map (\<lambda>r. (r_id r, r_status r)) (runs db')) = map fst (map (\<lambda>r. (r_id r, r_status r)) (runs db))"
    using assms(1) unfolding same_rows_def by (elim conjE) (simp only:)
  then show ?thesis using assms(2) by (simp add: keys_iff comp_def)
qed

lemma run_found: "k \<in> r_id ` set (runs db) \<Longrightarrow> \<exists>r. find_run db k = Some r"
  using find_key_None [of r_id k "runs db"] by (cases "find_run db k") (auto simp: find_run_def)

section \<open>Heartbeats\<close>

definition renewed :: "time \<Rightarrow> time \<Rightarrow> exec_lease_row \<Rightarrow> exec_lease_row" where
  "renewed now expires_at x = x\<lparr>x_last_heartbeat_at := now, x_expires_at := expires_at\<rparr>"

lemma renew_outcome:
  assumes "keys_ok db" and "x \<in> set (xleases db)"
  shows "renew_owned_live_lease db (x_run_id x) (x_worker_id x) now e =
    (db\<lparr>xleases := update_where (\<lambda>y. y = x \<and> now \<le> x_expires_at x) (renewed now e) (xleases db)\<rparr>, now \<le> x_expires_at x)"
proof -
  have keys: "distinct (map x_run_id (xleases db))" using assms(1) by (simp add: keys_iff)
  have own: "y = x" if "y \<in> set (xleases db)" "x_run_id y = x_run_id x" for y using key_unique [OF keys that(1) assms(2) that(2)] .
  have "affected_one (\<lambda>y. x_run_id y = x_run_id x \<and> x_worker_id y = x_worker_id x \<and> now \<le> x_expires_at y) (xleases db) \<longleftrightarrow> now \<le> x_expires_at x"
    unfolding affected_one_key [OF keys] using own assms(2) by blast
  moreover have "update_where (\<lambda>y. x_run_id y = x_run_id x \<and> x_worker_id y = x_worker_id x \<and> now \<le> x_expires_at y) (renewed now e) (xleases db)
      = update_where (\<lambda>y. y = x \<and> now \<le> x_expires_at x) (renewed now e) (xleases db)"
    unfolding update_where_def by (rule map_cong) (use own in auto)
  ultimately show ?thesis by (simp add: renew_owned_live_lease_def renewed_def [abs_def])
qed

lemma heartbeat_ok:
  fixes env :: service_env and now :: time
  assumes inv: "exec_inv db" and x: "x \<in> set (xleases db)" and live: "now \<le> x_expires_at x"
  defines "e \<equiv> now + seconds (env_lease_seconds env)"
  shows "\<exists>db' r. heartbeat_run env db now (x_run_id x) (x_worker_id x) = Inr (db', r)
    \<and> r_status r = RUN_RUNNING \<and> r_lease_expires_at r = e \<and> r_last_heartbeat_at r = now
    \<and> xleases db' = update_where (\<lambda>y. y = x) (renewed now e) (xleases db)"
proof -
  note keys = exec_inv_keys [OF inv]
  obtain r w v where trio: "lease_trio db x r w v" using lease_trio_exists [OF inv x] .
  let ?db1 = "db\<lparr>xleases := update_where (\<lambda>y. y = x) (renewed now e) (xleases db)\<rparr>"
  have 1: "renew_owned_live_lease db (x_run_id x) (x_worker_id x) now e = (?db1, True)" using renew_outcome [OF keys x] live by simp
  obtain db2 where 2: "consume_run_quota_reservation ?db1 (x_run_id x) (x_work_order_id x) = (db2, True)" and same: "same_rows db db2"
    using consume_quota_outcome [OF inv trio, of ?db1] by auto
  define db3 where "db3 = fst (mark_active_run_running db2 (x_run_id x) now e)"
  define db4 where "db4 = fst (mark_active_work_order_running db3 (x_work_order_id x) now)"
  have 3: "mark_active_run_running db2 (x_run_id x) now e = (db3, True)"
    using trio_guards(1) [OF inv trio] same_rows_guards(1) [OF same] by (simp add: db3_def mark_active_run_running_def update_runs_def)
  have 4: "mark_active_work_order_running db3 (x_work_order_id x) now = (db4, True)"
    using trio_guards(2) [OF inv trio] same_rows_guards(2) [OF same]
    by (simp add: db3_def db4_def mark_active_work_order_running_def mark_active_run_running_def update_runs_def update_orders_def)
  have a2: "affected_one (\<lambda>r. r_id r = x_run_id x \<and> run_active (r_status r)) (runs db2)"
    using trio_guards(1) [OF inv trio] same_rows_guards(1) [OF same] by simp
  note d2 = same_rows_distinct [OF same keys]
  from a2 obtain r2 where r2: "r2 \<in> set (runs db2)" "r_id r2 = x_run_id x" "run_active (r_status r2)"
    unfolding affected_one_key [OF d2] by blast
  have u: "find_run db2 (x_run_id x) = Some r2" using find_key_unique [OF d2 r2(1)] r2(2) by (simp add: find_run_def)
  have r4: "find_run db4 (x_run_id x) = Some (start_run now e r2)"
    using u r2 by (simp add: db3_def db4_def find_run_def mark_active_work_order_running_def mark_active_run_running_def update_runs_def update_orders_def
        find_update_where start_run_def)
  have r0: "find_run db (x_run_id x) = Some r" using find_in_table(1) [OF keys, of r] trio by (simp add: lease_trio_def)
  have s: "get_lease_snapshot_for_run db (x_run_id x) = Some (snapshot_of x)"
    using find_in_table(5) [OF keys x] by (simp add: get_lease_snapshot_for_run_def)
  have l4: "xleases db4 = xleases ?db1"
    using 2 by (auto simp: db3_def db4_def mark_active_work_order_running_def mark_active_run_running_def update_runs_def update_orders_def
        consume_run_quota_reservation_def move_reservation_def Let_def split: option.splits if_splits)
  have "heartbeat_run env db now (x_run_id x) (x_worker_id x) = Inr (db4, start_run now e r2)"
    using r0 s 1 2 3 4 r4 by (simp add: heartbeat_run_def get_run_def of_option_def snapshot_of_def e_def [symmetric] Let_def)
  then show ?thesis using l4 r2(3) by (auto simp: start_run_def run_active_def)
qed

lemma heartbeat_refused:
  assumes keys: "keys_ok db"
  shows "k \<notin> r_id ` set (runs db) \<Longrightarrow> heartbeat_run env db now k j = Inl (ExecutionNotFoundError ''execution_run_not_found'')"
    and "k \<in> r_id ` set (runs db) \<Longrightarrow> \<not> (\<exists>x \<in> set (xleases db). x_run_id x = k \<and> x_worker_id x = j)
      \<Longrightarrow> heartbeat_run env db now k j = Inl (OwnershipConflictError ''execution_lease_not_owned'')"
    and "k \<in> r_id ` set (runs db) \<Longrightarrow> x \<in> set (xleases db) \<Longrightarrow> x_run_id x = k \<Longrightarrow> x_worker_id x = j \<Longrightarrow> x_expires_at x < now
      \<Longrightarrow> heartbeat_run env db now k j = Inl (OwnershipConflictError ''execution_lease_expired'')"
proof -
  show "heartbeat_run env db now k j = Inl (ExecutionNotFoundError ''execution_run_not_found'')" if "k \<notin> r_id ` set (runs db)"
    using that find_key_None [of r_id k "runs db"] by (simp add: heartbeat_run_def get_run_def find_run_def of_option_def)
  show "heartbeat_run env db now k j = Inl (OwnershipConflictError ''execution_lease_not_owned'')"
    if "k \<in> r_id ` set (runs db)" "\<not> (\<exists>x \<in> set (xleases db). x_run_id x = k \<and> x_worker_id x = j)"
  proof -
    from that(1) have "\<exists>r. find_run db k = Some r" by (rule run_found)
    then obtain r where r: "find_run db k = Some r" by blast
    show ?thesis
    proof (cases "get_lease_for_run db k")
      case None
      then show ?thesis using r by (simp add: heartbeat_run_def get_run_def of_option_def get_lease_snapshot_for_run_def)
    next
      case (Some x)
      then have "x_worker_id x \<noteq> j" using that(2) find_key_Some [of x_run_id k "xleases db" x] by (auto simp: get_lease_for_run_def)
      then show ?thesis using Some r by (simp add: heartbeat_run_def get_run_def of_option_def get_lease_snapshot_for_run_def snapshot_of_def)
    qed
  qed
  show "heartbeat_run env db now k j = Inl (OwnershipConflictError ''execution_lease_expired'')"
    if "k \<in> r_id ` set (runs db)" "x \<in> set (xleases db)" "x_run_id x = k" "x_worker_id x = j" "x_expires_at x < now"
  proof -
    from that(1) have "\<exists>r. find_run db k = Some r" by (rule run_found)
    then obtain r where r: "find_run db k = Some r" by blast
    show ?thesis using r renew_outcome [OF keys that(2), of now] find_in_table(5) [OF keys that(2)] that(3-5)
      by (auto simp: heartbeat_run_def get_run_def of_option_def get_lease_snapshot_for_run_def snapshot_of_def Let_def)
  qed
qed

section \<open>The sweep over stale leases\<close>

text \<open>Every reservation can be released: the revision of a profile leaves room for one release each.\<close>

definition revision_headroom :: "exec_db \<Rightarrow> bool" where
  "revision_headroom db \<longleftrightarrow> (\<forall>p \<in> set (profiles db).
     q_revision p + int (count_reserved_quota_runs db (q_worker_id p)) \<le> MAX_ROUTING_REVISION)"

lemma headroom_release:
  assumes "revision_headroom db" and "r \<in> set (runs db)"
  shows "release_headroom db r"
  unfolding release_headroom_def
proof (intro impI ballI)
  fix p assume q: "rr_quota_state (r_route r) = QUOTA_RESERVED" and p: "p \<in> set (profiles db)" "q_worker_id p = r_worker_id r"
  have "count_reserved_quota_runs db (q_worker_id p) \<noteq> 0"
    using assms(2) q p(2) by (auto simp: count_reserved_quota_runs_def rowcount_zero)
  then show "q_revision p < MAX_ROUTING_REVISION" using assms(1) p(1) by (force simp: revision_headroom_def)
qed

lemma headroom_frame:
  assumes "revision_headroom db" and "profiles db' = profiles db"
    and "\<And>j. count_reserved_quota_runs db' j \<le> count_reserved_quota_runs db j"
  shows "revision_headroom db'"
  unfolding revision_headroom_def
proof
  fix p assume "p \<in> set (profiles db')"
  with assms(1,2) have "q_revision p + int (count_reserved_quota_runs db (q_worker_id p)) \<le> MAX_ROUTING_REVISION"
    by (simp add: revision_headroom_def)
  with assms(3) [of "q_worker_id p"] show "q_revision p + int (count_reserved_quota_runs db' (q_worker_id p)) \<le> MAX_ROUTING_REVISION"
    by linarith
qed

lemma reserved_count_moved:
  assumes "distinct (map r_id rows)" and "r \<in> set rows" and "rr_quota_state (r_route r) = QUOTA_RESERVED" and "s \<noteq> QUOTA_RESERVED"
  shows "rowcount (\<lambda>y. r_worker_id y = j \<and> rr_quota_state (r_route y) = QUOTA_RESERVED)
      (update_where (\<lambda>y. r_id y = r_id r \<and> rr_quota_state (r_route y) = QUOTA_RESERVED) (set_run_quota s) rows)
      + (if j = r_worker_id r then 1 else 0)
    = rowcount (\<lambda>y. r_worker_id y = j \<and> rr_quota_state (r_route y) = QUOTA_RESERVED) rows"
proof -
  let ?Q = "\<lambda>y. r_worker_id y = j \<and> rr_quota_state (r_route y) = QUOTA_RESERVED"
  have "rowcount ?Q (update_where (\<lambda>y. r_id y = r_id r \<and> rr_quota_state (r_route y) = QUOTA_RESERVED) (set_run_quota s) rows)
      = rowcount ?Q (delete_where (\<lambda>y. r_id y = r_id r) rows)"
    unfolding rowcount_update_where rowcount_delete_where
    by (rule rowcount_cong) (use assms(4) in \<open>auto simp: set_run_quota_def\<close>)
  then show ?thesis using rowcount_delete_key [OF assms(1,2), of ?Q] assms(3) by auto
qed

lemma release_keeps_headroom:
  assumes rel: "release_run_quota_reservation db k i j = (db', True)" and r: "find_run db k = Some r" "r_worker_id r = j"
    and dist: "distinct (map r_id (runs db))" and room: "revision_headroom db"
  shows "revision_headroom db'"
proof (cases "rr_quota_state (r_route r) = QUOTA_RESERVED")
  case False
  then have "db' = db" using rel r by (cases "rr_quota_state (r_route r)") (auto simp: release_run_quota_reservation_def)
  then show ?thesis using room by simp
next
  case True
  let ?u = "rr_reserved_quota_units (r_route r)"
  let ?P = "\<lambda>p. q_worker_id p = j \<and> q_revision p < MAX_ROUTING_REVISION \<and> q_remaining p \<le> q_capacity p - ?u"
  note rs = find_run_entry [OF r(1)]
  have runs: "runs db' = update_where (\<lambda>y. r_id y = r_id r \<and> rr_quota_state (r_route y) = QUOTA_RESERVED) (set_run_quota QUOTA_RELEASED) (runs db)"
    and "profiles db' = profiles db \<or> profiles db' = update_where ?P (return_quota ?u) (profiles db)"
    using rel r(1) True rs(2)
    by (auto simp: release_run_quota_reservation_def move_reservation_def update_runs_def update_orders_def update_profiles_def Let_def
        split: if_splits)
  then have ps: "\<forall>p' \<in> set (profiles db'). \<exists>p \<in> set (profiles db). q_worker_id p' = q_worker_id p
      \<and> q_revision p' \<le> q_revision p + (if q_worker_id p = j then 1 else 0)"
    by (elim disjE) (force simp: set_update_where return_quota_def)+
  have count: "int (count_reserved_quota_runs db' j') + (if j' = j then 1 else 0) = int (count_reserved_quota_runs db j')" for j'
    using reserved_count_moved [OF dist rs(3) True, of QUOTA_RELEASED j'] r(2)
    by (auto simp: count_reserved_quota_runs_def runs)
  show ?thesis
    unfolding revision_headroom_def
  proof
    fix p' assume "p' \<in> set (profiles db')"
    with ps obtain p where "p \<in> set (profiles db)" "q_worker_id p' = q_worker_id p"
      "q_revision p' \<le> q_revision p + (if q_worker_id p = j then 1 else 0)" by blast
    moreover from this room have "q_revision p + int (count_reserved_quota_runs db (q_worker_id p)) \<le> MAX_ROUTING_REVISION"
      by (simp add: revision_headroom_def)
    ultimately show "q_revision p' + int (count_reserved_quota_runs db' (q_worker_id p')) \<le> MAX_ROUTING_REVISION"
      using count [of "q_worker_id p"] by (auto split: if_splits)
  qed
qed

text \<open>What the operations of the sweep leave of the views they are read through.\<close>

abbreviation run_states :: "exec_db \<Rightarrow> (int \<times> run_status) list" where
  "run_states db \<equiv> map (\<lambda>r. (r_id r, r_status r)) (runs db)"

abbreviation order_states :: "exec_db \<Rightarrow> (int \<times> work_order_status) list" where
  "order_states db \<equiv> map (\<lambda>w. (o_id w, o_status w)) (orders db)"

definition mark :: "int set \<Rightarrow> 's \<Rightarrow> (int \<times> 's) list \<Rightarrow> (int \<times> 's) list" where
  "mark ids s rows = map (\<lambda>(i, t). (i, if i \<in> ids then s else t)) rows"

lemma mark_simps [simp]: "mark {} s rows = rows" "mark ids s (mark ids' s rows) = mark (ids \<union> ids') s rows"
  by (auto simp: mark_def)

lemma mark_update:
  assumes "map v rows' = map v rows" and "\<And>r. r \<in> set rows' \<Longrightarrow> P r \<longleftrightarrow> fst (v r) = i" and "\<And>r. r \<in> set rows' \<Longrightarrow> P r \<Longrightarrow> v (f r) = (fst (v r), s)"
  shows "map v (update_where P f rows') = mark {i} s (map v rows)"
  unfolding assms(1) [symmetric] mark_def update_where_def map_map
  by (rule map_cong) (use assms(2,3) in \<open>auto simp: case_prod_unfold prod_eq_iff\<close>)

lemma release_leaves_leases:
  "release_run_quota_reservation db k i j = (db', ok) \<Longrightarrow> xleases db' = xleases db"
  by (auto simp: release_run_quota_reservation_def move_reservation_def update_runs_def update_orders_def update_profiles_def Let_def
      split: option.splits if_splits)

lemma same_rows_distinct_orders:
  assumes "same_rows db db'" and "keys_ok db"
  shows "distinct (map o_id (orders db'))"
proof -
  have "map fst (order_states db') = map fst (order_states db)"
    using assms(1) unfolding same_rows_def by (elim conjE) (simp only:)
  then show ?thesis using assms(2) by (simp add: keys_iff comp_def)
qed

lemma expire_one_ok:
  assumes inv: "exec_inv db" and room: "revision_headroom db" and x: "x \<in> set (xleases db)" and stale: "x_expires_at x < now"
  shows "\<exists>db'. expire_one db now (snapshot_of x) = Inr (Some db') \<and> exec_inv db' \<and> revision_headroom db'
    \<and> xleases db' = delete_where (\<lambda>y. y = x) (xleases db)
    \<and> run_states db' = mark {x_run_id x} RUN_TIMED_OUT (run_states db)
    \<and> order_states db' = mark {x_work_order_id x} WO_QUEUED (order_states db)"
proof -
  note keys = exec_inv_keys [OF inv]
  obtain r w v where trio: "lease_trio db x r w v" using lease_trio_exists [OF inv x] .
  then have r: "r \<in> set (runs db)" "r_id r = x_run_id x" "r_worker_id r = x_worker_id x" by (simp_all add: lease_trio_def)
  have guard: "lease_guard_holds RequireStale now x" using stale by simp
  obtain db1 db2 db3 db4 db5 where
    1: "consume_lease db (snapshot_of x) now RequireStale = (db1, True)"
    and 2: "release_run_quota_reservation db1 (x_run_id x) (x_work_order_id x) (x_worker_id x) = (db2, True)"
    and 3: "finish_active_run db2 (x_run_id x) (time_out_run now) = (db3, True)"
    and 4: "update_orders db3 (\<lambda>w. o_id w = x_work_order_id x \<and> order_active (o_status w)) (requeue_order now) = (db4, True)"
    and 5: "release_worker_capacity db4 (x_worker_id x) = (db5, True)"
    using retire_chain [OF inv trio headroom_release [OF room r(1)] guard, where f = "time_out_run now" and h = "requeue_order now"] .
  have e: "expire_one db now (snapshot_of x) = Inr (Some db5)"
    using 1 2 3 4 5 by (simp add: expire_one_def snapshot_of_def requeue_stale_active_run_def requeue_stale_active_work_order_def Let_def)
  then have inv5: "exec_inv db5" using refines_inv [OF refines_step [OF expire_one_refines [OF inv]] inv] by blast
  have db1: "db1 = db\<lparr>xleases := delete_where (\<lambda>y. snapshot_of y = snapshot_of x \<and> lease_guard_holds RequireStale now y) (xleases db)\<rparr>"
    using 1 by (simp add: consume_lease_def Let_def)
  have "revision_headroom db1" by (rule headroom_frame [OF room]) (simp_all add: db1 count_reserved_quota_runs_def)
  moreover have "find_run db1 (x_run_id x) = Some r" using find_in_table(1) [OF keys r(1)] r(2) by (simp add: db1 find_run_def)
  ultimately have room2: "revision_headroom db2" by (intro release_keeps_headroom [OF 2 _ r(3)]) (use keys in \<open>simp_all add: db1 keys_iff\<close>)
  have tables: "profiles db5 = profiles db2" "runs db5 = runs db3" "orders db5 = orders db4" "orders db3 = orders db2" "xleases db5 = xleases db2"
    and runs3: "runs db3 = update_where (\<lambda>r. r_id r = x_run_id x \<and> run_active (r_status r)) (time_out_run now) (runs db2)"
    and orders4: "orders db4 = update_where (\<lambda>w. o_id w = x_work_order_id x \<and> order_active (o_status w)) (requeue_order now) (orders db3)"
    using 3 4 5 by (auto simp: finish_active_run_def update_runs_def update_orders_def release_worker_capacity_def update_workers_def)
  have room5: "revision_headroom db5"
  proof (rule headroom_frame [OF room2 tables(1)])
    show "count_reserved_quota_runs db5 j \<le> count_reserved_quota_runs db2 j" for j
      unfolding count_reserved_quota_runs_def tables runs3 rowcount_update_where
      by (intro eq_refl rowcount_cong) (simp add: time_out_run_def)
  qed
  obtain same: "same_rows db db2"
    using release_outcome [OF inv trio headroom_release [OF room r(1)], of db1] 2 by (auto simp: db1)
  have d2: "distinct (map r_id (runs db2))" "distinct (map o_id (orders db2))"
    using same_rows_distinct [OF same keys] same_rows_distinct_orders [OF same keys] .
  have active: "run_active (r_status r)" if "r \<in> set (runs db2)" "r_id r = x_run_id x" for r
    using guarded_by_key(2) [OF d2(1) _ that, where Q = "\<lambda>r. run_active (r_status r)"] trio_guards(1) [OF inv trio] same_rows_guards(1) [OF same] by simp
  have active': "order_active (o_status w)" if "w \<in> set (orders db2)" "o_id w = x_work_order_id x" for w
    using guarded_by_key(2) [OF d2(2) _ that, where Q = "\<lambda>w. order_active (o_status w)"] trio_guards(2) [OF inv trio] same_rows_guards(2) [OF same] by simp
  have "run_states db5 = mark {x_run_id x} RUN_TIMED_OUT (run_states db)"
    unfolding tables(2) runs3
    by (rule mark_update) (use same active in \<open>auto simp: time_out_run_def same_rows_def\<close>)
  moreover have "order_states db5 = mark {x_work_order_id x} WO_QUEUED (order_states db)"
    unfolding tables(3,4) orders4
    by (rule mark_update) (use same active' in \<open>auto simp: requeue_order_def same_rows_def\<close>)
  moreover have "xleases db5 = delete_where (\<lambda>y. y = x) (xleases db)"
  proof -
    have "(snapshot_of y = snapshot_of x \<and> lease_guard_holds RequireStale now y) = (y = x)" if "y \<in> set (xleases db)" for y
      using key_unique [OF distinct_snapshots [OF keys] that x] guard by auto
    then show ?thesis
      by (simp add: tables(5) release_leaves_leases [OF 2] db1 delete_where_def cong: filter_cong)
  qed
  ultimately show ?thesis using e inv5 room5 by blast
qed

lemma delete_where_twice: "delete_where P (delete_where Q rows) = delete_where (\<lambda>r. Q r \<or> P r) rows"
  by (simp add: delete_where_def conj_commute)

lemma snapshot_simps:
  "ls_run_id (snapshot_of x) = x_run_id x" "ls_work_order_id (snapshot_of x) = x_work_order_id x"
  "ls_worker_id (snapshot_of x) = x_worker_id x"
  by (simp_all add: snapshot_of_def)

lemma expire_snapshots_ok:
  assumes "exec_inv db" and "revision_headroom db" and "set xs \<subseteq> set (xleases db)" and "distinct xs" and "\<forall>x \<in> set xs. x_expires_at x < now"
  shows "\<exists>db'. expire_snapshots db now (map snapshot_of xs) qs ts
      = Inr (db', \<lparr>ex_requeued = qs @ map x_work_order_id xs, ex_timed_out = ts @ map x_run_id xs\<rparr>)
    \<and> xleases db' = delete_where (\<lambda>y. y \<in> set xs) (xleases db)
    \<and> run_states db' = mark (x_run_id ` set xs) RUN_TIMED_OUT (run_states db)
    \<and> order_states db' = mark (x_work_order_id ` set xs) WO_QUEUED (order_states db)"
  using assms
proof (induction xs arbitrary: db qs ts)
  case Nil
  then show ?case by (simp add: delete_where_def)
next
  case (Cons x xs)
  then obtain db1 where 1: "expire_one db now (snapshot_of x) = Inr (Some db1)" "exec_inv db1" "revision_headroom db1"
    "xleases db1 = delete_where (\<lambda>y. y = x) (xleases db)" "run_states db1 = mark {x_run_id x} RUN_TIMED_OUT (run_states db)"
    "order_states db1 = mark {x_work_order_id x} WO_QUEUED (order_states db)"
    using expire_one_ok [of db x now] by auto
  have "set xs \<subseteq> set (xleases db1)" using Cons.prems(3,4) by (auto simp: 1(4) set_delete_where)
  with Cons.IH [OF 1(2,3), of "qs @ [x_work_order_id x]" "ts @ [x_run_id x]"] Cons.prems obtain db' where
    2: "expire_snapshots db1 now (map snapshot_of xs) (qs @ [x_work_order_id x]) (ts @ [x_run_id x])
      = Inr (db', \<lparr>ex_requeued = (qs @ [x_work_order_id x]) @ map x_work_order_id xs, ex_timed_out = (ts @ [x_run_id x]) @ map x_run_id xs\<rparr>)"
    "xleases db' = delete_where (\<lambda>y. y \<in> set xs) (xleases db1)"
    "run_states db' = mark (x_run_id ` set xs) RUN_TIMED_OUT (run_states db1)"
    "order_states db' = mark (x_work_order_id ` set xs) WO_QUEUED (order_states db1)" by auto
  show ?case
    using 1(1) 2(1) unfolding 2(2-4) 1(4-6) delete_where_twice mark_simps(2)
    by (intro exI [of _ db']) (simp add: snapshot_simps 2(2-4) 1(4-6) delete_where_twice insert_commute)
qed

lemma expire_stale_leases_ok:
  fixes now :: time
  assumes inv: "exec_inv db" and room: "revision_headroom db"
  defines "stale \<equiv> filter (\<lambda>x. x_expires_at x < now) (sort_key x_id (xleases db))"
  shows "\<exists>db'. expire_stale_leases db now = Inr (db', \<lparr>ex_requeued = map x_work_order_id stale, ex_timed_out = map x_run_id stale\<rparr>)
    \<and> xleases db' = delete_where (\<lambda>x. x_expires_at x < now) (xleases db)
    \<and> run_states db' = mark (x_run_id ` {x \<in> set (xleases db). x_expires_at x < now}) RUN_TIMED_OUT (run_states db)
    \<and> order_states db' = mark (x_work_order_id ` {x \<in> set (xleases db). x_expires_at x < now}) WO_QUEUED (order_states db)"
proof -
  have set: "set stale = {x \<in> set (xleases db). x_expires_at x < now}" by (auto simp: stale_def)
  have "distinct (map x_id (xleases db))" using exec_inv_keys [OF inv] by (simp add: keys_iff)
  then have dist: "distinct stale" by (simp add: stale_def distinct_key)
  have del: "delete_where (\<lambda>y. y \<in> set stale) (xleases db) = delete_where (\<lambda>x. x_expires_at x < now) (xleases db)"
    unfolding delete_where_def by (rule filter_cong) (auto simp: set)
  have sub: "set stale \<subseteq> set (xleases db)" "\<forall>x \<in> set stale. x_expires_at x < now" by (auto simp: set)
  have "expire_stale_leases db now = expire_snapshots db now (map snapshot_of stale) [] []"
    by (simp add: expire_stale_leases_def list_stale_lease_snapshots_def stale_def)
  with expire_snapshots_ok [OF inv room sub(1) dist sub(2), of "[]" "[]"] show ?thesis
    unfolding del unfolding set by (simp only: append_Nil)
qed

section \<open>Completion\<close>

lemma finish_chain:
  assumes inv: "exec_inv db" and x: "x \<in> set (xleases db)" and room: "revision_headroom db"
    and guard: "lease_guard_holds g now x" and f: "\<And>r. r_id (f r) = r_id r"
  obtains db1 db2 db3 db4 db5 r2 where "consume_lease db (snapshot_of x) now g = (db1, True)"
    "release_run_quota_reservation db1 (x_run_id x) (x_work_order_id x) (x_worker_id x) = (db2, True)"
    "finish_active_run db2 (x_run_id x) f = (db3, True)"
    "update_orders db3 (\<lambda>w. o_id w = x_work_order_id x \<and> order_active (o_status w)) h = (db4, True)"
    "release_worker_capacity db4 (x_worker_id x) = (db5, True)"
    "find_run db5 (x_run_id x) = Some (f r2)"
proof -
  obtain r w v where trio: "lease_trio db x r w v" using lease_trio_exists [OF inv x] .
  then have r: "r \<in> set (runs db)" by (simp add: lease_trio_def)
  note free = headroom_release [OF room r]
  obtain db1 db2 db3 db4 db5 where
    1: "consume_lease db (snapshot_of x) now g = (db1, True)"
    and 2: "release_run_quota_reservation db1 (x_run_id x) (x_work_order_id x) (x_worker_id x) = (db2, True)"
    and 3: "finish_active_run db2 (x_run_id x) f = (db3, True)"
    and 4: "update_orders db3 (\<lambda>w. o_id w = x_work_order_id x \<and> order_active (o_status w)) h = (db4, True)"
    and 5: "release_worker_capacity db4 (x_worker_id x) = (db5, True)"
    using retire_chain [OF inv trio free guard, where f = f and h = h] .
  have "runs db1 = runs db" "orders db1 = orders db" "profiles db1 = profiles db" "workers db1 = workers db"
    using 1 by (auto simp: consume_lease_def Let_def)
  from release_outcome [OF inv trio free this] 2 have same: "same_rows db db2" by simp
  note d2 = same_rows_distinct [OF same exec_inv_keys [OF inv]]
  obtain r2 where r2: "r2 \<in> set (runs db2)" "r_id r2 = x_run_id x" "run_active (r_status r2)"
    using trio_guards(1) [OF inv trio] same_rows_guards(1) [OF same] unfolding affected_one_key [OF d2] by auto
  have "runs db5 = update_where (\<lambda>r. r_id r = x_run_id x \<and> run_active (r_status r)) f (runs db2)"
    using 3 4 5 by (auto simp: finish_active_run_def update_runs_def update_orders_def release_worker_capacity_def update_workers_def)
  moreover have "find (\<lambda>r. r_id r = x_run_id x) (runs db2) = Some r2" using find_key_unique [OF d2 r2(1)] r2(2) by simp
  ultimately have "find_run db5 (x_run_id x) = Some (f r2)"
    using f r2 by (simp add: find_run_def find_update_where)
  from that [OF 1 2 3 4 5 this] show ?thesis .
qed

lemma terminal_run_order: "is_terminal_run s \<Longrightarrow> \<exists>os. work_order_status_of_run s = Some os"
  by (cases s) auto

lemma finish_active_lease_ok:
  assumes inv: "exec_inv db" and x: "x \<in> set (xleases db)" and room: "revision_headroom db"
    and guard: "lease_guard_holds (if live then RequireLive else AnyLease) now x" and t: "is_terminal_run (xc_status c)"
    and v: "validate_completion_evidence db (snapshot_of x) c = Inr ()" "reuse_completion_values env db (snapshot_of x) c = Inr u"
  shows "\<exists>db' r. finish_active_lease env db now (snapshot_of x) c live own = Inr (db', r)"
proof -
  from terminal_run_order [OF t] obtain os where os: "work_order_status_of_run (xc_status c) = Some os" by blast
  let ?reason = "text_or (xc_terminal_reason c) (run_status_value (xc_status c))"
  have same: "r_id (finish_run c now ?reason u r) = r_id r" for r by (simp add: finish_run_def)
  obtain db1 db2 db3 db4 db5 r2 where
    "consume_lease db (snapshot_of x) now (if live then RequireLive else AnyLease) = (db1, True)"
    and "release_run_quota_reservation db1 (x_run_id x) (x_work_order_id x) (x_worker_id x) = (db2, True)"
    and "finish_active_run db2 (x_run_id x) (finish_run c now ?reason u) = (db3, True)"
    and "update_orders db3 (\<lambda>w. o_id w = x_work_order_id x \<and> order_active (o_status w)) (finish_order os now ?reason) = (db4, True)"
    and "release_worker_capacity db4 (x_worker_id x) = (db5, True)"
    and "find_run db5 (x_run_id x) = Some (finish_run c now ?reason u r2)"
    using finish_chain [OF inv x room guard same, where h = "finish_order os now ?reason"] .
  then have "finish_active_lease env db now (snapshot_of x) c live own = Inr (db5, finish_run c now ?reason u r2)"
    using v os
    by (simp add: finish_active_lease_def finish_active_work_order_def snapshot_simps get_run_def of_option_def Let_def)
  then show ?thesis by blast
qed

lemma finish_cases:
  assumes "finish_active_lease env db now s c live own = Inr (db', r)"
  obtains u os db1 db2 db3 db4 reason where
    "validate_completion_evidence db s c = Inr ()" "reuse_completion_values env db s c = Inr u"
    "work_order_status_of_run (xc_status c) = Some os"
    "consume_lease db s now (if live then RequireLive else AnyLease) = (db1, True)"
    "release_run_quota_reservation db1 (ls_run_id s) (ls_work_order_id s) (ls_worker_id s) = (db2, True)"
    "finish_active_run db2 (ls_run_id s) (finish_run c now reason u) = (db3, True)"
    "finish_active_work_order db3 (ls_work_order_id s) os now reason = (db4, True)"
    "release_worker_capacity db4 (ls_worker_id s) = (db', True)" "find_run db' (ls_run_id s) = Some r"
  using assms
  by (auto simp: finish_active_lease_def get_run_def result_simps Let_def case_prod_unfold prod_eq_iff
      split: option.split_asm if_split_asm)

lemma lease_of_run:
  assumes "keys_ok db"
  shows "get_lease_snapshot_for_run db k = Some s \<longleftrightarrow> (\<exists>x \<in> set (xleases db). x_run_id x = k \<and> s = snapshot_of x)"
proof
  assume "get_lease_snapshot_for_run db k = Some s"
  then show "\<exists>x \<in> set (xleases db). x_run_id x = k \<and> s = snapshot_of x"
    using find_key_Some [of x_run_id k "xleases db"] by (auto simp: get_lease_snapshot_for_run_def get_lease_for_run_def)
next
  assume "\<exists>x \<in> set (xleases db). x_run_id x = k \<and> s = snapshot_of x"
  then show "get_lease_snapshot_for_run db k = Some s"
    using find_in_table(5) [OF assms] by (auto simp: get_lease_snapshot_for_run_def)
qed

lemma completion_iff:
  assumes inv: "exec_inv db" and room: "revision_headroom db"
  shows "(\<exists>db' r. complete_run env db now k j c = Inr (db', r)) \<longleftrightarrow>
    is_terminal_run (xc_status c)
    \<and> (\<exists>x \<in> set (xleases db). x_run_id x = k \<and> x_worker_id x = j \<and> now \<le> x_expires_at x
         \<and> validate_completion_evidence db (snapshot_of x) c = Inr ()
         \<and> (\<exists>u. reuse_completion_values env db (snapshot_of x) c = Inr u))"
proof
  assume "\<exists>db' r. complete_run env db now k j c = Inr (db', r)"
  then obtain db' r s where t: "is_terminal_run (xc_status c)" and s: "get_lease_snapshot_for_run db k = Some s" "ls_worker_id s = j"
    and f: "finish_active_lease env db now s c True True = Inr (db', r)"
    by (auto simp: complete_run_def result_simps split: if_splits option.splits)
  from s(1) obtain x where x: "x \<in> set (xleases db)" "x_run_id x = k" "s = snapshot_of x"
    using lease_of_run [OF exec_inv_keys [OF inv]] by blast
  from f have "snd (consume_lease db s now RequireLive)" "validate_completion_evidence db s c = Inr ()"
    "\<exists>u. reuse_completion_values env db s c = Inr u"
    by (auto elim: finish_cases)
  with t x s(2) show "is_terminal_run (xc_status c)
    \<and> (\<exists>x \<in> set (xleases db). x_run_id x = k \<and> x_worker_id x = j \<and> now \<le> x_expires_at x
         \<and> validate_completion_evidence db (snapshot_of x) c = Inr ()
         \<and> (\<exists>u. reuse_completion_values env db (snapshot_of x) c = Inr u))"
    using consume_lease_outcome [OF exec_inv_keys [OF inv] x(1)] by (auto simp: snapshot_simps)
next
  assume "is_terminal_run (xc_status c)
    \<and> (\<exists>x \<in> set (xleases db). x_run_id x = k \<and> x_worker_id x = j \<and> now \<le> x_expires_at x
         \<and> validate_completion_evidence db (snapshot_of x) c = Inr ()
         \<and> (\<exists>u. reuse_completion_values env db (snapshot_of x) c = Inr u))"
  then obtain x u where t: "is_terminal_run (xc_status c)" and x: "x \<in> set (xleases db)" "x_run_id x = k" "x_worker_id x = j"
    and live: "now \<le> x_expires_at x" and v: "validate_completion_evidence db (snapshot_of x) c = Inr ()"
      "reuse_completion_values env db (snapshot_of x) c = Inr u" by blast
  have s: "get_lease_snapshot_for_run db k = Some (snapshot_of x)" using lease_of_run [OF exec_inv_keys [OF inv]] x by blast
  obtain r where "find_run db k = Some r" using lease_rows [OF inv x(1)] x(2) run_found [of k db] by force
  with t s x(3) finish_active_lease_ok [OF inv x(1) room _ t v, of True now True] live
  show "\<exists>db' r. complete_run env db now k j c = Inr (db', r)"
    by (auto simp: complete_run_def get_run_def of_option_def snapshot_simps)
qed

lemma release_keeps_ids:
  "release_run_quota_reservation db k i j = (db', ok) \<Longrightarrow> map r_id (runs db') = map r_id (runs db)"
  by (auto simp: release_run_quota_reservation_def move_reservation_def update_runs_def update_orders_def update_profiles_def Let_def
      map_update_where set_run_quota_def split: option.splits if_splits)

lemma finish_effect:
  assumes keys: "keys_ok db" and fin: "finish_active_lease env db now s c live own = Inr (db', r)"
  shows "r_id r = ls_run_id s \<and> r_status r = xc_status c \<and> r_finished_at r = Some now
    \<and> rp_evidence_metadata (r_report r) = xc_evidence c \<and> rp_artifact_metadata (r_report r) = xc_artifact_metadata c
    \<and> find_run db' (ls_run_id s) = Some r"
proof -
  obtain u os db1 db2 db3 db4 reason where
    1: "consume_lease db s now (if live then RequireLive else AnyLease) = (db1, True)"
    and 2: "release_run_quota_reservation db1 (ls_run_id s) (ls_work_order_id s) (ls_worker_id s) = (db2, True)"
    and 3: "finish_active_run db2 (ls_run_id s) (finish_run c now reason u) = (db3, True)"
    and 4: "finish_active_work_order db3 (ls_work_order_id s) os now reason = (db4, True)"
    and 5: "release_worker_capacity db4 (ls_worker_id s) = (db', True)"
    and r: "find_run db' (ls_run_id s) = Some r"
    using fin by (rule finish_cases)
  have "runs db1 = runs db" using 1 by (auto simp: consume_lease_def Let_def)
  then have dist: "distinct (map r_id (runs db2))" using keys release_keeps_ids [OF 2] by (simp add: keys_iff)
  have "runs db' = update_where (\<lambda>r. r_id r = ls_run_id s \<and> run_active (r_status r)) (finish_run c now reason u) (runs db2)"
    and one: "affected_one (\<lambda>r. r_id r = ls_run_id s \<and> run_active (r_status r)) (runs db2)"
    using 3 4 5 by (auto simp: finish_active_run_def finish_active_work_order_def update_runs_def update_orders_def
        release_worker_capacity_def update_workers_def)
  moreover have "r \<in> set (runs db')" "r_id r = ls_run_id s" using r find_key_Some [of r_id "ls_run_id s" "runs db'" r] by (auto simp: find_run_def)
  ultimately obtain r0 where "r0 \<in> set (runs db2)"
    "r = (if r_id r0 = ls_run_id s \<and> run_active (r_status r0) then finish_run c now reason u r0 else r0)"
    by (auto simp: set_update_where)
  moreover from this have "r_id r0 = ls_run_id s"
    using \<open>r_id r = ls_run_id s\<close> by (auto simp: finish_run_def split: if_splits)
  moreover from this \<open>r0 \<in> set (runs db2)\<close> have "run_active (r_status r0)"
    using guarded_by_key(2) [OF dist one] by blast
  ultimately show ?thesis using r by (simp add: finish_run_def)
qed

lemma completion_effect:
  assumes inv: "exec_inv db" and c: "complete_run env db now k j c = Inr (db', r)"
  shows "r_id r = k \<and> r_status r = xc_status c \<and> is_terminal_run (xc_status c) \<and> r_finished_at r = Some now
      \<and> rp_evidence_metadata (r_report r) = xc_evidence c \<and> rp_artifact_metadata (r_report r) = xc_artifact_metadata c
      \<and> find_run db' k = Some r"
    and "k \<notin> x_run_id ` set (xleases db')"
    and "is_terminal_run (xc_status c2) \<Longrightarrow> complete_run env2 db' now2 k j2 c2 = Inl (OwnershipConflictError ''execution_lease_not_owned'')"
proof -
  from c obtain s where t: "is_terminal_run (xc_status c)" and s: "get_lease_snapshot_for_run db k = Some s"
    and f: "finish_active_lease env db now s c True True = Inr (db', r)"
    by (auto simp: complete_run_def result_simps split: if_splits option.splits)
  have k: "ls_run_id s = k" using snapshot_for_run(2) [OF s] .
  show e: "r_id r = k \<and> r_status r = xc_status c \<and> is_terminal_run (xc_status c) \<and> r_finished_at r = Some now
      \<and> rp_evidence_metadata (r_report r) = xc_evidence c \<and> rp_artifact_metadata (r_report r) = xc_artifact_metadata c
      \<and> find_run db' k = Some r"
    using finish_effect [OF exec_inv_keys [OF inv] f] t k by simp
  have inv': "exec_inv db'" using complete_run_refines [OF inv c] refines_inv [OF _ inv] by blast
  have "r \<in> set (runs db')" using e find_run_entry(3) by blast
  moreover have "\<not> run_active (r_status r)" using e by (cases "xc_status c") (auto simp: run_active_def lifecycle_defs)
  ultimately show nl: "k \<notin> x_run_id ` set (xleases db')" using active_run_leased [OF inv'] e by blast
  show "complete_run env2 db' now2 k j2 c2 = Inl (OwnershipConflictError ''execution_lease_not_owned'')" if "is_terminal_run (xc_status c2)"
    using that e nl find_key_None [of x_run_id k "xleases db'"]
    by (simp add: complete_run_def get_run_def of_option_def get_lease_snapshot_for_run_def get_lease_for_run_def)
qed


section \<open>Transitions without a lease\<close>

lemma apply_transition_eq:
  assumes keys: "keys_ok db" and w: "w \<in> set (orders db)" and f: "\<And>v. o_id (f v) = o_id v"
  shows "apply_transition db (o_id w) sts f msg =
    (if o_status w \<in> set sts then Inr (db\<lparr>orders := update_where (\<lambda>v. v = w) f (orders db)\<rparr>, f w)
     else Inl (LifecycleConflictError msg))"
proof -
  have dist: "distinct (map o_id (orders db))" using keys by (simp add: keys_iff)
  have one: "v = w" if "v \<in> set (orders db)" "o_id v = o_id w" for v using key_unique [OF dist that(1) w that(2)] .
  have aff: "affected_one (\<lambda>v. o_id v = o_id w \<and> o_status v \<in> set sts) (orders db) \<longleftrightarrow> o_status w \<in> set sts"
    unfolding affected_one_key [OF dist] using one w by blast
  have upd: "update_where (\<lambda>v. o_id v = o_id w \<and> o_status v \<in> set sts) f (orders db) = update_where (\<lambda>v. v = w) f (orders db)"
    if "o_status w \<in> set sts"
    unfolding update_where_def by (rule map_cong) (use one that in auto)
  have "find (\<lambda>v. o_id v = o_id w) (update_where (\<lambda>v. v = w) f (orders db)) = Some (f w)"
    using find_key_unique [OF dist w] f by (simp add: find_update_where)
  then show ?thesis
    using aff upd by (simp add: apply_transition_def transition_unleased_work_order_def update_orders_def get_work_order_def find_order_def of_option_def)
qed

end
