(* ===== verification/Checkout_Facts.thy ===== *)
theory Checkout_Facts
  imports Execution_Progress
begin

text \<open>
  What a checkout has decided when it assigns an order: the worker is routable for it and, where the
  policy ranks, nobody routable ranks before. A claim takes only a queued order, so of two workers
  that read the same row one is refused; and the order at the head of the queue is served.
\<close>

lemma set_map_filter_iff: "set (List.map_filter f xs) = {y. \<exists>x \<in> set xs. f x = Some y}"
  by (force simp: List.map_filter_def)

text \<open>The candidates of a request are the routable workers, each with its profile.\<close>

lemma eligibilities_candidates:
  "set (candidates_of (routing_eligibilities env db rq now)) =
     {\<lparr>rc_worker = v, rc_profile = p\<rparr> | v p. (v, p) \<in> set (list_workers_with_profiles db)
        \<and> routable v p rq now (env_heartbeat_freshness env) (env_poll_freshness env)}"
  by (force simp: candidates_of_def routing_eligibilities_def set_map_filter_iff evaluate_candidate_iff split: if_splits)

lemma workers_with_profiles_member: "(v, p) \<in> set (list_workers_with_profiles db) \<Longrightarrow> v \<in> set (workers db) \<and> p = find_profile db (w_worker_id v)"
  by (auto simp: list_workers_with_profiles_def)

text \<open>No routable worker ranks before the chosen one, when the policy ranks.\<close>

definition best_route :: "service_env \<Rightarrow> exec_db \<Rightarrow> routing_request \<Rightarrow> time \<Rightarrow> worker_row \<Rightarrow> profile_row option \<Rightarrow> bool" where
  "best_route env db rq now v p \<longleftrightarrow> (\<forall>(v', p') \<in> set (list_workers_with_profiles db).
     routable v' p' rq now (env_heartbeat_freshness env) (env_poll_freshness env) \<longrightarrow>
     rank_cmp (rq_required_quota_units rq) \<lparr>rc_worker = v, rc_profile = p\<rparr> \<lparr>rc_worker = v', rc_profile = p'\<rparr> \<le> 0)"

lemma candidate_rankable:
  assumes inv: "exec_inv db" and c: "c \<in> set (candidates_of (routing_eligibilities env db rq now))"
    and policy: "rq_routing_policy rq = CHEAPEST_CAPABLE"
  shows "rankable c"
proof -
  from c obtain v p where v: "c = \<lparr>rc_worker = v, rc_profile = p\<rparr>" "(v, p) \<in> set (list_workers_with_profiles db)"
    "routable v p rq now (env_heartbeat_freshness env) (env_poll_freshness env)"
    unfolding eligibilities_candidates by blast
  have "0 \<le> w_active_run_count v" using worker_count [OF inv] workers_with_profiles_member [OF v(2)] by simp
  then show ?thesis using v(1,3) policy by (auto simp: rankable_def routable_def)
qed

lemma choose_route_sound:
  assumes inv: "exec_inv db"
    and e: "find (\<lambda>e. w_worker_id (re_worker e) = j) (routing_eligibilities env db (routing_request_of w m) now) = Some e"
    and ch: "choose_route j w (routing_eligibilities env db (routing_request_of w m) now) e = Inr (Claim profile n)"
  shows "\<exists>v p. (v, p) \<in> set (list_workers_with_profiles db) \<and> w_worker_id v = j
    \<and> routable v p (routing_request_of w m) now (env_heartbeat_freshness env) (env_poll_freshness env)
    \<and> (oq_routing_policy (o_request w) = CHEAPEST_CAPABLE \<longrightarrow> profile = p \<and> best_route env db (routing_request_of w m) now v p)"
proof (cases "oq_routing_policy (o_request w)")
  case FIRST_AVAILABLE
  with ch have cand: "re_candidate e \<noteq> None" by (auto simp: choose_route_def Let_def split: if_splits)
  from e obtain v p where v: "(v, p) \<in> set (list_workers_with_profiles db)" "w_worker_id (re_worker e) = j"
    "e = evaluate_routing_candidate v p (routing_request_of w m) now (env_heartbeat_freshness env) (env_poll_freshness env)"
    by (auto simp: find_Some_iff routing_eligibilities_def) (metis (no_types, lifting) case_prod_conv nth_mem surj_pair)
  with cand show ?thesis using FIRST_AVAILABLE by (auto simp: evaluate_candidate_iff split: if_splits)
next
  case CHEAPEST_CAPABLE
  let ?cs = "candidates_of (routing_eligibilities env db (routing_request_of w m) now)"
  let ?u = "oq_required_quota_units (o_request w)"
  have ok: "\<forall>c \<in> set ?cs. rankable c"
    using candidate_rankable [OF inv] CHEAPEST_CAPABLE by (simp add: routing_request_of_def Let_def)
  then have "rank_routing_candidates ?cs ?u = Some (sort_cmp (rank_cmp ?u) ?cs)"
    by (intro rank_routing_candidates_eq) (simp add: rankable_def)
  with ch CHEAPEST_CAPABLE obtain c rest where c: "sort_cmp (rank_cmp ?u) ?cs = c # rest" "w_worker_id (rc_worker c) = j" "rc_profile c = profile"
    by (auto simp: choose_route_def ranked_or_error_def of_option_def Let_def split: list.splits if_splits)
  have "mset ?cs = mset (c # rest)" using c(1) mset_sort_cmp by metis
  then have "c \<in> set ?cs" by (metis list.set_intros(1) set_mset_mset)
  then obtain v p where v: "c = \<lparr>rc_worker = v, rc_profile = p\<rparr>" "(v, p) \<in> set (list_workers_with_profiles db)"
    "routable v p (routing_request_of w m) now (env_heartbeat_freshness env) (env_poll_freshness env)"
    unfolding eligibilities_candidates by blast
  have "best_route env db (routing_request_of w m) now v p"
    unfolding best_route_def
  proof clarify
    fix v' p' assume "(v', p') \<in> set (list_workers_with_profiles db)"
      "routable v' p' (routing_request_of w m) now (env_heartbeat_freshness env) (env_poll_freshness env)"
    then have "\<lparr>rc_worker = v', rc_profile = p'\<rparr> \<in> set ?cs" unfolding eligibilities_candidates by blast
    from ranking.hd_sort_cmp_least [OF ok c(1) this]
    show "rank_cmp (rq_required_quota_units (routing_request_of w m)) \<lparr>rc_worker = v, rc_profile = p\<rparr> \<lparr>rc_worker = v', rc_profile = p'\<rparr> \<le> 0"
      by (simp add: v(1) routing_request_of_def Let_def)
  qed
  with v c show ?thesis by auto
qed

section \<open>Claims\<close>

lemma claimed_run:
  assumes "claim_routed_work env k x db j w profile n pin now = Inr (db', out)" and "ck_run_id out \<noteq> None"
  shows "ck_run_id out = Some k \<and> ck_work_order_id out = Some (o_id w) \<and> ck_reason out = None
    \<and> (\<exists>w0 \<in> set (orders db). o_id w0 = o_id w \<and> o_status w0 = WO_QUEUED)
    \<and> (\<exists>r \<in> set (runs db'). r_id r = k \<and> r_worker_id r = j \<and> r_work_order_id r = o_id w \<and> r_status r = RUN_ASSIGNED
         \<and> r_lease_expires_at r = now + seconds (env_lease_seconds env))
    \<and> (\<exists>y \<in> set (xleases db'). x_id y = x \<and> x_run_id y = k \<and> x_worker_id y = j \<and> x_work_order_id y = o_id w
         \<and> x_expires_at y = now + seconds (env_lease_seconds env))"
  using assms(1)
proof (cases rule: claim_routed_work_cases)
  case conflict
  with assms(2) show ?thesis by simp
next
  case (claimed db1 db2 c db3 w' run)
  have "o_id w' = o_id w" using claimed(4) find_key_Some [of o_id "o_id w" "orders db3" w'] by (auto simp: find_order_def)
  moreover have "orders db2 = orders db"
    using claimed(1,2) by (auto simp: reserve_worker_capacity_def update_workers_def claim_quota_def reserve_routing_quota_def
        update_profiles_def Let_def split: option.splits if_splits)
  moreover have "\<exists>w0 \<in> set (orders db2). o_id w0 = o_id w \<and> o_status w0 = WO_QUEUED"
  proof -
    have "rowcount (\<lambda>v. o_id v = o_id w \<and> o_status v = WO_QUEUED) (orders db2) \<noteq> 0"
      using claimed(3) by (auto simp: claim_queued_work_order_def update_orders_def affected_one_def)
    then show ?thesis by (auto simp: rowcount_zero)
  qed
  ultimately show ?thesis
    using claimed(5,6) by (auto simp: create_active_run_def new_run_row_def new_lease_row_def Let_def split: if_splits)
qed

lemma stale_claim_unassigned:
  assumes inv: "exec_inv db" and w0: "w0 \<in> set (orders db)" "o_id w0 = o_id w" "o_status w0 \<noteq> WO_QUEUED"
    and c: "claim_routed_work env k x db j w profile n pin now = Inr (db', out)"
  shows "db' = db \<and> ck_run_id out = None"
proof (rule ccontr)
  assume "\<not> (db' = db \<and> ck_run_id out = None)"
  then have "ck_run_id out \<noteq> None" using claim_unassigned(1) [OF c] by metis
  from claimed_run [OF c this] obtain w1 where "w1 \<in> set (orders db)" "o_id w1 = o_id w" "o_status w1 = WO_QUEUED" by blast
  moreover have "distinct (map o_id (orders db))" using exec_inv_keys [OF inv] by (simp add: keys_iff)
  ultimately show False using w0 key_unique by metis
qed

lemma claim_returns:
  assumes w: "w0 \<in> set (orders db)" "o_id w0 = o_id w"
  shows "\<exists>db' out. claim_routed_work env k x db j w profile n pin now = Inr (db', out)"
proof (cases "claim_routed_work env k x db j w profile n pin now")
  case (Inl e)
  then obtain db1 db2 c db3 where 1: "reserve_worker_capacity db j = (db1, True)"
    and 2: "claim_quota db1 j profile (oq_required_quota_units (o_request w)) = Some (db2, c)"
    and 3: "claim_queued_work_order db2 (o_id w) now (Some (order_route_of j c n pin now)) = (db3, True)"
    and none: "find_order db3 (o_id w) = None"
    by (auto simp: claim_routed_work_def split: prod.splits if_splits option.splits sum.splits)
  have "orders db2 = orders db"
    using 1 2 by (auto simp: reserve_worker_capacity_def update_workers_def claim_quota_def reserve_routing_quota_def
        update_profiles_def Let_def split: option.splits if_splits)
  then have "orders db3 = update_where (\<lambda>v. o_id v = o_id w \<and> o_status v = WO_QUEUED)
      (assign_order now (Some (order_route_of j c n pin now))) (orders db)"
    using 3 by (auto simp: claim_queued_work_order_def update_orders_def)
  then have "o_id ` set (orders db3) = o_id ` set (orders db)" by (simp add: image_update_where assign_order_def)
  moreover have "o_id w \<in> o_id ` set (orders db)" using imageI [OF w(1), of o_id] w(2) by simp
  ultimately show ?thesis using none find_key_None [of o_id "o_id w" "orders db3"] by (simp add: find_order_def)
next
  case (Inr p)
  then show ?thesis by (cases p) simp
qed

lemma first_available_claim:
  assumes inv: "exec_inv db" and w: "w \<in> set (orders db)" "o_status w = WO_QUEUED"
    and v: "v \<in> set (workers db)" "w_status v = W_ONLINE" "w_active_run_count v < w_max_concurrency v"
    and fresh: "k \<notin> r_id ` set (runs db)" "x \<notin> x_id ` set (xleases db)"
  shows "\<exists>db' out. claim_routed_work env k x db (w_worker_id v) w None n pin now = Inr (db', out) \<and> ck_run_id out = Some k"
proof -
  have keys: "distinct (map w_worker_id (workers db))" "distinct (map o_id (orders db))" using exec_inv_keys [OF inv] by (simp_all add: keys_iff)
  define db1 where "db1 = fst (reserve_worker_capacity db (w_worker_id v))"
  have 1: "reserve_worker_capacity db (w_worker_id v) = (db1, True)"
    using v affected_one_key [OF keys(1), of "w_worker_id v"] by (auto simp: db1_def reserve_worker_capacity_def update_workers_def)
  then have t1: "orders db1 = orders db" "runs db1 = runs db" "xleases db1 = xleases db"
    by (auto simp: reserve_worker_capacity_def update_workers_def)
  define c where "c = \<lparr>qc_revision = None, qc_cost = None, qc_units = 0, qc_state = QUOTA_NOT_REQUIRED\<rparr>"
  have 2: "claim_quota db1 (w_worker_id v) None u = Some (db1, c)" for u by (simp add: claim_quota_def c_def)
  let ?route = "Some (order_route_of (w_worker_id v) c n pin now)"
  define db3 where "db3 = fst (claim_queued_work_order db1 (o_id w) now ?route)"
  have 3: "claim_queued_work_order db1 (o_id w) now ?route = (db3, True)"
    using w affected_one_key [OF keys(2), of "o_id w"] by (auto simp: db3_def claim_queued_work_order_def update_orders_def t1)
  have t3: "runs db3 = runs db" "xleases db3 = xleases db" by (simp_all add: db3_def claim_queued_work_order_def update_orders_def t1)
  have w3: "find_order db3 (o_id w) = Some (assign_order now ?route w)"
    using find_key_unique [OF keys(2) w(1)] w(2)
    by (simp add: find_order_def db3_def claim_queued_work_order_def update_orders_def t1 find_update_where assign_order_def)
  have "ledger_attempts (ledger_of db)" using inv by (simp add: exec_inv_def ledger_inv_def)
  then have bound: "r_attempt_number r \<le> o_attempt_count w" if "r \<in> set (runs db)" "r_work_order_id r = o_id w" for r
    using that w(1) key_unique [OF keys(2)] by (fastforce simp: ledger_attempts_def)
  have free: "o_id w \<notin> x_work_order_id ` set (xleases db)" using active_order_leased [OF inv w(1)] w(2) by (simp add: order_active_def)
  have "k \<notin> x_run_id ` set (xleases db)" using lease_rows [OF inv] fresh(1) by force
  moreover have "\<not> (\<exists>r \<in> set (runs db). r_work_order_id r = o_id w \<and> r_attempt_number r = o_attempt_count w + 1)"
    using bound by force
  ultimately have "\<exists>db4 run. create_active_run db3 k x (assign_order now ?route w) (w_worker_id v) now e route = Inr (db4, run) \<and> r_id run = k" for e route
    using fresh free by (simp add: create_active_run_def t3 assign_order_def new_run_row_def Let_def)
  then obtain db4 run where "create_active_run db3 k x (assign_order now ?route w) (w_worker_id v) now (now + seconds (env_lease_seconds env))
      (Some (run_route_of (o_request w) c n pin now)) = Inr (db4, run)" "r_id run = k" by blast
  then have "claim_routed_work env k x db (w_worker_id v) w None n pin now = Inr (db4,
      \<lparr>ck_run_id = Some k, ck_work_order_id = Some (o_id (assign_order now ?route w)), ck_reason = None, ck_mismatch_reasons = []\<rparr>)"
    using 1 2 3 w3 by (simp add: claim_routed_work_def)
  then show ?thesis by simp
qed

lemma find_map: "find P (map f xs) = map_option f (find (\<lambda>x. P (f x)) xs)"
  by (induction xs) auto

lemma head_of_queue_served:
  assumes inv: "exec_inv db" and q: "list_queued_work_orders db = (w, m) # rest"
    and policy: "oq_routing_policy (o_request w) = FIRST_AVAILABLE"
    and v: "v \<in> set (workers db)" "routable v (find_profile db (w_worker_id v)) (routing_request_of w m) (clk 0)
        (env_heartbeat_freshness env) (env_poll_freshness env)"
    and fresh: "k \<notin> r_id ` set (runs db)" "x \<notin> x_id ` set (xleases db)"
  shows "\<exists>db' out. checkout_eligible_work env k x clk (w_worker_id v) db = Inr (db', out)
    \<and> ck_run_id out = Some k \<and> ck_work_order_id out = Some (o_id w)"
proof -
  have w: "w \<in> set (orders db)" "o_status w = WO_QUEUED" using queued_orders_members [of w m db] q by auto
  let ?es = "routing_eligibilities env db (routing_request_of w m) (clk 0)"
  let ?e = "evaluate_routing_candidate v (find_profile db (w_worker_id v)) (routing_request_of w m) (clk 0)
      (env_heartbeat_freshness env) (env_poll_freshness env)"
  have "distinct (map w_worker_id (workers db))" using exec_inv_keys [OF inv] by (simp add: keys_iff)
  then have "distinct (map w_worker_id (sort_key w_worker_id (workers db)))" by (metis distinct_map distinct_sort set_sort)
  from find_key_unique [OF this, of v] have f: "find (\<lambda>u. w_worker_id u = w_worker_id v) (sort_key w_worker_id (workers db)) = Some v"
    using v(1) by simp
  have e: "find (\<lambda>e. w_worker_id (re_worker e) = w_worker_id v) ?es = Some ?e"
    using f by (simp add: routing_eligibilities_def list_workers_with_profiles_def comp_def find_map)
  have "re_candidate ?e \<noteq> None" using v(2) by (simp add: evaluate_candidate_iff)
  then have ch: "choose_route (w_worker_id v) w ?es ?e = Inr (Claim None (length (candidates_of ?es)))"
    using policy by (simp add: choose_route_def Let_def)
  have on: "w_status v = W_ONLINE" "w_active_run_count v < w_max_concurrency v" using v(2) by (simp_all add: routable_def)
  obtain db' out where cl: "claim_routed_work env k x db (w_worker_id v) w None (length (candidates_of ?es))
      (oq_preferred_executor (o_request w) \<noteq> None) (clk 0) = Inr (db', out)" "ck_run_id out = Some k"
    using first_available_claim [OF inv w v(1) on fresh] by blast
  have "ck_work_order_id out = Some (o_id w)" "ck_reason out = None" using claimed_run [OF cl(1)] cl(2) by auto
  then show ?thesis
    using cl e ch q by (simp add: checkout_eligible_work_def Let_def)
qed

end
