(* ===== verification/Operation_Properties.thy ===== *)
theory Operation_Properties
  imports Execution_Samples Checkout_Facts
begin

text \<open>
  Properties of the single operations of the execution service on reachable tables: what each
  decides, what it changes and that it succeeds when it should.
\<close>

text \<open>
  C14. Heartbeats are decided by the lease alone: an unknown run is not found, a run without a lease
  of this worker is refused as not owned, a lease past its expiry as expired, and otherwise the
  heartbeat succeeds, marks the run running and renews exactly that lease. The three refusals
  and the success exclude each other, so no other failure is possible.
\<close>

theorem heartbeat_outcome:
  assumes "exec_reachable env db"
  shows "case heartbeat_run env db now k j of
      Inl e \<Rightarrow> e = (if k \<notin> r_id ` set (runs db) then ExecutionNotFoundError ''execution_run_not_found''
                    else if \<not> (\<exists>x \<in> set (xleases db). x_run_id x = k \<and> x_worker_id x = j)
                    then OwnershipConflictError ''execution_lease_not_owned''
                    else OwnershipConflictError ''execution_lease_expired'')
        \<and> \<not> (\<exists>x \<in> set (xleases db). x_run_id x = k \<and> x_worker_id x = j \<and> now \<le> x_expires_at x)
    | Inr (db', r) \<Rightarrow> r_status r = RUN_RUNNING \<and> r_lease_expires_at r = now + seconds (env_lease_seconds env)
        \<and> (\<exists>x \<in> set (xleases db). x_run_id x = k \<and> x_worker_id x = j \<and> now \<le> x_expires_at x
             \<and> xleases db' = update_where (\<lambda>y. y = x) (renewed now (now + seconds (env_lease_seconds env))) (xleases db))"
proof -
  note inv = exec_reachable_inv [OF assms] and keys = exec_inv_keys [OF exec_reachable_inv [OF assms]]
  note no = heartbeat_refused [OF keys, where k = k and env = env and now = now and j = j]
  have known: "k \<in> r_id ` set (runs db)" if "x \<in> set (xleases db)" "x_run_id x = k" for x
    using lease_rows [OF inv that(1)] that(2) by force
  have one: "y = x" if "x \<in> set (xleases db)" "x_run_id x = k" "y \<in> set (xleases db)" "x_run_id y = k" for x y
    using key_unique [of x_run_id "xleases db" y x] keys that by (simp add: keys_iff)
  consider (unknown) "k \<notin> r_id ` set (runs db)"
    | (foreign) "k \<in> r_id ` set (runs db)" "\<not> (\<exists>x \<in> set (xleases db). x_run_id x = k \<and> x_worker_id x = j)"
    | (stale) x where "x \<in> set (xleases db)" "x_run_id x = k" "x_worker_id x = j" "x_expires_at x < now"
    | (live) x where "x \<in> set (xleases db)" "x_run_id x = k" "x_worker_id x = j" "now \<le> x_expires_at x"
    by force
  then show ?thesis
  proof cases
    case unknown
    then show ?thesis using no(1) known by auto
  next
    case foreign
    then show ?thesis using no(2) by auto
  next
    case stale
    then have "heartbeat_run env db now k j = Inl (OwnershipConflictError ''execution_lease_expired'')"
      using no(3) [OF known [OF stale(1,2)] stale] by blast
    moreover have "k \<in> r_id ` set (runs db)" by (rule known [OF stale(1,2)])
    moreover have "\<not> (\<exists>y \<in> set (xleases db). x_run_id y = k \<and> x_worker_id y = j \<and> now \<le> x_expires_at y)"
      using one [OF stale(1,2)] stale(4) by fastforce
    moreover have "\<exists>y \<in> set (xleases db). x_run_id y = k \<and> x_worker_id y = j" using stale by blast
    ultimately show ?thesis by simp
  next
    case live
    then show ?thesis using heartbeat_ok [OF inv live(1,4), of env] by auto
  qed
qed

theorem heartbeat_outcome_witness:
  "(\<exists>db' r. heartbeat_run sample_env busy_db (seconds 4) 1 ''alpha'' = Inr (db', r) \<and> r_status r = RUN_RUNNING)
   \<and> heartbeat_run sample_env busy_db (seconds 4) 1 ''beta'' = Inl (OwnershipConflictError ''execution_lease_not_owned'')
   \<and> heartbeat_run sample_env busy_db (seconds 64) 1 ''alpha'' = Inl (OwnershipConflictError ''execution_lease_expired'')"
proof (intro conjI)
  have "\<not> isl (heartbeat_run sample_env busy_db (seconds 4) 1 ''alpha'')" by code_simp
  with heartbeat_outcome [OF sample_reachable(2), where now = "seconds 4" and k = 1 and j = "''alpha''"]
  show "\<exists>db' r. heartbeat_run sample_env busy_db (seconds 4) 1 ''alpha'' = Inr (db', r) \<and> r_status r = RUN_RUNNING"
    by (auto split: sum.splits)
  show "heartbeat_run sample_env busy_db (seconds 4) 1 ''beta'' = Inl (OwnershipConflictError ''execution_lease_not_owned'')" by code_simp
  show "heartbeat_run sample_env busy_db (seconds 64) 1 ''alpha'' = Inl (OwnershipConflictError ''execution_lease_expired'')" by code_simp
qed










text \<open>
  C19. The head of the queue is served: when the worker is routable for the first queued order and
  that order takes the first available worker, the checkout hands out that order, provided the keys
  the database assigns are new.
\<close>

theorem checkout_serves_head:
  assumes "exec_reachable env db" and "list_queued_work_orders db = (w, m) # rest"
    and "oq_routing_policy (o_request w) = FIRST_AVAILABLE"
    and "v \<in> set (workers db)" and "routable v (find_profile db (w_worker_id v)) (routing_request_of w m) (clk 0)
        (env_heartbeat_freshness env) (env_poll_freshness env)"
    and "k \<notin> r_id ` set (runs db)" and "x \<notin> x_id ` set (xleases db)"
  shows "\<exists>db' out. checkout_eligible_work env k x clk (w_worker_id v) db = Inr (db', out)
    \<and> ck_run_id out = Some k \<and> ck_work_order_id out = Some (o_id w)"
  by (rule head_of_queue_served [where env = env and clk = clk and w = w and m = m, OF exec_reachable_inv [OF assms(1)] assms(2-7)])

theorem checkout_serves_head_witness:
  "\<exists>db' out. checkout_eligible_work sample_env 2 2 (\<lambda>_. seconds 4) ''alpha'' busy_db = Inr (db', out)
     \<and> ck_run_id out = Some 2 \<and> ck_work_order_id out = Some 2"
proof -
  let ?w = "orders busy_db ! 1" and ?m = "hd (manifests busy_db)" and ?v = "hd (workers busy_db)"
  have q: "list_queued_work_orders busy_db = [(?w, ?m)]" by code_simp
  have p: "oq_routing_policy (o_request ?w) = FIRST_AVAILABLE" by code_simp
  have v: "?v \<in> set (workers busy_db)" by (simp add: busy_db_def)
  have "routing_reasons ?v (find_profile busy_db (w_worker_id ?v)) (routing_request_of ?w ?m) (seconds 4)
        (env_heartbeat_freshness sample_env) (env_poll_freshness sample_env) = []" by code_simp
  then have r: "routable ?v (find_profile busy_db (w_worker_id ?v)) (routing_request_of ?w ?m) (seconds 4)
        (env_heartbeat_freshness sample_env) (env_poll_freshness sample_env)" by (simp only: routing_reasons_empty)
  have f: "2 \<notin> r_id ` set (runs busy_db)" "2 \<notin> x_id ` set (xleases busy_db)" by code_simp+
  have "w_worker_id ?v = ''alpha''" "o_id ?w = 2" by code_simp+
  with checkout_serves_head [where env = sample_env and clk = "\<lambda>_. seconds 4" and w = ?w and m = ?m, OF sample_reachable(2) q p v r f] show ?thesis by simp
qed

text \<open>
  C7. Two workers that read the same queued order cannot both get it: once a claim has succeeded,
  a claim with the row as it was read before leaves the tables alone and reports no run, whichever
  worker makes it.
\<close>

theorem concurrent_order_claims_exclusive:
  assumes "exec_reachable env db" and "w \<in> set (orders db)"
    and "claim_routed_work env k x db j w p n pin now = Inr (db1, out1)" and "ck_run_id out1 \<noteq> None"
  shows "\<exists>out2. claim_routed_work env k2 x2 db1 j2 w p2 n2 pin2 now2 = Inr (db1, out2) \<and> ck_run_id out2 = None"
proof -
  note inv = exec_reachable_inv [OF assms(1)]
  have inv1: "exec_inv db1" by (rule refines_inv [OF claim_routed_work_refines [OF inv assms(2,3)] inv])
  from claimed_run [OF assms(3,4)] obtain y where y: "y \<in> set (xleases db1)" "x_work_order_id y = o_id w" by blast
  from lease_rows [OF inv1 y(1)] obtain w1 where w1: "w1 \<in> set (orders db1)" "o_id w1 = o_id w" "order_active (o_status w1)"
    using y(2) by auto
  then have nq: "o_status w1 \<noteq> WO_QUEUED" by (auto simp: order_active_def)
  from claim_returns [OF w1(1,2)] obtain db2 out2 where
    c: "claim_routed_work env k2 x2 db1 j2 w p2 n2 pin2 now2 = Inr (db2, out2)" by blast
  from stale_claim_unassigned [OF inv1 w1(1,2) nq c] c show ?thesis by blast
qed

theorem concurrent_order_claims_exclusive_witness:
  "\<exists>db1 out1 out2. claim_routed_work sample_env 2 2 busy_db ''alpha'' (orders busy_db ! 1) None 1 False (seconds 4) = Inr (db1, out1)
     \<and> ck_run_id out1 = Some 2
     \<and> claim_routed_work sample_env 3 3 db1 ''alpha'' (orders busy_db ! 1) None 1 False (seconds 4) = Inr (db1, out2) \<and> ck_run_id out2 = None"
proof -
  let ?w = "orders busy_db ! 1"
  let ?c = "claim_routed_work sample_env 2 2 busy_db ''alpha'' ?w None 1 False (seconds 4)"
  have "(case ?c of Inl _ \<Rightarrow> None | Inr (_, out) \<Rightarrow> ck_run_id out) = Some 2" by code_simp
  then obtain db1 out1 where c: "?c = Inr (db1, out1)" "ck_run_id out1 = Some 2" by (auto split: sum.splits)
  have w: "?w \<in> set (orders busy_db)" by (simp add: busy_db_def)
  have "ck_run_id out1 \<noteq> None" using c(2) by simp
  from concurrent_order_claims_exclusive [OF sample_reachable(2) w c(1) this] c show ?thesis by blast
qed

text \<open>
  Approval happens exactly for a pending order whose policy is explicit approval, whose
  repository and manifest are still trusted and allowed together, whose manifest digest is the
  trusted one, and which may not write. It then only sets the status and the two timestamps of
  that order.
\<close>

theorem approval_exact:
  assumes "exec_reachable env db" and "w \<in> set (orders db)"
  shows "approve_work_order env db now (o_id w) queue =
    (if o_status w \<noteq> WO_PENDING_APPROVAL then Inl (LifecycleConflictError ''work_order_not_pending_approval'')
     else case ensure_approvable env w of
       Inl e \<Rightarrow> Inl e
     | Inr _ \<Rightarrow> Inr (db\<lparr>orders := update_where (\<lambda>v. v = w) (approve_values (if queue then WO_QUEUED else WO_APPROVED) now) (orders db)\<rparr>,
                     approve_values (if queue then WO_QUEUED else WO_APPROVED) now w))
    \<and> (ensure_approvable env w = Inr () \<longleftrightarrow>
        oq_approval_policy (o_request w) = APPROVAL_EXPLICIT \<and> \<not> oq_repository_write_allowed (o_request w)
        \<and> (\<exists>d. get_trusted_manifest env (oq_manifest_name (o_request w)) (oq_manifest_version (o_request w)) = Some d
             \<and> tm_digest d = oq_manifest_digest (o_request w))
        \<and> (\<exists>p. get_trusted_repository env (oq_repository_full_name (o_request w)) = Some p
             \<and> (oq_manifest_name (o_request w), oq_manifest_version (o_request w)) \<in> set (tp_manifests p)))"
proof
  note keys = exec_inv_keys [OF exec_reachable_inv [OF assms(1)]]
  note found = find_in_table(2) [OF keys assms(2)]
  let ?t = "if queue then WO_QUEUED else WO_APPROVED"
  show "approve_work_order env db now (o_id w) queue =
    (if o_status w \<noteq> WO_PENDING_APPROVAL then Inl (LifecycleConflictError ''work_order_not_pending_approval'')
     else case ensure_approvable env w of
       Inl e \<Rightarrow> Inl e
     | Inr _ \<Rightarrow> Inr (db\<lparr>orders := update_where (\<lambda>v. v = w) (approve_values ?t now) (orders db)\<rparr>, approve_values ?t now w))"
    using found apply_transition_eq [OF keys assms(2), of "approve_values ?t now"]
    by (auto simp: approve_work_order_def get_work_order_def of_option_def approve_values_def split: sum.splits)
  show "ensure_approvable env w = Inr () \<longleftrightarrow>
        oq_approval_policy (o_request w) = APPROVAL_EXPLICIT \<and> \<not> oq_repository_write_allowed (o_request w)
        \<and> (\<exists>d. get_trusted_manifest env (oq_manifest_name (o_request w)) (oq_manifest_version (o_request w)) = Some d
             \<and> tm_digest d = oq_manifest_digest (o_request w))
        \<and> (\<exists>p. get_trusted_repository env (oq_repository_full_name (o_request w)) = Some p
             \<and> (oq_manifest_name (o_request w), oq_manifest_version (o_request w)) \<in> set (tp_manifests p))"
  proof -
    have "get_trusted_repository env n = Some p \<Longrightarrow> n \<in> tp_full_name ` set (env_repositories env)" for n p
      by (auto simp: get_trusted_repository_def find_Some_iff)
    then show ?thesis
      by (auto simp: ensure_approvable_def repository_allows_manifest_def Let_def split: option.splits if_splits)
  qed
qed

theorem approval_exact_witness:
  "\<exists>db' w'. approve_work_order sample_env ready_db (seconds 3) 3 True = Inr (db', w') \<and> o_status w' = WO_QUEUED \<and> o_approved_at w' = Some (seconds 3)"
proof -
  let ?w = "orders ready_db ! 2"
  have w: "?w \<in> set (orders ready_db)" by (simp add: ready_db_def)
  have "o_id ?w = 3" "o_status ?w = WO_PENDING_APPROVAL" "ensure_approvable sample_env ?w = Inr ()" by code_simp+
  with approval_exact [OF sample_reachable(1) w, of "seconds 3" True] show ?thesis by (simp add: approve_values_def)
qed



text \<open>
  A quota reset is idempotent: it leaves the profile with the requested remaining quota and
  reset time one revision after the expected one, and repeating the same request answers with the
  same profile and changes nothing.
\<close>

theorem quota_reset_idempotent:
  assumes "exec_reachable env db" and "reset_routing_quota db j n q d = Inr (db', p)"
  shows "q_remaining p = q \<and> q_revision p = n + 1 \<and> q_reset_at p = Some (utc_naive d) \<and> find_profile db' j = Some p
    \<and> reset_routing_quota db' j n q d = Inr (db', p)"
proof -
  have dist: "distinct (map q_worker_id (profiles db))" using exec_inv_keys [OF exec_reachable_inv [OF assms(1)]] by (simp add: keys_iff)
  have after: "q_remaining p = q \<and> q_revision p = n + 1 \<and> q_reset_at p = Some (utc_naive d) \<and> find_profile db' j = Some p"
  proof (cases "\<exists>p0. find_profile db j = Some p0 \<and> q_reset_at p0 = Some (utc_naive d)")
    case True
    with assms(2) show ?thesis
      by (auto simp: reset_routing_quota_def get_routing_profile_def result_simps Let_def split: if_splits)
  next
    case False
    with assms(2) have "repo_reset_routing_quota db j n q (utc_naive d) = (db', True)" and p: "find_profile db' j = Some p"
      by (auto simp: reset_routing_quota_def get_routing_profile_def result_simps Let_def split: if_splits option.splits prod.splits)
    then have one: "affected_one (\<lambda>p. q_worker_id p = j \<and> q_revision p = n \<and> q_revision p < MAX_ROUTING_REVISION \<and> q_capacity p \<ge> q) (profiles db)"
      and ps: "profiles db' = update_where (\<lambda>p. q_worker_id p = j \<and> q_revision p = n \<and> q_revision p < MAX_ROUTING_REVISION \<and> q_capacity p \<ge> q)
         (\<lambda>p. p\<lparr>q_remaining := q, q_reset_at := Some (utc_naive d), q_revision := n + 1\<rparr>) (profiles db)"
      by (auto simp: repo_reset_routing_quota_def update_profiles_def)
    from guarded_by_key(1) [OF dist one] obtain p0 where p0: "p0 \<in> set (profiles db)" "q_worker_id p0 = j" "q_revision p0 = n"
      "q_revision p0 < MAX_ROUTING_REVISION" "q_capacity p0 \<ge> q" by blast
    have "find (\<lambda>p. q_worker_id p = j) (profiles db) = Some p0" using find_key_unique [OF dist p0(1)] p0(2) by simp
    then show ?thesis using p p0 by (auto simp: find_profile_def ps find_update_where)
  qed
  have "valid_routing_revision n" "routing_int_ok q" "is_aware d"
    using assms(2) by (auto simp: reset_routing_quota_def split: if_splits)
  with after show ?thesis by (simp add: reset_routing_quota_def get_routing_profile_def of_option_def)
qed

theorem quota_reset_idempotent_witness:
  "\<exists>db' p. reset_routing_quota ready_db ''alpha'' 1 4 (Aware 9 0) = Inr (db', p)
     \<and> q_remaining p = 4 \<and> q_revision p = 2 \<and> reset_routing_quota db' ''alpha'' 1 4 (Aware 9 0) = Inr (db', p)"
proof -
  let ?c = "reset_routing_quota ready_db ''alpha'' 1 4 (Aware 9 0)"
  have "\<not> isl ?c" by code_simp
  then obtain db' p where c: "?c = Inr (db', p)" by (cases ?c) auto
  with quota_reset_idempotent [OF sample_reachable(1) c] show ?thesis by auto
qed

text \<open>
  C18. A reuse candidate that is offered is sound: it comes from another run of the same worker that
  succeeded on its own, for an order with the same repository, commit, manifest and policy; its
  identity is the one asked for, its evidence is valid and describes that run, and it has not passed
  its retention.
\<close>

theorem reuse_candidate_sound:
  assumes "resolve_reuse_candidate env db now k j identity h = Inr (db', res)" and "rs_candidate res = Some c"
  shows "\<exists>run \<in> set (runs db). \<exists>source \<in> set (orders db). \<exists>x \<in> set (xleases db). \<exists>w \<in> set (orders db). \<exists>e.
      x_run_id x = k \<and> x_worker_id x = j \<and> now \<le> x_expires_at x \<and> o_id w = x_work_order_id x
      \<and> oq_reuse_policy (o_request w) \<noteq> REUSE_NEVER
      \<and> r_id run = cand_source_run_id c \<and> r_id run \<noteq> k \<and> r_worker_id run = j \<and> r_status run = RUN_SUCCEEDED
      \<and> ru_decision (r_reuse run) = RD_FRESH \<and> o_id source = r_work_order_id run \<and> o_status source = WO_SUCCEEDED
      \<and> same_target (o_request source) (o_request w)
      \<and> cand_reuse_identity c = identity \<and> cand_reuse_identity_hash c = env_identity_hash env identity
      \<and> now < cand_retention_expires_at c
      \<and> rp_evidence_metadata (r_report run) = Some e \<and> valid_evidence env e
      \<and> ev_fingerprint e = cand_expected_source_evidence_fingerprint c \<and> ev_artifacts (ev_draft e) = cand_artifacts c"
proof -
  from assms obtain s w where s: "live_owned_lease db now k j = Some s" and w: "get_work_order db (ls_work_order_id s) = Inr w"
    and pol: "oq_reuse_policy (o_request w) \<noteq> REUSE_NEVER"
    and first: "first_candidate env db identity now (list_exact_reuse_candidates db w j h k) = Some c"
    by (auto simp: resolve_reuse_candidate_def result_simps Let_def split: if_splits option.splits prod.splits)
  from s obtain x where x: "x \<in> set (xleases db)" "x_run_id x = k" "x_worker_id x = j" "now \<le> x_expires_at x" "s = snapshot_of x"
    using find_key_Some [of x_run_id k "xleases db"]
    by (auto simp: live_owned_lease_def get_lease_snapshot_for_run_def get_lease_for_run_def split: option.splits if_splits)
  have wo: "w \<in> set (orders db)" "o_id w = x_work_order_id x"
    using w x(5) find_key_Some [of o_id "ls_work_order_id s" "orders db" w]
    by (auto simp: get_work_order_def find_order_def result_simps snapshot_of_def)
  from first_candidate_Some [OF first] obtain run source where m: "(run, source) \<in> set (list_exact_reuse_candidates db w j h k)"
    and v: "validated_reuse_candidate env db run source identity now = Some c" by blast
  note facts = validated_candidate_facts [OF v] and mem = exact_candidate_members [OF m]
  from facts(11) obtain e where e: "rp_evidence_metadata (r_report run) = Some e" "valid_evidence env e"
    "ev_fingerprint e = cand_expected_source_evidence_fingerprint c" "ev_artifacts (ev_draft e) = cand_artifacts c" by blast
  show ?thesis
    by (rule bexI [OF _ mem(1)], rule bexI [OF _ mem(2)], rule bexI [OF _ x(1)], rule bexI [OF _ wo(1)], rule exI [of _ e])
      (use x wo pol facts mem e in simp)
qed

text \<open>Tables in which an earlier run of the worker can be offered for reuse.\<close>

definition reuse_db :: exec_db where
  "reuse_db =
     (let w = hd (orders busy_db); r = hd (runs busy_db)
      in busy_db\<lparr>orders := [w\<lparr>o_request := (o_request w)\<lparr>oq_reuse_policy := REUSE_ALLOW_EXACT\<rparr>\<rparr>,
                            w\<lparr>o_id := 9, o_status := WO_SUCCEEDED, o_finished_at := Some 5\<rparr>],
        runs := [r, r\<lparr>r_id := 9, r_work_order_id := 9, r_status := RUN_SUCCEEDED, r_finished_at := Some 5,
          r_report := \<lparr>rp_result_summary = None, rp_terminal_reason = None, rp_cleanup_status = None,
            rp_artifact_metadata = [], rp_evidence_metadata = Some (sample_evidence 9 9)\<rparr>,
          r_reuse := \<lparr>ru_identity = Some sample_identity, ru_identity_hash = Some ''i'', ru_reused_from_run_id = None,
            ru_source_evidence_fingerprint = None, ru_decision = RD_FRESH, ru_reason = Some ''fresh'',
            ru_candidate = None, ru_retention_expires_at = Some (Naive (seconds 100))\<rparr>\<rparr>]\<rparr>)"

theorem reuse_candidate_sound_witness:
  "\<exists>db' res c. resolve_reuse_candidate sample_env reuse_db (seconds 4) 1 ''alpha'' sample_identity ''i'' = Inr (db', res)
     \<and> rs_candidate res = Some c \<and> cand_source_run_id c = 9 \<and> seconds 4 < cand_retention_expires_at c"
proof -
  let ?c = "resolve_reuse_candidate sample_env reuse_db (seconds 4) 1 ''alpha'' sample_identity ''i''"
  have "(case ?c of Inl _ \<Rightarrow> None | Inr (_, res) \<Rightarrow> map_option cand_source_run_id (rs_candidate res)) = Some 9" by code_simp
  then obtain db' res c where c: "?c = Inr (db', res)" "rs_candidate res = Some c" "cand_source_run_id c = 9"
    by (auto split: sum.splits)
  from reuse_candidate_sound [OF c(1,2)] c show ?thesis by blast
qed

text \<open>
  Evidence is bound to what it reports on: a completion that carries evidence is accepted only
  if the evidence names this run, its order and its worker, the repository, commit and manifest the
  order was created with, the reported status and the reported artifacts.
\<close>

theorem completion_evidence_bound:
  assumes "exec_reachable env db" and "complete_run env db now k j c = Inr (db', r)" and "xc_evidence c = Some e"
  shows "\<exists>w \<in> set (orders db). ev_run_id (ev_subject (ev_draft e)) = k \<and> ev_worker_id (ev_subject (ev_draft e)) = j
    \<and> ev_work_order_id (ev_subject (ev_draft e)) = o_id w \<and> o_id w = r_work_order_id r
    \<and> ev_repository_full_name (ev_subject (ev_draft e)) = oq_repository_full_name (o_request w)
    \<and> ev_tested_sha (ev_subject (ev_draft e)) = oq_commit_sha (o_request w)
    \<and> ev_manifest_name (ev_subject (ev_draft e)) = oq_manifest_name (o_request w)
    \<and> ev_manifest_version (ev_subject (ev_draft e)) = oq_manifest_version (o_request w)
    \<and> ev_manifest_digest (ev_subject (ev_draft e)) = oq_manifest_digest (o_request w)
    \<and> ev_terminal_status (ev_draft e) = run_status_value (r_status r)
    \<and> ev_artifacts (ev_draft e) = rp_artifact_metadata (r_report r)"
proof -
  note inv = exec_reachable_inv [OF assms(1)]
  note eff = completion_effect(1) [OF inv assms(2)]
  from assms(2) obtain s where s: "get_lease_snapshot_for_run db k = Some s" "ls_worker_id s = j"
    and f: "finish_active_lease env db now s c True True = Inr (db', r)"
    by (auto simp: complete_run_def result_simps split: if_splits option.splits)
  then obtain x where x: "x \<in> set (xleases db)" "x_run_id x = k" "s = snapshot_of x"
    using lease_of_run [OF exec_inv_keys [OF inv]] by blast
  from f have v: "validate_completion_evidence db s c = Inr ()" by (rule finish_cases)
  from v assms(3) obtain w where w: "find_order db (ls_work_order_id s) = Some w"
    by (auto simp: validate_completion_evidence_def get_work_order_def result_simps)
  then have wo: "w \<in> set (orders db)" "o_id w = ls_work_order_id s"
    using find_key_Some [of o_id "ls_work_order_id s" "orders db" w] by (auto simp: find_order_def)
  from lease_rows [OF inv x(1)] obtain r0 where "r0 \<in> set (runs db)" "r_id r0 = k" "r_work_order_id r0 = ls_work_order_id s"
    using x(2,3) by (auto simp: snapshot_of_def)
  with handle_follows(2) [OF inv, of env "\<lparr>tk_now = now, tk_now2 = now, tk_clock = (\<lambda>_. now), tk_manifest_ids = (\<lambda>_. 0),
      tk_manifest_id = 0, tk_order_id = 0, tk_run_id = 0, tk_lease_id = 0\<rparr>" "CompleteRun k j c"]
  obtain r' where r': "r' \<in> set (runs db')" "r_id r' = k" "r_work_order_id r' = ls_work_order_id s"
    using assms(2) by (auto simp: http_complete_run_def respond_def run_follows_def)
  have "distinct (map r_id (runs db'))"
    using exec_inv_keys [OF refines_inv [OF _ inv]] complete_run_refines [OF inv assms(2)] by (auto simp: keys_iff)
  moreover have "r \<in> set (runs db')" using eff find_run_entry(3) by blast
  ultimately have "r_work_order_id r = ls_work_order_id s" using r' eff key_unique by metis
  then show ?thesis
    using v assms(3) w wo eff s(2) x(2,3)
    by (intro bexI [OF _ wo(1)]) (auto simp: validate_completion_evidence_def get_work_order_def of_option_def Let_def snapshot_simps split: if_splits)
qed

theorem completion_evidence_bound_witness:
  "\<exists>db' r e. complete_run sample_env busy_db (seconds 4) 1 ''alpha'' sample_completion = Inr (db', r)
     \<and> xc_evidence sample_completion = Some e \<and> ev_tested_sha (ev_subject (ev_draft e)) = oq_commit_sha (o_request (hd (orders busy_db)))
     \<and> ev_terminal_status (ev_draft e) = run_status_value (r_status r)"
proof -
  let ?c = "complete_run sample_env busy_db (seconds 4) 1 ''alpha'' sample_completion"
  have "\<not> isl ?c" by code_simp
  then obtain db' r where c: "?c = Inr (db', r)" by (cases ?c) auto
  obtain e where e: "xc_evidence sample_completion = Some e" by (simp add: sample_completion_def)
  have "map_option (\<lambda>e. ev_tested_sha (ev_subject (ev_draft e))) (xc_evidence sample_completion) = Some (oq_commit_sha (o_request (hd (orders busy_db))))"
    by code_simp
  with completion_evidence_bound [OF sample_reachable(2) c e] c e show ?thesis by auto
qed

end
