(* ===== verification/Worker_Isolation.thy ===== *)
theory Worker_Isolation
  imports Execution_Samples Checkout_Facts
begin

text \<open>
  The routes of a worker act on what belongs to the worker: for each operation behind them, the
  rows of the other workers are the same afterwards.
\<close>

section \<open>What belongs to the other workers\<close>

definition others :: "string \<Rightarrow> exec_db \<Rightarrow> run_row list \<times> exec_lease_row list \<times> worker_row list \<times> profile_row list" where
  "others p db = (filter (\<lambda>r. r_worker_id r \<noteq> p) (runs db), filter (\<lambda>x. x_worker_id x \<noteq> p) (xleases db),
     filter (\<lambda>v. w_worker_id v \<noteq> p) (workers db), filter (\<lambda>q. q_worker_id q \<noteq> p) (profiles db))"

text \<open>Whoever holds the run \<open>k\<close>, it is the worker \<open>p\<close>.\<close>

definition held_by :: "string \<Rightarrow> int \<Rightarrow> exec_db \<Rightarrow> bool" where
  "held_by p k db \<longleftrightarrow> (\<forall>r \<in> set (runs db). r_id r = k \<longrightarrow> r_worker_id r = p)"

definition isolated :: "string \<Rightarrow> int \<Rightarrow> exec_db \<Rightarrow> exec_db \<Rightarrow> bool" where
  "isolated p k db db' \<longleftrightarrow> others p db' = others p db \<and> (held_by p k db \<longrightarrow> held_by p k db')"

lemma isolated_refl: "isolated p k db db"
  and isolated_trans: "isolated p k db db' \<Longrightarrow> isolated p k db' db'' \<Longrightarrow> isolated p k db db''"
  by (simp_all add: isolated_def)

lemma filter_update_other:
  "(\<And>r. r \<in> set rows \<Longrightarrow> P r \<Longrightarrow> \<not> Q r \<and> \<not> Q (f r)) \<Longrightarrow> filter Q (update_where P f rows) = filter Q rows"
  by (induction rows) auto

lemma isolated_runs:
  assumes "held_by p k db" and "\<And>r. P r \<Longrightarrow> r_id r = k" and "\<And>r. r_id (f r) = r_id r \<and> r_worker_id (f r) = r_worker_id r"
  shows "isolated p k db (fst (update_runs db P f))"
proof -
  have "filter (\<lambda>r. r_worker_id r \<noteq> p) (update_where P f (runs db)) = filter (\<lambda>r. r_worker_id r \<noteq> p) (runs db)"
    by (rule filter_update_other) (use assms in \<open>auto simp: held_by_def\<close>)
  then show ?thesis using assms by (auto simp: isolated_def others_def held_by_def update_runs_def set_update_where)
qed

lemma isolated_orders: "isolated p k db (fst (update_orders db P f))"
  by (simp add: isolated_def others_def held_by_def update_orders_def)

lemma isolated_workers:
  assumes "\<And>v. P v \<Longrightarrow> w_worker_id v = p" and "\<And>v. w_worker_id (f v) = w_worker_id v"
  shows "isolated p k db (fst (update_workers db P f))"
proof -
  have "filter (\<lambda>v. w_worker_id v \<noteq> p) (update_where P f (workers db)) = filter (\<lambda>v. w_worker_id v \<noteq> p) (workers db)"
    by (rule filter_update_other) (use assms in auto)
  then show ?thesis by (simp add: isolated_def others_def held_by_def update_workers_def)
qed

lemma isolated_profiles:
  assumes "\<And>q. P q \<Longrightarrow> q_worker_id q = p" and "\<And>q. q_worker_id (f q) = q_worker_id q"
  shows "isolated p k db (fst (update_profiles db P f))"
proof -
  have "filter (\<lambda>q. q_worker_id q \<noteq> p) (update_where P f (profiles db)) = filter (\<lambda>q. q_worker_id q \<noteq> p) (profiles db)"
    by (rule filter_update_other) (use assms in auto)
  then show ?thesis by (simp add: isolated_def others_def held_by_def update_profiles_def)
qed

lemma isolated_renew: "isolated p k db (fst (renew_owned_live_lease db k' p now e))"
proof -
  have "filter (\<lambda>x. x_worker_id x \<noteq> p) (update_where (\<lambda>x. x_run_id x = k' \<and> x_worker_id x = p \<and> now \<le> x_expires_at x)
      (\<lambda>x. x\<lparr>x_last_heartbeat_at := now, x_expires_at := e\<rparr>) (xleases db)) = filter (\<lambda>x. x_worker_id x \<noteq> p) (xleases db)"
    by (rule filter_update_other) auto
  then show ?thesis by (simp add: isolated_def others_def held_by_def renew_owned_live_lease_def Let_def)
qed

lemma isolated_consume: "ls_worker_id s = p \<Longrightarrow> isolated p k db (fst (consume_lease db s now g))"
proof -
  assume s: "ls_worker_id s = p"
  have "filter (\<lambda>x. x_worker_id x \<noteq> p) (delete_where (\<lambda>x. snapshot_of x = s \<and> lease_guard_holds g now x) (xleases db))
      = filter (\<lambda>x. x_worker_id x \<noteq> p) (xleases db)"
    unfolding delete_where_def filter_filter by (rule filter_cong) (use s in \<open>auto simp: snapshot_of_def\<close>)
  then show ?thesis by (simp add: isolated_def others_def held_by_def consume_lease_def Let_def)
qed

lemma isolated_move: "held_by p k db \<Longrightarrow> isolated p k db (fst (move_reservation db k i s))"
  unfolding move_reservation_def Let_def case_prod_unfold fst_conv
  by (rule isolated_trans [OF isolated_runs isolated_orders]) (auto simp: set_run_quota_def)

lemma isolated_consume_quota: "held_by p k db \<Longrightarrow> isolated p k db (fst (consume_run_quota_reservation db k i))"
  by (auto simp: consume_run_quota_reservation_def isolated_refl isolated_move split: option.splits)

lemma isolated_release_quota:
  assumes "held_by p k db"
  shows "isolated p k db (fst (release_run_quota_reservation db k i p))"
proof -
  have ps: "isolated p k db (fst (update_profiles db (\<lambda>q. q_worker_id q = p \<and> q_revision q < MAX_ROUTING_REVISION
      \<and> q_remaining q \<le> q_capacity q - u) (return_quota u)))" for u
    by (rule isolated_profiles) (auto simp: return_quota_def)
  then have "held_by p k (fst (update_profiles db (\<lambda>q. q_worker_id q = p \<and> q_revision q < MAX_ROUTING_REVISION
      \<and> q_remaining q \<le> q_capacity q - u) (return_quota u)))" for u using assms by (simp add: isolated_def)
  from isolated_trans [OF ps isolated_move [OF this]] show ?thesis
    using ps assms by (auto simp: release_run_quota_reservation_def isolated_refl isolated_move Let_def case_prod_unfold split: option.splits)
qed


lemma isolatedD: "isolated p k db db' \<Longrightarrow> held_by p k db \<Longrightarrow> held_by p k db'"
  by (simp add: isolated_def)

lemma isolated_heartbeat_run:
  assumes held: "held_by p k db" and hb: "heartbeat_run env db now k p = Inr (db', r)"
  shows "isolated p k db db'"
proof -
  from hb obtain s db1 db2 db3 where "get_lease_snapshot_for_run db k = Some s" and 1: "renew_owned_live_lease db k p now (now + seconds (env_lease_seconds env)) = (db1, True)"
    and 2: "consume_run_quota_reservation db1 k (ls_work_order_id s) = (db2, True)"
    and 3: "mark_active_run_running db2 k now (now + seconds (env_lease_seconds env)) = (db3, True)"
    and 4: "mark_active_work_order_running db3 (ls_work_order_id s) now = (db', True)"
    by (auto simp: heartbeat_run_def result_simps Let_def split: option.splits if_splits prod.splits)
  have i1: "isolated p k db db1" using isolated_renew [of p k db k now "now + seconds (env_lease_seconds env)"] 1 by simp
  note h1 = isolatedD [OF i1 held]
  have i2: "isolated p k db1 db2" using isolated_consume_quota [OF h1, of "ls_work_order_id s"] 2 by simp
  note h2 = isolatedD [OF i2 h1]
  have i3: "isolated p k db2 db3"
    using isolated_runs [OF h2, of "\<lambda>r. r_id r = k \<and> run_active (r_status r)" "start_run now (now + seconds (env_lease_seconds env))"] 3
    by (simp add: mark_active_run_running_def start_run_def)
  have i4: "isolated p k db3 db'"
    using isolated_orders [of p k db3 "\<lambda>w. o_id w = ls_work_order_id s \<and> order_active (o_status w)" "run_order now"] 4
    by (simp add: mark_active_work_order_running_def)
  show ?thesis using isolated_trans [OF isolated_trans [OF isolated_trans [OF i1 i2] i3] i4] .
qed

lemma isolated_finish:
  assumes held: "held_by p k db" and s: "ls_run_id s = k" "ls_worker_id s = p"
    and fin: "finish_active_lease env db now s c live own = Inr (db', r)"
  shows "isolated p k db db'"
proof -
  obtain u os db1 db2 db3 db4 reason where
    1: "consume_lease db s now (if live then RequireLive else AnyLease) = (db1, True)"
    and 2: "release_run_quota_reservation db1 (ls_run_id s) (ls_work_order_id s) (ls_worker_id s) = (db2, True)"
    and 3: "finish_active_run db2 (ls_run_id s) (finish_run c now reason u) = (db3, True)"
    and 4: "finish_active_work_order db3 (ls_work_order_id s) os now reason = (db4, True)"
    and 5: "release_worker_capacity db4 (ls_worker_id s) = (db', True)"
    using fin by (rule finish_cases)
  have i1: "isolated p k db db1"
    using isolated_consume [OF s(2), of k db now "if live then RequireLive else AnyLease"] 1 by simp
  note h1 = isolatedD [OF i1 held]
  have i2: "isolated p k db1 db2" using isolated_release_quota [OF h1, of "ls_work_order_id s"] 2 s by simp
  note h2 = isolatedD [OF i2 h1]
  have i3: "isolated p k db2 db3"
    using isolated_runs [OF h2, of "\<lambda>r. r_id r = k \<and> run_active (r_status r)" "finish_run c now reason u"] 3 s
    by (simp add: finish_active_run_def finish_run_def)
  have i4: "isolated p k db3 db4"
    using isolated_orders [of p k db3 "\<lambda>w. o_id w = ls_work_order_id s \<and> order_active (o_status w)" "finish_order os now reason"] 4
    by (simp add: finish_active_work_order_def)
  have i5: "isolated p k db4 db'"
    using isolated_workers [of "\<lambda>v. w_worker_id v = p \<and> w_active_run_count v > 0" p free_slot k db4] 5 s
    by (simp add: release_worker_capacity_def free_slot_def)
  show ?thesis using isolated_trans [OF isolated_trans [OF isolated_trans [OF isolated_trans [OF i1 i2] i3] i4] i5] .
qed

lemma isolated_complete:
  assumes "held_by p k db" and c: "complete_run env db now k p c = Inr (db', r)"
  shows "isolated p k db db'"
proof -
  from c obtain s where s: "get_lease_snapshot_for_run db k = Some s" "ls_worker_id s = p"
    and f: "finish_active_lease env db now s c True True = Inr (db', r)"
    by (auto simp: complete_run_def result_simps split: if_splits option.splits)
  show ?thesis by (rule isolated_finish [OF assms(1) snapshot_for_run(2) [OF s(1)] s(2) f])
qed

lemma isolated_resolve:
  assumes "held_by p k db" and "resolve_reuse_candidate env db now k p i h = Inr (db', res)"
  shows "isolated p k db db'"
proof -
  from assms(2) obtain result where "update_active_run_reuse db k (record_candidate i h result) = (db', True)"
    by (auto simp: resolve_reuse_candidate_def result_simps Let_def split: if_splits option.splits prod.splits)
  with isolated_runs [OF assms(1), of "\<lambda>r. r_id r = k \<and> run_active (r_status r)" "\<lambda>r. r\<lparr>r_reuse := record_candidate i h result (r_reuse r)\<rparr>"]
  show ?thesis by (simp add: update_active_run_reuse_def)
qed

lemma isolated_register: "register_worker db now v = Inr db' \<Longrightarrow> isolated (wr_worker_id v) k db db'"
  using isolated_workers [of "\<lambda>w. w_worker_id w = wr_worker_id v" "wr_worker_id v" _ k db]
  by (auto simp: register_worker_def upsert_worker_def refresh_worker_def Let_def isolated_def others_def held_by_def new_worker_row_def
      update_workers_def split: if_splits option.splits)

lemma isolated_heartbeat_worker: "heartbeat_worker db now p st = Inr db' \<Longrightarrow> isolated p k db db'"
  using isolated_workers [of "\<lambda>w. w_worker_id w = p" p "beat_worker now st" k db]
  by (auto simp: heartbeat_worker_def update_worker_heartbeat_def beat_worker_def split: option.splits)

lemma owned_run_held: "keys_ok db \<Longrightarrow> owned_run db p k \<noteq> None \<Longrightarrow> held_by p k db"
  using find_in_table(1) by (fastforce simp: owned_run_def held_by_def split: option.splits if_splits)

lemma isolated_others: "isolated p k db db' \<Longrightarrow> others p db' = others p db"
  by (simp add: isolated_def)

lemma scoped_isolated:
  assumes keys: "keys_ok db" and req: "\<And>j. req \<noteq> CheckoutWork j"
  shows "others p (exec_handle env t (Scoped p req) db) = others p db"
proof (cases req)
  case (RegisterWorker v)
  then show ?thesis
    by (auto simp: worker_register_def http_register_worker_def respond_def keep_unit_def result_simps split: sum.splits
        intro: isolated_others [OF isolated_register])
next
  case (HeartbeatWorker j s)
  then show ?thesis
    by (auto simp: worker_heartbeat_def http_heartbeat_worker_def respond_def keep_unit_def result_simps split: sum.splits
        intro: isolated_others [OF isolated_heartbeat_worker])
next
  case (ResolveReuse k j i h)
  then show ?thesis using owned_run_held [OF keys, of p k]
    by (auto simp: worker_resolve_reuse_candidate_def http_resolve_reuse_candidate_def respond_def split: sum.splits
        intro: isolated_others [OF isolated_resolve])
next
  case (HeartbeatRun k j)
  then show ?thesis using owned_run_held [OF keys, of p k]
    by (auto simp: worker_heartbeat_run_def http_heartbeat_run_def respond_def split: sum.splits
        intro: isolated_others [OF isolated_heartbeat_run])
next
  case (CompleteRun k j c)
  then show ?thesis using owned_run_held [OF keys, of p k]
    by (auto simp: worker_complete_run_def http_complete_run_def respond_def split: sum.splits
        intro: isolated_others [OF isolated_complete])
qed (use req in auto)


text \<open>
  C9. Workers are isolated from each other: whatever a worker asks for in its own name, other than
  a checkout, no run, lease, worker row or routing profile of another worker changes. (A checkout
  first sweeps stale leases, whoever they belong to.)
\<close>

theorem worker_isolation:
  assumes "exec_reachable env db" and "\<And>j. req \<noteq> CheckoutWork j"
  shows "let db' = exec_handle env t (Scoped p req) db
    in filter (\<lambda>r. r_worker_id r \<noteq> p) (runs db') = filter (\<lambda>r. r_worker_id r \<noteq> p) (runs db)
    \<and> filter (\<lambda>x. x_worker_id x \<noteq> p) (xleases db') = filter (\<lambda>x. x_worker_id x \<noteq> p) (xleases db)
    \<and> filter (\<lambda>v. w_worker_id v \<noteq> p) (workers db') = filter (\<lambda>v. w_worker_id v \<noteq> p) (workers db)
    \<and> filter (\<lambda>q. q_worker_id q \<noteq> p) (profiles db') = filter (\<lambda>q. q_worker_id q \<noteq> p) (profiles db)"
  using scoped_isolated [OF exec_inv_keys [OF exec_reachable_inv [OF assms(1)]] assms(2), of p env t]
  by (simp add: others_def Let_def)

theorem worker_isolation_witness:
  "filter (\<lambda>r. r_worker_id r \<noteq> ''beta'')
     (runs (exec_handle sample_env (sample_tick 4 0) (Scoped ''beta'' (CompleteRun 1 ''alpha'' (cancellation ''x''))) busy_db)) = runs busy_db"
proof -
  have "filter (\<lambda>r. r_worker_id r \<noteq> ''beta'') (runs busy_db) = runs busy_db" by code_simp
  then show ?thesis
    by (subst conjunct1 [OF worker_isolation [unfolded Let_def, OF sample_reachable(2)]]) simp_all
qed

end
