(* ===== verification/Github_Store.thy ===== *)
theory Github_Store
  imports Execution_Store
begin

text \<open>
  \<open>GitHubAdapterRepository\<close> of \<^verbatim>\<open>server/github_adapter/repository.py\<close> over the table of
  \<open>GitHubValidationRequest\<close> (\<^verbatim>\<open>server/models.py\<close>). A row is grouped into the columns an insert
  sets once (\<open>gh_identity\<close>), the columns a publication writes (\<open>gh_publication\<close>) and the three claim
  columns, which are all null or all set (\<open>publication_claim\<close>). The automatic columns \<open>created_at\<close> and
  \<open>updated_at\<close> are left out.

  A publication claim is a lease on one request with a random token: it is acquired when none is
  held or the held one has expired, renewed before each remote write, and cleared by the statement
  that writes the result, which matches the token. The lemmas at the end say that each of these
  statements touches one request and only under its guard.
\<close>

section \<open>The request table\<close>

record gh_identity =
  gi_schema_version :: int
  gi_idempotency_key :: string
  gi_github_api_url :: string
  gi_github_host :: string
  gi_repository_full_name :: string
  gi_repository_id :: int
  gi_repository_node_id :: string
  gi_github_actor_id :: "int option"
  gi_github_actor_node_id :: "string option"
  gi_pull_request_number :: int
  gi_pull_request_id :: int
  gi_pull_request_node_id :: string
  gi_pull_request_state :: string
  gi_pull_request_draft :: bool
  gi_pull_request_merged :: bool
  gi_base_ref :: string
  gi_base_sha :: string
  gi_head_ref :: string
  gi_head_sha :: string
  gi_head_repository_full_name :: string
  gi_head_repository_id :: int
  gi_manifest_name :: string
  gi_manifest_version :: string
  gi_manifest_digest :: string
  gi_operator_id :: string
  gi_work_order_id :: int

record gh_publication =
  gp_terminal_run_id :: "int option"
  gp_managed_comment_id :: "int option"
  gp_publication_state :: string
  gp_publication_decision :: string
  gp_publication_head_sha :: "string option"
  gp_last_transport_reason :: "string option"
  gp_publication_reason :: "string option"
  gp_last_resolved_at :: time
  gp_last_publication_attempt_at :: "time option"
  gp_published_at :: "time option"

record publication_claim =
  pc_token :: string
  pc_claimed_at :: time
  pc_expires_at :: time

record gh_row =
  g_id :: int
  g_identity :: gh_identity
  g_publication :: gh_publication
  g_claim :: "publication_claim option"

definition between :: "nat \<Rightarrow> nat \<Rightarrow> string \<Rightarrow> bool" where
  "between lo hi s = (lo \<le> length s \<and> length s \<le> hi)"

text \<open>The check constraints of the table: the identity columns, the publication columns, the claim.\<close>

definition gh_identity_ok :: "gh_identity \<Rightarrow> bool" where
  "gh_identity_ok i \<longleftrightarrow>
     gi_schema_version i = 1 \<and> length (gi_idempotency_key i) = 64 \<and> length (gi_head_sha i) = 40
     \<and> length (gi_base_sha i) = 40 \<and> length (gi_manifest_digest i) = 64 \<and> gi_pull_request_number i \<ge> 1
     \<and> gi_repository_id i \<ge> 1 \<and> gi_pull_request_id i \<ge> 1 \<and> gi_head_repository_id i \<ge> 1
     \<and> between 1 512 (gi_github_api_url i) \<and> between 1 255 (gi_github_host i)
     \<and> between 3 255 (gi_repository_full_name i) \<and> between 3 255 (gi_head_repository_full_name i)
     \<and> between 1 128 (gi_repository_node_id i) \<and> between 1 128 (gi_pull_request_node_id i)
     \<and> (case (gi_github_actor_id i, gi_github_actor_node_id i) of
          (None, None) \<Rightarrow> True | (Some a, Some n) \<Rightarrow> a \<ge> 1 \<and> between 1 128 n | _ \<Rightarrow> False)
     \<and> gi_pull_request_state i \<in> {''open'', ''closed''}
     \<and> between 1 255 (gi_base_ref i) \<and> between 1 255 (gi_head_ref i)
     \<and> between 1 128 (gi_manifest_name i) \<and> between 1 64 (gi_manifest_version i) \<and> between 1 128 (gi_operator_id i)"

definition gh_publication_ok :: "gh_publication \<Rightarrow> bool" where
  "gh_publication_ok p \<longleftrightarrow>
     (case gp_managed_comment_id p of None \<Rightarrow> True | Some c \<Rightarrow> c \<ge> 1)
     \<and> (case gp_publication_head_sha p of None \<Rightarrow> True | Some h \<Rightarrow> length h = 40)
     \<and> (case gp_last_transport_reason p of None \<Rightarrow> True | Some r \<Rightarrow> between 1 64 r)
     \<and> (case gp_publication_reason p of None \<Rightarrow> True | Some r \<Rightarrow> between 1 64 r)
     \<and> gp_publication_state p \<in>
         {''not_published'', ''published_current'', ''published_stale'', ''retryable_failure'', ''failed''}
     \<and> gp_publication_decision p \<in> {''not_evaluated'', ''current'', ''stale''}"

definition gh_claim_ok :: "publication_claim option \<Rightarrow> bool" where
  "gh_claim_ok c =
     (case c of None \<Rightarrow> True | Some k \<Rightarrow> length (pc_token k) = 64 \<and> pc_expires_at k > pc_claimed_at k)"

definition gh_row_ok :: "gh_row \<Rightarrow> bool" where
  "gh_row_ok r \<longleftrightarrow> gh_identity_ok (g_identity r) \<and> gh_publication_ok (g_publication r) \<and> gh_claim_ok (g_claim r)"

definition new_publication :: "time \<Rightarrow> gh_publication" where
  "new_publication now =
     \<lparr>gp_terminal_run_id = None, gp_managed_comment_id = None, gp_publication_state = ''not_published'',
      gp_publication_decision = ''not_evaluated'', gp_publication_head_sha = None,
      gp_last_transport_reason = Some ''github_pr_resolved'', gp_publication_reason = None,
      gp_last_resolved_at = now, gp_last_publication_attempt_at = None, gp_published_at = None\<rparr>"

text \<open>\<open>None\<close> is the \<open>IntegrityError\<close> of a violated constraint.\<close>

definition gh_create :: "gh_row list \<Rightarrow> int \<Rightarrow> gh_identity \<Rightarrow> time \<Rightarrow> (gh_row list \<times> gh_row) option" where
  "gh_create rows new_id identity now =
     (let row = \<lparr>g_id = new_id, g_identity = identity, g_publication = new_publication now, g_claim = None\<rparr>
      in if new_id \<in> g_id ` set rows \<or> \<not> gh_row_ok row
            \<or> gi_idempotency_key identity \<in> (\<lambda>r. gi_idempotency_key (g_identity r)) ` set rows
            \<or> gi_work_order_id identity \<in> (\<lambda>r. gi_work_order_id (g_identity r)) ` set rows
         then None else Some (rows @ [row], row))"

definition gh_get :: "gh_row list \<Rightarrow> int \<Rightarrow> gh_row option" where
  "gh_get rows i = find (\<lambda>r. g_id r = i) rows"

definition gh_get_by_idempotency_key :: "gh_row list \<Rightarrow> string \<Rightarrow> gh_row option" where
  "gh_get_by_idempotency_key rows k = find (\<lambda>r. gi_idempotency_key (g_identity r) = k) rows"

section \<open>Publication claims\<close>

text \<open>
  A guarded \<open>UPDATE\<close> and whether it hit one row; \<open>None\<close> when a row it writes would violate a check
  constraint.
\<close>

definition gh_update ::
  "gh_row list \<Rightarrow> (gh_row \<Rightarrow> bool) \<Rightarrow> (gh_row \<Rightarrow> gh_row) \<Rightarrow> (gh_row list \<times> bool) option" where
  "gh_update rows P f =
     (if \<exists>r \<in> set rows. P r \<and> \<not> gh_row_ok (f r) then None
      else Some (update_where P f rows, affected_one P rows))"

text \<open>The update is committed when one row matched and rolled back otherwise.\<close>

definition gh_commit_one ::
  "gh_row list \<Rightarrow> (gh_row \<Rightarrow> bool) \<Rightarrow> (gh_row \<Rightarrow> gh_row) \<Rightarrow> (gh_row list \<times> bool) option" where
  "gh_commit_one rows P f =
     (case gh_update rows P f of
        None \<Rightarrow> None | Some (rows', ok) \<Rightarrow> Some (if ok then rows' else rows, ok))"

definition claim_free :: "time \<Rightarrow> gh_row \<Rightarrow> bool" where
  "claim_free now r = (case g_claim r of None \<Rightarrow> True | Some c \<Rightarrow> pc_expires_at c \<le> now)"

definition start_claim :: "string \<Rightarrow> time \<Rightarrow> time \<Rightarrow> gh_row \<Rightarrow> gh_row" where
  "start_claim token claimed_at expires_at r =
     r\<lparr>g_claim := Some \<lparr>pc_token = token, pc_claimed_at = claimed_at, pc_expires_at = expires_at\<rparr>,
       g_publication := (g_publication r)\<lparr>gp_last_publication_attempt_at := Some claimed_at,
         gp_publication_reason := Some ''github_publication_in_progress''\<rparr>\<rparr>"

definition acquire_publication_claim ::
  "gh_row list \<Rightarrow> int \<Rightarrow> string \<Rightarrow> time \<Rightarrow> time \<Rightarrow> (gh_row list \<times> bool) option" where
  "acquire_publication_claim rows i token claimed_at expires_at =
     gh_commit_one rows (\<lambda>r. g_id r = i \<and> claim_free claimed_at r) (start_claim token claimed_at expires_at)"

definition holds_token :: "string \<Rightarrow> gh_row \<Rightarrow> bool" where
  "holds_token token r = (case g_claim r of None \<Rightarrow> False | Some c \<Rightarrow> pc_token c = token)"

text \<open>
  The values of a finalization are publication columns; the identity of the row and the claim
  columns are out of their reach by type.
\<close>

definition finalize_publication_claim ::
  "gh_row list \<Rightarrow> int \<Rightarrow> string \<Rightarrow> (gh_publication \<Rightarrow> gh_publication) \<Rightarrow> (gh_row list \<times> bool) option" where
  "finalize_publication_claim rows i token values =
     gh_commit_one rows (\<lambda>r. g_id r = i \<and> holds_token token r)
       (\<lambda>r. r\<lparr>g_publication := values (g_publication r), g_claim := None\<rparr>)"

definition claim_live :: "string \<Rightarrow> time \<Rightarrow> gh_row \<Rightarrow> bool" where
  "claim_live token now r =
     (case g_claim r of None \<Rightarrow> False | Some c \<Rightarrow> pc_token c = token \<and> pc_expires_at c > now)"

definition extend_claim :: "time \<Rightarrow> gh_row \<Rightarrow> gh_row" where
  "extend_claim expires_at r = r\<lparr>g_claim := map_option (\<lambda>c. c\<lparr>pc_expires_at := expires_at\<rparr>) (g_claim r)\<rparr>"

definition renew_publication_claim ::
  "gh_row list \<Rightarrow> int \<Rightarrow> string \<Rightarrow> time \<Rightarrow> time \<Rightarrow> (gh_row list \<times> bool) option" where
  "renew_publication_claim rows i token renewed_at expires_at =
     gh_update rows (\<lambda>r. g_id r = i \<and> claim_live token renewed_at r) (extend_claim expires_at)"

definition release_publication_claim :: "gh_row list \<Rightarrow> int \<Rightarrow> string \<Rightarrow> (gh_row list \<times> bool) option" where
  "release_publication_claim rows i token = finalize_publication_claim rows i token (\<lambda>p. p)"

section \<open>Invariant\<close>

definition gh_inv :: "gh_row list \<Rightarrow> bool" where
  "gh_inv rows \<longleftrightarrow> distinct (map g_id rows) \<and> distinct (map (\<lambda>r. gi_idempotency_key (g_identity r)) rows)
     \<and> distinct (map (\<lambda>r. gi_work_order_id (g_identity r)) rows) \<and> list_all gh_row_ok rows"

lemma gh_update_inv:
  assumes "gh_inv rows" and "gh_update rows P f = Some (rows', ok)"
    and "\<And>r. g_id (f r) = g_id r \<and> g_identity (f r) = g_identity r"
  shows "gh_inv rows'"
  using assms by (auto simp: gh_update_def gh_inv_def map_update_where list_all_iff set_update_where split: if_splits)

lemma gh_commit_one_inv:
  assumes "gh_inv rows" and "gh_commit_one rows P f = Some (rows', ok)"
    and "\<And>r. g_id (f r) = g_id r \<and> g_identity (f r) = g_identity r"
  shows "gh_inv rows'"
  using assms gh_update_inv [OF assms(1) _ assms(3)] by (auto simp: gh_commit_one_def split: option.splits if_splits)

lemma acquire_inv: "gh_inv rows \<Longrightarrow> acquire_publication_claim rows i t a e = Some (rows', ok) \<Longrightarrow> gh_inv rows'"
  unfolding acquire_publication_claim_def by (erule gh_commit_one_inv, assumption) (simp add: start_claim_def)

lemma finalize_inv: "gh_inv rows \<Longrightarrow> finalize_publication_claim rows i t f = Some (rows', ok) \<Longrightarrow> gh_inv rows'"
  unfolding finalize_publication_claim_def by (erule gh_commit_one_inv, assumption) simp

lemma renew_inv: "gh_inv rows \<Longrightarrow> renew_publication_claim rows i t a e = Some (rows', ok) \<Longrightarrow> gh_inv rows'"
  unfolding renew_publication_claim_def by (erule gh_update_inv, assumption) (simp add: extend_claim_def)

lemma gh_create_inv: "gh_inv rows \<Longrightarrow> gh_create rows k i now = Some (rows', r) \<Longrightarrow> gh_inv rows'"
  by (auto simp: gh_create_def gh_inv_def Let_def split: if_splits)

lemma gh_get_Some: "gh_get rows i = Some r \<Longrightarrow> r \<in> set rows \<and> g_id r = i"
  by (auto simp: gh_get_def find_Some_iff)

lemma gh_get_iff: "gh_inv rows \<Longrightarrow> gh_get rows i = Some r \<longleftrightarrow> r \<in> set rows \<and> g_id r = i"
  by (simp add: gh_get_def gh_inv_def find_key_iff)

lemma gh_affected_one:
  assumes "gh_inv rows"
  shows "affected_one (\<lambda>r. g_id r = i \<and> Q r) rows \<longleftrightarrow> (\<exists>r. gh_get rows i = Some r \<and> Q r)"
  using assms rowcount_key_one [of g_id rows i Q] by (simp add: affected_one_def gh_get_def gh_inv_def)

lemma gh_get_update:
  "(\<And>r. g_id (f r) = g_id r) \<Longrightarrow>
   gh_get (update_where P f rows) i = map_option (\<lambda>r. if P r then f r else r) (gh_get rows i)"
  unfolding gh_get_def by (rule find_update_where) simp

section \<open>Fencing\<close>

text \<open>A guarded update of one request changes that request only, and only when its guard holds.\<close>

lemma gh_commit_one_row:
  assumes "gh_inv rows" and "gh_commit_one rows (\<lambda>r. g_id r = i \<and> Q r) f = Some (rows', ok)"
    and "\<And>r. g_id (f r) = g_id r"
  shows "ok \<longleftrightarrow> (\<exists>r. gh_get rows i = Some r \<and> Q r)"
    and "ok \<Longrightarrow> gh_get rows' i = map_option f (gh_get rows i)"
    and "\<not> ok \<Longrightarrow> rows' = rows"
    and "j \<noteq> i \<Longrightarrow> gh_get rows' j = gh_get rows j"
proof -
  note one = gh_affected_one [OF assms(1), of i Q]
  have ok: "ok = affected_one (\<lambda>r. g_id r = i \<and> Q r) rows"
    and rows': "rows' = (if ok then update_where (\<lambda>r. g_id r = i \<and> Q r) f rows else rows)"
    using assms(2) by (auto simp: gh_commit_one_def gh_update_def split: if_splits)
  show "ok \<longleftrightarrow> (\<exists>r. gh_get rows i = Some r \<and> Q r)" using one ok by simp
  show "ok \<Longrightarrow> gh_get rows' i = map_option f (gh_get rows i)"
    using one ok rows' by (auto simp: gh_get_update assms(3) dest: gh_get_Some)
  show "\<not> ok \<Longrightarrow> rows' = rows" using rows' by simp
  show "j \<noteq> i \<Longrightarrow> gh_get rows' j = gh_get rows j"
    using rows' by (cases "gh_get rows j") (auto simp: gh_get_update assms(3) dest: gh_get_Some)
qed

text \<open>A claim is granted exactly when the request has no claim or an expired one, and it is then held.\<close>

lemma acquire_granted:
  assumes "gh_inv rows" and "acquire_publication_claim rows i t a e = Some (rows', ok)"
  shows "ok \<longleftrightarrow> (\<exists>r. gh_get rows i = Some r \<and> claim_free a r)"
    and "ok \<Longrightarrow> gh_get rows' i = map_option (start_claim t a e) (gh_get rows i)"
    and "\<not> ok \<Longrightarrow> rows' = rows"
    and "j \<noteq> i \<Longrightarrow> gh_get rows' j = gh_get rows j"
  using gh_commit_one_row [OF assms(1) assms(2) [unfolded acquire_publication_claim_def]]
  by (simp_all add: start_claim_def)

text \<open>A finalization writes exactly when the row still carries the caller's token.\<close>

lemma finalize_fenced:
  assumes "gh_inv rows" and "finalize_publication_claim rows i t f = Some (rows', ok)"
  shows "ok \<longleftrightarrow> (\<exists>r. gh_get rows i = Some r \<and> holds_token t r)"
    and "ok \<Longrightarrow> gh_get rows' i =
      map_option (\<lambda>r. r\<lparr>g_publication := f (g_publication r), g_claim := None\<rparr>) (gh_get rows i)"
    and "\<not> ok \<Longrightarrow> rows' = rows"
    and "j \<noteq> i \<Longrightarrow> gh_get rows' j = gh_get rows j"
  using gh_commit_one_row [OF assms(1) assms(2) [unfolded finalize_publication_claim_def]] by simp_all

lemma finalize_releases:
  assumes "gh_inv rows" and "finalize_publication_claim rows i t f = Some (rows', ok)" and "gh_get rows' i = Some r"
  shows "\<not> holds_token t r"
proof (cases ok)
  case True
  from finalize_fenced(2) [OF assms(1,2) True] assms(3) have "g_claim r = None"
    by (cases "gh_get rows i") auto
  then show ?thesis by (simp add: holds_token_def)
next
  case False
  with finalize_fenced(1,3) [OF assms(1,2)] assms(3) show ?thesis by auto
qed

text \<open>A renewal succeeds only on a claim that is held and not expired, and keeps it so.\<close>

lemma renew_live:
  assumes "renew_publication_claim rows i t a e = Some (rows', True)"
  shows "\<exists>r \<in> set rows. g_id r = i \<and> claim_live t a r"
    and "a < e \<Longrightarrow> \<exists>r \<in> set rows'. g_id r = i \<and> claim_live t a r"
proof -
  let ?P = "\<lambda>r. g_id r = i \<and> claim_live t a r"
  have one: "rowcount ?P rows = 1" and upd: "rows' = update_where ?P (extend_claim e) rows"
    using assms by (auto simp: renew_publication_claim_def gh_update_def affected_one_def split: if_splits)
  from one have "rowcount ?P rows \<noteq> 0" by simp
  then show ex: "\<exists>r \<in> set rows. ?P r" by (auto simp: rowcount_zero)
  assume "a < e"
  then have "?P (extend_claim e r)" if "?P r" for r
    using that by (auto simp: extend_claim_def claim_live_def split: option.splits)
  with ex upd show "\<exists>r \<in> set rows'. ?P r" by (auto simp: set_update_where)
qed

end
