(* ===== verification/Github_Render.thy ===== *)
theory Github_Render
  imports Github_Store
begin

text \<open>
  \<^verbatim>\<open>server/github_adapter/rendering.py\<close>: the managed comment as text. The lemmas show that a
  rendered comment is recognised by \<open>has_exact_marker\<close> under the marker of its own request.
\<close>

section \<open>Text\<close>

text \<open>
  Characters are code points below 256: one byte of UTF-8 below 128, two above.
  \<open>first_line\<close> is \<^verbatim>\<open>splitlines()[:1]\<close>.
\<close>

definition utf8_length :: "string \<Rightarrow> nat" where
  "utf8_length s = sum_list (map (\<lambda>c. if (of_char c :: nat) < 128 then 1 else 2) s)"

definition is_line_break :: "char \<Rightarrow> bool" where
  "is_line_break c = ((of_char c :: nat) \<in> {10, 11, 12, 13, 28, 29, 30, 133})"

definition first_line :: "string \<Rightarrow> string list" where
  "first_line s = (if s = [] then [] else [takeWhile (\<lambda>c. \<not> is_line_break c) s])"

definition NL :: string where
  "NL = [CHR 0x0A]"

section \<open>The managed comment\<close>

definition MAX_RENDERED_COMMENT_BYTES :: nat where
  "MAX_RENDERED_COMMENT_BYTES = 12 * 1024"

definition is_lower :: "char \<Rightarrow> bool" where
  "is_lower c = (97 \<le> (of_char c :: nat) \<and> (of_char c :: nat) \<le> 122)"

definition HEX_64 :: "string \<Rightarrow> bool" where
  "HEX_64 s = (length s = 64 \<and>
     list_all (\<lambda>c. is_digit c \<or> (97 \<le> (of_char c :: nat) \<and> (of_char c :: nat) \<le> 102)) s)"

definition REASON :: "string \<Rightarrow> bool" where
  "REASON s = (case s of
     [] \<Rightarrow> False
   | c # cs \<Rightarrow> (is_lower c \<or> is_digit c) \<and> length cs \<le> 63
       \<and> list_all (\<lambda>d. is_lower d \<or> is_digit d \<or> d \<in> {CHR ''_'', CHR ''.'', CHR '':'', CHR ''-''}) cs)"

definition managed_comment_marker :: "string \<Rightarrow> string + string" where
  "managed_comment_marker idempotency_key =
     (if \<not> HEX_64 idempotency_key then Inl ''invalid managed comment identity''
      else Inr (''<!-- switchboard-validation:v1:'' @ idempotency_key @ '' -->''))"

definition has_exact_marker :: "string \<Rightarrow> string \<Rightarrow> bool" where
  "has_exact_marker body marker =
     (utf8_length body \<le> MAX_RENDERED_COMMENT_BYTES \<and> first_line body = [marker])"

definition first_of :: "'a list \<Rightarrow> 'a option" where
  "first_of xs = (case xs of [] \<Rightarrow> None | x # _ \<Rightarrow> Some x)"

definition parsed_results :: "execution_evidence \<Rightarrow> parsed_result list" where
  "parsed_results e =
     filter (\<lambda>r. pr_status r = ''parsed'') (List.map_filter se_parsed_result (ev_steps (ev_draft e)))"

definition first_audit :: "audit_summary list \<Rightarrow> string \<Rightarrow> audit_summary option" where
  "first_audit audits kind = find (\<lambda>a. au_kind a = kind) audits"

definition audit_line :: "string \<Rightarrow> audit_summary \<Rightarrow> string" where
  "audit_line title a = ''- '' @ title @ '' audit: `'' @ au_status a @ ''; '' @ show_int (au_findings a) @ '' findings`''"

definition tests_line :: "parsed_test_counts \<Rightarrow> string" where
  "tests_line t =
     ''- Tests: `'' @ show_int (pt_passed t) @ '' passed, '' @ show_int (pt_failed t) @ '' failed, ''
       @ show_int (pt_skipped t) @ '' skipped, '' @ show_int (pt_errors t) @ '' errors`''"

definition line_of :: "('a \<Rightarrow> string) \<Rightarrow> 'a option \<Rightarrow> string list" where
  "line_of f v = (case v of None \<Rightarrow> [] | Some x \<Rightarrow> [f x])"

text \<open>\<open>percent\<close> is the format \<^verbatim>\<open>:.2f\<close> of a float.\<close>

definition comment_lines ::
  "(string \<Rightarrow> string) \<Rightarrow> string \<Rightarrow> gh_identity \<Rightarrow> execution_evidence \<Rightarrow> string \<Rightarrow> string \<Rightarrow> string \<Rightarrow> string list" where
  "comment_lines percent marker q e terminal_reason decision safe_reason =
     (let results = parsed_results e; audits = List.map_filter pr_audit results
      in [marker,
          ''## Switchboard validation'',
          [],
          ''- Switchboard comment schema: `1`'',
          ''- Repository / PR: `'' @ gi_repository_full_name q @ ''` `#'' @ show_int (gi_pull_request_number q) @ ''`'',
          ''- Exact tested SHA: `'' @ gi_head_sha q @ ''`'',
          ''- Manifest: `'' @ gi_manifest_name q @ ''@'' @ gi_manifest_version q @ ''` (`'' @ gi_manifest_digest q @ ''`)'',
          ''- Terminal status: `'' @ ev_terminal_status (ev_draft e) @ ''`'',
          ''- Terminal reason: `'' @ terminal_reason @ ''`'',
          ''- Execution provenance: `fresh`'',
          ''- Evidence fingerprint: `'' @ ev_fingerprint e @ ''`'',
          ''- Head decision: `'' @ decision @ ''` (`'' @ safe_reason @ ''`)'']
         @ line_of tests_line (first_of (List.map_filter pr_tests results))
         @ line_of (\<lambda>c. ''- Measured coverage: `'' @ percent (pc_measured_percent c) @ ''%`'')
             (first_of (List.map_filter pr_coverage results))
         @ line_of (audit_line ''Security'') (first_audit audits ''security'')
         @ line_of (audit_line ''Dependency'') (first_audit audits ''dependency'')
         @ [[], ''Full logs and artifact bytes remain local to the trusted worker.''])"

text \<open>\<open>Inl\<close> is the message of the \<open>ValueError\<close>.\<close>

definition render_managed_comment ::
  "(string \<Rightarrow> string) \<Rightarrow> gh_identity \<Rightarrow> execution_evidence \<Rightarrow> string \<Rightarrow> string \<Rightarrow> string + string" where
  "render_managed_comment percent q e decision decision_reason =
     (if decision \<notin> {''current'', ''stale''} then Inl ''invalid publication decision''
      else
        let safe_reason = (if REASON decision_reason then decision_reason else ''github_publication_failed'');
            terminal_reason =
              (case ev_terminal_reason (ev_draft e) of
                 None \<Rightarrow> ev_terminal_status (ev_draft e)
               | Some t \<Rightarrow> if t \<noteq> [] \<and> REASON t then t else ev_terminal_status (ev_draft e))
        in rbind (managed_comment_marker (gi_idempotency_key q)) (\<lambda>marker.
             let rendered = join_with NL (comment_lines percent marker q e terminal_reason decision safe_reason)
             in if utf8_length rendered > MAX_RENDERED_COMMENT_BYTES
                then Inl ''managed comment exceeds bounded size'' else Inr rendered))"

section \<open>Lemmas\<close>

lemma takeWhile_marker:
  assumes "list_all (\<lambda>c. \<not> is_line_break c) marker"
  shows "first_line (marker @ NL @ rest) = [marker]"
proof -
  have "takeWhile (\<lambda>c. \<not> is_line_break c) (marker @ NL @ rest) = marker"
    using assms by (simp add: takeWhile_append list_all_iff NL_def is_line_break_def)
  then show ?thesis by (simp add: first_line_def NL_def)
qed

lemma not_break_above: "40 \<le> (of_char c :: nat) \<Longrightarrow> (of_char c :: nat) \<le> 122 \<Longrightarrow> \<not> is_line_break c"
  unfolding is_line_break_def by (intro notI, elim insertE) simp_all

lemma marker_no_break: "managed_comment_marker k = Inr m \<Longrightarrow> list_all (\<lambda>c. \<not> is_line_break c) m"
proof -
  assume m: "managed_comment_marker k = Inr m"
  then have "HEX_64 k" by (simp add: managed_comment_marker_def split: if_splits)
  then have "list_all (\<lambda>c. \<not> is_line_break c) k"
    unfolding HEX_64_def is_digit_def by (elim conjE list.pred_mono_strong) (erule disjE; rule not_break_above; simp)
  with m show ?thesis by (auto simp: managed_comment_marker_def is_line_break_def split: if_splits)
qed

lemma marker_injective:
  "managed_comment_marker k = Inr m \<Longrightarrow> managed_comment_marker k' = Inr m \<Longrightarrow> k = k'"
  by (auto simp: managed_comment_marker_def split: if_splits)

lemma comment_lines_marker: "\<exists>second rest. comment_lines percent m q e t d s = m # second # rest"
  unfolding comment_lines_def Let_def by simp

lemma rendered_marker:
  assumes "render_managed_comment percent q e d r = Inr body"
  obtains marker where "managed_comment_marker (gi_idempotency_key q) = Inr marker" and "has_exact_marker body marker"
proof -
  from assms obtain marker t s where m: "managed_comment_marker (gi_idempotency_key q) = Inr marker"
    and body: "body = join_with NL (comment_lines percent marker q e t d s)"
    and small: "utf8_length body \<le> MAX_RENDERED_COMMENT_BYTES"
    unfolding render_managed_comment_def Let_def by (auto simp: rbind_Inr_iff split: if_splits)
  from body comment_lines_marker obtain second rest where "body = join_with NL (marker # second # rest)" by metis
  then have "first_line body = [marker]" using takeWhile_marker [OF marker_no_break [OF m]] by simp
  with m small show thesis by (intro that) (auto simp: has_exact_marker_def)
qed

text \<open>The comment shows the same provenance line whatever provenance the evidence carries.\<close>

lemma render_ignores_provenance:
  "render_managed_comment percent q \<lparr>ev_draft = d\<lparr>ev_reuse_provenance := p\<rparr>, ev_fingerprint = f\<rparr> dec r
   = render_managed_comment percent q \<lparr>ev_draft = d, ev_fingerprint = f\<rparr> dec r"
proof -
  have "parsed_results \<lparr>ev_draft = d\<lparr>ev_reuse_provenance := p\<rparr>, ev_fingerprint = f\<rparr>
    = parsed_results \<lparr>ev_draft = d, ev_fingerprint = f\<rparr>" by (simp add: parsed_results_def)
  then have "comment_lines percent m q \<lparr>ev_draft = d\<lparr>ev_reuse_provenance := p\<rparr>, ev_fingerprint = f\<rparr> t dd s
    = comment_lines percent m q \<lparr>ev_draft = d, ev_fingerprint = f\<rparr> t dd s" for m t dd s
    unfolding comment_lines_def by simp
  then show ?thesis unfolding render_managed_comment_def by (simp cong: option.case_cong if_cong)
qed

end
