(* ===== verification/Github_Service.thy ===== *)
theory Github_Service
  imports Github_Render Execution_Api
begin

text \<open>
  \<open>GitHubAdapterService\<close> of \<^verbatim>\<open>server/github_adapter/service.py\<close> and its routes: an operator asks for
  the validation of a pull request, the service resolves the exact head through GitHub and creates
  one pending work order for it, and later publishes the evidence as one managed comment.

  A method is a function of the whole world, the tables of the execution plane, the request table
  and whatever \<open>'g\<close> stands for outside the database, into its exception or result and the new
  world. \<open>gh_transport\<close> is the interface of \<open>GitHubTransport\<close> as the service uses it: each call
  takes the whole world because other requests run while it is awaited, and it may raise any
  exception. \<open>t_pause\<close> is what other requests do before a statement of this one reaches the
  database; a statement is atomic. \<open>t_clock\<close> reads the clock. Tokens, primary keys and the key hash
  are arguments.

  The methods that write commit as they go (the claim statements), so an exception leaves the
  world as it is then; the insertion of a request is one transaction that an exception undoes.
  Cancellation of a request by the server is not modelled: it leaves the claim to expire.
\<close>

section \<open>State, errors and sequencing\<close>

datatype gh_error =
    GitHubRequestNotFoundError string
  | GitHubRepositoryNotAllowedError string
  | GitHubManifestError string
  | GitHubTransportError string
  | GitHubRateLimitedError string
  | GitHubAmbiguousWriteError string
  | GitHubTerminalEvidenceRequiredError string
  | PyTypeError
  | OtherError exec_error

fun gh_reason :: "gh_error \<Rightarrow> string" where
  "gh_reason (GitHubRequestNotFoundError m) = m"
| "gh_reason (GitHubRepositoryNotAllowedError m) = m"
| "gh_reason (GitHubManifestError m) = m"
| "gh_reason (GitHubTransportError m) = m"
| "gh_reason (GitHubRateLimitedError m) = m"
| "gh_reason (GitHubAmbiguousWriteError m) = m"
| "gh_reason (GitHubTerminalEvidenceRequiredError m) = m"
| "gh_reason PyTypeError = []"
| "gh_reason (OtherError e) = []"

fun is_adapter_error :: "gh_error \<Rightarrow> bool" where
  "is_adapter_error (OtherError e) = False"
| "is_adapter_error PyTypeError = False"
| "is_adapter_error _ = True"

fun is_transport_error :: "gh_error \<Rightarrow> bool" where
  "is_transport_error (GitHubTransportError m) = True"
| "is_transport_error (GitHubRateLimitedError m) = True"
| "is_transport_error (GitHubAmbiguousWriteError m) = True"
| "is_transport_error _ = False"

fun is_value_error :: "gh_error \<Rightarrow> bool" where
  "is_value_error (OtherError (ValueError m)) = True"
| "is_value_error _ = False"

record 'g gh_world =
  w_db :: exec_db
  w_rows :: "gh_row list"
  w_remote :: 'g

type_synonym ('g, 'a) gh = "'g gh_world \<Rightarrow> (gh_error + 'a) \<times> 'g gh_world"

definition gret :: "'a \<Rightarrow> ('g, 'a) gh" where
  "gret x w = (Inr x, w)"

definition gthrow :: "gh_error \<Rightarrow> ('g, 'a) gh" where
  "gthrow e w = (Inl e, w)"

definition gbind :: "('g, 'a) gh \<Rightarrow> ('a \<Rightarrow> ('g, 'b) gh) \<Rightarrow> ('g, 'b) gh" where
  "gbind m f w = (case m w of (Inl e, w') \<Rightarrow> (Inl e, w') | (Inr x, w') \<Rightarrow> f x w')"

text \<open>\<open>gtry\<close> runs a call and hands its exception or its result to the continuation.\<close>

definition gtry :: "('g, 'a) gh \<Rightarrow> (gh_error + 'a \<Rightarrow> ('g, 'b) gh) \<Rightarrow> ('g, 'b) gh" where
  "gtry m f w = (case m w of (r, w') \<Rightarrow> f r w')"

definition lift_exec :: "exec_error + 'a \<Rightarrow> gh_error + 'a" where
  "lift_exec r = (case r of Inl e \<Rightarrow> Inl (OtherError e) | Inr x \<Rightarrow> Inr x)"

section \<open>The transport\<close>

record actor_identity =
  a_actor_id :: int
  a_node_id :: string

record resolved_pull_request =
  rq_repository_full_name :: string
  rq_repository_id :: int
  rq_repository_node_id :: string
  rq_pull_request_number :: int
  rq_pull_request_id :: int
  rq_pull_request_node_id :: string
  rq_state :: string
  rq_draft :: bool
  rq_merged :: bool
  rq_base_ref :: string
  rq_base_sha :: string
  rq_head_ref :: string
  rq_head_sha :: "string option"
  rq_head_repository_full_name :: "string option"
  rq_head_repository_id :: "int option"

record gh_comment =
  c_comment_id :: int
  c_body :: string
  c_author :: actor_identity
  c_repository_full_name :: string
  c_pull_request_number :: int

record comment_listing =
  cl_comments :: "gh_comment list"
  cl_complete :: bool

record 'g gh_transport =
  t_resolve_authenticated_actor :: "('g, actor_identity) gh"
  t_resolve_pull_request :: "string \<Rightarrow> int \<Rightarrow> bool \<Rightarrow> ('g, resolved_pull_request) gh"
  t_get_comment :: "string \<Rightarrow> int \<Rightarrow> ('g, gh_comment) gh"
  t_list_comments :: "string \<Rightarrow> int \<Rightarrow> ('g, comment_listing) gh"
  t_create_comment :: "string \<Rightarrow> int \<Rightarrow> string \<Rightarrow> ('g, gh_comment) gh"
  t_update_comment :: "string \<Rightarrow> int \<Rightarrow> string \<Rightarrow> ('g, gh_comment) gh"
  t_pause :: "'g gh_world \<Rightarrow> 'g gh_world"
  t_clock :: "'g \<Rightarrow> time"

definition gclock :: "'g gh_transport \<Rightarrow> ('g, time) gh" where
  "gclock T w = (Inr (t_clock T (w_remote w)), w)"

text \<open>A read of the database and a committed statement on the request table.\<close>

definition gread :: "'g gh_transport \<Rightarrow> ('g gh_world \<Rightarrow> gh_error + 'a) \<Rightarrow> ('g, 'a) gh" where
  "gread T f w = (let w' = t_pause T w in (f w', w'))"

definition grows :: "'g gh_transport \<Rightarrow> (gh_row list \<Rightarrow> (gh_row list \<times> bool) option) \<Rightarrow> ('g, bool) gh" where
  "grows T f w =
     (let w' = t_pause T w
      in case f (w_rows w') of
           None \<Rightarrow> (Inl (OtherError IntegrityError), w')
         | Some (rows, ok) \<Rightarrow> (Inr ok, w'\<lparr>w_rows := rows\<rparr>))"

record execution_policy =
  ep_maximum_cost_units :: "int option"
  ep_preferred_executor :: "string option"
  ep_required_quota_units :: int
  ep_reuse_policy :: reuse_policy
  ep_routing_policy :: routing_policy

text \<open>What an idempotency key hashes; the key before execution policies existed has no policy.\<close>

record key_payload =
  kp_github_api_url :: string
  kp_github_actor_id :: int
  kp_github_actor_node_id :: string
  kp_manifest_digest :: string
  kp_manifest_name :: string
  kp_manifest_version :: string
  kp_pull_request_id :: int
  kp_pull_request_node_id :: string
  kp_repository_id :: int
  kp_repository_node_id :: string
  kp_schema_version :: int
  kp_tested_head_sha :: string
  kp_execution_policy :: "execution_policy option"

record gh_env =
  ge_service :: service_env
  ge_api_url :: string
  ge_host :: string
  ge_operator_id :: string
  ge_sha256 :: "key_payload \<Rightarrow> string"
  ge_percent :: "string \<Rightarrow> string"

definition GITHUB_ADAPTER_SCHEMA_VERSION :: int where
  "GITHUB_ADAPTER_SCHEMA_VERSION = 1"

definition PUBLICATION_CLAIM_TTL :: time where
  "PUBLICATION_CLAIM_TTL = seconds (5 * 60)"

section \<open>Keys and identities\<close>

definition payload_of ::
  "gh_env \<Rightarrow> actor_identity \<Rightarrow> resolved_pull_request \<Rightarrow> string \<Rightarrow> trusted_manifest \<Rightarrow> execution_policy option \<Rightarrow> key_payload" where
  "payload_of env actor resolved head_sha manifest policy =
     \<lparr>kp_github_api_url = ge_api_url env, kp_github_actor_id = a_actor_id actor,
      kp_github_actor_node_id = a_node_id actor, kp_manifest_digest = tm_digest manifest,
      kp_manifest_name = tm_name manifest, kp_manifest_version = tm_version manifest,
      kp_pull_request_id = rq_pull_request_id resolved, kp_pull_request_node_id = rq_pull_request_node_id resolved,
      kp_repository_id = rq_repository_id resolved, kp_repository_node_id = rq_repository_node_id resolved,
      kp_schema_version = GITHUB_ADAPTER_SCHEMA_VERSION, kp_tested_head_sha = head_sha,
      kp_execution_policy = policy\<rparr>"

definition idempotency_key ::
  "gh_env \<Rightarrow> actor_identity \<Rightarrow> resolved_pull_request \<Rightarrow> string \<Rightarrow> trusted_manifest \<Rightarrow> execution_policy \<Rightarrow> string" where
  "idempotency_key env actor resolved head_sha manifest policy =
     ge_sha256 env (payload_of env actor resolved head_sha manifest (Some policy))"

definition legacy_idempotency_key ::
  "gh_env \<Rightarrow> actor_identity \<Rightarrow> resolved_pull_request \<Rightarrow> string \<Rightarrow> trusted_manifest \<Rightarrow> string" where
  "legacy_idempotency_key env actor resolved head_sha manifest =
     ge_sha256 env (payload_of env actor resolved head_sha manifest None)"

definition uses_legacy_default_policy :: "execution_policy \<Rightarrow> bool" where
  "uses_legacy_default_policy p \<longleftrightarrow>
     ep_reuse_policy p = REUSE_NEVER \<and> ep_routing_policy p = FIRST_AVAILABLE
     \<and> ep_maximum_cost_units p = None \<and> ep_required_quota_units p = 0 \<and> ep_preferred_executor p = None"

definition same_stable_identity :: "gh_identity \<Rightarrow> resolved_pull_request \<Rightarrow> bool" where
  "same_stable_identity q resolved \<longleftrightarrow>
     gi_repository_id q = rq_repository_id resolved
     \<and> gi_repository_node_id q = rq_repository_node_id resolved
     \<and> gi_pull_request_id q = rq_pull_request_id resolved
     \<and> gi_pull_request_node_id q = rq_pull_request_node_id resolved
     \<and> gi_pull_request_number q = rq_pull_request_number resolved"

definition same_actor_identity :: "gh_identity \<Rightarrow> actor_identity \<Rightarrow> bool" where
  "same_actor_identity q actor \<longleftrightarrow>
     gi_github_actor_id q = Some (a_actor_id actor) \<and> gi_github_actor_node_id q = Some (a_node_id actor)"

definition actor_identity_failure_reason :: "gh_identity \<Rightarrow> actor_identity \<Rightarrow> string option" where
  "actor_identity_failure_reason q actor =
     (if gi_github_actor_id q = None \<or> gi_github_actor_node_id q = None then Some ''github_actor_identity_missing''
      else if \<not> same_actor_identity q actor then Some ''github_actor_mismatch''
      else None)"

definition is_owned_managed_comment ::
  "gh_comment \<Rightarrow> actor_identity \<Rightarrow> gh_identity \<Rightarrow> string \<Rightarrow> int option \<Rightarrow> bool" where
  "is_owned_managed_comment c actor q marker expected \<longleftrightarrow>
     c_author c = actor
     \<and> lower (c_repository_full_name c) = lower (gi_repository_full_name q)
     \<and> c_pull_request_number c = gi_pull_request_number q
     \<and> has_exact_marker (c_body c) marker
     \<and> (case expected of None \<Rightarrow> True | Some i \<Rightarrow> c_comment_id c = i)"

section \<open>Status\<close>

record gh_status =
  gs_request_id :: int
  gs_identity :: gh_identity
  gs_work_order_status :: string
  gs_reuse_policy :: reuse_policy
  gs_routing_policy :: routing_policy
  gs_maximum_cost_units :: "int option"
  gs_required_quota_units :: int
  gs_preferred_executor :: "string option"
  gs_terminal_run_id :: "int option"
  gs_terminal_run_status :: "string option"
  gs_evidence_fingerprint :: "string option"
  gs_publication :: gh_publication
  gs_publication_reason :: "string option"

text \<open>\<open>next((item for item in runs if item.id == request.terminal_run_id), runs[-1] if runs else None)\<close>.\<close>

definition status_run :: "run_row list \<Rightarrow> int option \<Rightarrow> run_row option" where
  "status_run rs i =
     (case find (\<lambda>r. Some (r_id r) = i) rs of
        Some r \<Rightarrow> Some r
      | None \<Rightarrow> if rs = [] then None else Some (last rs))"

definition status_fingerprint :: "service_env \<Rightarrow> exec_db \<Rightarrow> run_row option \<Rightarrow> exec_error + string option" where
  "status_fingerprint env db run =
     (case run of
        None \<Rightarrow> Inr None
      | Some r \<Rightarrow>
          if rp_evidence_metadata (r_report r) = None then Inr None
          else case get_run_evidence env db (r_id r) of
            Inr e \<Rightarrow> Inr (Some (ev_fingerprint e))
          | Inl (ExecutionNotFoundError m) \<Rightarrow> Inr None
          | Inl (MalformedEvidenceError m) \<Rightarrow> Inr None
          | Inl e \<Rightarrow> Inl e)"

definition status_of :: "gh_env \<Rightarrow> exec_db \<Rightarrow> gh_row \<Rightarrow> string option \<Rightarrow> exec_error + gh_status" where
  "status_of env db request override =
     rbind (get_work_order db (gi_work_order_id (g_identity request))) (\<lambda>wo.
       let rs = repo_list_runs db (Some (gi_work_order_id (g_identity request)));
           run = status_run rs (gp_terminal_run_id (g_publication request));
           q = o_request wo
       in rbind (status_fingerprint (ge_service env) db run) (\<lambda>fingerprint.
         Inr \<lparr>gs_request_id = g_id request, gs_identity = g_identity request,
              gs_work_order_status = work_order_status_value (o_status wo),
              gs_reuse_policy = oq_reuse_policy q, gs_routing_policy = oq_routing_policy q,
              gs_maximum_cost_units = oq_maximum_cost_units q, gs_required_quota_units = oq_required_quota_units q,
              gs_preferred_executor = oq_preferred_executor q,
              gs_terminal_run_id = map_option r_id run,
              gs_terminal_run_status = map_option (\<lambda>r. run_status_value (r_status r)) run,
              gs_evidence_fingerprint = fingerprint, gs_publication = g_publication request,
              gs_publication_reason =
                (case text_or_none override of Some r \<Rightarrow> Some r | None \<Rightarrow> gp_publication_reason (g_publication request))\<rparr>))"

definition gstatus :: "gh_env \<Rightarrow> 'g gh_transport \<Rightarrow> gh_row \<Rightarrow> string option \<Rightarrow> ('g, gh_status) gh" where
  "gstatus env T request override = gread T (\<lambda>w. lift_exec (status_of env (w_db w) request override))"

definition get_request :: "'g gh_transport \<Rightarrow> int \<Rightarrow> ('g, gh_row) gh" where
  "get_request T i =
     gread T (\<lambda>w. of_option (GitHubRequestNotFoundError ''github_request_not_found'') (gh_get (w_rows w) i))"

definition get_status :: "gh_env \<Rightarrow> 'g gh_transport \<Rightarrow> int \<Rightarrow> ('g, gh_status) gh" where
  "get_status env T i = gbind (get_request T i) (\<lambda>request. gstatus env T request None)"

section \<open>Requesting a validation\<close>

text \<open>\<open>tuple(dict.fromkeys(str(item["kind"]) for item in manifest.artifact_declarations))\<close>.\<close>

definition declared_artifact_kinds :: "json \<Rightarrow> string list" where
  "declared_artifact_kinds declarations =
     (case declarations of
        JList items \<Rightarrow>
          dedup (map (\<lambda>item. case item of
            JObj entries \<Rightarrow> (case map_of entries ''kind'' of Some v \<Rightarrow> str_of v | None \<Rightarrow> [])
          | _ \<Rightarrow> []) items)
      | _ \<Rightarrow> [])"

definition validation_draft :: "string \<Rightarrow> string \<Rightarrow> trusted_manifest \<Rightarrow> execution_policy \<Rightarrow> work_order_draft" where
  "validation_draft repository_full_name head_sha manifest policy =
     \<lparr>wd_schema_version = 1, wd_repository_full_name = repository_full_name, wd_commit_sha = head_sha,
      wd_manifest_name = tm_name manifest, wd_manifest_version = tm_version manifest,
      wd_manifest_parameters = [], wd_required_capabilities = tm_required_capabilities manifest,
      wd_permitted_paths = [],
      wd_forbidden_scope_notes =
        ''GitHub resolved identity only; canonical repository remains read-only and the exact commit must exist locally.'',
      wd_expected_artifact_kinds = declared_artifact_kinds (tm_artifact_declarations manifest),
      wd_approval_policy = APPROVAL_EXPLICIT, wd_timeout_seconds = tm_timeout_seconds manifest,
      wd_resource_metadata = [], wd_network_policy = tm_network_policy manifest,
      wd_repository_write_allowed = False, wd_preferred_executor = ep_preferred_executor policy,
      wd_cost_ceiling = Some ''0.0'', wd_reuse_policy = ep_reuse_policy policy,
      wd_routing_policy = ep_routing_policy policy, wd_maximum_cost_units = ep_maximum_cost_units policy,
      wd_required_quota_units = ep_required_quota_units policy\<rparr>"

definition request_identity ::
  "gh_env \<Rightarrow> string \<Rightarrow> string \<Rightarrow> actor_identity \<Rightarrow> resolved_pull_request \<Rightarrow> string \<Rightarrow> string \<Rightarrow> int
     \<Rightarrow> trusted_manifest \<Rightarrow> int \<Rightarrow> gh_identity" where
  "request_identity env key repository_full_name actor resolved head_sha head_repository head_repository_id manifest order_id =
     \<lparr>gi_schema_version = GITHUB_ADAPTER_SCHEMA_VERSION, gi_idempotency_key = key,
      gi_github_api_url = ge_api_url env, gi_github_host = ge_host env,
      gi_repository_full_name = repository_full_name, gi_repository_id = rq_repository_id resolved,
      gi_repository_node_id = rq_repository_node_id resolved, gi_github_actor_id = Some (a_actor_id actor),
      gi_github_actor_node_id = Some (a_node_id actor), gi_pull_request_number = rq_pull_request_number resolved,
      gi_pull_request_id = rq_pull_request_id resolved, gi_pull_request_node_id = rq_pull_request_node_id resolved,
      gi_pull_request_state = rq_state resolved, gi_pull_request_draft = rq_draft resolved,
      gi_pull_request_merged = rq_merged resolved, gi_base_ref = rq_base_ref resolved,
      gi_base_sha = rq_base_sha resolved, gi_head_ref = rq_head_ref resolved, gi_head_sha = head_sha,
      gi_head_repository_full_name = head_repository, gi_head_repository_id = head_repository_id,
      gi_manifest_name = tm_name manifest, gi_manifest_version = tm_version manifest,
      gi_manifest_digest = tm_digest manifest, gi_operator_id = ge_operator_id env, gi_work_order_id = order_id\<rparr>"

text \<open>The lookup by key, with the key of old requests tried when every policy field is the default.\<close>

definition find_request :: "gh_row list \<Rightarrow> string \<Rightarrow> string \<Rightarrow> execution_policy \<Rightarrow> gh_row option" where
  "find_request rows key legacy_key policy =
     (case gh_get_by_idempotency_key rows key of
        Some r \<Rightarrow> Some r
      | None \<Rightarrow> if uses_legacy_default_policy policy then gh_get_by_idempotency_key rows legacy_key else None)"

record fresh_ids =
  fi_manifest_id :: int
  fi_order_id :: int
  fi_request_id :: int

text \<open>
  The nested transaction that inserts the work order and the request: both or none. \<open>Inl\<close> is the
  exception, \<open>IntegrityError\<close> included.
\<close>

definition insert_request ::
  "gh_env \<Rightarrow> fresh_ids \<Rightarrow> time \<Rightarrow> work_order_draft \<Rightarrow> (int \<Rightarrow> gh_identity) \<Rightarrow> exec_db \<times> gh_row list
     \<Rightarrow> exec_error + (exec_db \<times> gh_row list) \<times> gh_row" where
  "insert_request env ids now draft identity = (\<lambda>(db, rows).
     rbind (create_work_order (ge_service env) db (fi_manifest_id ids) (fi_order_id ids) draft) (\<lambda>(db1, wo).
       case gh_create rows (fi_request_id ids) (identity (o_id wo)) now of
         None \<Rightarrow> Inl IntegrityError
       | Some (rows1, r) \<Rightarrow> Inr ((db1, rows1), r)))"

text \<open>The part after the lookup found nothing; a lost race is recovered by a second lookup.\<close>

definition create_request ::
  "gh_env \<Rightarrow> 'g gh_transport \<Rightarrow> fresh_ids \<Rightarrow> time \<Rightarrow> work_order_draft \<Rightarrow> (int \<Rightarrow> gh_identity) \<Rightarrow> (gh_row list \<Rightarrow> gh_row option)
     \<Rightarrow> ('g, gh_status) gh" where
  "create_request env T ids now draft identity lookup w0 =
     (let w = t_pause T w0
      in case insert_request env ids now draft identity (w_db w, w_rows w) of
        Inr ((db, rows), r) \<Rightarrow>
          (case status_of env db r None of
             Inl e \<Rightarrow> (Inl (OtherError e), w)
           | Inr s \<Rightarrow> (Inr s, w\<lparr>w_db := db, w_rows := rows\<rparr>))
      | Inl IntegrityError \<Rightarrow>
          (case lookup (w_rows w) of
             None \<Rightarrow> (Inl (OtherError IntegrityError), w)
           | Some r \<Rightarrow> (lift_exec (status_of env (w_db w) r None), w))
      | Inl e \<Rightarrow> (Inl (OtherError e), w))"

definition request_validation ::
  "gh_env \<Rightarrow> 'g gh_transport \<Rightarrow> fresh_ids \<Rightarrow> string \<Rightarrow> int \<Rightarrow> string \<Rightarrow> string \<Rightarrow> execution_policy
     \<Rightarrow> ('g, gh_status) gh" where
  "request_validation env T ids repository_full_name pull_request_number manifest_name manifest_version policy =
     (if repository_full_name \<notin> tp_full_name ` set (env_repositories (ge_service env))
      then gthrow (GitHubRepositoryNotAllowedError ''github_repository_not_allowed'')
      else case get_trusted_manifest (ge_service env) manifest_name manifest_version of
        None \<Rightarrow> gthrow (GitHubManifestError ''trusted_manifest_not_found'')
      | Some manifest \<Rightarrow>
          if \<not> repository_allows_manifest (ge_service env) repository_full_name manifest_name manifest_version
          then gthrow (GitHubManifestError ''repository_manifest_not_allowed'')
          else
            gbind (t_resolve_authenticated_actor T) (\<lambda>actor.
            gbind (t_resolve_pull_request T repository_full_name pull_request_number True) (\<lambda>resolved.
            case (rq_head_sha resolved, rq_head_repository_full_name resolved, rq_head_repository_id resolved) of
              (Some head_sha, Some head_repository, Some head_repository_id) \<Rightarrow>
                if lower (rq_repository_full_name resolved) \<noteq> lower repository_full_name
                then gthrow (GitHubTransportError ''github_transport_failed'')
                else
                  let key = idempotency_key env actor resolved head_sha manifest policy;
                      legacy_key = legacy_idempotency_key env actor resolved head_sha manifest;
                      lookup = (\<lambda>rows. find_request rows key legacy_key policy)
                  in gbind (gread T (\<lambda>w. Inr (lookup (w_rows w)))) (\<lambda>existing.
                     case existing of
                       Some r \<Rightarrow> gstatus env T r None
                     | None \<Rightarrow>
                         gbind (gclock T) (\<lambda>now.
                           create_request env T ids now
                             (validation_draft repository_full_name head_sha manifest policy)
                             (request_identity env key repository_full_name actor resolved head_sha
                               head_repository head_repository_id manifest)
                             lookup))
            | _ \<Rightarrow> gthrow (GitHubTransportError ''github_transport_failed''))))"

section \<open>The managed comment on the pull request\<close>

definition renew_claim_for_write :: "'g gh_transport \<Rightarrow> int \<Rightarrow> string option \<Rightarrow> ('g, unit) gh" where
  "renew_claim_for_write T request_id claim_token =
     (case claim_token of
        None \<Rightarrow> gret ()
      | Some token \<Rightarrow>
          gbind (gclock T) (\<lambda>now.
          gbind (grows T (\<lambda>rows. renew_publication_claim rows request_id token now (now + PUBLICATION_CLAIM_TTL))) (\<lambda>renewed.
            if \<not> renewed then gthrow (GitHubTransportError ''github_publication_claim_lost'') else gret ())))"

definition update_verified_comment ::
  "'g gh_transport \<Rightarrow> gh_row \<Rightarrow> actor_identity \<Rightarrow> gh_comment \<Rightarrow> string \<Rightarrow> string \<Rightarrow> string option \<Rightarrow> ('g, gh_comment) gh" where
  "update_verified_comment T request actor comment marker body claim_token =
     (let q = g_identity request; i = c_comment_id comment
      in gbind (t_get_comment T (gi_repository_full_name q) i) (\<lambda>verified.
         if \<not> is_owned_managed_comment verified actor q marker (Some i)
         then gthrow (GitHubTransportError ''github_publication_failed'')
         else
           gbind (renew_claim_for_write T (g_id request) claim_token) (\<lambda>_.
           gbind (t_update_comment T (gi_repository_full_name q) i body) (\<lambda>updated.
             if \<not> is_owned_managed_comment updated actor q marker (Some i)
             then gthrow (GitHubTransportError ''github_publication_failed'')
             else gret updated))))"

definition unique_owned_recovery_candidate ::
  "'g gh_transport \<Rightarrow> gh_row \<Rightarrow> actor_identity \<Rightarrow> string \<Rightarrow> ('g, gh_comment option) gh" where
  "unique_owned_recovery_candidate T request actor marker =
     (let q = g_identity request
      in gbind (t_list_comments T (gi_repository_full_name q) (gi_pull_request_number q)) (\<lambda>listing.
         let candidates = filter (\<lambda>c. is_owned_managed_comment c actor q marker None) (cl_comments listing)
         in if length candidates > 1 then gthrow (GitHubTransportError ''github_comment_recovery_ambiguous'')
            else if \<not> cl_complete listing then gthrow (GitHubTransportError ''github_comment_recovery_unverifiable'')
            else gret (first_of candidates)))"

text \<open>The creation after no managed comment was found, with the recovery of an ambiguous write.\<close>

definition create_managed_comment ::
  "'g gh_transport \<Rightarrow> gh_row \<Rightarrow> actor_identity \<Rightarrow> string \<Rightarrow> string \<Rightarrow> string option \<Rightarrow> ('g, gh_comment) gh" where
  "create_managed_comment T request actor marker body claim_token =
     (let q = g_identity request
      in gbind (renew_claim_for_write T (g_id request) claim_token) (\<lambda>_.
         gtry (t_create_comment T (gi_repository_full_name q) (gi_pull_request_number q) body) (\<lambda>created.
           case created of
             Inr c \<Rightarrow>
               if \<not> is_owned_managed_comment c actor q marker None
               then gthrow (GitHubTransportError ''github_publication_failed'') else gret c
           | Inl (GitHubAmbiguousWriteError m) \<Rightarrow>
               gbind (unique_owned_recovery_candidate T request actor marker) (\<lambda>recovered.
                 case recovered of
                   None \<Rightarrow> gthrow (GitHubAmbiguousWriteError m)
                 | Some c \<Rightarrow> update_verified_comment T request actor c marker body claim_token)
           | Inl e \<Rightarrow> gthrow e)))"

text \<open>The recovery of an unrecorded comment, or else its creation.\<close>

definition recover_or_create ::
  "'g gh_transport \<Rightarrow> gh_row \<Rightarrow> actor_identity \<Rightarrow> string \<Rightarrow> string \<Rightarrow> string option \<Rightarrow> ('g, gh_comment) gh" where
  "recover_or_create T request actor marker body claim_token =
     gbind (unique_owned_recovery_candidate T request actor marker) (\<lambda>recovered.
       case recovered of
         Some c \<Rightarrow> update_verified_comment T request actor c marker body claim_token
       | None \<Rightarrow> create_managed_comment T request actor marker body claim_token)"

definition upsert_managed_comment ::
  "'g gh_transport \<Rightarrow> gh_row \<Rightarrow> string \<Rightarrow> actor_identity option \<Rightarrow> string option \<Rightarrow> ('g, gh_comment) gh" where
  "upsert_managed_comment T request body actor_opt claim_token =
     (let q = g_identity request
      in case managed_comment_marker (gi_idempotency_key q) of
           Inl m \<Rightarrow> gthrow (OtherError (ValueError m))
         | Inr marker \<Rightarrow>
             gbind (case actor_opt of Some a \<Rightarrow> gret a | None \<Rightarrow> t_resolve_authenticated_actor T) (\<lambda>actor.
             if \<not> same_actor_identity q actor then gthrow (GitHubTransportError ''github_actor_mismatch'')
             else case gp_managed_comment_id (g_publication request) of
               None \<Rightarrow> recover_or_create T request actor marker body claim_token
             | Some i \<Rightarrow>
                 gtry (t_get_comment T (gi_repository_full_name q) i) (\<lambda>persisted.
                   case persisted of
                     Inl e \<Rightarrow>
                       if is_transport_error e \<and> gh_reason e = ''github_comment_not_found''
                       then recover_or_create T request actor marker body claim_token
                       else gthrow e
                   | Inr c \<Rightarrow>
                       if is_owned_managed_comment c actor q marker (Some i)
                       then update_verified_comment T request actor c marker body claim_token
                       else recover_or_create T request actor marker body claim_token)))"

section \<open>Publishing\<close>

text \<open>The newest terminal run whose evidence can be read.\<close>

fun readable_evidence ::
  "service_env \<Rightarrow> exec_db \<Rightarrow> run_row list \<Rightarrow> gh_error + (run_row \<times> execution_evidence)" where
  "readable_evidence env db [] = Inl (GitHubTerminalEvidenceRequiredError ''github_terminal_evidence_required'')"
| "readable_evidence env db (run # rest) =
     (if \<not> is_terminal_run (r_status run) then readable_evidence env db rest
      else case get_run_evidence env db (r_id run) of
        Inr e \<Rightarrow> Inr (run, e)
      | Inl (ExecutionNotFoundError m) \<Rightarrow> readable_evidence env db rest
      | Inl (MalformedEvidenceError m) \<Rightarrow> readable_evidence env db rest
      | Inl e \<Rightarrow> Inl (OtherError e))"

definition terminal_evidence :: "gh_env \<Rightarrow> exec_db \<Rightarrow> gh_identity \<Rightarrow> gh_error + (run_row \<times> execution_evidence)" where
  "terminal_evidence env db q =
     readable_evidence (ge_service env) db (rev (repo_list_runs db (Some (gi_work_order_id q))))"

definition finalize_claim ::
  "gh_env \<Rightarrow> 'g gh_transport \<Rightarrow> gh_row \<Rightarrow> string \<Rightarrow> (gh_publication \<Rightarrow> gh_publication) \<Rightarrow> ('g, gh_status) gh" where
  "finalize_claim env T request claim_token values =
     gbind (grows T (\<lambda>rows. finalize_publication_claim rows (g_id request) claim_token values)) (\<lambda>finalized.
     gbind (get_request T (g_id request)) (\<lambda>current.
       if \<not> finalized \<and> g_claim current \<noteq> None
       then gstatus env T current (Some ''github_publication_in_progress'')
       else gstatus env T current None))"

definition failed_values :: "int \<Rightarrow> string \<Rightarrow> string \<Rightarrow> gh_publication \<Rightarrow> gh_publication" where
  "failed_values run_id reason state p =
     p\<lparr>gp_terminal_run_id := Some run_id, gp_last_transport_reason := Some reason,
       gp_publication_reason := Some reason, gp_publication_state := state\<rparr>"

definition resolved_values ::
  "int \<Rightarrow> time \<Rightarrow> string option \<Rightarrow> string \<Rightarrow> string \<Rightarrow> string \<Rightarrow> gh_publication \<Rightarrow> gh_publication" where
  "resolved_values run_id now head decision state reason p =
     p\<lparr>gp_terminal_run_id := Some run_id, gp_last_resolved_at := now,
       gp_last_transport_reason := Some ''github_pr_resolved'', gp_publication_head_sha := head,
       gp_publication_decision := decision, gp_publication_state := state, gp_publication_reason := Some reason\<rparr>"

definition published_values ::
  "int \<Rightarrow> int \<Rightarrow> time \<Rightarrow> string option \<Rightarrow> string \<Rightarrow> time \<Rightarrow> gh_publication \<Rightarrow> gh_publication" where
  "published_values run_id comment_id now head decision published_at p =
     (resolved_values run_id now head decision
        (if decision = ''current'' then ''published_current'' else ''published_stale'')
        (if decision = ''current'' then ''github_publication_succeeded'' else ''github_publication_stale'') p)
     \<lparr>gp_managed_comment_id := Some comment_id, gp_published_at := Some published_at\<rparr>"

definition head_decision :: "string option \<Rightarrow> string \<Rightarrow> string \<times> string" where
  "head_decision resolved_head head_sha =
     (case resolved_head of
        None \<Rightarrow> (''stale'', ''github_head_unavailable'')
      | Some h \<Rightarrow> if h \<noteq> head_sha then (''stale'', ''github_head_changed'') else (''current'', ''github_pr_resolved''))"

text \<open>The body of the comment and the remote write, inside one \<^verbatim>\<open>try\<close>.\<close>

definition render_and_upsert ::
  "gh_env \<Rightarrow> 'g gh_transport \<Rightarrow> gh_row \<Rightarrow> execution_evidence \<Rightarrow> actor_identity \<Rightarrow> string \<Rightarrow> string \<Rightarrow> string
     \<Rightarrow> ('g, gh_comment) gh" where
  "render_and_upsert env T request evidence actor decision decision_reason claim_token =
     (case render_managed_comment (ge_percent env) (g_identity request) evidence decision decision_reason of
        Inl m \<Rightarrow> gthrow (OtherError (ValueError m))
      | Inr body \<Rightarrow> upsert_managed_comment T request body (Some actor) (Some claim_token))"

text \<open>The part of a publication after the pull request has been resolved.\<close>

definition publish_resolved ::
  "gh_env \<Rightarrow> 'g gh_transport \<Rightarrow> gh_row \<Rightarrow> string \<Rightarrow> int \<Rightarrow> execution_evidence \<Rightarrow> actor_identity \<Rightarrow> resolved_pull_request
     \<Rightarrow> ('g, gh_status) gh" where
  "publish_resolved env T request claim_token run_id evidence actor resolved =
     (let q = g_identity request; head = rq_head_sha resolved
      in gbind (gclock T) (\<lambda>now.
         if \<not> same_stable_identity q resolved
         then finalize_claim env T request claim_token
                (resolved_values run_id now head ''stale'' ''failed'' ''github_pr_identity_changed'')
         else case head_decision head (gi_head_sha q) of (decision, decision_reason) \<Rightarrow>
           gtry (render_and_upsert env T request evidence actor decision decision_reason claim_token) (\<lambda>written.
             case written of
               Inl e \<Rightarrow>
                 if is_adapter_error e
                 then finalize_claim env T request claim_token
                        (resolved_values run_id now head decision ''retryable_failure'' (gh_reason e))
                 else if is_value_error e
                 then finalize_claim env T request claim_token
                        (resolved_values run_id now head decision ''failed'' ''github_publication_failed'')
                 else gthrow e
             | Inr comment \<Rightarrow>
                 gbind (gclock T) (\<lambda>published_at.
                   finalize_claim env T request claim_token
                     (published_values run_id (c_comment_id comment) now head decision published_at)))))"

definition STALE_REASONS :: "string set" where
  "STALE_REASONS = {''github_pr_not_found'', ''github_repository_not_found'', ''github_head_unavailable''}"

definition publish_claimed :: "gh_env \<Rightarrow> 'g gh_transport \<Rightarrow> gh_row \<Rightarrow> string \<Rightarrow> ('g, gh_status) gh" where
  "publish_claimed env T request claim_token =
     (let q = g_identity request
      in gbind (gread T (\<lambda>w. terminal_evidence env (w_db w) q)) (\<lambda>(run, evidence).
         gtry (t_resolve_authenticated_actor T) (\<lambda>acting.
         case acting of
           Inl e \<Rightarrow>
             if is_adapter_error e
             then finalize_claim env T request claim_token
                    (failed_values (r_id run)
                      (if gh_reason e = ''github_rate_limited'' then ''github_rate_limited''
                       else ''github_actor_resolution_failed'') ''retryable_failure'')
             else gthrow e
         | Inr actor \<Rightarrow>
             case actor_identity_failure_reason q actor of
               Some reason \<Rightarrow> finalize_claim env T request claim_token (failed_values (r_id run) reason ''failed'')
             | None \<Rightarrow>
                 gtry (t_resolve_pull_request T (gi_repository_full_name q) (gi_pull_request_number q) False) (\<lambda>resolution.
                 case resolution of
                   Inl e \<Rightarrow>
                     if is_adapter_error e
                     then finalize_claim env T request claim_token (\<lambda>p.
                            let p1 = failed_values (r_id run) (gh_reason e) ''retryable_failure'' p
                            in if gh_reason e \<in> STALE_REASONS then p1\<lparr>gp_publication_decision := ''stale''\<rparr> else p1)
                     else gthrow e
                 | Inr resolved \<Rightarrow> publish_resolved env T request claim_token (r_id run) evidence actor resolved))))"

definition abort_values :: "string \<Rightarrow> gh_publication \<Rightarrow> gh_publication" where
  "abort_values reason p = p\<lparr>gp_publication_reason := Some reason, gp_publication_state := ''retryable_failure''\<rparr>"

definition publish :: "gh_env \<Rightarrow> 'g gh_transport \<Rightarrow> string \<Rightarrow> int \<Rightarrow> ('g, gh_status) gh" where
  "publish env T claim_token request_id =
     gbind (get_request T request_id) (\<lambda>request0.
     gbind (gclock T) (\<lambda>claimed_at.
     gbind (grows T (\<lambda>rows. acquire_publication_claim rows (g_id request0) claim_token claimed_at
                            (claimed_at + PUBLICATION_CLAIM_TTL))) (\<lambda>acquired.
     gbind (get_request T (g_id request0)) (\<lambda>request.
       if \<not> acquired then gstatus env T request (Some ''github_publication_in_progress'')
       else
         gtry (publish_claimed env T request claim_token) (\<lambda>result.
           case result of
             Inr s \<Rightarrow> gret s
           | Inl e \<Rightarrow>
               gbind (grows T (\<lambda>rows. finalize_publication_claim rows (g_id request0) claim_token
                        (abort_values (if is_adapter_error e then gh_reason e else ''github_publication_failed'')))) (\<lambda>_.
               gthrow e))))))"

section \<open>Request handlers\<close>

text \<open>The routes of \<^verbatim>\<open>server/api/routers/github_execution.py\<close>.\<close>

definition ends_with :: "string \<Rightarrow> string \<Rightarrow> bool" where
  "ends_with suffix s = (take (length suffix) (rev s) = rev suffix)"

fun raise_adapter_error :: "gh_error \<Rightarrow> 'a http" where
  "raise_adapter_error (GitHubRequestNotFoundError m) = HttpError 404 m"
| "raise_adapter_error (GitHubRepositoryNotAllowedError m) = HttpError 403 m"
| "raise_adapter_error (GitHubManifestError m) = HttpError 422 m"
| "raise_adapter_error (GitHubTerminalEvidenceRequiredError m) = HttpError 409 m"
| "raise_adapter_error (GitHubTransportError m) = HttpError (if ends_with ''_not_found'' m then 404 else 503) m"
| "raise_adapter_error (GitHubRateLimitedError m) = HttpError (if ends_with ''_not_found'' m then 404 else 503) m"
| "raise_adapter_error (GitHubAmbiguousWriteError m) = HttpError (if ends_with ''_not_found'' m then 404 else 503) m"
| "raise_adapter_error PyTypeError = HttpError 500 ''internal_error''"
| "raise_adapter_error (OtherError e) = HttpError 500 ''internal_error''"

text \<open>\<open>IntegrityError\<close> and \<open>ValueError\<close> are not domain errors: no route catches them.\<close>

fun raise_execution_error :: "gh_error \<Rightarrow> 'a http" where
  "raise_execution_error (OtherError (ExecutionNotFoundError m)) = HttpError 404 m"
| "raise_execution_error (OtherError IntegrityError) = HttpError 500 ''internal_error''"
| "raise_execution_error (OtherError (ValueError m)) = HttpError 500 ''internal_error''"
| "raise_execution_error (OtherError e) = HttpError 409 ''execution_lifecycle_conflict''"
| "raise_execution_error e = raise_adapter_error e"

definition gh_respond :: "(gh_error \<Rightarrow> 'a http) \<Rightarrow> (gh_error + 'a) \<times> 'g gh_world \<Rightarrow> 'g gh_world \<times> 'a http" where
  "gh_respond on_error r = (case r of (Inl e, w) \<Rightarrow> (w, on_error e) | (Inr s, w) \<Rightarrow> (w, Reply s))"

definition http_request_validation ::
  "gh_env \<Rightarrow> 'g gh_transport \<Rightarrow> fresh_ids \<Rightarrow> string \<Rightarrow> int \<Rightarrow> string \<Rightarrow> string \<Rightarrow> execution_policy
     \<Rightarrow> 'g gh_world \<Rightarrow> 'g gh_world \<times> gh_status http" where
  "http_request_validation env T ids repository_full_name number name version policy w =
     gh_respond raise_execution_error (request_validation env T ids repository_full_name number name version policy w)"

definition http_get_validation ::
  "gh_env \<Rightarrow> 'g gh_transport \<Rightarrow> int \<Rightarrow> 'g gh_world \<Rightarrow> 'g gh_world \<times> gh_status http" where
  "http_get_validation env T i w = gh_respond raise_adapter_error (get_status env T i w)"

definition http_publish ::
  "gh_env \<Rightarrow> 'g gh_transport \<Rightarrow> string \<Rightarrow> int \<Rightarrow> 'g gh_world \<Rightarrow> 'g gh_world \<times> gh_status http" where
  "http_publish env T token i w = gh_respond raise_adapter_error (publish env T token i w)"

end
