(* ===== verification/Github_Facts.thy ===== *)
theory Github_Facts
  imports Github_Service
begin

text \<open>
  What the GitHub adapter keeps while other requests interleave with it, as triples over the
  request table with the interference of the environment as a rely condition. Three groups: a
  publication ends with its claim released, on every path; a publication keeps the table coherent
  (a row that says it is published matches its own head); every remote write happens while the
  row carries the claim of the publication that writes.
\<close>

section \<open>Triples\<close>

text \<open>
  \<open>triple P m Q E\<close>: started in a request table with \<open>P\<close>, the call \<open>m\<close> ends in one with \<open>Q\<close> of its result
  or with \<open>E\<close> of its exception. \<open>rely T I\<close>: nothing that other requests do while this one waits
  destroys \<open>I\<close>.
\<close>

definition triple ::
  "(gh_row list \<Rightarrow> bool) \<Rightarrow> ('g, 'a) gh \<Rightarrow> ('a \<Rightarrow> gh_row list \<Rightarrow> bool) \<Rightarrow> (gh_error \<Rightarrow> gh_row list \<Rightarrow> bool) \<Rightarrow> bool" where
  "triple P m Q E \<longleftrightarrow> (\<forall>w. P (w_rows w) \<longrightarrow>
     (case m w of (Inr x, w') \<Rightarrow> Q x (w_rows w') | (Inl e, w') \<Rightarrow> E e (w_rows w')))"

definition keeps :: "(gh_row list \<Rightarrow> bool) \<Rightarrow> ('g, 'a) gh \<Rightarrow> bool" where
  "keeps I m \<longleftrightarrow> triple I m (\<lambda>_. I) (\<lambda>_. I)"

definition rely :: "'g gh_transport \<Rightarrow> (gh_row list \<Rightarrow> bool) \<Rightarrow> bool" where
  "rely T I \<longleftrightarrow>
     (\<forall>w. I (w_rows w) \<longrightarrow> I (w_rows (t_pause T w)))
     \<and> keeps I (t_resolve_authenticated_actor T)
     \<and> (\<forall>a b c. keeps I (t_resolve_pull_request T a b c))
     \<and> (\<forall>a b. keeps I (t_get_comment T a b)) \<and> (\<forall>a b. keeps I (t_list_comments T a b))
     \<and> (\<forall>a b c. keeps I (t_create_comment T a b c)) \<and> (\<forall>a b c. keeps I (t_update_comment T a b c))"

named_theorems triple_rules

lemma triple_gret [triple_rules]: "(\<And>rows. P rows \<Longrightarrow> Q x rows) \<Longrightarrow> triple P (gret x) Q E"
  by (simp add: triple_def gret_def)

lemma triple_gthrow [triple_rules]: "(\<And>rows. P rows \<Longrightarrow> E e rows) \<Longrightarrow> triple P (gthrow e) Q E"
  by (simp add: triple_def gthrow_def)

lemma triple_gbind: "triple P m R E \<Longrightarrow> (\<And>x. triple (R x) (f x) Q E) \<Longrightarrow> triple P (gbind m f) Q E"
  unfolding triple_def gbind_def by (fastforce split: sum.splits prod.splits)

lemma tripleD: "triple P m Q E \<Longrightarrow> P (w_rows w) \<Longrightarrow> m w = (r, w') \<Longrightarrow>
    (case r of Inr x \<Rightarrow> Q x (w_rows w') | Inl e \<Rightarrow> E e (w_rows w'))"
  unfolding triple_def by (cases r) fastforce+

lemma tripleI: "(\<And>w r w'. P (w_rows w) \<Longrightarrow> m w = (r, w') \<Longrightarrow>
    (case r of Inr x \<Rightarrow> Q x (w_rows w') | Inl e \<Rightarrow> E e (w_rows w'))) \<Longrightarrow> triple P m Q E"
  unfolding triple_def by (fastforce split: prod.splits)

lemma triple_gtry:
  assumes m: "triple P m R F" and r: "\<And>x. triple (R x) (f (Inr x)) Q E" and e: "\<And>e. triple (F e) (f (Inl e)) Q E"
  shows "triple P (gtry m f) Q E"
proof (rule tripleI)
  fix w r w'
  assume p: "P (w_rows w)" and run: "gtry m f w = (r, w')"
  obtain r1 w1 where m1: "m w = (r1, w1)" by (cases "m w")
  with run have f1: "f r1 w1 = (r, w')" by (simp add: gtry_def)
  from tripleD [OF m p m1] show "case r of Inr x \<Rightarrow> Q x (w_rows w') | Inl e \<Rightarrow> E e (w_rows w')"
    using f1 tripleD [OF r] tripleD [OF e] by (cases r1) simp_all
qed

lemma triple_weaken:
  "triple P' m Q' E' \<Longrightarrow> (\<And>rows. P rows \<Longrightarrow> P' rows) \<Longrightarrow> (\<And>x rows. Q' x rows \<Longrightarrow> Q x rows)
   \<Longrightarrow> (\<And>e rows. E' e rows \<Longrightarrow> E e rows) \<Longrightarrow> triple P m Q E"
  unfolding triple_def by (fastforce split: sum.splits prod.splits)

lemma triple_gclock: "triple P (gclock T) (\<lambda>_. P) E"
  by (simp add: triple_def gclock_def)

lemma triple_gread:
  assumes "rely T I" and "\<And>w x. I (w_rows w) \<Longrightarrow> f w = Inr x \<Longrightarrow> Q x (w_rows w)"
    and "\<And>w e. I (w_rows w) \<Longrightarrow> f w = Inl e \<Longrightarrow> E e (w_rows w)"
  shows "triple I (gread T f) Q E"
  using assms by (simp add: triple_def gread_def rely_def Let_def split: sum.split)

lemma triple_grows:
  assumes "rely T I" and "\<And>rows rows' ok. I rows \<Longrightarrow> f rows = Some (rows', ok) \<Longrightarrow> Q ok rows'"
    and "\<And>rows. I rows \<Longrightarrow> f rows = None \<Longrightarrow> E (OtherError IntegrityError) rows"
  shows "triple I (grows T f) Q E"
  using assms by (auto simp: triple_def grows_def rely_def Let_def split: option.split)

lemma keeps_gret [triple_rules]: "keeps I (gret x)"
  by (simp add: keeps_def triple_gret)

lemma keeps_gthrow [triple_rules]: "keeps I (gthrow e)"
  by (simp add: keeps_def triple_gthrow)

lemma keeps_gbind [triple_rules]: "keeps I m \<Longrightarrow> (\<And>x. keeps I (f x)) \<Longrightarrow> keeps I (gbind m f)"
  unfolding keeps_def by (rule triple_gbind)

lemma keeps_gtry [triple_rules]:
  "keeps I m \<Longrightarrow> (\<And>x. keeps I (f (Inr x))) \<Longrightarrow> (\<And>e. keeps I (f (Inl e))) \<Longrightarrow> keeps I (gtry m f)"
  unfolding keeps_def by (rule triple_gtry)

lemma keeps_gclock [triple_rules]: "keeps I (gclock T)"
  by (simp add: keeps_def triple_gclock)

lemma keeps_gread [triple_rules]: "rely T I \<Longrightarrow> keeps I (gread T f)"
  unfolding keeps_def by (rule triple_gread)

lemma keeps_grows:
  "rely T I \<Longrightarrow> (\<And>rows rows' ok. I rows \<Longrightarrow> f rows = Some (rows', ok) \<Longrightarrow> I rows') \<Longrightarrow> keeps I (grows T f)"
  unfolding keeps_def by (rule triple_grows)

lemma keeps_if [triple_rules]: "(b \<Longrightarrow> keeps I m) \<Longrightarrow> (\<not> b \<Longrightarrow> keeps I n) \<Longrightarrow> keeps I (if b then m else n)"
  by simp

lemma keeps_case_option [triple_rules]:
  "(v = None \<Longrightarrow> keeps I m) \<Longrightarrow> (\<And>x. v = Some x \<Longrightarrow> keeps I (f x)) \<Longrightarrow> keeps I (case_option m f v)"
  by (cases v) auto

lemma keeps_case_sum [triple_rules]:
  "(\<And>e. v = Inl e \<Longrightarrow> keeps I (g e)) \<Longrightarrow> (\<And>x. v = Inr x \<Longrightarrow> keeps I (f x)) \<Longrightarrow> keeps I (case_sum g f v)"
  by (cases v) auto

lemma triple_if:
  "(b \<Longrightarrow> triple P m Q E) \<Longrightarrow> (\<not> b \<Longrightarrow> triple P n Q E) \<Longrightarrow> triple P (if b then m else n) Q E"
  by simp

lemma triple_case_option:
  "(v = None \<Longrightarrow> triple P m Q E) \<Longrightarrow> (\<And>x. v = Some x \<Longrightarrow> triple P (f x) Q E) \<Longrightarrow> triple P (case_option m f v) Q E"
  by (cases v) auto

lemmas triple_cases = triple_if triple_case_option

lemma rely_calls [triple_rules]:
  assumes "rely T I"
  shows "keeps I (t_resolve_authenticated_actor T)" "keeps I (t_resolve_pull_request T a b c)"
    "keeps I (t_get_comment T d i)" "keeps I (t_list_comments T d i)"
    "keeps I (t_create_comment T d i e)" "keeps I (t_update_comment T d i e)"
  using assms by (simp_all add: rely_def)

lemma keeps_reads [triple_rules]:
  assumes "rely T I"
  shows "keeps I (get_request T i)" "keeps I (gstatus env T r x)" "keeps I (get_status env T i)"
  using assms by (auto simp: get_request_def gstatus_def get_status_def intro!: triple_rules)

lemma keepsD: "keeps I m \<Longrightarrow> I (w_rows w) \<Longrightarrow> I (w_rows (snd (m w)))"
  using tripleD [of I m "\<lambda>_. I" "\<lambda>_. I" w] unfolding keeps_def by (cases "m w"; cases "fst (m w)") auto

section \<open>The remote comment\<close>

text \<open>The writer of the comment only renews its claim.\<close>

lemma keeps_renew:
  assumes "rely T I" and "\<And>rows t e rows' ok. I rows \<Longrightarrow> renew_publication_claim rows i tok t e = Some (rows', ok) \<Longrightarrow> I rows'"
  shows "keeps I (renew_claim_for_write T i (Some tok))"
  using assms by (auto simp: renew_claim_for_write_def intro!: triple_rules keeps_grows)

lemma keeps_upsert:
  assumes "rely T I" and "\<And>rows t e rows' ok. I rows \<Longrightarrow> renew_publication_claim rows (g_id request) tok t e = Some (rows', ok) \<Longrightarrow> I rows'"
  shows "keeps I (upsert_managed_comment T request body a (Some tok))"
proof -
  note renew = keeps_renew [OF assms]
  have update: "keeps I (update_verified_comment T request actor c m body (Some tok))" for actor c m
    by (auto simp: update_verified_comment_def Let_def intro!: triple_rules assms(1) renew)
  have candidate: "keeps I (unique_owned_recovery_candidate T request actor m)" for actor m
    by (auto simp: unique_owned_recovery_candidate_def Let_def intro!: triple_rules assms(1))
  have create: "keeps I (create_managed_comment T request actor m body (Some tok))" for actor m
    unfolding create_managed_comment_def Let_def
    by (intro triple_rules assms(1) renew; auto split: gh_error.split option.split intro!: triple_rules candidate update)
  have recover: "keeps I (recover_or_create T request actor m body (Some tok))" for actor m
    unfolding recover_or_create_def by (intro triple_rules candidate update create)
  show ?thesis
    unfolding upsert_managed_comment_def Let_def
    by (intro triple_rules assms(1) recover update)
qed

lemma keeps_render_and_upsert:
  assumes "rely T I" and "\<And>rows t e rows' ok. I rows \<Longrightarrow> renew_publication_claim rows (g_id request) tok t e = Some (rows', ok) \<Longrightarrow> I rows'"
  shows "keeps I (render_and_upsert env T request ev actor d r tok)"
  unfolding render_and_upsert_def by (intro triple_rules keeps_upsert [OF assms])

section \<open>A publication releases its claim\<close>

definition released :: "int \<Rightarrow> string \<Rightarrow> gh_row list \<Rightarrow> bool" where
  "released i tok rows \<longleftrightarrow> gh_inv rows \<and> list_all (\<lambda>r. \<not> (g_id r = i \<and> holds_token tok r)) rows"

definition stopped :: "gh_error \<Rightarrow> gh_row list \<Rightarrow> bool" where
  "stopped e rows \<longleftrightarrow> gh_inv rows \<and> (\<not> is_adapter_error e \<or> between 1 64 (gh_reason e))"

lemma finalize_released:
  assumes "gh_inv rows" and "finalize_publication_claim rows i tok f = Some (rows', ok)"
  shows "released i tok rows'"
  using finalize_releases [OF assms] finalize_inv [OF assms]
  by (auto simp: released_def list_all_iff gh_get_iff)

lemma finalize_abort:
  assumes "gh_inv rows" and "between 1 64 reason"
  shows "finalize_publication_claim rows i tok (abort_values reason) \<noteq> None"
  using assms
  by (auto simp: finalize_publication_claim_def gh_commit_one_def gh_update_def gh_inv_def list_all_iff gh_row_ok_def
      gh_claim_ok_def gh_publication_ok_def abort_values_def split: option.splits)

lemma keeps_triple: "keeps I m \<Longrightarrow> triple I m (\<lambda>_. I) (\<lambda>_. I)"
  by (simp add: keeps_def)

lemma finalize_claim_releases:
  assumes "rely T gh_inv" and "rely T (released (g_id request) tok)"
  shows "triple gh_inv (finalize_claim env T request tok f) (\<lambda>_. released (g_id request) tok) stopped"
  unfolding finalize_claim_def
proof (rule triple_gbind)
  show "triple gh_inv (grows T (\<lambda>rows. finalize_publication_claim rows (g_id request) tok f))
    (\<lambda>_. released (g_id request) tok) stopped"
    by (rule triple_grows [OF assms(1)]) (auto simp: stopped_def intro: finalize_released)
  show "triple (released (g_id request) tok) (gbind (get_request T (g_id request)) (\<lambda>current.
      if \<not> x \<and> g_claim current \<noteq> None then gstatus env T current (Some ''github_publication_in_progress'')
      else gstatus env T current None)) (\<lambda>_. released (g_id request) tok) stopped" for x
  proof (rule triple_gbind)
    show "triple (released (g_id request) tok) (get_request T (g_id request)) (\<lambda>_. released (g_id request) tok) stopped"
      unfolding get_request_def
      by (rule triple_gread [OF assms(2)]) (auto simp: stopped_def released_def of_option_def between_def split: option.splits)
    have "triple (released (g_id request) tok) (gstatus env T r v) (\<lambda>_. released (g_id request) tok) stopped" for r v
      unfolding gstatus_def
      by (rule triple_gread [OF assms(2)]) (auto simp: stopped_def released_def lift_exec_def split: sum.splits)
    then show "triple (released (g_id request) tok) (if \<not> x \<and> g_claim r \<noteq> None
        then gstatus env T r (Some ''github_publication_in_progress'') else gstatus env T r None)
      (\<lambda>_. released (g_id request) tok) stopped" for r by simp
  qed
qed

lemma keeps_inv_upsert:
  "rely T gh_inv \<Longrightarrow> keeps gh_inv (render_and_upsert env T request ev actor d r tok)"
  by (rule keeps_render_and_upsert) (auto intro: renew_inv)

lemma stopped_throw: "\<not> is_adapter_error e \<Longrightarrow> triple gh_inv (gthrow e) Q stopped"
  by (rule triple_gthrow) (simp add: stopped_def)

lemma publish_resolved_releases:
  assumes "rely T gh_inv" and "rely T (released (g_id request) tok)"
  shows "triple gh_inv (publish_resolved env T request tok run_id ev actor resolved)
    (\<lambda>_. released (g_id request) tok) stopped"
proof -
  note fin = finalize_claim_releases [OF assms]
  have upsert: "triple gh_inv (render_and_upsert env T request ev actor d r tok) (\<lambda>_. gh_inv) (\<lambda>_. gh_inv)" for d r
    by (rule keeps_triple [OF keeps_inv_upsert [OF assms(1)]])
  show ?thesis
    unfolding publish_resolved_def Let_def
    apply (rule triple_gbind [OF triple_gclock])
    apply (rule triple_if [OF fin])
    apply (simp only: split_beta)
    apply (rule triple_gtry [OF upsert])
     apply (simp, rule triple_gbind [OF triple_gclock fin])
    apply (simp only: sum.case)
    apply (intro triple_if fin stopped_throw, assumption)
    done
qed

lemma terminal_evidence_error:
  "terminal_evidence env db q = Inl e \<Longrightarrow> \<not> is_adapter_error e \<or> between 1 64 (gh_reason e)"
proof -
  have "readable_evidence env db rs = Inl e \<Longrightarrow> \<not> is_adapter_error e \<or> between 1 64 (gh_reason e)" for env db rs
    by (induction env db rs rule: readable_evidence.induct)
      (auto simp: between_def split: if_splits sum.splits exec_error.splits)
  then show "terminal_evidence env db q = Inl e \<Longrightarrow> \<not> is_adapter_error e \<or> between 1 64 (gh_reason e)"
    by (simp add: terminal_evidence_def)
qed

lemma publish_claimed_releases:
  assumes "rely T gh_inv" and "rely T (released (g_id request) tok)"
  shows "triple gh_inv (publish_claimed env T request tok) (\<lambda>_. released (g_id request) tok) stopped"
proof -
  note fin = finalize_claim_releases [OF assms] and calls = rely_calls [OF assms(1), THEN keeps_triple]
  have evidence: "triple gh_inv (gread T (\<lambda>w. terminal_evidence env (w_db w) (g_identity request))) (\<lambda>_. gh_inv) stopped"
    by (rule triple_gread [OF assms(1)]) (auto simp: stopped_def dest: terminal_evidence_error)
  show ?thesis
    unfolding publish_claimed_def Let_def
    apply (rule triple_gbind [OF evidence])
    apply (simp only: split_beta)
    apply (rule triple_gtry [OF calls(1)])
     apply (simp only: sum.case)
     apply (rule triple_case_option)
      apply (rule triple_gtry [OF calls(2)])
       apply (simp only: sum.case)
       apply (rule publish_resolved_releases [OF assms])
      apply (simp only: sum.case, intro triple_if fin stopped_throw, assumption)
     apply (rule fin)
    apply (simp only: sum.case, intro triple_if fin stopped_throw, assumption)
    done
qed

lemma triple_fact: "(\<phi> \<Longrightarrow> triple P m Q E) \<Longrightarrow> triple (\<lambda>rows. P rows \<and> \<phi>) m Q E"
  by (auto simp: triple_def)

lemma read_request:
  assumes "rely T I"
  shows "triple I (get_request T i) (\<lambda>r rows. I rows \<and> (g_id r = i \<and> r \<in> set rows)) (\<lambda>_ rows. I rows \<and> gh_get rows i = None)"
  unfolding get_request_def
  by (rule triple_gread [OF assms]) (auto simp: of_option_def dest: gh_get_Some split: option.splits)

lemma absent_released: "gh_inv rows \<Longrightarrow> gh_get rows i = None \<Longrightarrow> released i tok rows"
  by (auto simp: released_def gh_get_def find_None_iff list_all_iff)

lemma abort_releases:
  assumes "rely T gh_inv"
  shows "triple (stopped e) (gbind (grows T (\<lambda>rows. finalize_publication_claim rows i tok
      (abort_values (if is_adapter_error e then gh_reason e else ''github_publication_failed'')))) (\<lambda>_. gthrow e))
    Q (\<lambda>_. released i tok)"
proof -
  let ?reason = "if is_adapter_error e then gh_reason e else ''github_publication_failed''"
  have "triple gh_inv (gbind (grows T (\<lambda>rows. finalize_publication_claim rows i tok (abort_values ?reason))) (\<lambda>_. gthrow e))
      Q (\<lambda>_. released i tok)" if "\<not> is_adapter_error e \<or> between 1 64 (gh_reason e)"
  proof (rule triple_gbind)
    have short: "between 1 64 ?reason" using that by (auto simp: between_def)
    show "triple gh_inv (grows T (\<lambda>rows. finalize_publication_claim rows i tok (abort_values ?reason)))
        (\<lambda>_. released i tok) (\<lambda>_. released i tok)"
      by (rule triple_grows [OF assms]) (rule finalize_released, assumption+, use finalize_abort [OF _ short] in blast)
    show "triple (released i tok) (gthrow e) Q (\<lambda>_. released i tok)" for x by (rule triple_gthrow)
  qed
  then show ?thesis unfolding stopped_def by (rule triple_fact)
qed

lemma acquire_released:
  assumes "rely T (released i tok)"
  shows "triple (released i tok) (grows T (\<lambda>rows. acquire_publication_claim rows i tok t e))
    (\<lambda>ok rows. if ok then gh_inv rows else released i tok rows) (\<lambda>_. released i tok)"
proof (rule triple_grows [OF assms])
  fix rows rows' ok
  assume rel: "released i tok rows" and acq: "acquire_publication_claim rows i tok t e = Some (rows', ok)"
  then have inv: "gh_inv rows" by (simp add: released_def)
  show "if ok then gh_inv rows' else released i tok rows'"
    using acquire_inv [OF inv acq] acquire_granted(3) [OF inv acq] rel by auto
qed

lemma publish_releases_triple:
  assumes "rely T gh_inv" and "rely T (released i tok)"
  shows "triple (released i tok) (publish env T tok i) (\<lambda>_. released i tok) (\<lambda>_. released i tok)"
proof -
  have claimed: "triple gh_inv (gtry (publish_claimed env T request tok) (\<lambda>result. case result of
         Inr s \<Rightarrow> gret s
       | Inl e \<Rightarrow> gbind (grows T (\<lambda>rows. finalize_publication_claim rows i tok
            (abort_values (if is_adapter_error e then gh_reason e else ''github_publication_failed'')))) (\<lambda>_. gthrow e)))
      (\<lambda>_. released i tok) (\<lambda>_. released i tok)" if "g_id request = i" for request
    using publish_claimed_releases [OF assms(1), of request tok env] assms(2) that
    by (intro triple_gtry [where R = "\<lambda>_. released i tok" and F = stopped])
      (simp_all add: triple_gret abort_releases [OF assms(1)])
  have inner: "triple (\<lambda>rows. if ok then gh_inv rows else released i tok rows) (gbind (get_request T i) (\<lambda>request.
       if \<not> ok then gstatus env T request (Some ''github_publication_in_progress'')
       else gtry (publish_claimed env T request tok) (\<lambda>result. case result of
         Inr s \<Rightarrow> gret s
       | Inl e \<Rightarrow> gbind (grows T (\<lambda>rows. finalize_publication_claim rows i tok
            (abort_values (if is_adapter_error e then gh_reason e else ''github_publication_failed'')))) (\<lambda>_. gthrow e))))
      (\<lambda>_. released i tok) (\<lambda>_. released i tok)" for ok
  proof (cases ok)
    case True
    have get: "triple gh_inv (get_request T i) (\<lambda>r rows. gh_inv rows \<and> g_id r = i) (\<lambda>_. released i tok)"
      by (rule triple_weaken [OF read_request [OF assms(1)]]) (auto intro: absent_released)
    show ?thesis using True by (simp add: triple_gbind [OF get] triple_fact claimed)
  next
    case False
    then show ?thesis using assms(2) by (simp add: keeps_triple triple_rules)
  qed
  have outer: "triple (released i tok) (get_request T i) (\<lambda>r rows. released i tok rows \<and> g_id r = i) (\<lambda>_. released i tok)"
    by (rule triple_weaken [OF read_request [OF assms(2)]]) auto
  show ?thesis
    unfolding publish_def
    apply (rule triple_gbind [OF outer])
    apply (rule triple_fact)
    apply (simp only:)
    apply (rule triple_gbind [OF triple_gclock])
    apply (rule triple_gbind [OF acquire_released [OF assms(2)] inner])
    done
qed

section \<open>What a published row says\<close>

definition coherent :: "gh_row \<Rightarrow> bool" where
  "coherent r \<longleftrightarrow>
     (let p = g_publication r; head = gi_head_sha (g_identity r);
          written = (gp_managed_comment_id p \<noteq> None \<and> gp_terminal_run_id p \<noteq> None \<and> gp_published_at p \<noteq> None)
      in (gp_publication_state p \<noteq> ''published_current''
            \<or> written \<and> gp_publication_decision p = ''current'' \<and> gp_publication_head_sha p = Some head)
         \<and> (gp_publication_state p \<noteq> ''published_stale''
            \<or> written \<and> gp_publication_decision p = ''stale'' \<and> gp_publication_head_sha p \<noteq> Some head))"

definition table_ok :: "(int \<Rightarrow> gh_identity) \<Rightarrow> gh_row list \<Rightarrow> bool" where
  "table_ok ids rows \<longleftrightarrow> gh_inv rows \<and> list_all (\<lambda>r. coherent r \<and> g_identity r = ids (g_id r)) rows"

lemma table_ok_update:
  assumes "table_ok ids rows" and "gh_update rows P f = Some (rows', ok)"
    and "\<And>r. g_id (f r) = g_id r \<and> g_identity (f r) = g_identity r"
    and "\<And>r. P r \<Longrightarrow> r \<in> set rows \<Longrightarrow> coherent r \<Longrightarrow> coherent (f r)"
  shows "table_ok ids rows'"
  using assms gh_update_inv [OF _ assms(2,3)]
  by (auto simp: table_ok_def list_all_iff gh_update_def set_update_where split: if_splits)

lemma table_ok_commit:
  assumes "table_ok ids rows" and "gh_commit_one rows P f = Some (rows', ok)"
    and "\<And>r. g_id (f r) = g_id r \<and> g_identity (f r) = g_identity r"
    and "\<And>r. P r \<Longrightarrow> r \<in> set rows \<Longrightarrow> coherent r \<Longrightarrow> coherent (f r)"
  shows "table_ok ids rows'"
  using assms(2) table_ok_update [OF assms(1) _ assms(3,4)] assms(1)
  by (auto simp: gh_commit_one_def split: option.splits if_splits)

lemma table_ok_acquire:
  "table_ok ids rows \<Longrightarrow> acquire_publication_claim rows i t a e = Some (rows', ok) \<Longrightarrow> table_ok ids rows'"
  unfolding acquire_publication_claim_def
  by (erule table_ok_commit, assumption) (simp_all add: start_claim_def coherent_def Let_def)

lemma table_ok_renew:
  "table_ok ids rows \<Longrightarrow> renew_publication_claim rows i t a e = Some (rows', ok) \<Longrightarrow> table_ok ids rows'"
  unfolding renew_publication_claim_def
  by (erule table_ok_update, assumption) (simp_all add: extend_claim_def coherent_def Let_def)

text \<open>The values that a publication of the request with identity \<open>q\<close> may write.\<close>

definition lawful :: "gh_identity \<Rightarrow> (gh_publication \<Rightarrow> gh_publication) \<Rightarrow> bool" where
  "lawful q f \<longleftrightarrow> (\<forall>r. g_identity r = q \<longrightarrow> coherent r \<longrightarrow> coherent (r\<lparr>g_publication := f (g_publication r), g_claim := None\<rparr>))"

lemma table_ok_finalize:
  assumes "table_ok ids rows" and "lawful (ids i) f" and "finalize_publication_claim rows i t f = Some (rows', ok)"
  shows "table_ok ids rows'"
  by (rule table_ok_commit [OF assms(1) assms(3) [unfolded finalize_publication_claim_def]])
    (use assms(1,2) in \<open>auto simp: table_ok_def lawful_def list_all_iff\<close>)

lemma lawful_values:
  "state \<notin> {''published_current'', ''published_stale''} \<Longrightarrow> lawful q (failed_values run reason state)"
  "state \<notin> {''published_current'', ''published_stale''} \<Longrightarrow> lawful q (resolved_values run now head decision state reason)"
  "lawful q (abort_values reason)"
  "head_decision head (gi_head_sha q) = (decision, why) \<Longrightarrow> lawful q (published_values run c now head decision at)"
  by (auto simp: lawful_def coherent_def Let_def failed_values_def resolved_values_def abort_values_def published_values_def
      head_decision_def split: option.splits if_splits)

lemma lawful_resolution_failure:
  "lawful q (\<lambda>p. let p1 = failed_values run reason ''retryable_failure'' p
     in if b then p1\<lparr>gp_publication_decision := ''stale''\<rparr> else p1)"
  by (simp add: lawful_def coherent_def Let_def failed_values_def)

lemma keeps_finalize_claim:
  assumes "rely T (table_ok ids)" and "lawful (ids (g_id request)) f"
  shows "keeps (table_ok ids) (finalize_claim env T request tok f)"
  unfolding finalize_claim_def
  by (intro triple_rules keeps_grows assms(1)) (rule table_ok_finalize [where i = "g_id request"], assumption, rule assms(2), assumption)

lemma keeps_publish_claimed:
  assumes "rely T (table_ok ids)" and "g_identity request = ids (g_id request)"
  shows "keeps (table_ok ids) (publish_claimed env T request tok)"
proof -
  note fin = keeps_finalize_claim [OF assms(1), of request]
  have upsert: "keeps (table_ok ids) (render_and_upsert env T request ev actor d r tok)" for ev actor d r
    by (rule keeps_render_and_upsert [OF assms(1)]) (rule table_ok_renew)
  have resolved: "keeps (table_ok ids) (publish_resolved env T request tok run ev actor res)" for run ev actor res
    unfolding publish_resolved_def Let_def split_beta
    by (intro triple_rules upsert fin; (simp add: lawful_values)?)
      (rule lawful_values(4), simp add: assms(2) [symmetric] prod_eq_iff)
  show ?thesis
    unfolding publish_claimed_def Let_def split_beta
    by (intro triple_rules assms(1) fin resolved; simp add: lawful_values lawful_resolution_failure [unfolded Let_def])
qed

lemma keeps_publish:
  assumes "rely T (table_ok ids)"
  shows "keeps (table_ok ids) (publish env T tok i)"
proof -
  have get: "triple (table_ok ids) (get_request T k)
      (\<lambda>r rows. table_ok ids rows \<and> (g_identity r = ids (g_id r) \<and> g_id r = k)) (\<lambda>_. table_ok ids)" for k
    by (rule triple_weaken [OF read_request [OF assms]]) (auto simp: table_ok_def list_all_iff)
  have claimed: "keeps (table_ok ids) (gtry (publish_claimed env T request tok) (\<lambda>result. case result of
         Inr s \<Rightarrow> gret s
       | Inl e \<Rightarrow> gbind (grows T (\<lambda>rows. finalize_publication_claim rows k tok
            (abort_values (if is_adapter_error e then gh_reason e else ''github_publication_failed'')))) (\<lambda>_. gthrow e)))"
    if "g_identity request = ids (g_id request)" for request k
    by (intro triple_rules keeps_publish_claimed keeps_grows assms that; (rule table_ok_finalize, assumption, rule lawful_values(3), assumption)?)
  have acquire: "keeps (table_ok ids) (grows T (\<lambda>rows. acquire_publication_claim rows k tok t e))" for k t e
    by (rule keeps_grows [OF assms]) (rule table_ok_acquire)
  show ?thesis
    unfolding publish_def
    apply (rule keeps_gbind [OF keeps_reads(1) [OF assms]])
    apply (rule keeps_gbind [OF keeps_gclock])
    apply (rule keeps_gbind [OF acquire])
    unfolding keeps_def
    apply (rule triple_gbind [OF get])
    apply (rule triple_fact)
    apply (rule keeps_triple)
    apply (intro keeps_if keeps_reads(2) assms)
    apply (rule claimed, blast)
    done
qed

section \<open>Writes are fenced\<close>

text \<open>
  \<open>fenced T i tok\<close> is the transport \<open>T\<close> with its two writes refused unless request \<open>i\<close> carries the
  claim token \<open>tok\<close> at that moment.
\<close>

definition fence :: "int \<Rightarrow> string \<Rightarrow> ('g, 'a) gh \<Rightarrow> ('g, 'a) gh" where
  "fence i tok m w =
     (if list_ex (\<lambda>r. g_id r = i \<and> holds_token tok r) (w_rows w) then m w
      else (Inl (GitHubTransportError ''unfenced_write''), w))"

definition fenced :: "'g gh_transport \<Rightarrow> int \<Rightarrow> string \<Rightarrow> 'g gh_transport" where
  "fenced T i tok =
     T\<lparr>t_create_comment := \<lambda>a b c. fence i tok (t_create_comment T a b c),
       t_update_comment := \<lambda>a b c. fence i tok (t_update_comment T a b c)\<rparr>"

lemma fenced_calls [simp]:
  "t_resolve_authenticated_actor (fenced T i tok) = t_resolve_authenticated_actor T"
  "t_resolve_pull_request (fenced T i tok) = t_resolve_pull_request T"
  "t_get_comment (fenced T i tok) = t_get_comment T"
  "t_list_comments (fenced T i tok) = t_list_comments T"
  "t_create_comment (fenced T i tok) a b c = fence i tok (t_create_comment T a b c)"
  "t_update_comment (fenced T i tok) a b c = fence i tok (t_update_comment T a b c)"
  "gclock (fenced T i tok) = gclock T" "grows (fenced T i tok) = grows T" "gread (fenced T i tok) = gread T"
  by (simp_all add: fenced_def gclock_def grows_def gread_def fun_eq_iff)

lemma fenced_reads [simp]:
  "get_request (fenced T i tok) = get_request T" "gstatus env (fenced T i tok) = gstatus env T"
  by (simp_all add: get_request_def gstatus_def fun_eq_iff)

lemma fenced_steps [simp]:
  "finalize_claim env (fenced T i tok) = finalize_claim env T"
  "renew_claim_for_write (fenced T i tok) = renew_claim_for_write T"
  "unique_owned_recovery_candidate (fenced T i tok) = unique_owned_recovery_candidate T"
  by (simp_all add: finalize_claim_def renew_claim_for_write_def unique_owned_recovery_candidate_def fun_eq_iff
      cong: option.case_cong if_cong)

lemma renewed_holds:
  assumes "renew_claim_for_write T i (Some tok) w = (Inr u, w')"
  shows "list_ex (\<lambda>r. g_id r = i \<and> holds_token tok r) (w_rows w')"
proof -
  have holds: "claim_live tok t r \<Longrightarrow> holds_token tok r" for t r
    by (auto simp: claim_live_def holds_token_def split: option.splits)
  from assms obtain now rows where
    "renew_publication_claim rows i tok now (now + PUBLICATION_CLAIM_TTL) = Some (w_rows w', True)"
    by (auto simp: renew_claim_for_write_def gbind_def gclock_def grows_def gret_def gthrow_def Let_def
        split: option.splits if_splits sum.splits prod.splits)
  then have "\<exists>r \<in> set (w_rows w'). g_id r = i \<and> claim_live tok now r"
    by (rule renew_live(2)) (simp add: PUBLICATION_CLAIM_TTL_def seconds_def)
  then show ?thesis using holds by (auto simp: list_ex_iff)
qed

lemma renew_then_fence:
  "gbind (renew_claim_for_write T i (Some tok)) (\<lambda>_. gbind (fence i tok m) k)
     = gbind (renew_claim_for_write T i (Some tok)) (\<lambda>_. gbind m k)"
  "gbind (renew_claim_for_write T i (Some tok)) (\<lambda>_. gtry (fence i tok m) h)
     = gbind (renew_claim_for_write T i (Some tok)) (\<lambda>_. gtry m h)"
  by (auto simp: gbind_def gtry_def fence_def fun_eq_iff dest!: renewed_holds split: prod.split sum.split)

lemma fenced_update: "update_verified_comment (fenced T (g_id request) tok) request actor c m body (Some tok)
    = update_verified_comment T request actor c m body (Some tok)"
  unfolding update_verified_comment_def Let_def by (simp only: fenced_calls fenced_reads fenced_steps renew_then_fence)

lemma fenced_create: "create_managed_comment (fenced T (g_id request) tok) request actor m body (Some tok)
    = create_managed_comment T request actor m body (Some tok)"
  unfolding create_managed_comment_def Let_def by (simp only: fenced_calls fenced_reads fenced_steps renew_then_fence fenced_update)

lemma fenced_upsert: "upsert_managed_comment (fenced T (g_id request) tok) request body a (Some tok)
    = upsert_managed_comment T request body a (Some tok)"
  unfolding upsert_managed_comment_def recover_or_create_def Let_def
  by (simp only: fenced_calls fenced_reads fenced_steps fenced_update fenced_create)

lemma fenced_publish_claimed:
  "publish_claimed env (fenced T (g_id request) tok) request tok = publish_claimed env T request tok"
  unfolding publish_claimed_def publish_resolved_def render_and_upsert_def Let_def
  by (simp only: fenced_calls fenced_reads fenced_steps fenced_upsert)

lemma get_request_cong:
  "(\<And>r w. g_id r = k \<Longrightarrow> f r w = g r w) \<Longrightarrow> gbind (get_request T k) f w = gbind (get_request T k) g w"
  by (auto simp: gbind_def get_request_def gread_def of_option_def Let_def dest: gh_get_Some split: option.split)

lemma fenced_publish: "publish env (fenced T i tok) tok i = publish env T tok i"
proof -
  have "gbind (get_request T k) (\<lambda>request. if \<not> ok then gstatus env T request x
      else gtry (publish_claimed env (fenced T k tok) request tok) h) w
    = gbind (get_request T k) (\<lambda>request. if \<not> ok then gstatus env T request x
      else gtry (publish_claimed env T request tok) h) w" for k ok x h w
    by (rule get_request_cong) (auto simp: fenced_publish_claimed)
  then have inner: "gbind (get_request T k) (\<lambda>request. if \<not> ok then gstatus env T request x
      else gtry (publish_claimed env (fenced T k tok) request tok) h)
    = gbind (get_request T k) (\<lambda>request. if \<not> ok then gstatus env T request x
      else gtry (publish_claimed env T request tok) h)" for k ok x h
    by blast
  show ?thesis
    unfolding publish_def fenced_calls fenced_reads
    by (rule ext, rule get_request_cong) (simp only: inner)
qed

section \<open>Creating a request\<close>

lemma find_request_new:
  assumes "find_request rows key legacy policy = None" and "gi_idempotency_key (g_identity r) = key"
  shows "find_request (rows @ [r]) key legacy policy = Some r"
proof -
  have "find P (xs @ [x]) = Some x" if "find P xs = None" "P x" for P xs and x :: gh_row
    using that by (induction xs) auto
  moreover have "gh_get_by_idempotency_key rows key = None" using assms(1) by (auto simp: find_request_def split: option.splits)
  ultimately show ?thesis using assms(2) by (simp add: find_request_def gh_get_by_idempotency_key_def)
qed

text \<open>What the creation of a request has done when it returns a status.\<close>

lemma create_request_ok:
  assumes "create_request env T ids now draft identity lookup w = (Inr s, w')" and "\<And>v. t_pause T v = v"
    and "lookup (w_rows w) = None"
  shows "\<exists>r k. w_rows w' = w_rows w @ [r] \<and> g_identity r = identity k \<and> status_of env (w_db w') r None = Inr s"
  using assms(1)
  by (auto simp: create_request_def insert_request_def gh_create_def assms(2,3) Let_def rbind_Inr_iff
      split: sum.splits exec_error.splits option.splits if_splits)

end
