(* ===== verification/Github_Properties.thy ===== *)
theory Github_Properties
  imports Github_Facts Execution_Samples
begin

text \<open>
  The properties of the GitHub adapter: fenced writes, released claims, coherent publication
  state, recognisable comments, idempotent requests.
\<close>

section \<open>A sample world\<close>

text \<open>A transport over a list of comments, with nobody else at work.\<close>

definition sample_actor :: actor_identity where
  "sample_actor = \<lparr>a_actor_id = 7, a_node_id = ''U_7''\<rparr>"

definition sample_resolved :: resolved_pull_request where
  "sample_resolved =
     \<lparr>rq_repository_full_name = ''O/r'', rq_repository_id = 3, rq_repository_node_id = ''R_3'',
      rq_pull_request_number = 12, rq_pull_request_id = 44, rq_pull_request_node_id = ''PR_44'', rq_state = ''open'',
      rq_draft = False, rq_merged = False, rq_base_ref = ''main'', rq_base_sha = replicate 40 (CHR ''b''),
      rq_head_ref = ''topic'', rq_head_sha = Some (replicate 40 (CHR ''a'')),
      rq_head_repository_full_name = Some ''o/r'', rq_head_repository_id = Some 3\<rparr>"

definition sample_comment :: "int \<Rightarrow> string \<Rightarrow> gh_comment" where
  "sample_comment i body =
     \<lparr>c_comment_id = i, c_body = body, c_author = sample_actor, c_repository_full_name = ''o/r'',
      c_pull_request_number = 12\<rparr>"

definition sample_transport :: "gh_comment list gh_transport" where
  "sample_transport =
     \<lparr>t_resolve_authenticated_actor = (\<lambda>w. (Inr sample_actor, w)),
      t_resolve_pull_request = (\<lambda>_ _ _ w. (Inr sample_resolved, w)),
      t_get_comment = (\<lambda>_ i w. (case find (\<lambda>c. c_comment_id c = i) (w_remote w) of
          None \<Rightarrow> Inl (GitHubTransportError ''github_comment_not_found'') | Some c \<Rightarrow> Inr c, w)),
      t_list_comments = (\<lambda>_ _ w. (Inr \<lparr>cl_comments = w_remote w, cl_complete = True\<rparr>, w)),
      t_create_comment = (\<lambda>_ _ body w.
        let c = sample_comment (int (length (w_remote w)) + 1) body in (Inr c, w\<lparr>w_remote := w_remote w @ [c]\<rparr>)),
      t_update_comment = (\<lambda>_ i body w. (Inr (sample_comment i body),
        w\<lparr>w_remote := map (\<lambda>c. if c_comment_id c = i then sample_comment i body else c) (w_remote w)\<rparr>)),
      t_pause = (\<lambda>w. w), t_clock = (\<lambda>_. seconds 100)\<rparr>"

definition sample_gh_env :: gh_env where
  "sample_gh_env =
     \<lparr>ge_service = sample_env\<lparr>env_manifests := [sample_manifest\<lparr>tm_digest := replicate 64 (CHR ''d'')\<rparr>]\<rparr>,
      ge_api_url = ''https://api.github.com'', ge_host = ''api.github.com'', ge_operator_id = ''operator'',
      ge_sha256 = (\<lambda>p. replicate 64 (if kp_execution_policy p = None then CHR ''0'' else CHR ''1'')),
      ge_percent = (\<lambda>s. s)\<rparr>"

definition sample_policy :: execution_policy where
  "sample_policy =
     \<lparr>ep_maximum_cost_units = None, ep_preferred_executor = None, ep_required_quota_units = 0,
      ep_reuse_policy = REUSE_NEVER, ep_routing_policy = FIRST_AVAILABLE\<rparr>"

definition sample_gh_request :: gh_row where
  "sample_gh_request =
     \<lparr>g_id = 1, g_identity = request_identity sample_gh_env (replicate 64 (CHR ''1'')) ''o/r'' sample_actor sample_resolved
        (replicate 40 (CHR ''a'')) ''o/r'' 3 (sample_manifest\<lparr>tm_digest := replicate 64 (CHR ''d'')\<rparr>) 1,
      g_publication = new_publication (seconds 1), g_claim = None\<rparr>"

text \<open>One request for the order whose run has completed with evidence.\<close>

definition sample_world :: "gh_comment list gh_world" where
  "sample_world =
     \<lparr>w_db = (case complete_run sample_env busy_db (seconds 4) 1 ''alpha'' sample_completion of
          Inr (db, r) \<Rightarrow> db | Inl e \<Rightarrow> busy_db),
      w_rows = [sample_gh_request], w_remote = []\<rparr>"

definition empty_world :: "gh_comment list gh_world" where
  "empty_world = \<lparr>w_db = empty_exec_db, w_rows = [], w_remote = []\<rparr>"

definition sample_ids :: "int \<Rightarrow> fresh_ids" where
  "sample_ids k = \<lparr>fi_manifest_id = k, fi_order_id = k, fi_request_id = k\<rparr>"

lemma sample_rely: "rely sample_transport I"
  by (simp add: rely_def keeps_def triple_def sample_transport_def Let_def)

section \<open>Properties\<close>

text \<open>
  C26. A publication writes to the pull request only while its request row carries the publication's
  own claim token: with every creation and update of a comment refused unless the token is there
  at that moment, a publication does exactly the same, whatever other requests do meanwhile.
\<close>

theorem publication_writes_fenced: "publish env (fenced T i tok) tok i = publish env T tok i"
  by (rule fenced_publish)

text \<open>
  C27. A publication gives its claim back: when it started, no row carried its token, and when it ends,
  with a status or with an exception on any path, its request does not carry the token, provided
  that other requests respect the constraints of the table and do not use the token.
\<close>

theorem publication_releases_claim:
  assumes "rely T gh_inv" and "rely T (released i tok)" and "released i tok (w_rows w)"
  shows "released i tok (w_rows (snd (publish env T tok i w)))"
  using keepsD [OF publish_releases_triple [OF assms(1,2), folded keeps_def] assms(3)] .

theorem publication_releases_claim_witness:
  "released 1 (replicate 64 (CHR ''t'')) (w_rows sample_world)
   \<and> released 1 (replicate 64 (CHR ''t'')) (w_rows (snd (publish sample_gh_env sample_transport (replicate 64 (CHR ''t'')) 1 sample_world)))
   \<and> length (w_remote (snd (publish sample_gh_env sample_transport (replicate 64 (CHR ''t'')) 1 sample_world))) = 1"
proof -
  have "released 1 (replicate 64 (CHR ''t'')) (w_rows sample_world)" by code_simp
  moreover from this have "released 1 (replicate 64 (CHR ''t''))
      (w_rows (snd (publish sample_gh_env sample_transport (replicate 64 (CHR ''t'')) 1 sample_world)))"
    by (rule publication_releases_claim [OF sample_rely sample_rely])
  moreover have "length (w_remote (snd (publish sample_gh_env sample_transport (replicate 64 (CHR ''t'')) 1 sample_world))) = 1"
    by code_simp
  ultimately show ?thesis by blast
qed

text \<open>
  C28. What a request row says of its publication stays true: a row in the state \<open>published_current\<close>
  names a comment, a terminal run and a publication time, was decided current and was resolved to
  exactly the head it was requested for; a row in the state \<open>published_stale\<close> was decided stale and
  was resolved to another head or to none. Every publication keeps this, with the table constraints
  and the immutable identity of each request, when the other requests do.
\<close>

theorem publication_coherent:
  assumes "rely T (table_ok ids)" and "table_ok ids (w_rows w)"
  shows "table_ok ids (w_rows (snd (publish env T tok i w)))"
  by (rule keepsD [OF keeps_publish [OF assms(1)] assms(2)])

theorem publication_coherent_witness:
  "table_ok (\<lambda>_. g_identity sample_gh_request)
     (w_rows (snd (publish sample_gh_env sample_transport (replicate 64 (CHR ''t'')) 1 sample_world)))
   \<and> map (\<lambda>r. gp_publication_state (g_publication r))
       (w_rows (snd (publish sample_gh_env sample_transport (replicate 64 (CHR ''t'')) 1 sample_world))) = [''published_current'']"
proof
  have "table_ok (\<lambda>_. g_identity sample_gh_request) (w_rows sample_world)" by code_simp
  then show "table_ok (\<lambda>_. g_identity sample_gh_request)
      (w_rows (snd (publish sample_gh_env sample_transport (replicate 64 (CHR ''t'')) 1 sample_world)))"
    by (rule publication_coherent [OF sample_rely])
  show "map (\<lambda>r. gp_publication_state (g_publication r))
      (w_rows (snd (publish sample_gh_env sample_transport (replicate 64 (CHR ''t'')) 1 sample_world))) = [''published_current'']"
    by code_simp
qed

text \<open>
  C31. Rendering and recognition are inverse: a rendered comment is bounded in size and carries the exact
  marker of one idempotency key, which is the key of the request it was rendered for.
\<close>

theorem rendered_comment_identified:
  assumes "render_managed_comment percent q e decision reason = Inr body"
  shows "(\<exists>marker. managed_comment_marker k = Inr marker \<and> has_exact_marker body marker) \<longleftrightarrow> k = gi_idempotency_key q"
proof -
  obtain m where m: "managed_comment_marker (gi_idempotency_key q) = Inr m" "has_exact_marker body m"
    using rendered_marker [OF assms] by blast
  show ?thesis
  proof
    assume "\<exists>marker. managed_comment_marker k = Inr marker \<and> has_exact_marker body marker"
    then obtain m' where m': "managed_comment_marker k = Inr m'" "has_exact_marker body m'" by blast
    with m have "m' = m" by (simp add: has_exact_marker_def)
    with m m' show "k = gi_idempotency_key q" using marker_injective by blast
  next
    assume "k = gi_idempotency_key q"
    with m show "\<exists>marker. managed_comment_marker k = Inr marker \<and> has_exact_marker body marker" by blast
  qed
qed

theorem rendered_comment_identified_witness:
  "\<exists>body. render_managed_comment (\<lambda>s. s) (g_identity sample_gh_request) (sample_evidence 1 1) ''current'' ''github_pr_resolved'' = Inr body
     \<and> (\<exists>marker. managed_comment_marker (replicate 64 (CHR ''1'')) = Inr marker \<and> has_exact_marker body marker)"
proof -
  let ?r = "render_managed_comment (\<lambda>s. s) (g_identity sample_gh_request) (sample_evidence 1 1) ''current'' ''github_pr_resolved''"
  have "\<not> isl ?r" by code_simp
  then obtain body where body: "?r = Inr body" by (cases ?r) auto
  have "replicate 64 (CHR ''1'') = gi_idempotency_key (g_identity sample_gh_request)" by code_simp
  with rendered_comment_identified [OF body] body show ?thesis by blast
qed

text \<open>
  A validation request is idempotent: asked again for the same pull request, manifest and policy
  while GitHub resolves it to the same identity and head, the service returns the same status and
  creates no second work order and no second request, whatever primary keys are free.
\<close>

theorem request_validation_idempotent:
  assumes "\<And>v. t_pause T v = v" and "\<And>v. t_resolve_authenticated_actor T v = (Inr actor, v)"
    and "\<And>v. t_resolve_pull_request T repository number True v = (Inr resolved, v)"
    and "request_validation env T ids repository number name version policy w = (Inr s, w')"
  shows "request_validation env T ids' repository number name version policy w' = (Inr s, w')"
proof -
  from assms(4) obtain manifest head hr hid where
    allowed: "repository \<in> tp_full_name ` set (env_repositories (ge_service env))"
    and manifest: "get_trusted_manifest (ge_service env) name version = Some manifest"
      "repository_allows_manifest (ge_service env) repository name version"
    and head: "rq_head_sha resolved = Some head" "rq_head_repository_full_name resolved = Some hr"
      "rq_head_repository_id resolved = Some hid" "lower (rq_repository_full_name resolved) = lower repository"
    by (auto simp: request_validation_def gbind_def gthrow_def assms(2,3) split: if_splits option.splits)
  let ?key = "idempotency_key env actor resolved head manifest policy"
  let ?lookup = "\<lambda>rows. find_request rows ?key (legacy_idempotency_key env actor resolved head manifest) policy"
  let ?identity = "request_identity env ?key repository actor resolved head hr hid manifest"
  have run: "request_validation env T ids repository number name version policy v =
      (case ?lookup (w_rows v) of
         Some r \<Rightarrow> (lift_exec (status_of env (w_db v) r None), v)
       | None \<Rightarrow> create_request env T ids (t_clock T (w_remote v)) (validation_draft repository head manifest policy)
           ?identity ?lookup v)" for ids v
    using allowed manifest head
    by (simp add: request_validation_def gbind_def gread_def gstatus_def gclock_def assms(1-3) Let_def split: option.split)
  show ?thesis
  proof (cases "?lookup (w_rows w)")
    case (Some r)
    with assms(4) have "w' = w" and "lift_exec (status_of env (w_db w) r None) = Inr s" by (auto simp: run)
    with Some show ?thesis by (simp add: run)
  next
    case None
    with assms(4) have created: "create_request env T ids (t_clock T (w_remote w)) (validation_draft repository head manifest policy)
        ?identity ?lookup w = (Inr s, w')" by (simp add: run)
    obtain r k where r: "w_rows w' = w_rows w @ [r]" "g_identity r = ?identity k"
      "status_of env (w_db w') r None = Inr s"
      using create_request_ok [OF created assms(1) None] by blast
    have "gi_idempotency_key (g_identity r) = ?key" by (simp add: r(2) request_identity_def)
    with find_request_new [OF None] r show ?thesis by (simp add: run lift_exec_def)
  qed
qed

theorem request_validation_idempotent_witness:
  "\<exists>s w. request_validation sample_gh_env sample_transport (sample_ids 1) ''o/r'' 12 ''smoke'' ''1'' sample_policy empty_world = (Inr s, w)
     \<and> length (w_rows w) = 1
     \<and> request_validation sample_gh_env sample_transport (sample_ids 2) ''o/r'' 12 ''smoke'' ''1'' sample_policy w = (Inr s, w)"
proof -
  let ?c = "request_validation sample_gh_env sample_transport (sample_ids 1) ''o/r'' 12 ''smoke'' ''1'' sample_policy empty_world"
  have "\<not> isl (fst ?c) \<and> length (w_rows (snd ?c)) = 1" by code_simp
  then obtain s w where c: "?c = (Inr s, w)" "length (w_rows w) = 1" by (cases ?c; cases "fst ?c") auto
  have "request_validation sample_gh_env sample_transport (sample_ids 2) ''o/r'' 12 ''smoke'' ''1'' sample_policy w = (Inr s, w)"
    by (rule request_validation_idempotent [OF _ _ _ c(1)]) (simp_all add: sample_transport_def)
  with c show ?thesis by blast
qed

end
