(* ===== verification/Github_Wire.thy ===== *)
theory Github_Wire
  imports Github_Service
begin

text \<open>
  The pure part of \<^verbatim>\<open>server/github_adapter/transport.py\<close>: URLs, limits on decoded documents,
  the decoders of repositories, pull requests, users and comments, pagination links and routes.
  The functions of the Python library that it uses are written out (\<open>urlsplit\<close>, \<open>quote\<close>, \<open>unquote\<close>,
  \<open>parse_qs\<close>, the patterns); \<open>json.loads\<close> and the check of a bracketed host are parameters.
\<close>

section \<open>URLs\<close>

text \<open>
  \<^verbatim>\<open>urllib.parse.urlsplit\<close> and the accessors of its result. \<open>bracket_ok\<close> is the library's check of a
  bracketed host; \<open>None\<close> is the \<open>ValueError\<close>.
\<close>

record url_parts =
  u_scheme :: string
  u_netloc :: string
  u_path :: string
  u_query :: string
  u_fragment :: string

definition ascii_alpha :: "char \<Rightarrow> bool" where
  "ascii_alpha c = (let n = (of_char c :: nat) in (65 \<le> n \<and> n \<le> 90) \<or> (97 \<le> n \<and> n \<le> 122))"

definition scheme_char :: "char \<Rightarrow> bool" where
  "scheme_char c = (ascii_alpha c \<or> is_digit c \<or> c \<in> {CHR ''+'', CHR ''-'', CHR ''.''})"

text \<open>\<open>cut p s\<close>: the text before the first character with \<open>p\<close>, and the rest from it on.\<close>

definition cut :: "(char \<Rightarrow> bool) \<Rightarrow> string \<Rightarrow> string \<times> string" where
  "cut p s = (takeWhile (\<lambda>c. \<not> p c) s, dropWhile (\<lambda>c. \<not> p c) s)"

definition split_scheme :: "string \<Rightarrow> string \<times> string" where
  "split_scheme url =
     (case cut (\<lambda>c. c = CHR '':'') url of
        (pre, rest) \<Rightarrow>
          if rest \<noteq> [] \<and> pre \<noteq> [] \<and> ascii_alpha (hd pre) \<and> list_all scheme_char pre
          then (lower pre, tl rest) else ([], url))"

definition split_netloc :: "string \<Rightarrow> string \<times> string" where
  "split_netloc url =
     (if take 2 url = ''//'' then cut (\<lambda>c. c \<in> {CHR ''/'', CHR ''?'', CHR ''#''}) (drop 2 url) else ([], url))"

definition urlsplit :: "(string \<Rightarrow> bool) \<Rightarrow> string \<Rightarrow> url_parts option" where
  "urlsplit bracket_ok url0 =
     (let url = filter (\<lambda>c. (of_char c :: nat) \<notin> {9, 10, 13}) (dropWhile (\<lambda>c. (of_char c :: nat) \<le> 32) url0)
      in case split_scheme url of
        (scheme, url1) \<Rightarrow> case split_netloc url1 of
          (netloc, url2) \<Rightarrow>
            if (CHR ''['' \<in> set netloc) \<noteq> (CHR '']'' \<in> set netloc) \<or> (CHR ''['' \<in> set netloc \<and> \<not> bracket_ok netloc)
            then None
            else case cut (\<lambda>c. c = CHR ''#'') url2 of
              (url3, fragment) \<Rightarrow> case cut (\<lambda>c. c = CHR ''?'') url3 of
                (hier, query) \<Rightarrow>
                  Some \<lparr>u_scheme = scheme, u_netloc = netloc, u_path = hier, u_query = tl query, u_fragment = tl fragment\<rparr>)"

definition has_userinfo :: "url_parts \<Rightarrow> bool" where
  "has_userinfo u = (CHR ''@'' \<in> set (u_netloc u))"

definition hostinfo :: "url_parts \<Rightarrow> string \<times> string" where
  "hostinfo u =
     (let h = rev (takeWhile (\<lambda>c. c \<noteq> CHR ''@'') (rev (u_netloc u)))
      in if CHR ''['' \<in> set h
         then (case cut (\<lambda>c. c = CHR '']'') (tl (snd (cut (\<lambda>c. c = CHR ''['') h))) of
                 (host, rest) \<Rightarrow> (host, tl (snd (cut (\<lambda>c. c = CHR '':'') (tl rest)))))
         else (case cut (\<lambda>c. c = CHR '':'') h of (host, rest) \<Rightarrow> (host, tl rest)))"

type_synonym origin = "string \<times> string \<times> nat option"

text \<open>The scheme, lower-case host and port; \<open>None\<close> when reading the port raises.\<close>

definition url_origin :: "url_parts \<Rightarrow> origin option" where
  "url_origin u =
     (case hostinfo u of
        (host, port) \<Rightarrow>
          if port = [] then Some (lower (u_scheme u), lower host, None)
          else if list_all is_digit port \<and> parse_nat port \<le> 65535
          then Some (lower (u_scheme u), lower host, Some (parse_nat port))
          else None)"

definition rstrip_slash :: "string \<Rightarrow> string" where
  "rstrip_slash s = rev (dropWhile (\<lambda>c. c = CHR ''/'') (rev s))"

definition starts_with :: "string \<Rightarrow> string \<Rightarrow> bool" where
  "starts_with prefix s = (take (length prefix) s = prefix)"

text \<open>\<^verbatim>\<open>quote(s, safe='')\<close> and \<^verbatim>\<open>unquote(s)\<close> on characters below 128.\<close>

definition unreserved :: "char \<Rightarrow> bool" where
  "unreserved c = (ascii_alpha c \<or> is_digit c \<or> c \<in> {CHR ''_'', CHR ''.'', CHR ''-'', CHR ''~''})"

definition hex_digit :: "nat \<Rightarrow> char" where
  "hex_digit n = (if n < 10 then char_of (n + 48) else char_of (n + 55))"

definition quote_byte :: "nat \<Rightarrow> string" where
  "quote_byte n = [CHR ''%'', hex_digit (n div 16), hex_digit (n mod 16)]"

definition quote_char :: "char \<Rightarrow> string" where
  "quote_char c =
     (let n = (of_char c :: nat)
      in if unreserved c then [c]
         else if n < 128 then quote_byte n
         else quote_byte (192 + n div 64) @ quote_byte (128 + n mod 64))"

definition quote :: "string \<Rightarrow> string" where
  "quote s = concat (map quote_char s)"

definition hex_value :: "char \<Rightarrow> nat option" where
  "hex_value c =
     (let n = (of_char c :: nat)
      in if is_digit c then Some (n - 48)
         else if 65 \<le> n \<and> n \<le> 70 then Some (n - 55)
         else if 97 \<le> n \<and> n \<le> 102 then Some (n - 87)
         else None)"

fun unquote :: "string \<Rightarrow> string" where
  "unquote (c # a # b # s) =
     (if c = CHR ''%''
      then (case (hex_value a, hex_value b) of
              (Some x, Some y) \<Rightarrow> char_of (16 * x + y) # unquote s
            | _ \<Rightarrow> c # unquote (a # b # s))
      else c # unquote (a # b # s))"
| "unquote s = s"

section \<open>Limits\<close>

definition MAX_GITHUB_RESPONSE_BYTES :: int where
  "MAX_GITHUB_RESPONSE_BYTES = 512 * 1024"

definition MAX_GITHUB_STRING_LENGTH :: int where
  "MAX_GITHUB_STRING_LENGTH = 65536"

definition MAX_GITHUB_COLLECTION_ITEMS :: nat where
  "MAX_GITHUB_COLLECTION_ITEMS = 100"

definition MAX_GITHUB_COMMENT_PAGES :: nat where
  "MAX_GITHUB_COMMENT_PAGES = 2"

definition MAX_GITHUB_LAST_PAGE :: int where
  "MAX_GITHUB_LAST_PAGE = 1000000"

definition MAX_GITHUB_JSON_NODES :: int where
  "MAX_GITHUB_JSON_NODES = 20000"

definition MAX_GITHUB_LINK_HEADER_LENGTH :: int where
  "MAX_GITHUB_LINK_HEADER_LENGTH = 4096"

definition MAX_GITHUB_NODE_ID_LENGTH :: int where
  "MAX_GITHUB_NODE_ID_LENGTH = 128"

definition MAX_MANAGED_COMMENT_BYTES :: int where
  "MAX_MANAGED_COMMENT_BYTES = 12 * 1024"

definition MAX_SAFE_GITHUB_ID :: int where
  "MAX_SAFE_GITHUB_ID = 2 ^ 63 - 1"

definition MAX_SAFE_PULL_REQUEST_NUMBER :: int where
  "MAX_SAFE_PULL_REQUEST_NUMBER = 2147483647"

definition SAFE_READ_ATTEMPTS :: nat where
  "SAFE_READ_ATTEMPTS = 3"

definition transport_failed :: "gh_error + 'a" where
  "transport_failed = Inl (GitHubTransportError ''github_transport_failed'')"

definition too_large :: "gh_error + 'a" where
  "too_large = Inl (GitHubTransportError ''github_response_too_large'')"

text \<open>\<open>visit\<close> counts the nodes of a decoded document and stops at the first excess.\<close>

fun visit :: "json \<Rightarrow> int \<Rightarrow> gh_error + int"
  and visit_items :: "json list \<Rightarrow> int \<Rightarrow> gh_error + int"
  and visit_values :: "(string \<times> json) list \<Rightarrow> int \<Rightarrow> gh_error + int" where
  "visit v n =
     (let nodes = n + 1
      in if nodes > MAX_GITHUB_JSON_NODES then too_large
         else case v of
           JStr s \<Rightarrow> if int (length s) > MAX_GITHUB_STRING_LENGTH then too_large else Inr nodes
         | JList items \<Rightarrow>
             if length items > MAX_GITHUB_COLLECTION_ITEMS then too_large else visit_items items nodes
         | JObj entries \<Rightarrow>
             if length entries > MAX_GITHUB_COLLECTION_ITEMS
                \<or> \<not> list_all (\<lambda>(k, _). int (length k) \<le> MAX_GITHUB_NODE_ID_LENGTH) entries
             then too_large else visit_values entries nodes
         | _ \<Rightarrow> Inr nodes)"
| "visit_items [] n = Inr n"
| "visit_items (v # vs) n = rbind (visit v n) (visit_items vs)"
| "visit_values [] n = Inr n"
| "visit_values ((k, v) # kvs) n = rbind (visit v n) (visit_values kvs)"

definition validate_json_limits :: "json \<Rightarrow> gh_error + unit" where
  "validate_json_limits v = rbind (visit v 0) (\<lambda>_. Inr ())"

text \<open>\<open>loads\<close> is \<^verbatim>\<open>json.loads\<close>; \<open>None\<close> is its decode error.\<close>

definition decode_json :: "(string \<Rightarrow> json option) \<Rightarrow> string \<Rightarrow> gh_error + json" where
  "decode_json loads payload =
     (if payload = [] then transport_failed
      else case loads payload of
        None \<Rightarrow> transport_failed
      | Some v \<Rightarrow> rbind (validate_json_limits v) (\<lambda>_. Inr v))"

section \<open>Decoding replies\<close>

definition REPOSITORY_FIELDS :: "string list" where
  "REPOSITORY_FIELDS =
     [''id'', ''node_id'', ''name'', ''full_name'', ''private'', ''owner'', ''html_url'',
      ''description'', ''fork'', ''url'', ''forks_url'', ''keys_url'', ''collaborators_url'',
      ''teams_url'', ''hooks_url'', ''issue_events_url'', ''events_url'', ''assignees_url'',
      ''branches_url'', ''tags_url'', ''blobs_url'', ''git_tags_url'', ''git_refs_url'',
      ''trees_url'', ''statuses_url'', ''languages_url'', ''stargazers_url'', ''contributors_url'',
      ''subscribers_url'', ''subscription_url'', ''commits_url'', ''git_commits_url'',
      ''comments_url'', ''issue_comment_url'', ''contents_url'', ''compare_url'', ''merges_url'',
      ''archive_url'', ''downloads_url'', ''issues_url'', ''pulls_url'', ''milestones_url'',
      ''notifications_url'', ''labels_url'', ''releases_url'', ''deployments_url'', ''created_at'',
      ''updated_at'', ''pushed_at'', ''git_url'', ''ssh_url'', ''clone_url'', ''svn_url'',
      ''homepage'', ''size'', ''stargazers_count'', ''watchers_count'', ''language'',
      ''has_issues'', ''has_projects'', ''has_downloads'', ''has_wiki'', ''has_pages'',
      ''has_discussions'', ''forks_count'', ''mirror_url'', ''archived'', ''disabled'',
      ''open_issues_count'', ''license'', ''allow_forking'', ''is_template'',
      ''web_commit_signoff_required'', ''topics'', ''visibility'', ''forks'', ''open_issues'',
      ''watchers'', ''default_branch'', ''temp_clone_token'', ''network_count'',
      ''subscribers_count'', ''permissions'', ''organization'', ''security_and_analysis'',
      ''custom_properties'']"

definition PULL_REQUEST_FIELDS :: "string list" where
  "PULL_REQUEST_FIELDS =
     [''url'', ''id'', ''node_id'', ''html_url'', ''diff_url'', ''patch_url'', ''issue_url'',
      ''number'', ''state'', ''locked'', ''title'', ''user'', ''body'', ''created_at'',
      ''updated_at'', ''closed_at'', ''merged_at'', ''merge_commit_sha'', ''assignee'',
      ''assignees'', ''requested_reviewers'', ''requested_teams'', ''labels'', ''milestone'',
      ''draft'', ''commits_url'', ''review_comments_url'', ''review_comment_url'',
      ''comments_url'', ''statuses_url'', ''head'', ''base'', ''_links'', ''author_association'',
      ''auto_merge'', ''active_lock_reason'', ''merged'', ''mergeable'', ''rebaseable'',
      ''mergeable_state'', ''merged_by'', ''comments'', ''review_comments'',
      ''maintainer_can_modify'', ''commits'', ''additions'', ''deletions'', ''changed_files'']"

definition PULL_REF_FIELDS :: "string list" where
  "PULL_REF_FIELDS =
     [''label'', ''ref'', ''sha'', ''user'', ''repo'']"

definition COMMENT_FIELDS :: "string list" where
  "COMMENT_FIELDS =
     [''url'', ''html_url'', ''issue_url'', ''id'', ''node_id'', ''user'', ''created_at'',
      ''updated_at'', ''author_association'', ''body'', ''reactions'', ''performed_via_github_app'']"

definition USER_FIELDS :: "string list" where
  "USER_FIELDS =
     [''login'', ''id'', ''node_id'', ''avatar_url'', ''gravatar_id'', ''url'', ''html_url'',
      ''followers_url'', ''following_url'', ''gists_url'', ''starred_url'', ''subscriptions_url'',
      ''organizations_url'', ''repos_url'', ''events_url'', ''received_events_url'', ''type'',
      ''user_view_type'', ''site_admin'', ''name'', ''company'', ''blog'', ''location'', ''email'',
      ''hireable'', ''bio'', ''twitter_username'', ''notification_email'', ''public_repos'',
      ''public_gists'', ''followers'', ''following'', ''created_at'', ''updated_at'',
      ''private_gists'', ''total_private_repos'', ''owned_private_repos'', ''disk_usage'',
      ''collaborators'', ''two_factor_authentication'', ''plan'', ''ldap_dn'', ''business_plus'',
      ''enterprise_managed_user'']"

definition strict_object :: "json \<Rightarrow> string list \<Rightarrow> string list \<Rightarrow> gh_error + json_object" where
  "strict_object value allowed required =
     (case value of
        JObj entries \<Rightarrow>
          if \<not> set required \<subseteq> fst ` set entries \<or> \<not> fst ` set entries \<subseteq> set allowed then transport_failed
          else Inr entries
      | _ \<Rightarrow> transport_failed)"

text \<open>\<open>payload[k]\<close> for a required key.\<close>

definition entry :: "json_object \<Rightarrow> string \<Rightarrow> json" where
  "entry payload k = (case map_of payload k of Some v \<Rightarrow> v | None \<Rightarrow> JNull)"

definition safe_id :: "json \<Rightarrow> gh_error + int" where
  "safe_id value =
     (case value of
        JInt n \<Rightarrow> if 1 \<le> n \<and> n \<le> MAX_SAFE_GITHUB_ID then Inr n else transport_failed
      | _ \<Rightarrow> transport_failed)"

definition node_id_char :: "char \<Rightarrow> bool" where
  "node_id_char c = (ascii_alpha c \<or> is_digit c \<or> c \<in> {CHR ''_'', CHR ''='', CHR ''-''})"

definition safe_node_id :: "json \<Rightarrow> gh_error + string" where
  "safe_node_id value =
     (case value of
        JStr s \<Rightarrow>
          if 1 \<le> length s \<and> int (length s) \<le> MAX_GITHUB_NODE_ID_LENGTH \<and> list_all node_id_char s then Inr s
          else transport_failed
      | _ \<Rightarrow> transport_failed)"

definition safe_repository_name :: "json \<Rightarrow> gh_error + string" where
  "safe_repository_name value =
     (case value of
        JStr s \<Rightarrow> (case validate_repository_full_name s of Inr r \<Rightarrow> Inr r | Inl _ \<Rightarrow> transport_failed)
      | _ \<Rightarrow> transport_failed)"

definition display_char :: "char \<Rightarrow> bool" where
  "display_char c = (let n = (of_char c :: nat) in 32 \<le> n \<and> n \<noteq> 127)"

definition safe_display_text :: "json \<Rightarrow> gh_error + string" where
  "safe_display_text value =
     (case value of
        JStr s \<Rightarrow> if 1 \<le> length s \<and> length s \<le> 255 \<and> list_all display_char s then Inr s else transport_failed
      | _ \<Rightarrow> transport_failed)"

definition is_sha :: "string \<Rightarrow> bool" where
  "is_sha s = (length s = 40 \<and>
     list_all (\<lambda>c. is_digit c \<or> (97 \<le> (of_char c :: nat) \<and> (of_char c :: nat) \<le> 102)) s)"

definition safe_sha :: "json \<Rightarrow> bool \<Rightarrow> gh_error + string option" where
  "safe_sha value required =
     (case value of
        JStr s \<Rightarrow>
          if is_sha s then Inr (Some s)
          else if required then Inl (GitHubTransportError ''github_head_unavailable'') else Inr None
      | _ \<Rightarrow> if required then Inl (GitHubTransportError ''github_head_unavailable'') else Inr None)"

record repository_identity =
  rid_full_name :: string
  rid_repository_id :: int
  rid_node_id :: string

definition decode_repository :: "json \<Rightarrow> gh_error + repository_identity" where
  "decode_repository value =
     rbind (strict_object value REPOSITORY_FIELDS [''id'', ''node_id'', ''full_name'']) (\<lambda>payload.
     rbind (safe_repository_name (entry payload ''full_name'')) (\<lambda>full_name.
     rbind (safe_id (entry payload ''id'')) (\<lambda>i.
     rbind (safe_node_id (entry payload ''node_id'')) (\<lambda>node.
       Inr \<lparr>rid_full_name = full_name, rid_repository_id = i, rid_node_id = node\<rparr>))))"

fun is_JObj :: "json \<Rightarrow> bool" where
  "is_JObj (JObj o') = True"
| "is_JObj _ = False"

definition decode_ref :: "json \<Rightarrow> bool \<Rightarrow> bool \<Rightarrow> gh_error + string \<times> string option \<times> repository_identity option" where
  "decode_ref value require_repository require_sha =
     (if value = JNull \<and> \<not> require_repository \<and> \<not> require_sha then Inr (''unavailable'', None, None)
      else
        rbind (strict_object value PULL_REF_FIELDS [''ref'', ''sha'', ''repo'']) (\<lambda>payload.
        rbind (if is_JObj (entry payload ''repo'')
               then rbind (decode_repository (entry payload ''repo'')) (\<lambda>r. Inr (Some r)) else Inr None) (\<lambda>repository.
          if require_repository \<and> repository = None then Inl (GitHubTransportError ''github_head_unavailable'')
          else rbind (safe_display_text (entry payload ''ref'')) (\<lambda>ref.
            if repository = None then Inr (ref, None, None)
            else rbind (safe_sha (entry payload ''sha'') require_sha) (\<lambda>sha. Inr (ref, sha, repository))))))"

text \<open>\<open>state not in {"open", "closed"}\<close>: a list or an object is not hashable, and the test raises.\<close>

definition decode_state :: "json \<Rightarrow> gh_error + string" where
  "decode_state value =
     (case value of
        JStr s \<Rightarrow> if s \<in> {''open'', ''closed''} then Inr s else transport_failed
      | JList _ \<Rightarrow> Inl PyTypeError
      | JObj _ \<Rightarrow> Inl PyTypeError
      | _ \<Rightarrow> transport_failed)"

definition decode_flag :: "json \<Rightarrow> gh_error + bool" where
  "decode_flag value = (case value of JBool b \<Rightarrow> Inr b | _ \<Rightarrow> transport_failed)"

text \<open>\<open>number == requested_number\<close>; a float equals an integer when it is whole.\<close>

definition same_number :: "json \<Rightarrow> int \<Rightarrow> bool" where
  "same_number value n = (py_eq value (JInt n) \<or> value = JFloat (show_int n @ ''.0''))"

definition decode_pull_request ::
  "json \<Rightarrow> repository_identity \<Rightarrow> int \<Rightarrow> bool \<Rightarrow> gh_error + resolved_pull_request" where
  "decode_pull_request value repository requested_number require_head =
     rbind (strict_object value PULL_REQUEST_FIELDS
              [''id'', ''node_id'', ''number'', ''state'', ''draft'', ''merged'', ''base'', ''head'']) (\<lambda>payload.
     if \<not> same_number (entry payload ''number'') requested_number then transport_failed
     else
       rbind (decode_state (entry payload ''state'')) (\<lambda>state.
       rbind (decode_flag (entry payload ''draft'')) (\<lambda>draft.
       rbind (decode_flag (entry payload ''merged'')) (\<lambda>merged.
       rbind (decode_ref (entry payload ''base'') True True) (\<lambda>(base_ref, base_sha, base_repository).
       case base_repository of
         None \<Rightarrow> transport_failed
       | Some base \<Rightarrow>
           if rid_repository_id base \<noteq> rid_repository_id repository \<or> rid_node_id base \<noteq> rid_node_id repository
           then transport_failed
           else
             rbind (decode_ref (entry payload ''head'') require_head require_head) (\<lambda>(head_ref, head_sha, head_repository).
             rbind (safe_id (entry payload ''id'')) (\<lambda>i.
             rbind (safe_node_id (entry payload ''node_id'')) (\<lambda>node.
               Inr \<lparr>rq_repository_full_name = rid_full_name repository, rq_repository_id = rid_repository_id repository,
                    rq_repository_node_id = rid_node_id repository, rq_pull_request_number = requested_number,
                    rq_pull_request_id = i, rq_pull_request_node_id = node, rq_state = state, rq_draft = draft,
                    rq_merged = merged, rq_base_ref = base_ref, rq_base_sha = text_or base_sha [],
                    rq_head_ref = head_ref, rq_head_sha = head_sha,
                    rq_head_repository_full_name = map_option rid_full_name head_repository,
                    rq_head_repository_id = map_option rid_repository_id head_repository\<rparr>))))))))"

definition decode_actor :: "json \<Rightarrow> gh_error + actor_identity" where
  "decode_actor value =
     rbind (strict_object value USER_FIELDS [''id'', ''node_id'']) (\<lambda>payload.
     rbind (safe_id (entry payload ''id'')) (\<lambda>i.
     rbind (safe_node_id (entry payload ''node_id'')) (\<lambda>node.
       Inr \<lparr>a_actor_id = i, a_node_id = node\<rparr>)))"

text \<open>What the constructor derives from the configured URL of the API.\<close>

record wire_config =
  wc_bracket_ok :: "string \<Rightarrow> bool"
  wc_loads :: "string \<Rightarrow> json option"
  wc_expected_origin :: origin
  wc_expected_path_prefix :: string

definition wire_config_of :: "(string \<Rightarrow> bool) \<Rightarrow> (string \<Rightarrow> json option) \<Rightarrow> string \<Rightarrow> wire_config option" where
  "wire_config_of bracket_ok loads api_url =
     (case urlsplit bracket_ok (rstrip_slash api_url @ ''/'') of
        None \<Rightarrow> None
      | Some u \<Rightarrow>
          (case url_origin u of
             None \<Rightarrow> None
           | Some origin \<Rightarrow>
               Some \<lparr>wc_bracket_ok = bracket_ok, wc_loads = loads, wc_expected_origin = origin,
                     wc_expected_path_prefix = u_path u\<rparr>))"

text \<open>
  \<open>int(s)\<close> of a text that is then compared with \<open>str(n)\<close>: any other text than the decimal digits of a
  natural number ends in the same error.
\<close>

definition canonical_nat :: "string \<Rightarrow> nat option" where
  "canonical_nat s = (if s \<noteq> [] \<and> list_all is_digit s \<and> show_nat (parse_nat s) = s then Some (parse_nat s) else None)"

definition number_in_range :: "int \<Rightarrow> bool" where
  "number_in_range n = (1 \<le> n \<and> n \<le> MAX_SAFE_PULL_REQUEST_NUMBER)"

text \<open>Here neither \<open>urlsplit\<close> nor the port is guarded: their \<open>ValueError\<close> is not translated.\<close>

definition decode_issue_association :: "wire_config \<Rightarrow> json \<Rightarrow> gh_error + string \<times> int" where
  "decode_issue_association cfg value =
     (case value of
        JStr s \<Rightarrow>
          if int (length s) > MAX_GITHUB_STRING_LENGTH then transport_failed
          else (case urlsplit (wc_bracket_ok cfg) s of
            None \<Rightarrow> Inl (OtherError (ValueError ''invalid URL''))
          | Some u \<Rightarrow>
              (case url_origin u of
                 None \<Rightarrow> Inl (OtherError (ValueError ''invalid port''))
               | Some origin \<Rightarrow>
                   let route_prefix = rstrip_slash (wc_expected_path_prefix cfg) @ ''/repos/''
                   in if origin \<noteq> wc_expected_origin cfg \<or> \<not> starts_with route_prefix (u_path u)
                         \<or> has_userinfo u \<or> u_query u \<noteq> [] \<or> u_fragment u \<noteq> []
                      then transport_failed
                      else case split_on (CHR ''/'') (drop (length route_prefix) (u_path u)) of
                        [owner_part, repository_part, issues, number_part] \<Rightarrow>
                          let owner = unquote owner_part; repository_name = unquote repository_part;
                              full_name = owner @ ''/'' @ repository_name
                          in if issues \<noteq> ''issues'' then transport_failed
                             else (case canonical_nat number_part of
                               None \<Rightarrow> transport_failed
                             | Some n \<Rightarrow>
                                 if validate_repository_full_name full_name \<noteq> Inr full_name
                                    \<or> quote owner \<noteq> owner_part \<or> quote repository_name \<noteq> repository_part
                                    \<or> \<not> number_in_range (int n)
                                 then transport_failed else Inr (full_name, int n))
                      | _ \<Rightarrow> transport_failed))
      | _ \<Rightarrow> transport_failed)"

definition decode_comment :: "wire_config \<Rightarrow> json \<Rightarrow> gh_error + gh_comment" where
  "decode_comment cfg value =
     rbind (strict_object value COMMENT_FIELDS [''id'', ''body'', ''issue_url'', ''user'']) (\<lambda>payload.
     case entry payload ''body'' of
       JStr body \<Rightarrow>
         if int (length body) > MAX_GITHUB_STRING_LENGTH then transport_failed
         else
           rbind (decode_issue_association cfg (entry payload ''issue_url'')) (\<lambda>(full_name, number).
           rbind (safe_id (entry payload ''id'')) (\<lambda>i.
           rbind (decode_actor (entry payload ''user'')) (\<lambda>author.
             Inr \<lparr>c_comment_id = i, c_body = body, c_author = author, c_repository_full_name = full_name,
                  c_pull_request_number = number\<rparr>)))
     | _ \<Rightarrow> transport_failed)"

fun decode_comments :: "wire_config \<Rightarrow> json list \<Rightarrow> gh_error + gh_comment list" where
  "decode_comments cfg [] = Inr []"
| "decode_comments cfg (v # vs) =
     rbind (decode_comment cfg v) (\<lambda>c. rbind (decode_comments cfg vs) (\<lambda>cs. Inr (c # cs)))"

definition decode_comment_page :: "wire_config \<Rightarrow> json \<Rightarrow> gh_error + gh_comment list" where
  "decode_comment_page cfg payload =
     (case payload of
        JList items \<Rightarrow>
          if length items > MAX_GITHUB_COLLECTION_ITEMS then transport_failed else decode_comments cfg items
      | _ \<Rightarrow> transport_failed)"

section \<open>Pagination\<close>

definition pagination_invalid :: "gh_error + 'a" where
  "pagination_invalid = Inl (GitHubTransportError ''github_pagination_invalid'')"

definition link_url_char :: "char \<Rightarrow> bool" where
  "link_url_char c = (c \<notin> {CHR ''<'', CHR ''>'', CHR 0x22} \<and> (let n = (of_char c :: nat) in 32 \<le> n \<and> n \<noteq> 127))"

definition relation_char :: "char \<Rightarrow> bool" where
  "relation_char c = (c = CHR '' '' \<or> (97 \<le> (of_char c :: nat) \<and> (of_char c :: nat) \<le> 122))"

text \<open>
  The pattern of one link: white space, a URL in angle brackets, a semicolon, \<open>rel\<close> with quoted
  relations. Every part ends at a character the next one cannot start with, so matching is
  deterministic.
\<close>

definition expect :: "string \<Rightarrow> string \<Rightarrow> string option" where
  "expect token s = (if starts_with token s then Some (drop (length token) s) else None)"

definition match_link :: "string \<Rightarrow> (string \<times> string) option" where
  "match_link item =
     (case expect ''<'' (dropWhile re_space item) of
        None \<Rightarrow> None
      | Some s1 \<Rightarrow>
          let url = takeWhile link_url_char s1
          in if url = [] then None
             else (case expect ''>'' (dropWhile link_url_char s1) of
               None \<Rightarrow> None
             | Some s2 \<Rightarrow>
                 (case expect '';'' (dropWhile re_space s2) of
                    None \<Rightarrow> None
                  | Some s3 \<Rightarrow>
                      (case expect (''rel='' @ [CHR 0x22]) (dropWhile re_space s3) of
                         None \<Rightarrow> None
                       | Some s4 \<Rightarrow>
                           let rel = takeWhile relation_char s4
                           in if rel = [] then None
                              else (case expect [CHR 0x22] (dropWhile relation_char s4) of
                                None \<Rightarrow> None
                              | Some s5 \<Rightarrow> if list_all re_space s5 then Some (url, rel) else None)))))"

definition words :: "string \<Rightarrow> string list" where
  "words s = filter (\<lambda>p. p \<noteq> []) (split_on (CHR '' '') s)"

fun last_urls :: "string list \<Rightarrow> gh_error + string list" where
  "last_urls [] = Inr []"
| "last_urls (item # items) =
     (case match_link item of
        None \<Rightarrow> pagination_invalid
      | Some (url, rel) \<Rightarrow>
          if words rel = [] \<or> \<not> set (words rel) \<subseteq> {''first'', ''last'', ''next'', ''prev''} then pagination_invalid
          else rbind (last_urls items) (\<lambda>urls. Inr (if ''last'' \<in> set (words rel) then url # urls else urls)))"

definition validated_last_link_url :: "string \<Rightarrow> gh_error + string" where
  "validated_last_link_url link =
     (if int (length link) > MAX_GITHUB_LINK_HEADER_LENGTH then pagination_invalid
      else rbind (last_urls (split_on (CHR '','') link)) (\<lambda>urls.
        case urls of [url] \<Rightarrow> Inr url | _ \<Rightarrow> pagination_invalid))"

text \<open>\<^verbatim>\<open>parse_qs(query, keep_blank_values=True, strict_parsing=True, max_num_fields=2)\<close>.\<close>

definition query_text :: "string \<Rightarrow> string" where
  "query_text s = unquote (map (\<lambda>c. if c = CHR ''+'' then CHR '' '' else c) s)"

fun query_fields :: "string list \<Rightarrow> (string \<times> string) list option" where
  "query_fields [] = Some []"
| "query_fields (f # fs) =
     (case cut (\<lambda>c. c = CHR ''='') f of
        (name, rest) \<Rightarrow>
          if rest = [] then None
          else map_option (\<lambda>kvs. (query_text name, query_text (tl rest)) # kvs) (query_fields fs))"

definition parse_qs :: "string \<Rightarrow> (string \<times> string) list option" where
  "parse_qs query =
     (if query = [] then Some []
      else let fields = split_on (CHR ''&'') query
           in if length fields > 2 then None else query_fields fields)"

definition query_values :: "(string \<times> string) list \<Rightarrow> string \<Rightarrow> string list" where
  "query_values q k = map snd (filter (\<lambda>(k', _). k' = k) q)"

definition validated_last_page :: "wire_config \<Rightarrow> string \<Rightarrow> string \<Rightarrow> gh_error + nat" where
  "validated_last_page cfg last_url expected_path =
     (case urlsplit (wc_bracket_ok cfg) last_url of
        None \<Rightarrow> pagination_invalid
      | Some u \<Rightarrow>
          (case url_origin u of
             None \<Rightarrow> pagination_invalid
           | Some origin \<Rightarrow>
               if origin \<noteq> wc_expected_origin cfg \<or> u_path u \<noteq> expected_path \<or> has_userinfo u \<or> u_fragment u \<noteq> []
               then pagination_invalid
               else (case parse_qs (u_query u) of
                 None \<Rightarrow> pagination_invalid
               | Some q \<Rightarrow>
                   (case (query_values q ''page'', query_values q ''per_page'') of
                      ([page_value], [per_page]) \<Rightarrow>
                        (case canonical_nat page_value of
                           None \<Rightarrow> pagination_invalid
                         | Some page \<Rightarrow>
                             if fst ` set q \<noteq> {''page'', ''per_page''}
                                \<or> per_page \<noteq> show_nat MAX_GITHUB_COLLECTION_ITEMS
                                \<or> \<not> (1 \<le> page \<and> int page \<le> MAX_GITHUB_LAST_PAGE)
                             then pagination_invalid else Inr page)
                    | _ \<Rightarrow> pagination_invalid))))"

definition last_comment_page :: "wire_config \<Rightarrow> string option \<Rightarrow> string \<Rightarrow> gh_error + nat" where
  "last_comment_page cfg link collection_route =
     (case link of
        None \<Rightarrow> Inr 1
      | Some l \<Rightarrow>
          rbind (validated_last_link_url l) (\<lambda>url.
            validated_last_page cfg url (rstrip_slash (wc_expected_path_prefix cfg) @ ''/'' @ collection_route)))"

section \<open>Routes and requests\<close>

definition repository_route :: "string \<Rightarrow> gh_error + string" where
  "repository_route full_name =
     (case validate_repository_full_name full_name of
        Inl _ \<Rightarrow> transport_failed
      | Inr _ \<Rightarrow>
          (case cut (\<lambda>c. c = CHR ''/'') full_name of
             (owner, rest) \<Rightarrow> Inr (''repos/'' @ quote owner @ ''/'' @ quote (tl rest))))"

definition comment_collection_route :: "string \<Rightarrow> int \<Rightarrow> gh_error + string" where
  "comment_collection_route full_name number =
     rbind (repository_route full_name) (\<lambda>route.
       if \<not> number_in_range number then transport_failed
       else Inr (route @ ''/issues/'' @ show_int number @ ''/comments''))"

definition validate_managed_body :: "string \<Rightarrow> gh_error + unit" where
  "validate_managed_body body =
     (if body = [] \<or> int (utf8_length body) > MAX_MANAGED_COMMENT_BYTES \<or> CHR 0x00 \<in> set body
      then Inl (GitHubTransportError ''github_publication_failed'') else Inr ())"

type_synonym headers = "(string \<times> string) list"

definition is_json_content_type :: "string \<Rightarrow> bool" where
  "is_json_content_type value =
     (strip (fst (cut (\<lambda>c. c = CHR '';'') (lower value))) \<in> {''application/json'', ''application/vnd.github+json''})"

definition is_rate_limited :: "int \<Rightarrow> headers \<Rightarrow> bool" where
  "is_rate_limited status headers =
     (if status = 429 then True
      else if status \<noteq> 403 then False
      else map_of headers ''x-ratelimit-remaining'' = Some ''0'' \<or> ''retry-after'' \<in> fst ` set headers)"

end
