(* ===== verification/Github_Transport.thy ===== *)
theory Github_Transport
  imports Github_Wire
begin

text \<open>
  \<open>GitHubTransport\<close> of \<^verbatim>\<open>server/github_adapter/transport.py\<close>: the exchange with the GitHub API, the
  bounded retries of safe reads, and the six operations. \<open>github_transport\<close> is the interface that
  \<open>Github_Service\<close> is parameterised over, filled in with this code; what is left open is one HTTP
  exchange and a wait.
\<close>

section \<open>Exchanges\<close>

text \<open>
  What a request to GitHub brings: no response (an \<open>httpx.TransportError\<close>), or the URL of the request
  as sent, the status, the headers with lower-case names, and the chunks of the body.
\<close>

datatype exchange = NoResponse | Response string int headers "string list"

text \<open>
  \<open>x_send\<close> performs one exchange (method, route, optional body) and \<open>x_sleep\<close> waits; other requests
  may act meanwhile.
\<close>

record 'g http_client =
  x_send :: "string \<Rightarrow> string \<Rightarrow> string option \<Rightarrow> 'g gh_world \<Rightarrow> exchange \<times> 'g gh_world"
  x_sleep :: "nat \<Rightarrow> 'g gh_world \<Rightarrow> 'g gh_world"

fun collect :: "string list \<Rightarrow> string \<Rightarrow> string option" where
  "collect [] acc = Some acc"
| "collect (chunk # chunks) acc =
     (let collected = acc @ chunk
      in if int (length collected) > MAX_GITHUB_RESPONSE_BYTES then None else collect chunks collected)"

definition validate_response_origin :: "wire_config \<Rightarrow> string \<Rightarrow> gh_error + unit" where
  "validate_response_origin cfg url =
     (case urlsplit (wc_bracket_ok cfg) url of
        None \<Rightarrow> Inl (OtherError (ValueError ''invalid URL''))
      | Some u \<Rightarrow>
          (case url_origin u of
             None \<Rightarrow> Inl (OtherError (ValueError ''invalid port''))
           | Some origin \<Rightarrow>
               if origin \<noteq> wc_expected_origin cfg \<or> \<not> starts_with (wc_expected_path_prefix cfg) (u_path u)
               then Inl (GitHubTransportError ''github_unexpected_host'') else Inr ()))"

definition route_ok :: "wire_config \<Rightarrow> string \<Rightarrow> gh_error + unit" where
  "route_ok cfg route =
     (if starts_with ''/'' route \<or> CHR 0x5C \<in> set route then transport_failed
      else case urlsplit (wc_bracket_ok cfg) route of
        None \<Rightarrow> Inl (OtherError (ValueError ''invalid URL''))
      | Some u \<Rightarrow>
          if u_scheme u \<noteq> [] \<or> ''..'' \<in> set (split_on (CHR ''/'') route) then transport_failed else Inr ())"

definition read_response ::
  "wire_config \<Rightarrow> exchange \<Rightarrow> gh_error + (int \<times> headers \<times> string) option" where
  "read_response cfg x =
     (case x of
        NoResponse \<Rightarrow> Inr None
      | Response url status headers chunks \<Rightarrow>
          rbind (validate_response_origin cfg url) (\<lambda>_.
            case collect chunks [] of
              None \<Rightarrow> too_large
            | Some payload \<Rightarrow> Inr (Some (status, headers, payload))))"

text \<open>\<open>_send\<close>; a result of \<open>None\<close> is the \<open>httpx.TransportError\<close>.\<close>

definition send ::
  "wire_config \<Rightarrow> 'g http_client \<Rightarrow> string \<Rightarrow> string \<Rightarrow> string option
     \<Rightarrow> ('g, (int \<times> headers \<times> string) option) gh" where
  "send cfg X verb route body w =
     (case route_ok cfg route of
        Inl e \<Rightarrow> (Inl e, w)
      | Inr _ \<Rightarrow> (case x_send X verb route body w of (x, w') \<Rightarrow> (read_response cfg x, w')))"

record http_request =
  hq_method :: string
  hq_route :: string
  hq_safe_read :: bool
  hq_not_found_reason :: string
  hq_json_body :: "string option"
  hq_ambiguous_write :: bool

definition safe_get :: "string \<Rightarrow> string \<Rightarrow> http_request" where
  "safe_get route not_found_reason =
     \<lparr>hq_method = ''GET'', hq_route = route, hq_safe_read = True, hq_not_found_reason = not_found_reason,
      hq_json_body = None, hq_ambiguous_write = False\<rparr>"

definition unsafe_write :: "string \<Rightarrow> string \<Rightarrow> string \<Rightarrow> bool \<Rightarrow> http_request" where
  "unsafe_write verb route body ambiguous_write =
     \<lparr>hq_method = verb, hq_route = route, hq_safe_read = False, hq_not_found_reason = ''github_transport_failed'',
      hq_json_body = Some body, hq_ambiguous_write = ambiguous_write\<rparr>"

definition TRANSIENT_READ_STATUSES :: "int set" where
  "TRANSIENT_READ_STATUSES = {502, 503, 504}"

definition AMBIGUOUS_WRITE_STATUSES :: "int set" where
  "AMBIGUOUS_WRITE_STATUSES = {408, 425, 500, 502, 503, 504}"

text \<open>The outcome of one attempt that cannot be repeated: the write may have happened, or the call failed.\<close>

definition give_up :: "http_request \<Rightarrow> gh_error" where
  "give_up q = (if hq_ambiguous_write q then GitHubAmbiguousWriteError ''github_publication_failed''
     else GitHubTransportError ''github_transport_failed'')"

text \<open>The reply of one attempt: \<open>None\<close> when its status asks for another attempt.\<close>

definition judge_reply ::
  "wire_config \<Rightarrow> http_request \<Rightarrow> int \<Rightarrow> headers \<Rightarrow> string \<Rightarrow> (gh_error + json \<times> headers) option" where
  "judge_reply cfg q status headers payload =
     (if 300 \<le> status \<and> status \<le> 399 then Some (Inl (GitHubTransportError ''github_redirect_rejected''))
      else if is_rate_limited status headers then Some (Inl (GitHubRateLimitedError ''github_rate_limited''))
      else if status = 404 then Some (Inl (GitHubTransportError (hq_not_found_reason q)))
      else if status \<in> TRANSIENT_READ_STATUSES then None
      else if hq_ambiguous_write q \<and> status \<in> AMBIGUOUS_WRITE_STATUSES
      then Some (Inl (GitHubAmbiguousWriteError ''github_publication_failed''))
      else if \<not> (200 \<le> status \<and> status \<le> 299) then Some transport_failed
      else if \<not> is_json_content_type (case map_of headers ''content-type'' of None \<Rightarrow> [] | Some t \<Rightarrow> t)
      then Some transport_failed
      else Some (rbind (decode_json (wc_loads cfg) payload) (\<lambda>v. Inr (v, headers))))"

definition sleep :: "'g http_client \<Rightarrow> nat \<Rightarrow> ('g, unit) gh" where
  "sleep X n w = (Inr (), x_sleep X n w)"

text \<open>\<open>attempts_left\<close> counts this attempt; the loop is bounded by the number of attempts.\<close>

primrec request_attempts ::
  "wire_config \<Rightarrow> 'g http_client \<Rightarrow> http_request \<Rightarrow> nat \<Rightarrow> nat \<Rightarrow> ('g, json \<times> headers) gh" where
  "request_attempts cfg X q attempts 0 = gthrow (GitHubTransportError ''github_transport_failed'')"
| "request_attempts cfg X q attempts (Suc left) =
     gbind (send cfg X (hq_method q) (hq_route q) (hq_json_body q)) (\<lambda>reply.
       let again = (if hq_safe_read q \<and> left > 0
             then gbind (sleep X (attempts - left)) (\<lambda>_. request_attempts cfg X q attempts left)
             else gthrow (give_up q))
       in case reply of
            None \<Rightarrow> again
          | Some (status, headers, payload) \<Rightarrow>
              (case judge_reply cfg q status headers payload of
                 None \<Rightarrow> again
               | Some (Inl e) \<Rightarrow> gthrow e
               | Some (Inr v) \<Rightarrow> gret v))"

definition request_json_with_headers ::
  "wire_config \<Rightarrow> 'g http_client \<Rightarrow> http_request \<Rightarrow> ('g, json \<times> headers) gh" where
  "request_json_with_headers cfg X q =
     (let attempts = (if hq_safe_read q then SAFE_READ_ATTEMPTS else 1) in request_attempts cfg X q attempts attempts)"

definition request_json :: "wire_config \<Rightarrow> 'g http_client \<Rightarrow> http_request \<Rightarrow> ('g, json) gh" where
  "request_json cfg X q = gbind (request_json_with_headers cfg X q) (\<lambda>(payload, _). gret payload)"

definition glift :: "gh_error + 'a \<Rightarrow> ('g, 'a) gh" where
  "glift r w = (r, w)"

section \<open>Operations\<close>

definition resolve_pull_request ::
  "wire_config \<Rightarrow> 'g http_client \<Rightarrow> string \<Rightarrow> int \<Rightarrow> bool \<Rightarrow> ('g, resolved_pull_request) gh" where
  "resolve_pull_request cfg X full_name number require_head =
     gbind (glift (repository_route full_name)) (\<lambda>route.
     if \<not> number_in_range number then glift transport_failed
     else
       gbind (request_json cfg X (safe_get route ''github_repository_not_found'')) (\<lambda>repository_payload.
       gbind (glift (decode_repository repository_payload)) (\<lambda>repository.
       gbind (request_json cfg X (safe_get (route @ ''/pulls/'' @ show_int number) ''github_pr_not_found'')) (\<lambda>pull_payload.
         glift (decode_pull_request pull_payload repository number require_head)))))"

definition page_route :: "string \<Rightarrow> nat \<Rightarrow> string" where
  "page_route collection_route page =
     collection_route @ ''?per_page='' @ show_nat MAX_GITHUB_COLLECTION_ITEMS @ ''&page='' @ show_nat page"

definition get_page ::
  "wire_config \<Rightarrow> 'g http_client \<Rightarrow> string \<Rightarrow> nat \<Rightarrow> ('g, gh_comment list) gh" where
  "get_page cfg X collection_route page =
     gbind (request_json cfg X (safe_get (page_route collection_route page) ''github_pr_not_found'')) (\<lambda>payload.
       glift (decode_comment_page cfg payload))"

definition list_comments :: "wire_config \<Rightarrow> 'g http_client \<Rightarrow> string \<Rightarrow> int \<Rightarrow> ('g, comment_listing) gh" where
  "list_comments cfg X full_name number =
     gbind (glift (comment_collection_route full_name number)) (\<lambda>route.
     gbind (request_json_with_headers cfg X (safe_get (page_route route 1) ''github_pr_not_found'')) (\<lambda>(first_payload, first_headers).
     gbind (glift (decode_comment_page cfg first_payload)) (\<lambda>first_page.
     gbind (glift (last_comment_page cfg (map_of first_headers ''link'') route)) (\<lambda>last_page.
       if last_page = 1 then gret \<lparr>cl_comments = first_page, cl_complete = True\<rparr>
       else
         gbind (get_page cfg X route last_page) (\<lambda>newest_page.
           if last_page = MAX_GITHUB_COMMENT_PAGES
           then gret \<lparr>cl_comments = newest_page @ first_page, cl_complete = True\<rparr>
           else
             gbind (get_page cfg X route (last_page - 1)) (\<lambda>preceding_page.
               gret \<lparr>cl_comments = newest_page @ preceding_page, cl_complete = False\<rparr>))))))"

definition resolve_authenticated_actor :: "wire_config \<Rightarrow> 'g http_client \<Rightarrow> ('g, actor_identity) gh" where
  "resolve_authenticated_actor cfg X =
     gtry (gbind (request_json cfg X (safe_get ''user'' ''github_transport_failed'')) (\<lambda>payload. glift (decode_actor payload)))
       (\<lambda>r. case r of
          Inr a \<Rightarrow> gret a
        | Inl (GitHubRateLimitedError m) \<Rightarrow> gthrow (GitHubRateLimitedError m)
        | Inl e \<Rightarrow> gthrow (if is_transport_error e then GitHubTransportError ''github_actor_resolution_failed'' else e))"

definition comment_id_ok :: "int \<Rightarrow> bool" where
  "comment_id_ok i = (1 \<le> i \<and> i \<le> MAX_SAFE_GITHUB_ID)"

definition expect_comment :: "wire_config \<Rightarrow> int \<Rightarrow> json \<Rightarrow> gh_error + gh_comment" where
  "expect_comment cfg i payload =
     rbind (decode_comment cfg payload) (\<lambda>c. if c_comment_id c \<noteq> i then transport_failed else Inr c)"

definition comment_route :: "string \<Rightarrow> int \<Rightarrow> string" where
  "comment_route route i = route @ ''/issues/comments/'' @ show_int i"

definition get_comment :: "wire_config \<Rightarrow> 'g http_client \<Rightarrow> string \<Rightarrow> int \<Rightarrow> ('g, gh_comment) gh" where
  "get_comment cfg X full_name i =
     (if \<not> comment_id_ok i then glift transport_failed
      else
        gbind (glift (repository_route full_name)) (\<lambda>route.
        gbind (request_json cfg X (safe_get (comment_route route i) ''github_comment_not_found'')) (\<lambda>payload.
          glift (expect_comment cfg i payload))))"

definition create_comment :: "wire_config \<Rightarrow> 'g http_client \<Rightarrow> string \<Rightarrow> int \<Rightarrow> string \<Rightarrow> ('g, gh_comment) gh" where
  "create_comment cfg X full_name number body =
     gbind (glift (validate_managed_body body)) (\<lambda>_.
     gbind (glift (comment_collection_route full_name number)) (\<lambda>route.
     gbind (request_json cfg X (unsafe_write ''POST'' route body True)) (\<lambda>payload.
       glift (decode_comment cfg payload))))"

definition update_comment :: "wire_config \<Rightarrow> 'g http_client \<Rightarrow> string \<Rightarrow> int \<Rightarrow> string \<Rightarrow> ('g, gh_comment) gh" where
  "update_comment cfg X full_name i body =
     gbind (glift (validate_managed_body body)) (\<lambda>_.
     if \<not> comment_id_ok i then glift transport_failed
     else
       gbind (glift (repository_route full_name)) (\<lambda>route.
       gbind (request_json cfg X (unsafe_write ''PATCH'' (comment_route route i) body False)) (\<lambda>payload.
         glift (expect_comment cfg i payload))))"

text \<open>The transport the service is given.\<close>

definition github_transport ::
  "wire_config \<Rightarrow> 'g http_client \<Rightarrow> ('g gh_world \<Rightarrow> 'g gh_world) \<Rightarrow> ('g \<Rightarrow> time) \<Rightarrow> 'g gh_transport" where
  "github_transport cfg X pause clock =
     \<lparr>t_resolve_authenticated_actor = resolve_authenticated_actor cfg X,
      t_resolve_pull_request = resolve_pull_request cfg X, t_get_comment = get_comment cfg X,
      t_list_comments = list_comments cfg X, t_create_comment = create_comment cfg X,
      t_update_comment = update_comment cfg X, t_pause = pause, t_clock = clock\<rparr>"

end
