(* ===== verification/Github_Transport_Facts.thy ===== *)
theory Github_Transport_Facts
  imports Github_Transport
begin

text \<open>
  Facts about the GitHub transport: the limits on a document are exact, a publication makes a bounded
  number of exchanges, and what the decoders accept fits the constraints of the request table.
\<close>

section \<open>Limits on documents\<close>

text \<open>A document is within the limits when it is small and every text, list and object in it is.\<close>

fun json_bounded :: "json \<Rightarrow> bool" where
  "json_bounded (JStr s) = (int (length s) \<le> MAX_GITHUB_STRING_LENGTH)"
| "json_bounded (JList vs) = (length vs \<le> MAX_GITHUB_COLLECTION_ITEMS \<and> list_all json_bounded vs)"
| "json_bounded (JObj kvs) =
     (length kvs \<le> MAX_GITHUB_COLLECTION_ITEMS
      \<and> list_all (\<lambda>(k, v). int (length k) \<le> MAX_GITHUB_NODE_ID_LENGTH \<and> json_bounded v) kvs)"
| "json_bounded _ = True"

lemma visit_eqs:
  "visit (JList vs) n = (if n + 1 > MAX_GITHUB_JSON_NODES \<or> length vs > MAX_GITHUB_COLLECTION_ITEMS then too_large
     else visit_items vs (n + 1))"
  "visit (JObj kvs) n = (if n + 1 > MAX_GITHUB_JSON_NODES \<or> length kvs > MAX_GITHUB_COLLECTION_ITEMS
       \<or> \<not> list_all (\<lambda>(k, _). int (length k) \<le> MAX_GITHUB_NODE_ID_LENGTH) kvs then too_large
     else visit_values kvs (n + 1))"
  "visit (JStr s) n = (if n + 1 > MAX_GITHUB_JSON_NODES \<or> int (length s) > MAX_GITHUB_STRING_LENGTH then too_large else Inr (n + 1))"
  "visit JNull n = (if n + 1 > MAX_GITHUB_JSON_NODES then too_large else Inr (n + 1))"
  "visit (JBool b) n = (if n + 1 > MAX_GITHUB_JSON_NODES then too_large else Inr (n + 1))"
  "visit (JInt i) n = (if n + 1 > MAX_GITHUB_JSON_NODES then too_large else Inr (n + 1))"
  "visit (JFloat f) n = (if n + 1 > MAX_GITHUB_JSON_NODES then too_large else Inr (n + 1))"
  by (simp_all add: Let_def)

declare visit.simps [simp del]

definition visit_spec :: "int \<Rightarrow> bool \<Rightarrow> int \<Rightarrow> gh_error + int" where
  "visit_spec nodes ok n = (if n + nodes \<le> MAX_GITHUB_JSON_NODES \<and> ok then Inr (n + nodes) else too_large)"

lemma visit_spec_then:
  "0 \<le> b \<Longrightarrow> rbind (visit_spec a p n) (visit_spec b q) = visit_spec (a + b) (p \<and> q) n"
  by (auto simp: visit_spec_def too_large_def)

lemma visit_items_exact:
  assumes "\<And>v n. v \<in> set vs \<Longrightarrow> visit v n = visit_spec (json_nodes v) (json_bounded v) n" and "n \<le> MAX_GITHUB_JSON_NODES"
  shows "visit_items vs n = visit_spec (sum_list (map json_nodes vs)) (list_all json_bounded vs) n"
  using assms
proof (induction vs arbitrary: n)
  case (Cons v vs)
  have "rbind (visit_spec (json_nodes v) (json_bounded v) n) (visit_items vs)
    = rbind (visit_spec (json_nodes v) (json_bounded v) n) (visit_spec (sum_list (map json_nodes vs)) (list_all json_bounded vs))"
    using Cons.IH Cons.prems by (auto simp: visit_spec_def too_large_def)
  with Cons.prems show ?case by (simp add: visit_spec_then json_nodes_sum)
qed (simp add: visit_spec_def)

lemma visit_values_items: "visit_values kvs = visit_items (map snd kvs)"
proof
  show "visit_values kvs n = visit_items (map snd kvs) n" for n
  proof (induction kvs arbitrary: n)
    case (Cons kv kvs)
    then have "visit_values kvs = visit_items (map snd kvs)" by blast
    then show ?case by (cases kv) simp
  qed simp
qed

lemma visit_exact: "visit v n = visit_spec (json_nodes v) (json_bounded v) n"
proof (induction v arbitrary: n)
  case (JList vs)
  with json_nodes_sum [of vs] show ?case by (auto simp: visit_eqs visit_items_exact visit_spec_def too_large_def)
next
  case (JObj kvs)
  have "visit_items (map snd kvs) n
      = visit_spec (sum_list (map json_nodes (map snd kvs))) (list_all json_bounded (map snd kvs)) n"
    if "n \<le> MAX_GITHUB_JSON_NODES" for n
    using JObj that by (intro visit_items_exact) (auto intro: prod.exhaust)
  with json_nodes_sum [of "map snd kvs"] show ?case
    by (auto simp: visit_eqs visit_values_items visit_spec_def too_large_def list_all_iff split_def comp_def)
qed (auto simp: visit_eqs visit_spec_def too_large_def)

section \<open>The number of exchanges\<close>

text \<open>
  \<open>costs c k m\<close>: the call \<open>m\<close> raises the counter \<open>c\<close> by at most \<open>k\<close>. \<open>client_costs\<close>: one exchange raises it
  by \<open>r\<close> when it reads and by \<open>u\<close> when it writes, and waiting does not.
\<close>

definition costs :: "('g \<Rightarrow> nat) \<Rightarrow> nat \<Rightarrow> ('g, 'a) gh \<Rightarrow> bool" where
  "costs c k m \<longleftrightarrow> (\<forall>w. c (w_remote (snd (m w))) \<le> c (w_remote w) + k)"

definition client_costs :: "('g \<Rightarrow> nat) \<Rightarrow> nat \<Rightarrow> nat \<Rightarrow> 'g http_client \<Rightarrow> ('g gh_world \<Rightarrow> 'g gh_world) \<Rightarrow> bool" where
  "client_costs c r u X pause \<longleftrightarrow>
     (\<forall>route body w. c (w_remote (snd (x_send X ''GET'' route body w))) \<le> c (w_remote w) + r)
     \<and> (\<forall>verb route body w. verb \<noteq> ''GET'' \<longrightarrow> c (w_remote (snd (x_send X verb route body w))) \<le> c (w_remote w) + u)
     \<and> (\<forall>n w. c (w_remote (x_sleep X n w)) \<le> c (w_remote w))
     \<and> (\<forall>w. c (w_remote (pause w)) \<le> c (w_remote w))"

named_theorems cost_rules

lemma costs_mono: "costs c j m \<Longrightarrow> j \<le> k \<Longrightarrow> costs c k m"
  unfolding costs_def by (meson add_left_mono order_trans)

lemma costs_free [cost_rules]: "costs c k (gret x)" "costs c k (gthrow e)" "costs c k (glift v)" "costs c k (gclock T)"
  by (simp_all add: costs_def gret_def gthrow_def glift_def gclock_def)

lemma costs_gtry:
  assumes "costs c j m" and "\<And>r. costs c k (f r)"
  shows "costs c (j + k) (gtry m f)"
  unfolding costs_def
proof
  fix w
  obtain r w' where m: "m w = (r, w')" by fastforce
  have "c (w_remote w') \<le> c (w_remote w) + j" using assms(1) m unfolding costs_def by (metis snd_conv)
  moreover have "c (w_remote (snd (f r w'))) \<le> c (w_remote w') + k" using assms(2) unfolding costs_def by blast
  ultimately show "c (w_remote (snd (gtry m f w))) \<le> c (w_remote w) + (j + k)" using m by (simp add: gtry_def)
qed

lemma costs_gbind:
  assumes "costs c j m" and "\<And>x. costs c k (f x)"
  shows "costs c (j + k) (gbind m f)"
proof -
  have "gbind m f = gtry m (\<lambda>r. case r of Inl e \<Rightarrow> gthrow e | Inr x \<Rightarrow> f x)"
    by (auto simp: fun_eq_iff gbind_def gtry_def gthrow_def split: prod.split sum.split)
  with assms show ?thesis by (auto intro!: costs_gtry cost_rules split: sum.split)
qed

text \<open>Sequencing for a free first step, and the branches of a choice.\<close>

lemma costs_then [cost_rules]: "costs c 0 m \<Longrightarrow> (\<And>x. costs c k (f x)) \<Longrightarrow> costs c k (gbind m f)"
  using costs_gbind [of c 0 m k f] by simp

lemma costs_branch [cost_rules]:
  "(b \<Longrightarrow> costs c k m) \<Longrightarrow> (\<not> b \<Longrightarrow> costs c k n) \<Longrightarrow> costs c k (if b then m else n)"
  "(v = None \<Longrightarrow> costs c k m) \<Longrightarrow> (\<And>x. v = Some x \<Longrightarrow> costs c k (f x)) \<Longrightarrow> costs c k (case_option m f v)"
  "(\<And>e. s = Inl e \<Longrightarrow> costs c k (g e)) \<Longrightarrow> (\<And>y. s = Inr y \<Longrightarrow> costs c k (h y)) \<Longrightarrow> costs c k (case_sum g h s)"
  "(\<And>a b. p = (a, b) \<Longrightarrow> costs c k (j a b)) \<Longrightarrow> costs c k (case_prod j p)"
  by (auto split: option.split sum.split prod.split)

lemma costs_mono_free: "costs c 0 m \<Longrightarrow> costs c k m"
  by (erule costs_mono) simp

lemma costs_db:
  assumes "client_costs c r u X pause"
  shows "costs c 0 (gread (github_transport cfg X pause clock) f)" "costs c 0 (grows (github_transport cfg X pause clock) g)"
  using assms by (simp_all add: costs_def gread_def grows_def client_costs_def github_transport_def Let_def split: option.split)

lemma costs_send:
  "client_costs c r u X pause \<Longrightarrow> costs c (if verb = ''GET'' then r else u) (send cfg X verb route body)"
  by (auto simp: costs_def send_def client_costs_def split_beta split: sum.split)

lemma costs_attempts:
  assumes "client_costs c r u X pause"
  shows "costs c (n * (if hq_method q = ''GET'' then r else u)) (request_attempts cfg X q a n)"
proof (induction n)
  case (Suc n)
  let ?p = "if hq_method q = ''GET'' then r else u"
  have sleep: "costs c 0 (sleep X k)" for k using assms by (simp add: costs_def sleep_def client_costs_def)
  have "costs c (?p + n * ?p) (request_attempts cfg X q a (Suc n))"
    unfolding request_attempts.simps Let_def
    by (rule costs_gbind [OF costs_send [OF assms]]) (intro cost_rules sleep Suc)
  then show ?case by (simp add: add.commute)
qed (simp add: cost_rules)

lemma costs_request:
  assumes "client_costs c r u X pause"
  shows "hq_method q = ''GET'' \<Longrightarrow> hq_safe_read q \<Longrightarrow> costs c (3 * r) (request_json_with_headers cfg X q)"
    and "hq_method q \<noteq> ''GET'' \<Longrightarrow> \<not> hq_safe_read q \<Longrightarrow> costs c u (request_json_with_headers cfg X q)"
  using costs_attempts [OF assms, of 3 q cfg 3] costs_attempts [OF assms, of 1 q cfg 1]
  by (simp_all add: request_json_with_headers_def SAFE_READ_ATTEMPTS_def)

lemma costs_request_json:
  assumes "client_costs c r u X pause"
  shows "costs c (3 * r) (request_json cfg X (safe_get route reason))"
    and "verb \<noteq> ''GET'' \<Longrightarrow> costs c u (request_json cfg X (unsafe_write verb route body b))"
proof -
  show "costs c (3 * r) (request_json cfg X (safe_get route reason))"
    unfolding request_json_def
    by (rule costs_gbind [where k = 0, simplified, OF costs_request(1) [OF assms]])
      (simp_all add: safe_get_def cost_rules)
  show "verb \<noteq> ''GET'' \<Longrightarrow> costs c u (request_json cfg X (unsafe_write verb route body b))"
    unfolding request_json_def
    by (rule costs_gbind [where k = 0, simplified, OF costs_request(2) [OF assms]])
      (simp_all add: unsafe_write_def cost_rules)
qed

text \<open>Sequencing where the rest is free, for the last exchange of an operation.\<close>

lemma costs_last: "costs c k m \<Longrightarrow> (\<And>x. costs c 0 (f x)) \<Longrightarrow> costs c k (gbind m f)"
  using costs_gbind [of c k m 0 f] by simp

lemma costs_operations:
  assumes "client_costs c r u X pause"
  shows "costs c (3 * r) (resolve_authenticated_actor cfg X)"
    and "costs c (6 * r) (resolve_pull_request cfg X full_name number head)"
    and "costs c (3 * r) (get_comment cfg X full_name i)"
    and "costs c (9 * r) (list_comments cfg X full_name number)"
    and "costs c u (create_comment cfg X full_name number body)"
    and "costs c u (update_comment cfg X full_name i body)"
proof -
  note get = costs_request_json(1) [OF assms] and put = costs_request_json(2) [OF assms]
  have "costs c (3 * r + 0) (resolve_authenticated_actor cfg X)"
    unfolding resolve_authenticated_actor_def
    by (rule costs_gtry [OF costs_last [OF get]]) (intro cost_rules, auto split: gh_error.split intro!: cost_rules)
  then show "costs c (3 * r) (resolve_authenticated_actor cfg X)" by simp
  have "costs c (3 * r + 3 * r) (resolve_pull_request cfg X full_name number head)"
    unfolding resolve_pull_request_def
    apply (rule costs_then [OF costs_free(3)])
    apply (rule costs_branch(1) [OF costs_free(3)])
    apply (rule costs_gbind [OF get])
    apply (intro costs_then [OF costs_free(3)] costs_last costs_free get)
    done
  then show "costs c (6 * r) (resolve_pull_request cfg X full_name number head)" by (simp add: algebra_simps)
  show "costs c (3 * r) (get_comment cfg X full_name i)"
    unfolding get_comment_def by (intro costs_branch costs_free costs_then costs_last get)
  show "costs c u (create_comment cfg X full_name number body)"
    unfolding create_comment_def by (intro costs_branch costs_free costs_then costs_last put; simp)
  show "costs c u (update_comment cfg X full_name i body)"
    unfolding update_comment_def by (intro costs_branch costs_free costs_then costs_last put; simp)
  have page: "costs c (3 * r) (get_page cfg X route n)" for route n
    unfolding get_page_def by (intro costs_free costs_last get)
  have head: "costs c (3 * r) (request_json_with_headers cfg X (safe_get route reason))" for route reason
    by (rule costs_request(1) [OF assms]) (simp_all add: safe_get_def)
  have "costs c (3 * r + (3 * r + 3 * r)) (list_comments cfg X full_name number)"
    unfolding list_comments_def
    apply (rule costs_then [OF costs_free(3)])
    apply (rule costs_gbind [OF head])
    apply (intro costs_branch)
    apply (rule costs_then [OF costs_free(3)])+
    apply (intro costs_branch costs_free)
    apply (rule costs_gbind [OF page])
    apply (intro costs_branch costs_free costs_last page)
    done
  then show "costs c (9 * r) (list_comments cfg X full_name number)" by (simp add: algebra_simps)
qed

text \<open>The steps of the service over this transport.\<close>

lemma costs_service_steps:
  assumes "client_costs c r u X pause"
    and T: "T = github_transport cfg X pause clock"
  shows "costs c 0 (get_request T i)" and "costs c 0 (gstatus env T row v)" and "costs c 0 (renew_claim_for_write T i tok)"
    and "costs c 0 (finalize_claim env T row t f)"
    and "costs c (9 * r) (unique_owned_recovery_candidate T row actor m)"
    and "costs c (3 * r + u) (update_verified_comment T row actor comment m body tok)"
proof -
  note db = costs_db [OF assms(1), of cfg clock, folded T]
  have calls: "t_list_comments T = list_comments cfg X" "t_get_comment T = get_comment cfg X"
    "t_update_comment T = update_comment cfg X"
    by (simp_all add: T github_transport_def)
  note ops = costs_operations [OF assms(1)]
  show get: "costs c 0 (get_request T i)" for i unfolding get_request_def by (rule db)
  show status: "costs c 0 (gstatus env T row v)" for row v unfolding gstatus_def by (rule db)
  show renew: "costs c 0 (renew_claim_for_write T i tok)" for i tok
    unfolding renew_claim_for_write_def by (intro cost_rules db)
  show "costs c 0 (finalize_claim env T row t f)"
    unfolding finalize_claim_def by (intro cost_rules db get status)
  show "costs c (9 * r) (unique_owned_recovery_candidate T row actor m)"
    unfolding unique_owned_recovery_candidate_def Let_def calls by (intro costs_last ops cost_rules)
  show "costs c (3 * r + u) (update_verified_comment T row actor comment m body tok)"
    unfolding update_verified_comment_def Let_def calls
    by (rule costs_gbind [OF ops(3)]) (intro costs_branch costs_free costs_then [OF renew] costs_last ops(6))
qed

lemma costs_upsert:
  assumes "client_costs c r u X pause"
    and T: "T = github_transport cfg X pause clock"
  shows "costs c (24 * r + 2 * u) (upsert_managed_comment T row body (Some actor) tok)"
proof -
  note steps = costs_service_steps [OF assms] and ops = costs_operations [OF assms(1)]
  have calls: "t_get_comment T = get_comment cfg X" "t_create_comment T = create_comment cfg X"
    by (simp_all add: T github_transport_def)
  have create: "costs c (u + (9 * r + (3 * r + u))) (create_managed_comment T row a m body tok)" for m a
    unfolding create_managed_comment_def Let_def calls
    apply (rule costs_then [OF steps(3)])
    apply (rule costs_gtry [OF ops(5)])
    apply (rule costs_branch(3))
     apply (simp add: costs_free split: gh_error.split)
     apply (intro allI impI)
     apply (rule costs_gbind [OF steps(5), where k = "3 * r + u", simplified])
     apply (intro costs_branch costs_free steps(6))
    apply (intro costs_branch costs_free)
    done
  have recover: "costs c (9 * r + (u + (9 * r + (3 * r + u)))) (recover_or_create T row a m body tok)" for m a
    unfolding recover_or_create_def
    by (rule costs_gbind [OF steps(5)]) (intro costs_branch create costs_mono [OF steps(6)]; simp)
  have "costs c (3 * r + (9 * r + (u + (9 * r + (3 * r + u))))) (upsert_managed_comment T row body (Some actor) tok)"
    unfolding upsert_managed_comment_def Let_def calls option.case
    apply (rule costs_branch(3) [OF costs_free(2)])
    apply (rule costs_then [OF costs_free(1)])
    apply (rule costs_branch(1) [OF costs_free(2)])
    apply (rule costs_branch(2))
     apply (rule costs_mono [OF recover], simp)
    apply (rule costs_gtry [OF ops(3)])
    apply (intro costs_branch recover costs_free costs_mono [OF steps(6)]; simp)
    done
  then show ?thesis by (simp add: algebra_simps)
qed

lemma costs_publish:
  assumes "client_costs c r u X pause"
  shows "costs c (33 * r + 2 * u) (publish env (github_transport cfg X pause clock) tok i)"
proof -
  let ?T = "github_transport cfg X pause clock"
  note steps = costs_service_steps [OF assms refl] and ops = costs_operations [OF assms]
    and db = costs_db [OF assms, of cfg clock]
  have calls: "t_resolve_authenticated_actor ?T = resolve_authenticated_actor cfg X"
    "t_resolve_pull_request ?T = resolve_pull_request cfg X"
    by (simp_all add: github_transport_def)
  have posted: "costs c (24 * r + 2 * u) (render_and_upsert env ?T row ev actor d why tok)" for row ev actor d why
    unfolding render_and_upsert_def by (intro cost_rules costs_upsert [OF assms refl])
  have resolved: "costs c (24 * r + 2 * u) (publish_resolved env ?T row tok run ev actor res)" for row run ev actor res
    unfolding publish_resolved_def Let_def split_beta
    apply (rule costs_then [OF costs_free(4)])
    apply (rule costs_branch(1) [OF costs_mono_free [OF steps(4)]])
    apply (rule costs_gtry [where k = 0, simplified, OF posted])
    apply (intro cost_rules steps)
    done
  have claimed: "costs c (3 * r + (6 * r + (24 * r + 2 * u))) (publish_claimed env ?T row tok)" for row
    unfolding publish_claimed_def Let_def split_beta calls
    apply (rule costs_then [OF db(1)])
    apply (rule costs_gtry [OF ops(1)])
    apply (rule costs_branch(3))
     apply (intro costs_branch costs_free costs_mono_free [OF steps(4)])
    apply (rule costs_branch(2))
     apply (rule costs_gtry [OF ops(2)])
     apply (intro costs_branch costs_free resolved costs_mono_free [OF steps(4)])
    apply (rule costs_mono_free [OF steps(4)])
    done
  show ?thesis
    unfolding publish_def
    apply (rule costs_then [OF steps(1)])
    apply (rule costs_then [OF costs_free(4)])
    apply (rule costs_then [OF db(2)])
    apply (rule costs_then [OF steps(1)])
    apply (rule costs_branch(1) [OF costs_mono_free [OF steps(2)]])
    apply (rule costs_gtry [where k = 0, simplified, OF costs_mono [OF claimed]])
     apply simp
    apply (intro cost_rules db)
    done
qed

section \<open>What a decoded reply can be\<close>

lemma strict_object_Inr: "strict_object v allowed required = Inr p \<Longrightarrow> v = JObj p \<and> set required \<subseteq> fst ` set p"
  by (auto simp: strict_object_def transport_failed_def split: json.splits if_splits)

lemma safe_id_Inr: "safe_id v = Inr n \<Longrightarrow> 1 \<le> n \<and> n \<le> MAX_SAFE_GITHUB_ID"
  by (auto simp: safe_id_def transport_failed_def split: json.splits if_splits)

lemma safe_node_id_Inr: "safe_node_id v = Inr s \<Longrightarrow> between 1 128 s"
  by (auto simp: safe_node_id_def transport_failed_def between_def MAX_GITHUB_NODE_ID_LENGTH_def split: json.splits if_splits)

lemma valid_repository_name: "validate_repository_full_name s = Inr t \<Longrightarrow> t = s \<and> between 3 255 s"
proof -
  assume v: "validate_repository_full_name s = Inr t"
  then obtain a b where ab: "split_on (CHR ''/'') s = [a, b]" "repository_segment a" "repository_segment b" "t = s"
    by (auto simp: validate_repository_full_name_def split: list.splits if_splits)
  then have "s = join_with ''/'' [a, b]" using join_split [of "CHR ''/''" s] by simp
  with ab show ?thesis by (simp add: repository_segment_def between_def)
qed

lemma safe_repository_name_Inr: "safe_repository_name v = Inr s \<Longrightarrow> between 3 255 s"
  by (auto simp: safe_repository_name_def transport_failed_def dest: valid_repository_name split: json.splits sum.splits)

lemma safe_display_text_Inr: "safe_display_text v = Inr s \<Longrightarrow> between 1 255 s"
  by (auto simp: safe_display_text_def transport_failed_def between_def split: json.splits if_splits)

lemma safe_sha_Inr: "safe_sha v required = Inr (Some s) \<Longrightarrow> is_sha s"
  "safe_sha v True = Inr x \<Longrightarrow> \<exists>s. x = Some s"
  by (auto simp: safe_sha_def split: json.splits if_splits)

lemma decode_repository_Inr:
  "decode_repository v = Inr r \<Longrightarrow> between 3 255 (rid_full_name r) \<and> 1 \<le> rid_repository_id r \<and> between 1 128 (rid_node_id r)"
  by (auto simp: decode_repository_def rbind_Inr_iff dest: safe_id_Inr safe_node_id_Inr safe_repository_name_Inr)

lemma decode_actor_Inr: "decode_actor v = Inr a \<Longrightarrow> 1 \<le> a_actor_id a \<and> between 1 128 (a_node_id a)"
  by (auto simp: decode_actor_def rbind_Inr_iff dest: safe_id_Inr safe_node_id_Inr)

lemma decode_ref_Inr:
  assumes "decode_ref v rep sha = Inr (ref, s, r)"
  shows "between 1 255 ref" and "s = Some h \<Longrightarrow> is_sha h"
    and "r = Some repo \<Longrightarrow> between 3 255 (rid_full_name repo) \<and> 1 \<le> rid_repository_id repo"
    and "rep \<Longrightarrow> r \<noteq> None" and "rep \<Longrightarrow> sha \<Longrightarrow> s \<noteq> None"
  using assms
  by (auto simp: decode_ref_def rbind_Inr_iff between_def dest: safe_display_text_Inr safe_sha_Inr decode_repository_Inr split: if_splits)

text \<open>Everything a resolved pull request contributes to a stored request is within the bounds of the table.\<close>

definition resolved_ok :: "resolved_pull_request \<Rightarrow> bool" where
  "resolved_ok r \<longleftrightarrow>
     between 3 255 (rq_repository_full_name r) \<and> 1 \<le> rq_repository_id r \<and> between 1 128 (rq_repository_node_id r)
     \<and> number_in_range (rq_pull_request_number r) \<and> 1 \<le> rq_pull_request_id r
     \<and> between 1 128 (rq_pull_request_node_id r) \<and> rq_state r \<in> {''open'', ''closed''}
     \<and> between 1 255 (rq_base_ref r) \<and> is_sha (rq_base_sha r) \<and> between 1 255 (rq_head_ref r)
     \<and> (case rq_head_sha r of None \<Rightarrow> True | Some h \<Rightarrow> is_sha h)
     \<and> (case rq_head_repository_full_name r of None \<Rightarrow> True | Some n \<Rightarrow> between 3 255 n)
     \<and> (case rq_head_repository_id r of None \<Rightarrow> True | Some i \<Rightarrow> 1 \<le> i)"

lemma decode_pull_request_Inr:
  assumes "decode_pull_request v repo n require_head = Inr r" and "number_in_range n"
    and "between 3 255 (rid_full_name repo)" "1 \<le> rid_repository_id repo" "between 1 128 (rid_node_id repo)"
  shows "resolved_ok r"
    and "require_head \<Longrightarrow> rq_head_sha r \<noteq> None \<and> rq_head_repository_full_name r \<noteq> None \<and> rq_head_repository_id r \<noteq> None"
proof -
  from assms(1) obtain p state draft merged bref bsha brepo href hsha hrepo i node where
    st: "decode_state (entry p ''state'') = Inr state"
    and base: "decode_ref (entry p ''base'') True True = Inr (bref, bsha, Some brepo)"
    and head: "decode_ref (entry p ''head'') require_head require_head = Inr (href, hsha, hrepo)"
    and ids: "safe_id (entry p ''id'') = Inr i" "safe_node_id (entry p ''node_id'') = Inr node"
    and r: "r = \<lparr>rq_repository_full_name = rid_full_name repo, rq_repository_id = rid_repository_id repo,
        rq_repository_node_id = rid_node_id repo, rq_pull_request_number = n, rq_pull_request_id = i,
        rq_pull_request_node_id = node, rq_state = state, rq_draft = draft, rq_merged = merged, rq_base_ref = bref,
        rq_base_sha = text_or bsha [], rq_head_ref = href, rq_head_sha = hsha,
        rq_head_repository_full_name = map_option rid_full_name hrepo,
        rq_head_repository_id = map_option rid_repository_id hrepo\<rparr>"
    by (auto simp: decode_pull_request_def rbind_Inr_iff transport_failed_def split: if_splits option.splits)
  have "state \<in> {''open'', ''closed''}"
    using st by (auto simp: decode_state_def transport_failed_def split: json.splits if_splits)
  moreover obtain b where b: "bsha = Some b" using decode_ref_Inr(5) [OF base] by auto
  then have "is_sha (text_or bsha [])" using decode_ref_Inr(2) [OF base, of b] by (auto simp: text_or_def)
  ultimately show "resolved_ok r"
    using assms(2-5) safe_id_Inr [OF ids(1)] safe_node_id_Inr [OF ids(2)] decode_ref_Inr(1) [OF base]
      decode_ref_Inr(1-3) [OF head]
    by (simp add: r resolved_ok_def split: option.split)
  show "require_head \<Longrightarrow> rq_head_sha r \<noteq> None \<and> rq_head_repository_full_name r \<noteq> None \<and> rq_head_repository_id r \<noteq> None"
    using decode_ref_Inr(4,5) [OF head] by (simp add: r)
qed

lemma gbind_Inr_iff: "gbind m f w = (Inr y, w') \<longleftrightarrow> (\<exists>x v. m w = (Inr x, v) \<and> f x v = (Inr y, w'))"
  by (auto simp: gbind_def split: prod.splits sum.splits)

lemma glift_Inr_iff: "glift r w = (Inr y, w') \<longleftrightarrow> r = Inr y \<and> w' = w"
  by (auto simp: glift_def)

lemma resolve_pull_request_Inr:
  assumes "resolve_pull_request cfg X repository n require_head w = (Inr r, w')"
  shows "resolved_ok r"
    and "require_head \<Longrightarrow> rq_head_sha r \<noteq> None \<and> rq_head_repository_full_name r \<noteq> None \<and> rq_head_repository_id r \<noteq> None"
proof -
  from assms obtain payload repo pull where "number_in_range n" and repo: "decode_repository payload = Inr repo"
    and "decode_pull_request pull repo n require_head = Inr r"
    by (auto simp: resolve_pull_request_def gbind_Inr_iff glift_Inr_iff transport_failed_def split: if_splits)
  with decode_repository_Inr [OF repo] show "resolved_ok r"
    and "require_head \<Longrightarrow> rq_head_sha r \<noteq> None \<and> rq_head_repository_full_name r \<noteq> None \<and> rq_head_repository_id r \<noteq> None"
    using decode_pull_request_Inr by blast+
qed

lemma resolve_actor_Inr:
  assumes "resolve_authenticated_actor cfg X w = (Inr a, w')"
  shows "1 \<le> a_actor_id a \<and> between 1 128 (a_node_id a)"
proof -
  from assms obtain payload where "decode_actor payload = Inr a"
    by (auto simp: resolve_authenticated_actor_def gtry_def gret_def gthrow_def gbind_def glift_def
        split: prod.splits sum.splits gh_error.splits if_splits)
  then show ?thesis by (rule decode_actor_Inr)
qed

text \<open>The server's own part of a stored request: configuration, manifest and key.\<close>

definition server_identity_ok :: "gh_env \<Rightarrow> trusted_manifest \<Rightarrow> string \<Rightarrow> bool" where
  "server_identity_ok env manifest key \<longleftrightarrow>
     length key = 64 \<and> between 1 512 (ge_api_url env) \<and> between 1 255 (ge_host env) \<and> between 1 128 (ge_operator_id env)
     \<and> between 1 128 (tm_name manifest) \<and> between 1 64 (tm_version manifest) \<and> length (tm_digest manifest) = 64"

lemma request_identity_ok:
  assumes "server_identity_ok env manifest key" and "between 3 255 repository"
    and "1 \<le> a_actor_id actor \<and> between 1 128 (a_node_id actor)"
    and "resolved_ok res" "rq_head_sha res = Some head" "rq_head_repository_full_name res = Some hr"
      "rq_head_repository_id res = Some hid"
  shows "gh_identity_ok (request_identity env key repository actor res head hr hid manifest order_id)"
  using assms
  by (simp add: gh_identity_ok_def request_identity_def server_identity_ok_def resolved_ok_def is_sha_def number_in_range_def
      GITHUB_ADAPTER_SCHEMA_VERSION_def)

end
