(* ===== verification/Github_Transport_Properties.thy ===== *)
theory Github_Transport_Properties
  imports Github_Transport_Facts Github_Properties
begin

text \<open>The properties of the GitHub transport, and of the adapter composed with it.\<close>

section \<open>A sample exchange\<close>

text \<open>A server that answers the routes of one pull request, and echoes a comment; \<open>w_remote\<close> counts exchanges and writes.\<close>

definition sample_loads :: "string \<Rightarrow> json option" where
  "sample_loads s =
     (let repository = JObj [(''id'', JInt 3), (''node_id'', JStr ''R_3''), (''full_name'', JStr ''o/r'')];
          user = JObj [(''id'', JInt 7), (''node_id'', JStr ''U_7'')];
          ref = (\<lambda>c. JObj [(''ref'', JStr ''main''), (''sha'', JStr (replicate 40 c)), (''repo'', repository)])
      in if s = ''user'' then Some user
         else if s = ''repository'' then Some repository
         else if s = ''pull'' then Some (JObj [(''id'', JInt 44), (''node_id'', JStr ''PR_44''), (''number'', JInt 12),
           (''state'', JStr ''open''), (''draft'', JBool False), (''merged'', JBool False),
           (''base'', ref (CHR ''b'')), (''head'', ref (CHR ''a''))])
         else if s = ''page'' then Some (JList [])
         else Some (JObj [(''id'', JInt 90), (''body'', JStr s),
           (''issue_url'', JStr ''https://api.github.com/repos/o/r/issues/12''), (''user'', user)]))"

definition sample_reply :: "string \<Rightarrow> string option \<Rightarrow> string" where
  "sample_reply route body =
     (case body of
        Some b \<Rightarrow> b
      | None \<Rightarrow>
          if route = ''user'' then ''user'' else if route = ''repos/o/r'' then ''repository''
          else if route = ''repos/o/r/pulls/12'' then ''pull'' else ''page'')"

definition sample_client :: "(nat \<times> nat) http_client" where
  "sample_client =
     \<lparr>x_send = (\<lambda>verb route body w.
        (Response (''https://api.github.com/'' @ route) 200 [(''content-type'', ''application/json; charset=utf-8'')]
           [sample_reply route body],
         w\<lparr>w_remote := (fst (w_remote w) + 1, snd (w_remote w) + (if verb = ''GET'' then 0 else 1))\<rparr>)),
      x_sleep = (\<lambda>_ w. w)\<rparr>"

definition sample_wire :: wire_config where
  "sample_wire =
     \<lparr>wc_bracket_ok = (\<lambda>_. True), wc_loads = sample_loads, wc_expected_origin = (''https'', ''api.github.com'', None),
      wc_expected_path_prefix = ''/''\<rparr>"

definition counted_world :: "(nat \<times> nat) gh_world" where
  "counted_world = \<lparr>w_db = w_db sample_world, w_rows = w_rows sample_world, w_remote = (0, 0)\<rparr>"

text \<open>A server that never answers.\<close>

definition silent_client :: "(nat \<times> nat) http_client" where
  "silent_client =
     \<lparr>x_send = (\<lambda>verb route body w.
        (NoResponse, w\<lparr>w_remote := (fst (w_remote w) + 1, snd (w_remote w) + (if verb = ''GET'' then 0 else 1))\<rparr>)),
      x_sleep = (\<lambda>_ w. w)\<rparr>"

definition silent_transport :: "(nat \<times> nat) gh_transport" where
  "silent_transport = github_transport sample_wire silent_client (\<lambda>w. w) (\<lambda>_. seconds 100)"

section \<open>Properties\<close>

text \<open>
  C29. Publication over the transport always ends after a bounded number of exchanges with GitHub, whatever
  GitHub answers and however often it fails: when one exchange raises a counter by at most \<open>r\<close> for a
  read and \<open>u\<close> for a write, the whole publication raises it by at most \<open>33 r + 2 u\<close>. Counting every
  exchange, that is 35; counting writes only, it is two.
\<close>

theorem publication_exchanges_bounded:
  assumes "client_costs c r u X pause"
  shows "c (w_remote (snd (publish env (github_transport cfg X pause clock) tok i w))) \<le> c (w_remote w) + 33 * r + 2 * u"
  using costs_publish [OF assms, of env cfg clock tok i] by (simp add: costs_def add.assoc)

theorem publication_exchanges_bounded_witness:
  "fst (w_remote (snd (publish sample_gh_env silent_transport (replicate 64 (CHR ''t'')) 1 counted_world))) \<le> 35
   \<and> snd (w_remote (snd (publish sample_gh_env silent_transport (replicate 64 (CHR ''t'')) 1 counted_world))) \<le> 2
   \<and> w_remote (snd (publish sample_gh_env silent_transport (replicate 64 (CHR ''t'')) 1 counted_world)) = (3, 0)"
proof -
  let ?e = "publish sample_gh_env silent_transport (replicate 64 (CHR ''t'')) 1 counted_world"
  have all: "client_costs fst 1 1 silent_client (\<lambda>w. w)" and writes: "client_costs snd 0 1 silent_client (\<lambda>w. w)"
    by (simp_all add: client_costs_def silent_client_def)
  have "fst (w_remote (snd ?e)) \<le> fst (w_remote counted_world) + 33 * 1 + 2 * 1"
    and "snd (w_remote (snd ?e)) \<le> snd (w_remote counted_world) + 33 * 0 + 2 * 1"
    unfolding silent_transport_def by (rule publication_exchanges_bounded [OF all], rule publication_exchanges_bounded [OF writes])
  moreover have "w_remote (snd ?e) = (3, 0)" by code_simp
  ultimately show ?thesis by (simp add: counted_world_def)
qed

text \<open>
  C30. The limits on a reply are exact: a payload is accepted as a document precisely when it is not
  empty, is JSON, has at most \<open>20000\<close> values, and every text, list, object and key in it is within
  its own bound; everything else is refused before any field is read.
\<close>

theorem json_limits_exact:
  "decode_json loads payload = Inr v \<longleftrightarrow>
     payload \<noteq> [] \<and> loads payload = Some v \<and> json_nodes v \<le> MAX_GITHUB_JSON_NODES \<and> json_bounded v"
  by (auto simp: decode_json_def validate_json_limits_def visit_exact visit_spec_def rbind_Inr_iff transport_failed_def
      too_large_def split: option.splits)

text \<open>
  What GitHub's replies contribute can always be stored: for an actor and a pull request that the
  transport resolved, the insert of the request is refused only when its primary key, its
  idempotency key or its work order is taken already, never for the shape of remote data.
\<close>

theorem resolved_request_storable:
  assumes "resolve_authenticated_actor cfg X w1 = (Inr actor, w1')"
    and "resolve_pull_request cfg X repository number True w2 = (Inr resolved, w2')"
    and "server_identity_ok env manifest key" and "validate_repository_full_name repository = Inr repository"
  shows "\<exists>head hr hid. rq_head_sha resolved = Some head \<and> rq_head_repository_full_name resolved = Some hr
     \<and> rq_head_repository_id resolved = Some hid
     \<and> (gh_create rows k (request_identity env key repository actor resolved head hr hid manifest order_id) now = None \<longleftrightarrow>
          k \<in> g_id ` set rows \<or> key \<in> (\<lambda>r. gi_idempotency_key (g_identity r)) ` set rows
          \<or> order_id \<in> (\<lambda>r. gi_work_order_id (g_identity r)) ` set rows)"
proof -
  note res = resolve_pull_request_Inr [OF assms(2)]
  from res(2) obtain head hr hid where heads: "rq_head_sha resolved = Some head"
    "rq_head_repository_full_name resolved = Some hr" "rq_head_repository_id resolved = Some hid" by auto
  have "between 3 255 repository" using valid_repository_name [OF assms(4)] by simp
  from request_identity_ok [OF assms(3) this resolve_actor_Inr [OF assms(1)] res(1) heads]
  have ok: "gh_identity_ok (request_identity env key repository actor resolved head hr hid manifest order_id)" .
  have "gh_publication_ok (new_publication now)" by (simp add: gh_publication_ok_def new_publication_def between_def)
  with ok have "gh_create rows k (request_identity env key repository actor resolved head hr hid manifest order_id) now = None \<longleftrightarrow>
      k \<in> g_id ` set rows \<or> key \<in> (\<lambda>r. gi_idempotency_key (g_identity r)) ` set rows
      \<or> order_id \<in> (\<lambda>r. gi_work_order_id (g_identity r)) ` set rows"
    by (auto simp: gh_create_def gh_row_ok_def gh_claim_ok_def Let_def request_identity_def)
  with heads show ?thesis by (intro exI [of _ head] exI [of _ hr] exI [of _ hid] conjI)
qed

theorem resolved_request_storable_witness:
  "\<exists>head hr hid resolved. rq_head_sha resolved = Some head
     \<and> gh_create [] 1 (request_identity sample_gh_env (replicate 64 (CHR ''1'')) ''o/r'' sample_actor resolved head hr hid
         (sample_manifest\<lparr>tm_digest := replicate 64 (CHR ''d'')\<rparr>) 1) (seconds 1) \<noteq> None"
proof -
  let ?a = "resolve_authenticated_actor sample_wire sample_client counted_world"
  let ?p = "resolve_pull_request sample_wire sample_client ''o/r'' 12 True counted_world"
  have "fst ?a = Inr sample_actor" by code_simp
  then have a: "?a = (Inr sample_actor, snd ?a)" by (metis prod.collapse)
  have "\<not> isl (fst ?p)" by code_simp
  then obtain resolved where "fst ?p = Inr resolved" by (cases "fst ?p") auto
  then have p: "?p = (Inr resolved, snd ?p)" by (metis prod.collapse)
  have "server_identity_ok sample_gh_env (sample_manifest\<lparr>tm_digest := replicate 64 (CHR ''d'')\<rparr>) (replicate 64 (CHR ''1''))"
    by code_simp
  moreover have "validate_repository_full_name ''o/r'' = Inr ''o/r''" by code_simp
  ultimately obtain head hr hid where h: "rq_head_sha resolved = Some head"
    and "gh_create [] 1 (request_identity sample_gh_env (replicate 64 (CHR ''1'')) ''o/r'' sample_actor resolved head hr hid
         (sample_manifest\<lparr>tm_digest := replicate 64 (CHR ''d'')\<rparr>) 1) (seconds 1) \<noteq> None"
    using resolved_request_storable [OF a p, where rows = "[]" and k = 1 and order_id = 1 and now = "seconds 1"]
    by (metis (no_types, lifting) empty_iff image_empty list.set(1))
  then show ?thesis by (intro exI [of _ head] exI [of _ hr] exI [of _ hid] exI [of _ resolved] conjI)
qed

end
