(* ===== verification/Rate_Limit.thy ===== *)
theory Rate_Limit
  imports Prelude
begin

text \<open>
  The rate limiter of \<^verbatim>\<open>server/middleware/rate_limit.py\<close>: a bucket of admission times per
  client, pruned from the front when a request arrives. The lock around the bucket is never
  contended, because nothing in it waits, so requests are dispatched one after the other in the
  order of their clock readings.

  The reference definition is the history of admissions: \<open>admissions\<close> keeps every admission of a
  client for ever. A request is throttled exactly when the history has \<open>requests\<close> admissions of
  that client in the window before it, and no window of that length ever holds more.
\<close>

section \<open>The middleware\<close>

record rate_settings =
  rl_requests :: int
  rl_window_seconds :: int
  rl_trusted_bypass :: "string list"
  rl_trusted_proxies :: "string list"

definition enabled :: "rate_settings \<Rightarrow> bool" where
  "enabled c = (0 < rl_requests c \<and> 0 < rl_window_seconds c)"

text \<open>A request as the limiter sees it: the peer address and the headers, names in lower case, in
  the order they were sent. \<open>request.headers.get\<close> takes the first header of a name.\<close>

type_synonym headers_in = "(string \<times> string) list"

definition header_get :: "headers_in \<Rightarrow> string \<Rightarrow> string option" where
  "header_get hs name = map_of hs name"

text \<open>The first address of a forwarding header, if the header is there and names one.\<close>

definition forwarded_first :: "headers_in \<Rightarrow> string option" where
  "forwarded_first hs =
     (case header_get hs ''x-forwarded-for'' of
        None \<Rightarrow> None
      | Some v \<Rightarrow> (let first = strip (takeWhile (\<lambda>c. c \<noteq> CHR '','') v) in if first = [] then None else Some first))"

definition client_identifier :: "rate_settings \<Rightarrow> string option \<Rightarrow> headers_in \<Rightarrow> string option" where
  "client_identifier c client hs =
     (case client of
        Some host \<Rightarrow>
          if host = [] then forwarded_first hs
          else if host \<in> set (rl_trusted_proxies c)
          then (case forwarded_first hs of Some first \<Rightarrow> Some first | None \<Rightarrow> Some host)
          else Some host
      | None \<Rightarrow> forwarded_first hs)"

definition should_bypass :: "rate_settings \<Rightarrow> string option \<Rightarrow> bool" where
  "should_bypass c i = (case i of None \<Rightarrow> False | Some j \<Rightarrow> j \<noteq> [] \<and> j \<in> set (rl_trusted_bypass c))"

text \<open>The buckets are a \<open>defaultdict\<close> of queues, the oldest admission in front.\<close>

type_synonym buckets = "string \<Rightarrow> int list"

definition no_buckets :: buckets where
  "no_buckets = (\<lambda>_. [])"

datatype verdict = Pass | TooManyRequests int

definition rate_key :: "string option \<Rightarrow> string" where
  "rate_key i = (case i of None \<Rightarrow> ''unknown'' | Some j \<Rightarrow> if j = [] then ''unknown'' else j)"

definition window :: "rate_settings \<Rightarrow> int" where
  "window c = rl_window_seconds c * 1000000"

fun prune :: "int \<Rightarrow> int list \<Rightarrow> int list" where
  "prune window_start [] = []"
| "prune window_start (t # bucket) = (if t < window_start then prune window_start bucket else t # bucket)"

record arrival =
  ar_now :: int
  ar_client :: "string option"
  ar_headers :: headers_in

definition limited :: "rate_settings \<Rightarrow> arrival \<Rightarrow> bool" where
  "limited c a = (enabled c \<and> \<not> should_bypass c (client_identifier c (ar_client a) (ar_headers a)))"

definition arrival_key :: "rate_settings \<Rightarrow> arrival \<Rightarrow> string" where
  "arrival_key c a = rate_key (client_identifier c (ar_client a) (ar_headers a))"

definition rate_dispatch :: "rate_settings \<Rightarrow> arrival \<Rightarrow> buckets \<Rightarrow> buckets \<times> verdict" where
  "rate_dispatch c a b =
     (if \<not> limited c a then (b, Pass)
      else let key = arrival_key c a; bucket = prune (ar_now a - window c) (b key)
           in if rl_requests c \<le> int (length bucket)
              then (b(key := bucket), TooManyRequests (rl_window_seconds c))
              else (b(key := bucket @ [ar_now a]), Pass))"

fun rate_run :: "rate_settings \<Rightarrow> arrival list \<Rightarrow> buckets \<Rightarrow> buckets" where
  "rate_run c [] b = b"
| "rate_run c (a # as) b = rate_run c as (fst (rate_dispatch c a b))"

section \<open>The reference: a history of admissions\<close>

definition recent :: "int \<Rightarrow> int list \<Rightarrow> int list" where
  "recent start ts = filter (\<lambda>t. start \<le> t) ts"

definition admit :: "rate_settings \<Rightarrow> arrival \<Rightarrow> (string \<times> int) list \<Rightarrow> bool" where
  "admit c a h \<longleftrightarrow> \<not> limited c a \<or>
     int (length (recent (ar_now a - window c) (map snd (filter (\<lambda>(k, _). k = arrival_key c a) h)))) < rl_requests c"

fun admissions :: "rate_settings \<Rightarrow> arrival list \<Rightarrow> (string \<times> int) list \<Rightarrow> (string \<times> int) list" where
  "admissions c [] h = h"
| "admissions c (a # as) h =
     admissions c as (if limited c a \<and> admit c a h then h @ [(arrival_key c a, ar_now a)] else h)"

definition times_of :: "string \<Rightarrow> (string \<times> int) list \<Rightarrow> int list" where
  "times_of k h = map snd (filter (\<lambda>(j, _). j = k) h)"

section \<open>The buckets against the history\<close>

lemma prune_dropWhile: "prune s ts = dropWhile (\<lambda>t. t < s) ts"
  by (induction ts) auto

lemma prune_sorted: "sorted ts \<Longrightarrow> prune s ts = recent s ts"
proof (induction ts)
  case (Cons t ts)
  then have "\<And>u. u \<in> set ts \<Longrightarrow> t \<le> u" by simp
  then have "s \<le> t \<Longrightarrow> filter (\<lambda>u. s \<le> u) ts = ts" by (intro filter_True) force
  with Cons show ?case by (auto simp: recent_def)
qed (simp add: recent_def)

lemma recent_recent: "s \<le> s' \<Longrightarrow> recent s' (recent s ts) = recent s' ts"
  unfolding recent_def filter_filter by (rule filter_cong) auto

lemma times_of_snoc [simp]: "times_of k (h @ [(j, t)]) = (if j = k then times_of k h @ [t] else times_of k h)"
  by (simp add: times_of_def)

text \<open>The buckets stand for a history up to a time: every later window reads the same from both,
  and the history is sorted and lies before that time.\<close>

definition tracks :: "rate_settings \<Rightarrow> int \<Rightarrow> buckets \<Rightarrow> (string \<times> int) list \<Rightarrow> bool" where
  "tracks c now b h \<longleftrightarrow>
     (\<forall>k. sorted (b k) \<and> (\<forall>t \<in> set (b k). t \<le> now) \<and>
          (\<forall>s \<ge> now - window c. recent s (b k) = recent s (times_of k h)))"

lemma tracks_start: "tracks c now no_buckets []"
  by (simp add: tracks_def no_buckets_def times_of_def)

lemma tracks_verdict:
  assumes "tracks c now b h" "now \<le> ar_now a" "limited c a"
  shows "prune (ar_now a - window c) (b (arrival_key c a))
    = recent (ar_now a - window c) (times_of (arrival_key c a) h)"
  using assms by (simp add: tracks_def prune_sorted)

lemma dispatch_exact:
  assumes "tracks c now b h" "now \<le> ar_now a"
  shows "snd (rate_dispatch c a b) = Pass \<longleftrightarrow> admit c a h"
  using tracks_verdict [OF assms]
  by (auto simp: rate_dispatch_def admit_def Let_def times_of_def)

lemma recent_snoc: "recent s (ts @ [t]) = recent s ts @ (if s \<le> t then [t] else [])"
  by (simp add: recent_def)

lemma tracks_step:
  assumes b: "tracks c now b h" and le: "now \<le> ar_now a"
  shows "tracks c (ar_now a) (fst (rate_dispatch c a b))
    (if limited c a \<and> admit c a h then h @ [(arrival_key c a, ar_now a)] else h)"
proof (cases "limited c a")
  case False
  with assms show ?thesis by (force simp: rate_dispatch_def tracks_def)
next
  case True
  define K where "K = arrival_key c a"
  define p where "p = recent (ar_now a - window c) (times_of K h)"
  have p: "prune (ar_now a - window c) (b K) = p"
    using tracks_verdict [OF b le True] by (simp add: p_def K_def)
  have q: "p = recent (ar_now a - window c) (b K)"
    using p b by (simp add: tracks_def prune_sorted)
  have old: "sorted (b k)" "t \<in> set (b k) \<Longrightarrow> t \<le> ar_now a"
    "s \<ge> ar_now a - window c \<Longrightarrow> recent s (b k) = recent s (times_of k h)" for k t s
    using b le by (force simp: tracks_def)+
  have new: "sorted p" "\<And>t. t \<in> set p \<Longrightarrow> t \<le> ar_now a"
    "\<And>s. s \<ge> ar_now a - window c \<Longrightarrow> recent s p = recent s (times_of K h)"
    subgoal unfolding q recent_def using old(1) by (rule sorted_wrt_filter)
    subgoal unfolding q recent_def using old(2) by auto
    subgoal unfolding q using old(3) by (simp add: recent_recent)
    done
  have "admit c a h \<longleftrightarrow> int (length p) < rl_requests c"
    using True by (simp add: admit_def p_def times_of_def K_def)
  then show ?thesis
    using True old new p
    by (auto simp: tracks_def rate_dispatch_def Let_def K_def recent_snoc sorted_append)
qed

lemma tracks_run:
  assumes "tracks c now b h" "sorted (now # map ar_now as)"
  shows "\<exists>now'. tracks c now' (rate_run c as b) (admissions c as h) \<and> now' = last (now # map ar_now as)"
  using assms
proof (induction as arbitrary: now b h)
  case (Cons a as)
  then show ?case using Cons.IH [OF tracks_step [OF Cons.prems(1), of a]] by simp
qed simp

section \<open>Windows\<close>

definition in_window :: "int \<Rightarrow> int \<Rightarrow> int list \<Rightarrow> nat" where
  "in_window s w ts = length (filter (\<lambda>t. s \<le> t \<and> t \<le> s + w) ts)"

lemma in_window_snoc: "in_window s w (ts @ [t]) = in_window s w ts + (if s \<le> t \<and> t \<le> s + w then 1 else 0)"
  by (simp add: in_window_def)

lemma in_window_recent:
  assumes "u - w \<le> s"
  shows "in_window s w ts \<le> length (recent (u - w) ts)"
proof -
  have "filter (\<lambda>t. s \<le> t \<and> t \<le> s + w) ts = filter (\<lambda>t. s \<le> t \<and> t \<le> s + w) (recent (u - w) ts)"
    unfolding recent_def filter_filter using assms by (intro filter_cong) auto
  then show ?thesis by (simp add: in_window_def)
qed

lemma admissions_bounded:
  assumes "\<And>k s. int (in_window s (window c) (times_of k h)) \<le> max 0 (rl_requests c)"
  shows "int (in_window s (window c) (times_of k (admissions c as h))) \<le> max 0 (rl_requests c)"
  using assms
proof (induction as arbitrary: h)
  case (Cons a as)
  let ?h = "if limited c a \<and> admit c a h then h @ [(arrival_key c a, ar_now a)] else h"
  have "int (in_window s (window c) (times_of k ?h)) \<le> max 0 (rl_requests c)" for k s
  proof (cases "limited c a \<and> admit c a h \<and> arrival_key c a = k \<and> s \<le> ar_now a \<and> ar_now a \<le> s + window c")
    case True
    then have "int (length (recent (ar_now a - window c) (times_of k h))) < rl_requests c"
      by (auto simp: admit_def times_of_def)
    then show ?thesis
      using True in_window_recent [of "ar_now a" "window c" s "times_of k h"] by (simp add: in_window_snoc)
  next
    case False
    then show ?thesis using Cons.prems [of s k] by (auto simp: in_window_snoc)
  qed
  then show ?case using Cons.IH by simp
qed simp

section \<open>Properties\<close>

text \<open>
  C32. The limiter is exact. For any sequence of requests in the order of the clock, the next request
  is throttled exactly when it is subject to the limit and the history has \<open>requests\<close> admissions of
  its client in the window before it; and whatever window of the configured length is chosen, no
  client was admitted more than \<open>requests\<close> times in it.
\<close>

theorem rate_limit_exact:
  assumes "sorted (map ar_now (as @ [a]))" and "0 \<le> rl_requests c"
  shows "(snd (rate_dispatch c a (rate_run c as no_buckets)) = Pass \<longleftrightarrow> admit c a (admissions c as []))
    \<and> (\<forall>k s. int (in_window s (window c) (times_of k (admissions c as []))) \<le> rl_requests c)"
proof
  show "snd (rate_dispatch c a (rate_run c as no_buckets)) = Pass \<longleftrightarrow> admit c a (admissions c as [])"
  proof (cases as)
    case Nil
    then show ?thesis by (simp add: dispatch_exact [OF tracks_start order.refl])
  next
    case (Cons a0 as0)
    then have "last (map ar_now as) \<in> set (map ar_now as)" by (intro last_in_set) simp
    then have "last (map ar_now as) \<le> ar_now a" using assms(1) by (auto simp: sorted_append)
    moreover obtain now where "tracks c now (rate_run c as no_buckets) (admissions c as [])"
      "now = last (map ar_now as)"
      using tracks_run [OF tracks_start, of "ar_now a0" as c] assms(1) Cons by (auto simp: sorted_append)
    ultimately show ?thesis using dispatch_exact by blast
  qed
  show "\<forall>k s. int (in_window s (window c) (times_of k (admissions c as []))) \<le> rl_requests c"
    using admissions_bounded [of c "[]"] assms(2) by (simp add: in_window_def times_of_def)
qed

definition sample_limit :: rate_settings where
  "sample_limit = \<lparr>rl_requests = 2, rl_window_seconds = 1, rl_trusted_bypass = [], rl_trusted_proxies = [''proxy'']\<rparr>"

definition sample_arrival :: "int \<Rightarrow> arrival" where
  "sample_arrival t = \<lparr>ar_now = t, ar_client = Some ''proxy'', ar_headers = [(''x-forwarded-for'', ''10.0.0.1, proxy'')]\<rparr>"

theorem rate_limit_exact_witness:
  "snd (rate_dispatch sample_limit (sample_arrival 900000)
     (rate_run sample_limit [sample_arrival 0, sample_arrival 500000] no_buckets)) \<noteq> Pass
   \<and> snd (rate_dispatch sample_limit (sample_arrival 1000001)
     (rate_run sample_limit [sample_arrival 0, sample_arrival 500000] no_buckets)) = Pass"
proof -
  have r: "\<not> admit sample_limit (sample_arrival 900000) (admissions sample_limit [sample_arrival 0, sample_arrival 500000] [])"
    "admit sample_limit (sample_arrival 1000001) (admissions sample_limit [sample_arrival 0, sample_arrival 500000] [])"
    by code_simp+
  have s: "sorted (map ar_now ([sample_arrival 0, sample_arrival 500000] @ [sample_arrival 900000]))"
    "sorted (map ar_now ([sample_arrival 0, sample_arrival 500000] @ [sample_arrival 1000001]))"
    "0 \<le> rl_requests sample_limit"
    by (simp_all add: sample_arrival_def sample_limit_def)
  show ?thesis
    using rate_limit_exact [OF s(1,3)] rate_limit_exact [OF s(2,3)] r by simp
qed

end
