(* ===== verification/Credentials.thy ===== *)
theory Credentials
  imports Execution_Api Rate_Limit
begin

text \<open>
  Worker credentials (\<^verbatim>\<open>server/execution/credentials.py\<close>, the routes of
  \<^verbatim>\<open>worker_credentials.py\<close>), the authentication of requests
  (\<^verbatim>\<open>server/api/dependencies.py\<close>) and the outer layers every request passes
  (\<^verbatim>\<open>server/api/__init__.py\<close>): the rate limiter, the guard that keeps worker tokens on the
  worker routes, and then the route with its own check.

  The hash function (\<open>sha\<close>, the hexadecimal SHA-256 of an ASCII text) and the random hexadecimal texts
  of \<open>secrets.token_hex\<close> (\<open>draw\<close>) are arguments. Header names are in lower case.

  The reference is a vault: for each worker the credential last handed out, in the clear, and
  whether it is live. \<open>vault_step\<close> says what issuing, rotating and revoking mean there; the table of
  hashes is related to it by \<open>vault_rel\<close>.
\<close>

section \<open>The credential table\<close>

record credential_row =
  k_worker_id :: string
  k_credential_id :: string
  k_verifier :: string
  k_created_at :: time
  k_rotated_at :: "time option"
  k_revoked_at :: "time option"

record cred_db =
  cd_exec :: exec_db
  cd_credentials :: "credential_row list"

record worker_principal =
  wp_worker_id :: string
  wp_credential_id :: string

datatype cred_error = CredentialConflictError string | CredentialIntegrityError

type_synonym draw = "string \<times> string"

definition worker_token :: "string \<Rightarrow> string \<Rightarrow> string" where
  "worker_token credential_id secret = ''swb_w1.'' @ credential_id @ ''.'' @ secret"

text \<open>\<^verbatim>\<open>TOKEN_PATTERN.fullmatch\<close> with its two groups.\<close>

definition TOKEN_PATTERN :: "string \<Rightarrow> (string \<times> string) option" where
  "TOKEN_PATTERN token =
     (let credential_id = take 32 (drop 7 token); secret = drop 40 token
      in if take 7 token = ''swb_w1.'' \<and> lower_hex 32 credential_id \<and> take 1 (drop 39 token) = ''.''
            \<and> lower_hex 64 secret
         then Some (credential_id, secret) else None)"

definition WORKER_ID_PATTERN :: "string \<Rightarrow> bool" where
  "WORKER_ID_PATTERN s =
     (case s of [] \<Rightarrow> False
      | c # cs \<Rightarrow> (let alnum = (\<lambda>c. is_digit c \<or> (65 \<le> (of_char c :: nat) \<and> (of_char c :: nat) \<le> 90)
                        \<or> (97 \<le> (of_char c :: nat) \<and> (of_char c :: nat) \<le> 122))
                   in alnum c \<and> length cs \<le> 127 \<and> list_all (\<lambda>c. alnum c \<or> c \<in> {CHR ''_'', CHR ''.'', CHR ''-''}) cs))"

definition find_credential :: "cred_db \<Rightarrow> string \<Rightarrow> credential_row option" where
  "find_credential db worker_id = find (\<lambda>k. k_worker_id k = worker_id) (cd_credentials db)"

definition authenticate :: "(string \<Rightarrow> string) \<Rightarrow> cred_db \<Rightarrow> string \<Rightarrow> worker_principal option" where
  "authenticate sha db token =
     (case TOKEN_PATTERN token of
        None \<Rightarrow> None
      | Some (credential_id, secret) \<Rightarrow>
          (case find (\<lambda>k. k_credential_id k = credential_id) (cd_credentials db) of
             None \<Rightarrow> None
           | Some k \<Rightarrow>
               if sha secret \<noteq> k_verifier k \<or> k_revoked_at k \<noteq> None then None
               else Some \<lparr>wp_worker_id = k_worker_id k, wp_credential_id = k_credential_id k\<rparr>))"

text \<open>The worker row that issuing a credential creates for an unknown worker.\<close>

definition unregistered_worker :: "string \<Rightarrow> worker_registration" where
  "unregistered_worker worker_id =
     \<lparr>wr_worker_id = worker_id, wr_display_name = worker_id,
      wr_caps = \<lparr>wc_operating_system = ''unregistered'', wc_architecture = ''unregistered'',
        wc_python_version = None, wc_node_version = None, wc_pnpm_version = None, wc_docker_available = False,
        wc_browsers = [], wc_gpu_available = False, wc_unity_available = False, wc_desktop_available = False,
        wc_capabilities = [], wc_network_policy_capability = NET_WORKER_RESTRICTED,
        wc_repository_write_capability = False\<rparr>,
      wr_repository_full_names = [], wr_max_concurrency = 1, wr_status = W_OFFLINE\<rparr>"

definition ensure_worker :: "exec_db \<Rightarrow> time \<Rightarrow> string \<Rightarrow> exec_db" where
  "ensure_worker db now worker_id =
     (case find_worker db worker_id of
        None \<Rightarrow> db\<lparr>workers := workers db @ [new_worker_row (unregistered_worker worker_id) now]\<rparr>
      | Some _ \<Rightarrow> db)"

definition issue ::
  "(string \<Rightarrow> string) \<Rightarrow> time \<Rightarrow> draw \<Rightarrow> cred_db \<Rightarrow> string \<Rightarrow> cred_error + cred_db \<times> credential_row \<times> string" where
  "issue sha now d db worker_id =
     (if find_credential db worker_id \<noteq> None then Inl (CredentialConflictError ''credential_already_issued'')
      else if fst d \<in> k_credential_id ` set (cd_credentials db) then Inl CredentialIntegrityError
      else let row = \<lparr>k_worker_id = worker_id, k_credential_id = fst d, k_verifier = sha (snd d),
                      k_created_at = now, k_rotated_at = None, k_revoked_at = None\<rparr>
           in Inr (\<lparr>cd_exec = ensure_worker (cd_exec db) now worker_id,
                    cd_credentials = cd_credentials db @ [row]\<rparr>, row, worker_token (fst d) (snd d)))"

definition rotate ::
  "(string \<Rightarrow> string) \<Rightarrow> time \<Rightarrow> draw \<Rightarrow> cred_db \<Rightarrow> string \<Rightarrow> string \<Rightarrow> cred_error + cred_db \<times> credential_row \<times> string" where
  "rotate sha now d db worker_id expected_id =
     (let P = (\<lambda>k. k_worker_id k = worker_id \<and> k_credential_id k = expected_id);
          db' = db\<lparr>cd_credentials := update_where P
            (\<lambda>k. k\<lparr>k_credential_id := fst d, k_verifier := sha (snd d), k_rotated_at := Some now, k_revoked_at := None\<rparr>)
            (cd_credentials db)\<rparr>
      in if rowcount P (cd_credentials db) \<noteq> 0
            \<and> (\<exists>k \<in> set (cd_credentials db). \<not> P k \<and> k_credential_id k = fst d) then Inl CredentialIntegrityError
         else if rowcount P (cd_credentials db) \<noteq> 1 then Inl (CredentialConflictError ''credential_transition_conflict'')
         else case find_credential db' worker_id of
                None \<Rightarrow> Inl (CredentialConflictError ''credential_transition_conflict'')
              | Some row \<Rightarrow> Inr (db', row, worker_token (fst d) (snd d)))"

definition revoke :: "time \<Rightarrow> cred_db \<Rightarrow> string \<Rightarrow> string \<Rightarrow> cred_error + cred_db \<times> credential_row" where
  "revoke now db worker_id expected_id =
     (let db' = db\<lparr>cd_credentials := update_where
            (\<lambda>k. k_worker_id k = worker_id \<and> k_credential_id k = expected_id \<and> k_revoked_at k = None)
            (\<lambda>k. k\<lparr>k_revoked_at := Some now\<rparr>) (cd_credentials db)\<rparr>
      in case find_credential db' worker_id of
           None \<Rightarrow> Inl (CredentialConflictError ''credential_transition_conflict'')
         | Some row \<Rightarrow> if k_credential_id row \<noteq> expected_id
                        then Inl (CredentialConflictError ''credential_transition_conflict'')
                        else Inr (db', row))"

section \<open>Authentication of requests\<close>

record http_in =
  hi_client :: "string option"
  hi_headers :: headers_in
  hi_query :: "(string \<times> string) list"

definition getlist :: "headers_in \<Rightarrow> string \<Rightarrow> string list" where
  "getlist hs name = map snd (filter (\<lambda>(n, _). n = name) hs)"

definition require_admin_token :: "string option \<Rightarrow> headers_in \<Rightarrow> unit http" where
  "require_admin_token configured hs =
     (case configured of
        None \<Rightarrow> Reply ()
      | Some secret \<Rightarrow>
          (let header = (case header_get hs ''authorization'' of None \<Rightarrow> [] | Some v \<Rightarrow> v);
               token = (if lower (take 7 header) = ''bearer '' then strip (drop 7 header) else []);
               token' = (if token = [] then header_get hs ''x-switchboard-admin-token'' else Some token)
           in if token' = Some secret then Reply () else HttpError 401 ''Invalid or missing admin token''))"

definition require_credential_administrator :: "string option \<Rightarrow> unit http" where
  "require_credential_administrator configured =
     (if configured = None then HttpError 503 ''administrator_not_configured'' else Reply ())"

definition query_allowed :: "string \<Rightarrow> worker_principal \<Rightarrow> string \<times> string \<Rightarrow> bool" where
  "query_allowed url_path p q =
     (fst q = ''worker_id'' \<and> snd q = wp_worker_id p
      \<or> fst q = ''run_id'' \<and> take 32 url_path = ''/api/execution/worker/manifests/'')"

definition require_worker_token ::
  "(string \<Rightarrow> string) \<Rightarrow> cred_db \<Rightarrow> string \<Rightarrow> http_in \<Rightarrow> worker_principal http" where
  "require_worker_token sha db url_path q =
     (case getlist (hi_headers q) ''authorization'' of
        [header] \<Rightarrow>
          if take 7 header \<noteq> ''Bearer '' \<or> getlist (hi_headers q) ''x-switchboard-admin-token'' \<noteq> []
          then HttpError 401 ''worker_authentication_failed''
          else (case authenticate sha db (drop 7 header) of
                  None \<Rightarrow> HttpError 401 ''worker_authentication_failed''
                | Some p \<Rightarrow>
                    if \<not> distinct (map fst (hi_query q)) \<or> \<not> list_all (query_allowed url_path p) (hi_query q)
                    then HttpError 403 ''worker_scope_denied'' else Reply p)
      | _ \<Rightarrow> HttpError 401 ''worker_authentication_failed'')"

text \<open>\<open>enforce_worker_surface\<close>: a request that carries something like a worker token in a credential
  header is admitted on the worker routes only.\<close>

definition enforce_worker_surface :: "string \<Rightarrow> headers_in \<Rightarrow> bool" where
  "enforce_worker_surface url_path hs =
     (list_ex (\<lambda>v. contains ''swb_w1.'' (lower v))
        (getlist hs ''authorization'' @ getlist hs ''x-switchboard-admin-token'')
      \<longrightarrow> take 22 url_path = ''/api/execution/worker/'')"

section \<open>Routes\<close>

datatype server_request =
    IssueCredential string
  | RotateCredential string string
  | RevokeCredential string string
  | DescribeCredential string
  | AdminRoute exec_request
  | WorkerRoute exec_request
  | WorkerManifestRoute string string int

text \<open>The path of an execution route below its prefix; the worker routes use the same below theirs.\<close>

fun route_rest :: "exec_request \<Rightarrow> string" where
  "route_rest ListManifests = ''/manifests''"
| "route_rest (GetManifest n v) = ''/manifests/'' @ n @ ''/'' @ v"
| "route_rest (CreateWorkOrder d) = ''/work-orders''"
| "route_rest (ApproveWorkOrder i q) = ''/work-orders/'' @ show_int i @ ''/approve''"
| "route_rest (QueueWorkOrder i) = ''/work-orders/'' @ show_int i @ ''/queue''"
| "route_rest (RejectWorkOrder i r) = ''/work-orders/'' @ show_int i @ ''/reject''"
| "route_rest (CancelWorkOrder i r) = ''/work-orders/'' @ show_int i @ ''/cancel''"
| "route_rest (ExpireWorkOrder i r) = ''/work-orders/'' @ show_int i @ ''/expire''"
| "route_rest (RequeueStaleWorkOrder i) = ''/work-orders/'' @ show_int i @ ''/requeue''"
| "route_rest (AssessRoute i) = ''/work-orders/'' @ show_int i @ ''/route-assessment''"
| "route_rest (CreateRoutingProfile n j v) = ''/routing-profiles''"
| "route_rest (ReplaceRoutingProfile j n v) = ''/routing-profiles/'' @ j"
| "route_rest (ResetRoutingQuota j n q d) = ''/routing-profiles/'' @ j @ ''/quota-reset''"
| "route_rest (RegisterWorker v) = ''/workers''"
| "route_rest (HeartbeatWorker j s) = ''/workers/'' @ j @ ''/heartbeat''"
| "route_rest (CheckoutWork j) = ''/checkout''"
| "route_rest (ResolveReuse k j i h) = ''/runs/'' @ show_int k @ ''/reuse-candidate''"
| "route_rest (HeartbeatRun k j) = ''/runs/'' @ show_int k @ ''/heartbeat''"
| "route_rest (CompleteRun k j c) = ''/runs/'' @ show_int k @ ''/complete''"
| "route_rest ExpireLeases = ''/leases/expire''"
| "route_rest (ScopedManifest p n v k) = ''/manifests/'' @ n @ ''/'' @ v"
| "route_rest (Scoped p req) = route_rest req"

fun url_path :: "server_request \<Rightarrow> string" where
  "url_path (IssueCredential w) = ''/api/execution/worker-credentials/'' @ w @ ''/issue''"
| "url_path (RotateCredential w i) = ''/api/execution/worker-credentials/'' @ w @ ''/rotate''"
| "url_path (RevokeCredential w i) = ''/api/execution/worker-credentials/'' @ w @ ''/revoke''"
| "url_path (DescribeCredential w) = ''/api/execution/worker-credentials/'' @ w"
| "url_path (AdminRoute req) = ''/api/execution'' @ route_rest req"
| "url_path (WorkerRoute req) = ''/api/execution/worker'' @ route_rest req"
| "url_path (WorkerManifestRoute n v k) = ''/api/execution/worker/manifests/'' @ n @ ''/'' @ v"

record edge_env =
  ee_service :: service_env
  ee_sha :: "string \<Rightarrow> string"
  ee_admin_token :: "string option"
  ee_rate :: rate_settings

record edge_tick =
  et_monotonic :: int
  et_now :: time
  et_draw :: draw
  et_exec :: tick

datatype served = Served | Refused int string | Issued credential_row string | Described credential_row

text \<open>The three management routes: both administrator checks, the path and body patterns, and the
  transaction, which turns every conflict into one status.\<close>

definition managed ::
  "edge_env \<Rightarrow> headers_in \<Rightarrow> bool \<Rightarrow> cred_db \<Rightarrow> (cred_error + cred_db \<times> served) \<Rightarrow> cred_db \<times> served" where
  "managed env hs well_formed db outcome =
     (case require_admin_token (ee_admin_token env) hs of
        HttpError n m \<Rightarrow> (db, Refused n m)
      | Reply _ \<Rightarrow>
          (case require_credential_administrator (ee_admin_token env) of
             HttpError n m \<Rightarrow> (db, Refused n m)
           | Reply _ \<Rightarrow>
               if \<not> well_formed then (db, Refused 422 ''invalid_worker_request'')
               else (case outcome of
                       Inl _ \<Rightarrow> (db, Refused 409 ''credential_transition_conflict'')
                     | Inr (db', v) \<Rightarrow> (db', v))))"

definition worker_call ::
  "edge_env \<Rightarrow> cred_db \<Rightarrow> string \<Rightarrow> http_in \<Rightarrow> (string \<Rightarrow> exec_request) \<Rightarrow> tick \<Rightarrow> cred_db \<times> served" where
  "worker_call env db p q req t =
     (case require_worker_token (ee_sha env) db p q of
        HttpError n m \<Rightarrow> (db, Refused n m)
      | Reply w \<Rightarrow>
          (db\<lparr>cd_exec := exec_handle (ee_service env) t (req (wp_worker_id w)) (cd_exec db)\<rparr>, Served))"

fun route :: "edge_env \<Rightarrow> edge_tick \<Rightarrow> http_in \<Rightarrow> server_request \<Rightarrow> cred_db \<Rightarrow> cred_db \<times> served" where
  "route env t q (IssueCredential w) db =
     managed env (hi_headers q) (WORKER_ID_PATTERN w) db
       (rbind (issue (ee_sha env) (et_now t) (et_draw t) db w) (\<lambda>(db', row, token). Inr (db', Issued row token)))"
| "route env t q (RotateCredential w i) db =
     managed env (hi_headers q) (WORKER_ID_PATTERN w \<and> lower_hex 32 i) db
       (rbind (rotate (ee_sha env) (et_now t) (et_draw t) db w i) (\<lambda>(db', row, token). Inr (db', Issued row token)))"
| "route env t q (RevokeCredential w i) db =
     managed env (hi_headers q) (WORKER_ID_PATTERN w \<and> lower_hex 32 i) db
       (rbind (revoke (et_now t) db w i) (\<lambda>(db', row). Inr (db', Described row)))"
| "route env t q (DescribeCredential w) db =
     (case find_credential db w of
        None \<Rightarrow>
          (case managed env (hi_headers q) (WORKER_ID_PATTERN w) db (Inr (db, Served)) of
             (_, Served) \<Rightarrow> (db, Refused 404 ''credential_not_found'') | (_, out) \<Rightarrow> (db, out))
      | Some row \<Rightarrow> managed env (hi_headers q) (WORKER_ID_PATTERN w) db (Inr (db, Described row)))"
| "route env t q (AdminRoute req) db =
     (case require_admin_token (ee_admin_token env) (hi_headers q) of
        HttpError n m \<Rightarrow> (db, Refused n m)
      | Reply _ \<Rightarrow> (db\<lparr>cd_exec := exec_handle (ee_service env) (et_exec t) req (cd_exec db)\<rparr>, Served))"
| "route env t q (WorkerRoute req) db =
     worker_call env db (url_path (WorkerRoute req)) q (\<lambda>w. Scoped w req) (et_exec t)"
| "route env t q (WorkerManifestRoute n v k) db =
     worker_call env db (url_path (WorkerManifestRoute n v k)) q (\<lambda>w. ScopedManifest w n v k) (et_exec t)"

section \<open>The server edge\<close>

record edge_state =
  es_db :: cred_db
  es_buckets :: buckets

definition serve :: "edge_env \<Rightarrow> edge_tick \<Rightarrow> http_in \<Rightarrow> server_request \<Rightarrow> edge_state \<Rightarrow> edge_state \<times> served" where
  "serve env t q req s =
     (case rate_dispatch (ee_rate env) \<lparr>ar_now = et_monotonic t, ar_client = hi_client q, ar_headers = hi_headers q\<rparr>
             (es_buckets s) of
        (b, TooManyRequests n) \<Rightarrow> (s\<lparr>es_buckets := b\<rparr>, Refused 429 ''Too Many Requests'')
      | (b, Pass) \<Rightarrow>
          if \<not> enforce_worker_surface (url_path req) (hi_headers q)
          then (s\<lparr>es_buckets := b\<rparr>, Refused 401 ''worker_scope_denied'')
          else case route env t q req (es_db s) of
                 (db, out) \<Rightarrow> (\<lparr>es_db = db, es_buckets = b\<rparr>, out))"

type_synonym edge_event = "edge_tick \<times> http_in \<times> server_request"

fun serve_all :: "edge_env \<Rightarrow> edge_event list \<Rightarrow> edge_state \<Rightarrow> edge_state" where
  "serve_all env [] s = s"
| "serve_all env ((t, q, req) # es) s = serve_all env es (fst (serve env t q req s))"

end
