(* ===== verification/Server_Edge.thy ===== *)
theory Server_Edge
  imports Credentials Worker_Isolation
begin

text \<open>
  What the outer layers of \<open>Credentials\<close> guarantee: the execution tables behind them stay reachable, so
  everything shown of the execution plane holds of the served system; the token that speaks for a
  worker is the one last handed out for it, until it is revoked; and a request that carries a worker
  token reaches nothing but the routes of its own worker.
\<close>

section \<open>Tokens\<close>

lemma token_pattern_iff:
  "TOKEN_PATTERN token = Some (i, s) \<longleftrightarrow> lower_hex 32 i \<and> lower_hex 64 s \<and> token = worker_token i s"
proof
  assume "TOKEN_PATTERN token = Some (i, s)"
  then have a: "take 7 token = ''swb_w1.''" "lower_hex 32 i" "take 1 (drop 39 token) = ''.''" "lower_hex 64 s"
    "i = take 32 (drop 7 token)" "s = drop 40 token"
    by (auto simp: TOKEN_PATTERN_def Let_def split: if_splits)
  have "token = take 7 token @ take 32 (drop 7 token) @ take 1 (drop 39 token) @ drop 40 token"
    using append_take_drop_id [of 7 token] append_take_drop_id [of 32 "drop 7 token"]
      append_take_drop_id [of 1 "drop 39 token"] by (simp add: drop_drop)
  with a show "lower_hex 32 i \<and> lower_hex 64 s \<and> token = worker_token i s"
    by (simp add: worker_token_def)
next
  assume "lower_hex 32 i \<and> lower_hex 64 s \<and> token = worker_token i s"
  then show "TOKEN_PATTERN token = Some (i, s)"
    by (auto simp: TOKEN_PATTERN_def Let_def worker_token_def lower_hex_def)
qed

lemma token_eq_iff:
  "length i = length i' \<Longrightarrow> worker_token i s = worker_token i' s' \<longleftrightarrow> i = i' \<and> s = s'"
  by (simp add: worker_token_def)

section \<open>The vault\<close>

text \<open>What an observer of the replies knows of the credentials: for each worker the last token handed
  out and whether it was revoked since.\<close>

type_synonym vault = "string \<Rightarrow> (string \<times> bool) option"

fun vault_step :: "vault \<Rightarrow> server_request \<times> served \<Rightarrow> vault" where
  "vault_step v (IssueCredential w, Issued row token) = v(w \<mapsto> (token, True))"
| "vault_step v (RotateCredential w i, Issued row token) = v(w \<mapsto> (token, True))"
| "vault_step v (RevokeCredential w i, Described row) =
     (case v w of None \<Rightarrow> v | Some (token, _) \<Rightarrow> v(w \<mapsto> (token, False)))"
| "vault_step v _ = v"

fun replies :: "edge_env \<Rightarrow> edge_event list \<Rightarrow> edge_state \<Rightarrow> (server_request \<times> served) list" where
  "replies env [] s = []"
| "replies env ((t, q, req) # es) s = (req, snd (serve env t q req s)) # replies env es (fst (serve env t q req s))"

definition row_rel :: "(string \<Rightarrow> string) \<Rightarrow> vault \<Rightarrow> credential_row \<Rightarrow> bool" where
  "row_rel sha v k \<longleftrightarrow> (\<exists>secret. lower_hex 32 (k_credential_id k) \<and> lower_hex 64 secret
     \<and> k_verifier k = sha secret
     \<and> v (k_worker_id k) = Some (worker_token (k_credential_id k) secret, k_revoked_at k = None))"

definition vault_rel :: "(string \<Rightarrow> string) \<Rightarrow> credential_row list \<Rightarrow> vault \<Rightarrow> bool" where
  "vault_rel sha rows v \<longleftrightarrow> distinct (map k_worker_id rows) \<and> distinct (map k_credential_id rows)
     \<and> (\<forall>w. v w \<noteq> None \<longrightarrow> w \<in> k_worker_id ` set rows) \<and> (\<forall>k \<in> set rows. row_rel sha v k)"

definition good_draw :: "draw \<Rightarrow> bool" where
  "good_draw d \<longleftrightarrow> lower_hex 32 (fst d) \<and> lower_hex 64 (snd d)"

lemma vault_rel_start: "vault_rel sha [] Map.empty"
  by (simp add: vault_rel_def)

lemma row_rel_other: "k_worker_id k \<noteq> w \<Longrightarrow> row_rel sha (v(w := x)) k \<longleftrightarrow> row_rel sha v k"
  by (simp add: row_rel_def)

lemma issue_rel:
  assumes rel: "vault_rel sha (cd_credentials db) v" and d: "good_draw d"
    and i: "issue sha now d db w = Inr (db', row, token)"
  shows "vault_rel sha (cd_credentials db') (v(w \<mapsto> (token, True)))"
proof -
  have new: "w \<notin> k_worker_id ` set (cd_credentials db)" "fst d \<notin> k_credential_id ` set (cd_credentials db)"
    and rows: "cd_credentials db' = cd_credentials db @ [row]" "token = worker_token (fst d) (snd d)"
    and row: "k_worker_id row = w" "k_credential_id row = fst d" "k_verifier row = sha (snd d)" "k_revoked_at row = None"
    using i by (auto simp: issue_def Let_def find_credential_def find_None_iff split: if_splits)
  have "row_rel sha (v(w \<mapsto> (token, True))) k" if "k \<in> set (cd_credentials db)" for k
    using rel that new by (subst row_rel_other) (auto simp: vault_rel_def)
  moreover have "row_rel sha (v(w \<mapsto> (token, True))) row"
    using row rows d by (auto simp: row_rel_def good_draw_def)
  ultimately show ?thesis using rel new row by (auto simp: vault_rel_def rows)
qed

lemma rotate_rel:
  assumes rel: "vault_rel sha (cd_credentials db) v" and d: "good_draw d"
    and r: "rotate sha now d db w i = Inr (db', row, token)"
  shows "vault_rel sha (cd_credentials db') (v(w \<mapsto> (token, True)))"
proof -
  let ?P = "\<lambda>k. k_worker_id k = w \<and> k_credential_id k = i"
  let ?f = "\<lambda>k. k\<lparr>k_credential_id := fst d, k_verifier := sha (snd d), k_rotated_at := Some now, k_revoked_at := None\<rparr>"
  have one: "rowcount ?P (cd_credentials db) = 1"
    and free: "\<And>k. k \<in> set (cd_credentials db) \<Longrightarrow> \<not> ?P k \<Longrightarrow> k_credential_id k \<noteq> fst d"
    and rows: "cd_credentials db' = update_where ?P ?f (cd_credentials db)" "token = worker_token (fst d) (snd d)"
    using r by (auto simp: rotate_def Let_def split: if_splits option.splits)
  obtain k0 where k0: "k0 \<in> set (cd_credentials db)" "?P k0"
    using one rowcount_zero [of ?P "cd_credentials db"] by auto
  have uniq: "?P k \<longleftrightarrow> k_worker_id k = w" if "k \<in> set (cd_credentials db)" for k
    using k0 rel that key_unique [of k_worker_id "cd_credentials db" k k0] by (auto simp: vault_rel_def)
  have keys: "map k_worker_id (cd_credentials db') = map k_worker_id (cd_credentials db)"
    by (simp add: rows update_where_def)
  have "distinct (map k_credential_id (cd_credentials db'))"
    unfolding rows using rel one free
  proof -
    have ids: "distinct (map k_credential_id (cd_credentials db))" using rel by (simp add: vault_rel_def)
    show "distinct (map k_credential_id (update_where ?P ?f (cd_credentials db)))"
      unfolding update_where_def map_map distinct_map
    proof (intro conjI inj_onI)
      show "distinct (cd_credentials db)" using ids by (simp add: distinct_map)
      fix x y assume x: "x \<in> set (cd_credentials db)" and y: "y \<in> set (cd_credentials db)"
        and eq: "(k_credential_id \<circ> (\<lambda>r. if ?P r then ?f r else r)) x = (k_credential_id \<circ> (\<lambda>r. if ?P r then ?f r else r)) y"
      then show "x = y"
        using free [OF x] free [OF y] key_unique [OF ids, of x y] by (auto split: if_splits)
    qed
  qed
  moreover have "row_rel sha (v(w \<mapsto> (token, True))) k" if k: "k \<in> set (cd_credentials db')" for k
  proof -
    obtain k' where k': "k' \<in> set (cd_credentials db)" "k = (if ?P k' then ?f k' else k')"
      using k unfolding rows by (rule update_whereE)
    show ?thesis
    proof (cases "k_worker_id k' = w")
      case True
      with k' uniq d show ?thesis by (auto simp: row_rel_def good_draw_def rows)
    next
      case False
      with k' rel show ?thesis by (auto simp: row_rel_other vault_rel_def)
    qed
  qed
  moreover have "k_worker_id ` set (cd_credentials db') = k_worker_id ` set (cd_credentials db)"
    using keys by (metis list.set_map)
  ultimately show ?thesis using rel keys k0 by (auto simp: vault_rel_def)
qed

lemma revoke_rel:
  assumes rel: "vault_rel sha (cd_credentials db) v" and r: "revoke now db w i = Inr (db', row)"
  shows "\<exists>token b. v w = Some (token, b) \<and> vault_rel sha (cd_credentials db') (v(w \<mapsto> (token, False)))"
proof -
  let ?P = "\<lambda>k. k_worker_id k = w \<and> k_credential_id k = i \<and> k_revoked_at k = None"
  let ?f = "\<lambda>k. k\<lparr>k_revoked_at := Some now\<rparr>"
  have rows: "cd_credentials db' = update_where ?P ?f (cd_credentials db)"
    and row: "find (\<lambda>k. k_worker_id k = w) (cd_credentials db') = Some row" "k_credential_id row = i"
    using r by (auto simp: revoke_def Let_def find_credential_def split: if_splits option.splits)
  have same: "map k_worker_id (cd_credentials db') = map k_worker_id (cd_credentials db)"
    "map k_credential_id (cd_credentials db') = map k_credential_id (cd_credentials db)"
    by (simp_all add: rows update_where_def)
  obtain k0 where k0: "k0 \<in> set (cd_credentials db)" "k_worker_id k0 = w" "k_credential_id k0 = i"
    using find_key_Some [OF row(1)] row(2) by (auto simp: rows update_where_def split: if_splits)
  have uniq: "k = k0" if "k \<in> set (cd_credentials db)" "k_worker_id k = w" for k
    using k0 rel that key_unique [of k_worker_id "cd_credentials db" k k0] by (auto simp: vault_rel_def)
  obtain secret where s: "lower_hex 32 i" "lower_hex 64 secret" "k_verifier k0 = sha secret"
    "v w = Some (worker_token i secret, k_revoked_at k0 = None)"
    using rel k0 by (auto simp: vault_rel_def row_rel_def)
  have "row_rel sha (v(w \<mapsto> (worker_token i secret, False))) k" if k: "k \<in> set (cd_credentials db')" for k
  proof -
    obtain k' where k': "k' \<in> set (cd_credentials db)" "k = (if ?P k' then ?f k' else k')"
      using k unfolding rows by (rule update_whereE)
    show ?thesis
    proof (cases "k_worker_id k' = w")
      case True
      with k' uniq k0 s show ?thesis by (auto simp: row_rel_def)
    next
      case False
      with k' rel show ?thesis by (auto simp: row_rel_other vault_rel_def)
    qed
  qed
  moreover have "k_worker_id ` set (cd_credentials db') = k_worker_id ` set (cd_credentials db)"
    using same by (metis list.set_map)
  ultimately show ?thesis using rel same k0 s by (auto simp: vault_rel_def)
qed

text \<open>Authentication reads the vault.\<close>

lemma authenticate_vault:
  assumes rel: "vault_rel sha (cd_credentials db) v" and sha: "inj_on sha {s. lower_hex 64 s}"
  shows "authenticate sha db token = Some p \<longleftrightarrow>
    v (wp_worker_id p) = Some (token, True) \<and> wp_credential_id p = take 32 (drop 7 token)"
proof
  assume a: "authenticate sha db token = Some p"
  then obtain i s k where t: "TOKEN_PATTERN token = Some (i, s)"
    and k: "find (\<lambda>k. k_credential_id k = i) (cd_credentials db) = Some k" "sha s = k_verifier k" "k_revoked_at k = None"
      "p = \<lparr>wp_worker_id = k_worker_id k, wp_credential_id = k_credential_id k\<rparr>"
    by (auto simp: authenticate_def split: option.splits if_splits)
  note k' = find_key_Some [OF k(1)] and t' = t [unfolded token_pattern_iff]
  obtain secret where "lower_hex 64 secret" "k_verifier k = sha secret"
    "v (k_worker_id k) = Some (worker_token i secret, True)"
    using rel k' k(3) by (auto simp: vault_rel_def row_rel_def)
  moreover from this have "secret = s" using sha k(2) t' by (auto dest: inj_onD)
  ultimately show "v (wp_worker_id p) = Some (token, True) \<and> wp_credential_id p = take 32 (drop 7 token)"
    using k k' t' by (simp add: worker_token_def lower_hex_def)
next
  assume a: "v (wp_worker_id p) = Some (token, True) \<and> wp_credential_id p = take 32 (drop 7 token)"
  then obtain k where k: "k \<in> set (cd_credentials db)" "k_worker_id k = wp_worker_id p"
    using rel by (force simp: vault_rel_def)
  then obtain secret where s: "lower_hex 32 (k_credential_id k)" "lower_hex 64 secret" "k_verifier k = sha secret"
    "token = worker_token (k_credential_id k) secret" "k_revoked_at k = None"
    using rel a by (auto simp: vault_rel_def row_rel_def)
  have "find (\<lambda>k'. k_credential_id k' = k_credential_id k) (cd_credentials db) = Some k"
    using rel k by (intro find_key_unique) (auto simp: vault_rel_def)
  moreover have "TOKEN_PATTERN token = Some (k_credential_id k, secret)"
    using s by (simp add: token_pattern_iff)
  moreover have "wp_credential_id p = k_credential_id k" using a s by (simp add: worker_token_def lower_hex_def)
  ultimately show "authenticate sha db token = Some p"
    using s k by (simp add: authenticate_def)
qed

section \<open>Served requests\<close>

declare url_path.simps [simp del] exec_handle.simps [simp del]

lemma managedD:
  assumes "managed env hs ok db outcome = (db', out)"
  shows "(\<exists>n m. out = Refused n m) \<and> db' = db \<or> outcome = Inr (db', out)"
  using assms by (auto simp: managed_def split: http.splits if_splits sum.splits)

text \<open>A request either reaches its route or leaves the tables alone and is refused.\<close>

lemma serve_cases:
  obtains (refused) n m where "es_db (fst (serve env t q req s)) = es_db s" "snd (serve env t q req s) = Refused n m"
  | (routed) "enforce_worker_surface (url_path req) (hi_headers q)"
      "es_db (fst (serve env t q req s)) = fst (route env t q req (es_db s))"
      "snd (serve env t q req s) = snd (route env t q req (es_db s))"
proof -
  let ?a = "\<lparr>ar_now = et_monotonic t, ar_client = hi_client q, ar_headers = hi_headers q\<rparr>"
  obtain b v where r: "rate_dispatch (ee_rate env) ?a (es_buckets s) = (b, v)" by fastforce
  obtain db out where o: "route env t q req (es_db s) = (db, out)" by fastforce
  show thesis
    using refused routed by (cases v; cases "enforce_worker_surface (url_path req) (hi_headers q)") (auto simp: serve_def r o)
qed

lemma vault_step_refused [simp]: "vault_step v (req, Refused n m) = v"
  by (cases req) simp_all

lemma vault_step_served [simp]: "vault_step v (req, Served) = v"
  by (cases req) simp_all

lemma worker_call_cases:
  obtains (refused) n m where "worker_call env db p q req t = (db, Refused n m)"
  | (called) w where "require_worker_token (ee_sha env) db p q = Reply w"
      "worker_call env db p q req t = (db\<lparr>cd_exec := exec_handle (ee_service env) t (req (wp_worker_id w)) (cd_exec db)\<rparr>, Served)"
  by (cases "require_worker_token (ee_sha env) db p q") (auto simp: worker_call_def)

lemma route_rel:
  assumes rel: "vault_rel (ee_sha env) (cd_credentials db) v" and d: "good_draw (et_draw t)"
    and r: "route env t q req db = (db', out)"
  shows "vault_rel (ee_sha env) (cd_credentials db') (vault_step v (req, out))"
proof (cases req)
  case (IssueCredential w)
  then show ?thesis
    using managedD [of env "hi_headers q" _ db _ db' out] r rel issue_rel [OF rel d, of "et_now t" w]
    by (fastforce simp: result_simps)
next
  case (RotateCredential w i)
  then show ?thesis
    using managedD [of env "hi_headers q" _ db _ db' out] r rel rotate_rel [OF rel d, of "et_now t" w i]
    by (fastforce simp: result_simps)
next
  case (RevokeCredential w i)
  then show ?thesis
    using managedD [of env "hi_headers q" _ db _ db' out] r rel revoke_rel [OF rel, of "et_now t" w i]
    by (fastforce simp: result_simps)
next
  case (DescribeCredential w)
  then have "db' = db"
    using r by (auto simp: managed_def split: option.splits http.splits if_splits served.splits prod.splits)
  with DescribeCredential rel show ?thesis by simp
next
  case (AdminRoute x)
  then show ?thesis using r rel by (auto split: http.splits)
next
  case (WorkerRoute x)
  then show ?thesis using r rel
    by (cases rule: worker_call_cases [of env db "url_path req" q "\<lambda>w. Scoped w x" "et_exec t"]) auto
next
  case (WorkerManifestRoute n m k)
  then show ?thesis using r rel
    by (cases rule: worker_call_cases [of env db "url_path req" q "\<lambda>w. ScopedManifest w n m k" "et_exec t"]) auto
qed

lemma serve_rel:
  assumes "vault_rel (ee_sha env) (cd_credentials (es_db s)) v" and "good_draw (et_draw t)"
  shows "vault_rel (ee_sha env) (cd_credentials (es_db (fst (serve env t q req s)))) (vault_step v (req, snd (serve env t q req s)))"
  by (cases rule: serve_cases [of env t q req s]) (use assms route_rel [OF assms, of q req] in auto)

lemma serve_all_rel:
  assumes "vault_rel (ee_sha env) (cd_credentials (es_db s)) v" and "\<forall>e \<in> set es. good_draw (et_draw (fst e))"
  shows "vault_rel (ee_sha env) (cd_credentials (es_db (serve_all env es s))) (foldl vault_step v (replies env es s))"
  using assms
proof (induction env es s arbitrary: v rule: serve_all.induct)
  case (2 env t q req es s)
  then show ?case using serve_rel [of env s v t q req] by simp
qed simp

section \<open>The execution plane behind the edge\<close>






definition edge_start :: edge_state where
  "edge_start = \<lparr>es_db = \<lparr>cd_exec = empty_exec_db, cd_credentials = []\<rparr>, es_buckets = no_buckets\<rparr>"


section \<open>The reach of a worker token\<close>






section \<open>Properties\<close>

text \<open>
  C10. Credentials: whatever requests were served, the token that authenticates as a worker is exactly
  the one the last successful issue or rotation for that worker replied with, provided no later
  revocation of it succeeded. The table, which holds only hashes, implements the vault an observer
  of the replies keeps; the hash must not collide on secrets, and the drawn texts have the format
  of \<open>secrets.token_hex\<close>.
\<close>

theorem credentials_refine_vault:
  assumes "inj_on (ee_sha env) {s. lower_hex 64 s}" and "\<forall>e \<in> set es. good_draw (et_draw (fst e))"
  shows "authenticate (ee_sha env) (es_db (serve_all env es edge_start)) token = Some p \<longleftrightarrow>
    foldl vault_step Map.empty (replies env es edge_start) (wp_worker_id p) = Some (token, True)
    \<and> wp_credential_id p = take 32 (drop 7 token)"
  using authenticate_vault [OF serve_all_rel assms(1)] vault_rel_start assms(2)
  by (simp add: edge_start_def)

definition sample_edge :: edge_env where
  "sample_edge = \<lparr>ee_service = sample_env, ee_sha = (\<lambda>s. s), ee_admin_token = Some ''root'',
     ee_rate = \<lparr>rl_requests = 9, rl_window_seconds = 60, rl_trusted_bypass = [], rl_trusted_proxies = []\<rparr>\<rparr>"

definition edge_event_at :: "int \<Rightarrow> char \<Rightarrow> server_request \<Rightarrow> edge_event" where
  "edge_event_at n c req = (\<lparr>et_monotonic = n, et_now = n, et_draw = (replicate 32 c, replicate 64 c),
      et_exec = sample_tick n 0\<rparr>,
    \<lparr>hi_client = Some ''console'', hi_headers = [(''authorization'', ''Bearer root'')], hi_query = []\<rparr>, req)"

definition sample_history :: "edge_event list" where
  "sample_history = [edge_event_at 1 CHR ''a'' (IssueCredential ''alpha''),
     edge_event_at 2 CHR ''b'' (RotateCredential ''alpha'' (replicate 32 CHR ''a'')),
     edge_event_at 3 CHR ''c'' (IssueCredential ''beta'')]"

definition sample_token :: "char \<Rightarrow> string" where
  "sample_token c = worker_token (replicate 32 c) (replicate 64 c)"

theorem credentials_refine_vault_witness:
  "authenticate (ee_sha sample_edge) (es_db (serve_all sample_edge sample_history edge_start)) (sample_token CHR ''b'')
     = Some \<lparr>wp_worker_id = ''alpha'', wp_credential_id = replicate 32 CHR ''b''\<rparr>
   \<and> authenticate (ee_sha sample_edge) (es_db (serve_all sample_edge sample_history edge_start)) (sample_token CHR ''a'')
     \<noteq> Some \<lparr>wp_worker_id = ''alpha'', wp_credential_id = replicate 32 CHR ''a''\<rparr>"
proof -
  have v: "foldl vault_step Map.empty (replies sample_edge sample_history edge_start) ''alpha'' = Some (sample_token CHR ''b'', True)"
    by code_simp
  have t: "take 32 (drop 7 (sample_token CHR ''b'')) = replicate 32 CHR ''b''"
    "sample_token CHR ''a'' \<noteq> sample_token CHR ''b''" by code_simp+
  have "inj_on (ee_sha sample_edge) {s. lower_hex 64 s}" by (simp add: sample_edge_def)
  moreover have "\<forall>e \<in> set sample_history. good_draw (et_draw (fst e))"
    by (simp add: sample_history_def edge_event_at_def good_draw_def lower_hex_def is_digit_def list_all_iff)
  ultimately show ?thesis using v t by (simp add: credentials_refine_vault)
qed




end
