(* ===== verification/Text_Policy.thy ===== *)
theory Text_Policy
  imports Json
begin

text \<open>
  The policy that keeps local paths out of API text (\<^verbatim>\<open>server/execution/text_policy.py\<close>) and
  the worker's sanitising of what it reports (\<open>_sanitize_remote_text\<close> and \<open>_serialize_summary\<close> of
  \<^verbatim>\<open>client/python/execution_worker/worker.py\<close>).

  A regular expression is a function of the character before a position and the text from there:
  a test for \<open>search\<close>, the length of the match for \<open>sub\<close>. Characters are code points below 256.
\<close>

section \<open>Searching and substituting\<close>

fun search :: "(char option \<Rightarrow> string \<Rightarrow> bool) \<Rightarrow> char option \<Rightarrow> string \<Rightarrow> bool" where
  "search m prev [] = m prev []"
| "search m prev (c # s) = (m prev (c # s) \<or> search m (Some c) s)"

function sub_from :: "(char option \<Rightarrow> string \<Rightarrow> nat) \<Rightarrow> string \<Rightarrow> char option \<Rightarrow> string \<Rightarrow> string" where
  "sub_from m r prev [] = []"
| "sub_from m r prev (c # s) =
     (let n = m prev (c # s)
      in if n = 0 then c # sub_from m r (Some c) s
         else r @ sub_from m r (Some (last (take n (c # s)))) (drop n (c # s)))"
  by pat_completeness auto
termination by (relation "measure (\<lambda>(m, r, prev, s). length s)") auto

definition ascii_letter :: "char \<Rightarrow> bool" where
  "ascii_letter c = ((65 \<le> (of_char c :: nat) \<and> (of_char c :: nat) \<le> 90) \<or> (97 \<le> (of_char c :: nat) \<and> (of_char c :: nat) \<le> 122))"

definition ascii_alnum :: "char \<Rightarrow> bool" where
  "ascii_alnum c = (is_digit c \<or> ascii_letter c)"

text \<open>A negative lookbehind: no character before, or one outside the class.\<close>

definition not_after :: "(char \<Rightarrow> bool) \<Rightarrow> char option \<Rightarrow> bool" where
  "not_after P prev = (case prev of None \<Rightarrow> True | Some c \<Rightarrow> \<not> P c)"

definition scheme_part :: "char \<Rightarrow> bool" where
  "scheme_part c = (ascii_alnum c \<or> c \<in> {CHR ''+'', CHR ''.'', CHR ''-''})"

text \<open>A literal, case ignored, and what follows it.\<close>

definition after_ci :: "string \<Rightarrow> string \<Rightarrow> string option" where
  "after_ci p s = (if lower (take (length p) s) = p then Some (drop (length p) s) else None)"

section \<open>The patterns\<close>

definition WINDOWS_DRIVE_PATH :: "char option \<Rightarrow> string \<Rightarrow> bool" where
  "WINDOWS_DRIVE_PATH prev s =
     (not_after (\<lambda>c. ascii_alnum c \<or> c \<in> {CHR ''/'', CHR 0x5C}) prev \<and>
      (case s of a # b # c # _ \<Rightarrow> ascii_letter a \<and> b = CHR '':'' \<and> c \<in> {CHR 0x5C, CHR ''/''} | _ \<Rightarrow> False))"

text \<open>Two or more backslashes not followed by white space: with three or more, the match may stop
  before the last one.\<close>

definition WINDOWS_UNC_PATH :: "char option \<Rightarrow> string \<Rightarrow> bool" where
  "WINDOWS_UNC_PATH prev s =
     (not_after (\<lambda>c. ascii_alnum c \<or> c \<in> {CHR '':'', CHR ''/'', CHR 0x5C}) prev \<and>
      (let n = length (takeWhile (\<lambda>c. c = CHR 0x5C) s)
       in n > 2 \<or> n = 2 \<and> (case drop 2 s of [] \<Rightarrow> True | c # _ \<Rightarrow> \<not> re_space c)))"

definition FILE_URI :: "char option \<Rightarrow> string \<Rightarrow> bool" where
  "FILE_URI prev s = (not_after scheme_part prev \<and> after_ci ''file:'' s \<noteq> None)"

definition LOCAL_DATABASE_URI :: "char option \<Rightarrow> string \<Rightarrow> bool" where
  "LOCAL_DATABASE_URI prev s =
     (not_after scheme_part prev \<and>
      (case after_ci ''sqlite'' s of
         None \<Rightarrow> False
       | Some rest \<Rightarrow>
           let driver = (\<lambda>c. ascii_alnum c \<or> c \<in> {CHR ''_'', CHR ''.'', CHR ''-''});
               rest' = (case rest of
                          c # d # more \<Rightarrow> if c = CHR ''+'' \<and> driver d then dropWhile driver (d # more) else rest
                        | _ \<Rightarrow> rest)
           in take 4 rest' = '':///''))"

definition SAFE_SCHEMES :: "string list" where
  "SAFE_SCHEMES = [''http:'', ''https:'', ''ws:'', ''wss:'', ''ftp:'', ''ftps:'', ''ssh:'', ''git:'', ''mailto:'', ''urn:'']"

definition uri_char :: "char \<Rightarrow> bool" where
  "uri_char c = (\<not> re_space c \<and> c \<notin> {CHR ''<'', CHR ''>'', CHR 0x22, CHR 0x27})"

definition SAFE_NONLOCAL_URI :: "char option \<Rightarrow> string \<Rightarrow> nat" where
  "SAFE_NONLOCAL_URI prev s =
     (if \<not> not_after scheme_part prev then 0
      else case List.find (\<lambda>p. after_ci p s \<noteq> None) SAFE_SCHEMES of
             None \<Rightarrow> 0
           | Some p \<Rightarrow> (let n = length (takeWhile uri_char (drop (length p) s)) in if n = 0 then 0 else length p + n))"

definition POSIX_ROOTED_PATH :: "char option \<Rightarrow> string \<Rightarrow> bool" where
  "POSIX_ROOTED_PATH prev s =
     (not_after (\<lambda>c. ascii_alnum c \<or> c \<in> {CHR ''/'', CHR ''.''}) prev \<and>
      (case s of c # rest \<Rightarrow> c = CHR ''/'' \<and> (case rest of [] \<Rightarrow> True | d # _ \<Rightarrow> \<not> re_space d) | [] \<Rightarrow> False))"

definition contains_absolute_local_path :: "string \<Rightarrow> bool" where
  "contains_absolute_local_path v =
     (search FILE_URI None v \<or> search LOCAL_DATABASE_URI None v \<or> search WINDOWS_DRIVE_PATH None v
      \<or> search WINDOWS_UNC_PATH None v \<or> search POSIX_ROOTED_PATH None (sub_from SAFE_NONLOCAL_URI [] None v))"

definition contains_worker_credential :: "string \<Rightarrow> bool" where
  "contains_worker_credential v = contains ''swb_w1.'' (lower v)"

definition validate_no_absolute_local_path :: "string \<Rightarrow> string + string" where
  "validate_no_absolute_local_path v =
     (if contains_worker_credential v then Inl ''text must not contain a worker credential''
      else if contains_absolute_local_path v then Inl ''text must not contain an absolute local path''
      else Inr v)"

definition validate_optional_no_absolute_local_path :: "string option \<Rightarrow> string + string option" where
  "validate_optional_no_absolute_local_path v =
     (case v of None \<Rightarrow> Inr None | Some s \<Rightarrow> rbind (validate_no_absolute_local_path s) (\<lambda>s. Inr (Some s)))"

text \<open>Every string of a JSON value, keys included, in the order the walk visits them.\<close>

fun json_strings :: "json \<Rightarrow> string list" where
  "json_strings (JStr s) = [s]"
| "json_strings (JObj xs) = concat (map (\<lambda>(k, v). k # json_strings v) xs)"
| "json_strings (JList xs) = concat (map json_strings xs)"
| "json_strings _ = []"

fun validate_all :: "string list \<Rightarrow> string + unit" where
  "validate_all [] = Inr ()"
| "validate_all (s # ss) = rbind (validate_no_absolute_local_path s) (\<lambda>_. validate_all ss)"

definition validate_no_absolute_local_paths :: "json \<Rightarrow> string + json" where
  "validate_no_absolute_local_paths v = rbind (validate_all (json_strings v)) (\<lambda>_. Inr v)"

section \<open>What the worker reports\<close>

definition LOCAL_DATABASE_URI_MARKER :: string where
  "LOCAL_DATABASE_URI_MARKER = ''[LOCAL_DATABASE_URI]''"

text \<open>\<^verbatim>\<open>sqlite(?:\+aiosqlite)?:///\<close>, case ignored, and what follows it.\<close>

definition after_sqlite :: "string \<Rightarrow> string option" where
  "after_sqlite s =
     (case after_ci ''sqlite:///'' s of Some r \<Rightarrow> Some r | None \<Rightarrow> after_ci ''sqlite+aiosqlite:///'' s)"

definition LOCAL_SQLITE_EXPRESSION :: "char option \<Rightarrow> string \<Rightarrow> nat" where
  "LOCAL_SQLITE_EXPRESSION prev s =
     (if \<not> not_after scheme_part prev then 0
      else case after_sqlite s of
             None \<Rightarrow> 0
           | Some r \<Rightarrow>
               let body = takeWhile (\<lambda>c. c \<notin> {CHR ''{'', CHR ''}'', CHR 0x0A, CHR 0x0D}) (drop 1 r)
               in if take 1 r = ''{'' \<and> take 1 (drop (length body) (drop 1 r)) = ''}''
                  then length s - length r + length body + 2 else 0)"

definition LOCAL_SQLITE_URI :: "char option \<Rightarrow> string \<Rightarrow> nat" where
  "LOCAL_SQLITE_URI prev s =
     (if \<not> not_after scheme_part prev then 0
      else case after_sqlite s of
             None \<Rightarrow> 0 | Some r \<Rightarrow> length s - length r + length (takeWhile uri_char r))"

definition replace_backslashes :: "string \<Rightarrow> string" where
  "replace_backslashes s = concat (map (\<lambda>c. if c = CHR 0x5C then ''[BACKSLASH]'' else [c]) s)"

definition sanitize_remote_text :: "string \<Rightarrow> string" where
  "sanitize_remote_text v =
     (let normalized = replace_backslashes
            (sub_from LOCAL_SQLITE_URI LOCAL_DATABASE_URI_MARKER None
              (sub_from LOCAL_SQLITE_EXPRESSION LOCAL_DATABASE_URI_MARKER None v))
      in if contains_absolute_local_path normalized then ''[LOCAL_PATH]'' else normalized)"

text \<open>\<^verbatim>\<open>json.dumps(..., ensure_ascii=False, separators=(",", ":"))\<close>.\<close>

definition lower_hex_digit :: "nat \<Rightarrow> char" where
  "lower_hex_digit n = (if n < 10 then char_of (48 + n) else char_of (87 + n))"

definition escape_char :: "char \<Rightarrow> string" where
  "escape_char c =
     (let n = (of_char c :: nat)
      in if n = 34 then [CHR 0x5C, CHR 0x22] else if n = 92 then [CHR 0x5C, CHR 0x5C]
         else if n = 10 then [CHR 0x5C, CHR ''n''] else if n = 13 then [CHR 0x5C, CHR ''r'']
         else if n = 9 then [CHR 0x5C, CHR ''t''] else if n = 8 then [CHR 0x5C, CHR ''b'']
         else if n = 12 then [CHR 0x5C, CHR ''f'']
         else if n < 32 then CHR 0x5C # ''u00'' @ [lower_hex_digit (n div 16), lower_hex_digit (n mod 16)]
         else [c])"

definition dumps_string :: "string \<Rightarrow> string" where
  "dumps_string s = CHR 0x22 # concat (map escape_char s) @ [CHR 0x22]"

fun dumps :: "json \<Rightarrow> string" where
  "dumps JNull = ''null''"
| "dumps (JBool b) = (if b then ''true'' else ''false'')"
| "dumps (JInt n) = show_int n"
| "dumps (JFloat s) = s"
| "dumps (JStr s) = dumps_string s"
| "dumps (JList xs) = ''['' @ join_with '','' (map dumps xs) @ '']''"
| "dumps (JObj xs) = ''{'' @ join_with '','' (map (\<lambda>(k, v). dumps_string k @ '':'' @ dumps v) xs) @ ''}''"

fun normalize :: "json \<Rightarrow> json" where
  "normalize (JStr s) = JStr (sanitize_remote_text s)"
| "normalize (JObj xs) = JObj (map (\<lambda>(k, v). (k, normalize v)) xs)"
| "normalize (JList xs) = JList (map normalize xs)"
| "normalize v = v"

definition serialize_summary :: "json \<Rightarrow> string" where
  "serialize_summary summary = dumps (normalize summary)"

end
