(* ===== verification/Worker_Policy.thy ===== *)
theory Worker_Policy
  imports Text_Policy Execution_Reuse
begin

text \<open>
  The decisions of the pull worker (\<^verbatim>\<open>client/python/execution_worker/worker.py\<close>) that need no
  file, process or network: whether a remote manifest is the local one, which evidence limits apply,
  what a cancellation means, the bounded result summary and the evidence document.

  Durations are texts (\<open>wv_round\<close> is \<open>round(x, 3)\<close>, \<open>wv_seconds\<close> the float of a time difference); hashes
  come from \<open>service_env\<close>, which server and worker share. The worker's report is the server's
  \<open>execution_completion\<close>.
\<close>

section \<open>Data\<close>

record trusted_artifact =
  ta_kind :: string
  ta_relative_path :: string

record trusted_step =
  ts_id :: string
  ts_title :: string
  ts_required :: bool
  ts_timeout_seconds :: int
  ts_output_summary_limit :: int
  ts_artifacts :: "trusted_artifact list"

record local_manifest = trusted_manifest +
  lm_execution_steps :: "trusted_step list"
  lm_result_contract :: "json_object option"

record assigned_order =
  ao_id :: int
  ao_repository_full_name :: string
  ao_commit_sha :: string
  ao_manifest_name :: string
  ao_manifest_version :: string
  ao_manifest_digest :: string
  ao_manifest_parameters :: json_object
  ao_required_capabilities :: json_object
  ao_timeout_seconds :: int
  ao_network_policy :: string
  ao_reuse_policy :: string
  ao_execution_policy_hash :: string

record safe_manifest =
  sm_name :: string
  sm_version :: string
  sm_digest :: string
  sm_timeout_seconds :: int
  sm_schema_version :: int
  sm_description :: string
  sm_trusted_registry_source :: string
  sm_network_policy :: string
  sm_repository_write_policy :: string
  sm_required_capabilities :: json_object
  sm_fixed_step_metadata :: "json list"
  sm_environment_policy :: json_object
  sm_artifact_declarations :: "json list"

record evidence_limits =
  el_maximum_artifact_count :: int
  el_maximum_artifact_bytes :: int
  el_maximum_total_bytes :: int

record worker_config =
  wf_worker_id :: string
  wf_network_policy_capability :: string
  wf_execution_timeout :: time
  wf_maximum_step_timeout :: time
  wf_output_summary_limit :: int
  wf_evidence_retention_days :: int
  wf_limits :: evidence_limits

record step_result =
  sr_step_id :: string
  sr_title :: string
  sr_status :: run_status
  sr_exit_code :: "int option"
  sr_duration_seconds :: string
  sr_stdout_summary :: string
  sr_stderr_summary :: string
  sr_summaries_truncated :: bool
  sr_stdout_log :: string
  sr_stderr_log :: string
  sr_environment_summary :: "(string \<times> string) list"
  sr_started_at :: time
  sr_finished_at :: time
  sr_parsed_result :: "parsed_result option"
  sr_terminal_reason :: "string option"

text \<open>The exceptions the worker tells apart; the last ones carry the name of their type.\<close>

datatype exc =
    ExecutionCredentialRejectedError
  | ExecutionOwnershipLostError
  | JSONDecodeError
  | OSError string
  | PyValueError string
  | LocalCommitUnavailableError
  | ContainmentCleanupError
  | OverallDeadlineExceededError string
  | OtherError string

fun type_name :: "exc \<Rightarrow> string" where
  "type_name ExecutionCredentialRejectedError = ''ExecutionCredentialRejectedError''"
| "type_name ExecutionOwnershipLostError = ''ExecutionOwnershipLostError''"
| "type_name JSONDecodeError = ''JSONDecodeError''"
| "type_name (OSError n) = n"
| "type_name (PyValueError n) = n"
| "type_name LocalCommitUnavailableError = ''LocalCommitUnavailableError''"
| "type_name ContainmentCleanupError = ''ContainmentCleanupError''"
| "type_name (OverallDeadlineExceededError m) = ''OverallDeadlineExceededError''"
| "type_name (OtherError n) = n"

fun is_ownership_lost :: "exc \<Rightarrow> bool" where
  "is_ownership_lost ExecutionCredentialRejectedError = True"
| "is_ownership_lost ExecutionOwnershipLostError = True"
| "is_ownership_lost _ = False"

fun is_os_error :: "exc \<Rightarrow> bool" where
  "is_os_error JSONDecodeError = True"
| "is_os_error (OSError _) = True"
| "is_os_error _ = False"

fun is_py_value_error :: "exc \<Rightarrow> bool" where
  "is_py_value_error JSONDecodeError = True"
| "is_py_value_error (PyValueError _) = True"
| "is_py_value_error LocalCommitUnavailableError = True"
| "is_py_value_error _ = False"

definition raise_value :: "exc + 'a" where
  "raise_value = Inl (PyValueError ''ValueError'')"

section \<open>Capabilities\<close>

definition requirement_satisfied :: "json \<Rightarrow> json \<Rightarrow> string \<Rightarrow> bool" where
  "requirement_satisfied actual expected capability =
     (if capability \<in> {''python'', ''node'', ''pnpm''}
      then runtime_version_matches (case actual of JStr s \<Rightarrow> Some s | _ \<Rightarrow> None) expected (capability = ''node'')
      else case expected of
             JBool b \<Rightarrow> actual = JBool b
           | JStr s \<Rightarrow> actual = JStr s
           | JList xs \<Rightarrow> (case actual of JStr s \<Rightarrow> JStr s \<in> set xs | _ \<Rightarrow> False)
           | _ \<Rightarrow> False)"

definition json_text :: "string option \<Rightarrow> json" where
  "json_text v = (case v of None \<Rightarrow> JNull | Some s \<Rightarrow> JStr s)"

text \<open>The declared capabilities, overridden by what the registration says.\<close>

definition local_capabilities :: "worker_capabilities \<Rightarrow> json_object" where
  "local_capabilities c =
     [(''operating_system'', JStr (wc_operating_system c)), (''architecture'', JStr (wc_architecture c)),
      (''python'', json_text (wc_python_version c)), (''node'', json_text (wc_node_version c)),
      (''pnpm'', json_text (wc_pnpm_version c)), (''docker'', JBool (wc_docker_available c)),
      (''gpu'', JBool (wc_gpu_available c)), (''unity'', JBool (wc_unity_available c)),
      (''desktop'', JBool (wc_desktop_available c)), (''browsers'', JList (map JStr (wc_browsers c))),
      (''repository_write'', JBool False)] @ wc_capabilities c"

definition capability_key :: "string \<Rightarrow> string" where
  "capability_key name =
     (case map_of [(''python_version'', ''python''), (''node_version'', ''node''), (''pnpm_version'', ''pnpm''),
        (''docker_available'', ''docker''), (''gpu_available'', ''gpu''), (''unity_available'', ''unity''),
        (''desktop_available'', ''desktop'')] name of None \<Rightarrow> name | Some k \<Rightarrow> k)"

fun validate_capabilities :: "json_object \<Rightarrow> worker_capabilities \<Rightarrow> exc + unit" where
  "validate_capabilities [] c = Inr ()"
| "validate_capabilities ((name, expected) # rest) c =
     (case map_of (local_capabilities c) (capability_key name) of
        None \<Rightarrow> raise_value
      | Some actual \<Rightarrow>
          if requirement_satisfied actual expected (capability_key name) then validate_capabilities rest c
          else raise_value)"

section \<open>The manifest\<close>

definition remote_matches :: "local_manifest \<Rightarrow> safe_manifest \<Rightarrow> assigned_order \<Rightarrow> bool" where
  "remote_matches m r order \<longleftrightarrow>
     tm_name m = ao_manifest_name order \<and> tm_version m = ao_manifest_version order
     \<and> tm_digest m = ao_manifest_digest order \<and> sm_name r = tm_name m \<and> sm_version r = tm_version m
     \<and> sm_digest r = tm_digest m \<and> sm_timeout_seconds r = tm_timeout_seconds m
     \<and> sm_schema_version r = tm_schema_version m \<and> sm_description r = tm_description m
     \<and> sm_trusted_registry_source r = tm_registry_source m
     \<and> sm_network_policy r = network_policy_value (tm_network_policy m)
     \<and> sm_repository_write_policy r = ''read_only''
     \<and> obj_eq (sm_required_capabilities r) (tm_required_capabilities m)
     \<and> py_eq (JList (sm_fixed_step_metadata r)) (tm_fixed_step_metadata m)
     \<and> obj_eq (sm_environment_policy r) (tm_environment_policy m)
     \<and> py_eq (JList (sm_artifact_declarations r)) (tm_artifact_declarations m)"

text \<open>\<open>read_only\<close> is the only value of the write policy, so its check cannot fail. Limits in seconds
  are compared in microseconds.\<close>

definition check_manifest ::
  "worker_config \<Rightarrow> local_manifest option \<Rightarrow> safe_manifest \<Rightarrow> assigned_order \<Rightarrow> exc + local_manifest" where
  "check_manifest cfg manifest remote order =
     (case manifest of
        None \<Rightarrow> raise_value
      | Some m \<Rightarrow>
          if lm_execution_steps m = [] then raise_value
          else if \<not> remote_matches m remote order then raise_value
          else if \<not> set (map fst (ao_manifest_parameters order)) \<subseteq> set (tm_allowed_parameters m) then raise_value
          else if ao_network_policy order \<noteq> wf_network_policy_capability cfg then raise_value
          else if network_policy_value (tm_network_policy m) \<noteq> wf_network_policy_capability cfg then raise_value
          else if ao_timeout_seconds order * 1000000 > wf_execution_timeout cfg
                  \<or> tm_timeout_seconds m * 1000000 > wf_execution_timeout cfg then raise_value
          else if list_ex (\<lambda>s. ts_timeout_seconds s * 1000000 > wf_maximum_step_timeout cfg
                  \<or> ts_output_summary_limit s > wf_output_summary_limit cfg) (lm_execution_steps m) then raise_value
          else Inr m)"

text \<open>The reviewed inherited environment keys; a malformed policy gives none.\<close>

definition allowed_inherited_environment_keys :: "local_manifest \<Rightarrow> string list" where
  "allowed_inherited_environment_keys m =
     (case map_of (tm_environment_policy m) ''allowed_inherited_keys'' of
        Some (JList keys) \<Rightarrow> if list_all is_JStr keys then map str_of keys else []
      | _ \<Rightarrow> [])"

fun contract_matches :: "string \<Rightarrow> json list \<Rightarrow> exc + json_object list" where
  "contract_matches step_id [] = Inr []"
| "contract_matches step_id (item # items) =
     (case item of
        JObj o1 \<Rightarrow>
          (case (map_of o1 ''id'', map_of o1 ''result_contract'') of
             (Some (JStr i), Some (JObj c)) \<Rightarrow>
               if set (map fst o1) \<noteq> {''id'', ''result_contract''} then raise_value
               else rbind (contract_matches step_id items) (\<lambda>ms. Inr (if i = step_id then c # ms else ms))
           | _ \<Rightarrow> raise_value)
      | _ \<Rightarrow> raise_value)"

definition step_result_contract :: "local_manifest \<Rightarrow> string \<Rightarrow> exc + json_object option" where
  "step_result_contract m step_id =
     (case lm_result_contract m of
        None \<Rightarrow> Inr None
      | Some contract \<Rightarrow>
          (case map_of contract ''steps'' of
             Some (JList steps) \<Rightarrow>
               rbind (contract_matches step_id steps) (\<lambda>ms.
                 case ms of [] \<Rightarrow> Inr None | [c] \<Rightarrow> Inr (Some c) | _ \<Rightarrow> raise_value)
           | _ \<Rightarrow> raise_value))"

section \<open>Evidence limits\<close>

fun positive_limit :: "string \<times> json \<Rightarrow> exc + string \<times> int" where
  "positive_limit (name, JInt n) = (if n < 1 then raise_value else Inr (name, n))"
| "positive_limit _ = raise_value"

fun positive_limits :: "json_object \<Rightarrow> exc + (string \<times> int) list" where
  "positive_limits [] = Inr []"
| "positive_limits (x # xs) = rbind (positive_limit x) (\<lambda>y. rbind (positive_limits xs) (\<lambda>ys. Inr (y # ys)))"

definition RESOURCE_LIMITS :: "string set" where
  "RESOURCE_LIMITS = {''maximum_artifact_bytes'', ''maximum_artifact_count'', ''maximum_total_artifact_bytes'', ''retention_days''}"

definition limit_of :: "(string \<times> int) list \<Rightarrow> string \<Rightarrow> int" where
  "limit_of values name = (case map_of values name of None \<Rightarrow> 0 | Some n \<Rightarrow> n)"

definition profile_evidence_policy :: "local_manifest \<Rightarrow> worker_config \<Rightarrow> exc + int \<times> evidence_limits" where
  "profile_evidence_policy m cfg =
     (case lm_result_contract m of
        None \<Rightarrow> Inr (wf_evidence_retention_days cfg, wf_limits cfg)
      | Some contract \<Rightarrow>
          if set (map fst contract) \<noteq> {''resource_limits'', ''schema_version'', ''steps''} then raise_value
          else case map_of contract ''resource_limits'' of
                 Some (JObj limits) \<Rightarrow>
                   if set (map fst limits) \<noteq> RESOURCE_LIMITS then raise_value
                   else rbind (positive_limits limits) (\<lambda>values.
                     if limit_of values ''maximum_total_artifact_bytes'' < limit_of values ''maximum_artifact_bytes''
                     then raise_value
                     else Inr (min (wf_evidence_retention_days cfg) (limit_of values ''retention_days''),
                       \<lparr>el_maximum_artifact_count =
                          min (el_maximum_artifact_count (wf_limits cfg)) (limit_of values ''maximum_artifact_count''),
                        el_maximum_artifact_bytes =
                          min (el_maximum_artifact_bytes (wf_limits cfg)) (limit_of values ''maximum_artifact_bytes''),
                        el_maximum_total_bytes =
                          min (el_maximum_total_bytes (wf_limits cfg)) (limit_of values ''maximum_total_artifact_bytes'')\<rparr>))
               | _ \<Rightarrow> raise_value)"

section \<open>Cancellation\<close>

text \<open>The terminal status, the reason, and whether the completion is skipped.\<close>

definition cancellation_outcome :: "string \<Rightarrow> run_status \<times> string \<times> bool" where
  "cancellation_outcome reason =
     (if reason = ''overall_timeout'' then (RUN_TIMED_OUT, reason, False)
      else (RUN_CANCELLED, reason, reason = ''ownership_lost'' \<or> take 16 reason = ''server_terminal:''))"

section \<open>The result summary\<close>

record worker_env =
  wv_service :: service_env
  wv_round :: "string \<Rightarrow> string"
  wv_seconds :: "time \<Rightarrow> string"
  wv_contract_hash :: "local_manifest \<Rightarrow> exc + string"

definition RESULT_SUMMARY_LIMIT :: int where
  "RESULT_SUMMARY_LIMIT = 8000"

definition summary_step :: "worker_env \<Rightarrow> step_result \<Rightarrow> string \<Rightarrow> string \<Rightarrow> bool \<Rightarrow> json" where
  "summary_step env r out err truncated =
     JObj [(''id'', JStr (sr_step_id r)), (''status'', JStr (run_status_value (sr_status r))),
       (''exit_code'', case sr_exit_code r of None \<Rightarrow> JNull | Some n \<Rightarrow> JInt n),
       (''duration_seconds'', JFloat (wv_round env (sr_duration_seconds r))),
       (''stdout'', JStr out), (''stderr'', JStr err), (''truncated'', JBool truncated),
       (''logs'', JList [JStr (''logs/'' @ sr_stdout_log r), JStr (''logs/'' @ sr_stderr_log r)]),
       (''environment'', JObj (map (\<lambda>(k, v). (k, JStr v)) (sr_environment_summary r))),
       (''terminal_reason'', json_text (sr_terminal_reason r))]"

definition full_summary :: "worker_env \<Rightarrow> assigned_order \<Rightarrow> step_result list \<Rightarrow> json" where
  "full_summary env order results =
     JObj [(''checked_out_sha'', JStr (ao_commit_sha order)),
       (''steps'', JList (map (\<lambda>r. summary_step env r (sr_stdout_summary r) (sr_stderr_summary r) (sr_summaries_truncated r)) results))]"

text \<open>\<open>compact\<close>: the outputs of every step cut at a limit.\<close>

definition compact :: "worker_env \<Rightarrow> assigned_order \<Rightarrow> step_result list \<Rightarrow> nat \<Rightarrow> json" where
  "compact env order results limit =
     JObj [(''checked_out_sha'', JStr (ao_commit_sha order)),
       (''steps'', JList (map (\<lambda>r. summary_step env r (take limit (sr_stdout_summary r)) (take limit (sr_stderr_summary r))
          (sr_summaries_truncated r \<or> length (sr_stdout_summary r) > limit \<or> length (sr_stderr_summary r) > limit)) results)),
       (''result_summary_truncated'', JBool True)]"

definition fits :: "json \<Rightarrow> bool" where
  "fits s = (int (length (serialize_summary s)) \<le> RESULT_SUMMARY_LIMIT)"

definition largest_output :: "step_result list \<Rightarrow> nat" where
  "largest_output results =
     fold max (concat (map (\<lambda>r. [length (sr_stdout_summary r), length (sr_stderr_summary r)]) results)) 0"

function bisect :: "(nat \<Rightarrow> bool) \<Rightarrow> nat \<Rightarrow> nat \<Rightarrow> nat" where
  "bisect ok low high =
     (if low < high
      then let candidate = (low + high + 1) div 2
           in if ok candidate then bisect ok candidate high else bisect ok low (candidate - 1)
      else low)"
  by pat_completeness auto
termination by (relation "measure (\<lambda>(ok, low, high). high - low)") auto

declare bisect.simps [simp del]

definition build_summary :: "worker_env \<Rightarrow> assigned_order \<Rightarrow> step_result list \<Rightarrow> exc + json" where
  "build_summary env order results =
     (if fits (full_summary env order results) then Inr (full_summary env order results)
      else let low = bisect (\<lambda>n. fits (compact env order results n)) 0 (largest_output results);
               s = compact env order results low
           in if \<not> fits s then Inl (OtherError ''RuntimeError'') else Inr s)"

section \<open>Evidence\<close>

definition STEP_EVIDENCE_SUMMARY_LIMIT :: nat where
  "STEP_EVIDENCE_SUMMARY_LIMIT = 4096"

definition step_evidence_of :: "artifact_record list \<Rightarrow> step_result \<Rightarrow> step_evidence" where
  "step_evidence_of artifacts r =
     (let sanitized = sanitize_remote_text
            (join_with [CHR 0x0A] (filter (\<lambda>s. s \<noteq> []) [sr_stdout_summary r, sr_stderr_summary r]))
      in \<lparr>se_step_id = sr_step_id r, se_title = sr_title r, se_status = run_status_value (sr_status r),
          se_started_at = sr_started_at r, se_finished_at = sr_finished_at r,
          se_duration_seconds = sr_duration_seconds r, se_exit_code = sr_exit_code r,
          se_terminal_reason = sr_terminal_reason r, se_summary = take STEP_EVIDENCE_SUMMARY_LIMIT sanitized,
          se_summary_truncated = (sr_summaries_truncated r \<or> length sanitized > STEP_EVIDENCE_SUMMARY_LIMIT),
          se_log_artifact_paths = filter (\<lambda>p. p \<in> ar_relative_path ` set artifacts)
            [''logs/'' @ sr_stdout_log r, ''logs/'' @ sr_stderr_log r],
          se_parsed_result = sr_parsed_result r\<rparr>)"

definition build_reuse_identity ::
  "worker_env \<Rightarrow> assigned_order \<Rightarrow> local_manifest \<Rightarrow> environment_identity \<Rightarrow> dependency_lock_hash list
    \<Rightarrow> exc + reuse_identity" where
  "build_reuse_identity env order m environment locks =
     rbind (wv_contract_hash env m) (\<lambda>contract.
       let i = \<lparr>ri_repository_full_name = ao_repository_full_name order, ri_tested_sha = lower (ao_commit_sha order),
                ri_manifest_name = tm_name m, ri_manifest_version = tm_version m, ri_manifest_digest = tm_digest m,
                ri_worker_environment_fingerprint = ei_fingerprint environment,
                ri_dependency_lock_hashes = sort_key dl_relative_path locks,
                ri_execution_policy_hash = ao_execution_policy_hash order, ri_result_contract_hash = contract\<rparr>
       in if valid_identity i then Inr i else Inl (PyValueError ''ValidationError''))"

text \<open>\<open>EvidenceReuseProvenance\<close> with its field patterns.\<close>

definition reason_char :: "char \<Rightarrow> bool" where
  "reason_char c = (is_digit c \<or> (97 \<le> (of_char c :: nat) \<and> (of_char c :: nat) \<le> 122))"

definition build_provenance ::
  "string \<Rightarrow> string \<Rightarrow> string \<Rightarrow> reuse_candidate option \<Rightarrow> exc + reuse_provenance" where
  "build_provenance decision reason identity_hash candidate =
     (let source = (if decision = ''reused'' then candidate else None);
          p = \<lparr>rp_decision = decision, rp_reason = reason, rp_reuse_identity_hash = identity_hash,
               rp_source_run_id = map_option cand_source_run_id source,
               rp_source_evidence_fingerprint = map_option cand_expected_source_evidence_fingerprint source\<rparr>
      in if reason \<noteq> [] \<and> length reason \<le> 64 \<and> reason_char (hd reason)
            \<and> list_all (\<lambda>c. reason_char c \<or> c \<in> {CHR ''_'', CHR ''.'', CHR '':'', CHR ''-''}) reason
            \<and> length identity_hash = 64
            \<and> list_all (\<lambda>c. is_digit c \<or> (97 \<le> (of_char c :: nat) \<and> (of_char c :: nat) \<le> 102)) identity_hash
            \<and> validate_source_pair p = Inr ()
         then Inr p else Inl (PyValueError ''ValidationError''))"

record report_status =
  rs_terminal :: run_status
  rs_reason :: "string option"
  rs_lock_status :: string
  rs_artifact_status :: string
  rs_cleanup :: string

text \<open>The draft, and the finished document if it passes the model validation.\<close>

definition build_evidence ::
  "worker_env \<Rightarrow> worker_config \<Rightarrow> assigned_order \<Rightarrow> int \<Rightarrow> local_manifest \<Rightarrow> time \<Rightarrow> time \<Rightarrow> report_status
    \<Rightarrow> step_result list \<Rightarrow> artifact_record list \<Rightarrow> dependency_lock_hash list \<Rightarrow> string
    \<Rightarrow> environment_identity \<Rightarrow> reuse_provenance \<Rightarrow> exc + execution_evidence" where
  "build_evidence env cfg order run_id m started finished st results artifacts locks record_status environment prov =
     (let d = \<lparr>ev_subject = \<lparr>ev_work_order_id = ao_id order, ev_run_id = run_id,
                 ev_repository_full_name = ao_repository_full_name order, ev_tested_sha = lower (ao_commit_sha order),
                 ev_manifest_name = tm_name m, ev_manifest_version = tm_version m, ev_manifest_digest = tm_digest m,
                 ev_worker_id = wf_worker_id cfg, ev_environment = environment, ev_dependency_lock_hashes = locks\<rparr>,
               ev_started_at = started, ev_finished_at = finished,
               ev_duration_seconds = wv_seconds env (max 0 (finished - started)),
               ev_terminal_status = run_status_value (rs_terminal st), ev_terminal_reason = rs_reason st,
               ev_failing_step = map_option sr_step_id (find (\<lambda>r. sr_status r \<noteq> RUN_SUCCEEDED) results),
               ev_steps = map (step_evidence_of artifacts) results, ev_artifacts = artifacts,
               ev_dependency_lock_status = rs_lock_status st, ev_artifact_finalization_status = rs_artifact_status st,
               ev_source_cleanup_status = rs_cleanup st, ev_local_record_status = record_status,
               ev_reuse_provenance = Some prov\<rparr>;
          e = \<lparr>ev_draft = d, ev_fingerprint = env_fingerprint (wv_service env) d\<rparr>
      in if valid_evidence (wv_service env) e then Inr e else Inl (PyValueError ''ValidationError''))"

end
