(* ===== verification/Worker_Client.thy ===== *)
theory Worker_Client
  imports Worker_Policy
begin

text \<open>
  The pull worker (\<open>LocalWorker\<close> and \<open>_RunMonitor\<close> of
  \<^verbatim>\<open>client/python/execution_worker/worker.py\<close>): \<open>poll_once\<close> with its \<open>try\<close>, \<open>except\<close> and
  \<open>finally\<close> parts, over a host that performs HTTP requests, processes and files.

  The worker is a state monad with exceptions: an exception keeps the state, so the handlers see the
  local variables as they were. The other threads act between the steps of the main thread: before
  each read of the cancellation token or of the shutdown flag, the host supplies the signals that
  happened meanwhile, ticks of the run monitor and requests to shut down. The calls made are logged
  in order.
\<close>

section \<open>The host\<close>

record evidence_store =
  st_limits :: evidence_limits
  st_retention_expires_at :: time

record reuse_lookup =
  lk_candidate :: "reuse_candidate option"
  lk_reason :: string

record tick_in =
  ti_now :: time
  ti_worker :: "exc + unit"
  ti_run :: "exc + int \<times> string"

datatype signal = Tick tick_in | RequestShutdown

text \<open>What each call does to the host and what it returns or raises. The decoding of a reply belongs
  to the call.\<close>

record 'g host =
  h_signals :: "'g \<Rightarrow> 'g \<times> signal list"
  h_checkout :: "'g \<Rightarrow> 'g \<times> (exc + (int \<times> int) option)"
  h_get_work_order :: "int \<Rightarrow> 'g \<Rightarrow> 'g \<times> (exc + assigned_order)"
  h_trusted_manifest :: "string \<Rightarrow> string \<Rightarrow> local_manifest option"
  h_get_manifest :: "string \<Rightarrow> string \<Rightarrow> int \<Rightarrow> 'g \<Rightarrow> 'g \<times> (exc + safe_manifest)"
  h_capabilities :: "'g \<Rightarrow> 'g \<times> (exc + worker_capabilities)"
  h_monotonic :: "'g \<Rightarrow> 'g \<times> time"
  h_now :: "'g \<Rightarrow> 'g \<times> time"
  h_first_tick :: "'g \<Rightarrow> 'g \<times> tick_in"
  h_environment :: "'g \<Rightarrow> 'g \<times> (exc + environment_identity)"
  h_create_store :: "int \<Rightarrow> time \<Rightarrow> int \<Rightarrow> evidence_limits \<Rightarrow> 'g \<Rightarrow> 'g \<times> (exc + evidence_store)"
  h_create_worktree :: "assigned_order \<Rightarrow> int \<Rightarrow> 'g \<Rightarrow> 'g \<times> (exc + unit)"
  h_verify_checkout :: "'g \<Rightarrow> 'g \<times> (exc + unit)"
  h_hash_file :: "string \<Rightarrow> 'g \<Rightarrow> 'g \<times> (exc + string)"
  h_resolve_reuse :: "int \<Rightarrow> reuse_identity \<Rightarrow> string \<Rightarrow> 'g \<Rightarrow> 'g \<times> (exc + reuse_lookup)"
  h_verify_reuse :: "reuse_candidate \<Rightarrow> time \<Rightarrow> evidence_limits \<Rightarrow> 'g \<Rightarrow> 'g \<times> (exc + bool \<times> string)"
  h_run_step :: "trusted_step \<Rightarrow> time \<Rightarrow> string list \<Rightarrow> json_object option \<Rightarrow> bool \<Rightarrow> string option \<Rightarrow> 'g \<Rightarrow> 'g \<times> (exc + step_result)"
  h_capture_artifact :: "trusted_artifact \<Rightarrow> 'g \<Rightarrow> 'g \<times> (exc + unit)"
  h_finalize_artifacts :: "(string \<times> trusted_artifact) list \<Rightarrow> 'g \<Rightarrow> 'g \<times> (exc + artifact_record list)"
  h_cleanup :: "'g \<Rightarrow> 'g \<times> (exc + unit)"
  h_write_result :: "execution_evidence \<Rightarrow> json \<Rightarrow> reuse_identity \<Rightarrow> string \<Rightarrow> 'g \<Rightarrow> 'g \<times> (exc + unit)"
  h_complete_run :: "int \<Rightarrow> execution_completion \<Rightarrow> 'g \<Rightarrow> 'g \<times> (exc + unit)"

datatype act =
    A_Checkout
  | A_Complete int execution_completion
  | A_CreateWorktree int
  | A_Verify
  | A_Hash string
  | A_RunStep int string
  | A_Capture trusted_artifact
  | A_Cleanup
  | A_Write

section \<open>State\<close>

text \<open>The worker object. \<open>lw_token\<close> is the registered token, if any, and in it the reason of its
  cancellation, if any; \<open>lw_monitor\<close> the run and deadline the monitor thread looks after.\<close>

record 'g local_worker =
  lw_host :: 'g
  lw_shutdown :: bool
  lw_executed :: "int list"
  lw_active_run :: "int option"
  lw_token :: "string option option"
  lw_monitor :: "(int \<times> time) option"
  lw_log :: "act list"

text \<open>The local variables of \<open>poll_once\<close>.\<close>

record poll_locals =
  p_order :: "assigned_order option"
  p_manifest :: "local_manifest option"
  p_worktree :: bool
  p_store :: "evidence_store option"
  p_results :: "step_result list"
  p_attempted :: "trusted_step list"
  p_artifacts :: "artifact_record list"
  p_locks :: "dependency_lock_hash list"
  p_lock_status :: string
  p_artifact_status :: string
  p_quiescent :: bool
  p_integrity :: bool
  p_terminal :: run_status
  p_reason :: "string option"
  p_cleanup :: string
  p_skip :: bool
  p_summary :: json
  p_evidence :: "execution_evidence option"
  p_provenance :: "reuse_provenance option"
  p_environment :: "environment_identity option"
  p_identity :: "reuse_identity option"
  p_identity_hash :: "string option"
  p_decision :: string
  p_reuse_reason :: string
  p_lookup :: "reuse_lookup option"
  p_started_at :: time

definition initial_locals :: "time \<Rightarrow> poll_locals" where
  "initial_locals now =
     \<lparr>p_order = None, p_manifest = None, p_worktree = False, p_store = None, p_results = [], p_attempted = [],
      p_artifacts = [], p_locks = [], p_lock_status = ''not_declared'', p_artifact_status = ''not_started'',
      p_quiescent = True, p_integrity = True, p_terminal = RUN_FAILED, p_reason = Some ''worker_initialization_failed'',
      p_cleanup = ''not_started'', p_skip = False, p_summary = JObj [(''steps'', JList [])], p_evidence = None,
      p_provenance = None, p_environment = None, p_identity = None, p_identity_hash = None, p_decision = ''fresh'',
      p_reuse_reason = ''reuse_policy_never'', p_lookup = None, p_started_at = now\<rparr>"

record 'g poll_state =
  ps_worker :: "'g local_worker"
  ps_locals :: poll_locals

type_synonym ('g, 'a) wk = "'g poll_state \<Rightarrow> (exc + 'a) \<times> 'g poll_state"

definition wret :: "'a \<Rightarrow> ('g, 'a) wk" where
  "wret x s = (Inr x, s)"

definition wraise :: "exc \<Rightarrow> ('g, 'a) wk" where
  "wraise e s = (Inl e, s)"

definition wbind :: "('g, 'a) wk \<Rightarrow> ('a \<Rightarrow> ('g, 'b) wk) \<Rightarrow> ('g, 'b) wk" where
  "wbind m f s = (case m s of (Inl e, s') \<Rightarrow> (Inl e, s') | (Inr x, s') \<Rightarrow> f x s')"

definition wseq :: "('g, unit) wk \<Rightarrow> ('g, 'b) wk \<Rightarrow> ('g, 'b) wk" where
  "wseq m n = wbind m (\<lambda>_. n)"

definition wtry :: "('g, 'a) wk \<Rightarrow> (exc \<Rightarrow> ('g, 'a) wk) \<Rightarrow> ('g, 'a) wk" where
  "wtry m h s = (case m s of (Inl e, s') \<Rightarrow> h e s' | (Inr x, s') \<Rightarrow> (Inr x, s'))"

definition wlift :: "exc + 'a \<Rightarrow> ('g, 'a) wk" where
  "wlift v s = (v, s)"

definition asks :: "('g local_worker \<Rightarrow> 'a) \<Rightarrow> ('g, 'a) wk" where
  "asks f s = (Inr (f (ps_worker s)), s)"

definition locals :: "('g, poll_locals) wk" where
  "locals s = (Inr (ps_locals s), s)"

definition with_worker :: "('g local_worker \<Rightarrow> 'g local_worker) \<Rightarrow> ('g, unit) wk" where
  "with_worker f s = (Inr (), s\<lparr>ps_worker := f (ps_worker s)\<rparr>)"

definition with_locals :: "(poll_locals \<Rightarrow> poll_locals) \<Rightarrow> ('g, unit) wk" where
  "with_locals f s = (Inr (), s\<lparr>ps_locals := f (ps_locals s)\<rparr>)"

text \<open>A call of the host, logged or not.\<close>

definition query :: "('g \<Rightarrow> 'g \<times> (exc + 'a)) \<Rightarrow> ('g, 'a) wk" where
  "query op s = (case op (lw_host (ps_worker s)) of (g, r) \<Rightarrow> (r, s\<lparr>ps_worker := (ps_worker s)\<lparr>lw_host := g\<rparr>\<rparr>))"

definition sample :: "('g \<Rightarrow> 'g \<times> 'a) \<Rightarrow> ('g, 'a) wk" where
  "sample op = query (\<lambda>g. case op g of (g', x) \<Rightarrow> (g', Inr x))"

definition call :: "act \<Rightarrow> ('g \<Rightarrow> 'g \<times> (exc + 'a)) \<Rightarrow> ('g, 'a) wk" where
  "call a op = wbind (with_worker (\<lambda>w. w\<lparr>lw_log := lw_log w @ [a]\<rparr>)) (\<lambda>_. query op)"

section \<open>Cancellation and the monitor\<close>

text \<open>\<open>CancellationToken.cancel\<close>: the first reason stays.\<close>

definition cancel :: "string \<Rightarrow> 'g local_worker \<Rightarrow> 'g local_worker" where
  "cancel reason w = (case lw_token w of Some None \<Rightarrow> w\<lparr>lw_token := Some (Some reason)\<rparr> | _ \<Rightarrow> w)"

definition request_shutdown :: "'g local_worker \<Rightarrow> 'g local_worker" where
  "request_shutdown w = cancel ''worker_shutdown'' (w\<lparr>lw_shutdown := True\<rparr>)"

definition SERVER_TERMINAL_STATUSES :: "string set" where
  "SERVER_TERMINAL_STATUSES = {''succeeded'', ''failed'', ''timed_out'', ''cancelled''}"

text \<open>One tick: the new worker, and the exception that escapes if one does.\<close>

definition tick_run :: "int \<Rightarrow> tick_in \<Rightarrow> 'g local_worker \<Rightarrow> exc option \<times> 'g local_worker" where
  "tick_run run_id t w =
     (case ti_run t of
        Inl e \<Rightarrow>
          if is_ownership_lost e
          then (None, if e = ExecutionCredentialRejectedError then request_shutdown (cancel ''ownership_lost'' w)
                      else cancel ''ownership_lost'' w)
          else if is_py_value_error e then (None, cancel ''invalid_run_heartbeat'' w)
          else if is_os_error e then (None, w)
          else (Some e, w)
      | Inr (i, status) \<Rightarrow>
          if i \<noteq> run_id then (None, cancel ''invalid_run_heartbeat'' w)
          else if status \<in> SERVER_TERMINAL_STATUSES then (None, cancel (''server_terminal:'' @ status) w)
          else (None, w))"

definition tick :: "int \<Rightarrow> time \<Rightarrow> tick_in \<Rightarrow> 'g local_worker \<Rightarrow> exc option \<times> 'g local_worker" where
  "tick run_id due t w =
     (if due \<le> ti_now t then (None, cancel ''overall_timeout'' w)
      else case ti_worker t of
             Inr () \<Rightarrow> tick_run run_id t w
           | Inl e \<Rightarrow>
               if e = ExecutionCredentialRejectedError
               then (None, request_shutdown (cancel ''ownership_lost'' w))
               else if is_os_error e then tick_run run_id t w
               else (Some e, w))"

text \<open>A tick of the monitor thread: an escaping exception or a cancellation ends the thread.\<close>

fun apply_signal :: "signal \<Rightarrow> 'g local_worker \<Rightarrow> 'g local_worker" where
  "apply_signal RequestShutdown w = request_shutdown w"
| "apply_signal (Tick t) w =
     (case lw_monitor w of
        None \<Rightarrow> w
      | Some (run_id, due) \<Rightarrow>
          (case tick run_id due t w of
             (e, w') \<Rightarrow> if e \<noteq> None \<or> lw_token w' \<noteq> Some None then w'\<lparr>lw_monitor := None\<rparr> else w'))"

definition meanwhile :: "'g host \<Rightarrow> ('g, unit) wk" where
  "meanwhile h = wbind (sample (h_signals h)) (\<lambda>signals. with_worker (fold apply_signal signals))"

text \<open>Reads of what the other threads write.\<close>

definition token_reason :: "'g host \<Rightarrow> ('g, string option) wk" where
  "token_reason h = wseq (meanwhile h) (asks (\<lambda>w. case lw_token w of Some r \<Rightarrow> r | None \<Rightarrow> None))"

definition shutting_down :: "'g host \<Rightarrow> ('g, bool) wk" where
  "shutting_down h = wseq (meanwhile h) (asks lw_shutdown)"

definition set_outcome :: "string \<Rightarrow> ('g, unit) wk" where
  "set_outcome reason =
     (case cancellation_outcome reason of
        (t, r, skip) \<Rightarrow> with_locals (\<lambda>v. v\<lparr>p_terminal := t, p_reason := Some r, p_skip := skip\<rparr>))"

section \<open>Admission\<close>

definition begin_run :: "'g host \<Rightarrow> int \<Rightarrow> ('g, string option) wk" where
  "begin_run h run_id =
     wbind (shutting_down h) (\<lambda>down.
       if down then wret (Some ''worker_shutdown_before_start'')
       else wbind (asks (\<lambda>w. (lw_active_run w, lw_executed w))) (\<lambda>(active, executed).
         if active \<noteq> None then wret (Some ''local_concurrency_rejected_after_checkout'')
         else if run_id \<in> set executed then wret (Some ''local_duplicate_execution_rejected_after_checkout'')
         else wseq (with_worker (\<lambda>w. w\<lparr>lw_executed := run_id # lw_executed w, lw_active_run := Some run_id\<rparr>))
           (wret None)))"

definition end_run :: "int \<Rightarrow> ('g, unit) wk" where
  "end_run run_id =
     with_worker (\<lambda>w. if lw_active_run w = Some run_id then w\<lparr>lw_active_run := None\<rparr> else w)"

definition rejection :: "string \<Rightarrow> execution_completion" where
  "rejection reason =
     \<lparr>xc_status = RUN_CANCELLED, xc_result_summary = Some (serialize_summary (JObj [(''steps'', JList [])])),
      xc_terminal_reason = Some reason, xc_cleanup_status = Some ''not_started'', xc_artifact_metadata = [],
      xc_evidence = None, xc_reuse_decision = None, xc_reuse_reason = None, xc_reuse_identity = None,
      xc_reuse_identity_hash = None, xc_retention_expires_at = None\<rparr>"

definition complete_admission_rejection :: "'g host \<Rightarrow> int \<Rightarrow> string \<Rightarrow> ('g, unit) wk" where
  "complete_admission_rejection h run_id reason =
     wtry (call (A_Complete run_id (rejection reason)) (h_complete_run h run_id (rejection reason)))
       (\<lambda>e. if is_ownership_lost e then wret () else wraise e)"

section \<open>The attempt\<close>

text \<open>The capabilities are discovered anew for each of the two requirement sets.\<close>

definition discover_and_validate :: "'g host \<Rightarrow> json_object \<Rightarrow> ('g, unit) wk" where
  "discover_and_validate h requirements =
     wbind (query (h_capabilities h)) (\<lambda>caps. wlift (validate_capabilities requirements caps))"

definition validate_manifest ::
  "worker_config \<Rightarrow> 'g host \<Rightarrow> local_manifest option \<Rightarrow> safe_manifest \<Rightarrow> assigned_order \<Rightarrow> ('g, local_manifest) wk" where
  "validate_manifest cfg h manifest remote order =
     wbind (wlift (check_manifest cfg manifest remote order)) (\<lambda>m.
       wseq (discover_and_validate h (tm_required_capabilities m))
         (wseq (discover_and_validate h (ao_required_capabilities order)) (wret m)))"

definition verify_checkout :: "'g host \<Rightarrow> ('g, unit) wk" where
  "verify_checkout h = call A_Verify (h_verify_checkout h)"

fun hash_files :: "'g host \<Rightarrow> string list \<Rightarrow> ('g, dependency_lock_hash list) wk" where
  "hash_files h [] = wret []"
| "hash_files h (p # ps) =
     wbind (call (A_Hash p) (h_hash_file h p)) (\<lambda>digest.
       if validate_relative_path p \<noteq> Inr p then wraise (PyValueError ''ValidationError'')
       else wbind (hash_files h ps) (\<lambda>hs. wret (\<lparr>dl_relative_path = p, dl_sha256 = digest\<rparr> # hs)))"

definition hash_dependency_locks :: "'g host \<Rightarrow> local_manifest \<Rightarrow> ('g, unit) wk" where
  "hash_dependency_locks h m =
     wseq (verify_checkout h)
       (wbind (hash_files h (sort (tm_dependency_lock_paths m))) (\<lambda>locks.
         wseq (with_locals (\<lambda>v. v\<lparr>p_locks := locks\<rparr>))
           (wseq (verify_checkout h) (with_locals (\<lambda>v. v\<lparr>p_lock_status := ''succeeded''\<rparr>)))))"

text \<open>The lookup of a reusable result; a lost lease cancels the token instead of raising.\<close>

definition look_up_reuse :: "'g host \<Rightarrow> int \<Rightarrow> reuse_identity \<Rightarrow> string \<Rightarrow> ('g, unit) wk" where
  "look_up_reuse h run_id identity identity_hash =
     wtry (wbind (query (h_resolve_reuse h run_id identity identity_hash)) (\<lambda>l.
             with_locals (\<lambda>v. v\<lparr>p_lookup := Some l, p_reuse_reason := lk_reason l\<rparr>)))
       (\<lambda>e. if is_ownership_lost e
            then with_worker (\<lambda>w. (if e = ExecutionCredentialRejectedError then request_shutdown else (\<lambda>w. w))
                                    (cancel ''ownership_lost'' w))
            else if is_os_error e \<or> is_py_value_error e
            then with_locals (\<lambda>v. v\<lparr>p_reuse_reason := ''reuse_lookup_unavailable''\<rparr>)
            else wraise e)"

definition require_exact_unavailable :: "string \<Rightarrow> ('g, bool) wk" where
  "require_exact_unavailable reason =
     wseq (with_locals (\<lambda>v. v\<lparr>p_decision := ''unavailable'', p_terminal := RUN_FAILED, p_reason := Some reason\<rparr>))
       (wret False)"

text \<open>Whether to execute afresh.\<close>

definition decide_reuse :: "'g host \<Rightarrow> assigned_order \<Rightarrow> evidence_store \<Rightarrow> ('g, bool) wk" where
  "decide_reuse h order store =
     wbind (token_reason h) (\<lambda>cancelled.
       case cancelled of
         Some r \<Rightarrow> wseq (set_outcome r) (wret False)
       | None \<Rightarrow>
           wbind locals (\<lambda>v.
             case Option.bind (p_lookup v) lk_candidate of
               Some candidate \<Rightarrow>
                 wbind (sample (h_now h)) (\<lambda>now.
                 wbind (query (h_verify_reuse h candidate now (st_limits store))) (\<lambda>(verified, why).
                 wseq (with_locals (\<lambda>v. v\<lparr>p_reuse_reason := why\<rparr>))
                   (if verified
                    then wseq (with_locals (\<lambda>v. v\<lparr>p_decision := ''reused'', p_terminal := RUN_SUCCEEDED, p_reason := None\<rparr>))
                           (wret False)
                    else if ao_reuse_policy order = ''require_exact'' then require_exact_unavailable why
                    else wret True)))
             | None \<Rightarrow>
                 if ao_reuse_policy order = ''require_exact'' then require_exact_unavailable (p_reuse_reason v)
                 else wret True))"

definition consider_reuse ::
  "worker_env \<Rightarrow> 'g host \<Rightarrow> assigned_order \<Rightarrow> int \<Rightarrow> local_manifest \<Rightarrow> environment_identity \<Rightarrow> evidence_store \<Rightarrow> ('g, bool) wk" where
  "consider_reuse env h order run_id m environment store =
     (if ao_reuse_policy order = ''never'' then wret True
      else wseq (if tm_dependency_lock_paths m = [] then wret () else hash_dependency_locks h m)
        (wbind locals (\<lambda>v.
         wbind (wlift (build_reuse_identity env order m environment (p_locks v))) (\<lambda>identity.
         let identity_hash = env_identity_hash (wv_service env) identity
         in wseq (with_locals (\<lambda>v. v\<lparr>p_identity := Some identity, p_identity_hash := Some identity_hash\<rparr>))
              (wseq (look_up_reuse h run_id identity identity_hash) (decide_reuse h order store))))))"

text \<open>One step: continue or break. An error of the runner, other than a missed deadline, means the
  target may still be running.\<close>

definition run_one :: "'g host \<Rightarrow> int \<Rightarrow> local_manifest \<Rightarrow> time \<Rightarrow> trusted_step \<Rightarrow> ('g, step_result) wk" where
  "run_one h run_id m due step =
     wbind (wlift (step_result_contract m (ts_id step))) (\<lambda>contract.
     wbind (token_reason h) (\<lambda>cancelled.
       call (A_RunStep run_id (ts_id step))
         (h_run_step h step due (allowed_inherited_environment_keys m) contract (lm_result_contract m \<noteq> None) cancelled)))"

definition step_error :: "'g host \<Rightarrow> exc \<Rightarrow> ('g, unit) wk" where
  "step_error h e =
     (case e of
        OverallDeadlineExceededError message \<Rightarrow>
          wbind (token_reason h) (\<lambda>cancelled.
            case cancelled of
              Some r \<Rightarrow> set_outcome r
            | None \<Rightarrow> with_locals (\<lambda>v. v\<lparr>p_terminal := RUN_TIMED_OUT, p_reason := Some message\<rparr>))
      | ContainmentCleanupError \<Rightarrow>
          with_locals (\<lambda>v. v\<lparr>p_quiescent := False, p_terminal := RUN_FAILED, p_reason := Some ''descendant_cleanup_failed''\<rparr>)
      | _ \<Rightarrow>
          wseq (with_locals (\<lambda>v. v\<lparr>p_quiescent := False\<rparr>))
            (wbind (token_reason h) (\<lambda>cancelled.
              case cancelled of
                Some r \<Rightarrow> set_outcome r
              | None \<Rightarrow> with_locals (\<lambda>v. v\<lparr>p_terminal := RUN_FAILED, p_reason := Some (''worker_error:'' @ type_name e)\<rparr>))))"

definition adjust_result :: "local_manifest \<Rightarrow> step_result \<Rightarrow> step_result" where
  "adjust_result m r =
     (if lm_result_contract m \<noteq> None \<and> (case sr_parsed_result r of None \<Rightarrow> False | Some p \<Rightarrow> pr_status p = ''parser_failed'')
      then r\<lparr>sr_status := RUN_FAILED, sr_terminal_reason := Some ''result_contract_parser_failed''\<rparr> else r)"

definition record_result :: "trusted_step \<Rightarrow> step_result \<Rightarrow> ('g, bool) wk" where
  "record_result step r =
     wseq (with_locals (\<lambda>v. (if sr_terminal_reason r = Some ''descendant_cleanup_failed'' then v\<lparr>p_quiescent := False\<rparr> else v)
                             \<lparr>p_results := p_results v @ [r]\<rparr>))
       (if sr_status r \<noteq> RUN_SUCCEEDED \<and> ts_required step
        then wseq (with_locals (\<lambda>v. v\<lparr>p_terminal := sr_status r,
               p_reason := Some (case text_or_none (sr_terminal_reason r) of Some why \<Rightarrow> why
                 | None \<Rightarrow> ''required_step_'' @ run_status_value (sr_status r) @ '':'' @ ts_id step)\<rparr>)) (wret False)
        else wret True)"

fun run_steps :: "'g host \<Rightarrow> int \<Rightarrow> local_manifest \<Rightarrow> time \<Rightarrow> trusted_step list \<Rightarrow> ('g, unit) wk" where
  "run_steps h run_id m due [] = wret ()"
| "run_steps h run_id m due (step # steps) =
     wseq (with_locals (\<lambda>v. v\<lparr>p_attempted := p_attempted v @ [step]\<rparr>))
       (wbind (shutting_down h) (\<lambda>down.
        wseq (if down then with_worker (cancel ''worker_shutdown'') else wret ())
         (wbind (wtry (wbind (run_one h run_id m due step) (\<lambda>r. wret (Some (adjust_result m r))))
                   (\<lambda>e. wseq (step_error h e) (wret None))) (\<lambda>outcome.
          case outcome of
            None \<Rightarrow> wret ()
          | Some r \<Rightarrow> wbind (record_result step r) (\<lambda>go_on. if go_on then run_steps h run_id m due steps else wret ())))))"

text \<open>The result is reused or produced afresh; a cancellation seen at the end decides the outcome.\<close>

definition perform ::
  "worker_env \<Rightarrow> 'g host \<Rightarrow> assigned_order \<Rightarrow> int \<Rightarrow> local_manifest \<Rightarrow> time \<Rightarrow> environment_identity \<Rightarrow> evidence_store
    \<Rightarrow> ('g, unit) wk" where
  "perform env h order run_id m due environment store =
     wbind (consider_reuse env h order run_id m environment store) (\<lambda>fresh.
       wseq (if fresh
             then wseq (with_locals (\<lambda>v. v\<lparr>p_decision := ''fresh''\<rparr>))
                    (run_steps h run_id m due (lm_execution_steps m))
             else wret ())
        (wbind (token_reason h) (\<lambda>cancelled.
          case cancelled of Some r \<Rightarrow> set_outcome r | None \<Rightarrow> wret ())))"

definition execute ::
  "worker_env \<Rightarrow> worker_config \<Rightarrow> 'g host \<Rightarrow> assigned_order \<Rightarrow> int \<Rightarrow> local_manifest \<Rightarrow> time \<Rightarrow> ('g, unit) wk" where
  "execute env cfg h order run_id m due =
     wbind (sample (h_now h)) (\<lambda>now.
     wseq (with_locals (\<lambda>v. v\<lparr>p_started_at := now\<rparr>))
     (wbind (query (h_environment h)) (\<lambda>environment.
      wseq (with_locals (\<lambda>v. v\<lparr>p_environment := Some environment\<rparr>))
      (wbind (wlift (profile_evidence_policy m cfg)) (\<lambda>(retention, limits).
       wbind (query (h_create_store h run_id now retention limits)) (\<lambda>store.
       wseq (with_locals (\<lambda>v. v\<lparr>p_store := Some store\<rparr>))
       (wseq (call (A_CreateWorktree run_id) (h_create_worktree h order run_id))
        (wseq (with_locals (\<lambda>v. v\<lparr>p_worktree := True\<rparr>))
         (wseq (verify_checkout h)
          (wseq (with_locals (\<lambda>v. v\<lparr>p_terminal := RUN_SUCCEEDED, p_reason := None, p_cleanup := ''pending''\<rparr>))
           (perform env h order run_id m due environment store)))))))))))"

text \<open>\<open>monitor.start\<close>: the first tick is on the main thread, where an exception is the caller's.\<close>

definition start_monitor :: "'g host \<Rightarrow> int \<Rightarrow> time \<Rightarrow> ('g, unit) wk" where
  "start_monitor h run_id due =
     wbind (sample (h_first_tick h)) (\<lambda>t.
     wbind (asks (tick run_id due t)) (\<lambda>(e, w).
       wseq (with_worker (\<lambda>_. w))
         (case e of
            Some e \<Rightarrow> wraise e
          | None \<Rightarrow> with_worker (\<lambda>w. if lw_token w = Some None then w\<lparr>lw_monitor := Some (run_id, due)\<rparr> else w))))"

definition attempt :: "worker_env \<Rightarrow> worker_config \<Rightarrow> 'g host \<Rightarrow> int \<Rightarrow> int \<Rightarrow> ('g, unit) wk" where
  "attempt env cfg h run_id work_order_id =
     wbind (query (h_get_work_order h work_order_id)) (\<lambda>order.
     wseq (with_locals (\<lambda>v. v\<lparr>p_order := Some order\<rparr>))
     (wbind (query (h_get_manifest h (ao_manifest_name order) (ao_manifest_version order) run_id)) (\<lambda>remote.
      wbind (validate_manifest cfg h (h_trusted_manifest h (ao_manifest_name order) (ao_manifest_version order))
               remote order) (\<lambda>m.
      wseq (with_locals (\<lambda>v. v\<lparr>p_manifest := Some m\<rparr>))
      (wbind (sample (h_monotonic h)) (\<lambda>monotonic.
       let due = monotonic + min (min (ao_timeout_seconds order * 1000000) (tm_timeout_seconds m * 1000000))
                                    (wf_execution_timeout cfg)
       in wseq (with_worker (\<lambda>w. w\<lparr>lw_token := Some None\<rparr>))
          (wseq (start_monitor h run_id due)
           (wbind (token_reason h) (\<lambda>cancelled.
             case cancelled of
               Some r \<Rightarrow> set_outcome r
             | None \<Rightarrow>
                 wbind (shutting_down h) (\<lambda>down.
                   if down
                   then wseq (with_worker (cancel ''worker_shutdown''))
                     (wbind (asks lw_token) (\<lambda>tok.
                       with_locals (\<lambda>v. v\<lparr>p_terminal := RUN_CANCELLED, p_reason := Option.bind tok (\<lambda>r. r)\<rparr>)))
                   else execute env cfg h order run_id m due))))))))))"

definition handle_error :: "exc \<Rightarrow> ('g, unit) wk" where
  "handle_error e =
     (if e = ContainmentCleanupError
      then with_locals (\<lambda>v. v\<lparr>p_quiescent := False, p_terminal := RUN_FAILED, p_reason := Some ''descendant_cleanup_failed''\<rparr>)
      else if is_ownership_lost e
      then wseq (if e = ExecutionCredentialRejectedError then with_worker request_shutdown else wret ())
             (with_locals (\<lambda>v. v\<lparr>p_skip := True, p_terminal := RUN_CANCELLED, p_reason := Some ''ownership_lost''\<rparr>))
      else if e = LocalCommitUnavailableError
      then with_locals (\<lambda>v. v\<lparr>p_terminal := RUN_FAILED, p_reason := Some ''requested_sha_not_available_locally''\<rparr>)
      else with_locals (\<lambda>v.
             (if (case p_order v of None \<Rightarrow> False | Some order \<Rightarrow> ao_reuse_policy order = ''require_exact'')
              then v\<lparr>p_decision := ''unavailable'', p_reuse_reason := ''reuse_precondition_failed''\<rparr> else v)
             \<lparr>p_terminal := RUN_FAILED, p_reason := Some (''worker_error:'' @ type_name e)\<rparr>))"

section \<open>The end of a run\<close>

text \<open>A failure of the finishing work turns a success into a failure and leaves other outcomes.\<close>

definition demote :: "string \<Rightarrow> poll_locals \<Rightarrow> poll_locals" where
  "demote why v = (if p_terminal v = RUN_SUCCEEDED then v\<lparr>p_terminal := RUN_FAILED, p_reason := Some why\<rparr> else v)"

definition stop_monitor :: "('g, unit) wk" where
  "stop_monitor =
     wbind locals (\<lambda>v. with_worker (\<lambda>w.
       let w' = w\<lparr>lw_monitor := None, lw_token := None\<rparr>
       in if p_quiescent v then w' else w'\<lparr>lw_shutdown := True\<rparr>))"

definition check_integrity :: "'g host \<Rightarrow> ('g, unit) wk" where
  "check_integrity h =
     wbind locals (\<lambda>v.
       if \<not> p_quiescent v then with_locals (\<lambda>v. v\<lparr>p_integrity := False\<rparr>)
       else wtry (verify_checkout h)
              (\<lambda>_. with_locals (\<lambda>v. demote ''checkout_integrity_failed'' (v\<lparr>p_integrity := False\<rparr>))))"

definition skipped :: "poll_locals \<Rightarrow> string" where
  "skipped v = (if \<not> p_quiescent v then ''skipped:source_quiescence_failed'' else ''skipped:checkout_integrity_failed'')"

definition settle_locks :: "'g host \<Rightarrow> local_manifest \<Rightarrow> ('g, unit) wk" where
  "settle_locks h m =
     wbind locals (\<lambda>v.
       if \<not> p_quiescent v \<or> \<not> p_integrity v
       then with_locals (\<lambda>v. (if p_store v = None then v else v\<lparr>p_artifact_status := skipped v\<rparr>)
              \<lparr>p_lock_status := (if tm_dependency_lock_paths m = [] then p_lock_status v else skipped v)\<rparr>)
       else if tm_dependency_lock_paths m \<noteq> [] \<and> p_lock_status v \<noteq> ''succeeded''
       then wtry (hash_dependency_locks h m)
              (\<lambda>e. with_locals (\<lambda>v. demote ''dependency_lock_hash_failed'' (v\<lparr>p_lock_status := ''failed:'' @ type_name e\<rparr>)))
       else wret ())"

fun capture_all :: "'g host \<Rightarrow> (string \<times> trusted_artifact) list \<Rightarrow> ('g, unit) wk" where
  "capture_all h [] = wret ()"
| "capture_all h ((_, a) # ds) =
     wseq (verify_checkout h) (wseq (call (A_Capture a) (h_capture_artifact h a)) (capture_all h ds))"

definition declarations :: "trusted_step list \<Rightarrow> (string \<times> trusted_artifact) list" where
  "declarations steps = concat (map (\<lambda>s. map (\<lambda>a. (ts_id s, a)) (ts_artifacts s)) steps)"

definition collect_artifacts :: "'g host \<Rightarrow> ('g, unit) wk" where
  "collect_artifacts h =
     wbind locals (\<lambda>v.
       if p_store v = None \<or> \<not> p_quiescent v \<or> \<not> p_integrity v then wret ()
       else wtry
         (wseq (capture_all h (declarations (p_attempted v)))
           (wseq (verify_checkout h)
             (wbind (query (h_finalize_artifacts h (declarations (p_attempted v)))) (\<lambda>artifacts.
               with_locals (\<lambda>v. v\<lparr>p_artifacts := artifacts, p_artifact_status := ''succeeded''\<rparr>)))))
         (\<lambda>e. with_locals (\<lambda>v. demote ''artifact_finalization_failed'' (v\<lparr>p_artifact_status := ''failed:'' @ type_name e\<rparr>))))"

definition clean_up :: "'g host \<Rightarrow> ('g, unit) wk" where
  "clean_up h =
     wbind locals (\<lambda>v.
       if \<not> p_worktree v then wret ()
       else if \<not> p_quiescent v \<or> \<not> p_integrity v then with_locals (\<lambda>v. v\<lparr>p_cleanup := skipped v\<rparr>)
       else wtry (wseq (call A_Cleanup (h_cleanup h)) (with_locals (\<lambda>v. v\<lparr>p_cleanup := ''succeeded''\<rparr>)))
              (\<lambda>e. with_locals (\<lambda>v. demote ''cleanup_failed'' (v\<lparr>p_cleanup := ''failed:'' @ type_name e\<rparr>))))"

definition summarize :: "worker_env \<Rightarrow> ('g, unit) wk" where
  "summarize env =
     wbind locals (\<lambda>v.
       case p_order v of
         None \<Rightarrow> wret ()
       | Some order \<Rightarrow> wbind (wlift (build_summary env order (p_results v))) (\<lambda>s. with_locals (\<lambda>v. v\<lparr>p_summary := s\<rparr>)))"

definition status_of_report :: "poll_locals \<Rightarrow> report_status" where
  "status_of_report v =
     \<lparr>rs_terminal = p_terminal v, rs_reason = p_reason v, rs_lock_status = p_lock_status v,
      rs_artifact_status = p_artifact_status v, rs_cleanup = p_cleanup v\<rparr>"

definition evidence_of ::
  "worker_env \<Rightarrow> worker_config \<Rightarrow> assigned_order \<Rightarrow> int \<Rightarrow> local_manifest \<Rightarrow> environment_identity \<Rightarrow> reuse_provenance
    \<Rightarrow> string \<Rightarrow> time \<Rightarrow> poll_locals \<Rightarrow> exc + execution_evidence" where
  "evidence_of env cfg order run_id m environment prov record_status finished v =
     build_evidence env cfg order run_id m (p_started_at v) finished (status_of_report v) (p_results v)
       (p_artifacts v) (p_locks v) record_status environment prov"

definition ensure_environment :: "'g host \<Rightarrow> ('g, environment_identity) wk" where
  "ensure_environment h =
     wbind locals (\<lambda>v.
       case p_environment v of
         Some e \<Rightarrow> wret e
       | None \<Rightarrow> wbind (query (h_environment h)) (\<lambda>e. wseq (with_locals (\<lambda>v. v\<lparr>p_environment := Some e\<rparr>)) (wret e)))"

definition ensure_identity ::
  "worker_env \<Rightarrow> assigned_order \<Rightarrow> local_manifest \<Rightarrow> environment_identity \<Rightarrow> ('g, reuse_identity \<times> string) wk" where
  "ensure_identity env order m environment =
     wbind locals (\<lambda>v.
       case p_identity v of
         Some i \<Rightarrow> (case p_identity_hash v of Some ih \<Rightarrow> wret (i, ih) | None \<Rightarrow> wraise (OtherError ''AssertionError''))
       | None \<Rightarrow>
           wbind (wlift (build_reuse_identity env order m environment (p_locks v))) (\<lambda>i.
             let ih = env_identity_hash (wv_service env) i
             in wseq (with_locals (\<lambda>v. v\<lparr>p_identity := Some i, p_identity_hash := Some ih\<rparr>)) (wret (i, ih))))"

definition record_evidence ::
  "worker_env \<Rightarrow> worker_config \<Rightarrow> 'g host \<Rightarrow> assigned_order \<Rightarrow> int \<Rightarrow> local_manifest \<Rightarrow> ('g, unit) wk" where
  "record_evidence env cfg h order run_id m =
     wbind (ensure_environment h) (\<lambda>environment.
     wbind (ensure_identity env order m environment) (\<lambda>(identity, identity_hash).
     wbind locals (\<lambda>v.
     wbind (wlift (build_provenance (p_decision v) (p_reuse_reason v) identity_hash
              (Option.bind (p_lookup v) lk_candidate))) (\<lambda>prov.
     wseq (with_locals (\<lambda>v. v\<lparr>p_provenance := Some prov\<rparr>))
     (wbind (sample (h_now h)) (\<lambda>finished.
      wbind locals (\<lambda>v.
      wbind (wlift (evidence_of env cfg order run_id m environment prov ''succeeded'' finished v)) (\<lambda>evidence.
      wseq (with_locals (\<lambda>v. v\<lparr>p_evidence := Some evidence\<rparr>))
        (call A_Write (h_write_result h evidence (p_summary v) identity identity_hash))))))))))"

text \<open>After a failure of that, the evidence is built once more, or given up.\<close>

definition rebuild_evidence ::
  "worker_env \<Rightarrow> worker_config \<Rightarrow> 'g host \<Rightarrow> assigned_order \<Rightarrow> int \<Rightarrow> local_manifest \<Rightarrow> exc \<Rightarrow> ('g, unit) wk" where
  "rebuild_evidence env cfg h order run_id m e =
     wseq (with_locals (demote ''local_result_record_failed''))
       (wtry
         (wbind locals (\<lambda>v.
           case (p_environment v, p_provenance v) of
             (Some environment, Some prov) \<Rightarrow>
               wbind (sample (h_now h)) (\<lambda>finished.
               wbind (wlift (evidence_of env cfg order run_id m environment prov (''failed:'' @ type_name e) finished v)) (\<lambda>evidence.
                 with_locals (\<lambda>v. v\<lparr>p_evidence := Some evidence\<rparr>)))
           | _ \<Rightarrow> wraise (OtherError ''RuntimeError'')))
         (\<lambda>_. with_locals (\<lambda>v. v\<lparr>p_evidence := None, p_cleanup := take 64 (p_cleanup v @ '';evidence_failed''),
            p_terminal := RUN_FAILED, p_reason := Some ''evidence_finalization_failed''\<rparr>)))"

definition settle_evidence :: "worker_env \<Rightarrow> worker_config \<Rightarrow> 'g host \<Rightarrow> int \<Rightarrow> ('g, unit) wk" where
  "settle_evidence env cfg h run_id =
     wbind locals (\<lambda>v.
       case (p_store v, p_order v, p_manifest v) of
         (Some _, Some order, Some m) \<Rightarrow>
           if p_worktree v \<and> p_quiescent v \<and> p_integrity v
           then wtry (record_evidence env cfg h order run_id m) (rebuild_evidence env cfg h order run_id m)
           else wret ()
       | _ \<Rightarrow> wret ())"

definition finish :: "worker_env \<Rightarrow> worker_config \<Rightarrow> 'g host \<Rightarrow> int \<Rightarrow> ('g, unit) wk" where
  "finish env cfg h run_id =
     wseq stop_monitor
     (wbind locals (\<lambda>v.
      wseq (case p_manifest v of
              Some m \<Rightarrow> if p_worktree v
                        then wseq (check_integrity h) (wseq (settle_locks h m) (collect_artifacts h)) else wret ()
            | None \<Rightarrow> wret ())
       (wseq (clean_up h) (wseq (summarize env) (wseq (settle_evidence env cfg h run_id) (end_run run_id))))))"

section \<open>Polling\<close>

definition decision_of :: "string \<Rightarrow> reuse_decision" where
  "decision_of d = (if d = ''reused'' then RD_REUSED else if d = ''unavailable'' then RD_UNAVAILABLE else RD_FRESH)"

definition completion_of :: "poll_locals \<Rightarrow> execution_completion" where
  "completion_of v =
     \<lparr>xc_status = p_terminal v, xc_result_summary = Some (serialize_summary (p_summary v)),
      xc_terminal_reason = p_reason v, xc_cleanup_status = Some (p_cleanup v),
      xc_artifact_metadata = (if p_evidence v = None then [] else p_artifacts v), xc_evidence = p_evidence v,
      xc_reuse_decision = Some (decision_of (p_decision v)), xc_reuse_reason = Some (p_reuse_reason v),
      xc_reuse_identity = p_identity v, xc_reuse_identity_hash = p_identity_hash v,
      xc_retention_expires_at =
        (case (p_store v, p_evidence v) of
           (Some st, Some _) \<Rightarrow> Some (Aware (st_retention_expires_at st) 0) | _ \<Rightarrow> None)\<rparr>"

definition report :: "'g host \<Rightarrow> int \<Rightarrow> ('g, unit) wk" where
  "report h run_id =
     wbind locals (\<lambda>v.
       if p_skip v then wret ()
       else wtry (call (A_Complete run_id (completion_of v)) (h_complete_run h run_id (completion_of v)))
              (\<lambda>e. if is_ownership_lost e
                   then (if e = ExecutionCredentialRejectedError then with_worker request_shutdown else wret ())
                   else wraise e))"

definition process :: "worker_env \<Rightarrow> worker_config \<Rightarrow> 'g host \<Rightarrow> int \<Rightarrow> int \<Rightarrow> ('g, unit) wk" where
  "process env cfg h run_id work_order_id =
     wbind (sample (h_now h)) (\<lambda>now.
     wseq (with_locals (\<lambda>_. initial_locals now))
      (wseq (wtry (attempt env cfg h run_id work_order_id) handle_error)
       (wseq (finish env cfg h run_id) (report h run_id))))"

definition poll_once :: "worker_env \<Rightarrow> worker_config \<Rightarrow> 'g host \<Rightarrow> ('g, bool) wk" where
  "poll_once env cfg h =
     wbind (shutting_down h) (\<lambda>down.
       if down then wret False
       else wbind (wtry (call A_Checkout (h_checkout h))
                    (\<lambda>e. if e = ExecutionCredentialRejectedError
                         then wseq (with_worker request_shutdown) (wraise e) else wraise e)) (\<lambda>checkout.
         case checkout of
           None \<Rightarrow> wret False
         | Some (run_id, work_order_id) \<Rightarrow>
             wbind (begin_run h run_id) (\<lambda>refused.
               case refused of
                 Some reason \<Rightarrow> wseq (complete_admission_rejection h run_id reason) (wret True)
               | None \<Rightarrow> wseq (process env cfg h run_id work_order_id) (wret True))))"

text \<open>Polls one after the other; an exception of a poll is the caller's to log.\<close>

fun poll_many :: "worker_env \<Rightarrow> worker_config \<Rightarrow> 'g host \<Rightarrow> nat \<Rightarrow> 'g poll_state \<Rightarrow> 'g poll_state" where
  "poll_many env cfg h 0 s = s"
| "poll_many env cfg h (Suc n) s = poll_many env cfg h n (snd (poll_once env cfg h s))"

end
