(* ===== verification/Worker_Outcome.thy ===== *)
theory Worker_Outcome
  imports Worker_Client
begin

text \<open>
  What the local variables of \<open>poll_once\<close> hold when a run is reported. A small calculus of
  preconditions (\<open>lwp\<close>) over the local variables, sound for every host and for every interleaving of
  the other threads, carries the variables through the attempt, its exception handlers and the
  finishing work: a success is earned by the steps or by a reuse (\<open>earned\<close>), survives only if the
  checkout, the locks, the artifacts and the cleanup are in order, and the evidence describes the run
  (\<open>final\<close>).
\<close>

section \<open>Reasoning about the local variables\<close>

text \<open>\<open>lwp m Q v\<close>: from local variables \<open>v\<close>, whatever the other threads and the host do, \<open>m\<close> ends with a
  result and local variables that satisfy \<open>Q\<close>. \<open>keeps m\<close>: \<open>m\<close> does not assign a local variable.\<close>

definition lwp :: "('g, 'a) wk \<Rightarrow> (exc + 'a \<Rightarrow> poll_locals \<Rightarrow> bool) \<Rightarrow> poll_locals \<Rightarrow> bool" where
  "lwp m Q v \<longleftrightarrow> (\<forall>s. ps_locals s = v \<longrightarrow> Q (fst (m s)) (ps_locals (snd (m s))))"

definition keeps :: "('g, 'a) wk \<Rightarrow> bool" where
  "keeps m \<longleftrightarrow> (\<forall>s. ps_locals (snd (m s)) = ps_locals s)"

named_theorems keeps_rules \<open>calls that assign no local variable\<close>
named_theorems lwp_rules \<open>rules that compute preconditions\<close>

lemma lwpD: "lwp m Q (ps_locals s) \<Longrightarrow> Q (fst (m s)) (ps_locals (snd (m s)))"
  by (simp add: lwp_def)

lemma lwp_mono: "lwp m Q v \<Longrightarrow> (\<And>r v'. Q r v' \<Longrightarrow> Q' r v') \<Longrightarrow> lwp m Q' v"
  by (simp add: lwp_def)

lemma lwp_keeps: "keeps m \<Longrightarrow> (\<And>r. Q r v) \<Longrightarrow> lwp m Q v"
  by (simp add: lwp_def keeps_def)

lemma lwp_ret [lwp_rules]: "Q (Inr x) v \<Longrightarrow> lwp (wret x) Q v"
  by (simp add: lwp_def wret_def)

lemma lwp_raise [lwp_rules]: "Q (Inl e) v \<Longrightarrow> lwp (wraise e) Q v"
  by (simp add: lwp_def wraise_def)

lemma lwp_lift [lwp_rules]: "Q r v \<Longrightarrow> lwp (wlift r) Q v"
  by (simp add: lwp_def wlift_def)

lemma lwp_locals [lwp_rules]: "Q (Inr v) v \<Longrightarrow> lwp locals Q v"
  by (simp add: lwp_def locals_def)

lemma lwp_with [lwp_rules]: "Q (Inr ()) (f v) \<Longrightarrow> lwp (with_locals f) Q v"
  by (simp add: lwp_def with_locals_def)

lemma lwp_bind [lwp_rules]:
  assumes "lwp m (\<lambda>r v'. (\<forall>e. r = Inl e \<longrightarrow> Q (Inl e) v') \<and> (\<forall>x. r = Inr x \<longrightarrow> lwp (f x) Q v')) v"
  shows "lwp (wbind m f) Q v"
  unfolding lwp_def
proof (intro allI impI)
  fix s :: "'a poll_state" assume "ps_locals s = v"
  with assms have *: "(\<forall>e. fst (m s) = Inl e \<longrightarrow> Q (Inl e) (ps_locals (snd (m s))))
      \<and> (\<forall>x. fst (m s) = Inr x \<longrightarrow> lwp (f x) Q (ps_locals (snd (m s))))" unfolding lwp_def by blast
  show "Q (fst (wbind m f s)) (ps_locals (snd (wbind m f s)))"
    using * by (cases "m s"; cases "fst (m s)") (auto simp: wbind_def lwp_def)
qed

lemma lwp_seq [lwp_rules]:
  "lwp m (\<lambda>r v'. (\<forall>e. r = Inl e \<longrightarrow> Q (Inl e) v') \<and> (r = Inr () \<longrightarrow> lwp n Q v')) v \<Longrightarrow> lwp (wseq m n) Q v"
  unfolding wseq_def by (rule lwp_bind) (auto elim: lwp_mono)

lemma lwp_try:
  assumes "lwp m (\<lambda>r v'. (\<forall>e. r = Inl e \<longrightarrow> lwp (h e) Q v') \<and> (\<forall>x. r = Inr x \<longrightarrow> Q (Inr x) v')) v"
  shows "lwp (wtry m h) Q v"
  unfolding lwp_def
proof (intro allI impI)
  fix s :: "'a poll_state" assume "ps_locals s = v"
  with assms have *: "(\<forall>e. fst (m s) = Inl e \<longrightarrow> lwp (h e) Q (ps_locals (snd (m s))))
      \<and> (\<forall>x. fst (m s) = Inr x \<longrightarrow> Q (Inr x) (ps_locals (snd (m s))))" unfolding lwp_def by blast
  show "Q (fst (wtry m h s)) (ps_locals (snd (wtry m h s)))"
    using * by (cases "m s"; cases "fst (m s)") (auto simp: wtry_def lwp_def)
qed

lemma keeps_basic [keeps_rules]:
  "keeps (wret x)" "keeps (wraise e)" "keeps (wlift r)" "keeps locals" "keeps (asks f)" "keeps (with_worker g)"
  "keeps (query op)"
  by (simp_all add: keeps_def wret_def wraise_def wlift_def locals_def asks_def with_worker_def query_def split: prod.splits)

lemma keeps_bind [keeps_rules]: "keeps m \<Longrightarrow> (\<And>x. keeps (f x)) \<Longrightarrow> keeps (wbind m f)"
  by (auto simp: keeps_def wbind_def split: prod.splits sum.splits) (metis snd_conv)+

lemma keeps_seq [keeps_rules]: "keeps m \<Longrightarrow> keeps n \<Longrightarrow> keeps (wseq m n)"
  unfolding wseq_def by (intro keeps_rules)

lemma keeps_try [keeps_rules]: "keeps m \<Longrightarrow> (\<And>e. keeps (h e)) \<Longrightarrow> keeps (wtry m h)"
  by (auto simp: keeps_def wtry_def split: prod.splits sum.splits) (metis snd_conv)+

lemma keeps_calls [keeps_rules]:
  "keeps (sample q)" "keeps (call a op)" "keeps (meanwhile h)" "keeps (token_reason h)" "keeps (shutting_down h)"
  "keeps (verify_checkout h)" "keeps (end_run r)" "keeps (discover_and_validate h c)" "keeps (validate_manifest cfg h m remote order)"
  unfolding sample_def call_def meanwhile_def token_reason_def shutting_down_def verify_checkout_def end_run_def
    discover_and_validate_def validate_manifest_def
  by (intro keeps_rules)+

lemma keeps_hash_files [keeps_rules]: "keeps (hash_files h ps)"
  by (induction ps) (auto intro!: keeps_rules)

lemma keeps_capture_all [keeps_rules]: "keeps (capture_all h ds)"
  by (induction h ds rule: capture_all.induct) (auto intro!: keeps_rules)

lemma keeps_run_one [keeps_rules]: "keeps (run_one h i m t step)"
  unfolding run_one_def by (intro keeps_rules)

lemma keeps_start [keeps_rules]: "keeps (start_monitor h i t)"
  unfolding start_monitor_def by (auto intro!: keeps_rules split: option.splits prod.splits)

lemma keeps_report [keeps_rules]: "keeps (report h i)"
  unfolding report_def by (auto intro!: keeps_rules)

lemma lwp_query [lwp_rules]: "(\<And>r. Q r v) \<Longrightarrow> lwp (query op) Q v"
  by (rule lwp_keeps) (intro keeps_rules)

lemma lwp_call [lwp_rules]: "(\<And>r. Q r v) \<Longrightarrow> lwp (call a op) Q v"
  by (rule lwp_keeps) (intro keeps_rules)

lemma lwp_verify [lwp_rules]: "(\<And>r. Q r v) \<Longrightarrow> lwp (verify_checkout h) Q v"
  by (rule lwp_keeps) (intro keeps_rules)

lemma lwp_hash_files [lwp_rules]: "(\<And>r. Q r v) \<Longrightarrow> lwp (hash_files h ps) Q v"
  by (rule lwp_keeps) (intro keeps_rules)

lemma lwp_capture_all [lwp_rules]: "(\<And>r. Q r v) \<Longrightarrow> lwp (capture_all h ds) Q v"
  by (rule lwp_keeps) (intro keeps_rules)

lemma lwp_run_one [lwp_rules]: "(\<And>r. Q r v) \<Longrightarrow> lwp (run_one h i m t step) Q v"
  by (rule lwp_keeps) (intro keeps_rules)

lemma lwp_start [lwp_rules]: "(\<And>r. Q r v) \<Longrightarrow> lwp (start_monitor h i t) Q v"
  by (rule lwp_keeps) (intro keeps_rules)

lemma lwp_with_worker [lwp_rules]: "Q (Inr ()) v \<Longrightarrow> lwp (with_worker f) Q v"
  by (simp add: lwp_def with_worker_def)

lemma lwp_asks [lwp_rules]: "(\<And>x. Q (Inr x) v) \<Longrightarrow> lwp (asks f) Q v"
  by (simp add: lwp_def asks_def)

lemma lwp_end_run [lwp_rules]: "Q (Inr ()) v \<Longrightarrow> lwp (end_run i) Q v"
  unfolding end_run_def by (intro lwp_rules)

lemma lwp_sample [lwp_rules]: "(\<And>x. Q (Inr x) v) \<Longrightarrow> lwp (sample op) Q v"
  by (auto simp: lwp_def sample_def query_def split: prod.splits)

lemma lwp_meanwhile [lwp_rules]: "Q (Inr ()) v \<Longrightarrow> lwp (meanwhile h) Q v"
  unfolding meanwhile_def by (auto intro!: lwp_rules)

lemma lwp_token_reason [lwp_rules]: "(\<And>x. Q (Inr x) v) \<Longrightarrow> lwp (token_reason h) Q v"
  unfolding token_reason_def by (auto intro!: lwp_rules)

lemma lwp_shutting_down [lwp_rules]: "(\<And>x. Q (Inr x) v) \<Longrightarrow> lwp (shutting_down h) Q v"
  unfolding shutting_down_def by (auto intro!: lwp_rules)

lemma lwp_validate [lwp_rules]:
  assumes "\<And>r. (\<And>m. r = Inr m \<Longrightarrow> check_manifest cfg mo remote order = Inr m) \<Longrightarrow> Q r v"
  shows "lwp (validate_manifest cfg h mo remote order) Q v"
  unfolding validate_manifest_def discover_and_validate_def using assms by (auto intro!: lwp_rules)

lemma lwp_if [lwp_rules]: "(b \<Longrightarrow> lwp m Q v) \<Longrightarrow> (\<not> b \<Longrightarrow> lwp n Q v) \<Longrightarrow> lwp (if b then m else n) Q v"
  by simp

lemma lwp_option [lwp_rules]:
  "(x = None \<Longrightarrow> lwp m Q v) \<Longrightarrow> (\<And>y. x = Some y \<Longrightarrow> lwp (n y) Q v) \<Longrightarrow> lwp (case x of None \<Rightarrow> m | Some y \<Rightarrow> n y) Q v"
  by (cases x) auto

lemma lwp_prod [lwp_rules]: "(\<And>a b. x = (a, b) \<Longrightarrow> lwp (f a b) Q v) \<Longrightarrow> lwp (case x of (a, b) \<Rightarrow> f a b) Q v"
  by (cases x) auto

lemma lwp_set_outcome [lwp_rules]:
  "(\<And>t w b. t \<noteq> RUN_SUCCEEDED \<Longrightarrow> Q (Inr ()) (v\<lparr>p_terminal := t, p_reason := w, p_skip := b\<rparr>)) \<Longrightarrow> lwp (set_outcome r) Q v"
  unfolding set_outcome_def cancellation_outcome_def by (auto intro!: lwp_rules)

lemmas lwp_vcg = lwp_rules lwp_try

section \<open>The attempt\<close>

definition core :: "poll_locals \<Rightarrow> _" where
  "core v = (p_order v, p_manifest v, p_worktree v, p_store v, p_evidence v, p_integrity v, p_provenance v)"

lemma core_updates [simp]:
  "core (v\<lparr>p_results := a\<rparr>) = core v" "core (v\<lparr>p_attempted := b\<rparr>) = core v" "core (v\<lparr>p_artifacts := c\<rparr>) = core v"
  "core (v\<lparr>p_locks := d\<rparr>) = core v" "core (v\<lparr>p_lock_status := e\<rparr>) = core v" "core (v\<lparr>p_artifact_status := f\<rparr>) = core v"
  "core (v\<lparr>p_quiescent := g\<rparr>) = core v" "core (v\<lparr>p_terminal := i\<rparr>) = core v" "core (v\<lparr>p_reason := j\<rparr>) = core v"
  "core (v\<lparr>p_cleanup := k\<rparr>) = core v" "core (v\<lparr>p_skip := l\<rparr>) = core v" "core (v\<lparr>p_summary := m\<rparr>) = core v"
  "core (v\<lparr>p_environment := n\<rparr>) = core v" "core (v\<lparr>p_identity := o1\<rparr>) = core v" "core (v\<lparr>p_identity_hash := q\<rparr>) = core v"
  "core (v\<lparr>p_decision := r\<rparr>) = core v" "core (v\<lparr>p_reuse_reason := s\<rparr>) = core v" "core (v\<lparr>p_lookup := t\<rparr>) = core v"
  "core (v\<lparr>p_started_at := u\<rparr>) = core v"
  by (simp_all add: core_def)

text \<open>Assignments that touch neither the core nor what decides the outcome.\<close>

definition quiet :: "poll_locals \<Rightarrow> poll_locals \<Rightarrow> bool" where
  "quiet v v' \<longleftrightarrow> core v' = core v \<and> p_terminal v' = p_terminal v \<and> p_results v' = p_results v
     \<and> p_decision v' = p_decision v \<and> p_quiescent v' = p_quiescent v"

lemma quiet_hash: "lwp (hash_dependency_locks h m) (\<lambda>r. quiet v) v"
  unfolding hash_dependency_locks_def by (auto intro!: lwp_vcg simp: quiet_def)

lemma quiet_look_up: "lwp (look_up_reuse h i identity ih) (\<lambda>r. quiet v) v"
  unfolding look_up_reuse_def by (auto intro!: lwp_vcg simp: quiet_def)

text \<open>Reuse: whether to execute; if not, success means that a result is reused.\<close>

definition reuse_post :: "poll_locals \<Rightarrow> exc + bool \<Rightarrow> poll_locals \<Rightarrow> bool" where
  "reuse_post v r v' \<longleftrightarrow> core v' = core v \<and> p_results v' = p_results v \<and> p_quiescent v' = p_quiescent v
     \<and> (r = Inr True \<longrightarrow> p_terminal v' = p_terminal v)
     \<and> (r = Inr False \<longrightarrow> p_terminal v' = RUN_SUCCEEDED \<longrightarrow> p_decision v' = ''reused'')"

lemma decide_reuse_post: "quiet v0 v \<Longrightarrow> lwp (decide_reuse h order store) (reuse_post v0) v"
  unfolding decide_reuse_def require_exact_unavailable_def
  by (auto intro!: lwp_vcg simp: reuse_post_def quiet_def)

lemma quiet_trans: "quiet a b \<Longrightarrow> quiet b c \<Longrightarrow> quiet a c"
  by (simp add: quiet_def)

lemma reuse_post_error: "quiet v v' \<Longrightarrow> reuse_post v (Inl e) v'"
  by (simp add: quiet_def reuse_post_def)

lemma consider_reuse_post: "lwp (consider_reuse env h order i m environment store) (reuse_post v) v"
proof -
  have look: "lwp (wseq (look_up_reuse h i identity ih) (decide_reuse h order store)) (reuse_post v) u" if "quiet v u" for u identity ih
    by (rule lwp_seq, rule lwp_mono [OF quiet_look_up])
      (use that in \<open>auto intro: reuse_post_error decide_reuse_post quiet_trans\<close>)
  have "lwp (if tm_dependency_lock_paths m = [] then wret () else hash_dependency_locks h m) (\<lambda>r. quiet v) v"
    by (rule lwp_if) (auto intro!: lwp_ret quiet_hash simp: quiet_def)
  then have "lwp (consider_reuse env h order i m environment store) (reuse_post v) v" if "ao_reuse_policy order \<noteq> ''never''"
    unfolding consider_reuse_def Let_def if_not_P [OF that]
    by (intro lwp_seq, elim lwp_mono)
      (auto intro!: lwp_vcg look simp: reuse_post_error, auto simp: quiet_def reuse_post_def)
  then show ?thesis
    by (cases "ao_reuse_policy order = ''never''") (auto simp: consider_reuse_def reuse_post_def intro!: lwp_ret)
qed

text \<open>The steps: if they leave a success, each required step succeeded.\<close>

definition step_passed :: "trusted_step \<Rightarrow> step_result \<Rightarrow> bool" where
  "step_passed step r \<longleftrightarrow> (ts_required step \<longrightarrow> sr_status r = RUN_SUCCEEDED)"

lemma lwp_step_error:
  assumes "\<And>u. core u = core v \<Longrightarrow> p_decision u = p_decision v \<Longrightarrow> p_terminal u \<noteq> RUN_SUCCEEDED \<Longrightarrow> Q (Inr ()) u"
  shows "lwp (step_error h e) Q v"
  unfolding step_error_def by (cases e) (auto intro!: lwp_vcg assms)

definition steps_post :: "poll_locals \<Rightarrow> trusted_step list \<Rightarrow> exc + unit \<Rightarrow> poll_locals \<Rightarrow> bool" where
  "steps_post v steps r v' \<longleftrightarrow> core v' = core v \<and> p_decision v' = p_decision v
     \<and> (r = Inr () \<longrightarrow> p_terminal v' = RUN_SUCCEEDED \<longrightarrow> list_all2 step_passed steps (p_results v'))"

lemma lwp_record:
  assumes "\<And>u. core u = core v \<Longrightarrow> p_decision u = p_decision v \<Longrightarrow> p_results u = p_results v @ [r]
      \<Longrightarrow> step_passed step r \<Longrightarrow> Q (Inr True) u"
    and "\<And>u. core u = core v \<Longrightarrow> p_decision u = p_decision v \<Longrightarrow> p_terminal u \<noteq> RUN_SUCCEEDED \<Longrightarrow> Q (Inr False) u"
  shows "lwp (record_result step r) Q v"
  unfolding record_result_def by (auto intro!: lwp_vcg assms simp: step_passed_def)

lemma run_steps_post:
  assumes "core v = core v0" "p_decision v = p_decision v0" "list_all2 step_passed dn (p_results v)"
  shows "lwp (run_steps h i m t steps) (steps_post v0 (dn @ steps)) v"
  using assms
proof (induction steps arbitrary: v dn)
  case Nil
  then show ?case by (auto intro!: lwp_ret simp: steps_post_def)
next
  case (Cons step steps)
  have post: "steps_post v0 (dn @ step # steps) r u" if "core u = core v0" "p_decision u = p_decision v0"
      "p_terminal u \<noteq> RUN_SUCCEEDED \<or> r \<noteq> Inr ()" for r u
    using that by (auto simp: steps_post_def)
  show ?case
    using Cons.prems
    by (auto intro!: lwp_vcg lwp_step_error lwp_record post Cons.IH [of _ "dn @ [step]", simplified] list_all2_appendI)
qed

definition manifest_for :: "assigned_order \<Rightarrow> local_manifest \<Rightarrow> bool" where
  "manifest_for order m \<longleftrightarrow> tm_name m = ao_manifest_name order \<and> tm_version m = ao_manifest_version order
     \<and> tm_digest m = ao_manifest_digest order"

lemma checked_manifest: "check_manifest cfg mo remote order = Inr m \<Longrightarrow> manifest_for order m"
  by (auto simp: check_manifest_def remote_matches_def manifest_for_def raise_value_def split: option.splits if_splits)

definition base :: "poll_locals \<Rightarrow> bool" where
  "base v \<longleftrightarrow> p_evidence v = None \<and> p_provenance v = None \<and> p_integrity v
     \<and> (\<forall>m. p_manifest v = Some m \<longrightarrow> (\<exists>order. p_order v = Some order \<and> manifest_for order m))"

definition earned :: "poll_locals \<Rightarrow> bool" where
  "earned v \<longleftrightarrow> p_worktree v \<and> p_store v \<noteq> None \<and> (\<exists>m. p_manifest v = Some m \<and>
     (p_decision v = ''reused'' \<or> list_all2 step_passed (lm_execution_steps m) (p_results v)))"

definition attempt_post :: "exc + unit \<Rightarrow> poll_locals \<Rightarrow> bool" where
  "attempt_post r v \<longleftrightarrow> base v \<and> (r = Inr () \<longrightarrow> p_terminal v = RUN_SUCCEEDED \<longrightarrow> earned v)"

lemma base_core: "core u = core v \<Longrightarrow> base v \<Longrightarrow> base u"
  by (simp add: core_def base_def)

lemma attempt_postI: "base v \<Longrightarrow> p_terminal v \<noteq> RUN_SUCCEEDED \<or> r \<noteq> Inr () \<Longrightarrow> attempt_post r v"
  by (auto simp: attempt_post_def)

lemma earned_core:
  "core u = core v \<Longrightarrow> p_worktree v \<Longrightarrow> p_store v \<noteq> None \<Longrightarrow> p_manifest v = Some m \<Longrightarrow>
   p_decision u = ''reused'' \<or> list_all2 step_passed (lm_execution_steps m) (p_results u) \<Longrightarrow> earned u"
  by (auto simp: core_def earned_def)

lemma last_check:
  assumes "base v" "p_terminal v = RUN_SUCCEEDED \<longrightarrow> earned v"
  shows "lwp (wbind (token_reason h) (\<lambda>c. case c of Some r \<Rightarrow> set_outcome r | None \<Rightarrow> wret ())) attempt_post v"
  using assms by (auto intro!: lwp_vcg simp: attempt_post_def base_def)

lemma perform_post:
  assumes v: "base v" "p_worktree v" "p_store v \<noteq> None" "p_manifest v = Some m" "p_results v = []"
  shows "lwp (perform env h order i m t environment store) attempt_post v"
  unfolding perform_def
proof (rule lwp_bind, rule lwp_mono [OF consider_reuse_post], intro conjI allI impI)
  fix r u e assume "reuse_post v r u" "r = Inl e"
  then show "attempt_post (Inl e) u" using v(1) by (auto simp: reuse_post_def attempt_post_def intro: base_core)
next
  fix r u fresh assume u: "reuse_post v r u" "r = Inr fresh"
  then have core: "core u = core v" and res: "p_results u = []" using v by (auto simp: reuse_post_def)
  let ?run = "if fresh then wseq (with_locals (\<lambda>v. v\<lparr>p_decision := ''fresh''\<rparr>)) (run_steps h i m t (lm_execution_steps m)) else wret ()"
  have "lwp ?run (\<lambda>r w. core w = core v \<and> (r = Inr () \<longrightarrow> p_terminal w = RUN_SUCCEEDED \<longrightarrow> earned w)) u"
  proof (cases fresh)
    case True
    have "lwp (run_steps h i m t (lm_execution_steps m)) (steps_post (u\<lparr>p_decision := ''fresh''\<rparr>) ([] @ lm_execution_steps m)) (u\<lparr>p_decision := ''fresh''\<rparr>)"
      by (rule run_steps_post) (simp_all add: res)
    then have "lwp (run_steps h i m t (lm_execution_steps m))
        (\<lambda>r w. core w = core v \<and> (r = Inr () \<longrightarrow> p_terminal w = RUN_SUCCEEDED \<longrightarrow> earned w)) (u\<lparr>p_decision := ''fresh''\<rparr>)"
      by (rule lwp_mono) (use v core in \<open>auto simp: steps_post_def intro: earned_core\<close>)
    with True show ?thesis by (auto intro!: lwp_seq lwp_with)
  next
    case False
    with u core v show ?thesis by (auto intro!: lwp_ret simp: reuse_post_def intro: earned_core)
  qed
  then show "lwp (wseq ?run (wbind (token_reason h) (\<lambda>c. case c of Some r \<Rightarrow> set_outcome r | None \<Rightarrow> wret ()))) attempt_post u"
    by (intro lwp_seq, elim lwp_mono) (use v(1) in \<open>auto intro!: last_check attempt_postI intro: base_core\<close>)
qed

lemma base_updates [simp]:
  "base (v\<lparr>p_store := a\<rparr>) = base v" "base (v\<lparr>p_worktree := b\<rparr>) = base v"
  by (simp_all add: base_def)

lemma base_core_updates [simp]:
  "base (v\<lparr>p_started_at := c\<rparr>) = base v" "base (v\<lparr>p_environment := d\<rparr>) = base v" "base (v\<lparr>p_terminal := e\<rparr>) = base v"
  "base (v\<lparr>p_reason := f\<rparr>) = base v" "base (v\<lparr>p_cleanup := g\<rparr>) = base v" "base (v\<lparr>p_skip := h\<rparr>) = base v"
  "base (v\<lparr>p_quiescent := i\<rparr>) = base v" "base (v\<lparr>p_decision := j\<rparr>) = base v" "base (v\<lparr>p_reuse_reason := k\<rparr>) = base v"
  by (simp_all add: base_def)

lemma execute_post:
  assumes "base v" "p_manifest v = Some m" "p_results v = []"
  shows "lwp (execute env cfg h order i m t) attempt_post v"
  unfolding execute_def using assms by (auto intro!: lwp_vcg perform_post attempt_postI)

lemma attempt_attempt_post: "lwp (attempt env cfg h i wo) attempt_post (initial_locals now)"
proof -
  have "base (initial_locals now)" by (simp add: base_def initial_locals_def)
  moreover have "base (v\<lparr>p_order := Some order, p_manifest := Some m\<rparr>)" if "base v" "manifest_for order m" for v order m
    using that by (simp add: base_def)
  moreover have "base (v\<lparr>p_order := Some order\<rparr>)" if "base v" "p_manifest v = None" for v order
    using that by (simp add: base_def)
  moreover have "p_manifest (initial_locals now) = None" "p_results (initial_locals now) = []" by (simp_all add: initial_locals_def)
  ultimately show ?thesis
    unfolding attempt_def Let_def
    by (auto intro!: lwp_vcg execute_post attempt_postI simp: checked_manifest)
qed

text \<open>A handled error never leaves a success.\<close>

lemma attempted:
  "lwp (wtry (attempt env cfg h i wo) handle_error)
     (\<lambda>r v. r = Inr () \<and> base v \<and> (p_terminal v = RUN_SUCCEEDED \<longrightarrow> earned v)) (initial_locals now)"
proof (rule lwp_try, rule lwp_mono [OF attempt_attempt_post], intro conjI allI impI)
  fix r v e assume "attempt_post r v"
  then have "base v" by (simp add: attempt_post_def)
  then show "lwp (handle_error e) (\<lambda>r v. r = Inr () \<and> base v \<and> (p_terminal v = RUN_SUCCEEDED \<longrightarrow> earned v)) v"
    unfolding handle_error_def by (auto intro!: lwp_vcg)
qed (auto simp: attempt_post_def)

section \<open>The end of a run\<close>

text \<open>What holds of the local variables after each part of the \<open>finally\<close> block, if the run still counts
  as a success.\<close>

definition linked :: "poll_locals \<Rightarrow> bool" where
  "linked v \<longleftrightarrow> p_evidence v = None \<and> p_provenance v = None
     \<and> (\<forall>m. p_manifest v = Some m \<longrightarrow> (\<exists>order. p_order v = Some order \<and> manifest_for order m))"

definition succeeded_only :: "(poll_locals \<Rightarrow> bool) \<Rightarrow> poll_locals \<Rightarrow> bool" where
  "succeeded_only P v \<longleftrightarrow> linked v \<and> (p_terminal v = RUN_SUCCEEDED \<longrightarrow> earned v \<and> (p_quiescent v \<longrightarrow> P v))"

definition locks_settled :: "poll_locals \<Rightarrow> bool" where
  "locks_settled v \<longleftrightarrow> p_integrity v \<and>
     (\<forall>m. p_manifest v = Some m \<longrightarrow> tm_dependency_lock_paths m = [] \<or> p_lock_status v = ''succeeded'')"

definition artifacts_settled :: "poll_locals \<Rightarrow> bool" where
  "artifacts_settled v \<longleftrightarrow> locks_settled v \<and> p_artifact_status v = ''succeeded''"

definition cleaned :: "poll_locals \<Rightarrow> bool" where
  "cleaned v \<longleftrightarrow> artifacts_settled v \<and> p_cleanup v = ''succeeded''"

lemmas settled_defs = succeeded_only_def linked_def earned_def locks_settled_def artifacts_settled_def cleaned_def demote_def

lemma demote_fields [simp]:
  "p_manifest (demote w v) = p_manifest v" "p_order (demote w v) = p_order v" "p_quiescent (demote w v) = p_quiescent v"
  "p_terminal (demote w v) \<noteq> RUN_SUCCEEDED" "p_evidence (demote w v) = p_evidence v" "p_provenance (demote w v) = p_provenance v"
  by (simp_all add: demote_def)

lemma demoted: "linked v \<Longrightarrow> succeeded_only P (demote w v)"
  by (simp add: succeeded_only_def linked_def)

lemma linked_updates [simp]:
  "linked (v\<lparr>p_integrity := a\<rparr>) = linked v" "linked (v\<lparr>p_lock_status := b\<rparr>) = linked v"
  "linked (v\<lparr>p_artifact_status := c\<rparr>) = linked v" "linked (v\<lparr>p_cleanup := d\<rparr>) = linked v"
  by (simp_all add: linked_def)

lemma check_integrity_post:
  "succeeded_only (\<lambda>_. True) v \<Longrightarrow> lwp (check_integrity h) (\<lambda>r u. r = Inr () \<and> succeeded_only p_integrity u \<and> p_manifest u = p_manifest v) v"
  if "p_integrity v"
  unfolding check_integrity_def using that
  by (auto intro!: lwp_vcg demoted) (auto simp: settled_defs)

lemma lwp_hash [lwp_rules]:
  assumes "\<And>u r. quiet v u \<Longrightarrow> (r = Inr () \<Longrightarrow> p_lock_status u = ''succeeded'') \<Longrightarrow> Q r u"
  shows "lwp (hash_dependency_locks h m) Q v"
  unfolding hash_dependency_locks_def by (auto intro!: lwp_vcg assms simp: quiet_def)

lemma quiet_settled: "quiet v u \<Longrightarrow> linked u = linked v \<and> earned u = earned v \<and> p_integrity u = p_integrity v
    \<and> p_manifest u = p_manifest v \<and> p_quiescent u = p_quiescent v \<and> p_terminal u = p_terminal v"
  by (auto simp: quiet_def core_def linked_def earned_def)

lemma settle_locks_post:
  assumes "succeeded_only p_integrity v" "p_manifest v = Some m"
  shows "lwp (settle_locks h m) (\<lambda>r u. r = Inr () \<and> succeeded_only locks_settled u) v"
proof -
  have fail: "succeeded_only locks_settled (demote why (u\<lparr>p_lock_status := s\<rparr>))" if "quiet v u" for u why s
    using assms(1) quiet_settled [OF that] by (auto simp: settled_defs)
  have ok: "succeeded_only locks_settled u" if "quiet v u" "p_lock_status u = ''succeeded''" for u
    using assms quiet_settled [OF that(1)] that(2) by (auto simp: succeeded_only_def locks_settled_def)
  have skip: "succeeded_only locks_settled (u\<lparr>p_lock_status := s\<rparr>)"
    if "\<not> p_quiescent v \<or> \<not> p_integrity v" "u = v \<or> u = v\<lparr>p_artifact_status := a\<rparr>" for u s a
    using that assms by (auto simp: settled_defs)
  consider "\<not> p_quiescent v \<or> \<not> p_integrity v" | "p_quiescent v" "p_integrity v" "tm_dependency_lock_paths m \<noteq> [] \<and> p_lock_status v \<noteq> ''succeeded''"
    | "p_quiescent v" "p_integrity v" "tm_dependency_lock_paths m = [] \<or> p_lock_status v = ''succeeded''" by blast
  then show ?thesis
  proof cases
    case 1
    then show ?thesis unfolding settle_locks_def by (auto intro!: lwp_vcg skip)
  next
    case 2
    then show ?thesis unfolding settle_locks_def by (auto intro!: lwp_vcg lwp_hash intro: fail ok)
  next
    case 3
    then have "succeeded_only locks_settled v" using assms by (auto simp: succeeded_only_def locks_settled_def)
    with 3 show ?thesis unfolding settle_locks_def by (auto intro!: lwp_vcg)
  qed
qed

lemma collect_artifacts_post:
  "succeeded_only locks_settled v \<Longrightarrow> lwp (collect_artifacts h) (\<lambda>r u. r = Inr () \<and> succeeded_only artifacts_settled u) v"
  unfolding collect_artifacts_def
  by (auto intro!: lwp_vcg demoted) (auto simp: settled_defs)

lemma clean_up_post:
  "succeeded_only artifacts_settled v \<Longrightarrow> lwp (clean_up h) (\<lambda>r u. r = Inr () \<and> succeeded_only cleaned u) v"
  unfolding clean_up_def
  by (auto intro!: lwp_vcg demoted) (auto simp: settled_defs)

section \<open>Evidence\<close>

text \<open>The evidence describes the run it is reported for.\<close>

definition describes :: "worker_env \<Rightarrow> worker_config \<Rightarrow> int \<Rightarrow> poll_locals \<Rightarrow> execution_evidence \<Rightarrow> bool" where
  "describes env cfg i v e \<longleftrightarrow> (\<exists>order m. p_order v = Some order \<and> p_manifest v = Some m \<and> manifest_for order m
     \<and> valid_evidence (wv_service env) e
     \<and> (let d = ev_draft e; s = ev_subject d
        in ev_work_order_id s = ao_id order \<and> ev_run_id s = i \<and> ev_worker_id s = wf_worker_id cfg
           \<and> ev_repository_full_name s = ao_repository_full_name order \<and> ev_tested_sha s = lower (ao_commit_sha order)
           \<and> ev_manifest_name s = tm_name m \<and> ev_manifest_version s = tm_version m \<and> ev_manifest_digest s = tm_digest m
           \<and> ev_terminal_status d = run_status_value (p_terminal v) \<and> ev_artifacts d = p_artifacts v
           \<and> ev_source_cleanup_status d = p_cleanup v))"

lemma evidence_of_describes:
  assumes "evidence_of env cfg order i m environment prov st fin v = Inr e"
    and "p_order v = Some order" "p_manifest v = Some m" "manifest_for order m"
  shows "describes env cfg i v e \<and> ev_local_record_status (ev_draft e) = st"
  using assms
  by (auto simp: evidence_of_def build_evidence_def describes_def Let_def status_of_report_def split: if_splits)

definition evidence_ok :: "worker_env \<Rightarrow> worker_config \<Rightarrow> int \<Rightarrow> poll_locals \<Rightarrow> bool" where
  "evidence_ok env cfg i v \<longleftrightarrow> (\<forall>e. p_evidence v = Some e \<longrightarrow> describes env cfg i v e)"

text \<open>Assignments after the clean-up: only environment, identity, provenance and evidence.\<close>

definition recorded :: "poll_locals \<Rightarrow> poll_locals \<Rightarrow> bool" where
  "recorded v u \<longleftrightarrow> p_order u = p_order v \<and> p_manifest u = p_manifest v \<and> p_terminal u = p_terminal v
     \<and> p_artifacts u = p_artifacts v \<and> p_cleanup u = p_cleanup v \<and> p_quiescent u = p_quiescent v \<and> p_worktree u = p_worktree v
     \<and> p_store u = p_store v \<and> p_decision u = p_decision v \<and> p_results u = p_results v \<and> p_integrity u = p_integrity v
     \<and> p_lock_status u = p_lock_status v \<and> p_artifact_status u = p_artifact_status v"

lemma recorded_same: "recorded v u \<Longrightarrow> earned u = earned v \<and> cleaned u = cleaned v \<and> describes env cfg i u e = describes env cfg i v e"
  by (auto simp: recorded_def earned_def cleaned_def artifacts_settled_def locks_settled_def describes_def)

lemma record_evidence_post:
  assumes v: "p_order v = Some order" "p_manifest v = Some m" "manifest_for order m" "p_evidence v = None"
  shows "lwp (record_evidence env cfg h order i m)
    (\<lambda>r u. recorded v u \<and> (\<forall>e. p_evidence u = Some e \<longrightarrow> describes env cfg i v e \<and> ev_local_record_status (ev_draft e) = ''succeeded'')
       \<and> (r = Inr () \<longrightarrow> p_evidence u \<noteq> None)) v"
proof -
  have "describes env cfg i v e \<and> ev_local_record_status (ev_draft e) = ''succeeded''"
    if "evidence_of env cfg order i m environment prov ''succeeded'' fin u = Inr e" "recorded v u" for environment prov fin u e
    using evidence_of_describes [OF that(1)] that(2) v recorded_same [OF that(2)] by (simp add: recorded_def)
  with v show ?thesis
    unfolding record_evidence_def ensure_environment_def ensure_identity_def Let_def
    by (auto intro!: lwp_vcg simp: recorded_def)
qed

lemma rebuild_evidence_post:
  assumes v: "p_order v = Some order" "p_manifest v = Some m" "manifest_for order m"
  shows "lwp (rebuild_evidence env cfg h order i m e)
    (\<lambda>r u. r = Inr () \<and> evidence_ok env cfg i u \<and> p_terminal u \<noteq> RUN_SUCCEEDED \<and> p_quiescent u = p_quiescent v) v"
proof -
  have ok: "describes env cfg i u e'"
    if "evidence_of env cfg order i m environment prov st fin u = Inr e'" "p_order u = p_order v" "p_manifest u = p_manifest v"
    for environment prov st fin u e'
    using evidence_of_describes [OF that(1)] that(2,3) v by simp
  have d: "p_order (demote w v) = p_order v" "p_manifest (demote w v) = p_manifest v"
    "p_terminal (demote w v) \<noteq> RUN_SUCCEEDED" "p_quiescent (demote w v) = p_quiescent v" for w
    by (simp_all add: demote_def)
  have e: "evidence_ok env cfg i (u\<lparr>p_evidence := Some e'\<rparr>)" if "describes env cfg i u e'" for u e'
    using that by (simp add: evidence_ok_def describes_def)
  show ?thesis
    unfolding rebuild_evidence_def
    by (auto intro!: lwp_vcg e ok simp: d) (auto simp: evidence_ok_def)
qed

definition final :: "worker_env \<Rightarrow> worker_config \<Rightarrow> int \<Rightarrow> poll_locals \<Rightarrow> bool" where
  "final env cfg i v \<longleftrightarrow> evidence_ok env cfg i v \<and> (\<not> p_quiescent v \<longrightarrow> p_evidence v = None)
     \<and> (p_terminal v = RUN_SUCCEEDED \<longrightarrow> earned v \<and> (p_quiescent v \<longrightarrow> cleaned v
          \<and> (\<exists>e. p_evidence v = Some e \<and> ev_local_record_status (ev_draft e) = ''succeeded'')))"

lemma settle_evidence_post:
  assumes v: "succeeded_only cleaned v"
  shows "lwp (settle_evidence env cfg h i) (\<lambda>r u. r = Inr () \<and> final env cfg i u) v"
proof (cases "p_store v = None \<or> p_manifest v = None \<or> \<not> p_worktree v \<or> \<not> p_quiescent v \<or> \<not> p_integrity v")
  case True
  have "final env cfg i v"
    using v True by (auto simp: final_def evidence_ok_def settled_defs)
  moreover have "settle_evidence env cfg h i s = (Inr (), s)" if "ps_locals s = v" for s :: "'a poll_state"
    using True that by (auto simp: settle_evidence_def wbind_def locals_def wret_def split: option.splits)
  ultimately show ?thesis by (auto simp: lwp_def)
next
  case False
  then obtain m order where m: "p_manifest v = Some m" "p_order v = Some order" "manifest_for order m"
    and st: "p_store v \<noteq> None" "p_worktree v" "p_quiescent v" "p_integrity v"
    using v by (auto simp: succeeded_only_def linked_def)
  have none: "p_evidence v = None" using v by (simp add: succeeded_only_def linked_def)
  have "lwp (wtry (record_evidence env cfg h order i m) (rebuild_evidence env cfg h order i m))
      (\<lambda>r u. r = Inr () \<and> final env cfg i u) v"
  proof (rule lwp_try, rule lwp_mono [OF record_evidence_post [OF m(2,1,3) none]], intro conjI allI impI)
    fix r u e
    assume u: "recorded v u \<and> (\<forall>e. p_evidence u = Some e \<longrightarrow> describes env cfg i v e \<and> ev_local_record_status (ev_draft e) = ''succeeded'')
       \<and> (r = Inr () \<longrightarrow> p_evidence u \<noteq> None)"
    have mu: "p_order u = Some order" "p_manifest u = Some m" "p_quiescent u" using u m st by (auto simp: recorded_def)
    show "lwp (rebuild_evidence env cfg h order i m e) (\<lambda>r u. r = Inr () \<and> final env cfg i u) u"
      by (rule lwp_mono [OF rebuild_evidence_post [OF mu(1,2) m(3)]]) (use mu in \<open>auto simp: final_def\<close>)
  next
    fix r u x
    assume u: "recorded v u \<and> (\<forall>e. p_evidence u = Some e \<longrightarrow> describes env cfg i v e \<and> ev_local_record_status (ev_draft e) = ''succeeded'')
       \<and> (r = Inr () \<longrightarrow> p_evidence u \<noteq> None)" and r: "r = Inr x"
    have "p_quiescent u" "p_terminal u = p_terminal v" using u st by (auto simp: recorded_def)
    moreover have "p_terminal v = RUN_SUCCEEDED \<longrightarrow> earned v \<and> cleaned v" using v st by (simp add: succeeded_only_def)
    ultimately show "final env cfg i u"
      using u r recorded_same [of v u env cfg i] by (auto simp: final_def evidence_ok_def)
  qed simp
  moreover have "settle_evidence env cfg h i s = wtry (record_evidence env cfg h order i m) (rebuild_evidence env cfg h order i m) s"
    if "ps_locals s = v" for s :: "'a poll_state"
    using that m st by (auto simp: settle_evidence_def wbind_def locals_def split: option.splits)
  ultimately show ?thesis by (simp add: lwp_def)
qed

lemma lwp_stop [lwp_rules]: "Q (Inr ()) v \<Longrightarrow> lwp stop_monitor Q v"
  unfolding stop_monitor_def by (auto intro!: lwp_bind lwp_locals lwp_with_worker)

lemma summarize_post:
  "succeeded_only cleaned v \<Longrightarrow> lwp (summarize env) (\<lambda>r u. succeeded_only cleaned u) v"
  unfolding summarize_def by (auto intro!: lwp_vcg simp: settled_defs)

lemma tail_post:
  assumes "succeeded_only artifacts_settled v"
  shows "lwp (wseq (clean_up h) (wseq (summarize env) (wseq (settle_evidence env cfg h i) (end_run i))))
    (\<lambda>r u. r = Inr () \<longrightarrow> final env cfg i u) v"
proof -
  have fin: "lwp (wseq (settle_evidence env cfg h i) (end_run i)) (\<lambda>r u. r = Inr () \<longrightarrow> final env cfg i u) u"
    if "succeeded_only cleaned u" for u
    by (rule lwp_seq, rule lwp_mono [OF settle_evidence_post [OF that]]) (auto intro!: lwp_end_run)
  have "lwp (wseq (summarize env) (wseq (settle_evidence env cfg h i) (end_run i))) (\<lambda>r u. r = Inr () \<longrightarrow> final env cfg i u) u"
    if "succeeded_only cleaned u" for u
    by (rule lwp_seq, rule lwp_mono [OF summarize_post [OF that]]) (auto intro: fin)
  then show ?thesis
    by (intro lwp_seq, intro lwp_mono [OF clean_up_post [OF assms]]) auto
qed

lemma settle_post:
  assumes "succeeded_only (\<lambda>_. True) v" "p_integrity v" "p_manifest v = Some m"
  shows "lwp (wseq (check_integrity h) (wseq (settle_locks h m) (collect_artifacts h)))
    (\<lambda>r u. r = Inr () \<and> succeeded_only artifacts_settled u) v"
proof -
  have art: "lwp (wseq (settle_locks h m) (collect_artifacts h)) (\<lambda>r u. r = Inr () \<and> succeeded_only artifacts_settled u) u"
    if "succeeded_only p_integrity u" "p_manifest u = Some m" for u
    by (rule lwp_seq, rule lwp_mono [OF settle_locks_post [OF that]]) (auto intro: collect_artifacts_post)
  show ?thesis
    by (rule lwp_seq, rule lwp_mono [OF check_integrity_post [OF assms(2,1)]]) (use assms(3) in \<open>auto intro: art\<close>)
qed

lemma finish_post:
  assumes "base v" "p_terminal v = RUN_SUCCEEDED \<longrightarrow> earned v"
  shows "lwp (finish env cfg h i) (\<lambda>r u. r = Inr () \<longrightarrow> final env cfg i u) v"
proof -
  have v: "succeeded_only (\<lambda>_. True) v" "p_integrity v"
    using assms by (auto simp: succeeded_only_def linked_def base_def)
  have keep: "succeeded_only artifacts_settled v" if "p_manifest v = None \<or> \<not> p_worktree v"
    using v that by (auto simp: succeeded_only_def earned_def)
  show ?thesis
  proof (cases "p_manifest v = None \<or> \<not> p_worktree v")
    case True
    then show ?thesis
      unfolding finish_def
      by (auto intro!: lwp_stop lwp_seq [where m = stop_monitor] lwp_bind [where m = locals] lwp_locals
          lwp_seq [where m = "wret ()"] lwp_ret tail_post keep simp: tail_post [OF keep] split: option.splits)
  next
    case False
    then obtain m where m: "p_manifest v = Some m" "p_worktree v" by auto
    have "lwp (wseq (wseq (check_integrity h) (wseq (settle_locks h m) (collect_artifacts h)))
        (wseq (clean_up h) (wseq (summarize env) (wseq (settle_evidence env cfg h i) (end_run i)))))
      (\<lambda>r u. r = Inr () \<longrightarrow> final env cfg i u) v"
      by (rule lwp_seq, rule lwp_mono [OF settle_post [OF v m(1)]]) (auto intro: tail_post)
    with m show ?thesis
      unfolding finish_def by (auto intro!: lwp_stop lwp_seq [where m = stop_monitor] lwp_bind [where m = locals] lwp_locals)
  qed
qed

text \<open>The local variables when the worker reports.\<close>

lemma process_post:
  "lwp (wseq (wtry (attempt env cfg h i wo) handle_error) (finish env cfg h i))
     (\<lambda>r u. r = Inr () \<longrightarrow> final env cfg i u) (initial_locals now)"
  by (rule lwp_seq, rule lwp_mono [OF attempted]) (auto intro: finish_post)

end
