(* ===== verification/Worker_Trace.thy ===== *)
theory Worker_Trace
  imports Worker_Outcome
begin

text \<open>
  What polls do to the worker object. The locales state what a relation between worker states must
  satisfy to hold across every step of a run, prove it once through the operations of a poll, and are
  interpreted by the two relations used: the log grows by acts of the run while the set of executed
  runs stays, and nothing is logged between two acts. From it, the calls of a poll (\<open>polled\<close>), and the
  invariant of a sequence of polls.
\<close>

section \<open>What happens to the worker\<close>

definition related :: "('g local_worker \<Rightarrow> 'g local_worker \<Rightarrow> bool) \<Rightarrow> ('g, 'a) wk \<Rightarrow> bool" where
  "related R m \<longleftrightarrow> (\<forall>s. R (ps_worker s) (ps_worker (snd (m s))))"

text \<open>A relation that every step of a run satisfies: it allows whatever the host and the other
  threads do, and the log to grow by the acts of the run.\<close>

locale run_relation =
  fixes R :: "'g local_worker \<Rightarrow> 'g local_worker \<Rightarrow> bool" and own :: "act \<Rightarrow> bool"
  assumes refl: "R w w"
    and trans: "R u v \<Longrightarrow> R v w \<Longrightarrow> R u w"
    and host: "R w (w\<lparr>lw_host := g\<rparr>)"
    and token: "R w (w\<lparr>lw_token := tok\<rparr>)"
    and monitor: "R w (w\<lparr>lw_monitor := mon\<rparr>)"
    and shut_down: "R w (w\<lparr>lw_shutdown := True\<rparr>)"
    and active: "R w (w\<lparr>lw_active_run := act\<rparr>)"
    and log: "own a \<Longrightarrow> R w (w\<lparr>lw_log := lw_log w @ [a]\<rparr>)"
begin

lemma r_ret: "related R (wret x)" and r_raise: "related R (wraise e)" and r_lift: "related R (wlift r)"
  by (simp_all add: related_def wret_def wraise_def wlift_def refl)

lemma r_locals: "related R locals" and r_asks: "related R (asks f)" and r_with_locals: "related R (with_locals g)"
  by (simp_all add: related_def locals_def asks_def with_locals_def refl)

lemma r_with_worker: "(\<And>w. R w (f w)) \<Longrightarrow> related R (with_worker f)"
  by (simp add: related_def with_worker_def)

lemma r_bind: "related R m \<Longrightarrow> (\<And>x. related R (f x)) \<Longrightarrow> related R (wbind m f)"
  unfolding related_def wbind_def by (auto split: prod.splits sum.splits) (metis snd_conv trans)+

lemma r_seq: "related R m \<Longrightarrow> related R n \<Longrightarrow> related R (wseq m n)"
  unfolding wseq_def by (rule r_bind)

lemma r_try: "related R m \<Longrightarrow> (\<And>e. related R (k e)) \<Longrightarrow> related R (wtry m k)"
  unfolding related_def wtry_def by (auto split: prod.splits sum.splits) (metis snd_conv trans)+

lemma r_query: "related R (query op)"
  by (auto simp: related_def query_def host split: prod.splits)

lemma r_sample: "related R (sample op)"
  unfolding sample_def by (rule r_query)

lemma r_call: "own a \<Longrightarrow> related R (call a op)"
  unfolding call_def by (intro r_bind r_with_worker log r_query)

lemma r_if: "related R m \<Longrightarrow> related R n \<Longrightarrow> related R (if b then m else n)"
  by simp

lemma r_option: "related R m \<Longrightarrow> (\<And>y. related R (n y)) \<Longrightarrow> related R (case x of None \<Rightarrow> m | Some y \<Rightarrow> n y)"
  by (cases x) auto

lemma r_prod: "(\<And>a b. related R (f a b)) \<Longrightarrow> related R (case x of (a, b) \<Rightarrow> f a b)"
  by (cases x) auto

lemma cancel_related: "R w (cancel reason w)"
  by (auto simp: cancel_def refl token split: option.splits)

lemma shutdown_related: "R w (request_shutdown w)"
  unfolding request_shutdown_def by (rule trans [OF shut_down cancel_related])

lemma lost_related: "R w (request_shutdown (cancel reason w))"
  by (rule trans [OF cancel_related shutdown_related])

lemma tick_run_related: "R w (snd (tick_run i t w))"
  by (simp add: tick_run_def refl cancel_related lost_related split: sum.splits)

lemma tick_related: "R w (snd (tick i d t w))"
  by (simp add: tick_def tick_run_related refl cancel_related lost_related split: sum.splits unit.splits)

lemma signal_related: "R w (apply_signal x w)"
proof (cases x)
  case (Tick t)
  have "R w (w'\<lparr>lw_monitor := m\<rparr>)" "R w w'" if "tick i d t w = (e, w')" for i d e w' m
    using tick_related [of w i d t] that trans [OF _ monitor] by auto
  with Tick show ?thesis by (auto simp: refl split: option.splits prod.splits)
qed (simp add: shutdown_related)

lemma signals_related: "R w (fold apply_signal xs w)"
  by (induction xs arbitrary: w) (auto simp: refl intro: trans signal_related)

lemmas r_rules = r_ret r_raise r_lift r_locals r_asks r_with_locals r_bind r_seq r_try r_query r_sample r_if r_option r_prod
  r_with_worker cancel_related shutdown_related refl

lemma r_meanwhile: "related R (meanwhile h)"
  unfolding meanwhile_def by (intro r_rules signals_related)

lemma r_reads: "related R (token_reason h)" "related R (shutting_down h)"
  unfolding token_reason_def shutting_down_def by (intro r_rules r_meanwhile)+

lemma r_start: "related R (start_monitor h i t)"
proof -
  have "R w (snd (tick i t x w))" for x w by (rule tick_related)
  then show ?thesis
    unfolding start_monitor_def related_def
    by (auto simp: sample_def query_def wbind_def wseq_def asks_def with_worker_def wraise_def
        split: prod.splits option.splits sum.splits)
      (metis host monitor snd_conv trans)+
qed

end

fun of_run :: "int \<Rightarrow> act \<Rightarrow> bool" where
  "of_run i A_Checkout = False"
| "of_run i (A_Complete j c) = False"
| "of_run i (A_CreateWorktree j) = (j = i)"
| "of_run i (A_RunStep j x) = (j = i)"
| "of_run i _ = True"

locale one_run = run_relation R own for R :: "'g local_worker \<Rightarrow> 'g local_worker \<Rightarrow> bool" and own :: "act \<Rightarrow> bool" +
  fixes i :: int
  assumes own: "of_run i a \<Longrightarrow> own a"
begin

lemma r_verify: "related R (verify_checkout h)"
  unfolding verify_checkout_def by (intro r_call own) simp

lemma r_hash_files: "related R (hash_files h ps)"
  by (induction ps) (auto intro!: r_rules r_call own)

lemma r_hash: "related R (hash_dependency_locks h m)"
  unfolding hash_dependency_locks_def by (intro r_rules r_verify r_hash_files)

lemma r_capture_all: "related R (capture_all h ds)"
  by (induction h ds rule: capture_all.induct) (auto intro!: r_rules r_call r_verify own)

lemma r_outcome: "related R (set_outcome reason)"
  unfolding set_outcome_def by (intro r_rules)

lemma r_consider: "related R (consider_reuse env h order i m environment store)"
proof -
  have "related R (look_up_reuse h i identity ih)" for identity ih
    unfolding look_up_reuse_def by (auto intro!: r_rules intro: lost_related)
  moreover have "related R (decide_reuse h order store)"
    unfolding decide_reuse_def require_exact_unavailable_def by (intro r_rules r_reads r_outcome)
  ultimately show ?thesis
    unfolding consider_reuse_def Let_def by (intro r_rules r_hash)
qed

lemma r_run_steps: "related R (run_steps h i m t steps)"
proof (induction steps)
  case (Cons step steps)
  have "related R (run_one h i m t step)"
    unfolding run_one_def by (intro r_rules r_reads r_call own) simp
  moreover have "related R (step_error h e)" for e
    unfolding step_error_def by (cases e) (auto intro!: r_rules r_reads r_outcome)
  moreover have "related R (record_result step r)" for r
    unfolding record_result_def by (intro r_rules)
  ultimately show ?case unfolding run_steps.simps by (intro r_rules r_reads Cons.IH)
qed (simp add: r_ret)

lemma r_attempt: "related R (attempt env cfg h i wo)"
proof -
  have "related R (perform env h order i m t environment store)" for order m t environment store
    unfolding perform_def by (intro r_rules r_reads r_outcome r_consider r_run_steps)
  then have "related R (execute env cfg h order i m t)" for order m t
    unfolding execute_def by (intro r_rules r_call r_verify own) simp_all
  moreover have "related R (validate_manifest cfg h mo remote order)" for mo remote order
    unfolding validate_manifest_def discover_and_validate_def by (intro r_rules)
  ultimately show ?thesis
    unfolding attempt_def Let_def by (intro r_rules r_reads r_outcome r_start token)
qed

lemma r_handle: "related R (handle_error e)"
  unfolding handle_error_def by (intro r_rules)

lemma r_settle: "related R (wseq (check_integrity h) (wseq (settle_locks h m) (collect_artifacts h)))"
  unfolding check_integrity_def settle_locks_def collect_artifacts_def
  by (intro r_rules r_verify r_hash r_capture_all)

lemma r_evidence: "related R (settle_evidence env cfg h i)"
  unfolding settle_evidence_def record_evidence_def rebuild_evidence_def ensure_environment_def ensure_identity_def Let_def
  by (intro r_rules r_call own) simp

lemma r_end_run: "related R (end_run i)"
  unfolding end_run_def using active refl by (intro r_with_worker) simp

lemma r_stop: "related R stop_monitor"
proof -
  have "R w (w\<lparr>lw_monitor := None, lw_token := None\<rparr>)" for w by (rule trans [OF monitor token])
  moreover from this have "R w (w\<lparr>lw_monitor := None, lw_token := None, lw_shutdown := True\<rparr>)" for w by (rule trans [OF _ shut_down])
  ultimately show ?thesis unfolding stop_monitor_def Let_def by (intro r_rules) simp
qed

lemma r_rest:
  "related R (wseq (clean_up h) (wseq (summarize env) (wseq (settle_evidence env cfg h i) (end_run i))))"
  unfolding clean_up_def summarize_def by (intro r_rules r_call r_evidence r_end_run own) simp

lemma r_finish: "related R (finish env cfg h i)"
  unfolding finish_def by (intro r_rules r_stop r_settle r_rest)

lemma r_body: "related R (wseq (wtry (attempt env cfg h i wo) handle_error) (finish env cfg h i))"
  by (intro r_rules r_attempt r_handle r_finish)

end

section \<open>The relation used\<close>

text \<open>The log grows by acts of the run, the set of executed runs stays, and a shutdown is not undone.\<close>

definition run_step_rel :: "int \<Rightarrow> 'g local_worker \<Rightarrow> 'g local_worker \<Rightarrow> bool" where
  "run_step_rel i w w' \<longleftrightarrow> (\<exists>as. lw_log w' = lw_log w @ as \<and> (\<forall>a \<in> set as. of_run i a))
     \<and> lw_executed w' = lw_executed w \<and> (lw_shutdown w \<longrightarrow> lw_shutdown w')"

interpretation run_rel: one_run "run_step_rel i" "of_run i" i for i
proof unfold_locales
  fix u v w :: "'g local_worker"
  assume uv: "run_step_rel i u v" and vw: "run_step_rel i v w"
  obtain as where as: "lw_log v = lw_log u @ as" "\<forall>a \<in> set as. of_run i a" using uv by (auto simp: run_step_rel_def)
  obtain bs where bs: "lw_log w = lw_log v @ bs" "\<forall>a \<in> set bs. of_run i a" using vw by (auto simp: run_step_rel_def)
  have "lw_log w = lw_log u @ (as @ bs)" "\<forall>a \<in> set (as @ bs). of_run i a" using as bs by auto
  then show "run_step_rel i u w" using uv vw unfolding run_step_rel_def by (intro conjI exI [of _ "as @ bs"]) auto
qed (auto simp: run_step_rel_def)

text \<open>Between two acts: nothing is logged.\<close>

definition idle_rel :: "'g local_worker \<Rightarrow> 'g local_worker \<Rightarrow> bool" where
  "idle_rel w w' \<longleftrightarrow> lw_log w' = lw_log w \<and> lw_executed w' = lw_executed w \<and> (lw_shutdown w \<longrightarrow> lw_shutdown w')"

interpretation idle: run_relation idle_rel "\<lambda>_. False"
  by unfold_locales (auto simp: idle_rel_def)

lemma idle_of: "related idle_rel m \<Longrightarrow> idle_rel (ps_worker s) (ps_worker (snd (m s)))"
  by (simp add: related_def)

section \<open>A poll\<close>

lemma shutting_down_result:
  "\<exists>s1. shutting_down h s = (Inr (lw_shutdown (ps_worker s1)), s1) \<and> ps_locals s1 = ps_locals s
     \<and> idle_rel (ps_worker s) (ps_worker s1)"
proof -
  let ?s1 = "snd (meanwhile h s)"
  have m: "fst (meanwhile h s) = Inr ()"
    by (auto simp: meanwhile_def sample_def query_def wbind_def with_worker_def split: prod.splits)
  then have "shutting_down h s = (Inr (lw_shutdown (ps_worker ?s1)), ?s1)"
    by (cases "meanwhile h s") (simp add: shutting_down_def wseq_def wbind_def asks_def)
  moreover have "ps_locals ?s1 = ps_locals s" using keeps_calls(3) by (auto simp: keeps_def)
  ultimately show ?thesis using idle_of [OF idle.r_meanwhile] by blast
qed

lemma call_result:
  "\<exists>r g. call a op s = (r, s\<lparr>ps_worker := (ps_worker s)\<lparr>lw_log := lw_log (ps_worker s) @ [a], lw_host := g\<rparr>\<rparr>)"
  by (auto simp: call_def wbind_def with_worker_def query_def split: prod.splits)

text \<open>The calls a poll makes, and what they leave.\<close>

inductive polled :: "worker_env \<Rightarrow> worker_config \<Rightarrow> 'g poll_state \<Rightarrow> act list \<Rightarrow> 'g poll_state \<Rightarrow> bool"
  for env cfg s where
  drained: "lw_shutdown (ps_worker s') \<Longrightarrow> ps_locals s' = ps_locals s \<Longrightarrow> lw_executed (ps_worker s') = lw_executed (ps_worker s)
    \<Longrightarrow> polled env cfg s [] s'"
| nothing: "\<not> lw_shutdown (ps_worker s) \<Longrightarrow> ps_locals s' = ps_locals s \<Longrightarrow> lw_executed (ps_worker s') = lw_executed (ps_worker s)
    \<Longrightarrow> polled env cfg s [A_Checkout] s'"
| refused: "\<not> lw_shutdown (ps_worker s) \<Longrightarrow> ps_locals s' = ps_locals s \<Longrightarrow> lw_executed (ps_worker s') = lw_executed (ps_worker s)
    \<Longrightarrow> polled env cfg s [A_Checkout, A_Complete i (rejection why)] s'"
| processed: "\<not> lw_shutdown (ps_worker s) \<Longrightarrow> i \<notin> set (lw_executed (ps_worker s))
    \<Longrightarrow> lw_executed (ps_worker s') = i # lw_executed (ps_worker s) \<Longrightarrow> \<forall>a \<in> set as. of_run i a
    \<Longrightarrow> done = [] \<or> done = [A_Complete i (completion_of (ps_locals s'))] \<and> final env cfg i (ps_locals s')
    \<Longrightarrow> p_quiescent (ps_locals s') \<or> lw_shutdown (ps_worker s')
    \<Longrightarrow> polled env cfg s (A_Checkout # as @ done) s'"

lemma wseq_assoc: "wseq (wseq a b) c = wseq a (wseq b c)"
  by (auto simp: wseq_def wbind_def fun_eq_iff split: prod.splits sum.splits)

definition finish_rest :: "worker_env \<Rightarrow> worker_config \<Rightarrow> 'g host \<Rightarrow> int \<Rightarrow> ('g, unit) wk" where
  "finish_rest env cfg h i = wbind locals (\<lambda>v.
      wseq (case p_manifest v of
              Some m \<Rightarrow> if p_worktree v
                        then wseq (check_integrity h) (wseq (settle_locks h m) (collect_artifacts h)) else wret ()
            | None \<Rightarrow> wret ())
       (wseq (clean_up h) (wseq (summarize env) (wseq (settle_evidence env cfg h i) (end_run i)))))"

lemma finish_split: "finish env cfg h i = wseq stop_monitor (finish_rest env cfg h i)"
  by (simp add: finish_def finish_rest_def)

text \<open>The finishing work does not touch the verdict on quiescence.\<close>

definition same_verdict :: "('g, 'a) wk \<Rightarrow> bool" where
  "same_verdict m \<longleftrightarrow> (\<forall>s. p_quiescent (ps_locals (snd (m s))) = p_quiescent (ps_locals s))"

lemma sv_keeps: "keeps m \<Longrightarrow> same_verdict m"
  by (simp add: keeps_def same_verdict_def)

lemma sv_bind: "same_verdict m \<Longrightarrow> (\<And>x. same_verdict (f x)) \<Longrightarrow> same_verdict (wbind m f)"
  unfolding same_verdict_def wbind_def by (auto split: prod.splits sum.splits) (metis snd_conv)+

lemma sv_seq: "same_verdict m \<Longrightarrow> same_verdict n \<Longrightarrow> same_verdict (wseq m n)"
  unfolding wseq_def by (rule sv_bind)

lemma sv_try: "same_verdict m \<Longrightarrow> (\<And>e. same_verdict (k e)) \<Longrightarrow> same_verdict (wtry m k)"
  unfolding same_verdict_def wtry_def by (auto split: prod.splits sum.splits) (metis snd_conv)+

lemma sv_with: "(\<And>v. p_quiescent (f v) = p_quiescent v) \<Longrightarrow> same_verdict (with_locals f)"
  by (simp add: same_verdict_def with_locals_def)

lemma sv_if: "same_verdict m \<Longrightarrow> same_verdict n \<Longrightarrow> same_verdict (if b then m else n)"
  and sv_option: "same_verdict m \<Longrightarrow> (\<And>y. same_verdict (k y)) \<Longrightarrow> same_verdict (case x of None \<Rightarrow> m | Some y \<Rightarrow> k y)"
  by (auto split: option.splits)

lemma sv_prod: "(\<And>a b. same_verdict (f a b)) \<Longrightarrow> same_verdict (case x of (a, b) \<Rightarrow> f a b)"
  by (cases x) auto

lemmas sv_rules = sv_bind sv_seq sv_try sv_if sv_option sv_prod sv_with

lemma finish_rest_verdict: "same_verdict (finish_rest env cfg h i)"
  unfolding finish_rest_def check_integrity_def settle_locks_def hash_dependency_locks_def collect_artifacts_def clean_up_def
    summarize_def settle_evidence_def record_evidence_def rebuild_evidence_def ensure_environment_def ensure_identity_def Let_def
  by (intro sv_rules; (intro sv_keeps keeps_rules | simp add: demote_def))

lemma finish_quarantines:
  "p_quiescent (ps_locals (snd (finish env cfg h i s))) \<or> lw_shutdown (ps_worker (snd (finish env cfg h i s)))"
proof -
  define s1 where "s1 = snd (stop_monitor s)"
  have stop: "stop_monitor s = (Inr (), s1)" "p_quiescent (ps_locals s1) \<or> lw_shutdown (ps_worker s1)"
    by (auto simp: s1_def stop_monitor_def wbind_def locals_def with_worker_def Let_def)
  then have "snd (finish env cfg h i s) = snd (finish_rest env cfg h i s1)"
    by (simp add: finish_split wseq_def wbind_def)
  moreover have "p_quiescent (ps_locals (snd (finish_rest env cfg h i s1))) = p_quiescent (ps_locals s1)"
    using finish_rest_verdict [of env cfg h i] by (simp add: same_verdict_def)
  moreover have "related (run_step_rel i) (finish_rest env cfg h i)"
    unfolding finish_rest_def by (intro run_rel.r_rules run_rel.r_settle run_rel.r_rest)
  ultimately show ?thesis using stop(2) by (auto simp: related_def run_step_rel_def)
qed

lemma report_result:
  obtains "report h i s = (Inr (), s)"
  | r s' where "report h i s = (r, s')" "ps_locals s' = ps_locals s" "lw_executed (ps_worker s') = lw_executed (ps_worker s)"
      "lw_shutdown (ps_worker s) \<longrightarrow> lw_shutdown (ps_worker s')"
      "lw_log (ps_worker s') = lw_log (ps_worker s) @ [A_Complete i (completion_of (ps_locals s))]"
proof (cases "p_skip (ps_locals s)")
  case True
  then show thesis using that(1) by (simp add: report_def wbind_def locals_def wret_def)
next
  case False
  let ?c = "completion_of (ps_locals s)"
  obtain r g where c: "call (A_Complete i ?c) (h_complete_run h i ?c) s
      = (r, s\<lparr>ps_worker := (ps_worker s)\<lparr>lw_log := lw_log (ps_worker s) @ [A_Complete i ?c], lw_host := g\<rparr>\<rparr>)"
    using call_result [of "A_Complete i ?c" "h_complete_run h i ?c" s] by auto
  have "lw_log (request_shutdown w) = lw_log w" "lw_executed (request_shutdown w) = lw_executed w" "lw_shutdown (request_shutdown w)" for w :: "'a local_worker"
    by (auto simp: request_shutdown_def cancel_def split: option.splits)
  moreover obtain r' s' where "report h i s = (r', s')" by fastforce
  ultimately show thesis
    using False c by (intro that(2) [of r' s']) (auto simp: report_def wbind_def locals_def wtry_def wret_def wraise_def with_worker_def split: sum.splits if_splits)
qed

lemma process_result:
  assumes s'_def: "s' = snd (process env cfg h i wo s)"
  shows "\<exists>as done. lw_log (ps_worker s') = lw_log (ps_worker s) @ as @ done \<and> (\<forall>a \<in> set as. of_run i a)
    \<and> lw_executed (ps_worker s') = lw_executed (ps_worker s)
    \<and> (done = [] \<or> done = [A_Complete i (completion_of (ps_locals s'))] \<and> final env cfg i (ps_locals s'))
    \<and> (p_quiescent (ps_locals s') \<or> lw_shutdown (ps_worker s'))"
proof -
  obtain now s0 where s0: "sample (h_now h) s = (Inr now, s0)" "idle_rel (ps_worker s) (ps_worker s0)"
    by (cases "h_now h (lw_host (ps_worker s))") (auto simp: sample_def query_def idle_rel_def)
  define t where "t = s0\<lparr>ps_locals := initial_locals now\<rparr>"
  let ?body = "wseq (wtry (attempt env cfg h i wo) handle_error) (finish env cfg h i)"
  obtain r1 s1 where b: "?body t = (r1, s1)" by fastforce
  have p: "process env cfg h i wo s = wseq ?body (report h i) t"
    by (simp add: process_def wseq_assoc wbind_def s0 t_def) (simp add: wseq_def wbind_def with_locals_def)
  have rel: "run_step_rel i (ps_worker t) (ps_worker s1)"
    using run_rel.r_body [of i env cfg h wo] b by (auto simp: related_def) (metis snd_conv)
  then obtain as where as: "lw_log (ps_worker s1) = lw_log (ps_worker s) @ as" "\<forall>a \<in> set as. of_run i a"
    "lw_executed (ps_worker s1) = lw_executed (ps_worker s)"
    using s0(2) by (auto simp: run_step_rel_def idle_rel_def t_def)
  have t: "ps_locals t = initial_locals now" by (simp add: t_def)
  have fin: "r1 = Inr () \<Longrightarrow> final env cfg i (ps_locals s1)"
    using lwpD [of ?body _ t, unfolded t, OF process_post] b by simp
  have q: "p_quiescent (ps_locals s1) \<or> lw_shutdown (ps_worker s1)"
  proof -
    obtain s2 where "wtry (attempt env cfg h i wo) handle_error t = (Inr (), s2)"
      using lwpD [of "wtry (attempt env cfg h i wo) handle_error" _ t, unfolded t, OF attempted]
      by (cases "wtry (attempt env cfg h i wo) handle_error t") auto
    then have "s1 = snd (finish env cfg h i s2)" using b by (cases "finish env cfg h i s2") (simp add: wseq_def wbind_def)
    then show ?thesis using finish_quarantines by metis
  qed
  show ?thesis
  proof (cases r1)
    case (Inl e)
    then have "s' = s1" using p b by (simp add: s'_def wseq_def wbind_def)
    with as q show ?thesis by auto
  next
    case (Inr x)
    then have s': "s' = snd (report h i s1)" using p b by (simp add: s'_def wseq_def wbind_def)
    show ?thesis
    proof (cases rule: report_result [of h i s1])
      case 1
      with as q s' show ?thesis by auto
    next
      case (2 r s2)
      with as q s' fin [OF Inr [simplified]] show ?thesis
        by (intro exI [of _ as] exI [of _ "[A_Complete i (completion_of (ps_locals s1))]"]) auto
    qed
  qed
qed

definition admitted :: "int \<Rightarrow> 'g poll_state \<Rightarrow> 'g poll_state" where
  "admitted i s = s\<lparr>ps_worker := (ps_worker s)\<lparr>lw_executed := i # lw_executed (ps_worker s), lw_active_run := Some i\<rparr>\<rparr>"

lemma begin_run_result:
  assumes "shutting_down h s = (Inr (lw_shutdown (ps_worker s')), s')"
  obtains why where "begin_run h i s = (Inr (Some why), s')"
  | "begin_run h i s = (Inr None, admitted i s')" "i \<notin> set (lw_executed (ps_worker s'))"
proof -
  note defs = begin_run_def wbind_def wret_def asks_def wseq_def with_worker_def admitted_def assms
  consider "lw_shutdown (ps_worker s')" | "\<not> lw_shutdown (ps_worker s')" "lw_active_run (ps_worker s') \<noteq> None"
    | "\<not> lw_shutdown (ps_worker s')" "lw_active_run (ps_worker s') = None" "i \<in> set (lw_executed (ps_worker s'))"
    | "\<not> lw_shutdown (ps_worker s')" "lw_active_run (ps_worker s') = None" "i \<notin> set (lw_executed (ps_worker s'))"
    by blast
  then show thesis
  proof cases
    case 1 then show ?thesis by (intro that(1)) (simp add: defs)
  next
    case 2 then show ?thesis by (intro that(1)) (simp add: defs)
  next
    case 3 then show ?thesis by (intro that(1)) (simp add: defs)
  next
    case 4 then show ?thesis by (intro that(2)) (simp_all add: defs)
  qed
qed

lemma poll_polled:
  "\<exists>as. polled env cfg s as (snd (poll_once env cfg h s))
     \<and> lw_log (ps_worker (snd (poll_once env cfg h s))) = lw_log (ps_worker s) @ as"
proof -
  obtain s1 where s1: "shutting_down h s = (Inr (lw_shutdown (ps_worker s1)), s1)" "ps_locals s1 = ps_locals s"
    "idle_rel (ps_worker s) (ps_worker s1)" using shutting_down_result by blast
  show ?thesis
  proof (cases "lw_shutdown (ps_worker s1)")
    case True
    then have "snd (poll_once env cfg h s) = s1" using s1 by (simp add: poll_once_def wbind_def wret_def)
    with True s1 show ?thesis by (auto intro!: polled.drained simp: idle_rel_def)
  next
    case False
    then have up: "\<not> lw_shutdown (ps_worker s)" using s1(3) by (auto simp: idle_rel_def)
    obtain r g where c: "call A_Checkout (h_checkout h) s1
        = (r, s1\<lparr>ps_worker := (ps_worker s1)\<lparr>lw_log := lw_log (ps_worker s1) @ [A_Checkout], lw_host := g\<rparr>\<rparr>)"
      using call_result [of A_Checkout "h_checkout h" s1] by auto
    define s2 where "s2 = s1\<lparr>ps_worker := (ps_worker s1)\<lparr>lw_log := lw_log (ps_worker s1) @ [A_Checkout], lw_host := g\<rparr>\<rparr>"
    have s2: "lw_log (ps_worker s2) = lw_log (ps_worker s) @ [A_Checkout]" "ps_locals s2 = ps_locals s"
      "lw_executed (ps_worker s2) = lw_executed (ps_worker s)"
      using s1 by (auto simp: s2_def idle_rel_def)
    have sd: "lw_log (request_shutdown w) = lw_log w" "lw_executed (request_shutdown w) = lw_executed w" for w :: "'a local_worker"
      by (auto simp: request_shutdown_def cancel_def split: option.splits)
    consider e where "r = Inl e" | "r = Inr None" | i wo where "r = Inr (Some (i, wo))"
      by (cases r) (auto, metis option.exhaust surj_pair)
    then show ?thesis
    proof cases
      case 1
      have "polled env cfg s [A_Checkout] (snd (poll_once env cfg h s))
          \<and> lw_log (ps_worker (snd (poll_once env cfg h s))) = lw_log (ps_worker s) @ [A_Checkout]"
        using s1(1) False c [folded s2_def] 1 s2 up sd
        by (auto simp: poll_once_def wbind_def wtry_def wseq_def with_worker_def wraise_def intro!: polled.nothing)
      then show ?thesis by blast
    next
      case 2
      then have "snd (poll_once env cfg h s) = s2"
        using s1(1) False c [folded s2_def] by (simp add: poll_once_def wbind_def wtry_def wret_def)
      with s2 up show ?thesis by (auto intro!: polled.nothing)
    next
      case 3
      have p: "poll_once env cfg h s = wbind (begin_run h i) (\<lambda>refused.
               case refused of
                 Some reason \<Rightarrow> wseq (complete_admission_rejection h i reason) (wret True)
               | None \<Rightarrow> wseq (process env cfg h i wo) (wret True)) s2"
        using s1(1) False c [folded s2_def] 3 by (simp add: poll_once_def wbind_def wtry_def)
      obtain s3 where s3: "shutting_down h s2 = (Inr (lw_shutdown (ps_worker s3)), s3)" "ps_locals s3 = ps_locals s2"
        "idle_rel (ps_worker s2) (ps_worker s3)" using shutting_down_result by blast
      have s3': "lw_log (ps_worker s3) = lw_log (ps_worker s) @ [A_Checkout]" "ps_locals s3 = ps_locals s"
        "lw_executed (ps_worker s3) = lw_executed (ps_worker s)"
        using s3 s2 by (auto simp: idle_rel_def)
      let ?adm = "admitted i s3"
      show ?thesis
      proof (cases rule: begin_run_result [OF s3(1), of i])
        case (1 why)
        obtain r g where "call (A_Complete i (rejection why)) (h_complete_run h i (rejection why)) s3
            = (r, s3\<lparr>ps_worker := (ps_worker s3)\<lparr>lw_log := lw_log (ps_worker s3) @ [A_Complete i (rejection why)], lw_host := g\<rparr>\<rparr>)"
          using call_result [of "A_Complete i (rejection why)" "h_complete_run h i (rejection why)" s3] by auto
        then have "polled env cfg s [A_Checkout, A_Complete i (rejection why)] (snd (poll_once env cfg h s))
            \<and> lw_log (ps_worker (snd (poll_once env cfg h s))) = lw_log (ps_worker s) @ [A_Checkout, A_Complete i (rejection why)]"
          unfolding p using 1 s3' up
          by (auto simp: wbind_def wseq_def complete_admission_rejection_def wtry_def wret_def wraise_def
              split: sum.splits intro!: polled.refused)
        then show ?thesis by blast
      next
        case 2
        have snd: "snd (poll_once env cfg h s) = snd (process env cfg h i wo ?adm)"
          unfolding p using 2(1) by (cases "process env cfg h i wo ?adm") (auto simp: wbind_def wseq_def wret_def split: sum.splits)
        obtain as "end" where q: "lw_log (ps_worker (snd (process env cfg h i wo ?adm))) = lw_log (ps_worker ?adm) @ as @ end"
          "\<forall>a \<in> set as. of_run i a"
          "lw_executed (ps_worker (snd (process env cfg h i wo ?adm))) = lw_executed (ps_worker ?adm)"
          "end = [] \<or> end = [A_Complete i (completion_of (ps_locals (snd (process env cfg h i wo ?adm))))]
             \<and> final env cfg i (ps_locals (snd (process env cfg h i wo ?adm)))"
          "p_quiescent (ps_locals (snd (process env cfg h i wo ?adm))) \<or> lw_shutdown (ps_worker (snd (process env cfg h i wo ?adm)))"
          using process_result [OF HOL.refl, of env cfg h i wo ?adm] by blast
        have "polled env cfg s (A_Checkout # as @ end) (snd (process env cfg h i wo ?adm))"
          using up 2(2) q s3' by (intro polled.processed [where i = i]) (auto simp: admitted_def)
        moreover have "lw_log (ps_worker (snd (process env cfg h i wo ?adm))) = lw_log (ps_worker s) @ A_Checkout # as @ end"
          using q(1) s3' by (simp add: admitted_def)
        ultimately show ?thesis unfolding snd by blast
      qed
    qed
  qed
qed

section \<open>Many polls\<close>

fun touches :: "int \<Rightarrow> act \<Rightarrow> bool" where
  "touches r (A_CreateWorktree i) = (i = r)"
| "touches r (A_RunStep i x) = (i = r)"
| "touches r _ = False"

fun is_completion :: "act \<Rightarrow> bool" where
  "is_completion (A_Complete i c) = True"
| "is_completion _ = False"

text \<open>The runs whose source was touched are executed, and an unproven quiescence shuts the worker down.\<close>

definition worker_inv :: "'g poll_state \<Rightarrow> bool" where
  "worker_inv s \<longleftrightarrow> (\<forall>a \<in> set (lw_log (ps_worker s)). \<forall>r. touches r a \<longrightarrow> r \<in> set (lw_executed (ps_worker s)))
     \<and> (p_quiescent (ps_locals s) \<or> lw_shutdown (ps_worker s))"

lemma of_run_touches: "of_run i a \<Longrightarrow> touches r a \<Longrightarrow> r = i"
  by (cases a) auto

lemma of_run_completion: "of_run i a \<Longrightarrow> \<not> is_completion a"
  by (cases a) auto

lemma polled_facts:
  assumes "polled env cfg s as s'" "worker_inv s" "lw_log (ps_worker s') = lw_log (ps_worker s) @ as"
  shows "worker_inv s'"
    and "\<forall>a \<in> set as. \<forall>r. touches r a \<longrightarrow> (\<forall>b \<in> set (lw_log (ps_worker s)). \<not> touches r b)"
    and "length (filter is_completion as) \<le> 1"
    and "lw_shutdown (ps_worker s) \<Longrightarrow> as = [] \<and> lw_shutdown (ps_worker s')"
proof -
  have proc: "filter is_completion as = []" if "\<forall>a \<in> set as. of_run i a" for as i
    using that by (auto simp: filter_empty_conv of_run_completion)
  show "worker_inv s'" using assms
    by (cases rule: polled.cases) (auto simp: worker_inv_def dest: of_run_touches)
  show "\<forall>a \<in> set as. \<forall>r. touches r a \<longrightarrow> (\<forall>b \<in> set (lw_log (ps_worker s)). \<not> touches r b)" using assms
    by (cases rule: polled.cases) (auto simp: worker_inv_def dest: of_run_touches)
  show "length (filter is_completion as) \<le> 1" using assms
    by (cases rule: polled.cases) (auto simp: proc)
  show "as = [] \<and> lw_shutdown (ps_worker s')" if "lw_shutdown (ps_worker s)"
    using assms(1) that by (cases rule: polled.cases) auto
qed

lemma worker_inv_many: "worker_inv s \<Longrightarrow> worker_inv (poll_many env cfg h n s)"
proof (induction n arbitrary: s)
  case (Suc n)
  obtain as where "polled env cfg s as (snd (poll_once env cfg h s))"
    "lw_log (ps_worker (snd (poll_once env cfg h s))) = lw_log (ps_worker s) @ as" using poll_polled by blast
  with Suc polled_facts(1) show ?case by fastforce
qed simp

lemma drained_many:
  "worker_inv s \<Longrightarrow> lw_shutdown (ps_worker s) \<Longrightarrow> lw_log (ps_worker (poll_many env cfg h n s)) = lw_log (ps_worker s)"
proof (induction n arbitrary: s)
  case (Suc n)
  obtain as where as: "polled env cfg s as (snd (poll_once env cfg h s))"
    "lw_log (ps_worker (snd (poll_once env cfg h s))) = lw_log (ps_worker s) @ as" using poll_polled by blast
  then have "as = []" "lw_shutdown (ps_worker (snd (poll_once env cfg h s)))" "worker_inv (snd (poll_once env cfg h s))"
    using polled_facts [OF as(1) Suc.prems(1) as(2)] Suc.prems(2) by auto
  with Suc.IH as(2) show ?case by simp
qed simp

end
