(* ===== verification/Worker_Samples.thy ===== *)
theory Worker_Samples
  imports Worker_Trace Execution_Samples
begin

text \<open>
  A sample worker: a host without state that offers one run of a small trusted manifest, and the
  outcome of a poll with it, once with a passing step and once with an optional step that leaves its
  process tree behind. The evaluation rules unfold the operations of the worker one step at a time.
\<close>

section \<open>A sample worker\<close>

definition smoke_hash :: string where
  "smoke_hash = replicate 64 (CHR ''a'')"

definition local_env :: worker_env where
  "local_env =
     \<lparr>wv_service = sample_env\<lparr>env_identity_hash := (\<lambda>_. smoke_hash)\<rparr>, wv_round = (\<lambda>x. x), wv_seconds = (\<lambda>_. ''1.0''),
      wv_contract_hash = (\<lambda>_. Inr ''c'')\<rparr>"

definition local_config :: worker_config where
  "local_config =
     \<lparr>wf_worker_id = ''alpha'', wf_network_policy_capability = ''disabled'', wf_execution_timeout = seconds 600,
      wf_maximum_step_timeout = seconds 300, wf_output_summary_limit = 4000, wf_evidence_retention_days = 7,
      wf_limits = \<lparr>el_maximum_artifact_count = 4, el_maximum_artifact_bytes = 100, el_maximum_total_bytes = 200\<rparr>\<rparr>"

definition local_step :: "string \<Rightarrow> bool \<Rightarrow> trusted_step" where
  "local_step i required =
     \<lparr>ts_id = i, ts_title = i, ts_required = required, ts_timeout_seconds = 30, ts_output_summary_limit = 100, ts_artifacts = []\<rparr>"

definition smoke_manifest :: "trusted_step list \<Rightarrow> local_manifest" where
  "smoke_manifest steps =
     \<lparr>tm_name = ''smoke'', tm_version = ''1'', tm_schema_version = 1, tm_digest = ''d1'', tm_description = ''d'',
      tm_registry_source = ''registry'', tm_required_capabilities = [(''python'', JStr ''3.12'')],
      tm_fixed_step_metadata = JList [], tm_environment_policy = [], tm_network_policy = NET_DISABLED,
      tm_repository_write_policy = READ_ONLY, tm_timeout_seconds = 60, tm_artifact_declarations = JList [],
      tm_allowed_parameters = [], tm_dependency_lock_paths = [],
      lm_execution_steps = steps, lm_result_contract = None\<rparr>"

definition smoke_remote :: safe_manifest where
  "smoke_remote =
     \<lparr>sm_name = ''smoke'', sm_version = ''1'', sm_digest = ''d1'', sm_timeout_seconds = 60, sm_schema_version = 1,
      sm_description = ''d'', sm_trusted_registry_source = ''registry'', sm_network_policy = ''disabled'',
      sm_repository_write_policy = ''read_only'', sm_required_capabilities = [(''python'', JStr ''3.12'')],
      sm_fixed_step_metadata = [], sm_environment_policy = [], sm_artifact_declarations = []\<rparr>"

definition smoke_order :: assigned_order where
  "smoke_order =
     \<lparr>ao_id = 1, ao_repository_full_name = ''o/r'', ao_commit_sha = replicate 40 (CHR ''a''), ao_manifest_name = ''smoke'',
      ao_manifest_version = ''1'', ao_manifest_digest = ''d1'', ao_manifest_parameters = [], ao_required_capabilities = [],
      ao_timeout_seconds = 60, ao_network_policy = ''disabled'', ao_reuse_policy = ''never'', ao_execution_policy_hash = ''p''\<rparr>"

definition smoke_result :: "trusted_step \<Rightarrow> run_status \<Rightarrow> string option \<Rightarrow> step_result" where
  "smoke_result step status why =
     \<lparr>sr_step_id = ts_id step, sr_title = ts_title step, sr_status = status, sr_exit_code = Some 0, sr_duration_seconds = ''1.0'',
      sr_stdout_summary = ''ok'', sr_stderr_summary = [], sr_summaries_truncated = False, sr_stdout_log = ''o'', sr_stderr_log = ''e'',
      sr_environment_summary = [], sr_started_at = 0, sr_finished_at = 0, sr_parsed_result = None, sr_terminal_reason = why\<rparr>"

definition smoke_environment :: environment_identity where
  "smoke_environment =
     \<lparr>ei_operating_system = ''linux'', ei_architecture = ''x86'', ei_python_version = ''3.12'', ei_tools = [], ei_fingerprint = ''e''\<rparr>"

definition quiet_tick :: tick_in where
  "quiet_tick = \<lparr>ti_now = 0, ti_worker = Inr (), ti_run = Inr (1, ''running'')\<rparr>"

text \<open>A host without state that always offers run 1 of order 1.\<close>

definition smoke_host :: "trusted_step list \<Rightarrow> (trusted_step \<Rightarrow> step_result) \<Rightarrow> unit host" where
  "smoke_host steps results =
     \<lparr>h_signals = (\<lambda>g. (g, [])), h_checkout = (\<lambda>g. (g, Inr (Some (1, 1)))), h_get_work_order = (\<lambda>i g. (g, Inr smoke_order)),
      h_trusted_manifest = (\<lambda>n v. Some (smoke_manifest steps)), h_get_manifest = (\<lambda>n v i g. (g, Inr smoke_remote)),
      h_capabilities = (\<lambda>g. (g, Inr (wr_caps (sample_worker ''alpha'')))), h_monotonic = (\<lambda>g. (g, 0)), h_now = (\<lambda>g. (g, 0)),
      h_first_tick = (\<lambda>g. (g, quiet_tick)),
      h_environment = (\<lambda>g. (g, Inr smoke_environment)),
      h_create_store = (\<lambda>i t d l g. (g, Inr \<lparr>st_limits = l, st_retention_expires_at = seconds 60\<rparr>)),
      h_create_worktree = (\<lambda>order i g. (g, Inr ())), h_verify_checkout = (\<lambda>g. (g, Inr ())),
      h_hash_file = (\<lambda>p g. (g, Inr ''h'')), h_resolve_reuse = (\<lambda>i x ih g. (g, Inr \<lparr>lk_candidate = None, lk_reason = ''none''\<rparr>)),
      h_verify_reuse = (\<lambda>c t l g. (g, Inr (False, ''no''))),
      h_run_step = (\<lambda>step t ks c b r g. (g, Inr (results step))),
      h_capture_artifact = (\<lambda>a g. (g, Inr ())), h_finalize_artifacts = (\<lambda>ds g. (g, Inr [])),
      h_cleanup = (\<lambda>g. (g, Inr ())), h_write_result = (\<lambda>e s i ih g. (g, Inr ())), h_complete_run = (\<lambda>i c g. (g, Inr ()))\<rparr>"

definition new_worker :: "'g \<Rightarrow> 'g poll_state" where
  "new_worker g =
     \<lparr>ps_worker = \<lparr>lw_host = g, lw_shutdown = False, lw_executed = [], lw_active_run = None, lw_token = None,
        lw_monitor = None, lw_log = []\<rparr>,
      ps_locals = initial_locals 0\<rparr>"

definition passing :: "unit host" where
  "passing = smoke_host [local_step ''test'' True] (\<lambda>s. smoke_result s RUN_SUCCEEDED None)"

definition lingering :: "unit host" where
  "lingering = smoke_host [local_step ''lint'' False, local_step ''test'' True]
     (\<lambda>s. if ts_required s then smoke_result s RUN_SUCCEEDED None
          else smoke_result s RUN_FAILED (Some ''descendant_cleanup_failed''))"

section \<open>Running it\<close>

text \<open>Evaluation rules that look at a continuation only when its argument is a value.\<close>

definition feed :: "(exc + 'a) \<times> 'g poll_state \<Rightarrow> ('a \<Rightarrow> ('g, 'b) wk) \<Rightarrow> (exc + 'b) \<times> 'g poll_state" where
  "feed r f = (case r of (Inl e, s) \<Rightarrow> (Inl e, s) | (Inr x, s) \<Rightarrow> f x s)"

definition rescue :: "(exc + 'a) \<times> 'g poll_state \<Rightarrow> (exc \<Rightarrow> ('g, 'a) wk) \<Rightarrow> (exc + 'a) \<times> 'g poll_state" where
  "rescue r f = (case r of (Inl e, s) \<Rightarrow> f e s | (Inr x, s) \<Rightarrow> (Inr x, s))"

lemma feed_cong: "r = r' \<Longrightarrow> feed r f = feed r' f" by simp
lemma rescue_cong: "r = r' \<Longrightarrow> rescue r f = rescue r' f" by simp

lemma lazy_cong: "wbind m f s = wbind m f s" "wseq m n s = wseq m n s" "wtry m k s = wtry m k s"
  "with_locals g s = with_locals g s" "with_worker v s = with_worker v s"
  by simp_all

lemma step_bind: "wbind m f s = feed (m s) f" by (simp add: wbind_def feed_def)
lemma step_seq: "wseq m n s = feed (m s) (\<lambda>_. n)" by (simp add: wseq_def wbind_def feed_def)
lemma step_try: "wtry m k s = rescue (m s) k" by (simp add: wtry_def rescue_def)
lemma step_values: "feed (Inl e, s) f = (Inl e, s)" "feed (Inr x, s) f = f x s"
  "rescue (Inl e, s) k = k e s" "rescue (Inr x, s) k = (Inr x, s)" by (simp_all add: feed_def rescue_def)

lemmas worker_eval = step_bind step_seq step_try step_values query_def asks_def locals_def wret_def wraise_def wlift_def
  with_locals_def with_worker_def hash_files.simps [THEN fun_cong] run_steps.simps [THEN fun_cong] capture_all.simps [THEN fun_cong]
  cancel_def request_shutdown_def step_result_contract_def adjust_result_def
  sample_def [THEN fun_cong] call_def [THEN fun_cong] meanwhile_def [THEN fun_cong] token_reason_def [THEN fun_cong]
  shutting_down_def [THEN fun_cong] set_outcome_def [THEN fun_cong] begin_run_def [THEN fun_cong] end_run_def [THEN fun_cong]
  complete_admission_rejection_def [THEN fun_cong] discover_and_validate_def [THEN fun_cong] validate_manifest_def [THEN fun_cong]
  verify_checkout_def [THEN fun_cong] consider_reuse_def [THEN fun_cong] run_one_def [THEN fun_cong] step_error_def [THEN fun_cong]
  record_result_def [THEN fun_cong] perform_def [THEN fun_cong] execute_def [THEN fun_cong] start_monitor_def [THEN fun_cong]
  attempt_def [THEN fun_cong] handle_error_def [THEN fun_cong] stop_monitor_def [THEN fun_cong] check_integrity_def [THEN fun_cong]
  settle_locks_def [THEN fun_cong] declarations_def collect_artifacts_def [THEN fun_cong] clean_up_def [THEN fun_cong]
  summarize_def [THEN fun_cong] ensure_environment_def [THEN fun_cong] ensure_identity_def [THEN fun_cong]
  record_evidence_def [THEN fun_cong] settle_evidence_def [THEN fun_cong] finish_def [THEN fun_cong] report_def [THEN fun_cong]
  process_def [THEN fun_cong] poll_once_def [THEN fun_cong] initial_locals_def evidence_of_def status_of_report_def skipped_def

lemma smoke_host_sel:
  "h_signals (smoke_host steps results) = (\<lambda>g. (g, []))"
  "h_checkout (smoke_host steps results) = (\<lambda>g. (g, Inr (Some (1, 1))))"
  "h_get_work_order (smoke_host steps results) = (\<lambda>i g. (g, Inr smoke_order))"
  "h_trusted_manifest (smoke_host steps results) = (\<lambda>n v. Some (smoke_manifest steps))"
  "h_get_manifest (smoke_host steps results) = (\<lambda>n v i g. (g, Inr smoke_remote))"
  "h_capabilities (smoke_host steps results) = (\<lambda>g. (g, Inr (wr_caps (sample_worker ''alpha''))))"
  "h_monotonic (smoke_host steps results) = (\<lambda>g. (g, 0))"
  "h_now (smoke_host steps results) = (\<lambda>g. (g, 0))"
  "h_first_tick (smoke_host steps results) = (\<lambda>g. (g, quiet_tick))"
  "h_environment (smoke_host steps results) = (\<lambda>g. (g, Inr smoke_environment))"
  "h_create_store (smoke_host steps results) = (\<lambda>i t d l g. (g, Inr \<lparr>st_limits = l, st_retention_expires_at = seconds 60\<rparr>))"
  "h_create_worktree (smoke_host steps results) = (\<lambda>order i g. (g, Inr ()))"
  "h_verify_checkout (smoke_host steps results) = (\<lambda>g. (g, Inr ()))"
  "h_hash_file (smoke_host steps results) = (\<lambda>p g. (g, Inr ''h''))"
  "h_resolve_reuse (smoke_host steps results) = (\<lambda>i x ih g. (g, Inr \<lparr>lk_candidate = None, lk_reason = ''none''\<rparr>))"
  "h_verify_reuse (smoke_host steps results) = (\<lambda>c t l g. (g, Inr (False, ''no'')))"
  "h_run_step (smoke_host steps results) = (\<lambda>step t ks c b r g. (g, Inr (results step)))"
  "h_capture_artifact (smoke_host steps results) = (\<lambda>a g. (g, Inr ()))"
  "h_finalize_artifacts (smoke_host steps results) = (\<lambda>ds g. (g, Inr []))"
  "h_cleanup (smoke_host steps results) = (\<lambda>g. (g, Inr ()))"
  "h_write_result (smoke_host steps results) = (\<lambda>e s i ih g. (g, Inr ()))"
  "h_complete_run (smoke_host steps results) = (\<lambda>i c g. (g, Inr ()))"
  by (simp_all add: smoke_host_def)

lemma smoke_sel:
  "tm_required_capabilities (smoke_manifest steps) = [(''python'', JStr ''3.12'')]"
  "tm_timeout_seconds (smoke_manifest steps) = 60"
  "tm_dependency_lock_paths (smoke_manifest steps) = []"
  "lm_execution_steps (smoke_manifest steps) = steps"
  "lm_result_contract (smoke_manifest steps) = None"
  "ao_manifest_name smoke_order = ''smoke''"
  "ao_manifest_version smoke_order = ''1''"
  "ao_required_capabilities smoke_order = []"
  "ao_timeout_seconds smoke_order = 60"
  "ao_reuse_policy smoke_order = ''never''"
  "ts_id (local_step i required) = i"
  "ts_required (local_step i required) = required"
  "ts_artifacts (local_step i required) = []"
  "sr_status (smoke_result step status why) = status"
  "sr_parsed_result (smoke_result step status why) = None"
  "sr_terminal_reason (smoke_result step status why) = why"
  "wf_execution_timeout local_config = seconds 600"
  "ti_now quiet_tick = 0"
  "ti_worker quiet_tick = Inr ()"
  "ti_run quiet_tick = Inr (1, ''running'')"
  by (simp_all add: smoke_manifest_def smoke_order_def local_step_def smoke_result_def local_config_def quiet_tick_def)

lemma smoke_checks:
  assumes "steps = [local_step ''test'' True] \<or> steps = [local_step ''lint'' False, local_step ''test'' True]"
  shows "check_manifest local_config (Some (smoke_manifest steps)) smoke_remote smoke_order = Inr (smoke_manifest steps)"
    "profile_evidence_policy (smoke_manifest steps) local_config = Inr (7, wf_limits local_config)"
  using assms by (elim disjE; hypsubst; code_simp)+


lemma smoke_capabilities:
  "validate_capabilities [(''python'', JStr ''3.12'')] (wr_caps (sample_worker ''alpha'')) = Inr ()"
  by code_simp

lemma quiet: "0 < due \<Longrightarrow> tick 1 due quiet_tick w = (None, w)"
  by (simp add: tick_def tick_run_def quiet_tick_def SERVER_TERMINAL_STATUSES_def cong del: unit.case_cong_weak)

lemmas smoke_eval = quiet validate_capabilities.simps(1) worker_eval smoke_checks smoke_capabilities smoke_sel smoke_host_sel seconds_def new_worker_def
lemmas smoke_cong = lazy_cong feed_cong rescue_cong

definition test_results :: "step_result list" where
  "test_results = [smoke_result (local_step ''test'' True) RUN_SUCCEEDED None]"

definition lint_results :: "step_result list" where
  "lint_results = smoke_result (local_step ''lint'' False) RUN_FAILED (Some ''descendant_cleanup_failed'') # test_results"

lemma test_fits: "fits (full_summary local_env smoke_order test_results)"
  by code_simp

lemma lint_fits: "fits (full_summary local_env smoke_order lint_results)"
  by code_simp

lemma smoke_summary:
  "results = test_results \<or> results = lint_results \<Longrightarrow>
     build_summary local_env smoke_order results = Inr (full_summary local_env smoke_order results)"
  using test_fits lint_fits by (auto simp: build_summary_def)

lemma smoke_records:
  obtains i p e where "build_reuse_identity local_env smoke_order (smoke_manifest [local_step ''test'' True]) smoke_environment [] = Inr i"
    "env_identity_hash (wv_service local_env) i = smoke_hash"
    "build_provenance ''fresh'' ''reuse_policy_never'' smoke_hash None = Inr p"
    "build_evidence local_env local_config smoke_order 1 (smoke_manifest [local_step ''test'' True]) 0 0
       \<lparr>rs_terminal = RUN_SUCCEEDED, rs_reason = None, rs_lock_status = ''not_declared'', rs_artifact_status = ''succeeded'',
        rs_cleanup = ''succeeded''\<rparr> test_results [] [] ''succeeded'' smoke_environment p = Inr e"
proof -
  let ?m = "smoke_manifest [local_step ''test'' True]"
  have "case build_reuse_identity local_env smoke_order ?m smoke_environment [] of Inl _ \<Rightarrow> False | Inr _ \<Rightarrow> True" by code_simp
  then obtain i where i: "build_reuse_identity local_env smoke_order ?m smoke_environment [] = Inr i"
    by (auto split: sum.splits)
  have "case build_provenance ''fresh'' ''reuse_policy_never'' smoke_hash None of Inl _ \<Rightarrow> False
      | Inr p \<Rightarrow> (case build_evidence local_env local_config smoke_order 1 ?m 0 0
           \<lparr>rs_terminal = RUN_SUCCEEDED, rs_reason = None, rs_lock_status = ''not_declared'', rs_artifact_status = ''succeeded'',
            rs_cleanup = ''succeeded''\<rparr> test_results [] [] ''succeeded'' smoke_environment p of Inl _ \<Rightarrow> False | Inr _ \<Rightarrow> True)" by code_simp
  with i show thesis using that by (auto simp: local_env_def split: sum.splits)
qed

lemma passing_poll:
  obtains c where "lw_log (ps_worker (snd (poll_once local_env local_config passing (new_worker ()))))
      = [A_Checkout, A_CreateWorktree 1, A_Verify, A_RunStep 1 ''test'', A_Verify, A_Verify, A_Cleanup, A_Write, A_Complete 1 c]"
    "xc_status c = RUN_SUCCEEDED"
    "p_decision (ps_locals (snd (poll_once local_env local_config passing (new_worker ())))) = ''fresh''"
    "p_order (ps_locals (snd (poll_once local_env local_config passing (new_worker ())))) = Some smoke_order"
proof -
  obtain i p e where r: "build_reuse_identity local_env smoke_order (smoke_manifest [local_step ''test'' True]) smoke_environment [] = Inr i"
    "env_identity_hash (wv_service local_env) i = smoke_hash"
    "build_provenance ''fresh'' ''reuse_policy_never'' smoke_hash None = Inr p"
    "build_evidence local_env local_config smoke_order 1 (smoke_manifest [local_step ''test'' True]) 0 0
       \<lparr>rs_terminal = RUN_SUCCEEDED, rs_reason = None, rs_lock_status = ''not_declared'', rs_artifact_status = ''succeeded'',
        rs_cleanup = ''succeeded''\<rparr> test_results [] [] ''succeeded'' smoke_environment p = Inr e"
    by (rule smoke_records)
  note run = smoke_eval passing_def smoke_summary [of test_results, unfolded test_results_def] r [unfolded test_results_def] completion_of_def
  show thesis
    by (rule that, simp_all cong: smoke_cong add: run del: validate_capabilities.simps(2), simp_all)
qed

lemma lingering_poll:
  obtains c where "lw_log (ps_worker (snd (poll_once local_env local_config lingering (new_worker ()))))
      = [A_Checkout, A_CreateWorktree 1, A_Verify, A_RunStep 1 ''lint'', A_RunStep 1 ''test'', A_Complete 1 c]"
    "xc_status c = RUN_SUCCEEDED" "xc_evidence c = None" "xc_cleanup_status c = Some ''skipped:source_quiescence_failed''"
proof -
  note run = smoke_eval lingering_def smoke_summary [of lint_results, unfolded lint_results_def test_results_def] completion_of_def
  show thesis
    by (rule that, simp_all cong: smoke_cong add: run del: validate_capabilities.simps(2), simp_all)
qed

end
