(* ===== verification/Worker_Properties.thy ===== *)
theory Worker_Properties
  imports Worker_Samples
begin

text \<open>
  The properties of the pull worker: a reported success is earned, the evidence sent is what the
  server checks for, a run is executed at most once, and the result summary is bounded. Then three
  weak points the model shows.
\<close>

lemma polled_completion:
  assumes "polled env cfg s as s'" "A_Complete i c \<in> set as"
  shows "(\<exists>why. c = rejection why)
    \<or> c = completion_of (ps_locals s') \<and> final env cfg i (ps_locals s') \<and> (p_quiescent (ps_locals s') \<or> lw_shutdown (ps_worker s'))"
  using assms
proof cases
  case (processed j as' rest)
  have "A_Complete i c \<notin> set as'" using processed by fastforce
  with assms(2) processed show ?thesis by auto
qed (use assms(2) in auto)

lemma bisect_bounds: "low \<le> high \<Longrightarrow> low \<le> bisect ok low high \<and> bisect ok low high \<le> high"
proof (induction ok low high rule: bisect.induct)
  case (1 ok low high)
  show ?case
  proof (cases "low < high")
    case True
    let ?c = "(low + high + 1) div 2"
    have c: "low < ?c" "?c \<le> high" "low \<le> ?c - 1" using True by auto
    have step: "bisect ok low high = (if ok ?c then bisect ok ?c high else bisect ok low (?c - 1))"
      using True by (simp add: bisect.simps [of ok low high] Let_def)
    show ?thesis
      using 1(1) [OF True HOL.refl] 1(2) [OF True HOL.refl] c unfolding step by (cases "ok ?c") (simp_all, linarith)
  qed (use 1 in \<open>simp add: bisect.simps\<close>)
qed

lemma bisect_ok: "low = 0 \<or> ok low \<Longrightarrow> bisect ok low high = 0 \<or> ok (bisect ok low high)"
proof (induction ok low high rule: bisect.induct)
  case (1 ok low high)
  then show ?case by (subst (1 2) bisect.simps) (auto simp: Let_def)
qed

lemma bisect_maximal:
  "low \<le> high \<Longrightarrow> high = bound \<or> \<not> ok (Suc high) \<Longrightarrow> bisect ok low high = bound \<or> \<not> ok (Suc (bisect ok low high))"
proof (induction ok low high rule: bisect.induct)
  case (1 ok low high)
  show ?case
  proof (cases "low < high")
    case True
    let ?c = "(low + high + 1) div 2"
    have c: "?c \<le> high" "low \<le> ?c - 1" "Suc (?c - 1) = ?c" using True by auto
    show ?thesis
      using 1(1) [OF True HOL.refl] 1(2) [OF True HOL.refl] 1(3,4) True c
      by (cases "ok ?c") (auto simp: bisect.simps [of ok low high] Let_def)
  next
    case False
    with 1(3) have "high = low" by simp
    with 1(4) show ?thesis by (simp add: bisect.simps [of ok low low])
  qed
qed



text \<open>
  C17. The server accepts the evidence of its workers: whatever a poll reports, if the server's row for
  the order says what the worker was told and its commit is in lower case, the report passes the
  server's check that the evidence belongs to the run, order, worker, manifest, status and artifacts.
\<close>

theorem worker_evidence_accepted:
  assumes "A_Complete i c \<in> set (drop (length (lw_log (ps_worker s))) (lw_log (ps_worker s')))"
    and "s' = snd (poll_once env cfg h s)"
    and "\<And>order. p_order (ps_locals s') = Some order \<Longrightarrow>
        ls = \<lparr>ls_id = lease, ls_work_order_id = ao_id order, ls_run_id = i, ls_worker_id = wf_worker_id cfg\<rparr>
        \<and> get_work_order db (ao_id order) = Inr w
        \<and> oq_repository_full_name (o_request w) = ao_repository_full_name order
        \<and> oq_commit_sha (o_request w) = lower (ao_commit_sha order)
        \<and> oq_manifest_name (o_request w) = ao_manifest_name order
        \<and> oq_manifest_version (o_request w) = ao_manifest_version order
        \<and> oq_manifest_digest (o_request w) = ao_manifest_digest order"
  shows "validate_completion_evidence db ls c = Inr ()"
proof -
  obtain as where as: "polled env cfg s as s'" "lw_log (ps_worker s') = lw_log (ps_worker s) @ as"
    using poll_polled [of env cfg s h] assms(2) by blast
  have "A_Complete i c \<in> set as" using assms(1) as(2) by simp
  from polled_completion [OF as(1) this]
  consider why where "c = rejection why" | "c = completion_of (ps_locals s')" "final env cfg i (ps_locals s')" by blast
  then show ?thesis
  proof cases
    case 1
    then show ?thesis by (simp add: validate_completion_evidence_def rejection_def)
  next
    case 2
    show ?thesis
    proof (cases "p_evidence (ps_locals s')")
      case None
      with 2(1) show ?thesis by (simp add: validate_completion_evidence_def completion_of_def)
    next
      case (Some e)
      with 2(2) have "describes env cfg i (ps_locals s') e" by (simp add: final_def evidence_ok_def)
      with 2(1) Some assms(3) show ?thesis
        by (auto simp: validate_completion_evidence_def completion_of_def describes_def Let_def manifest_for_def)
    qed
  qed
qed

theorem worker_evidence_accepted_witness:
  "\<exists>c. xc_status c = RUN_SUCCEEDED
     \<and> validate_completion_evidence busy_db
         \<lparr>ls_id = 1, ls_work_order_id = 1, ls_run_id = 1, ls_worker_id = ''alpha''\<rparr> c = Inr ()"
proof -
  let ?s = "snd (poll_once local_env local_config passing (new_worker ()))"
  let ?ls = "\<lparr>ls_id = 1, ls_work_order_id = 1, ls_run_id = 1, ls_worker_id = ''alpha''\<rparr>"
  obtain c where c: "A_Complete 1 c \<in> set (drop (length (lw_log (ps_worker (new_worker ())))) (lw_log (ps_worker ?s)))"
    "xc_status c = RUN_SUCCEEDED" and order: "p_order (ps_locals ?s) = Some smoke_order"
    by (rule passing_poll) (auto simp: new_worker_def)
  have "case get_work_order busy_db 1 of Inl _ \<Rightarrow> False | Inr w \<Rightarrow> ao_id smoke_order = 1 \<and> wf_worker_id local_config = ''alpha''
      \<and> oq_repository_full_name (o_request w) = ao_repository_full_name smoke_order
      \<and> oq_commit_sha (o_request w) = lower (ao_commit_sha smoke_order)
      \<and> oq_manifest_name (o_request w) = ao_manifest_name smoke_order
      \<and> oq_manifest_version (o_request w) = ao_manifest_version smoke_order
      \<and> oq_manifest_digest (o_request w) = ao_manifest_digest smoke_order" by code_simp
  then have "validate_completion_evidence busy_db ?ls c = Inr ()"
    by (intro worker_evidence_accepted [OF c(1) HOL.refl, where lease = 1 and w = "projr (get_work_order busy_db 1)"])
      (auto simp: order split: sum.splits)
  with c(2) show ?thesis by blast
qed

text \<open>
  C13. A run is executed at most once, one completion is sent for it, and a worker that is shutting
  down does nothing: in any sequence of polls of a new worker, a poll that creates a worktree or
  starts a step for a run is the first to touch that run; a poll sends at most one completion; and
  once a shutdown is requested, or the target of a run may still be running, no poll makes a call.
\<close>

theorem runs_executed_once:
  assumes "lw_log (ps_worker s0) = []" and "p_quiescent (ps_locals s0)" and "s = poll_many env cfg h n s0"
  shows "\<exists>as. lw_log (ps_worker (snd (poll_once env cfg h s))) = lw_log (ps_worker s) @ as
    \<and> (\<forall>a \<in> set as. \<forall>r. touches r a \<longrightarrow> (\<forall>b \<in> set (lw_log (ps_worker s)). \<not> touches r b))
    \<and> length (filter is_completion as) \<le> 1
    \<and> (lw_shutdown (ps_worker s) \<or> \<not> p_quiescent (ps_locals s) \<longrightarrow>
        (\<forall>k. lw_log (ps_worker (poll_many env cfg h k s)) = lw_log (ps_worker s)))"
proof -
  have inv: "worker_inv s" unfolding assms(3) by (rule worker_inv_many) (simp add: worker_inv_def assms)
  obtain as where as: "polled env cfg s as (snd (poll_once env cfg h s))"
    "lw_log (ps_worker (snd (poll_once env cfg h s))) = lw_log (ps_worker s) @ as" using poll_polled by blast
  have "lw_shutdown (ps_worker s)" if "lw_shutdown (ps_worker s) \<or> \<not> p_quiescent (ps_locals s)"
    using inv that by (auto simp: worker_inv_def)
  then show ?thesis using as polled_facts [OF as(1) inv as(2)] drained_many [OF inv] by blast
qed

theorem runs_executed_once_witness:
  "\<exists>as. lw_log (ps_worker (snd (poll_once local_env local_config passing (poll_many local_env local_config passing 1 (new_worker ())))))
       = lw_log (ps_worker (poll_many local_env local_config passing 1 (new_worker ()))) @ as
     \<and> length (filter is_completion as) \<le> 1"
  using runs_executed_once [of "new_worker ()" _ local_env local_config passing 1]
  by (auto simp: new_worker_def initial_locals_def)

text \<open>
  C33. The result summary is bounded and as long as the bound allows: building it always ends; it
  fails only if the metadata alone exceed the limit; otherwise the serialized summary is within the
  limit, and it is the full one or the one cut at a limit that could not be raised by one.
\<close>

theorem summary_bounded:
  "case build_summary env order results of
     Inl e \<Rightarrow> RESULT_SUMMARY_LIMIT < int (length (serialize_summary (compact env order results 0)))
   | Inr s \<Rightarrow> int (length (serialize_summary s)) \<le> RESULT_SUMMARY_LIMIT
       \<and> (s = full_summary env order results
          \<or> (\<exists>n \<le> largest_output results. s = compact env order results n
               \<and> (n = largest_output results
                  \<or> RESULT_SUMMARY_LIMIT < int (length (serialize_summary (compact env order results (Suc n)))))))"
proof -
  let ?ok = "\<lambda>n. fits (compact env order results n)"
  let ?n = "bisect ?ok 0 (largest_output results)"
  have n: "?n \<le> largest_output results" "?n = 0 \<or> ?ok ?n" "?n = largest_output results \<or> \<not> ?ok (Suc ?n)"
    using bisect_bounds [of 0 "largest_output results" ?ok] bisect_ok [of 0 ?ok "largest_output results"]
      bisect_maximal [of 0 "largest_output results" "largest_output results" ?ok] by auto
  show ?thesis
  proof (cases "fits (full_summary env order results)")
    case True
    then show ?thesis by (simp add: build_summary_def fits_def)
  next
    case False
    show ?thesis
    proof (cases "?ok ?n")
      case True
      with False n show ?thesis by (auto simp: build_summary_def Let_def fits_def not_le)
    next
      case no: False
      with n(2) have "?n = 0" by simp
      with no False show ?thesis by (simp add: build_summary_def Let_def fits_def not_le)
    qed
  qed
qed

section \<open>Weak points\<close>

text \<open>An optional step whose process tree may have survived does not stop the run: the required step
  after it is executed in the same checkout, and the run is reported as succeeded, without evidence.\<close>

theorem optional_step_leaves_descendants:
  "\<exists>c. lw_log (ps_worker (snd (poll_once local_env local_config lingering (new_worker ()))))
       = [A_Checkout, A_CreateWorktree 1, A_Verify, A_RunStep 1 ''lint'', A_RunStep 1 ''test'', A_Complete 1 c]
     \<and> xc_status c = RUN_SUCCEEDED \<and> xc_evidence c = None \<and> xc_cleanup_status c = Some ''skipped:source_quiescence_failed''"
  by (rule lingering_poll) blast

text \<open>An error reply to the worker heartbeat (an exception that is neither of the transport nor a
  rejected credential) ends the monitor thread and cancels nothing: the run goes on without renewals
  and without its overall deadline.\<close>

lemma monitor_ends_on_error_reply:
  assumes "lw_monitor w = Some (i, due)" "ti_now t < due" "ti_worker t = Inl (OtherError n)"
  shows "apply_signal (Tick t) w = w\<lparr>lw_monitor := None\<rparr>"
  using assms by (simp add: tick_def)

text \<open>A sanitized text can turn into a local path when it is serialized: the escape of a line break
  puts a backslash after \<open>C:\<close>.\<close>

lemma serialized_summary_holds_path:
  "\<not> contains_absolute_local_path (sanitize_remote_text (''drive C:'' @ [CHR 0x0A]))"
  "contains_absolute_local_path (serialize_summary (JObj [(''stdout'', JStr (''drive C:'' @ [CHR 0x0A]))]))"
  by code_simp+

end
