(* ===== verification/Worker_Wire.thy ===== *)
theory Worker_Wire
  imports Worker_Client Execution_Api
begin

text \<open>
  What server and worker say to each other. The worker's side is
  \<^verbatim>\<open>client/python/execution_worker/models.py\<close> (strict decoders of the replies) and the request
  and error rules of \<^verbatim>\<open>client.py\<close>; the server's side are the input contract
  \<open>WorkOrderCreateIn\<close> and the replies \<open>WorkOrderOut\<close>, \<open>CommandManifestOut\<close>, \<open>CheckoutOut\<close> and
  \<open>RouteProvenanceOut\<close> of \<^verbatim>\<open>server/execution/schemas.py\<close>.

  A reply is the JSON value \<open>response.json()\<close> gives. The text of a datetime and its parsing
  (\<open>datetime.isoformat\<close>, \<open>datetime.fromisoformat\<close>), the value of a float and the validation of a reuse
  candidate are parameters.
\<close>

section \<open>Field decoders\<close>

record wire_env =
  we_fromisoformat :: "string \<Rightarrow> py_datetime option"
  we_finite :: "string \<Rightarrow> bool"
  we_negative :: "string \<Rightarrow> bool"
  we_candidate :: "json \<Rightarrow> exc + reuse_candidate"

definition MAX_COLLECTION_ITEMS :: nat where
  "MAX_COLLECTION_ITEMS = 128"

definition MAX_METADATA_DEPTH :: nat where
  "MAX_METADATA_DEPTH = 16"

definition MAX_METADATA_NODES :: int where
  "MAX_METADATA_NODES = 4096"

definition MAX_METADATA_STRING :: int where
  "MAX_METADATA_STRING = 4000"

definition MAX_METADATA_KEY :: int where
  "MAX_METADATA_KEY = 128"

definition MAX_SAFE_INTEGER :: int where
  "MAX_SAFE_INTEGER = 2 ^ 63 - 1"

text \<open>\<open>payload.get(name)\<close>: a missing field reads as \<open>None\<close>.\<close>

definition get_field :: "json_object \<Rightarrow> string \<Rightarrow> json" where
  "get_field payload name = (case map_of payload name of None \<Rightarrow> JNull | Some v \<Rightarrow> v)"

definition text_field :: "int \<Rightarrow> bool \<Rightarrow> json \<Rightarrow> exc + string" where
  "text_field limit allow_empty v =
     (case v of
        JStr s \<Rightarrow> if (s = [] \<and> \<not> allow_empty) \<or> int (length s) > limit then raise_value else Inr s
      | _ \<Rightarrow> raise_value)"

definition integer_field :: "int \<Rightarrow> int \<Rightarrow> json \<Rightarrow> exc + int" where
  "integer_field minimum maximum v =
     (case v of JInt n \<Rightarrow> if \<not> (minimum \<le> n \<and> n \<le> maximum) then raise_value else Inr n | _ \<Rightarrow> raise_value)"

definition positive_field :: "json \<Rightarrow> exc + int" where
  "positive_field = integer_field 1 MAX_SAFE_INTEGER"

definition mapping_field :: "json \<Rightarrow> exc + json_object" where
  "mapping_field v = (case v of JObj kvs \<Rightarrow> Inr kvs | _ \<Rightarrow> raise_value)"

definition list_field :: "nat \<Rightarrow> json \<Rightarrow> exc + json list" where
  "list_field limit v = (case v of JList vs \<Rightarrow> if length vs > limit then raise_value else Inr vs | _ \<Rightarrow> raise_value)"

fun map_result :: "('a \<Rightarrow> exc + 'b) \<Rightarrow> 'a list \<Rightarrow> exc + 'b list" where
  "map_result f [] = Inr []"
| "map_result f (x # xs) = rbind (f x) (\<lambda>y. rbind (map_result f xs) (\<lambda>ys. Inr (y # ys)))"

definition string_list_field :: "int \<Rightarrow> nat \<Rightarrow> json \<Rightarrow> exc + string list" where
  "string_list_field item_limit limit v = rbind (list_field limit v) (map_result (text_field item_limit True))"

definition optional_text_field :: "int \<Rightarrow> json \<Rightarrow> exc + string option" where
  "optional_text_field limit v =
     (if v = JNull then Inr None else rbind (text_field limit True v) (\<lambda>s. Inr (Some s)))"

definition replace_Z :: "string \<Rightarrow> string" where
  "replace_Z s = concat (map (\<lambda>c. if c = CHR ''Z'' then ''+00:00'' else [c]) s)"

definition optional_datetime_field :: "wire_env \<Rightarrow> json \<Rightarrow> exc + py_datetime option" where
  "optional_datetime_field we v =
     (if v = JNull then Inr None
      else rbind (text_field 64 False v) (\<lambda>raw.
        if CHR ''T'' \<notin> set raw then raise_value
        else case we_fromisoformat we (replace_Z raw) of None \<Rightarrow> raise_value | Some d \<Rightarrow> Inr (Some d)))"

definition required_datetime_field :: "wire_env \<Rightarrow> json \<Rightarrow> exc + py_datetime" where
  "required_datetime_field we v =
     rbind (optional_datetime_field we v) (\<lambda>d. case d of None \<Rightarrow> raise_value | Some d \<Rightarrow> Inr d)"

text \<open>\<open>float\<close> of an integer beyond the range of floats is an \<open>OverflowError\<close>, not a \<open>ValueError\<close>.\<close>

definition optional_number_field :: "wire_env \<Rightarrow> json \<Rightarrow> exc + json option" where
  "optional_number_field we v =
     (case v of
        JNull \<Rightarrow> Inr None
      | JInt n \<Rightarrow> if \<bar>n\<bar> \<ge> 2 ^ 1024 - 2 ^ 970 then Inl (OtherError ''OverflowError'')
                  else if n < 0 then raise_value else Inr (Some v)
      | JFloat s \<Rightarrow> if \<not> we_finite we s \<or> we_negative we s then raise_value else Inr (Some v)
      | _ \<Rightarrow> raise_value)"

section \<open>Metadata\<close>

definition key_char :: "char \<Rightarrow> bool" where
  "key_char c = (is_digit c \<or> (97 \<le> (of_char c :: nat) \<and> (of_char c :: nat) \<le> 122))"

text \<open>Each run of other characters becomes one underscore.\<close>

function collapse :: "string \<Rightarrow> string" where
  "collapse [] = []"
| "collapse (c # cs) = (if key_char c then c # collapse cs else CHR ''_'' # collapse (dropWhile (\<lambda>c. \<not> key_char c) cs))"
  by pat_completeness auto
termination by (relation "measure length") (auto simp: le_imp_less_Suc length_dropWhile_le)

definition strip_underscores :: "string \<Rightarrow> string" where
  "strip_underscores s = rev (dropWhile (\<lambda>c. c = CHR ''_'') (rev (dropWhile (\<lambda>c. c = CHR ''_'') s)))"

definition normalized_key :: "string \<Rightarrow> string" where
  "normalized_key s = strip_underscores (collapse (lower s))"

definition FORBIDDEN_EXECUTABLE_KEYS :: "string list" where
  "FORBIDDEN_EXECUTABLE_KEYS =
     [''argv'', ''command'', ''command_string'', ''shell'', ''shell_command'', ''script'', ''script_contents'',
      ''executable'', ''executable_path'']"

definition REPOSITORY_WRITE_KEYS :: "string list" where
  "REPOSITORY_WRITE_KEYS =
     [''repository_write'', ''repository_write_allowed'', ''repository_write_capability'', ''repository_write_policy'']"

text \<open>Whether one entry of an object may stand where it does; \<open>write_false\<close> admits an explicit
  \<open>repository_write: false\<close> in the root object.\<close>

definition entry_allowed :: "bool \<Rightarrow> string \<Rightarrow> json \<Rightarrow> bool" where
  "entry_allowed write_false k v =
     (int (length k) \<le> MAX_METADATA_KEY \<and> normalized_key k \<notin> set FORBIDDEN_EXECUTABLE_KEYS
      \<and> (normalized_key k \<in> set REPOSITORY_WRITE_KEYS \<longrightarrow>
           write_false \<and> normalized_key k = ''repository_write'' \<and> v = JBool False))"

text \<open>\<open>visit\<close> of \<open>_validated_metadata\<close>: it returns its argument, so only the count is threaded.\<close>

fun visit_metadata :: "wire_env \<Rightarrow> bool \<Rightarrow> json \<Rightarrow> nat \<Rightarrow> int \<Rightarrow> exc + int"
  and visit_elements :: "wire_env \<Rightarrow> json list \<Rightarrow> nat \<Rightarrow> int \<Rightarrow> exc + int"
  and visit_entries :: "wire_env \<Rightarrow> bool \<Rightarrow> json_object \<Rightarrow> nat \<Rightarrow> int \<Rightarrow> exc + int" where
  "visit_metadata we write_false v depth n =
     (let nodes = n + 1
      in if nodes > MAX_METADATA_NODES \<or> depth > MAX_METADATA_DEPTH then raise_value
         else case v of
           JInt i \<Rightarrow> if \<bar>i\<bar> > MAX_SAFE_INTEGER then raise_value else Inr nodes
         | JFloat s \<Rightarrow> if \<not> we_finite we s then raise_value else Inr nodes
         | JStr s \<Rightarrow> if int (length s) > MAX_METADATA_STRING then raise_value else Inr nodes
         | JObj kvs \<Rightarrow>
             if length kvs > MAX_COLLECTION_ITEMS then raise_value else visit_entries we write_false kvs (Suc depth) nodes
         | JList vs \<Rightarrow>
             if length vs > MAX_COLLECTION_ITEMS then raise_value else visit_elements we vs (Suc depth) nodes
         | _ \<Rightarrow> Inr nodes)"
| "visit_elements we [] depth n = Inr n"
| "visit_elements we (v # vs) depth n = rbind (visit_metadata we False v depth n) (visit_elements we vs depth)"
| "visit_entries we write_false [] depth n = Inr n"
| "visit_entries we write_false ((k, v) # kvs) depth n =
     (if \<not> entry_allowed write_false k v then raise_value
      else rbind (visit_metadata we False v depth n) (visit_entries we write_false kvs depth))"

definition metadata_mapping :: "wire_env \<Rightarrow> bool \<Rightarrow> json \<Rightarrow> exc + json_object" where
  "metadata_mapping we write_false v =
     rbind (mapping_field v) (\<lambda>kvs. rbind (visit_metadata we write_false (JObj kvs) 0 0) (\<lambda>_. Inr kvs))"

section \<open>Replies as the worker reads them\<close>

definition repository_name :: "json \<Rightarrow> exc + string" where
  "repository_name v =
     rbind (text_field 256 False v) (\<lambda>r.
       case split_on (CHR ''/'') r of
         [owner, name] \<Rightarrow>
           if owner = [] \<or> name = [] \<or> \<not> list_all repository_char owner \<or> \<not> list_all repository_char name
              \<or> owner \<in> {''.'', ''..''} \<or> name \<in> {''.'', ''..''}
           then raise_value else Inr r
       | _ \<Rightarrow> raise_value)"

definition digest_field :: "json \<Rightarrow> exc + string" where
  "digest_field v = rbind (text_field 64 False v) (\<lambda>s. if lower_hex 64 s then Inr s else raise_value)"

definition one_of :: "string list \<Rightarrow> string \<Rightarrow> exc + string" where
  "one_of vs s = (if s \<in> set vs then Inr s else raise_value)"

text \<open>\<open>AssignedWorkOrder\<close>: what the worker uses of it, and the rest.\<close>

record assigned_work_order = assigned_order +
  aw_permitted_paths :: "string list"
  aw_forbidden_scope_notes :: string
  aw_expected_artifact_kinds :: "string list"
  aw_status :: string
  aw_resource_metadata :: json_object
  aw_preferred_executor :: "string option"
  aw_cost_ceiling :: "json option"
  aw_routing_policy :: string
  aw_maximum_cost_units :: "int option"
  aw_required_quota_units :: int
  aw_attempt_count :: int
  aw_created_at :: py_datetime
  aw_updated_at :: py_datetime
  aw_approved_at :: "py_datetime option"
  aw_queued_at :: "py_datetime option"
  aw_assigned_at :: "py_datetime option"
  aw_started_at :: "py_datetime option"
  aw_finished_at :: "py_datetime option"
  aw_terminal_reason :: "string option"
  aw_route_provenance :: json_object

definition WORK_ORDER_FIELDS :: "string list" where
  "WORK_ORDER_FIELDS =
     [''id'', ''schema_version'', ''repository_full_name'', ''commit_sha'', ''manifest_name'', ''manifest_version'',
      ''manifest_digest'', ''manifest_parameters'', ''required_capabilities'', ''permitted_paths'',
      ''forbidden_scope_notes'', ''expected_artifact_kinds'', ''approval_policy'', ''status'', ''timeout_seconds'',
      ''resource_metadata'', ''network_policy'', ''repository_write_allowed'', ''preferred_executor'', ''cost_ceiling'',
      ''routing_policy'', ''maximum_cost_units'', ''required_quota_units'', ''attempt_count'', ''created_at'',
      ''updated_at'', ''approved_at'', ''queued_at'', ''assigned_at'', ''started_at'', ''finished_at'',
      ''terminal_reason'', ''reuse_policy'', ''execution_policy_hash'', ''route_provenance'']"

definition optional_integer_field :: "int \<Rightarrow> json \<Rightarrow> exc + int option" where
  "optional_integer_field maximum v =
     (if v = JNull then Inr None else rbind (integer_field 0 maximum v) (\<lambda>n. Inr (Some n)))"

definition assigned_work_order_of_payload :: "wire_env \<Rightarrow> json \<Rightarrow> exc + assigned_work_order" where
  "assigned_work_order_of_payload we v =
     rbind (mapping_field v) (\<lambda>p. let get = get_field p in
     if set (map fst p) \<noteq> set WORK_ORDER_FIELDS then raise_value
     else
       rbind (integer_field 1 1 (get ''schema_version'')) (\<lambda>_.
       rbind (repository_name (get ''repository_full_name'')) (\<lambda>repository.
       rbind (text_field 40 False (get ''commit_sha'')) (\<lambda>sha.
       rbind (text_field 64 False (get ''manifest_digest'')) (\<lambda>digest.
       if \<not> (length sha = 40 \<and> list_all is_hex sha) \<or> \<not> lower_hex 64 digest then raise_value
       else
       rbind (digest_field (get ''execution_policy_hash'')) (\<lambda>policy_hash.
       rbind (rbind (text_field 32 False (get ''reuse_policy'')) (one_of [''never'', ''allow_exact'', ''require_exact''])) (\<lambda>reuse.
       rbind (rbind (text_field 32 False (get ''routing_policy'')) (one_of [''first_available'', ''cheapest_capable''])) (\<lambda>routing.
       rbind (optional_integer_field MAX_ROUTING_INTEGER (get ''maximum_cost_units'')) (\<lambda>maximum_cost.
       rbind (integer_field 0 MAX_ROUTING_INTEGER (get ''required_quota_units'')) (\<lambda>quota.
       rbind (metadata_mapping we False (get ''route_provenance'')) (\<lambda>provenance.
       if get ''repository_write_allowed'' \<noteq> JBool False then raise_value
       else
       rbind (rbind (text_field 256 False (get ''network_policy'')) (one_of [''disabled'', ''worker_restricted''])) (\<lambda>network.
       rbind (rbind (text_field 256 False (get ''approval_policy'')) (one_of [''explicit''])) (\<lambda>_.
       rbind (rbind (text_field 256 False (get ''status'')) (one_of [''assigned'', ''running''])) (\<lambda>status.
       rbind (positive_field (get ''id'')) (\<lambda>i.
       rbind (text_field 128 False (get ''manifest_name'')) (\<lambda>name.
       rbind (text_field 64 False (get ''manifest_version'')) (\<lambda>version.
       rbind (metadata_mapping we False (get ''manifest_parameters'')) (\<lambda>parameters.
       rbind (metadata_mapping we True (get ''required_capabilities'')) (\<lambda>capabilities.
       rbind (string_list_field 512 128 (get ''permitted_paths'')) (\<lambda>paths.
       rbind (text_field 4000 True (get ''forbidden_scope_notes'')) (\<lambda>notes.
       rbind (string_list_field 128 64 (get ''expected_artifact_kinds'')) (\<lambda>kinds.
       rbind (integer_field 1 86400 (get ''timeout_seconds'')) (\<lambda>timeout.
       rbind (metadata_mapping we False (get ''resource_metadata'')) (\<lambda>resources.
       rbind (optional_text_field 128 (get ''preferred_executor'')) (\<lambda>executor.
       rbind (optional_number_field we (get ''cost_ceiling'')) (\<lambda>ceiling.
       rbind (integer_field 0 MAX_SAFE_INTEGER (get ''attempt_count'')) (\<lambda>attempts.
       rbind (required_datetime_field we (get ''created_at'')) (\<lambda>created.
       rbind (required_datetime_field we (get ''updated_at'')) (\<lambda>updated.
       rbind (optional_datetime_field we (get ''approved_at'')) (\<lambda>approved.
       rbind (optional_datetime_field we (get ''queued_at'')) (\<lambda>queued.
       rbind (optional_datetime_field we (get ''assigned_at'')) (\<lambda>assigned.
       rbind (optional_datetime_field we (get ''started_at'')) (\<lambda>started.
       rbind (optional_datetime_field we (get ''finished_at'')) (\<lambda>finished.
       rbind (optional_text_field 4000 (get ''terminal_reason'')) (\<lambda>reason.
       Inr \<lparr>ao_id = i, ao_repository_full_name = repository, ao_commit_sha = sha, ao_manifest_name = name,
            ao_manifest_version = version, ao_manifest_digest = digest, ao_manifest_parameters = parameters,
            ao_required_capabilities = capabilities, ao_timeout_seconds = timeout, ao_network_policy = network,
            ao_reuse_policy = reuse, ao_execution_policy_hash = policy_hash, aw_permitted_paths = paths,
            aw_forbidden_scope_notes = notes, aw_expected_artifact_kinds = kinds, aw_status = status,
            aw_resource_metadata = resources, aw_preferred_executor = executor, aw_cost_ceiling = ceiling,
            aw_routing_policy = routing, aw_maximum_cost_units = maximum_cost, aw_required_quota_units = quota,
            aw_attempt_count = attempts, aw_created_at = created, aw_updated_at = updated,
            aw_approved_at = approved, aw_queued_at = queued, aw_assigned_at = assigned, aw_started_at = started,
            aw_finished_at = finished, aw_terminal_reason = reason, aw_route_provenance = provenance\<rparr>)))))))))))))))))))))))))))))))))))"

fun is_JObj :: "json \<Rightarrow> bool" where
  "is_JObj (JObj _) = True"
| "is_JObj _ = False"

definition safe_manifest_of_payload :: "json \<Rightarrow> exc + safe_manifest" where
  "safe_manifest_of_payload v =
     rbind (mapping_field v) (\<lambda>p. let get = get_field p in
     rbind (digest_field (get ''digest'')) (\<lambda>digest.
     rbind (text_field 256 False (get ''network_policy'')) (\<lambda>network.
     rbind (text_field 256 False (get ''repository_write_policy'')) (\<lambda>write_policy.
     if network \<notin> {''disabled'', ''worker_restricted''} \<or> write_policy \<noteq> ''read_only'' then raise_value
     else
     rbind (list_field MAX_COLLECTION_ITEMS (get ''fixed_step_metadata'')) (\<lambda>metadata.
     rbind (list_field MAX_COLLECTION_ITEMS (get ''artifact_declarations'')) (\<lambda>artifacts.
     rbind (mapping_field (get ''required_capabilities'')) (\<lambda>capabilities.
     rbind (mapping_field (get ''environment_policy'')) (\<lambda>environment.
     if \<not> list_all is_JObj (metadata @ artifacts) then raise_value
     else
     rbind (text_field 256 False (get ''name'')) (\<lambda>name.
     rbind (text_field 256 False (get ''version'')) (\<lambda>version.
     rbind (positive_field (get ''timeout_seconds'')) (\<lambda>timeout.
     rbind (positive_field (get ''schema_version'')) (\<lambda>schema.
     rbind (text_field 4000 False (get ''description'')) (\<lambda>description.
     rbind (text_field 256 False (get ''trusted_registry_source'')) (\<lambda>source.
       Inr \<lparr>sm_name = name, sm_version = version, sm_digest = digest, sm_timeout_seconds = timeout,
            sm_schema_version = schema, sm_description = description, sm_trusted_registry_source = source,
            sm_network_policy = network, sm_repository_write_policy = write_policy,
            sm_required_capabilities = capabilities, sm_fixed_step_metadata = metadata,
            sm_environment_policy = environment, sm_artifact_declarations = artifacts\<rparr>))))))))))))))"

text \<open>\<open>Checkout\<close>: the run and its order, or a reason.\<close>

definition checkout_of_payload :: "json \<Rightarrow> exc + (int \<times> int) option" where
  "checkout_of_payload v =
     rbind (mapping_field v) (\<lambda>p.
       if get_field p ''run'' = JNull
       then (if truthy (get_field p ''reason'')
             then rbind (text_field 256 False (get_field p ''reason'')) (\<lambda>_. Inr None) else Inr None)
       else
         rbind (mapping_field (get_field p ''run'')) (\<lambda>r.
         rbind (rbind (text_field 256 False (get_field r ''status'')) (one_of [''assigned'', ''running''])) (\<lambda>_.
         rbind (positive_field (get_field r ''id'')) (\<lambda>i.
         rbind (positive_field (get_field r ''work_order_id'')) (\<lambda>w. Inr (Some (i, w)))))))"

definition RUN_STATUSES :: "string list" where
  "RUN_STATUSES = [''assigned'', ''running'', ''succeeded'', ''failed'', ''timed_out'', ''cancelled'']"

definition execution_run_of_payload :: "json \<Rightarrow> exc + int \<times> string" where
  "execution_run_of_payload v =
     rbind (mapping_field v) (\<lambda>p.
     rbind (rbind (text_field 256 False (get_field p ''status'')) (one_of RUN_STATUSES)) (\<lambda>status.
     rbind (positive_field (get_field p ''id'')) (\<lambda>i. Inr (i, status))))"

definition reuse_lookup_of_payload :: "wire_env \<Rightarrow> json \<Rightarrow> exc + reuse_lookup" where
  "reuse_lookup_of_payload we v =
     rbind (mapping_field v) (\<lambda>p.
       if set (map fst p) \<noteq> {''decision'', ''reason'', ''candidate''} then raise_value
       else
         rbind (rbind (text_field 32 False (get_field p ''decision'')) (one_of [''candidate_available'', ''unavailable''])) (\<lambda>decision.
         rbind (text_field 64 False (get_field p ''reason'')) (\<lambda>reason.
         rbind (if get_field p ''candidate'' = JNull then Inr None
                else rbind (we_candidate we (get_field p ''candidate'')) (\<lambda>c. Inr (Some c))) (\<lambda>candidate.
           if (decision = ''candidate_available'') \<noteq> (candidate \<noteq> None) then raise_value
           else Inr \<lparr>lk_candidate = candidate, lk_reason = reason\<rparr>))))"

section \<open>Requests of the worker\<close>

record client_request =
  cq_method :: string
  cq_path :: string
  cq_query :: "(string \<times> string) list"
  cq_json :: "json option"
  cq_ownership_sensitive :: bool

record client_response =
  cr_status :: int
  cr_json :: "exc + json"

text \<open>\<open>_ExecutionTransport\<close> of a worker: once a credential was refused, nothing is sent any more.\<close>

record 'g client =
  cl_credential_rejected :: bool
  cl_session :: 'g

type_synonym 'g session = "client_request \<Rightarrow> 'g \<Rightarrow> 'g \<times> (exc + client_response)"

definition client_request_json :: "'g session \<Rightarrow> client_request \<Rightarrow> 'g client \<Rightarrow> 'g client \<times> (exc + json)" where
  "client_request_json send q c =
     (if cl_credential_rejected c then (c, Inl ExecutionCredentialRejectedError)
      else case send q (cl_session c) of
             (g, Inl e) \<Rightarrow> (c\<lparr>cl_session := g\<rparr>, Inl e)
           | (g, Inr r) \<Rightarrow>
               if cr_status r \<in> {401, 403}
               then (c\<lparr>cl_credential_rejected := True, cl_session := g\<rparr>, Inl ExecutionCredentialRejectedError)
               else (c\<lparr>cl_session := g\<rparr>,
                     if cq_ownership_sensitive q \<and> cr_status r \<in> {404, 409} then Inl ExecutionOwnershipLostError
                     else if cr_status r \<ge> 400 then Inl (OtherError ''ExecutionHttpError'')
                     else cr_json r))"

definition WORKER_PREFIX :: string where
  "WORKER_PREFIX = ''/api/execution/worker''"

definition get_request_of :: "string \<Rightarrow> (string \<times> string) list \<Rightarrow> client_request" where
  "get_request_of p params =
     \<lparr>cq_method = ''get'', cq_path = WORKER_PREFIX @ p, cq_query = params, cq_json = None, cq_ownership_sensitive = False\<rparr>"

definition post_request_of :: "string \<Rightarrow> json_object \<Rightarrow> bool \<Rightarrow> client_request" where
  "post_request_of p body sensitive =
     \<lparr>cq_method = ''post'', cq_path = WORKER_PREFIX @ p, cq_query = [], cq_json = Some (JObj body),
      cq_ownership_sensitive = sensitive\<rparr>"

definition client_get_manifest :: "string \<Rightarrow> string \<Rightarrow> int \<Rightarrow> client_request" where
  "client_get_manifest name version run_id =
     get_request_of (''/manifests/'' @ name @ ''/'' @ version) [(''run_id'', show_int run_id)]"

definition client_register_worker :: "string \<Rightarrow> json_object \<Rightarrow> exc + client_request" where
  "client_register_worker worker_id registration =
     (if get_field registration ''worker_id'' \<noteq> JStr worker_id then raise_value
      else Inr (post_request_of ''/workers'' registration False))"

definition client_heartbeat_worker :: "string \<Rightarrow> string option \<Rightarrow> client_request" where
  "client_heartbeat_worker worker_id status =
     post_request_of (''/workers/'' @ worker_id @ ''/heartbeat'') [(''status'', json_text status)] False"

definition client_checkout :: "string \<Rightarrow> client_request" where
  "client_checkout worker_id = post_request_of ''/checkout'' [(''worker_id'', JStr worker_id)] False"

definition client_get_work_order :: "int \<Rightarrow> client_request" where
  "client_get_work_order i = get_request_of (''/work-orders/'' @ show_int i) []"

definition client_get_run :: "int \<Rightarrow> client_request" where
  "client_get_run i = get_request_of (''/runs/'' @ show_int i) []"

definition client_heartbeat_run :: "string \<Rightarrow> int \<Rightarrow> client_request" where
  "client_heartbeat_run worker_id run_id =
     post_request_of (''/runs/'' @ show_int run_id @ ''/heartbeat'') [(''worker_id'', JStr worker_id)] True"

text \<open>\<open>model_dump\<close> of the documents that are sent.\<close>

record dump =
  dm_identity :: "reuse_identity \<Rightarrow> json"
  dm_artifact :: "artifact_record \<Rightarrow> json"
  dm_evidence :: "execution_evidence \<Rightarrow> json"
  dm_datetime :: "py_datetime \<Rightarrow> string"

definition client_resolve_reuse_candidate :: "dump \<Rightarrow> string \<Rightarrow> int \<Rightarrow> reuse_identity \<Rightarrow> string \<Rightarrow> client_request" where
  "client_resolve_reuse_candidate d worker_id run_id identity identity_hash =
     post_request_of (''/runs/'' @ show_int run_id @ ''/reuse-candidate'')
       [(''worker_id'', JStr worker_id), (''reuse_identity'', dm_identity d identity),
        (''reuse_identity_hash'', JStr identity_hash)] True"

definition present :: "(string \<times> json option) list \<Rightarrow> json_object" where
  "present kvs = concat (map (\<lambda>(k, v). case v of None \<Rightarrow> [] | Some x \<Rightarrow> [(k, x)]) kvs)"

definition completion_body :: "dump \<Rightarrow> string \<Rightarrow> execution_completion \<Rightarrow> json_object" where
  "completion_body d worker_id c =
     [(''worker_id'', JStr worker_id), (''status'', JStr (run_status_value (xc_status c))),
      (''result_summary'', json_text (xc_result_summary c)), (''terminal_reason'', json_text (xc_terminal_reason c)),
      (''cleanup_status'', json_text (xc_cleanup_status c)),
      (''artifact_metadata'', JList (map (dm_artifact d) (xc_artifact_metadata c))),
      (''evidence_metadata'', case xc_evidence c of None \<Rightarrow> JNull | Some e \<Rightarrow> dm_evidence d e)]
     @ present [(''reuse_decision'', map_option (\<lambda>x. JStr (reuse_decision_value x)) (xc_reuse_decision c)),
                (''reuse_reason'', map_option JStr (xc_reuse_reason c)),
                (''reuse_identity'', map_option (dm_identity d) (xc_reuse_identity c)),
                (''reuse_identity_hash'', map_option JStr (xc_reuse_identity_hash c)),
                (''evidence_retention_expires_at'', map_option (\<lambda>x. JStr (dm_datetime d x)) (xc_retention_expires_at c))]"

definition client_complete_run :: "dump \<Rightarrow> string \<Rightarrow> int \<Rightarrow> execution_completion \<Rightarrow> client_request" where
  "client_complete_run d worker_id run_id c =
     post_request_of (''/runs/'' @ show_int run_id @ ''/complete'') (completion_body d worker_id c) True"

section \<open>What the server admits and replies\<close>

text \<open>\<open>_reject_executable_keys\<close>: at every depth.\<close>

fun no_executable_keys :: "json \<Rightarrow> bool" where
  "no_executable_keys (JObj kvs) =
     list_all (\<lambda>(k, v). normalized_key k \<notin> set FORBIDDEN_EXECUTABLE_KEYS \<and> no_executable_keys v) kvs"
| "no_executable_keys (JList vs) = list_all no_executable_keys vs"
| "no_executable_keys _ = True"

definition manifest_name_ok :: "string \<Rightarrow> bool" where
  "manifest_name_ok s =
     (1 \<le> length s \<and> length s \<le> 128 \<and> key_char (hd s) \<and> list_all (\<lambda>c. key_char c \<or> c = CHR ''-'') s)"

text \<open>The bounds of \<open>WorkOrderCreateIn\<close> and \<open>ManifestReferenceIn\<close> on the fields of a draft, with the
  text policy of \<open>ExecutionInput\<close> on every text of the request.\<close>

definition create_in_texts :: "work_order_draft \<Rightarrow> string list" where
  "create_in_texts d =
     [wd_repository_full_name d, wd_commit_sha d, wd_manifest_name d, wd_manifest_version d]
     @ json_strings (JObj (wd_manifest_parameters d)) @ json_strings (JObj (wd_required_capabilities d))
     @ wd_permitted_paths d @ [wd_forbidden_scope_notes d] @ wd_expected_artifact_kinds d
     @ json_strings (JObj (wd_resource_metadata d))
     @ (case wd_preferred_executor d of None \<Rightarrow> [] | Some e \<Rightarrow> [e])"

definition routing_bound :: "int \<Rightarrow> int \<Rightarrow> bool" where
  "routing_bound minimum n = (minimum \<le> n \<and> n \<le> MAX_ROUTING_INTEGER)"

definition create_in_ok :: "work_order_draft \<Rightarrow> bool" where
  "create_in_ok d \<longleftrightarrow>
     validate_all (create_in_texts d) = Inr () \<and> wd_schema_version d = 1
     \<and> validate_repository_full_name (wd_repository_full_name d) = Inr (wd_repository_full_name d)
     \<and> length (wd_commit_sha d) = 40 \<and> list_all is_hex (wd_commit_sha d)
     \<and> manifest_name_ok (wd_manifest_name d) \<and> 1 \<le> length (wd_manifest_version d) \<and> length (wd_manifest_version d) \<le> 64
     \<and> no_executable_keys (JObj (wd_manifest_parameters d)) \<and> no_executable_keys (JObj (wd_required_capabilities d))
     \<and> no_executable_keys (JObj (wd_resource_metadata d))
     \<and> length (wd_permitted_paths d) \<le> 128 \<and> int (length (wd_forbidden_scope_notes d)) \<le> 4000
     \<and> length (wd_expected_artifact_kinds d) \<le> 64
     \<and> 1 \<le> wd_timeout_seconds d \<and> wd_timeout_seconds d \<le> 86400 \<and> \<not> wd_repository_write_allowed d
     \<and> (case wd_preferred_executor d of None \<Rightarrow> True | Some e \<Rightarrow> length e \<le> 128)
     \<and> (case wd_maximum_cost_units d of None \<Rightarrow> True | Some n \<Rightarrow> routing_bound 0 n)
     \<and> routing_bound 0 (wd_required_quota_units d)"

fun approval_policy_value :: "approval_policy \<Rightarrow> string" where
  "approval_policy_value APPROVAL_EXPLICIT = ''explicit''"

fun reuse_policy_value :: "reuse_policy \<Rightarrow> string" where
  "reuse_policy_value REUSE_NEVER = ''never''"
| "reuse_policy_value REUSE_ALLOW_EXACT = ''allow_exact''"
| "reuse_policy_value REUSE_REQUIRE_EXACT = ''require_exact''"

fun quota_state_value :: "quota_state \<Rightarrow> string" where
  "quota_state_value QUOTA_NOT_REQUIRED = ''not_required''"
| "quota_state_value QUOTA_RESERVED = ''reserved''"
| "quota_state_value QUOTA_CONSUMED = ''consumed''"
| "quota_state_value QUOTA_RELEASED = ''released''"

definition json_int :: "int option \<Rightarrow> json" where
  "json_int v = (case v of None \<Rightarrow> JNull | Some n \<Rightarrow> JInt n)"

definition optional_bound :: "int \<Rightarrow> int option \<Rightarrow> bool" where
  "optional_bound minimum v = (case v of None \<Rightarrow> True | Some n \<Rightarrow> routing_bound minimum n)"

definition route_reason_ok :: "string \<Rightarrow> bool" where
  "route_reason_ok s =
     (1 \<le> length s \<and> length s \<le> 64 \<and> key_char (hd s)
      \<and> list_all (\<lambda>c. key_char c \<or> c \<in> {CHR ''_'', CHR ''.'', CHR '':'', CHR ''-''}) s)"

text \<open>\<open>RouteProvenanceOut\<close>: a value outside its bounds is a validation error of the reply.\<close>

definition route_provenance_out :: "(time \<Rightarrow> string) \<Rightarrow> route_provenance \<Rightarrow> string + json_object" where
  "route_provenance_out isoformat p =
     (case (rv_quota_state p, rv_eligible_candidate_count p, rv_reason p, rv_decision_timestamp p) of
        (Some state, Some candidates, Some reason, Some decided) \<Rightarrow>
          if rv_schema_version p = Some 1 \<and> 1 \<le> length (rv_selected_worker_id p) \<and> length (rv_selected_worker_id p) \<le> 128
             \<and> optional_bound 1 (rv_profile_revision p) \<and> optional_bound 0 (rv_estimated_cost_units p)
             \<and> routing_bound 0 (rv_required_quota_units p) \<and> routing_bound 0 (rv_reserved_quota_units p)
             \<and> routing_bound 1 candidates \<and> route_reason_ok reason
          then Inr [(''schema_version'', JInt 1), (''routing_policy'', JStr (routing_policy_value (rv_routing_policy p))),
                    (''selected_worker_id'', JStr (rv_selected_worker_id p)),
                    (''selected_routing_profile_revision'', json_int (rv_profile_revision p)),
                    (''estimated_cost_units'', json_int (rv_estimated_cost_units p)),
                    (''required_quota_units'', JInt (rv_required_quota_units p)),
                    (''reserved_quota_units'', JInt (rv_reserved_quota_units p)),
                    (''quota_reservation_state'', JStr (quota_state_value state)),
                    (''eligible_candidate_count'', JInt candidates),
                    (''explicit_pin_applied'', JBool (rv_explicit_pin_applied p)), (''reason'', JStr reason),
                    (''decision_timestamp'', JStr (isoformat decided))]
          else Inl ''route_provenance''
      | _ \<Rightarrow> Inl ''route_provenance'')"

definition json_time :: "(time \<Rightarrow> string) \<Rightarrow> time option \<Rightarrow> json" where
  "json_time isoformat t = (case t of None \<Rightarrow> JNull | Some t \<Rightarrow> JStr (isoformat t))"

text \<open>\<open>WorkOrderOut\<close>; the two audit timestamps are not columns of the modelled row.\<close>

definition work_order_fields :: "(time \<Rightarrow> string) \<Rightarrow> time \<Rightarrow> time \<Rightarrow> order_row \<Rightarrow> json \<Rightarrow> json_object" where
  "work_order_fields isoformat created updated w provenance =
     (let q = o_request w
      in [(''id'', JInt (o_id w)), (''schema_version'', JInt (oq_schema_version q)),
        (''repository_full_name'', JStr (oq_repository_full_name q)), (''commit_sha'', JStr (oq_commit_sha q)),
        (''manifest_name'', JStr (oq_manifest_name q)), (''manifest_version'', JStr (oq_manifest_version q)),
        (''manifest_digest'', JStr (oq_manifest_digest q)), (''manifest_parameters'', JObj (oq_manifest_parameters q)),
        (''required_capabilities'', JObj (oq_required_capabilities q)),
        (''permitted_paths'', JList (map JStr (oq_permitted_paths q))),
        (''forbidden_scope_notes'', JStr (oq_forbidden_scope_notes q)),
        (''expected_artifact_kinds'', JList (map JStr (oq_expected_artifact_kinds q))),
        (''approval_policy'', JStr (approval_policy_value (oq_approval_policy q))),
        (''status'', JStr (work_order_status_value (o_status w))), (''timeout_seconds'', JInt (oq_timeout_seconds q)),
        (''resource_metadata'', JObj (oq_resource_metadata q)),
        (''network_policy'', JStr (network_policy_value (oq_network_policy q))),
        (''repository_write_allowed'', JBool (oq_repository_write_allowed q)),
        (''preferred_executor'', json_text (oq_preferred_executor q)),
        (''cost_ceiling'', case oq_cost_ceiling q of None \<Rightarrow> JNull | Some s \<Rightarrow> JFloat s),
        (''routing_policy'', JStr (routing_policy_value (oq_routing_policy q))),
        (''maximum_cost_units'', json_int (oq_maximum_cost_units q)),
        (''required_quota_units'', JInt (oq_required_quota_units q)), (''attempt_count'', JInt (o_attempt_count w)),
        (''created_at'', JStr (isoformat created)), (''updated_at'', JStr (isoformat updated)),
        (''approved_at'', json_time isoformat (o_approved_at w)), (''queued_at'', json_time isoformat (o_queued_at w)),
        (''assigned_at'', json_time isoformat (o_assigned_at w)), (''started_at'', json_time isoformat (o_started_at w)),
        (''finished_at'', json_time isoformat (o_finished_at w)), (''terminal_reason'', json_text (o_terminal_reason w)),
        (''reuse_policy'', JStr (reuse_policy_value (oq_reuse_policy q))),
        (''execution_policy_hash'', JStr (oq_execution_policy_hash q)), (''route_provenance'', provenance)])"

definition work_order_out :: "(time \<Rightarrow> string) \<Rightarrow> time \<Rightarrow> time \<Rightarrow> order_row \<Rightarrow> string + json" where
  "work_order_out isoformat created updated w =
     rbind (validate_optional_no_absolute_local_path (o_terminal_reason w)) (\<lambda>_.
     rbind (case order_route_provenance w of
              None \<Rightarrow> Inr JNull | Some p \<Rightarrow> rbind (route_provenance_out isoformat p) (\<lambda>kvs. Inr (JObj kvs))) (\<lambda>provenance.
     Inr (JObj (work_order_fields isoformat created updated w provenance))))"

fun write_policy_value :: "repository_write_policy \<Rightarrow> string" where
  "write_policy_value READ_ONLY = ''read_only''"

definition command_manifest_out :: "(time \<Rightarrow> string) \<Rightarrow> time \<Rightarrow> manifest_row \<Rightarrow> json" where
  "command_manifest_out isoformat created m =
     JObj [(''id'', JInt (m_id m)), (''name'', JStr (m_name m)), (''version'', JStr (m_version m)),
       (''schema_version'', JInt (m_schema_version m)), (''digest'', JStr (m_digest m)),
       (''description'', JStr (m_description m)), (''trusted_registry_source'', JStr (m_trusted_registry_source m)),
       (''required_capabilities'', JObj (m_required_capabilities m)),
       (''fixed_step_metadata'', m_fixed_step_metadata m), (''environment_policy'', JObj (m_environment_policy m)),
       (''network_policy'', JStr (network_policy_value (m_network_policy m))),
       (''repository_write_policy'', JStr (write_policy_value (m_repository_write_policy m))),
       (''timeout_seconds'', JInt (m_timeout_seconds m)), (''artifact_declarations'', m_artifact_declarations m),
       (''created_at'', JStr (isoformat created))]"

end
