(* ===== verification/Worker_Wire_Properties.thy ===== *)
theory Worker_Wire_Properties
  imports Worker_Wire Execution_Samples
begin

text \<open>
  What the worker's decoders accept, stated without their control flow, and that the service's replies are
  among it: the metadata visitor accepts exactly the values within its limits, an admitted order is decoded to
  the row the service holds, the manifest stored for a local definition is found equal to it, and a client
  whose credential was refused sends nothing more.
\<close>

section \<open>Metadata\<close>

text \<open>The metadata the worker accepts at a depth, written out.\<close>

fun metadata_ok :: "wire_env \<Rightarrow> bool \<Rightarrow> nat \<Rightarrow> json \<Rightarrow> bool" where
  "metadata_ok we write_false d (JInt i) = (d \<le> MAX_METADATA_DEPTH \<and> \<bar>i\<bar> \<le> MAX_SAFE_INTEGER)"
| "metadata_ok we write_false d (JFloat s) = (d \<le> MAX_METADATA_DEPTH \<and> we_finite we s)"
| "metadata_ok we write_false d (JStr s) = (d \<le> MAX_METADATA_DEPTH \<and> int (length s) \<le> MAX_METADATA_STRING)"
| "metadata_ok we write_false d (JList vs) =
     (d \<le> MAX_METADATA_DEPTH \<and> length vs \<le> MAX_COLLECTION_ITEMS \<and> list_all (metadata_ok we False (Suc d)) vs)"
| "metadata_ok we write_false d (JObj kvs) =
     (d \<le> MAX_METADATA_DEPTH \<and> length kvs \<le> MAX_COLLECTION_ITEMS
      \<and> list_all (\<lambda>(k, v). entry_allowed write_false k v \<and> metadata_ok we False (Suc d) v) kvs)"
| "metadata_ok we write_false d _ = (d \<le> MAX_METADATA_DEPTH)"

definition counted :: "int \<Rightarrow> bool \<Rightarrow> int \<Rightarrow> exc + int" where
  "counted k ok n = (if n + k \<le> MAX_METADATA_NODES \<and> ok then Inr (n + k) else raise_value)"

declare visit_metadata.simps [simp del]

lemma counted_then: "0 \<le> j \<Longrightarrow> rbind (counted k b n) (counted j c) = counted (k + j) (b \<and> c) n"
  by (auto simp: counted_def raise_value_def add.assoc)

lemma visit_elements_exact:
  assumes "\<And>v n. v \<in> set vs \<Longrightarrow> visit_metadata we False v d n = counted (json_nodes v) (metadata_ok we False d v) n"
    and "n \<le> MAX_METADATA_NODES"
  shows "visit_elements we vs d n = counted (sum_list (map json_nodes vs)) (list_all (metadata_ok we False d) vs) n"
  using assms
proof (induction vs arbitrary: n)
  case (Cons v vs)
  have "rbind (counted (json_nodes v) (metadata_ok we False d v) n) (visit_elements we vs d)
    = rbind (counted (json_nodes v) (metadata_ok we False d v) n)
        (counted (sum_list (map json_nodes vs)) (list_all (metadata_ok we False d) vs))"
    using Cons.IH Cons.prems by (auto simp: counted_def raise_value_def)
  with Cons.prems show ?case by (simp add: counted_then json_nodes_sum)
qed (simp add: counted_def)

lemma visit_entries_exact:
  assumes "\<And>k v n. (k, v) \<in> set kvs \<Longrightarrow> visit_metadata we False v d n = counted (json_nodes v) (metadata_ok we False d v) n"
    and "n \<le> MAX_METADATA_NODES"
  shows "visit_entries we wf' kvs d n
    = counted (sum_list (map (\<lambda>(k, v). json_nodes v) kvs)) (list_all (\<lambda>(k, v). entry_allowed wf' k v \<and> metadata_ok we False d v) kvs) n"
  using assms
proof (induction kvs arbitrary: n)
  case (Cons kv kvs)
  obtain k v where kv: "kv = (k, v)" by fastforce
  let ?rest = "counted (sum_list (map (\<lambda>(k, v). json_nodes v) kvs)) (list_all (\<lambda>(k, v). entry_allowed wf' k v \<and> metadata_ok we False d v) kvs)"
  have v: "visit_metadata we False v d n = counted (json_nodes v) (metadata_ok we False d v) n" using Cons.prems(1) [of k v n] kv by simp
  have ih: "visit_entries we wf' kvs d k = ?rest k" if "k \<le> MAX_METADATA_NODES" for k
    using that Cons.prems(1) by (intro Cons.IH) auto
  have "rbind (counted (json_nodes v) (metadata_ok we False d v) n) (visit_entries we wf' kvs d)
    = rbind (counted (json_nodes v) (metadata_ok we False d v) n) ?rest"
    using ih by (auto simp: counted_def raise_value_def)
  moreover have "0 \<le> sum_list (map (\<lambda>(k, v). json_nodes v) kvs)"
    using json_nodes_sum [of "map snd kvs"] by (simp add: comp_def split_def)
  ultimately show ?case by (simp add: kv v counted_then) (simp add: counted_def)
qed (simp add: counted_def)

lemma visit_metadata_exact: "visit_metadata we wf' v d n = counted (json_nodes v) (metadata_ok we wf' d v) n"
proof (induction v arbitrary: wf' d n)
  case (JList vs)
  have "visit_elements we vs (Suc d) (n + 1) = counted (sum_list (map json_nodes vs)) (list_all (metadata_ok we False (Suc d)) vs) (n + 1)"
    if "n + 1 \<le> MAX_METADATA_NODES" using JList that by (intro visit_elements_exact) auto
  with json_nodes_sum [of vs] show ?case by (auto simp: counted_def raise_value_def Let_def visit_metadata.simps)
next
  case (JObj kvs)
  have "visit_entries we wf' kvs (Suc d) (n + 1)
      = counted (sum_list (map (\<lambda>(k, v). json_nodes v) kvs)) (list_all (\<lambda>(k, v). entry_allowed wf' k v \<and> metadata_ok we False (Suc d) v) kvs) (n + 1)"
    if "n + 1 \<le> MAX_METADATA_NODES" using JObj that by (intro visit_entries_exact) auto
  moreover have "0 \<le> sum_list (map (\<lambda>(k, v). json_nodes v) kvs)"
    using json_nodes_sum [of "map snd kvs"] by (simp add: comp_def split_def)
  ultimately show ?case by (auto simp: counted_def raise_value_def Let_def visit_metadata.simps)
qed (auto simp: counted_def raise_value_def Let_def visit_metadata.simps)

definition readable_metadata :: "wire_env \<Rightarrow> bool \<Rightarrow> json_object \<Rightarrow> bool" where
  "readable_metadata we write_false kvs \<longleftrightarrow> json_nodes (JObj kvs) \<le> MAX_METADATA_NODES \<and> metadata_ok we write_false 0 (JObj kvs)"

lemma metadata_mapping_exact:
  "metadata_mapping we wf' (JObj kvs) = (if readable_metadata we wf' kvs then Inr kvs else raise_value)"
  by (auto simp: metadata_mapping_def mapping_field_def visit_metadata_exact counted_def readable_metadata_def raise_value_def)

section \<open>Fields\<close>

lemma map_result_texts:
  "map_result (text_field limit True) (map JStr xs) = (if list_all (\<lambda>s. int (length s) \<le> limit) xs then Inr xs else raise_value)"
  by (induction xs) (auto simp: text_field_def raise_value_def)

lemma string_list_exact:
  "length xs \<le> m \<Longrightarrow> string_list_field limit m (JList (map JStr xs))
     = (if list_all (\<lambda>s. int (length s) \<le> limit) xs then Inr xs else raise_value)"
  by (simp add: string_list_field_def list_field_def map_result_texts)

section \<open>The reply for an order\<close>

lemma work_order_keys: "map fst (work_order_fields isoformat created updated w provenance) = WORK_ORDER_FIELDS"
  by (simp add: work_order_fields_def WORK_ORDER_FIELDS_def Let_def)

lemma get_field_simps [simp]: "get_field ((k, v) # p) k' = (if k = k' then v else get_field p k')"
  by (simp add: get_field_def)

text \<open>What makes an admitted order unreadable for a worker.\<close>

definition order_readable :: "wire_env \<Rightarrow> order_row \<Rightarrow> bool" where
  "order_readable we w \<longleftrightarrow> (let q = o_request w in
     order_route_provenance w \<noteq> None \<and> readable_metadata we False (oq_manifest_parameters q)
     \<and> readable_metadata we True (oq_required_capabilities q) \<and> readable_metadata we False (oq_resource_metadata q)
     \<and> list_all (\<lambda>s. int (length s) \<le> 512) (oq_permitted_paths q)
     \<and> list_all (\<lambda>s. int (length s) \<le> 128) (oq_expected_artifact_kinds q)
     \<and> (case oq_cost_ceiling q of None \<Rightarrow> True | Some s \<Rightarrow> we_finite we s \<and> \<not> we_negative we s))"

definition order_as_read :: "(time \<Rightarrow> py_datetime) \<Rightarrow> time \<Rightarrow> time \<Rightarrow> json_object \<Rightarrow> order_row \<Rightarrow> assigned_work_order" where
  "order_as_read instant created updated provenance w = (let q = o_request w in
     \<lparr>ao_id = o_id w, ao_repository_full_name = oq_repository_full_name q, ao_commit_sha = oq_commit_sha q,
      ao_manifest_name = oq_manifest_name q, ao_manifest_version = oq_manifest_version q, ao_manifest_digest = oq_manifest_digest q,
      ao_manifest_parameters = oq_manifest_parameters q, ao_required_capabilities = oq_required_capabilities q,
      ao_timeout_seconds = oq_timeout_seconds q, ao_network_policy = network_policy_value (oq_network_policy q),
      ao_reuse_policy = reuse_policy_value (oq_reuse_policy q), ao_execution_policy_hash = oq_execution_policy_hash q,
      aw_permitted_paths = oq_permitted_paths q, aw_forbidden_scope_notes = oq_forbidden_scope_notes q,
      aw_expected_artifact_kinds = oq_expected_artifact_kinds q, aw_status = work_order_status_value (o_status w),
      aw_resource_metadata = oq_resource_metadata q, aw_preferred_executor = oq_preferred_executor q,
      aw_cost_ceiling = map_option JFloat (oq_cost_ceiling q), aw_routing_policy = routing_policy_value (oq_routing_policy q),
      aw_maximum_cost_units = oq_maximum_cost_units q, aw_required_quota_units = oq_required_quota_units q,
      aw_attempt_count = o_attempt_count w, aw_created_at = instant created, aw_updated_at = instant updated,
      aw_approved_at = map_option instant (o_approved_at w), aw_queued_at = map_option instant (o_queued_at w),
      aw_assigned_at = map_option instant (o_assigned_at w), aw_started_at = map_option instant (o_started_at w),
      aw_finished_at = map_option instant (o_finished_at w), aw_terminal_reason = o_terminal_reason w,
      aw_route_provenance = provenance\<rparr>)"

text \<open>The instants an order's reply holds; \<open>fromisoformat\<close> reads what \<open>isoformat\<close> wrote for each of them.\<close>

definition order_times :: "time \<Rightarrow> time \<Rightarrow> order_row \<Rightarrow> time set" where
  "order_times created updated w =
     {created, updated} \<union> set_option (o_approved_at w) \<union> set_option (o_queued_at w) \<union> set_option (o_assigned_at w)
     \<union> set_option (o_started_at w) \<union> set_option (o_finished_at w) \<union> set_option (or_decided_at (o_route w))"

definition times_parse :: "wire_env \<Rightarrow> (time \<Rightarrow> string) \<Rightarrow> (time \<Rightarrow> py_datetime) \<Rightarrow> time set \<Rightarrow> bool" where
  "times_parse we isoformat instant T \<longleftrightarrow>
     (\<forall>t \<in> T. isoformat t \<noteq> [] \<and> int (length (isoformat t)) \<le> 64 \<and> CHR ''T'' \<in> set (isoformat t)
          \<and> we_fromisoformat we (replace_Z (isoformat t)) = Some (instant t))"

text \<open>The bounds on a stored request.\<close>

definition request_bounds :: "order_request \<Rightarrow> bool" where
  "request_bounds q \<longleftrightarrow> oq_schema_version q = 1
     \<and> validate_repository_full_name (oq_repository_full_name q) = Inr (oq_repository_full_name q)
     \<and> length (oq_commit_sha q) = 40 \<and> list_all is_hex (oq_commit_sha q)
     \<and> lower_hex 64 (oq_manifest_digest q) \<and> lower_hex 64 (oq_execution_policy_hash q)
     \<and> optional_bound 0 (oq_maximum_cost_units q) \<and> routing_bound 0 (oq_required_quota_units q)
     \<and> \<not> oq_repository_write_allowed q \<and> oq_manifest_name q \<noteq> [] \<and> length (oq_manifest_name q) \<le> 128
     \<and> oq_manifest_version q \<noteq> [] \<and> length (oq_manifest_version q) \<le> 64 \<and> length (oq_permitted_paths q) \<le> 128
     \<and> int (length (oq_forbidden_scope_notes q)) \<le> 4000 \<and> length (oq_expected_artifact_kinds q) \<le> 64
     \<and> 1 \<le> oq_timeout_seconds q \<and> oq_timeout_seconds q \<le> 86400
     \<and> (case oq_preferred_executor q of None \<Rightarrow> True | Some e \<Rightarrow> length e \<le> 128)"

lemma is_hex_lower: "is_hex c \<Longrightarrow> is_hex (lower_char c)"
  by (auto simp: is_hex_def lower_char_def is_digit_def)

lemma created_request_bounds:
  assumes "create_work_order env db manifest_id order_id d = Inr (db', w)" and "create_in_ok d"
    and "\<forall>t \<in> set (env_manifests env). lower_hex 64 (tm_digest t)" and "\<forall>h. env_policy_hash env d = Some h \<longrightarrow> lower_hex 64 h"
  shows "request_bounds (o_request w)"
proof -
  from assms(1) obtain t m h db1 where
    t: "get_trusted_manifest env (wd_manifest_name d) (wd_manifest_version d) = Some t"
    and m: "ensure_manifest db manifest_id t = Inr (db1, m)" and h: "env_policy_hash env d = Some h"
    and c: "repo_create_work_order db1 order_id (order_request_of d m h) = Inr (db', w)"
    by (auto simp: create_work_order_def result_simps Let_def split: if_split_asm option.split_asm)
  have t': "t \<in> set (env_manifests env)" "tm_name t = wd_manifest_name d" "tm_version t = wd_manifest_version d"
    using t by (auto simp: get_trusted_manifest_def find_Some_iff)
  have m': "m_name m = tm_name t" "m_version m = tm_version t" "m_digest m = tm_digest t"
    using m by (auto simp: ensure_manifest_def get_manifest_row_def matches_trusted_manifest_def manifest_of_def find_Some_iff
        split: option.splits if_splits)
  have q: "o_request w = order_request_of d m h"
    using c by (auto simp: repo_create_work_order_def new_order_row_def split: if_splits)
  have "list_all is_hex (lower s)" if "list_all is_hex s" for s
    using that by (simp add: lower_def list_all_iff is_hex_lower)
  then show ?thesis
    using assms(2-4) t' m' h unfolding q request_bounds_def create_in_ok_def order_request_of_def
    by (auto simp: lower_def manifest_name_ok_def optional_bound_def split: option.splits)
qed

section \<open>Decoding it\<close>

lemma repository_name_accepts:
  assumes "validate_repository_full_name r = Inr r"
  shows "repository_name (JStr r) = Inr r"
proof -
  obtain owner repository where s: "split_on (CHR ''/'') r = [owner, repository]"
    "repository_segment owner" "repository_segment repository" "owner \<notin> {''.'', ''..''}" "repository \<notin> {''.'', ''..''}"
    using assms by (auto simp: validate_repository_full_name_def split: list.splits if_splits)
  then have "r = owner @ ''/'' @ repository" using join_split [of "CHR ''/''" r] by simp
  with s have "length r \<le> 201" "r \<noteq> []" by (auto simp: repository_segment_def)
  with s show ?thesis by (auto simp: repository_name_def text_field_def repository_segment_def)
qed


text \<open>A route provenance the server replies is always readable.\<close>

definition PROVENANCE_KEYS :: "string list" where
  "PROVENANCE_KEYS =
     [''schema_version'', ''routing_policy'', ''selected_worker_id'', ''selected_routing_profile_revision'',
      ''estimated_cost_units'', ''required_quota_units'', ''reserved_quota_units'', ''quota_reservation_state'',
      ''eligible_candidate_count'', ''explicit_pin_applied'', ''reason'', ''decision_timestamp'']"

lemma provenance_keys_allowed: "k \<in> set PROVENANCE_KEYS \<Longrightarrow> entry_allowed False k v"
proof -
  have "list_all (\<lambda>k. int (length k) \<le> MAX_METADATA_KEY \<and> normalized_key k \<notin> set FORBIDDEN_EXECUTABLE_KEYS
     \<and> normalized_key k \<notin> set REPOSITORY_WRITE_KEYS) PROVENANCE_KEYS" by code_simp
  then show "k \<in> set PROVENANCE_KEYS \<Longrightarrow> entry_allowed False k v" by (auto simp: list_all_iff entry_allowed_def)
qed

lemma provenance_readable:
  assumes "route_provenance_out isoformat p = Inr kvs" and "\<forall>t. rv_decision_timestamp p = Some t \<longrightarrow> int (length (isoformat t)) \<le> 64"
  shows "readable_metadata we False kvs"
proof -
  have short: "length (routing_policy_value r) \<le> 4000" "length (quota_state_value s) \<le> 4000" for r s
    by (cases r; cases s; simp)+
  have keys: "map fst kvs = PROVENANCE_KEYS"
    using assms(1) by (auto simp: route_provenance_out_def PROVENANCE_KEYS_def split: option.splits if_splits)
  then have "entry_allowed False k v" if "(k, v) \<in> set kvs" for k v
    using that by (metis fst_conv in_set_zipE list.set_map image_eqI provenance_keys_allowed)
  moreover have "json_nodes (JObj kvs) = 13" "list_all (\<lambda>(k, v). metadata_ok we False 1 v) kvs"
    using assms short unfolding route_provenance_out_def
    by (auto simp: MAX_METADATA_DEPTH_def MAX_SAFE_INTEGER_def MAX_METADATA_STRING_def MAX_ROUTING_INTEGER_def routing_bound_def
        optional_bound_def route_reason_ok_def json_int_def split: option.splits if_splits)
  moreover have "length kvs = 12" using arg_cong [OF keys, of length] by (simp add: PROVENANCE_KEYS_def)
  ultimately show ?thesis
    by (auto simp: readable_metadata_def MAX_METADATA_DEPTH_def MAX_METADATA_NODES_def MAX_COLLECTION_ITEMS_def list_all_iff)
qed


lemma raise_value_simps [simp]:
  "rbind raise_value f = raise_value" "rbind (if b then r else raise_value) f = (if b then rbind r f else raise_value)"
  by (simp_all add: raise_value_def)

lemma datetime_fields:
  assumes "times_parse we isoformat instant T"
  shows "t \<in> T \<Longrightarrow> required_datetime_field we (JStr (isoformat t)) = Inr (instant t)"
    and "set_option t' \<subseteq> T \<Longrightarrow> optional_datetime_field we (json_time isoformat t') = Inr (map_option instant t')"
  using assms
  by (auto simp: times_parse_def required_datetime_field_def optional_datetime_field_def text_field_def json_time_def simp flip: not_le split: option.splits)

lemma value_fields:
  "rbind (text_field 32 False (JStr (reuse_policy_value a))) (one_of [''never'', ''allow_exact'', ''require_exact'']) = Inr (reuse_policy_value a)"
  "rbind (text_field 32 False (JStr (routing_policy_value b))) (one_of [''first_available'', ''cheapest_capable'']) = Inr (routing_policy_value b)"
  "rbind (text_field 256 False (JStr (network_policy_value c))) (one_of [''disabled'', ''worker_restricted'']) = Inr (network_policy_value c)"
  "rbind (text_field 256 False (JStr (approval_policy_value d))) (one_of [''explicit'']) = Inr (approval_policy_value d)"
  "s \<in> {WO_ASSIGNED, WO_RUNNING} \<Longrightarrow>
     rbind (text_field 256 False (JStr (work_order_status_value s))) (one_of [''assigned'', ''running'']) = Inr (work_order_status_value s)"
      apply (cases a; simp add: text_field_def one_of_def)
     apply (cases b; simp add: text_field_def one_of_def)
    apply (cases c; simp add: text_field_def one_of_def)
   apply (cases d; simp add: text_field_def one_of_def)
  by (auto simp: text_field_def one_of_def)

lemma optional_fields:
  "optional_bound 0 n \<Longrightarrow> optional_integer_field MAX_ROUTING_INTEGER (json_int n) = Inr n"
  "(case e of None \<Rightarrow> True | Some s \<Rightarrow> int (length s) \<le> m) \<Longrightarrow> optional_text_field m (json_text e) = Inr e"
  "optional_number_field we (case c of None \<Rightarrow> JNull | Some s \<Rightarrow> JFloat s)
     = (if (case c of None \<Rightarrow> True | Some s \<Rightarrow> we_finite we s \<and> \<not> we_negative we s) then Inr (map_option JFloat c) else raise_value)"
  by (auto simp: optional_bound_def optional_integer_field_def json_int_def integer_field_def routing_bound_def
      optional_text_field_def json_text_def text_field_def optional_number_field_def split: option.splits)


lemma plain_fields:
  "a \<le> n \<Longrightarrow> n \<le> b \<Longrightarrow> integer_field a b (JInt n) = Inr n"
  "s \<noteq> [] \<Longrightarrow> int (length s) \<le> m \<Longrightarrow> text_field m False (JStr s) = Inr s"
  "int (length s) \<le> m \<Longrightarrow> text_field m True (JStr s) = Inr s"
  "lower_hex 64 s \<Longrightarrow> digest_field (JStr s) = Inr s"
  by (auto simp: integer_field_def text_field_def digest_field_def lower_hex_def)

text \<open>A row a worker is given: assigned or running, its numbers in the range of the wire.\<close>

definition row_bounds :: "order_row \<Rightarrow> bool" where
  "row_bounds w \<longleftrightarrow> o_status w \<in> {WO_ASSIGNED, WO_RUNNING} \<and> 1 \<le> o_id w \<and> o_id w \<le> MAX_SAFE_INTEGER
     \<and> 0 \<le> o_attempt_count w \<and> o_attempt_count w \<le> MAX_SAFE_INTEGER
     \<and> (case o_terminal_reason w of None \<Rightarrow> True | Some s \<Rightarrow> int (length s) \<le> 4000)"

lemma hash_text: "lower_hex n s \<Longrightarrow> 0 < n \<Longrightarrow> s \<noteq> [] \<and> int (length s) \<le> int n"
  by (auto simp: lower_hex_def)

lemma fields_decoded:
  assumes "request_bounds (o_request w)" and "row_bounds w" and times: "times_parse we isoformat instant (order_times created updated w)"
    and p: "metadata_mapping we False provenance = (if ok then Inr kvs else raise_value)"
    and ok: "ok \<longleftrightarrow> order_route_provenance w \<noteq> None"
  shows "assigned_work_order_of_payload we (JObj (work_order_fields isoformat created updated w provenance))
    = (if order_readable we w then Inr (order_as_read instant created updated kvs w) else raise_value)"
proof -
  let ?q = "o_request w" and ?p = "work_order_fields isoformat created updated w provenance"
  note b = assms(1) [unfolded request_bounds_def] and r = assms(2) [unfolded row_bounds_def]
  have s: "set (map fst ?p) = set WORK_ORDER_FIELDS" by (simp only: work_order_keys)
  have id: "positive_field (JInt (o_id w)) = Inr (o_id w)" using r by (simp add: positive_field_def plain_fields)
  have name: "repository_name (JStr (oq_repository_full_name ?q)) = Inr (oq_repository_full_name ?q)"
    using b by (intro repository_name_accepts) simp
  have digest: "text_field 64 False (JStr (oq_manifest_digest ?q)) = Inr (oq_manifest_digest ?q)"
    using b hash_text [of 64 "oq_manifest_digest ?q"] by (intro plain_fields) auto
  have sha: "text_field 40 False (JStr (oq_commit_sha ?q)) = Inr (oq_commit_sha ?q)" using b by (intro plain_fields) auto
  have executor: "optional_text_field 128 (json_text (oq_preferred_executor ?q)) = Inr (oq_preferred_executor ?q)"
    using b by (intro optional_fields) (auto split: option.splits)
  have reason: "optional_text_field 4000 (json_text (o_terminal_reason w)) = Inr (o_terminal_reason w)"
    using r by (intro optional_fields) (auto split: option.splits)
  have cost: "optional_integer_field MAX_ROUTING_INTEGER (json_int (oq_maximum_cost_units ?q)) = Inr (oq_maximum_cost_units ?q)"
    using b by (intro optional_fields) simp
  have stamp: "required_datetime_field we (JStr (isoformat t)) = Inr (instant t)" if "t = created \<or> t = updated" for t
    using that by (intro datetime_fields [OF times]) (auto simp: order_times_def)
  have stamps: "optional_datetime_field we (json_time isoformat t) = Inr (map_option instant t)"
    if "t \<in> {o_approved_at w, o_queued_at w, o_assigned_at w, o_started_at w, o_finished_at w}" for t
    using that by (intro datetime_fields [OF times]) (auto simp: order_times_def)
  show ?thesis
    unfolding assigned_work_order_of_payload_def mapping_field_def json.case Let_def rbind.simps s
    using b r
    by (cases "order_route_provenance w") (simp_all add: work_order_fields_def Let_def id name digest sha executor reason cost p value_fields plain_fields stamp stamps
        optional_fields(3) metadata_mapping_exact string_list_exact routing_bound_def order_as_read_def order_readable_def ok)
qed


lemma reply_decoded:
  assumes out: "work_order_out isoformat created updated w = Inr payload" and "request_bounds (o_request w)" "row_bounds w"
    and times: "times_parse we isoformat instant (order_times created updated w)"
  obtains kvs where "assigned_work_order_of_payload we payload
      = (if order_readable we w then Inr (order_as_read instant created updated kvs w) else raise_value)"
    and "\<And>p. order_route_provenance w = Some p \<Longrightarrow> route_provenance_out isoformat p = Inr kvs"
proof (cases "order_route_provenance w")
  case None
  then have p: "payload = JObj (work_order_fields isoformat created updated w JNull)"
    using out by (simp add: work_order_out_def result_simps)
  have "metadata_mapping we False JNull = (if False then Inr [] else raise_value)"
    by (simp add: metadata_mapping_def mapping_field_def)
  from fields_decoded [OF assms(2-4) this] None
  have "assigned_work_order_of_payload we payload
      = (if order_readable we w then Inr (order_as_read instant created updated [] w) else raise_value)" by (simp add: p)
  then show thesis using None by (intro that) simp_all
next
  case (Some p)
  then obtain kvs where k: "route_provenance_out isoformat p = Inr kvs"
    "payload = JObj (work_order_fields isoformat created updated w (JObj kvs))"
    using out by (auto simp: work_order_out_def result_simps)
  have "readable_metadata we False kvs" using k(1) times Some by (intro provenance_readable) (auto simp: times_parse_def order_times_def order_route_provenance_def Let_def split: option.splits)
  then have "metadata_mapping we False (JObj kvs) = (if True then Inr kvs else raise_value)" by (simp add: metadata_mapping_exact)
  from fields_decoded [OF assms(2-4) this] Some
  have "assigned_work_order_of_payload we payload
      = (if order_readable we w then Inr (order_as_read instant created updated kvs w) else raise_value)" by (simp add: k(2))
  then show thesis using k(1) Some by (intro that) simp_all
qed


text \<open>C20. A worker understands what the service serves. Take any order the service admitted from a
  validated request (\<open>create_work_order\<close> on a draft within the bounds of \<open>WorkOrderCreateIn\<close>), stored with the digests
  of the registry, and any later row of that order in which it is assigned or running. Then the reply the server
  sends for it is decoded by the worker's strict decoder to exactly the order stored: every one of the 35 fields,
  timestamps as the instants they denote. The worker refuses the reply in precisely one situation: when the order
  has no routing decision, or carries metadata, paths, artifact kinds or a cost ceiling beyond the worker's own
  limits, which the server's input contract does not have.\<close>

theorem served_order_understood:
  assumes "create_work_order env db manifest_id order_id d = Inr (db', w0)" and "create_in_ok d"
    and "\<forall>t \<in> set (env_manifests env). lower_hex 64 (tm_digest t)" and "\<forall>h. env_policy_hash env d = Some h \<longrightarrow> lower_hex 64 h"
    and "o_request w = o_request w0" and "row_bounds w"
    and "times_parse we isoformat instant (order_times created updated w)"
    and "work_order_out isoformat created updated w = Inr payload"
  shows "\<exists>provenance. assigned_work_order_of_payload we payload
      = (if order_readable we w then Inr (order_as_read instant created updated provenance w) else raise_value)
     \<and> (\<forall>p. order_route_provenance w = Some p \<longrightarrow> route_provenance_out isoformat p = Inr provenance)"
proof -
  have "request_bounds (o_request w)" using created_request_bounds [OF assms(1-4)] assms(5) by simp
  from reply_decoded [OF assms(8) this assms(6,7)] show ?thesis by metis
qed


section \<open>A sample order on the wire\<close>

definition wire_service :: service_env where
  "wire_service = sample_env\<lparr>env_manifests := [sample_manifest\<lparr>tm_digest := replicate 64 (CHR ''d'')\<rparr>],
     env_policy_hash := (\<lambda>_. Some (replicate 64 (CHR ''e'')))\<rparr>"

definition wire_created :: "exec_db \<times> order_row" where
  "wire_created = projr (create_work_order wire_service empty_exec_db 1 7 (sample_draft FIRST_AVAILABLE 0))"

definition wire_row :: order_row where
  "wire_row = (snd wire_created)\<lparr>o_status := WO_RUNNING, o_attempt_count := 1, o_started_at := Some 5,
       o_route := \<lparr>or_schema_version = Some 1, or_selected_worker_id = Some ''alpha'', or_profile_revision = None,
         or_estimated_cost_units = None, or_reserved_quota_units = 0, or_quota_state = Some QUOTA_NOT_REQUIRED,
         or_eligible_candidate_count = Some 1, or_explicit_pin_applied = False, or_reason = Some ''selected'',
         or_decided_at = Some 5\<rparr>\<rparr>"

text \<open>Instants 1, 2, 5 and their texts.\<close>

definition wire_text :: "time \<Rightarrow> string" where
  "wire_text t = ''2024-01-01T00:00:0'' @ show_int t @ ''Z''"

definition wire_sample :: wire_env where
  "wire_sample = \<lparr>we_fromisoformat = (\<lambda>s. map_option (\<lambda>t. Aware t 0) (List.find (\<lambda>t. replace_Z (wire_text t) = s) [1, 2, 5])),
     we_finite = (\<lambda>_. True), we_negative = (\<lambda>_. False), we_candidate = (\<lambda>_. raise_value)\<rparr>"


theorem served_order_understood_witness:
  "\<exists>payload provenance. work_order_out wire_text 1 2 wire_row = Inr payload
     \<and> assigned_work_order_of_payload wire_sample payload = Inr (order_as_read (\<lambda>t. Aware t 0) 1 2 provenance wire_row)"
proof -
  have "\<not> isl (create_work_order wire_service empty_exec_db 1 7 (sample_draft FIRST_AVAILABLE 0))" by code_simp
  then have c: "create_work_order wire_service empty_exec_db 1 7 (sample_draft FIRST_AVAILABLE 0) = Inr (fst wire_created, snd wire_created)"
    by (simp add: wire_created_def)
  have d: "create_in_ok (sample_draft FIRST_AVAILABLE 0)" by code_simp
  have m: "\<forall>t \<in> set (env_manifests wire_service). lower_hex 64 (tm_digest t)" by code_simp
  have h': "lower_hex 64 (replicate 64 (CHR ''e''))" by code_simp
  have h: "\<forall>h. env_policy_hash wire_service (sample_draft FIRST_AVAILABLE 0) = Some h \<longrightarrow> lower_hex 64 h"
    using h' by (simp add: wire_service_def)
  have q: "o_request wire_row = o_request (snd wire_created)" by (simp add: wire_row_def)
  have b: "row_bounds wire_row" by code_simp
  have "list_all (\<lambda>x. x = None) [o_approved_at wire_row, o_queued_at wire_row, o_assigned_at wire_row, o_finished_at wire_row]" by code_simp
  then have "order_times 1 2 wire_row = {1, 2, 5}" by (auto simp: order_times_def wire_row_def)
  moreover have "list_all (\<lambda>t. wire_text t \<noteq> [] \<and> int (length (wire_text t)) \<le> 64 \<and> CHR ''T'' \<in> set (wire_text t)
     \<and> we_fromisoformat wire_sample (replace_Z (wire_text t)) = Some (Aware t 0)) [1, 2, 5]" by code_simp
  ultimately have t: "times_parse wire_sample wire_text (\<lambda>t. Aware t 0) (order_times 1 2 wire_row)" by (simp add: times_parse_def)
  have "\<not> isl (work_order_out wire_text 1 2 wire_row)" by code_simp
  then obtain payload where p: "work_order_out wire_text 1 2 wire_row = Inr payload" by (cases "work_order_out wire_text 1 2 wire_row") auto
  have "order_readable wire_sample wire_row" by code_simp
  with p served_order_understood [OF c d m h q b t p] show ?thesis by auto
qed

section \<open>The reply for a manifest\<close>

fun object_list :: "json \<Rightarrow> bool" where
  "object_list (JList vs) = (length vs \<le> MAX_COLLECTION_ITEMS \<and> list_all is_JObj vs)"
| "object_list _ = False"

text \<open>A manifest of the registry, within the limits of the wire.\<close>

definition manifest_in_bounds :: "trusted_manifest \<Rightarrow> bool" where
  "manifest_in_bounds t \<longleftrightarrow> lower_hex 64 (tm_digest t) \<and> tm_name t \<noteq> [] \<and> length (tm_name t) \<le> 256
     \<and> tm_version t \<noteq> [] \<and> length (tm_version t) \<le> 256 \<and> tm_registry_source t \<noteq> [] \<and> length (tm_registry_source t) \<le> 256
     \<and> tm_description t \<noteq> [] \<and> length (tm_description t) \<le> 4000 \<and> 1 \<le> tm_timeout_seconds t \<and> tm_timeout_seconds t \<le> MAX_SAFE_INTEGER
     \<and> 1 \<le> tm_schema_version t \<and> tm_schema_version t \<le> MAX_SAFE_INTEGER
     \<and> object_list (tm_fixed_step_metadata t) \<and> object_list (tm_artifact_declarations t)
     \<and> json_ok (tm_fixed_step_metadata t) \<and> json_ok (tm_artifact_declarations t)
     \<and> json_ok (JObj (tm_required_capabilities t)) \<and> json_ok (JObj (tm_environment_policy t))"

lemma object_list_eq:
  assumes "py_eq v u" "object_list u"
  obtains vs where "v = JList vs" "length vs \<le> MAX_COLLECTION_ITEMS" "list_all is_JObj vs"
proof -
  obtain us where u: "u = JList us" "length us \<le> MAX_COLLECTION_ITEMS" "list_all is_JObj us"
    using assms(2) by (cases u) auto
  with assms(1) obtain vs where v: "v = JList vs" "list_all2 py_eq vs us" by (cases v) auto
  have "is_JObj x" if "py_eq x y" "is_JObj y" for x y using that by (cases x; cases y) auto
  with v(2) u(3) have "list_all is_JObj vs" by (induction rule: list_all2_induct) auto
  with v u list_all2_lengthD [OF v(2)] show thesis by (intro that [of vs]) auto
qed

lemma ensured_row_agrees:
  assumes "ensure_manifest db i t = Inr (db', row)" and "manifest_in_bounds t"
  shows "m_name row = tm_name t" "m_version row = tm_version t" "matches_trusted_manifest row t"
proof -
  have "matches_trusted_manifest (manifest_of i t) t"
    using assms(2) by (simp add: manifest_in_bounds_def matches_trusted_manifest_def manifest_of_def py_eq_refl obj_eq_refl)
  then show "m_name row = tm_name t" "m_version row = tm_version t" "matches_trusted_manifest row t"
    using assms(1) by (auto simp: ensure_manifest_def get_manifest_row_def manifest_of_def find_Some_iff split: option.splits if_splits)
qed

text \<open>The worker decodes the manifest the server stored for a local definition and finds it equal to that definition.\<close>

lemma served_manifest_accepted:
  assumes "ensure_manifest db i (trusted_manifest.truncate m) = Inr (db', row)" and "manifest_in_bounds (trusted_manifest.truncate m)"
    and "ao_manifest_name order = tm_name m" "ao_manifest_version order = tm_version m" "ao_manifest_digest order = tm_digest m"
  shows "\<exists>r. safe_manifest_of_payload (command_manifest_out isoformat created row) = Inr r \<and> remote_matches m r order"
proof -
  note row = ensured_row_agrees [OF assms(1,2), simplified trusted_manifest.defs, simplified] and b = assms(2) [unfolded manifest_in_bounds_def trusted_manifest.defs, simplified]
  have e: "matches_trusted_manifest row (trusted_manifest.truncate m)" using ensured_row_agrees(3) [OF assms(1,2)] .
  then have "py_eq (m_fixed_step_metadata row) (tm_fixed_step_metadata m)" "py_eq (m_artifact_declarations row) (tm_artifact_declarations m)"
    by (simp_all add: matches_trusted_manifest_def trusted_manifest.defs)
  then obtain steps arts where s: "m_fixed_step_metadata row = JList steps" "length steps \<le> MAX_COLLECTION_ITEMS" "list_all is_JObj steps"
    and a: "m_artifact_declarations row = JList arts" "length arts \<le> MAX_COLLECTION_ITEMS" "list_all is_JObj arts"
    using b by (metis object_list_eq)
  have n: "network_policy_value x \<in> {''disabled'', ''worker_restricted''}" "length (network_policy_value x) \<le> 256"
      "network_policy_value x \<noteq> []" for x by (cases x; simp)+
  have n': "(network_policy_value x \<noteq> ''disabled'' \<and> network_policy_value x \<noteq> ''worker_restricted'') = False" for x
    using n(1) [of x] by auto
  have w: "write_policy_value x = ''read_only''" for x by (cases x) simp
  have ro: "text_field 256 False (JStr ''read_only'') = Inr ''read_only''" by (simp add: text_field_def)
  show ?thesis
    using b e row(1,2) s a assms(3-5)
    by (simp add: safe_manifest_of_payload_def command_manifest_out_def mapping_field_def plain_fields positive_field_def list_field_def
        Let_def n n' w ro remote_matches_def matches_trusted_manifest_def trusted_manifest.defs)
qed

section \<open>A refused credential\<close>

text \<open>The session after a sequence of requests.\<close>

fun client_requests :: "'g session \<Rightarrow> client_request list \<Rightarrow> 'g client \<Rightarrow> 'g client" where
  "client_requests send [] c = c"
| "client_requests send (q # qs) c = client_requests send qs (fst (client_request_json send q c))"

lemma refused_client_is_silent:
  assumes "client_request_json send q c = (c', Inl ExecutionCredentialRejectedError)"
    and "\<And>q g g' e. send q g = (g', Inl e) \<Longrightarrow> e \<noteq> ExecutionCredentialRejectedError"
    and "\<And>q g g' r e. send q g = (g', Inr r) \<Longrightarrow> cr_json r = Inl e \<Longrightarrow> e \<noteq> ExecutionCredentialRejectedError"
  shows "client_requests send qs c' = c'"
proof -
  have "cl_credential_rejected c'"
    using assms(1) assms(2) [of q "cl_session c"] assms(3) [of q "cl_session c"]
    by (auto simp: client_request_json_def split: if_splits prod.splits sum.splits)
  then have "client_request_json send q' c' = (c', Inl ExecutionCredentialRejectedError)" for q'
    by (simp add: client_request_json_def)
  then show ?thesis by (induction qs) simp_all
qed

end
