(* ===== verification/Result_Parsers.thy ===== *)
theory Result_Parsers
  imports Complex_Main Worker_Policy
begin

text \<open>
  The result parsers a reviewed manifest step selects, after
  \<^verbatim>\<open>client/python/execution_worker/parsers.py\<close>: the counts and percentages read from the output of a
  test run, the quality report read from the checkout, the step's result contract and its enforcement.

  A regular expression of the source is the function that finds its matches. Texts are code points below 256.
  \<open>float(text)\<close> is the parameter \<open>fp\<close> (\<open>None\<close> for an infinity or a NaN), \<open>bytes.decode\<close> and
  \<open>json.loads\<close> are parameters of the environment, and so is the file system: each call takes and returns a
  world, and the descriptors that are open are tracked.
\<close>

section \<open>Text\<close>

definition MAX_PARSE_BYTES :: nat where
  "MAX_PARSE_BYTES = 1024 * 1024"

definition MAX_QUALITY_SUMMARY_BYTES :: nat where
  "MAX_QUALITY_SUMMARY_BYTES = 128 * 1024"

definition MAX_QUALITY_COVERAGE_BYTES :: int where
  "MAX_QUALITY_COVERAGE_BYTES = 2 * 1024 * 1024"

definition MAX_RESULT_RECORDS :: int where
  "MAX_RESULT_RECORDS = 10000000"

definition MAX_COVERAGE_PERCENT :: int where
  "MAX_COVERAGE_PERCENT = 100"

definition QUALITY_COVERAGE_THRESHOLD :: int where
  "QUALITY_COVERAGE_THRESHOLD = 85"

text \<open>A word character of a regular expression, among code points below 256.\<close>

definition word_char :: "char \<Rightarrow> bool" where
  "word_char c = (let n = (of_char c :: nat) in
     is_digit c \<or> c = CHR ''_'' \<or> (65 \<le> n \<and> n \<le> 90) \<or> (97 \<le> n \<and> n \<le> 122)
     \<or> n \<in> {170, 178, 179, 181, 185, 186, 188, 189, 190} \<or> (192 \<le> n \<and> n \<noteq> 215 \<and> n \<noteq> 247))"

text \<open>What follows a number in a match: a blank, one of the words and a word boundary.\<close>

definition counted_word :: "string list \<Rightarrow> string \<Rightarrow> bool" where
  "counted_word ws s = list_ex (\<lambda>w. take (Suc (length w)) s = CHR '' '' # w
     \<and> (case drop (Suc (length w)) s of [] \<Rightarrow> True | c # _ \<Rightarrow> \<not> word_char c)) ws"

text \<open>The matches of \<^verbatim>\<open>(?P<count>\d+) word\b\<close>, left to right.\<close>

function counts_in :: "string list \<Rightarrow> string \<Rightarrow> string list" where
  "counts_in ws [] = []"
| "counts_in ws (c # s) =
     (if is_digit c
      then (if counted_word ws (dropWhile is_digit s) then [c # takeWhile is_digit s] else [])
           @ counts_in ws (dropWhile is_digit s)
      else counts_in ws s)"
  by pat_completeness auto
termination by (relation "measure (\<lambda>(ws, s). length s)") (auto simp: le_imp_less_Suc length_dropWhile_le)

text \<open>\<open>int(digits)\<close>: longer numerals than 4300 digits are refused.\<close>

definition int_of_digits :: "string \<Rightarrow> exc + int" where
  "int_of_digits ds = (if int (length ds) > 4300 then raise_value else Inr (int (parse_nat ds)))"

definition last_count :: "string list \<Rightarrow> string \<Rightarrow> exc + int" where
  "last_count ws s = (let ms = counts_in ws s in if ms = [] then Inr 0 else int_of_digits (last ms))"

definition record_bound :: "int \<Rightarrow> bool" where
  "record_bound n = (0 \<le> n \<and> n \<le> 10000000)"

definition new_test_counts :: "parsed_test_counts \<Rightarrow> exc + parsed_test_counts" where
  "new_test_counts c =
     (if list_all record_bound [pt_passed c, pt_failed c, pt_skipped c, pt_errors c, pt_xfailed c, pt_xpassed c, pt_total c]
         \<and> validate_total c
      then Inr c else raise_value)"

definition pytest_counts :: "string \<Rightarrow> exc + parsed_test_counts option" where
  "pytest_counts text =
     rbind (last_count [''passed''] text) (\<lambda>passed.
     rbind (last_count [''failed''] text) (\<lambda>failed.
     rbind (last_count [''skipped''] text) (\<lambda>skipped.
     rbind (last_count [''errors'', ''error''] text) (\<lambda>errors.
     rbind (last_count [''xfailed''] text) (\<lambda>xfailed.
     rbind (last_count [''xpassed''] text) (\<lambda>xpassed.
       let total = passed + failed + skipped + errors + xfailed + xpassed
       in if total = 0 then Inr None
          else rbind (new_test_counts \<lparr>pt_passed = passed, pt_failed = failed, pt_skipped = skipped, pt_errors = errors,
                 pt_xfailed = xfailed, pt_xpassed = xpassed, pt_total = total\<rparr>) (\<lambda>c. Inr (Some c))))))))"

text \<open>\<open>str.splitlines\<close> and \<open>str.strip\<close>.\<close>

definition is_break :: "char \<Rightarrow> bool" where
  "is_break c = ((of_char c :: nat) \<in> {10, 11, 12, 13, 28, 29, 30, 133})"

function splitlines :: "string \<Rightarrow> string list" where
  "splitlines [] = []"
| "splitlines (c # s) =
     takeWhile (\<lambda>c. \<not> is_break c) (c # s) #
     (case dropWhile (\<lambda>c. \<not> is_break c) (c # s) of
        [] \<Rightarrow> []
      | b # r \<Rightarrow> if b = CHR 0x0D \<and> take 1 r = [CHR 0x0A] then splitlines (tl r) else splitlines r)"
  by pat_completeness auto
termination
proof (relation "measure length")
  fix c s b and r :: string
  assume "dropWhile (\<lambda>c. \<not> is_break c) (c # s) = b # r"
  then have "length (b # r) \<le> length (c # s)" by (metis length_dropWhile_le)
  then show "(tl r, c # s) \<in> measure length" "(r, c # s) \<in> measure length" by auto
qed simp

definition strip_text :: "string \<Rightarrow> string" where
  "strip_text s = rev (dropWhile re_space (rev (dropWhile re_space s)))"

text \<open>A match of \<^verbatim>\<open>(?P<percent>\d+(?:\.\d+)?)%\<close> at the start of a text, and the first one in it.\<close>

definition percent_at :: "string \<Rightarrow> string option" where
  "percent_at s =
     (let ds = takeWhile is_digit s; r = dropWhile is_digit s; fs = takeWhile is_digit (tl r)
      in if ds = [] then None
         else if take 1 r = ''%'' then Some ds
         else if take 1 r = ''.'' \<and> fs \<noteq> [] \<and> take 1 (dropWhile is_digit (tl r)) = ''%'' then Some (ds @ ''.'' @ fs)
         else None)"

fun first_percent :: "string \<Rightarrow> string option" where
  "first_percent [] = None"
| "first_percent (c # s) = (case percent_at (c # s) of Some p \<Rightarrow> Some p | None \<Rightarrow> first_percent s)"

definition new_coverage :: "(string \<Rightarrow> rat option) \<Rightarrow> string \<Rightarrow> exc + parsed_coverage" where
  "new_coverage fp number =
     (case fp number of
        None \<Rightarrow> raise_value
      | Some q \<Rightarrow> if 0 \<le> q \<and> q \<le> 100
                  then Inr \<lparr>pc_measured_percent = number, pc_covered_lines = None, pc_total_lines = None\<rparr> else raise_value)"

definition coverage_line :: "string \<Rightarrow> bool" where
  "coverage_line l = (take 5 l = ''TOTAL'' \<or> contains ''line coverage'' (lower l))"

text \<open>The lines are given from the last to the first.\<close>

fun coverage_from :: "(string \<Rightarrow> rat option) \<Rightarrow> string list \<Rightarrow> exc + parsed_coverage option" where
  "coverage_from fp [] = Inr None"
| "coverage_from fp (line # ls) =
     (let normalized = strip_text line
      in if \<not> coverage_line normalized then coverage_from fp ls
         else case first_percent normalized of
                None \<Rightarrow> coverage_from fp ls
              | Some p \<Rightarrow> rbind (new_coverage fp p) (\<lambda>c. Inr (Some c)))"

definition coverage_of_text :: "(string \<Rightarrow> rat option) \<Rightarrow> string \<Rightarrow> exc + parsed_coverage option" where
  "coverage_of_text fp text = coverage_from fp (rev (splitlines text))"

text \<open>\<open>text.count(sub)\<close>, without overlaps.\<close>

function count_text :: "string \<Rightarrow> string \<Rightarrow> nat" where
  "count_text pat [] = 0"
| "count_text pat (c # s) =
     (if pat \<noteq> [] \<and> take (length pat) (c # s) = pat then Suc (count_text pat (drop (length pat) (c # s))) else count_text pat s)"
  by pat_completeness auto
termination by (relation "measure (\<lambda>(pat, s). length s)") auto


section \<open>Reports of the checkout\<close>

record stat_result =
  st_is_lnk :: bool
  st_is_dir :: bool
  st_is_reg :: bool
  st_reparse :: bool
  st_dev :: int
  st_ino :: int
  st_size :: int
  st_mtime_ns :: int
  st_ctime_ns :: int

definition is_reparse :: "stat_result \<Rightarrow> bool" where
  "is_reparse m = (st_is_lnk m \<or> st_reparse m)"

definition same_file_identity :: "bool \<Rightarrow> stat_result \<Rightarrow> stat_result \<Rightarrow> bool" where
  "same_file_identity nt a b =
     (st_dev a = st_dev b \<and> st_ino a = st_ino b \<and> st_size a = st_size b \<and> st_mtime_ns a = st_mtime_ns b
      \<and> (nt \<or> st_ctime_ns a = st_ctime_ns b))"

text \<open>\<open>PurePosixPath(value).parts\<close> of an absolute path starts with its root.\<close>

definition result_path_parts :: "string \<Rightarrow> exc + string list" where
  "result_path_parts p =
     (if posix_parts p = [] \<or> take 1 p = ''/'' \<or> list_ex (\<lambda>part. part \<in> {[], ''.'', ''..''}) (posix_parts p)
      then raise_value else Inr (posix_parts p))"

text \<open>
  The calls of the operating system: names are given relative to the root of the checkout (\<open>None\<close> the root
  itself), a descriptor relative to which a name is opened comes first. \<open>osc_nt\<close> is \<open>os.name == 'nt'\<close>,
  \<open>osc_no_follow\<close> that \<open>O_DIRECTORY\<close> and \<open>O_NOFOLLOW\<close> exist.
\<close>

record 'g os_calls =
  osc_nt :: bool
  osc_no_follow :: bool
  osc_lstat :: "string list \<Rightarrow> 'g \<Rightarrow> 'g \<times> (exc + stat_result)"
  osc_open_root :: "'g \<Rightarrow> 'g \<times> (exc + int)"
  osc_open_directory :: "int \<Rightarrow> string \<Rightarrow> 'g \<Rightarrow> 'g \<times> (exc + int)"
  osc_open_file :: "int \<Rightarrow> string \<Rightarrow> 'g \<Rightarrow> 'g \<times> (exc + int)"
  osc_open_path :: "string list \<Rightarrow> 'g \<Rightarrow> 'g \<times> (exc + int)"
  osc_fstat :: "int \<Rightarrow> 'g \<Rightarrow> 'g \<times> (exc + stat_result)"
  osc_read :: "int \<Rightarrow> nat \<Rightarrow> 'g \<Rightarrow> 'g \<times> (exc + string)"
  osc_close :: "int \<Rightarrow> 'g \<Rightarrow> 'g"

text \<open>A computation over the world and the descriptors it holds open.\<close>

type_synonym 'g desk = "int multiset \<times> 'g"
type_synonym ('g, 'a) io = "'g desk \<Rightarrow> 'g desk \<times> (exc + 'a)"

definition io_return :: "exc + 'a \<Rightarrow> ('g, 'a) io" where
  "io_return r d = (d, r)"

definition io_bind :: "('g, 'a) io \<Rightarrow> ('a \<Rightarrow> ('g, 'b) io) \<Rightarrow> ('g, 'b) io" where
  "io_bind m f d = (case m d of (d', Inl e) \<Rightarrow> (d', Inl e) | (d', Inr x) \<Rightarrow> f x d')"

definition io_finally :: "('g, 'a) io \<Rightarrow> ('g desk \<Rightarrow> 'g desk) \<Rightarrow> ('g, 'a) io" where
  "io_finally m f d = (case m d of (d', r) \<Rightarrow> (f d', r))"

text \<open>\<open>except OSError: raise ValueError\<close>.\<close>

definition io_except_os :: "('g, 'a) io \<Rightarrow> ('g, 'a) io" where
  "io_except_os m d = (case m d of (d', Inl e) \<Rightarrow> (d', if is_os_error e then raise_value else Inl e) | r \<Rightarrow> r)"

definition io_call :: "('g \<Rightarrow> 'g \<times> (exc + 'a)) \<Rightarrow> ('g, 'a) io" where
  "io_call op d = (case op (snd d) of (g, r) \<Rightarrow> ((fst d, g), r))"

definition io_open :: "('g \<Rightarrow> 'g \<times> (exc + int)) \<Rightarrow> ('g, int) io" where
  "io_open op d =
     (case op (snd d) of (g, Inl e) \<Rightarrow> ((fst d, g), Inl e) | (g, Inr fd) \<Rightarrow> ((add_mset fd (fst d), g), Inr fd))"

definition close_fd :: "'g os_calls \<Rightarrow> int \<Rightarrow> 'g desk \<Rightarrow> 'g desk" where
  "close_fd os fd d = (fst d - {#fd#}, osc_close os fd (snd d))"

definition assert_regular_checkout_root :: "'g os_calls \<Rightarrow> ('g, unit) io" where
  "assert_regular_checkout_root os =
     io_bind (io_call (osc_lstat os [])) (\<lambda>m.
       io_return (if is_reparse m \<or> \<not> st_is_dir m then raise_value else Inr ()))"

text \<open>The directory handles are opened one below the other and closed in reverse, whatever happens.\<close>

fun open_below :: "'g os_calls \<Rightarrow> int list \<Rightarrow> int \<Rightarrow> string list \<Rightarrow> ('g, int) io" where
  "open_below os fds fd [] = io_finally (io_return (Inl (OtherError ''IndexError''))) (fold (close_fd os) fds)"
| "open_below os fds fd [part] = io_finally (io_open (osc_open_file os fd part)) (fold (close_fd os) fds)"
| "open_below os fds fd (part # parts) =
     (\<lambda>d. case io_open (osc_open_directory os fd part) d of
        (d', Inl e) \<Rightarrow> (fold (close_fd os) fds d', Inl e)
      | (d', Inr fd') \<Rightarrow> open_below os (fd' # fds) fd' parts d')"

definition open_posix_report :: "'g os_calls \<Rightarrow> string list \<Rightarrow> ('g, int) io" where
  "open_posix_report os parts =
     (if \<not> osc_no_follow os then io_return raise_value
      else io_except_os (io_bind (io_open (osc_open_root os)) (\<lambda>fd. open_below os [fd] fd parts)))"

fun no_reparse :: "'g os_calls \<Rightarrow> string list \<Rightarrow> string list \<Rightarrow> ('g, unit) io" where
  "no_reparse os current [] = io_return (Inr ())"
| "no_reparse os current (part # parts) =
     io_bind (io_call (osc_lstat os (current @ [part]))) (\<lambda>m.
       if is_reparse m then io_return raise_value else no_reparse os (current @ [part]) parts)"

definition open_windows_report :: "'g os_calls \<Rightarrow> string list \<Rightarrow> ('g, int) io" where
  "open_windows_report os parts =
     io_bind (no_reparse os [] parts) (\<lambda>_. io_except_os (io_open (osc_open_path os parts)))"

text \<open>What is read between opening and closing.\<close>

definition read_report :: "'g os_calls \<Rightarrow> nat \<Rightarrow> int \<Rightarrow> ('g, stat_result \<times> string) io" where
  "read_report os maximum fd =
     io_bind (io_call (osc_fstat os fd)) (\<lambda>before.
       if \<not> st_is_reg before \<or> st_size before > int maximum then io_return raise_value
       else io_bind (io_call (osc_read os fd (maximum + 1))) (\<lambda>data.
         if length data > maximum then io_return raise_value
         else io_bind (io_call (osc_fstat os fd)) (\<lambda>after.
           io_return (if same_file_identity (osc_nt os) before after then Inr (before, data) else raise_value))))"

definition contained_regular_file :: "'g os_calls \<Rightarrow> string \<Rightarrow> nat \<Rightarrow> ('g, string) io" where
  "contained_regular_file os relative_path maximum =
     io_bind (assert_regular_checkout_root os) (\<lambda>_.
     io_bind (io_return (result_path_parts relative_path)) (\<lambda>parts.
     io_bind (if osc_nt os then open_windows_report os parts else open_posix_report os parts) (\<lambda>fd.
     io_bind (io_finally (read_report os maximum fd) (close_fd os fd)) (\<lambda>(before, data).
       if osc_nt os
       then io_bind (io_call (osc_lstat os parts)) (\<lambda>after_path.
              io_return (if is_reparse after_path \<or> \<not> same_file_identity True before after_path
                         then raise_value else Inr data))
       else io_return (Inr data)))))"

text \<open>\<open>pe_stream\<close> opens a stream's file, the output (\<open>True\<close>) or the error stream, and reads at most so many
  bytes of it; \<open>pe_decode\<close> decodes with replacement; \<open>pe_loads\<close> decodes strictly and parses.\<close>

record 'g parser_env =
  pe_stream :: "bool \<Rightarrow> nat \<Rightarrow> 'g \<Rightarrow> 'g \<times> (exc + string)"
  pe_os :: "'g os_calls"
  pe_fp :: "string \<Rightarrow> rat option"
  pe_decode :: "string \<Rightarrow> string"
  pe_loads :: "string \<Rightarrow> exc + json"

definition json_report :: "'g parser_env \<Rightarrow> string \<Rightarrow> nat \<Rightarrow> ('g, json_object) io" where
  "json_report pe relative_path maximum =
     io_bind (contained_regular_file (pe_os pe) relative_path maximum) (\<lambda>raw.
     io_bind (io_return (pe_loads pe raw)) (\<lambda>loaded.
       io_return (case loaded of JObj kvs \<Rightarrow> Inr kvs | _ \<Rightarrow> raise_value)))"


definition combined :: "'g parser_env \<Rightarrow> nat \<Rightarrow> ('g, string) io" where
  "combined pe maximum =
     io_bind (io_call (pe_stream pe True (maximum + 1))) (\<lambda>out.
       let remaining = maximum + 1 - length out
       in io_bind (if remaining = 0 then io_return (Inr []) else io_call (pe_stream pe False remaining)) (\<lambda>err.
         io_return (if length out + length err > maximum then raise_value
                    else Inr (pe_decode pe out @ [CHR 0x0A] @ pe_decode pe err))))"

section \<open>The result contract\<close>

definition RESULT_CONTRACT_FIELDS :: "string list" where
  "RESULT_CONTRACT_FIELDS =
     [''failure_conditions'', ''maximum_parsed_bytes'', ''maximum_parsed_records'', ''minimum_coverage_percent'',
      ''minimum_test_count'', ''parser_kind'', ''required_summary_fields'', ''source'', ''source_path'']"

definition RESULT_CONTRACT_FAILURES :: "string \<Rightarrow> string list" where
  "RESULT_CONTRACT_FAILURES kind =
     (if kind = ''dependency-audit'' then [''dependency-vulnerability'']
      else if kind = ''dependency-health'' then [''dependency-health'']
      else if kind = ''pytest'' then [''test-failure'']
      else if kind = ''pytest-coverage'' then [''coverage-threshold'', ''test-failure'']
      else if kind = ''quality-summary-v1'' then [''coverage-threshold'', ''quality-operation-failure'']
      else if kind = ''secret-scan'' then [''baseline-validation'']
      else [])"

definition available_fields :: "string \<Rightarrow> string list" where
  "available_fields kind =
     (if kind = ''pytest'' then [''tests'']
      else if kind = ''coverage'' then [''coverage'']
      else if kind = ''pytest-coverage'' then [''coverage'', ''tests'']
      else if kind = ''quality-summary-v1'' then [''coverage-threshold'', ''diagnostics'', ''operations'', ''profile'', ''status'']
      else if kind \<in> {''dependency-audit'', ''dependency-health'', ''secret-scan''} then [''audit'']
      else [])"

definition item :: "json_object \<Rightarrow> string \<Rightarrow> json" where
  "item kvs k = (case map_of kvs k of None \<Rightarrow> JNull | Some v \<Rightarrow> v)"

definition int_between :: "int \<Rightarrow> int \<Rightarrow> json \<Rightarrow> bool" where
  "int_between lo hi v = (case v of JInt n \<Rightarrow> lo \<le> n \<and> n \<le> hi | _ \<Rightarrow> False)"

fun int_of_json :: "json \<Rightarrow> int" where
  "int_of_json (JInt n) = n"
| "int_of_json _ = 0"

text \<open>The texts of a list of texts.\<close>

fun text_list :: "json list \<Rightarrow> string list option" where
  "text_list [] = Some []"
| "text_list (JStr s # vs) = map_option (\<lambda>ss. s # ss) (text_list vs)"
| "text_list (_ # vs) = None"

definition texts_of :: "json \<Rightarrow> string list option" where
  "texts_of v = (case v of JList vs \<Rightarrow> text_list vs | _ \<Rightarrow> None)"

definition source_ok :: "string \<Rightarrow> json_object \<Rightarrow> bool" where
  "source_ok kind rc =
     (if kind = ''quality-summary-v1''
      then item rc ''source'' = JStr ''artifact'' \<and> item rc ''source_path'' = JStr ''reports/quality-summary.json''
      else item rc ''source'' = JStr ''stdout'' \<and> item rc ''source_path'' = JNull)"

definition validated_result_contract :: "json_object option \<Rightarrow> string \<Rightarrow> exc + json_object option" where
  "validated_result_contract c kind =
     (case c of
        None \<Rightarrow> Inr None
      | Some rc \<Rightarrow>
          let get = item rc; coverage = get ''minimum_coverage_percent''; tests = get ''minimum_test_count''
          in if set (map fst rc) \<noteq> set RESULT_CONTRACT_FIELDS then raise_value
             else if get ''parser_kind'' \<noteq> JStr kind then raise_value
             else if \<not> source_ok kind rc then raise_value
             else if \<not> int_between 1 MAX_QUALITY_COVERAGE_BYTES (get ''maximum_parsed_bytes'')
                     \<or> \<not> int_between 1 MAX_RESULT_RECORDS (get ''maximum_parsed_records'') then raise_value
             else if coverage \<noteq> JNull \<and> \<not> int_between 0 MAX_COVERAGE_PERCENT coverage then raise_value
             else if tests \<noteq> JNull \<and> \<not> int_between 0 (int_of_json (get ''maximum_parsed_records'')) tests then raise_value
             else case (texts_of (get ''required_summary_fields''), texts_of (get ''failure_conditions'')) of
                    (Some fs, Some failures) \<Rightarrow>
                      if \<not> set failures \<subseteq> set (RESULT_CONTRACT_FAILURES kind) then raise_value
                      else if \<not> set fs \<subseteq> set (available_fields kind) then raise_value
                      else if coverage \<noteq> JNull \<and> kind \<notin> {''coverage'', ''pytest-coverage'', ''quality-summary-v1''} then raise_value
                      else if tests \<noteq> JNull \<and> kind \<notin> {''pytest'', ''pytest-coverage''} then raise_value
                      else Inr (Some rc)
                  | _ \<Rightarrow> raise_value)"

definition QUALITY_OPERATIONS :: "string list" where
  "QUALITY_OPERATIONS =
     [''format-check'', ''lint'', ''type'', ''frontend-install'', ''frontend-format'', ''frontend-lint'',
      ''frontend-typecheck'', ''frontend-tests'', ''frontend-build'', ''repository-safety'', ''snapshot-store'',
      ''workspace-api'', ''packaged-workspace'', ''helper-surface'', ''helper-boundary'', ''helper-compatibility'',
      ''bandit'', ''audit'', ''binary'', ''tests'', ''coverage'', ''docs'', ''editable-smoke'', ''wheel'', ''zipapp'',
      ''diagnostics'']"

definition contract_failures :: "json_object \<Rightarrow> string list" where
  "contract_failures rc = (case texts_of (item rc ''failure_conditions'') of None \<Rightarrow> [] | Some fs \<Rightarrow> fs)"

definition below :: "(string \<Rightarrow> rat option) \<Rightarrow> string \<Rightarrow> int \<Rightarrow> bool" where
  "below fp number n = (case fp number of None \<Rightarrow> False | Some q \<Rightarrow> q < of_int n)"

definition enforce_result_contract ::
  "(string \<Rightarrow> rat option) \<Rightarrow> parsed_result \<Rightarrow> json_object option \<Rightarrow> exc + parsed_result" where
  "enforce_result_contract fp p c =
     (case c of
        None \<Rightarrow> Inr p
      | Some rc \<Rightarrow>
          let records = int_of_json (item rc ''maximum_parsed_records'');
              tests = item rc ''minimum_test_count''; coverage = item rc ''minimum_coverage_percent'';
              failures = contract_failures rc
          in if pr_parser p = ''quality-summary-v1'' \<and> int (length QUALITY_OPERATIONS) > records then raise_value
             else if (case pr_tests p of None \<Rightarrow> False
                      | Some t \<Rightarrow> pt_total t > records \<or> (tests \<noteq> JNull \<and> pt_total t < int_of_json tests)) then raise_value
             else if (case pr_coverage p of None \<Rightarrow> False
                      | Some x \<Rightarrow> coverage \<noteq> JNull \<and> below fp (pc_measured_percent x) (int_of_json coverage)) then raise_value
             else if (case pr_audit p of None \<Rightarrow> False | Some a \<Rightarrow> au_findings a > records) then raise_value
             else if ''test-failure'' \<in> set failures
                     \<and> (case pr_tests p of None \<Rightarrow> False | Some t \<Rightarrow> pt_failed t \<noteq> 0 \<or> pt_errors t \<noteq> 0) then raise_value
             else if set failures \<inter> {''dependency-health'', ''dependency-vulnerability'', ''baseline-validation''} \<noteq> {}
                     \<and> (case pr_audit p of None \<Rightarrow> True | Some a \<Rightarrow> au_status a \<noteq> ''passed'' \<or> au_findings a \<noteq> 0) then raise_value
             else Inr p)"


section \<open>The quality summary\<close>

text \<open>\<open>_bounded_number\<close>: the number that was read. \<open>float\<close> of an integer beyond the range of floats raises
  \<open>OverflowError\<close>.\<close>

definition bounded_number :: "(string \<Rightarrow> rat option) \<Rightarrow> int \<Rightarrow> int \<Rightarrow> json \<Rightarrow> exc + json" where
  "bounded_number fp lo hi v =
     (case v of
        JInt n \<Rightarrow> if \<bar>n\<bar> \<ge> 2 ^ 1024 - 2 ^ 970 then Inl (OtherError ''OverflowError'')
                  else if lo \<le> n \<and> n \<le> hi then Inr v else raise_value
      | JFloat s \<Rightarrow> (case fp s of
                       None \<Rightarrow> raise_value
                     | Some q \<Rightarrow> if of_int lo \<le> q \<and> q \<le> of_int hi then Inr v else raise_value)
      | _ \<Rightarrow> raise_value)"

fun number_value :: "(string \<Rightarrow> rat option) \<Rightarrow> json \<Rightarrow> rat option" where
  "number_value fp (JInt n) = Some (of_int n)"
| "number_value fp (JFloat s) = fp s"
| "number_value fp _ = None"

fun number_text :: "json \<Rightarrow> string" where
  "number_text (JInt n) = show_int n"
| "number_text (JFloat s) = s"
| "number_text _ = []"

definition quality_operation_coverage ::
  "(string \<Rightarrow> rat option) \<Rightarrow> string \<Rightarrow> json_object \<Rightarrow> json \<Rightarrow> exc + json option" where
  "quality_operation_coverage fp name details threshold =
     (if name = ''coverage''
      then (if set (map fst details) \<noteq> {''coverage_percent'', ''coverage_threshold''} then raise_value
            else rbind (bounded_number fp QUALITY_COVERAGE_THRESHOLD QUALITY_COVERAGE_THRESHOLD (item details ''coverage_threshold'')) (\<lambda>t.
              if number_value fp t \<noteq> number_value fp threshold then raise_value
              else rbind (bounded_number fp QUALITY_COVERAGE_THRESHOLD MAX_COVERAGE_PERCENT (item details ''coverage_percent'')) (\<lambda>n.
                Inr (Some n))))
      else if name = ''diagnostics'' \<and> details \<noteq> [] then raise_value
      else Inr None)"

definition check_operation :: "(string \<Rightarrow> rat option) \<Rightarrow> json \<Rightarrow> string \<Rightarrow> json \<Rightarrow> exc + json option" where
  "check_operation fp threshold expected operation =
     (case operation of
        JObj o' \<Rightarrow>
          if set (map fst o') \<noteq> {''operation'', ''status'', ''duration_seconds'', ''details''} then raise_value
          else if item o' ''operation'' \<noteq> JStr expected \<or> item o' ''status'' \<noteq> JStr ''passed'' then raise_value
          else rbind (bounded_number fp 0 86400 (item o' ''duration_seconds'')) (\<lambda>_.
            case item o' ''details'' of
              JObj details \<Rightarrow> quality_operation_coverage fp expected details threshold
            | _ \<Rightarrow> raise_value)
      | _ \<Rightarrow> raise_value)"

fun check_operations ::
  "(string \<Rightarrow> rat option) \<Rightarrow> json \<Rightarrow> string list \<Rightarrow> json list \<Rightarrow> json option \<Rightarrow> exc + json option" where
  "check_operations fp threshold (n # ns) (v # vs) percent =
     rbind (check_operation fp threshold n v) (\<lambda>found.
       check_operations fp threshold ns vs (case found of None \<Rightarrow> percent | Some p \<Rightarrow> Some p))"
| "check_operations fp threshold _ _ percent = Inr percent"

definition new_parsed_result :: "parsed_result \<Rightarrow> exc + parsed_result" where
  "new_parsed_result p = (case validate_shape p of Inl _ \<Rightarrow> raise_value | Inr _ \<Rightarrow> Inr p)"

definition new_audit :: "string \<Rightarrow> string \<Rightarrow> string \<Rightarrow> int \<Rightarrow> exc + audit_summary" where
  "new_audit kind status tool findings =
     (if record_bound findings then Inr \<lparr>au_kind = kind, au_status = status, au_tool = tool, au_findings = findings\<rparr>
      else raise_value)"

definition quality_summary_of :: "(string \<Rightarrow> rat option) \<Rightarrow> json_object \<Rightarrow> exc + parsed_result" where
  "quality_summary_of fp summary =
     (let get = item summary
      in if set (map fst summary) \<noteq> {''profile'', ''status'', ''coverage_threshold'', ''operations'', ''duration_seconds''}
         then raise_value
         else if get ''profile'' \<noteq> JStr ''quality'' \<or> get ''status'' \<noteq> JStr ''passed'' then raise_value
         else rbind (bounded_number fp QUALITY_COVERAGE_THRESHOLD QUALITY_COVERAGE_THRESHOLD (get ''coverage_threshold'')) (\<lambda>t.
           if number_value fp t \<noteq> Some (of_int QUALITY_COVERAGE_THRESHOLD) then raise_value
           else rbind (bounded_number fp 0 86400 (get ''duration_seconds'')) (\<lambda>_.
             case get ''operations'' of
               JList vs \<Rightarrow>
                 if length vs \<noteq> length QUALITY_OPERATIONS then raise_value
                 else rbind (check_operations fp (get ''coverage_threshold'') QUALITY_OPERATIONS vs None) (\<lambda>percent.
                   case percent of
                     None \<Rightarrow> raise_value
                   | Some n \<Rightarrow>
                       rbind (new_coverage fp (number_text n)) (\<lambda>c.
                       rbind (new_audit ''quality'' ''passed'' ''quality-gate'' 0) (\<lambda>a.
                         new_parsed_result \<lparr>pr_parser = ''quality-summary-v1'', pr_status = ''parsed'', pr_tests = None,
                           pr_coverage = Some c, pr_audit = Some a, pr_failure_reason = None\<rparr>)))
             | _ \<Rightarrow> raise_value)))"

definition quality_summary_result :: "'g parser_env \<Rightarrow> nat \<Rightarrow> ('g, parsed_result) io" where
  "quality_summary_result pe maximum =
     io_bind (json_report pe ''reports/quality-summary.json'' (min maximum MAX_QUALITY_SUMMARY_BYTES))
       (\<lambda>summary. io_return (quality_summary_of (pe_fp pe) summary))"

section \<open>Parsing a step's result\<close>

definition parsed_of :: "string \<Rightarrow> parsed_test_counts option \<Rightarrow> parsed_coverage option \<Rightarrow> audit_summary option \<Rightarrow> parsed_result" where
  "parsed_of kind tests coverage audit =
     \<lparr>pr_parser = kind, pr_status = ''parsed'', pr_tests = tests, pr_coverage = coverage, pr_audit = audit, pr_failure_reason = None\<rparr>"

definition parse_tests :: "(string \<Rightarrow> rat option) \<Rightarrow> string \<Rightarrow> json_object option \<Rightarrow> string \<Rightarrow> exc + parsed_result" where
  "parse_tests fp kind contract text =
     rbind (pytest_counts text) (\<lambda>tests.
     rbind (if kind = ''pytest-coverage'' then coverage_of_text fp text else Inr None) (\<lambda>coverage.
       if tests = None \<or> (kind = ''pytest-coverage'' \<and> coverage = None) then raise_value
       else rbind (new_parsed_result (parsed_of kind tests coverage None)) (\<lambda>p. enforce_result_contract fp p contract)))"

definition parse_coverage :: "(string \<Rightarrow> rat option) \<Rightarrow> json_object option \<Rightarrow> string \<Rightarrow> exc + parsed_result" where
  "parse_coverage fp contract text =
     rbind (coverage_of_text fp text) (\<lambda>coverage.
       if coverage = None then raise_value
       else rbind (new_parsed_result (parsed_of ''coverage'' None coverage None)) (\<lambda>p. enforce_result_contract fp p contract))"

definition BANDIT_MANAGER_ERROR :: string where
  "BANDIT_MANAGER_ERROR = ''[manager]'' @ [CHR 0x09] @ ''ERROR'' @ [CHR 0x09]"

definition audit_kind :: "string \<Rightarrow> string" where
  "audit_kind kind =
     (if kind \<in> {''security-audit'', ''secret-scan''} then ''security''
      else if kind \<in> {''dependency-audit'', ''dependency-health''} then ''dependency'' else ''quality'')"

definition audit_tool :: "string \<Rightarrow> string" where
  "audit_tool kind =
     (if kind = ''security-audit'' then ''bandit''
      else if kind = ''secret-scan'' then ''secret-scan''
      else if kind = ''dependency-audit'' then ''pip-audit''
      else if kind = ''dependency-health'' then ''pip'' else ''critical-coverage'')"

definition parse_audit ::
  "(string \<Rightarrow> rat option) \<Rightarrow> string \<Rightarrow> bool \<Rightarrow> json_object option \<Rightarrow> string \<Rightarrow> exc + parsed_result" where
  "parse_audit fp kind succeeded contract text =
     (if kind = ''security-audit'' \<and> contains BANDIT_MANAGER_ERROR text then raise_value
      else let findings = (if succeeded then 0 else max 1 (int (count_text ''>> Issue:'' text)))
           in rbind (new_audit (audit_kind kind) (if succeeded then ''passed'' else ''failed'') (audit_tool kind) findings) (\<lambda>a.
              rbind (new_parsed_result (parsed_of kind None None (Some a))) (\<lambda>p. enforce_result_contract fp p contract)))"

text \<open>The body of the \<open>try\<close>, after the contract was validated.\<close>

definition parse_selected ::
  "'g parser_env \<Rightarrow> string \<Rightarrow> bool \<Rightarrow> bool \<Rightarrow> json_object option \<Rightarrow> nat \<Rightarrow> ('g, parsed_result) io" where
  "parse_selected pe kind succeeded checkout contract maximum =
     (let texts = combined pe (min maximum MAX_PARSE_BYTES)
      in if kind \<in> {''pytest'', ''pytest-coverage''} then io_bind texts (\<lambda>t. io_return (parse_tests (pe_fp pe) kind contract t))
         else if kind = ''coverage'' then io_bind texts (\<lambda>t. io_return (parse_coverage (pe_fp pe) contract t))
         else if kind = ''quality-summary-v1''
         then (if \<not> succeeded \<or> \<not> checkout then io_return raise_value
               else io_bind (quality_summary_result pe maximum) (\<lambda>p. io_return (enforce_result_contract (pe_fp pe) p contract)))
         else if kind \<in> set AUDIT_PARSERS then io_bind texts (\<lambda>t. io_return (parse_audit (pe_fp pe) kind succeeded contract t))
         else io_return raise_value)"

definition parser_failed :: "string \<Rightarrow> parsed_result" where
  "parser_failed kind =
     \<lparr>pr_parser = kind, pr_status = ''parser_failed'', pr_tests = None, pr_coverage = None, pr_audit = None,
      pr_failure_reason = Some ''declared_result_unavailable''\<rparr>"

definition maximum_parsed_bytes :: "json_object option \<Rightarrow> nat" where
  "maximum_parsed_bytes c = (case c of None \<Rightarrow> MAX_PARSE_BYTES | Some rc \<Rightarrow> nat (int_of_json (item rc ''maximum_parsed_bytes'')))"

definition parse_result ::
  "'g parser_env \<Rightarrow> string \<Rightarrow> bool \<Rightarrow> bool \<Rightarrow> json_object option \<Rightarrow> ('g, parsed_result) io" where
  "parse_result pe kind succeeded checkout contract d =
     (case io_bind (io_return (validated_result_contract contract kind))
             (\<lambda>c. parse_selected pe kind succeeded checkout c (maximum_parsed_bytes c)) d of
        (d', Inl e) \<Rightarrow> (d', if is_os_error e \<or> is_py_value_error e then Inr (parser_failed kind) else Inl e)
      | r \<Rightarrow> r)"

end
