(* ===== verification/Operator_Projection.thy ===== *)
theory Operator_Projection
  imports Complex_Main Readiness Github_Store
begin

text \<open>
  The read models of the operator dashboard, after \<^verbatim>\<open>server/execution/operator_projection.py\<close>: the metrics of a
  window, the pages of workers and the pages of the validation history, over the execution database and the
  table of GitHub requests.

  The audit columns \<open>created_at\<close> and \<open>updated_at\<close>, which the database fills, are functions of the rows and
  parameters. Times are UTC microseconds; durations stay in microseconds, the reuse rate is the exact quotient.
\<close>

record audit_stamps =
  as_request_created :: "gh_row \<Rightarrow> time"
  as_request_updated :: "gh_row \<Rightarrow> time"
  as_order_created :: "order_row \<Rightarrow> time"
  as_run_created :: "run_row \<Rightarrow> time"
  as_profile_updated :: "profile_row \<Rightarrow> time"

definition MAX_OPERATOR_BROWSER_COUNT :: nat where
  "MAX_OPERATOR_BROWSER_COUNT = 8"

definition MAX_OPERATOR_BROWSER_LENGTH :: nat where
  "MAX_OPERATOR_BROWSER_LENGTH = 64"

definition SHA256_HEX_LENGTH :: nat where
  "SHA256_HEX_LENGTH = 64"

section \<open>Helpers\<close>

definition projection_fresh :: "time option \<Rightarrow> time \<Rightarrow> int \<Rightarrow> bool" where
  "projection_fresh v now s = (case v of None \<Rightarrow> False | Some t \<Rightarrow> t \<ge> now - seconds s)"

text \<open>The checks of the column types hold by the types of the row.\<close>

definition worker_activity_state :: "worker_row \<Rightarrow> time \<Rightarrow> int \<Rightarrow> int \<Rightarrow> string" where
  "worker_activity_state w now heartbeat_freshness poll_freshness =
     (if w_status w \<in> {W_DRAINING, W_OFFLINE} then ''unavailable''
      else if w_status w \<notin> {W_ONLINE, W_BUSY} then ''unavailable''
      else if w_active_run_count w < 0 \<or> w_max_concurrency w < 1 \<or> w_active_run_count w > w_max_concurrency w
              \<or> heartbeat_freshness < 0 \<or> poll_freshness < 0 then ''unavailable''
      else if \<not> projection_fresh (Some (w_last_heartbeat_at w)) now heartbeat_freshness
              \<or> \<not> projection_fresh (w_last_checkout_poll_at w) now poll_freshness then ''stale''
      else if w_status w = W_BUSY \<or> w_active_run_count w \<ge> w_max_concurrency w then ''capacity_constrained''
      else ''active'')"

text \<open>\<open>str.strip\<close> over code points below 256. The column holds a list of texts.\<close>

definition strip_name :: "string \<Rightarrow> string" where
  "strip_name s = rev (dropWhile re_space (rev (dropWhile re_space s)))"

fun collect_browsers :: "string list \<Rightarrow> string list \<Rightarrow> string list" where
  "collect_browsers acc [] = acc"
| "collect_browsers acc (b # bs) =
     (if length acc \<ge> MAX_OPERATOR_BROWSER_COUNT then acc
      else let browser = strip_name b
           in collect_browsers (if 1 \<le> length browser \<and> length browser \<le> MAX_OPERATOR_BROWSER_LENGTH then acc @ [browser] else acc) bs)"

definition bounded_browsers :: "string list \<Rightarrow> string list" where
  "bounded_browsers bs = collect_browsers [] bs"

definition network_policy_capability :: "network_policy \<Rightarrow> string" where
  "network_policy_capability p = (if p = NET_DISABLED then ''disabled'' else ''worker_restricted'')"

text \<open>\<open>_grouped_counts\<close>: \<open>SELECT column, count(*) ... GROUP BY column\<close>, as the dictionary's items.\<close>

definition grouped_counts :: "('a \<Rightarrow> string) \<Rightarrow> 'a list \<Rightarrow> (string \<times> nat) list" where
  "grouped_counts column rows = map (\<lambda>v. (v, length (filter (\<lambda>r. column r = v) rows))) (dedup (map column rows))"

definition count_of :: "(string \<times> nat) list \<Rightarrow> string \<Rightarrow> nat" where
  "count_of counts k = (case map_of counts k of None \<Rightarrow> 0 | Some n \<Rightarrow> n)"

section \<open>Overview\<close>

record operator_overview =
  ov_days :: int
  ov_starts_at :: time
  ov_ends_at :: time
  ov_requests_total :: nat
  ov_work_orders_total :: nat
  ov_work_orders_by_status :: "(string \<times> nat) list"
  ov_runs_total :: nat
  ov_runs_by_status :: "(string \<times> nat) list"
  ov_fresh_successful :: nat
  ov_reused_successful :: nat
  ov_unavailable_exact_reuse :: nat
  ov_executions_avoided :: nat
  ov_reference_time_avoided :: int
  ov_comparison_units_avoided :: int
  ov_reuse_rate :: rat
  ov_publications_current :: nat
  ov_publications_stale :: nat
  ov_workers_total :: nat
  ov_workers_active :: nat
  ov_workers_stale :: nat
  ov_workers_capacity_constrained :: nat
  ov_workers_unavailable :: nat

definition run_duration :: "run_row \<Rightarrow> int option" where
  "run_duration r =
     (case (r_started_at r, r_finished_at r) of
        (Some s, Some f) \<Rightarrow> if f \<ge> s then Some (max 0 (f - s)) else None
      | _ \<Rightarrow> None)"

text \<open>\<open>source_durations.get(row.reused_from_run_id, 0.0)\<close>; the sources are the runs some row names.\<close>

definition source_duration :: "run_row list \<Rightarrow> int option \<Rightarrow> int" where
  "source_duration all source =
     (case source of
        None \<Rightarrow> 0
      | Some i \<Rightarrow> if i = 0 then 0
                  else case find (\<lambda>r. r_id r = i) all of
                         None \<Rightarrow> 0 | Some r \<Rightarrow> (case run_duration r of None \<Rightarrow> 0 | Some t \<Rightarrow> t))"

definition sum_some :: "int option list \<Rightarrow> int" where
  "sum_some xs = sum_list (map (\<lambda>x. case x of None \<Rightarrow> 0 | Some n \<Rightarrow> n) xs)"

definition state_count :: "string \<Rightarrow> string list \<Rightarrow> nat" where
  "state_count s states = length (filter (\<lambda>x. x = s) states)"

definition overview ::
  "audit_stamps \<Rightarrow> exec_db \<Rightarrow> gh_row list \<Rightarrow> int \<Rightarrow> int \<Rightarrow> int \<Rightarrow> time \<Rightarrow> operator_overview" where
  "overview au db requests window_days heartbeat_freshness poll_freshness now =
     (let starts_at = now - seconds (86400 * window_days);
          window_requests = filter (\<lambda>g. as_request_created au g \<ge> starts_at) requests;
          order_counts = grouped_counts (\<lambda>w. work_order_status_value (o_status w)) (filter (\<lambda>w. as_order_created au w \<ge> starts_at) (orders db));
          window_runs = filter (\<lambda>r. as_run_created au r \<ge> starts_at) (runs db);
          run_counts = grouped_counts (\<lambda>r. run_status_value (r_status r)) window_runs;
          fresh_runs = filter (\<lambda>r. r_status r = RUN_SUCCEEDED \<and> ru_decision (r_reuse r) = RD_FRESH) window_runs;
          reused_rows = filter (\<lambda>r. r_status r = RUN_SUCCEEDED \<and> ru_decision (r_reuse r) = RD_REUSED) window_runs;
          unavailable = filter (\<lambda>r. ru_decision (r_reuse r) = RD_UNAVAILABLE) window_runs;
          publication_counts = grouped_counts (\<lambda>g. gp_publication_state (g_publication g)) window_requests;
          states = map (\<lambda>w. worker_activity_state w now heartbeat_freshness poll_freshness) (workers db);
          denominator = length fresh_runs + length reused_rows
      in \<lparr>ov_days = window_days, ov_starts_at = starts_at, ov_ends_at = now, ov_requests_total = length window_requests,
          ov_work_orders_total = sum_list (map snd order_counts), ov_work_orders_by_status = order_counts,
          ov_runs_total = sum_list (map snd run_counts), ov_runs_by_status = run_counts,
          ov_fresh_successful = length fresh_runs, ov_reused_successful = length reused_rows,
          ov_unavailable_exact_reuse = length unavailable, ov_executions_avoided = length reused_rows,
          ov_reference_time_avoided = sum_list (map (\<lambda>r. source_duration (runs db) (ru_reused_from_run_id (r_reuse r))) reused_rows),
          ov_comparison_units_avoided = sum_some (map (\<lambda>r. rr_estimated_cost_units (r_route r)) reused_rows),
          ov_reuse_rate = (if denominator = 0 then 0 else of_nat (length reused_rows) / of_nat denominator),
          ov_publications_current = count_of publication_counts ''published_current'',
          ov_publications_stale = count_of publication_counts ''published_stale'',
          ov_workers_total = length states, ov_workers_active = state_count ''active'' states,
          ov_workers_stale = state_count ''stale'' states,
          ov_workers_capacity_constrained = state_count ''capacity_constrained'' states,
          ov_workers_unavailable = state_count ''unavailable'' states\<rparr>)"

section \<open>Workers\<close>

record worker_summary =
  ws_worker_id :: string
  ws_display_name :: string
  ws_operating_system :: string
  ws_architecture :: string
  ws_python_version :: "string option"
  ws_node_version :: "string option"
  ws_docker_available :: bool
  ws_browsers :: "string list"
  ws_gpu_available :: bool
  ws_unity_available :: bool
  ws_desktop_available :: bool
  ws_network_policy_capability :: string
  ws_repository_write_capability :: bool
  ws_repository_full_names :: "string list"
  ws_status :: worker_status
  ws_activity_state :: string
  ws_active_run_count :: int
  ws_max_concurrency :: int
  ws_last_heartbeat_at :: time
  ws_last_checkout_poll_at :: "time option"
  ws_profile :: "(profile_row \<times> time) option"

record 'a page =
  pg_items :: "'a list"
  pg_limit :: nat
  pg_offset :: nat
  pg_total :: nat

text \<open>\<open>LIMIT\<close> and \<open>OFFSET\<close>.\<close>

definition page_of :: "nat \<Rightarrow> nat \<Rightarrow> 'a list \<Rightarrow> 'a list" where
  "page_of limit offset xs = take limit (drop offset xs)"

definition worker_summary_of ::
  "audit_stamps \<Rightarrow> time \<Rightarrow> int \<Rightarrow> int \<Rightarrow> worker_row \<times> profile_row option \<Rightarrow> worker_summary" where
  "worker_summary_of au now heartbeat_freshness poll_freshness wp =
     (let w = fst wp; c = w_caps w
      in \<lparr>ws_worker_id = w_worker_id w, ws_display_name = w_display_name w,
          ws_operating_system = wc_operating_system c, ws_architecture = wc_architecture c,
          ws_python_version = wc_python_version c, ws_node_version = wc_node_version c,
          ws_docker_available = wc_docker_available c, ws_browsers = bounded_browsers (wc_browsers c),
          ws_gpu_available = wc_gpu_available c, ws_unity_available = wc_unity_available c,
          ws_desktop_available = wc_desktop_available c,
          ws_network_policy_capability = network_policy_capability (wc_network_policy_capability c),
          ws_repository_write_capability = wc_repository_write_capability c,
          ws_repository_full_names = w_repository_full_names w, ws_status = w_status w,
          ws_activity_state = worker_activity_state w now heartbeat_freshness poll_freshness,
          ws_active_run_count = w_active_run_count w, ws_max_concurrency = w_max_concurrency w,
          ws_last_heartbeat_at = w_last_heartbeat_at w, ws_last_checkout_poll_at = w_last_checkout_poll_at w,
          ws_profile = map_option (\<lambda>p. (p, as_profile_updated au p)) (snd wp)\<rparr>)"

definition list_workers ::
  "audit_stamps \<Rightarrow> exec_db \<Rightarrow> int \<Rightarrow> int \<Rightarrow> time \<Rightarrow> nat \<Rightarrow> nat \<Rightarrow> worker_summary page" where
  "list_workers au db heartbeat_freshness poll_freshness now limit offset =
     \<lparr>pg_items = map (worker_summary_of au now heartbeat_freshness poll_freshness)
        (page_of limit offset (map (\<lambda>w. (w, find_profile db (w_worker_id w))) (sort_key w_worker_id (workers db)))),
      pg_limit = limit, pg_offset = offset, pg_total = length (workers db)\<rparr>"

section \<open>History\<close>

record history_filter =
  hf_repository_full_name :: "string option"
  hf_pull_request_number :: "int option"
  hf_work_order_status :: "string option"
  hf_run_status :: "string option"
  hf_reuse_decision :: "string option"
  hf_routing_policy :: "string option"
  hf_publication_state :: "string option"
  hf_created_after :: "py_datetime option"
  hf_created_before :: "py_datetime option"

type_synonym history_row = "gh_row \<times> order_row \<times> run_row option"

definition is_value :: "'a option \<Rightarrow> 'a \<Rightarrow> bool" where
  "is_value f v = (case f of None \<Rightarrow> True | Some x \<Rightarrow> v = x)"

text \<open>A comparison with a column of a missing run is \<open>NULL\<close>, which selects nothing.\<close>

definition run_value :: "'a option \<Rightarrow> (run_row \<Rightarrow> 'a) \<Rightarrow> run_row option \<Rightarrow> bool" where
  "run_value f column r = (case f of None \<Rightarrow> True | Some x \<Rightarrow> (case r of None \<Rightarrow> False | Some r \<Rightarrow> column r = x))"

definition history_filters :: "audit_stamps \<Rightarrow> history_filter \<Rightarrow> history_row \<Rightarrow> bool" where
  "history_filters au f = (\<lambda>(g, w, r).
     is_value (hf_repository_full_name f) (gi_repository_full_name (g_identity g))
     \<and> is_value (hf_pull_request_number f) (gi_pull_request_number (g_identity g))
     \<and> is_value (hf_work_order_status f) (work_order_status_value (o_status w))
     \<and> run_value (hf_run_status f) (\<lambda>r. run_status_value (r_status r)) r
     \<and> run_value (hf_reuse_decision f) (\<lambda>r. reuse_decision_value (ru_decision (r_reuse r))) r
     \<and> is_value (hf_routing_policy f) (routing_policy_value (oq_routing_policy (o_request w)))
     \<and> is_value (hf_publication_state f) (gp_publication_state (g_publication g))
     \<and> (case hf_created_after f of None \<Rightarrow> True | Some t \<Rightarrow> as_request_created au g \<ge> utc_naive t)
     \<and> (case hf_created_before f of None \<Rightarrow> True | Some t \<Rightarrow> as_request_created au g \<le> utc_naive t))"

text \<open>The run with the greatest identifier of an order, if it has one.\<close>

definition latest_run :: "exec_db \<Rightarrow> int \<Rightarrow> run_row option" where
  "latest_run db i =
     (let ids = map r_id (filter (\<lambda>r. r_work_order_id r = i) (runs db))
      in if ids = [] then None else find (\<lambda>r. r_id r = Max (set ids)) (runs db))"

definition history_rows :: "exec_db \<Rightarrow> gh_row list \<Rightarrow> history_row list" where
  "history_rows db requests =
     concat (map (\<lambda>g. map (\<lambda>w. (g, w, latest_run db (o_id w))) (filter (\<lambda>w. o_id w = gi_work_order_id (g_identity g)) (orders db))) requests)"

text \<open>The count joins the run only when a filter reads it.\<close>

definition history_total :: "audit_stamps \<Rightarrow> exec_db \<Rightarrow> gh_row list \<Rightarrow> history_filter \<Rightarrow> nat" where
  "history_total au db requests f =
     (let joined = (if hf_reuse_decision f \<noteq> None \<or> hf_run_status f \<noteq> None then history_rows db requests
                    else map (\<lambda>(g, w, r). (g, w, None)) (history_rows db requests))
      in length (filter (history_filters au f) joined))"

record history_item =
  hi_request_id :: int
  hi_repository_full_name :: string
  hi_pull_request_number :: int
  hi_tested_head_sha :: string
  hi_manifest_name :: string
  hi_manifest_version :: string
  hi_work_order_id :: int
  hi_work_order_status :: string
  hi_routing_policy :: string
  hi_preferred_executor :: "string option"
  hi_maximum_cost_units :: "int option"
  hi_required_quota_units :: int
  hi_run_id :: "int option"
  hi_run_status :: "string option"
  hi_selected_worker_id :: "string option"
  hi_estimated_cost_units :: "int option"
  hi_reuse_decision :: "string option"
  hi_reused_from_run_id :: "int option"
  hi_run_duration :: "int option"
  hi_evidence_fingerprint :: "string option"
  hi_publication_state :: string
  hi_publication_decision :: string
  hi_created_at :: time
  hi_updated_at :: time

definition history_item_of :: "audit_stamps \<Rightarrow> history_row \<Rightarrow> history_item" where
  "history_item_of au = (\<lambda>(g, w, run).
     let q = o_request w; i = g_identity g
     in \<lparr>hi_request_id = g_id g, hi_repository_full_name = gi_repository_full_name i,
         hi_pull_request_number = gi_pull_request_number i, hi_tested_head_sha = gi_head_sha i,
         hi_manifest_name = gi_manifest_name i, hi_manifest_version = gi_manifest_version i,
         hi_work_order_id = o_id w, hi_work_order_status = work_order_status_value (o_status w),
         hi_routing_policy = routing_policy_value (oq_routing_policy q), hi_preferred_executor = oq_preferred_executor q,
         hi_maximum_cost_units = oq_maximum_cost_units q, hi_required_quota_units = oq_required_quota_units q,
         hi_run_id = map_option r_id run, hi_run_status = map_option (\<lambda>r. run_status_value (r_status r)) run,
         hi_selected_worker_id = map_option r_worker_id run,
         hi_estimated_cost_units = (case run of None \<Rightarrow> None | Some r \<Rightarrow> rr_estimated_cost_units (r_route r)),
         hi_reuse_decision = map_option (\<lambda>r. reuse_decision_value (ru_decision (r_reuse r))) run,
         hi_reused_from_run_id = (case run of None \<Rightarrow> None | Some r \<Rightarrow> ru_reused_from_run_id (r_reuse r)),
         hi_run_duration =
           (case run of
              None \<Rightarrow> None
            | Some r \<Rightarrow> (case (r_started_at r, r_finished_at r) of (Some s, Some t) \<Rightarrow> Some (max 0 (t - s)) | _ \<Rightarrow> None)),
         hi_evidence_fingerprint =
           (case run of
              None \<Rightarrow> None
            | Some r \<Rightarrow> (case rp_evidence_metadata (r_report r) of
                           None \<Rightarrow> None
                         | Some e \<Rightarrow> if length (ev_fingerprint e) = SHA256_HEX_LENGTH then Some (ev_fingerprint e) else None)),
         hi_publication_state = gp_publication_state (g_publication g),
         hi_publication_decision = gp_publication_decision (g_publication g),
         hi_created_at = as_request_created au g, hi_updated_at = as_request_updated au g\<rparr>)"

text \<open>Newest first, then the greater identifier first.\<close>

definition history_order :: "audit_stamps \<Rightarrow> history_row list \<Rightarrow> history_row list" where
  "history_order au rows = rev (sort_key (\<lambda>(g, w, r). (as_request_created au g, g_id g)) rows)"

definition list_history ::
  "audit_stamps \<Rightarrow> exec_db \<Rightarrow> gh_row list \<Rightarrow> history_filter \<Rightarrow> nat \<Rightarrow> nat \<Rightarrow> history_item page" where
  "list_history au db requests f limit offset =
     \<lparr>pg_items = map (history_item_of au)
        (page_of limit offset (history_order au (filter (history_filters au f) (history_rows db requests)))),
      pg_limit = limit, pg_offset = offset, pg_total = history_total au db requests f\<rparr>"

end
