(* ===== verification/Operator_Properties.thy ===== *)
theory Operator_Properties
  imports Operator_Projection Github_Properties
begin

text \<open>
  What an operator can rely on: the history is paged completely and in order, a worker's state on the dashboard
  is the one the router's reasons give, and the overview adds up.
\<close>

section \<open>Pages\<close>



section \<open>History\<close>







section \<open>Worker states\<close>

definition sane_counts :: "worker_row \<Rightarrow> bool" where
  "sane_counts w \<longleftrightarrow> 0 \<le> w_active_run_count w \<and> w_active_run_count w \<le> w_max_concurrency w \<and> 1 \<le> w_max_concurrency w"

lemma reasons_of: "set (re_reasons (evaluate_routing_candidate w p rq now hf pf)) = set (routing_reasons w p rq now hf pf)"
  by (simp add: evaluate_routing_candidate_def Let_def)

text \<open>The reasons of a capability mismatch start with another letter than those of availability.\<close>

lemma mismatch_letter:
  assumes "capability_mismatch c name required = Some r"
  shows "take 1 r \<noteq> ''w''"
proof -
  have v: "take 1 r \<noteq> ''w''" if "version_mismatch c n required = Some r" "n \<in> {''python'', ''node'', ''pnpm''}" for n
    using that by (auto simp: version_mismatch_def invalid_requirement_def Let_def split: if_split_asm)
  have b: "take 1 r \<noteq> ''w''" if "boolean_capability_mismatch c n e required = Some r" "map_of BOOLEAN_CAPABILITIES n = Some e" for e n
    using that by (auto simp: boolean_capability_mismatch_def BOOLEAN_CAPABILITIES_def invalid_requirement_def split: json.splits if_split_asm)
  have p: "take 1 r \<noteq> ''w''" if "platform_mismatch a required n = Some r" "n \<in> {''operating_system'', ''architecture''}" for a n
    using that by (auto simp: platform_mismatch_def invalid_requirement_def split: option.splits if_split_asm)
  have browser: "take 1 r \<noteq> ''w''" if "browser_mismatch c required = Some r"
    using that by (auto simp: browser_mismatch_def invalid_requirement_def split: option.splits if_split_asm)
  have repository: "take 1 r \<noteq> ''w''" if "repository_write_mismatch required = Some r"
    using that by (cases required) (auto simp: repository_write_mismatch_def invalid_requirement_def split: if_split_asm)
  have network: "take 1 r \<noteq> ''w''" if "network_policy_mismatch c required = Some r"
    using that by (auto simp: network_policy_mismatch_def invalid_requirement_def split: option.splits if_split_asm network_policy.splits)
  have custom: "r \<in> {invalid_requirement name, capability_missing name}" if "custom_capability_mismatch c name required = Some r"
    using that by (cases required; cases "string_set_of (map_of (wc_capabilities c) name)"; cases "as_string_set required")
      (simp_all add: custom_capability_mismatch_def Let_def split: if_split_asm)
  then have custom: "take 1 r \<noteq> ''w''" if "custom_capability_mismatch c name required = Some r"
    using that by (auto simp: invalid_requirement_def capability_missing_def)
  show ?thesis
    using assms unfolding capability_mismatch_def
    by (simp only: split: if_split_asm option.split_asm)
      ((erule p; simp) | (erule v; assumption) | (erule b; assumption) | erule browser | erule repository | erule network | erule custom)+
qed

lemma mismatch_letter_cons: "capability_mismatch c name required \<noteq> Some (CHR ''w'' # s)"
  using mismatch_letter [of c name required "CHR ''w'' # s"] by auto

lemma capability_reason_letter [simp]: "CHR ''w'' # s \<notin> set (cm_reasons (match_worker_capabilities c m q p))"
  by (auto simp: match_worker_capabilities_def Let_def match_capability_mapping_def map_filter_def match_network_policy_def
      mismatch_letter_cons split: if_split_asm)

lemma fresh_iff: "0 < s \<Longrightarrow> fresh v now s \<longleftrightarrow> projection_fresh v now s"
  by (auto simp: fresh_def projection_fresh_def split: option.split)

lemma availability_reasons:
  "''worker_not_available'' \<in> set (routing_reasons w p rq now hf pf) \<longleftrightarrow> w_status w \<noteq> W_ONLINE"
  "''worker_concurrency_limit'' \<in> set (routing_reasons w p rq now hf pf) \<longleftrightarrow> w_active_run_count w \<ge> w_max_concurrency w"
  "''worker_heartbeat_stale'' \<in> set (routing_reasons w p rq now hf pf) \<longleftrightarrow> \<not> fresh (Some (w_last_heartbeat_at w)) now hf"
  "''worker_checkout_poll_stale'' \<in> set (routing_reasons w p rq now hf pf) \<longleftrightarrow> \<not> fresh (w_last_checkout_poll_at w) now pf"
  by (auto simp: routing_reasons_def reason_if_def split: option.splits)

text \<open>C25. The two views of a worker agree. The state the dashboard lists for a worker is computed from its
  row, the state the repository's readiness page shows from the router's reasons. For every worker with
  counts in range and positive freshness limits the two are the same, whatever order is asked about, except for
  busy workers, which readiness calls unavailable; and a worker the router would select is listed as active.\<close>

theorem worker_views_agree:
  assumes "sane_counts w" and "0 < hf" and "0 < pf"
  shows "repository_activity_state (evaluate_routing_candidate w p rq now hf pf)
      = (if w_status w = W_BUSY then ''unavailable'' else worker_activity_state w now hf pf)
    \<and> (re_candidate (evaluate_routing_candidate w p rq now hf pf) \<noteq> None \<longrightarrow> worker_activity_state w now hf pf = ''active'')"
proof -
  have state: "repository_activity_state (evaluate_routing_candidate w p rq now hf pf)
      = (if w_status w = W_BUSY then ''unavailable'' else worker_activity_state w now hf pf)"
    using assms unfolding repository_activity_state_def reasons_of Let_def availability_reasons worker_activity_state_def sane_counts_def
    by (cases "w_status w") (auto simp: fresh_iff)
  moreover have "worker_activity_state w now hf pf = ''active''" if "re_candidate (evaluate_routing_candidate w p rq now hf pf) \<noteq> None"
  proof -
    from that have none: "routing_reasons w p rq now hf pf = []" by (auto simp: evaluate_routing_candidate_def Let_def split: if_split_asm)
    then have "w_status w = W_ONLINE" using availability_reasons(1) [of w p rq now hf pf] by simp
    moreover have "repository_activity_state (evaluate_routing_candidate w p rq now hf pf) = ''active''"
      by (simp add: repository_activity_state_def reasons_of none Let_def)
    ultimately show ?thesis using state by simp
  qed
  ultimately show ?thesis by blast
qed

section \<open>The overview\<close>

lemma grouped_total: "sum_list (map snd (grouped_counts column rows)) = length rows"
proof -
  have "sum_list (map (\<lambda>v. length (filter (\<lambda>r. column r = v) rows)) vs) = length (filter (\<lambda>r. column r \<in> set vs) rows)"
    if "distinct vs" for vs
    using that
  proof (induction vs)
    case (Cons v vs)
    have "length (filter (\<lambda>r. column r \<in> set (v # vs)) rows)
        = length (filter (\<lambda>r. column r = v) rows) + length (filter (\<lambda>r. column r \<in> set vs) rows)"
      using Cons.prems by (induction rows) auto
    with Cons show ?case by simp
  qed simp
  from this [of "dedup (map column rows)"] show ?thesis by (simp add: grouped_counts_def comp_def)
qed

lemma grouped_value: "count_of (grouped_counts column rows) v = length (filter (\<lambda>r. column r = v) rows)"
proof (cases "v \<in> column ` set rows")
  case True
  have "map_of (map (\<lambda>v. (v, f v)) vs) v = (if v \<in> set vs then Some (f v) else None)" for vs and f :: "string \<Rightarrow> nat"
    by (induction vs) auto
  with True show ?thesis by (simp add: count_of_def grouped_counts_def)
next
  case False
  then have "filter (\<lambda>r. column r = v) rows = []" by (auto simp: filter_empty_conv)
  moreover have "map_of (grouped_counts column rows) v = None"
    using False by (auto simp: grouped_counts_def map_of_eq_None_iff image_image)
  ultimately show ?thesis by (simp add: count_of_def)
qed

lemma state_counts:
  "list_all (\<lambda>s. s \<in> {''active'', ''stale'', ''capacity_constrained'', ''unavailable''}) states \<Longrightarrow>
     state_count ''active'' states + state_count ''stale'' states + state_count ''capacity_constrained'' states
       + state_count ''unavailable'' states = length states"
  by (induction states) (auto simp: state_count_def)


lemma activity_states: "worker_activity_state w now hf pf \<in> {''active'', ''stale'', ''capacity_constrained'', ''unavailable''}"
  by (simp add: worker_activity_state_def)

lemma source_duration_nonneg: "0 \<le> source_duration all source"
  by (auto simp: source_duration_def run_duration_def split: option.split)

lemma share:
  fixes r :: rat and a b :: nat
  defines "r \<equiv> if b + a = 0 then 0 else of_nat a / of_nat (b + a)"
  shows "0 \<le> r" "r \<le> 1" "r * of_nat (b + a) = of_nat a"
  by (auto simp: r_def divide_le_eq_1 simp flip: of_nat_add)

text \<open>The overview adds up. Over any database: every worker is counted in exactly one state, the totals
  of orders and runs are the numbers of rows of the window, the successful runs the avoided work is computed
  from are among the runs counted as succeeded, the reuse rate is their share (between 0 and 1), the
  publication counts are among the requests counted and no negative time is avoided.\<close>

theorem overview_adds_up:
  "let v = overview au db requests days hf pf now; start = now - seconds (86400 * days)
   in ov_workers_active v + ov_workers_stale v + ov_workers_capacity_constrained v + ov_workers_unavailable v = length (workers db)
    \<and> ov_runs_total v = length (filter (\<lambda>r. as_run_created au r \<ge> start) (runs db))
    \<and> ov_work_orders_total v = length (filter (\<lambda>w. as_order_created au w \<ge> start) (orders db))
    \<and> ov_fresh_successful v + ov_reused_successful v \<le> count_of (ov_runs_by_status v) ''succeeded''
    \<and> 0 \<le> ov_reuse_rate v \<and> ov_reuse_rate v \<le> 1
    \<and> ov_reuse_rate v * of_nat (ov_fresh_successful v + ov_reused_successful v) = of_nat (ov_reused_successful v)
    \<and> ov_publications_current v + ov_publications_stale v \<le> ov_requests_total v \<and> 0 \<le> ov_reference_time_avoided v"
proof -
  define v start where "v = overview au db requests days hf pf now" and "start = now - seconds (86400 * days)"
  note o = overview_def [of au db requests days hf pf now, folded v_def, folded start_def, unfolded Let_def]
  have runs: "length (filter (\<lambda>r. P r \<and> Q r) rs) + length (filter (\<lambda>r. P r \<and> R r) rs) \<le> length (filter P rs)"
    if "\<And>r. \<not> (Q r \<and> R r)" for P Q R and rs :: "'a list"
    using that by (induction rs) auto
  have succeeded: "run_status_value s = ''succeeded'' \<longleftrightarrow> s = RUN_SUCCEEDED" for s by (cases s) auto
  have states: "list_all (\<lambda>s. s \<in> {''active'', ''stale'', ''capacity_constrained'', ''unavailable''})
      (map (\<lambda>w. worker_activity_state w now hf pf) (workers db))" using activity_states by (simp add: list_all_iff)
  let ?runs = "filter (\<lambda>r. as_run_created au r \<ge> start) (runs db)"
  have "ov_fresh_successful v + ov_reused_successful v \<le> count_of (ov_runs_by_status v) ''succeeded''"
    using runs [of "\<lambda>r. ru_decision (r_reuse r) = RD_FRESH" "\<lambda>r. ru_decision (r_reuse r) = RD_REUSED" "\<lambda>r. r_status r = RUN_SUCCEEDED" ?runs]
    by (simp add: o grouped_value succeeded)
  moreover have "ov_publications_current v + ov_publications_stale v \<le> ov_requests_total v"
    using runs [of "\<lambda>g. gp_publication_state (g_publication g) = ''published_current''" "\<lambda>g. gp_publication_state (g_publication g) = ''published_stale''"
        "\<lambda>_. True" "filter (\<lambda>g. as_request_created au g \<ge> start) requests"]
    by (simp add: o grouped_value)
  moreover have "ov_workers_active v + ov_workers_stale v + ov_workers_capacity_constrained v + ov_workers_unavailable v = length (workers db)"
    using state_counts [OF states] by (simp add: o)
  moreover have rate: "ov_reuse_rate v = (if ov_fresh_successful v + ov_reused_successful v = 0 then 0
      else of_nat (ov_reused_successful v) / of_nat (ov_fresh_successful v + ov_reused_successful v))" by (simp add: o)
  moreover have "0 \<le> ov_reuse_rate v" "ov_reuse_rate v \<le> 1"
    "ov_reuse_rate v * of_nat (ov_fresh_successful v + ov_reused_successful v) = of_nat (ov_reused_successful v)"
    unfolding rate by (rule share)+
  moreover have "ov_runs_total v = length ?runs" "ov_work_orders_total v = length (filter (\<lambda>w. as_order_created au w \<ge> start) (orders db))"
    by (simp_all add: o grouped_total)
  moreover have "0 \<le> ov_reference_time_avoided v" by (auto simp: o intro!: sum_list_nonneg source_duration_nonneg)
  ultimately show ?thesis unfolding Let_def v_def [symmetric] start_def [symmetric] by blast
qed

text \<open>The browsers shown are few and short.\<close>

definition few_names :: "string list \<Rightarrow> bool" where
  "few_names bs \<longleftrightarrow> length bs \<le> MAX_OPERATOR_BROWSER_COUNT \<and> list_all (\<lambda>b. 1 \<le> length b \<and> length b \<le> MAX_OPERATOR_BROWSER_LENGTH) bs"

lemma bounded_browsers_few: "few_names (bounded_browsers bs)"
proof -
  have "few_names acc \<Longrightarrow> few_names (collect_browsers acc bs)" for acc
  proof (induction bs arbitrary: acc)
    case (Cons b bs)
    have "few_names (acc @ [strip_name b])"
      if "length acc < MAX_OPERATOR_BROWSER_COUNT" "1 \<le> length (strip_name b)" "length (strip_name b) \<le> MAX_OPERATOR_BROWSER_LENGTH"
      using that Cons.prems by (simp add: few_names_def)
    with Cons show ?case by (simp add: Let_def)
  qed simp
  from this [of "[]"] show ?thesis by (simp add: bounded_browsers_def few_names_def)
qed

section \<open>Samples\<close>





definition sample_routing :: routing_request where
  "sample_routing = routing_request_of (hd (orders ready_db)) (hd (manifests ready_db))"

theorem worker_views_agree_witness:
  "repository_activity_state (evaluate_routing_candidate (hd (workers ready_db)) None sample_routing 0 60 60) = ''stale''
    \<and> worker_activity_state (hd (workers ready_db)) 0 60 60 = ''stale''"
proof -
  have "sane_counts (hd (workers ready_db))" "w_status (hd (workers ready_db)) = W_ONLINE"
    "worker_activity_state (hd (workers ready_db)) 0 60 60 = ''stale''" by code_simp+
  with worker_views_agree [of "hd (workers ready_db)" 60 60 None sample_routing 0] show ?thesis by simp
qed

end
