(* ===== verification/Spec2Isabelle.thy ===== *)
theory Spec2Isabelle
  imports Task_Properties Execution_Properties Selection_Properties Operation_Properties Worker_Isolation
    Readiness Github_Properties Github_Transport_Properties Rate_Limit Server_Edge Worker_Properties
    Worker_Wire_Properties Result_Parser_Properties Operator_Properties
begin

text \<open>
  Verification of the switchboard: a coordination service that hands tasks to agents under leases, an
  execution plane that hands approved work orders to workers under leases, quota and routing
  policies, the pull worker that executes them, a GitHub adapter that validates pull requests through
  the execution plane and publishes the evidence, and the edge of the server that authenticates and
  limits requests.

  \<^bold>\<open>Parts and theories.\<close>

  \<^item> \<open>Prelude\<close>: exceptions as sums (\<open>rbind\<close>, \<open>require\<close>, \<open>of_option\<close>), tables as lists of rows
    (\<open>update_where\<close>, \<open>delete_where\<close>, \<open>rowcount\<close>), the Python library functions the code uses, and the
    lemma collections \<open>result_simps\<close> and \<open>table_simps\<close>. \<open>Json\<close>: JSON values, datetimes, splitting and
    joining of text, decimal numbers.

  \<^item> The task plane. \<open>Task_Domain\<close> has the entities and policies of \<^verbatim>\<open>server/domain\<close>,
    \<open>Task_Store\<close> the repositories of \<^verbatim>\<open>server/infrastructure/repositories.py\<close>,
    \<open>Task_Service\<close> the services of \<^verbatim>\<open>server/application\<close> with their request handlers, and
    \<open>Task_Properties\<close> what holds of them.

  \<^item> The execution plane. \<open>Execution_Types\<close> (\<^verbatim>\<open>server/execution/enums.py\<close>,
    \<^verbatim>\<open>transitions.py\<close>), \<open>Capabilities\<close> (\<^verbatim>\<open>capabilities.py\<close>), \<open>Routing\<close>
    (\<^verbatim>\<open>routing.py\<close>), \<open>Evidence\<close> (\<^verbatim>\<open>evidence.py\<close>), \<open>Execution_Store\<close>
    (\<^verbatim>\<open>repository.py\<close> and the tables of \<^verbatim>\<open>server/models.py\<close>), \<open>Execution_Service\<close> and
    \<open>Execution_Reuse\<close> (\<^verbatim>\<open>service.py\<close>), \<open>Readiness\<close> (catalog and repository readiness),
    \<open>Execution_Api\<close> (\<^verbatim>\<open>server/api/routers/execution.py\<close> and
    \<^verbatim>\<open>worker_execution.py\<close>). A handler is a transaction: an exception leaves the tables as they
    were. \<open>exec_handle\<close> performs any request; \<open>exec_reachable\<close> (\<open>Execution_System\<close>) are the tables that
    sequences of requests produce.

  \<^item> The GitHub adapter. \<open>Github_Store\<close>, \<open>Github_Render\<close> and \<open>Github_Service\<close> are
    \<^verbatim>\<open>repository.py\<close>, \<^verbatim>\<open>rendering.py\<close> and \<^verbatim>\<open>service.py\<close> of
    \<^verbatim>\<open>server/github_adapter\<close>, with the routes of \<^verbatim>\<open>github_execution.py\<close>. The service is
    modelled over the operations of a transport; \<open>Github_Wire\<close> (limits, decoders, link headers) and
    \<open>Github_Transport\<close> (requests, retries, paging) are \<^verbatim>\<open>transport.py\<close>, and \<open>github_transport\<close> is
    the value the service is given.

  \<^item> The edge of the server. \<open>Rate_Limit\<close> is \<^verbatim>\<open>server/middleware/rate_limit.py\<close>; \<open>Credentials\<close> is
    \<^verbatim>\<open>server/execution/credentials.py\<close> with its routes, the guards of
    \<^verbatim>\<open>server/api/dependencies.py\<close> and the surface check of \<^verbatim>\<open>server/api/__init__.py\<close>.
    \<open>serve\<close> composes them with the execution routes: limiter, surface check, guard, handler.

  \<^item> The pull worker. \<open>Text_Policy\<close> is \<^verbatim>\<open>server/execution/text_policy.py\<close> and what the worker
    does to text before it reports it; \<open>Worker_Policy\<close> has the decisions of
    \<^verbatim>\<open>client/python/execution_worker/worker.py\<close> that need no effect, \<open>Worker_Client\<close> the state of
    the worker and \<open>poll_once\<close> with its handlers, its finishing work and its monitor, as a state monad
    with exceptions over a host. \<open>Worker_Wire\<close> is what server and worker say to each other: the
    decoders of \<^verbatim>\<open>models.py\<close>, the requests of \<^verbatim>\<open>client.py\<close>, and the admission of an order
    and the replies of \<^verbatim>\<open>server/execution/schemas.py\<close>. \<open>Result_Parsers\<close> is
    \<^verbatim>\<open>parsers.py\<close>: the counts and percentages read from output, the quality report read through
    no-follow descriptors, the result contract and its enforcement.

  \<^item> The operator's view. \<open>Operator_Projection\<close> is \<^verbatim>\<open>server/execution/operator_projection.py\<close>: the
    overview of a window, the pages of workers and of the validation history, over the tables of the
    execution plane and of the GitHub adapter.

  \<^bold>\<open>Specifications.\<close> \<open>Ledger\<close> is an abstract system of orders, runs, leases, capacity and quota; its
  locales (\<open>ledger_quota_system\<close> among them) state what a step of it keeps. \<open>Execution_Refinement\<close> maps
  the tables to it, and \<open>Execution_System\<close> shows every request to be a sequence of its steps, so that
  the invariants of \<open>Execution_Properties\<close> hold in every reachable state. \<open>Execution_Progress\<close>,
  \<open>Checkout_Facts\<close>, \<open>Operation_Properties\<close> and \<open>Worker_Isolation\<close> describe single operations on reachable
  tables: what they decide, what they change, and that they go through. \<open>Selection_Properties\<close> is about
  the pure parts (eligibility, ranking, versions, paths). \<open>Github_Facts\<close> has triples over the request
  table with the other requests as a rely condition. \<open>Github_Transport_Facts\<close> counts exchanges, with
  a locale for what one exchange costs, and gives what each decoder guarantees;
  \<open>Github_Transport_Properties\<close> puts both under the publication. \<open>Rate_Limit\<close> states the limiter as a
  recomputation from the whole history, \<open>Server_Edge\<close> the credentials as a vault that holds the current
  token of each worker, and carries the reachable tables of the execution plane to the server with
  its edge. \<open>Worker_Outcome\<close> computes preconditions over the local variables of a poll,
  \<open>Worker_Trace\<close> has locales for relations every step of a run keeps and the calls of a sequence of
  polls, and \<open>Worker_Properties\<close> joins them with the check the server makes of what the worker sends.
  \<open>Worker_Wire_Properties\<close> gives each decoder of the worker without its control flow and shows that an
  admitted order and an ensured manifest survive the wire. \<open>Result_Parser_Properties\<close> states a contract
  as a reviewer reads it and shows that parsed results meet it, recovers printed counts, and has
  rules for computations that keep the open descriptors and raise only what is handled.
  \<open>Operator_Properties\<close> shows the pages of the history complete and the views of a worker in agreement
  with the router.
  \<open>Execution_Samples\<close> and \<open>Worker_Samples\<close> are reachable tables and a sample worker, on which the
  properties are exercised.

  \<^bold>\<open>Parameters.\<close> What the server draws from outside is an argument: clock readings, primary keys,
  random tokens, hashes, the formatting of floats, \<open>json.loads\<close>, the configured registry of manifests
  and repositories, one HTTP exchange with GitHub, and for the worker each operation of its host
  (requests to the server, processes, worktrees, files) with the signals of the other threads that
  arrive between its steps; for the wire the text of a timestamp and its parsing, for the parsers the
  system calls and the value of a float, for the operator's view the audit timestamps of the rows. Times are integers in microseconds, Python's
  integers are \<open>int\<close>, text is a list of characters below 256. No definition uses fuel: loops are
  structural or have a termination proof.

  \<^bold>\<open>Not modelled.\<close> Pydantic's single-field checks except those of an admitted order, SQL isolation
  below a statement (a statement is atomic), cancellation of a request by the server, the contents of
  the trusted registry, the reading of settings, metrics and streaming, files on disk, the runner,
  worktrees and stored evidence of the worker (they are operations of its host), the operator client,
  scripts and migrations: they are data, or system calls and processes with little logic of their own
  around them.
\<close>

end
